(* ===== verification/Prelude.thy ===== *)
theory Prelude
  imports Main "HOL-Library.Multiset" "HOL-Library.List_Lexorder" "HOL-Library.Char_ord"
begin

section \<open>Shared vocabulary of the development\<close>

text \<open>
  What every component uses:
  \<^item> fallible code: a TypeScript function that may throw returns \<open>'e + 'a\<close>; \<open>ebind\<close> is
    sequencing that stops at the first throw;
  \<^item> stateful fallible code: \<open>('s, 'e, 'a) sm\<close> passes the state explicitly and keeps the effects
    made before a throw, as an exception does; \<open>sfinally\<close> and \<open>scatch\<close> are \<open>finally\<close> and \<open>catch\<close>;
  \<^item> JavaScript's array methods that have no direct counterpart in HOL (a stable sort by a
    comparison, replacement of the first match, \<open>findIndex\<close>);
  \<^item> JavaScript's string methods and the character classes of the regular expressions used;
  \<^item> safe integers.
  The collection \<open>res_simps\<close> holds the rules that take a successful or failed run apart.
\<close>

named_theorems res_simps \<open>inversion of successful and failed runs\<close>
named_theorems list_facts \<open>facts on lists shared by the stores\<close>

subsection \<open>Results\<close>

definition ebind :: "'e + 'a \<Rightarrow> ('a \<Rightarrow> 'e + 'b) \<Rightarrow> 'e + 'b" where
  "ebind m f = (case m of Inl e \<Rightarrow> Inl e | Inr x \<Rightarrow> f x)"

definition throw_if :: "bool \<Rightarrow> 'e \<Rightarrow> 'e + unit" where
  "throw_if b e = (if b then Inl e else Inr ())"

fun emapM :: "('a \<Rightarrow> 'e + 'b) \<Rightarrow> 'a list \<Rightarrow> 'e + 'b list" where
  "emapM f [] = Inr []"
| "emapM f (x # xs) = ebind (f x) (\<lambda>y. ebind (emapM f xs) (\<lambda>ys. Inr (y # ys)))"

fun efold :: "('s \<Rightarrow> 'a \<Rightarrow> 'e + 's) \<Rightarrow> 's \<Rightarrow> 'a list \<Rightarrow> 'e + 's" where
  "efold f s [] = Inr s"
| "efold f s (x # xs) = ebind (f s x) (\<lambda>s'. efold f s' xs)"

lemma ebind_simps [simp]:
  "ebind (Inl e) f = Inl e"
  "ebind (Inr x) f = f x"
  by (simp_all add: ebind_def)

lemma ebind_eq_Inr [res_simps]: "ebind m f = Inr y \<longleftrightarrow> (\<exists>x. m = Inr x \<and> f x = Inr y)"
  by (cases m) auto

lemma ebind_eq_Inl: "ebind m f = Inl e \<longleftrightarrow> m = Inl e \<or> (\<exists>x. m = Inr x \<and> f x = Inl e)"
  by (cases m) auto

lemma throw_if_eq_Inr [res_simps]: "throw_if b e = Inr u \<longleftrightarrow> \<not> b"
  by (auto simp: throw_if_def)

lemma throw_if_simps [simp]: "throw_if True e = Inl e" "throw_if False e = Inr ()"
  by (simp_all add: throw_if_def)

lemma emapM_Inr_map: "emapM f xs = Inr ys \<Longrightarrow> map f xs = map Inr ys"
  by (induction xs arbitrary: ys) (auto simp: res_simps)

lemma emapM_length: "emapM f xs = Inr ys \<Longrightarrow> length ys = length xs"
  by (induction xs arbitrary: ys) (auto simp: res_simps)

lemma efold_append: "efold f s (xs @ ys) = ebind (efold f s xs) (\<lambda>s'. efold f s' ys)"
  by (induction xs arbitrary: s) (auto simp: ebind_def split: sum.splits)

lemma efold_invariant:
  assumes "efold f s xs = Inr t" and "P s"
    and "\<And>s x t. x \<in> set xs \<Longrightarrow> P s \<Longrightarrow> f s x = Inr t \<Longrightarrow> P t"
  shows "P t"
  using assms
proof (induction xs arbitrary: s)
  case Nil
  then show ?case by simp
next
  case (Cons x xs)
  from Cons.prems(1) obtain s' where s': "f s x = Inr s'" "efold f s' xs = Inr t"
    by (auto simp: res_simps)
  from Cons.prems(2,3) s'(1) have "P s'" by auto
  with Cons.IH [OF s'(2)] Cons.prems(3) show ?case by auto
qed

subsection \<open>State with exceptions\<close>

type_synonym ('s, 'e, 'a) sm = "'s \<Rightarrow> ('e + 'a) \<times> 's"

definition sreturn :: "'a \<Rightarrow> ('s, 'e, 'a) sm" where
  "sreturn x s = (Inr x, s)"

definition sthrow :: "'e \<Rightarrow> ('s, 'e, 'a) sm" where
  "sthrow e s = (Inl e, s)"

definition sbind :: "('s, 'e, 'a) sm \<Rightarrow> ('a \<Rightarrow> ('s, 'e, 'b) sm) \<Rightarrow> ('s, 'e, 'b) sm" where
  "sbind m f s = (case m s of (Inl e, s') \<Rightarrow> (Inl e, s') | (Inr x, s') \<Rightarrow> f x s')"

definition scatch :: "('s, 'e, 'a) sm \<Rightarrow> ('e \<Rightarrow> ('s, 'e, 'a) sm) \<Rightarrow> ('s, 'e, 'a) sm" where
  "scatch m h s = (case m s of (Inl e, s') \<Rightarrow> h e s' | (Inr x, s') \<Rightarrow> (Inr x, s'))"

definition sfinally :: "('s, 'e, 'a) sm \<Rightarrow> ('s, 'e, unit) sm \<Rightarrow> ('s, 'e, 'a) sm" where
  "sfinally m c s = (case m s of (r, s') \<Rightarrow>
     (case c s' of (Inl e, s'') \<Rightarrow> (Inl e, s'') | (Inr u, s'') \<Rightarrow> (r, s'')))"

definition slift :: "'e + 'a \<Rightarrow> ('s, 'e, 'a) sm" where
  "slift r s = (r, s)"

lemma sreturn_run [simp]: "sreturn x s = (Inr x, s)"
  by (simp add: sreturn_def)

lemma sthrow_run [simp]: "sthrow e s = (Inl e, s)"
  by (simp add: sthrow_def)

lemma slift_run [simp]: "slift r s = (r, s)"
  by (simp add: slift_def)

lemma sbind_run:
  "m s = (Inl e, s') \<Longrightarrow> sbind m f s = (Inl e, s')"
  "m s = (Inr x, s') \<Longrightarrow> sbind m f s = f x s'"
  by (simp_all add: sbind_def)

lemma sbind_return [simp]: "sbind (sreturn x) f = f x"
  by (rule ext) (simp add: sbind_def)

lemma sbind_throw [simp]: "sbind (sthrow e) f = sthrow e"
  by (rule ext) (simp add: sbind_def)

lemma sbind_assoc: "sbind (sbind m f) g = sbind m (\<lambda>x. sbind (f x) g)"
  by (rule ext) (simp add: sbind_def split: prod.splits sum.splits)

lemma sbind_eq_Inr [res_simps]:
  "sbind m f s = (Inr y, t) \<longleftrightarrow> (\<exists>x s'. m s = (Inr x, s') \<and> f x s' = (Inr y, t))"
  by (auto simp: sbind_def split: prod.splits sum.splits)

lemma sbind_eq_Inl:
  "sbind m f s = (Inl e, t) \<longleftrightarrow> m s = (Inl e, t) \<or> (\<exists>x s'. m s = (Inr x, s') \<and> f x s' = (Inl e, t))"
  by (auto simp: sbind_def split: prod.splits sum.splits)

text \<open>Reading and assigning the object's fields, and an early throw.\<close>

definition sget :: "('s \<Rightarrow> 'a) \<Rightarrow> ('s, 'e, 'a) sm" where
  "sget f s = (Inr (f s), s)"

definition smodify :: "('s \<Rightarrow> 's) \<Rightarrow> ('s, 'e, unit) sm" where
  "smodify f s = (Inr (), f s)"

definition sguard :: "bool \<Rightarrow> 'e \<Rightarrow> ('s, 'e, unit) sm" where
  "sguard b e = slift (throw_if b e)"

lemma sget_run [simp]: "sget f s = (Inr (f s), s)"
  by (simp add: sget_def)

lemma smodify_run [simp]: "smodify f s = (Inr (), f s)"
  by (simp add: smodify_def)

lemma sguard_run: "sguard b e s = (if b then (Inl e, s) else (Inr (), s))"
  by (simp add: sguard_def throw_if_def)

lemma sguard_eq_Inr [res_simps]: "sguard b e s = (Inr u, t) \<longleftrightarrow> \<not> b \<and> t = s"
  by (auto simp: sguard_run)

text \<open>
  Operations that write only after their last check: \<open>readonly\<close> code changes nothing, \<open>unfailing\<close> code does not
  throw, and a sequence of the two kinds is \<open>all_or_nothing\<close>. The rules are applied by the structure of the code.
\<close>

definition readonly :: "('s, 'e, 'a) sm \<Rightarrow> bool" where
  "readonly m \<longleftrightarrow> (\<forall>s. snd (m s) = s)"

definition unfailing :: "('s, 'e, 'a) sm \<Rightarrow> bool" where
  "unfailing m \<longleftrightarrow> (\<forall>s e. fst (m s) \<noteq> Inl e)"

definition all_or_nothing :: "('s, 'e, 'a) sm \<Rightarrow> bool" where
  "all_or_nothing m \<longleftrightarrow> (\<forall>s e s'. m s = (Inl e, s') \<longrightarrow> s' = s)"

named_theorems atomic_intros \<open>structural rules for all-or-nothing operations\<close>

lemma readonly_basic [atomic_intros]:
  "readonly (sreturn x)" "readonly (sthrow e)" "readonly (slift r)" "readonly (sget f)" "readonly (sguard b e)"
  by (simp_all add: readonly_def sguard_def)

lemma readonly_sbind [atomic_intros]: "readonly m \<Longrightarrow> (\<And>x. readonly (f x)) \<Longrightarrow> readonly (sbind m f)"
  by (auto simp: readonly_def sbind_def split: prod.splits sum.splits) (metis snd_conv)+

lemma unfailing_basic [atomic_intros]: "unfailing (sreturn x)" "unfailing (sget f)" "unfailing (smodify g)"
  by (simp_all add: unfailing_def)

lemma unfailing_sbind [atomic_intros]: "unfailing m \<Longrightarrow> (\<And>x. unfailing (f x)) \<Longrightarrow> unfailing (sbind m f)"
  by (auto simp: unfailing_def sbind_def split: prod.splits sum.splits) (metis fst_conv)+

lemma all_or_nothing_unfailing: "unfailing m \<Longrightarrow> all_or_nothing m"
  by (auto simp: unfailing_def all_or_nothing_def) (metis fst_conv)

lemma all_or_nothing_readonly: "readonly m \<Longrightarrow> all_or_nothing m"
  by (auto simp: readonly_def all_or_nothing_def) (metis snd_conv)

lemma all_or_nothing_sbind: "readonly m \<Longrightarrow> (\<And>x. all_or_nothing (f x)) \<Longrightarrow> all_or_nothing (sbind m f)"
  unfolding readonly_def all_or_nothing_def sbind_eq_Inl by (metis snd_conv)

lemma all_or_nothing_then: "all_or_nothing m \<Longrightarrow> (\<And>x. unfailing (f x)) \<Longrightarrow> all_or_nothing (sbind m f)"
  unfolding unfailing_def all_or_nothing_def sbind_eq_Inl by (metis fst_conv)

subsection \<open>Arrays\<close>

text \<open>\<open>Array.prototype.sort\<close> is stable; \<open>le a b\<close> reads "the comparison of \<open>a\<close> and \<open>b\<close> is at most 0".\<close>

fun ins_by :: "('a \<Rightarrow> 'a \<Rightarrow> bool) \<Rightarrow> 'a \<Rightarrow> 'a list \<Rightarrow> 'a list" where
  "ins_by le x [] = [x]"
| "ins_by le x (y # ys) = (if le x y then x # y # ys else y # ins_by le x ys)"

definition sort_by :: "('a \<Rightarrow> 'a \<Rightarrow> bool) \<Rightarrow> 'a list \<Rightarrow> 'a list" where
  "sort_by le xs = foldr (ins_by le) xs []"

lemma mset_ins_by: "mset (ins_by le x xs) = {#x#} + mset xs"
  by (induction xs) auto

lemma mset_sort_by [simp]: "mset (sort_by le xs) = mset xs"
  unfolding sort_by_def by (induction xs) (auto simp: mset_ins_by)

lemma set_sort_by [simp]: "set (sort_by le xs) = set xs"
  by (metis mset_sort_by set_mset_mset)

lemma length_sort_by [simp]: "length (sort_by le xs) = length xs"
  by (metis mset_sort_by size_mset)

lemma sort_by_Nil [simp]: "sort_by le [] = []"
  by (simp add: sort_by_def)

lemma set_ins_by [simp]: "set (ins_by le x xs) = insert x (set xs)"
  by (induction xs) auto

lemma sorted_wrt_unique:
  assumes "sorted_wrt le xs" "sorted_wrt le ys" "mset xs = mset ys"
    and "\<And>x y. x \<in> set xs \<Longrightarrow> y \<in> set xs \<Longrightarrow> le x y \<Longrightarrow> le y x \<Longrightarrow> x = y"
  shows "xs = ys"
  using assms
proof (induction xs arbitrary: ys)
  case Nil
  then show ?case by simp
next
  case (Cons x xs)
  then obtain y zs where ys: "ys = y # zs" by (cases ys) auto
  have sets: "set (x # xs) = set (y # zs)" using Cons.prems(3) ys by (metis set_mset_mset)
  have "x = y"
  proof (rule ccontr)
    assume ne: "x \<noteq> y"
    with sets have "y \<in> set xs" "x \<in> set zs" by auto
    with Cons.prems(1,2) ys have "le x y" "le y x" by auto
    moreover have "y \<in> set (x # xs)" using sets by simp
    ultimately show False using Cons.prems(4) [of x y] ne by simp
  qed
  moreover have "xs = zs"
    using Cons.prems ys \<open>x = y\<close> by (intro Cons.IH) auto
  ultimately show ?case using ys by simp
qed

text \<open>
  A comparison callback is meaningful when it is a total preorder; the sorted order is then a
  consequence, whatever the callback compares. Every sort of the program interprets this locale on
  its own comparison.
\<close>

locale comparison =
  fixes le :: "'a \<Rightarrow> 'a \<Rightarrow> bool"
  assumes le_total: "le x y \<or> le y x"
    and le_trans: "le x y \<Longrightarrow> le y z \<Longrightarrow> le x z"
begin

lemma sorted_ins: "sorted_wrt le xs \<Longrightarrow> sorted_wrt le (ins_by le x xs)"
proof (induction xs)
  case Nil
  then show ?case by simp
next
  case (Cons y ys)
  then show ?case
    using le_total [of x y] by (auto intro: le_trans)
qed

lemma sorted_sort: "sorted_wrt le (sort_by le xs)"
  unfolding sort_by_def by (induction xs) (auto intro: sorted_ins)

lemma sort_perm:
  assumes "mset xs = mset ys"
    and "\<And>x y. x \<in> set xs \<Longrightarrow> y \<in> set xs \<Longrightarrow> le x y \<Longrightarrow> le y x \<Longrightarrow> x = y"
  shows "sort_by le xs = sort_by le ys"
  using assms by (intro sorted_wrt_unique [of le]) (simp_all add: sorted_sort)

lemma sort_id: "sorted_wrt le xs \<Longrightarrow> sort_by le xs = xs"
proof (induction xs)
  case Nil
  then show ?case by simp
next
  case (Cons x xs)
  then show ?case by (cases xs) (auto simp: sort_by_def)
qed

lemma hd_least: "y \<in> set xs \<Longrightarrow> le (hd (sort_by le xs)) y"
proof -
  assume "y \<in> set xs"
  then have "y \<in> set (sort_by le xs)" by simp
  with sorted_sort [of xs] le_total [of y y] show ?thesis
    by (cases "sort_by le xs") auto
qed

lemma last_greatest: "y \<in> set xs \<Longrightarrow> le y (last (sort_by le xs))"
proof -
  assume "y \<in> set xs"
  then obtain us vs where eq: "sort_by le xs = us @ y # vs"
    using set_sort_by [of le xs] by (metis split_list)
  show ?thesis
  proof (cases "vs = []")
    case True
    with eq le_total [of y y] show ?thesis by simp
  next
    case False
    with sorted_sort [of xs] eq show ?thesis by (auto simp: sorted_wrt_append)
  qed
qed

end

text \<open>\<open>xs[xs.findIndex(p)] = v\<close>, pushing when no element matches.\<close>

fun upsert :: "('a \<Rightarrow> bool) \<Rightarrow> 'a \<Rightarrow> 'a list \<Rightarrow> 'a list" where
  "upsert p v [] = [v]"
| "upsert p v (x # xs) = (if p x then v # xs else x # upsert p v xs)"

lemma find_upsert [list_facts]: "p v \<Longrightarrow> find p (upsert p v xs) = Some v"
  by (induction xs) auto

lemma find_upsert_other [list_facts]:
  "(\<And>x. p x \<Longrightarrow> \<not> q x) \<Longrightarrow> \<not> q v \<Longrightarrow> find q (upsert p v xs) = find q xs"
  by (induction xs) auto

lemma find_None_iff_set [list_facts]: "find p xs = None \<longleftrightarrow> (\<forall>x\<in>set xs. \<not> p x)"
  by (induction xs) auto

lemma find_Some_set [list_facts]: "find p xs = Some x \<Longrightarrow> x \<in> set xs \<and> p x"
  by (induction xs) (auto split: if_splits)

lemma find_append [list_facts]:
  "find p (xs @ ys) = (case find p xs of None \<Rightarrow> find p ys | Some x \<Rightarrow> Some x)"
  by (induction xs) auto

lemma find_map_keep:
  assumes "\<And>x. p (f x) = p x"
  shows "find p (map f xs) = map_option f (find p xs)"
  using assms by (induction xs) auto

lemma filter_singleton_distinct:
  "distinct (map f xs) \<Longrightarrow> x \<in> set xs \<Longrightarrow> filter (\<lambda>y. f y = f x) xs = [x]"
  by (induction xs) (auto simp: filter_empty_conv image_iff)

lemma find_eq_distinct:
  "distinct (map f xs) \<Longrightarrow> x \<in> set xs \<Longrightarrow> find (\<lambda>y. f y = f x) xs = Some x"
  by (induction xs) (auto simp: image_iff)

text \<open>\<open>xs.slice(0, n)\<close>: a negative bound counts from the end.\<close>

definition slice0 :: "int \<Rightarrow> 'a list \<Rightarrow> 'a list" where
  "slice0 n xs = take (nat (if n < 0 then int (length xs) + n else n)) xs"

definition slice0_opt :: "int option \<Rightarrow> 'a list \<Rightarrow> 'a list" where
  "slice0_opt limit xs = (case limit of None \<Rightarrow> xs | Some n \<Rightarrow> slice0 n xs)"

lemma set_slice0: "set (slice0 n xs) \<subseteq> set xs"
  by (simp add: slice0_def set_take_subset)

lemma set_slice0_opt: "set (slice0_opt l xs) \<subseteq> set xs"
  by (cases l) (simp_all add: slice0_opt_def set_slice0)

text \<open>Replacing every element that matches.\<close>

definition replace_where :: "('a \<Rightarrow> bool) \<Rightarrow> 'a \<Rightarrow> 'a list \<Rightarrow> 'a list" where
  "replace_where p v xs = map (\<lambda>x. if p x then v else x) xs"

subsection \<open>Strings\<close>

definition is_digit :: "char \<Rightarrow> bool" where
  "is_digit c \<longleftrightarrow> 48 \<le> (of_char c :: int) \<and> of_char c \<le> (57 :: int)"

definition is_upper :: "char \<Rightarrow> bool" where
  "is_upper c \<longleftrightarrow> 65 \<le> (of_char c :: int) \<and> of_char c \<le> (90 :: int)"

definition is_lower :: "char \<Rightarrow> bool" where
  "is_lower c \<longleftrightarrow> 97 \<le> (of_char c :: int) \<and> of_char c \<le> (122 :: int)"

text \<open>The white space \<open>String.prototype.trim\<close> removes, among the characters below 256.\<close>

definition is_js_space :: "char \<Rightarrow> bool" where
  "is_js_space c \<longleftrightarrow> of_char c \<in> {9, 10, 11, 12, 13, 32, 160 :: int}"

definition trim :: "string \<Rightarrow> string" where
  "trim s = rev (dropWhile is_js_space (rev (dropWhile is_js_space s)))"

fun starts_with :: "string \<Rightarrow> string \<Rightarrow> bool" where
  "starts_with [] s = True"
| "starts_with (c # cs) [] = False"
| "starts_with (c # cs) (d # ds) = (c = d \<and> starts_with cs ds)"

fun contains :: "string \<Rightarrow> string \<Rightarrow> bool" where
  "contains p [] = (p = [])"
| "contains p (c # cs) = (starts_with p (c # cs) \<or> contains p cs)"

text \<open>The blank test \<open>value.trim() === ""\<close>.\<close>

definition is_blank :: "string \<Rightarrow> bool" where
  "is_blank s \<longleftrightarrow> trim s = []"

definition pad_start :: "nat \<Rightarrow> char \<Rightarrow> string \<Rightarrow> string" where
  "pad_start n c s = replicate (n - length s) c @ s"

definition pad_end :: "nat \<Rightarrow> char \<Rightarrow> string \<Rightarrow> string" where
  "pad_end n c s = s @ replicate (n - length s) c"

lemma is_blank_Nil [simp]: "is_blank []"
  by (simp add: is_blank_def trim_def)

text \<open>\<open>/^\d+(?:\.\d+)?$/\<close>\<close>

definition isPlainDecimal :: "string \<Rightarrow> bool" where
  "isPlainDecimal s =
     (let w = takeWhile is_digit s; r = dropWhile is_digit s
      in w \<noteq> [] \<and> (r = [] \<or> (hd r = CHR ''.'' \<and> tl r \<noteq> [] \<and> list_all is_digit (tl r))))"

subsection \<open>Decimal numerals\<close>

text \<open>Digits are read and written over \<open>int\<close>, as \<open>BigInt\<close> does, so that evaluation stays binary.\<close>

definition digit_val :: "char \<Rightarrow> int" where
  "digit_val c = of_char c - 48"

definition digit_char :: "int \<Rightarrow> char" where
  "digit_char d = char_of (48 + d)"

definition int_of_digits :: "string \<Rightarrow> int" where
  "int_of_digits s = foldl (\<lambda>n c. 10 * n + digit_val c) 0 s"

function digits_of_int :: "int \<Rightarrow> string" where
  "digits_of_int n = (if n < 10 then [digit_char n] else digits_of_int (n div 10) @ [digit_char (n mod 10)])"
  by pat_completeness auto
termination
  by (relation "measure nat") auto

declare digits_of_int.simps [simp del]

lemma digit_val_char [simp]: "0 \<le> d \<Longrightarrow> d < 10 \<Longrightarrow> digit_val (digit_char d) = d"
  by (simp add: digit_val_def digit_char_def)

lemma is_digit_char [simp]: "0 \<le> d \<Longrightarrow> d < 10 \<Longrightarrow> is_digit (digit_char d)"
  by (simp add: is_digit_def digit_char_def)

lemma is_digit_val: "is_digit c \<Longrightarrow> 0 \<le> digit_val c \<and> digit_val c < 10"
  by (simp add: is_digit_def digit_val_def)

lemma digit_val_nonneg [simp]: "is_digit c \<Longrightarrow> 0 \<le> digit_val c"
  by (simp add: is_digit_val)

lemma digit_val_less [simp]: "is_digit c \<Longrightarrow> digit_val c < 10"
  by (simp add: is_digit_val)

lemma digit_char_val [simp]: "digit_char (digit_val c) = c"
  by (simp add: digit_char_def digit_val_def)

lemma int_of_digits_snoc [simp]: "int_of_digits (s @ [c]) = 10 * int_of_digits s + digit_val c"
  by (simp add: int_of_digits_def)

lemma int_of_digits_Nil [simp]: "int_of_digits [] = 0"
  by (simp add: int_of_digits_def)

lemma int_of_digits_nonneg: "list_all is_digit s \<Longrightarrow> 0 \<le> int_of_digits s"
  by (induction s rule: rev_induct) auto

lemma int_of_digits_append:
  "int_of_digits (s @ t) = int_of_digits s * 10 ^ length t + int_of_digits t"
proof (induction t rule: rev_induct)
  case Nil
  then show ?case by simp
next
  case (snoc c t)
  then show ?case
    by (simp add: append_assoc [symmetric] del: append_assoc)
qed

lemma int_of_digits_bound: "list_all is_digit s \<Longrightarrow> int_of_digits s < 10 ^ length s"
proof (induction s rule: rev_induct)
  case Nil
  then show ?case by simp
next
  case (snoc c s)
  then have "int_of_digits s + 1 \<le> 10 ^ length s" and "digit_val c < 10" by auto
  then show ?case by simp
qed

lemma digits_of_int_digits: "0 \<le> n \<Longrightarrow> list_all is_digit (digits_of_int n)"
proof (induction n rule: digits_of_int.induct)
  case (1 n)
  then show ?case by (auto simp: digits_of_int.simps [of n])
qed

lemma digits_of_int_nonempty [simp]: "digits_of_int n \<noteq> []"
  by (subst digits_of_int.simps) simp

lemma int_of_digits_of_int [simp]: "0 \<le> n \<Longrightarrow> int_of_digits (digits_of_int n) = n"
proof (induction n rule: digits_of_int.induct)
  case (1 n)
  show ?case
  proof (cases "n < 10")
    case True
    with "1.prems" show ?thesis
      using int_of_digits_snoc [of "[]" "digit_char n"] by (simp add: digits_of_int.simps [of n])
  next
    case False
    with "1.IH" have "int_of_digits (digits_of_int (n div 10)) = n div 10" by simp
    with False show ?thesis by (simp add: digits_of_int.simps [of n])
  qed
qed

lemma digits_of_int_length: "0 \<le> k \<Longrightarrow> k < 10 ^ n \<Longrightarrow> 0 < n \<Longrightarrow> length (digits_of_int k) \<le> n"
proof (induction k arbitrary: n rule: digits_of_int.induct)
  case (1 k)
  show ?case
  proof (cases "k < 10")
    case True
    with "1.prems" show ?thesis by (simp add: digits_of_int.simps [of k])
  next
    case False
    obtain m where m: "n = Suc m" using "1.prems"(3) by (cases n) auto
    moreover have "m \<noteq> 0" using False "1.prems"(2) m by (cases m) simp_all
    ultimately have n: "n = Suc m" "0 < m" by simp_all
    with "1.prems" False have "k div 10 < 10 ^ m" by simp
    with "1.IH" [of m] False n show ?thesis by (simp add: digits_of_int.simps [of k])
  qed
qed

lemma int_of_digits_zeros [simp]: "int_of_digits (replicate m CHR ''0'' @ s) = int_of_digits s"
proof -
  have "int_of_digits (replicate m CHR ''0'') = 0"
    by (induction m) (simp_all add: replicate_append_same [symmetric] digit_val_def)
  then show ?thesis by (simp add: int_of_digits_append)
qed

lemma pad_digits:
  assumes "0 \<le> k" and "k < 10 ^ n" and "0 < n"
  shows "length (pad_start n CHR ''0'' (digits_of_int k)) = n"
    and "list_all is_digit (pad_start n CHR ''0'' (digits_of_int k))"
    and "int_of_digits (pad_start n CHR ''0'' (digits_of_int k)) = k"
proof -
  show "length (pad_start n CHR ''0'' (digits_of_int k)) = n"
    using digits_of_int_length [OF assms] by (simp add: pad_start_def)
  have "is_digit CHR ''0''" by (simp add: is_digit_def)
  then show "list_all is_digit (pad_start n CHR ''0'' (digits_of_int k))"
    using digits_of_int_digits [OF assms(1)] by (auto simp: pad_start_def list_all_iff)
  show "int_of_digits (pad_start n CHR ''0'' (digits_of_int k)) = k"
    using assms(1) by (simp add: pad_start_def)
qed

lemma int_of_digits_pad_end:
  "length s \<le> n \<Longrightarrow> int_of_digits (pad_end n CHR ''0'' s) = int_of_digits s * 10 ^ (n - length s)"
  using int_of_digits_zeros [of "n - length s" "[]"] by (simp add: pad_end_def int_of_digits_append)

lemma int_of_digits_inject:
  "length s = length t \<Longrightarrow> list_all is_digit s \<Longrightarrow> list_all is_digit t \<Longrightarrow> int_of_digits s = int_of_digits t \<Longrightarrow> s = t"
proof (induction s arbitrary: t rule: rev_induct)
  case Nil
  then show ?case by simp
next
  case (snoc c s)
  then obtain u d where t: "t = u @ [d]" by (cases t rule: rev_cases) auto
  with snoc.prems have eq: "10 * int_of_digits s + digit_val c = 10 * int_of_digits u + digit_val d" by simp
  have "0 \<le> digit_val c" "digit_val c < 10" "0 \<le> digit_val d" "digit_val d < 10" using snoc.prems t by simp_all
  with eq have "digit_val c = digit_val d" "int_of_digits s = int_of_digits u" by presburger+
  moreover from this have "c = d" by (metis digit_char_val)
  ultimately show ?case using snoc t by simp
qed

subsection \<open>Safe integers\<close>

text \<open>
  Integer-valued JavaScript numbers (epoch milliseconds, counters, versions) are \<open>int\<close>. Where the
  source tests \<open>Number.isSafeInteger\<close> the test is on the value; fractions and NaN, which the test
  also rejects, are not values of the type.
\<close>

definition MAX_SAFE_INTEGER :: int where
  "MAX_SAFE_INTEGER = 9007199254740991"

definition isSafeInteger :: "int \<Rightarrow> bool" where
  "isSafeInteger n \<longleftrightarrow> \<bar>n\<bar> \<le> MAX_SAFE_INTEGER"

end
