(* ===== verification/JsNumber.thy ===== *)
theory JsNumber
  imports Complex_Main Prelude
begin

section \<open>JavaScript numbers\<close>

text \<open>
  The source computes with IEEE-754 binary64 numbers. A value is NaN, an infinity, or a finite
  number given by its exact rational value; every arithmetic operation is the exact rational
  operation followed by \<open>round64\<close>, the rounding to nearest, ties to even, with 53 significant bits,
  subnormals down to \<open>2 ^ -1074\<close> and overflow to an infinity. The two zeros are one value: the
  modelled code tells them apart nowhere (it never divides by a zero it computed).
  \<open>numberOf\<close> is \<open>Number(s)\<close> on a string and \<open>numberToString\<close> is \<open>String(v)\<close>.
\<close>

datatype jsnum = NaN | PosInf | NegInf | Num rat

subsection \<open>Rounding\<close>

function nlog2 :: "int \<Rightarrow> int" where
  "nlog2 n = (if n < 2 then 0 else 1 + nlog2 (n div 2))"
  by pat_completeness auto
termination
  by (relation "measure nat") auto

declare nlog2.simps [simp del]

definition pow2 :: "int \<Rightarrow> rat" where
  "pow2 e = (if 0 \<le> e then 2 ^ nat e else 1 / 2 ^ nat (- e))"

definition ilog2 :: "rat \<Rightarrow> int" where
  "ilog2 q = (let (n, d) = quotient_of q; e = nlog2 n - nlog2 d
     in if pow2 e \<le> q then e else e - 1)"

definition round_half_even :: "rat \<Rightarrow> int" where
  "round_half_even q = (let f = \<lfloor>q\<rfloor>; r = q - of_int f
     in if r < 1 / 2 then f else if 1 / 2 < r then f + 1 else if even f then f else f + 1)"

definition round64 :: "rat \<Rightarrow> jsnum" where
  "round64 q =
     (if q = 0 then Num 0
      else let a = \<bar>q\<bar>; e = max (ilog2 a - 52) (- 1074);
               v = of_int (round_half_even (a / pow2 e)) * pow2 e
           in if pow2 1024 \<le> v then (if 0 < q then PosInf else NegInf)
              else Num (if 0 < q then v else - v))"

lemma pow2_pos [simp]: "0 < pow2 e"
  by (simp add: pow2_def)

lemma pow2_mono: "a \<le> b \<Longrightarrow> pow2 a \<le> pow2 b"
proof -
  assume "a \<le> b"
  moreover have "(1::rat) / 2 ^ nat (- a) \<le> 2 ^ nat b" if "0 \<le> b"
    using order_trans [of "1 / 2 ^ nat (- a)" "1::rat" "2 ^ nat b"] by simp
  ultimately show ?thesis by (auto simp: pow2_def intro: power_increasing divide_left_mono)
qed

text \<open>Away from the overflow threshold, that comparison is not computed.\<close>

lemma round64_code [code]:
  "round64 q =
     (if q = 0 then Num 0
      else let a = \<bar>q\<bar>; e = max (ilog2 a - 52) (- 1074); m = round_half_even (a / pow2 e);
               v = of_int m * pow2 e
           in if m \<le> 9007199254740992 \<and> e \<le> 900 then Num (if 0 < q then v else - v)
              else if pow2 1024 \<le> v then (if 0 < q then PosInf else NegInf)
              else Num (if 0 < q then v else - v))"
proof -
  have "\<not> pow2 1024 \<le> of_int m * pow2 e" if "m \<le> 9007199254740992" "e \<le> 900" for m e
  proof -
    have "(of_int m :: rat) \<le> of_int 9007199254740992" using that(1) by (simp only: of_int_le_iff)
    then have "of_int m * pow2 e \<le> of_int 9007199254740992 * pow2 e" by (rule mult_right_mono) (simp add: less_imp_le)
    also have "\<dots> \<le> of_int 9007199254740992 * pow2 900" by (rule mult_left_mono [OF pow2_mono [OF that(2)]]) simp
    also have "\<dots> < pow2 1024" by (simp add: pow2_def)
    finally show ?thesis by simp
  qed
  then show ?thesis by (auto simp: round64_def Let_def)
qed

lemma round_half_even_of_int [simp]: "round_half_even (of_int n) = n"
  by (simp add: round_half_even_def)

lemma round_half_even_mono: "p \<le> q \<Longrightarrow> round_half_even p \<le> round_half_even q"
proof -
  assume le: "p \<le> q"
  have fl: "\<lfloor>p\<rfloor> \<le> \<lfloor>q\<rfloor>" using le by (rule floor_mono)
  show ?thesis
  proof (cases "\<lfloor>p\<rfloor> = \<lfloor>q\<rfloor>")
    case True
    with le show ?thesis by (auto simp: round_half_even_def Let_def)
  next
    case False
    with fl have "\<lfloor>p\<rfloor> + 1 \<le> \<lfloor>q\<rfloor>" by simp
    then show ?thesis by (auto simp: round_half_even_def Let_def)
  qed
qed

subsection \<open>Arithmetic and comparisons\<close>

fun isFiniteNumber :: "jsnum \<Rightarrow> bool" where
  "isFiniteNumber (Num _) = True"
| "isFiniteNumber _ = False"

fun num_neg :: "jsnum \<Rightarrow> jsnum" where
  "num_neg NaN = NaN"
| "num_neg PosInf = NegInf"
| "num_neg NegInf = PosInf"
| "num_neg (Num q) = Num (- q)"

fun num_add :: "jsnum \<Rightarrow> jsnum \<Rightarrow> jsnum" where
  "num_add (Num p) (Num q) = round64 (p + q)"
| "num_add NaN _ = NaN"
| "num_add _ NaN = NaN"
| "num_add PosInf NegInf = NaN"
| "num_add NegInf PosInf = NaN"
| "num_add PosInf _ = PosInf"
| "num_add NegInf _ = NegInf"
| "num_add _ PosInf = PosInf"
| "num_add _ NegInf = NegInf"

definition num_sub :: "jsnum \<Rightarrow> jsnum \<Rightarrow> jsnum" where
  "num_sub x y = num_add x (num_neg y)"

definition inf_of_sign :: "rat \<Rightarrow> jsnum" where
  "inf_of_sign q = (if q = 0 then NaN else if 0 < q then PosInf else NegInf)"

fun num_mul :: "jsnum \<Rightarrow> jsnum \<Rightarrow> jsnum" where
  "num_mul (Num p) (Num q) = round64 (p * q)"
| "num_mul NaN _ = NaN"
| "num_mul _ NaN = NaN"
| "num_mul PosInf (Num q) = inf_of_sign q"
| "num_mul NegInf (Num q) = inf_of_sign (- q)"
| "num_mul (Num p) PosInf = inf_of_sign p"
| "num_mul (Num p) NegInf = inf_of_sign (- p)"
| "num_mul PosInf PosInf = PosInf"
| "num_mul PosInf NegInf = NegInf"
| "num_mul NegInf PosInf = NegInf"
| "num_mul NegInf NegInf = PosInf"

fun num_div :: "jsnum \<Rightarrow> jsnum \<Rightarrow> jsnum" where
  "num_div (Num p) (Num q) = (if q = 0 then inf_of_sign p else round64 (p / q))"
| "num_div NaN _ = NaN"
| "num_div _ NaN = NaN"
| "num_div (Num p) _ = Num 0"
| "num_div PosInf (Num q) = (if 0 \<le> q then PosInf else NegInf)"
| "num_div NegInf (Num q) = (if 0 \<le> q then NegInf else PosInf)"
| "num_div _ _ = NaN"

fun num_less :: "jsnum \<Rightarrow> jsnum \<Rightarrow> bool" where
  "num_less (Num p) (Num q) = (p < q)"
| "num_less NegInf (Num _) = True"
| "num_less NegInf PosInf = True"
| "num_less (Num _) PosInf = True"
| "num_less _ _ = False"

text \<open>\<open>x > y\<close>, \<open>x <= y\<close>, \<open>x >= y\<close>: all false on NaN.\<close>

definition num_greater :: "jsnum \<Rightarrow> jsnum \<Rightarrow> bool" where
  "num_greater x y = num_less y x"

definition num_le :: "jsnum \<Rightarrow> jsnum \<Rightarrow> bool" where
  "num_le x y \<longleftrightarrow> x \<noteq> NaN \<and> y \<noteq> NaN \<and> \<not> num_less y x"

fun num_abs :: "jsnum \<Rightarrow> jsnum" where
  "num_abs NaN = NaN"
| "num_abs PosInf = PosInf"
| "num_abs NegInf = PosInf"
| "num_abs (Num q) = Num \<bar>q\<bar>"

definition num_max :: "jsnum \<Rightarrow> jsnum \<Rightarrow> jsnum" where
  "num_max x y = (if x = NaN \<or> y = NaN then NaN else if num_less x y then y else x)"

definition isSafeIntegerNumber :: "jsnum \<Rightarrow> bool" where
  "isSafeIntegerNumber x = (case x of Num q \<Rightarrow> of_int \<lfloor>q\<rfloor> = q \<and> \<bar>q\<bar> \<le> of_int MAX_SAFE_INTEGER | _ \<Rightarrow> False)"

lemma num_less_irrefl [simp]: "\<not> num_less x x"
  by (cases x) auto

lemma num_less_asym: "num_less x y \<Longrightarrow> \<not> num_less y x"
  by (cases x; cases y) auto

lemma num_less_not_NaN: "num_less x y \<Longrightarrow> x \<noteq> NaN \<and> y \<noteq> NaN"
  by (cases x; cases y) auto

lemma num_neg_neg [simp]: "num_neg (num_neg x) = x"
  by (cases x) auto

lemma num_less_neg: "num_less (num_neg x) (num_neg y) = num_less y x"
  by (cases x; cases y) auto

subsection \<open>From strings\<close>

definition pow10 :: "int \<Rightarrow> rat" where
  "pow10 e = (if 0 \<le> e then 10 ^ nat e else 1 / 10 ^ nat (- e))"

definition all_digits :: "string \<Rightarrow> bool" where
  "all_digits s \<longleftrightarrow> list_all is_digit s"

text \<open>\<open>StrUnsignedDecimalLiteral\<close> without \<open>Infinity\<close>: digits, optional fraction, optional exponent.\<close>

definition parseExponent :: "string \<Rightarrow> int option" where
  "parseExponent s =
     (case s of [] \<Rightarrow> Some 0
      | c # r \<Rightarrow>
          if c = CHR ''e'' \<or> c = CHR ''E''
          then (let (neg, ds) = (case r of d # r' \<Rightarrow> if d = CHR ''-'' then (True, r')
                                    else if d = CHR ''+'' then (False, r') else (False, r) | [] \<Rightarrow> (False, r))
                in if ds \<noteq> [] \<and> all_digits ds
                   then Some ((if neg then - 1 else 1) * int_of_digits ds) else None)
          else None)"

definition parseUnsignedDecimal :: "string \<Rightarrow> rat option" where
  "parseUnsignedDecimal s =
     (let whole = takeWhile is_digit s; r = dropWhile is_digit s;
          (frac, hasDot, r') = (case r of c # t \<Rightarrow>
               if c = CHR ''.'' then (takeWhile is_digit t, True, dropWhile is_digit t) else ([], False, r)
             | [] \<Rightarrow> ([], False, r))
      in if whole = [] \<and> frac = [] then None
         else map_option (\<lambda>e. of_int (int_of_digits (whole @ frac)) * pow10 (e - int (length frac)))
                (parseExponent r'))"

definition radix_val :: "int \<Rightarrow> char \<Rightarrow> int option" where
  "radix_val b c =
     (let v = (if is_digit c then digit_val c
               else if is_lower c then of_char c - 87 else if is_upper c then of_char c - 55 else 99)
      in if v < b then Some v else None)"

fun radix_digits :: "int \<Rightarrow> int \<Rightarrow> string \<Rightarrow> int option" where
  "radix_digits b n [] = Some n"
| "radix_digits b n (c # cs) = (case radix_val b c of None \<Rightarrow> None | Some v \<Rightarrow> radix_digits b (b * n + v) cs)"

definition parseRadix :: "string \<Rightarrow> int option" where
  "parseRadix s =
     (case s of z # x # ds \<Rightarrow>
        if z = CHR ''0'' \<and> ds \<noteq> []
        then (if x = CHR ''x'' \<or> x = CHR ''X'' then radix_digits 16 0 ds
              else if x = CHR ''o'' \<or> x = CHR ''O'' then radix_digits 8 0 ds
              else if x = CHR ''b'' \<or> x = CHR ''B'' then radix_digits 2 0 ds else None)
        else None
      | _ \<Rightarrow> None)"

definition numberOf :: "string \<Rightarrow> jsnum" where
  "numberOf str =
     (let s = trim str;
          (neg, u) = (case s of c # r \<Rightarrow> if c = CHR ''-'' then (True, r)
                        else if c = CHR ''+'' then (False, r) else (False, s) | [] \<Rightarrow> (False, s))
      in if s = [] then Num 0
         else case parseRadix s of Some n \<Rightarrow> round64 (of_int n)
         | None \<Rightarrow> if u = ''Infinity'' then (if neg then NegInf else PosInf)
             else (case parseUnsignedDecimal u of None \<Rightarrow> NaN
                   | Some q \<Rightarrow> round64 (if neg then - q else q)))"

subsection \<open>To strings\<close>

definition ilog10 :: "rat \<Rightarrow> int" where
  "ilog10 q = (let (n, d) = quotient_of q;
       e = int (length (digits_of_int n)) - int (length (digits_of_int d))
     in if pow10 e \<le> q then e else e - 1)"

text \<open>
  \<open>Number::toString\<close>: the fewest digits \<open>k\<close> whose decimal rounds back to the number, the closest
  such decimal, and the exponent \<open>n\<close> of the decimal point.
\<close>

definition shortest_at :: "rat \<Rightarrow> int \<Rightarrow> nat \<Rightarrow> (int \<times> int) option" where
  "shortest_at v n k =
     (let sc = pow10 (n - int k); f = \<lfloor>v / sc\<rfloor>;
          ok = (\<lambda>s. round64 (of_int s * sc) = Num v);
          near = (if v / sc - of_int f \<le> 1 / 2 then [f, f + 1] else [f + 1, f])
      in map_option (\<lambda>s. if s = 10 ^ k then (10 ^ (k - 1), n + 1) else (s, n)) (find ok near))"

definition shortest_digits :: "rat \<Rightarrow> string \<times> int" where
  "shortest_digits v =
     (let n = ilog10 v + 1
      in case find (\<lambda>k. shortest_at v n k \<noteq> None) [1..<18] of
           None \<Rightarrow> ([], n)
         | Some k \<Rightarrow> (case shortest_at v n k of None \<Rightarrow> ([], n) | Some (s, n') \<Rightarrow> (digits_of_int s, n')))"

definition format_digits :: "string \<Rightarrow> int \<Rightarrow> string" where
  "format_digits ds n =
     (let k = int (length ds)
      in if k \<le> n \<and> n \<le> 21 then ds @ replicate (nat (n - k)) CHR ''0''
         else if 0 < n \<and> n \<le> 21 then take (nat n) ds @ ''.'' @ drop (nat n) ds
         else if - 6 < n \<and> n \<le> 0 then ''0.'' @ replicate (nat (- n)) CHR ''0'' @ ds
         else let e = n - 1;
                  es = (if 0 \<le> e then ''+'' @ digits_of_int e else ''-'' @ digits_of_int (- e))
              in if k = 1 then ds @ ''e'' @ es else take 1 ds @ ''.'' @ drop 1 ds @ ''e'' @ es)"

fun numberToString :: "jsnum \<Rightarrow> string" where
  "numberToString NaN = ''NaN''"
| "numberToString PosInf = ''Infinity''"
| "numberToString NegInf = ''-Infinity''"
| "numberToString (Num q) =
     (if q = 0 then ''0''
      else (if q < 0 then ''-'' else '''') @ (case shortest_digits \<bar>q\<bar> of (ds, n) \<Rightarrow> format_digits ds n))"

end
