(* ===== verification/Domain.thy ===== *)
theory Domain
  imports JsNumber
begin

section \<open>Domain types\<close>

text \<open>
  The data of \<open>src/src/domain/types.ts\<close>, \<open>src/src/domain/pilot-types.ts\<close> and
  \<open>src/src/domain/runtime-ownership.ts\<close>: unions of string literals are datatypes, interfaces are
  records with the source's field order. Field names carry a prefix, since the interfaces share
  names (\<open>id\<close>, \<open>createdAt\<close>): \<open>oi_\<close> order intent, \<open>or_\<close> order, \<open>ev_\<close> order event, \<open>fl_\<close> fill,
  \<open>rk_\<close> risk event, \<open>st_\<close> execution state, \<open>tr_\<close> execution-state transition, \<open>sd_\<close> persisted
  strategy decision. A nullable or optional field is an \<open>option\<close>. Strings are character
  lists; the identifiers, codes and timestamps the code compares are ASCII.
\<close>

subsection \<open>Enumerations\<close>

datatype SupportedAsset = BTC | ETH

datatype SupportedMarket = KRW_BTC | KRW_ETH

datatype ExecutionMode = DRY_RUN | LIVE

datatype LiveExecutionGate = DISABLED | ENABLED

datatype SystemStatus = BOOTING | RUNNING | PAUSED | KILL_SWITCHED | DEGRADED

datatype StrategyDecisionAction = ENTER | ADD | REDUCE | EXIT | HOLD

datatype StrategyDecisionStatus = READY | PENDING_CONFIRMATION | BLOCKED_BY_RISK | NO_ACTION | DATA_STALE

datatype OrderSide = Bid | Ask

datatype OrderType = Limit | Price | Market | Best

datatype TimeInForce = Ioc | Fok | Post_only

datatype UpbitSelfMatchPrevention = Cancel_maker | Cancel_taker | Reduce_smp

datatype OrderLifecycleStatus =
    INTENT_CREATED | RISK_REJECTED | PERSISTED | SUBMITTING | OPEN | PARTIALLY_FILLED | FILLED
  | CANCEL_REQUESTED | CANCELED | REJECTED | FAILED | RECONCILIATION_REQUIRED

datatype OrderOrigin = STRATEGY | OPERATOR | RECOVERY

datatype RiskEventLevel = INFO | WARN | BLOCK

datatype EventSource = LOCAL | EXCHANGE | RECONCILIATION | TELEGRAM

datatype RiskRuleCode =
    GLOBAL_KILL_SWITCH | EXECUTION_PAUSED | SYSTEM_DEGRADED | PER_ASSET_MAX_ALLOCATION
  | TOTAL_EXPOSURE_CAP | STALE_PRICE_GUARD | DUPLICATE_ORDER_GUARD | MINIMUM_ORDER_VALUE_GUARD
  | LIVE_EXECUTION_DISABLED | UNSUPPORTED_MARKET | UNSUPPORTED_ORDER_TYPE | EXCHANGE_MIN_TOTAL_GUARD
  | EXCHANGE_MAX_TOTAL_GUARD | MARKET_OFFLINE | EXCHANGE_ORDER_CHANCE_FAILED
  | EXCHANGE_ORDER_TEST_FAILED | ORDER_RECOVERY_REQUIRED | BALANCE_DRIFT_DETECTED
  | POSITION_DRIFT_DETECTED | POSITION_GUARD_PILOT_UNCERTAIN_ORDER | ACCOUNT_EXECUTION_LEASE_BLOCKED

datatype ExecutionStateTransitionCommand =
    BOOTSTRAP | AUTOMATIC_PAUSE | CmdPause | CmdResume | CmdKillswitch | SET_EXECUTION_MODE
  | SET_LIVE_EXECUTION_GATE | MARK_DEGRADED | CLEAR_DEGRADED

datatype FillFeeProvenance =
    FEE_EXCHANGE_FILL_CONFIRMED | ORDER_LEVEL_UNALLOCATED | ORDER_LEVEL_ALLOCATED | FEE_MISSING
  | FEE_LEGACY_UNVERIFIED | SIMULATED

datatype FillExecutionTimestampProvenance =
    TS_EXCHANGE_FILL_CONFIRMED | RECONCILIATION_OBSERVED_AT_FALLBACK | ORDER_UPDATED_AT_FALLBACK
  | LOCAL_SYNTHETIC | TS_LEGACY_UNVERIFIED

datatype ObservationOutcome = FOUND | NOT_FOUND | TRANSIENT_FAILURE

datatype LeasePurpose = ORDER_SUBMISSION

subsection \<open>The literals behind the constructors that appear in messages, keys and payloads\<close>

fun marketStr :: "SupportedMarket \<Rightarrow> string" where
  "marketStr KRW_BTC = ''KRW-BTC''"
| "marketStr KRW_ETH = ''KRW-ETH''"

fun assetStr :: "SupportedAsset \<Rightarrow> string" where
  "assetStr BTC = ''BTC''"
| "assetStr ETH = ''ETH''"

fun sideStr :: "OrderSide \<Rightarrow> string" where
  "sideStr Bid = ''bid''"
| "sideStr Ask = ''ask''"

fun ordTypeStr :: "OrderType \<Rightarrow> string" where
  "ordTypeStr Limit = ''limit''"
| "ordTypeStr Price = ''price''"
| "ordTypeStr Market = ''market''"
| "ordTypeStr Best = ''best''"

fun timeInForceStr :: "TimeInForce \<Rightarrow> string" where
  "timeInForceStr Ioc = ''ioc''"
| "timeInForceStr Fok = ''fok''"
| "timeInForceStr Post_only = ''post_only''"

fun modeStr :: "ExecutionMode \<Rightarrow> string" where
  "modeStr DRY_RUN = ''DRY_RUN''"
| "modeStr LIVE = ''LIVE''"

fun gateStr :: "LiveExecutionGate \<Rightarrow> string" where
  "gateStr DISABLED = ''DISABLED''"
| "gateStr ENABLED = ''ENABLED''"

fun actionStr :: "StrategyDecisionAction \<Rightarrow> string" where
  "actionStr ENTER = ''ENTER''"
| "actionStr ADD = ''ADD''"
| "actionStr REDUCE = ''REDUCE''"
| "actionStr EXIT = ''EXIT''"
| "actionStr HOLD = ''HOLD''"

fun statusStr :: "OrderLifecycleStatus \<Rightarrow> string" where
  "statusStr INTENT_CREATED = ''INTENT_CREATED''"
| "statusStr RISK_REJECTED = ''RISK_REJECTED''"
| "statusStr PERSISTED = ''PERSISTED''"
| "statusStr SUBMITTING = ''SUBMITTING''"
| "statusStr OPEN = ''OPEN''"
| "statusStr PARTIALLY_FILLED = ''PARTIALLY_FILLED''"
| "statusStr FILLED = ''FILLED''"
| "statusStr CANCEL_REQUESTED = ''CANCEL_REQUESTED''"
| "statusStr CANCELED = ''CANCELED''"
| "statusStr REJECTED = ''REJECTED''"
| "statusStr FAILED = ''FAILED''"
| "statusStr RECONCILIATION_REQUIRED = ''RECONCILIATION_REQUIRED''"

lemma sideStr_inject [simp]: "sideStr a = sideStr b \<longleftrightarrow> a = b"
  by (cases a; cases b) auto

lemma ordTypeStr_inject [simp]: "ordTypeStr a = ordTypeStr b \<longleftrightarrow> a = b"
  by (cases a; cases b) auto

lemma marketStr_inject [simp]: "marketStr a = marketStr b \<longleftrightarrow> a = b"
  by (cases a; cases b) auto

subsection \<open>Errors\<close>

datatype ExchangeOrderSubmissionErrorKind = DEFINITIVE_REJECTION | UNCERTAIN

record ExchangeOrderSubmissionErrorOptions =
  xe_kind :: ExchangeOrderSubmissionErrorKind
  xe_status :: "int option"
  xe_exchangeCode :: "string option"
  xe_exchangeName :: "string option"
  xe_responseReceived :: bool

datatype GuardErrorCode =
    RUNTIME_OWNERSHIP_NOT_HELD | RUNTIME_OWNERSHIP_LOST | RUNTIME_OWNERSHIP_REACQUISITION_FORBIDDEN

text \<open>
  The classes of error the modelled code throws and tests with \<open>instanceof\<close>; \<open>SqliteError\<close> is what the
  database driver throws, with its \<open>code\<close> and \<open>errcode\<close>.
\<close>

datatype js_error =
    Error string
  | RuntimeOwnershipGuardError GuardErrorCode string
  | ExchangeOrderSubmissionError ExchangeOrderSubmissionErrorOptions
  | PostSendPersistenceSafetyError string
  | AccountExecutionLeaseSafetyError string
  | CandidateExecutionSafetyError string
  | AutomaticFaultPauseSafetyError string
  | LeaseBlockPersistenceSafetyError string "js_error option" "js_error option"
  | SqliteError "string option" "int option" string

type_synonym 'a res = "js_error + 'a"

text \<open>The message a thrown error carries (\<open>error.message\<close>).\<close>

fun submissionErrorMessage :: "ExchangeOrderSubmissionErrorKind \<Rightarrow> string" where
  "submissionErrorMessage DEFINITIVE_REJECTION = ''Upbit definitively rejected the order submission.''"
| "submissionErrorMessage UNCERTAIN = ''Upbit order submission outcome is uncertain and requires recovery.''"

fun errorMessage :: "js_error \<Rightarrow> string" where
  "errorMessage (Error m) = m"
| "errorMessage (RuntimeOwnershipGuardError c m) = m"
| "errorMessage (ExchangeOrderSubmissionError x) = submissionErrorMessage (xe_kind x)"
| "errorMessage (PostSendPersistenceSafetyError m) = m"
| "errorMessage (AccountExecutionLeaseSafetyError m) = m"
| "errorMessage (CandidateExecutionSafetyError m) = m"
| "errorMessage (AutomaticFaultPauseSafetyError m) = m"
| "errorMessage (LeaseBlockPersistenceSafetyError m r p) = m"
| "errorMessage (SqliteError code errcode m) = m"

text \<open>The guard on identifiers (\<open>modules/db/pilot-interfaces.ts\<close>).\<close>

definition requireNonEmpty :: "string \<Rightarrow> string \<Rightarrow> unit res" where
  "requireNonEmpty value label = throw_if (is_blank value) (Error (label @ '' must be a non-empty string.''))"

subsection \<open>Records\<close>

record ExecutionStateRecord =
  st_id :: string
  st_exchangeAccountId :: string
  st_executionMode :: ExecutionMode
  st_liveExecutionGate :: LiveExecutionGate
  st_systemStatus :: SystemStatus
  st_killSwitchActive :: bool
  st_pauseReason :: "string option"
  st_degradedReason :: "string option"
  st_degradedAt :: "string option"
  st_updatedAt :: string

record ExecutionStateTransitionRecord =
  tr_id :: string
  tr_exchangeAccountId :: string
  tr_command :: ExecutionStateTransitionCommand
  tr_fromExecutionMode :: "ExecutionMode option"
  tr_toExecutionMode :: ExecutionMode
  tr_fromLiveExecutionGate :: "LiveExecutionGate option"
  tr_toLiveExecutionGate :: LiveExecutionGate
  tr_fromSystemStatus :: "SystemStatus option"
  tr_toSystemStatus :: SystemStatus
  tr_fromKillSwitchActive :: "bool option"
  tr_toKillSwitchActive :: bool
  tr_reason :: "string option"
  tr_createdAt :: string

record StrategyDecisionRecord =
  sd_id :: string
  sd_exchangeAccountId :: string
  sd_strategyKey :: string
  sd_market :: SupportedMarket
  sd_action :: StrategyDecisionAction
  sd_status :: StrategyDecisionStatus
  sd_decisionBasisJson :: string
  sd_intendedNotionalKrw :: "string option"
  sd_intendedQuantity :: "string option"
  sd_referencePrice :: "string option"
  sd_createdAt :: string

record OrderIntent =
  oi_strategyDecisionId :: "string option"
  oi_exchangeAccountId :: string
  oi_market :: SupportedMarket
  oi_side :: OrderSide
  oi_ordType :: OrderType
  oi_volume :: "string option"
  oi_price :: "string option"
  oi_timeInForce :: "TimeInForce option"
  oi_smpType :: "UpbitSelfMatchPrevention option"
  oi_identifier :: string
  oi_idempotencyKey :: string
  oi_origin :: OrderOrigin
  oi_requestedAt :: string

record OrderRecord = OrderIntent +
  or_id :: string
  or_upbitUuid :: "string option"
  or_status :: OrderLifecycleStatus
  or_executionMode :: ExecutionMode
  or_exchangeResponseJson :: "string option"
  or_failureCode :: "string option"
  or_failureMessage :: "string option"
  or_createdAt :: string
  or_updatedAt :: string

record OrderEventRecord =
  ev_id :: string
  ev_orderId :: string
  ev_eventType :: string
  ev_eventSource :: EventSource
  ev_payloadJson :: string
  ev_createdAt :: string

record FillRecord =
  fl_id :: string
  fl_orderId :: string
  fl_exchangeFillId :: string
  fl_market :: SupportedMarket
  fl_side :: OrderSide
  fl_price :: string
  fl_volume :: string
  fl_feeCurrency :: "string option"
  fl_feeAmount :: "string option"
  fl_feeProvenance :: "FillFeeProvenance option"
  fl_executionTimestampProvenance :: "FillExecutionTimestampProvenance option"
  fl_executionEpochNs :: "string option"
  fl_filledAt :: string
  fl_rawPayloadJson :: string

record RiskEventRecord =
  rk_id :: string
  rk_exchangeAccountId :: string
  rk_strategyDecisionId :: "string option"
  rk_orderId :: "string option"
  rk_level :: RiskEventLevel
  rk_ruleCode :: RiskRuleCode
  rk_message :: string
  rk_payloadJson :: string
  rk_createdAt :: string

record AccountExecutionLeaseRecord =
  le_exchangeAccountId :: string
  le_ownerToken :: string
  le_purpose :: LeasePurpose
  le_acquiredAtEpochMs :: int
  le_expiresAtEpochMs :: int

record OrderSubmissionRecoveryObservationRecord =
  ob_id :: string
  ob_orderId :: string
  ob_outcome :: ObservationOutcome
  ob_observedAt :: string
  ob_observedAtEpochMs :: int
  ob_detailJson :: string
  ob_createdAt :: string

record ExecutionRiskLimits =
  rl_maxAllocationByAsset :: "SupportedAsset \<Rightarrow> jsnum"
  rl_totalExposureCap :: jsnum
  rl_stalePriceThresholdMs :: jsnum
  rl_minimumOrderValueKrw :: jsnum

record ExecutionPolicy =
  po_executionMode :: ExecutionMode
  po_liveExecutionGate :: LiveExecutionGate
  po_globalKillSwitch :: bool
  po_maxAllocationByAsset :: "SupportedAsset \<Rightarrow> jsnum"
  po_totalExposureCap :: jsnum
  po_stalePriceThresholdMs :: jsnum
  po_minimumOrderValueKrw :: jsnum

record ExecutionStateSeed =
  se_executionMode :: ExecutionMode
  se_liveExecutionGate :: LiveExecutionGate
  se_killSwitchActive :: bool

record PriceSnapshot =
  ps_market :: SupportedMarket
  ps_tradePrice :: jsnum
  ps_capturedAt :: string

record PortfolioExposureSnapshot =
  pe_totalEquityKrw :: jsnum
  pe_totalExposureKrw :: jsnum
  pe_assetExposureKrw :: "SupportedAsset \<Rightarrow> jsnum"

datatype MetadataValue = MetaString string | MetaNumber jsnum | MetaBoolean bool | MetaNull

record StrategyDecision =
  dc_strategyKey :: string
  dc_market :: SupportedMarket
  dc_action :: StrategyDecisionAction
  dc_reasonCodes :: "string list"
  dc_referencePrice :: jsnum
  dc_requestedNotionalKrw :: "jsnum option"
  dc_requestedQuantity :: "jsnum option"
  dc_metadata :: "string \<rightharpoonup> MetadataValue"

fun getMarketForAsset :: "SupportedAsset \<Rightarrow> SupportedMarket" where
  "getMarketForAsset BTC = KRW_BTC"
| "getMarketForAsset ETH = KRW_ETH"

fun getAssetForMarket :: "SupportedMarket \<Rightarrow> SupportedAsset" where
  "getAssetForMarket KRW_BTC = BTC"
| "getAssetForMarket KRW_ETH = ETH"

lemma getAssetForMarket_inverse [simp]: "getAssetForMarket (getMarketForAsset a) = a"
  by (cases a) auto

lemma getMarketForAsset_inverse [simp]: "getMarketForAsset (getAssetForMarket m) = m"
  by (cases m) auto

end
