(* ===== verification/SubmissionBlocking.thy ===== *)
theory SubmissionBlocking
  imports Domain
begin

section \<open>Which persisted orders block a new submission\<close>

text \<open>
  \<open>src/src/domain/submission-blocking-order.ts\<close>: from an order, its events and its recovery
  observations, decide whether the order could still be live at the exchange. The account lease
  store and the final pre-send scan of the execution service both use this classification.
\<close>

definition SUBMISSION_BLOCKING_CANDIDATE_STATUSES :: "OrderLifecycleStatus list" where
  "SUBMISSION_BLOCKING_CANDIDATE_STATUSES =
     [INTENT_CREATED, PERSISTED, SUBMITTING, OPEN, PARTIALLY_FILLED, CANCEL_REQUESTED,
      RECONCILIATION_REQUIRED, FAILED, REJECTED]"

definition ACTIVE_SUBMISSION_STATUSES :: "OrderLifecycleStatus list" where
  "ACTIVE_SUBMISSION_STATUSES =
     [INTENT_CREATED, PERSISTED, SUBMITTING, OPEN, PARTIALLY_FILLED, CANCEL_REQUESTED,
      RECONCILIATION_REQUIRED]"

definition DISPATCH_EVIDENCE_EVENTS :: "string list" where
  "DISPATCH_EVIDENCE_EVENTS =
     [''ORDER_SUBMITTED'', ''ORDER_FILLED'', ''ORDER_CANCELED'', ''ORDER_REJECTED'',
      ''RECONCILIATION_RECOVERY_REQUIRED'', ''RECONCILIATION_STATUS_UPDATED'',
      ''RECONCILIATION_IDENTIFIER_RECOVERY_OBSERVED'']"

definition UNCERTAIN_FAILURE_CODES :: "string list" where
  "UNCERTAIN_FAILURE_CODES =
     [''EXCHANGE_SUBMISSION_FAILED'', ''RECONCILIATION_REQUIRED'', ''SUBMISSION_RESPONSE_UNCERTAIN'']"

datatype SubmissionBlockingReasonCode =
    ACTIVE_SUBMISSION_LIFECYCLE | UNRESOLVED_POTENTIALLY_DISPATCHED | DEFINITIVE_PRE_SEND_TERMINAL
  | EXCHANGE_REJECTION_CONFIRMED | BOUNDED_ABSENCE_CONFIRMED | RESOLVED_TERMINAL

record SubmissionBlockingOrderEvidence =
  be_order :: OrderRecord
  be_events :: "OrderEventRecord list"
  be_recoveryObservations :: "OrderSubmissionRecoveryObservationRecord list"

record SubmissionBlockingClassification =
  bc_blocking :: bool
  bc_reasonCode :: SubmissionBlockingReasonCode
  bc_reason :: string

definition classification ::
  "bool \<Rightarrow> SubmissionBlockingReasonCode \<Rightarrow> string \<Rightarrow> SubmissionBlockingClassification" where
  "classification blocking reasonCode reason =
     \<lparr>bc_blocking = blocking, bc_reasonCode = reasonCode, bc_reason = reason\<rparr>"

definition notFoundEpochs :: "OrderSubmissionRecoveryObservationRecord list \<Rightarrow> int list" where
  "notFoundEpochs obs = sort (map ob_observedAtEpochMs (filter (\<lambda>item. ob_outcome item = NOT_FOUND) obs))"

definition boundedAbsenceObserved :: "OrderSubmissionRecoveryObservationRecord list \<Rightarrow> bool" where
  "boundedAbsenceObserved obs =
     (let es = notFoundEpochs obs in 2 \<le> length es \<and> hd es < last es)"

definition hasEvent :: "string \<Rightarrow> OrderEventRecord list \<Rightarrow> bool" where
  "hasEvent t evs = list_ex (\<lambda>item. ev_eventType item = t) evs"

definition hasEventFrom :: "string \<Rightarrow> EventSource \<Rightarrow> OrderEventRecord list \<Rightarrow> bool" where
  "hasEventFrom t src evs = list_ex (\<lambda>item. ev_eventType item = t \<and> ev_eventSource item = src) evs"

definition foundObserved :: "OrderSubmissionRecoveryObservationRecord list \<Rightarrow> bool" where
  "foundObserved obs = list_ex (\<lambda>item. ob_outcome item = FOUND) obs"

definition uncertainFailureCode :: "string option \<Rightarrow> bool" where
  "uncertainFailureCode fc =
     (case fc of None \<Rightarrow> False
      | Some code \<Rightarrow> code \<in> set UNCERTAIN_FAILURE_CODES \<or>
          contains ''UNCERTAIN'' code \<or> contains ''RECONCILIATION'' code)"

definition hasDispatchEvidence :: "SubmissionBlockingOrderEvidence \<Rightarrow> bool" where
  "hasDispatchEvidence evidence \<longleftrightarrow>
     or_upbitUuid (be_order evidence) \<noteq> None \<or>
     or_exchangeResponseJson (be_order evidence) \<noteq> None \<or>
     foundObserved (be_recoveryObservations evidence) \<or>
     list_ex (\<lambda>item. ev_eventType item \<in> set DISPATCH_EVIDENCE_EVENTS) (be_events evidence) \<or>
     uncertainFailureCode (or_failureCode (be_order evidence))"

definition classifySubmissionBlockingOrder ::
  "SubmissionBlockingOrderEvidence \<Rightarrow> SubmissionBlockingClassification" where
  "classifySubmissionBlockingOrder evidence =
     (let ord = be_order evidence; evs = be_events evidence; obs = be_recoveryObservations evidence;
          submitted = hasEvent ''ORDER_SUBMITTED'' evs;
          recoveryRequired = hasEvent ''RECONCILIATION_RECOVERY_REQUIRED'' evs;
          absenceConfirmed = hasEventFrom ''RECONCILIATION_IDENTIFIER_ABSENCE_CONFIRMED'' RECONCILIATION evs;
          exchangeRejected = hasEventFrom ''ORDER_REJECTED'' EXCHANGE evs
      in
      if or_status ord \<in> set ACTIVE_SUBMISSION_STATUSES then
        classification True ACTIVE_SUBMISSION_LIFECYCLE
          (''Order '' @ or_id ord @ '' remains in submission-blocking lifecycle '' @ statusStr (or_status ord) @ ''.'')
      else if or_status ord \<noteq> FAILED \<and> or_status ord \<noteq> REJECTED then
        classification False RESOLVED_TERMINAL (''Order '' @ or_id ord @ '' is terminal and resolved.'')
      else if or_status ord = FAILED \<and> or_failureCode ord = Some ''ORDER_SUBMISSION_ABSENCE_CONFIRMED'' \<and>
          absenceConfirmed \<and> boundedAbsenceObserved obs \<and> \<not> foundObserved obs \<and> \<not> submitted \<and>
          or_upbitUuid ord = None then
        classification False BOUNDED_ABSENCE_CONFIRMED
          (''Order '' @ or_id ord @ '' has durable bounded exchange-absence authority.'')
      else if or_status ord = REJECTED \<and> or_failureCode ord = Some ''EXCHANGE_ORDER_REJECTED'' \<and>
          exchangeRejected \<and> \<not> foundObserved obs \<and> \<not> submitted \<and> \<not> recoveryRequired \<and>
          or_upbitUuid ord = None then
        classification False EXCHANGE_REJECTION_CONFIRMED
          (''Order '' @ or_id ord @ '' has a definitive persisted exchange rejection.'')
      else if \<not> hasDispatchEvidence evidence then
        classification False DEFINITIVE_PRE_SEND_TERMINAL
          (''Order '' @ or_id ord @ '' terminated before any persisted exchange-dispatch evidence.'')
      else
        classification True UNRESOLVED_POTENTIALLY_DISPATCHED
          (''Order '' @ or_id ord @ '' is '' @ statusStr (or_status ord) @
           '' with unresolved persisted exchange-dispatch evidence.''))"

definition blocks :: "SubmissionBlockingOrderEvidence \<Rightarrow> bool" where
  "blocks evidence = bc_blocking (classifySubmissionBlockingOrder evidence)"

subsection \<open>Facts\<close>

lemma hasEvent_iff: "hasEvent t evs \<longleftrightarrow> (\<exists>e\<in>set evs. ev_eventType e = t)"
  by (auto simp: hasEvent_def list_ex_iff)

lemma hasEventFrom_iff:
  "hasEventFrom t src evs \<longleftrightarrow> (\<exists>e\<in>set evs. ev_eventType e = t \<and> ev_eventSource e = src)"
  by (auto simp: hasEventFrom_def list_ex_iff)

lemma foundObserved_iff: "foundObserved obs \<longleftrightarrow> (\<exists>x\<in>set obs. ob_outcome x = FOUND)"
  by (auto simp: foundObserved_def list_ex_iff)

lemmas evidence_iffs = hasEvent_iff hasEventFrom_iff foundObserved_iff

lemma candidate_statuses:
  "s \<in> set SUBMISSION_BLOCKING_CANDIDATE_STATUSES \<longleftrightarrow>
     s \<in> set ACTIVE_SUBMISSION_STATUSES \<or> s = FAILED \<or> s = REJECTED"
  by (auto simp: SUBMISSION_BLOCKING_CANDIDATE_STATUSES_def ACTIVE_SUBMISSION_STATUSES_def)

lemma blocks_active: "or_status (be_order e) \<in> set ACTIVE_SUBMISSION_STATUSES \<Longrightarrow> blocks e"
  by (simp add: blocks_def classifySubmissionBlockingOrder_def classification_def Let_def)

lemma blocks_candidate: "blocks e \<Longrightarrow> or_status (be_order e) \<in> set SUBMISSION_BLOCKING_CANDIDATE_STATUSES"
  by (auto simp: blocks_def classifySubmissionBlockingOrder_def classification_def Let_def
      candidate_statuses split: if_splits)

lemma unblocked_cases:
  assumes "\<not> blocks e" and "or_status (be_order e) \<in> {FAILED, REJECTED}"
  shows "or_upbitUuid (be_order e) = None \<and> \<not> foundObserved (be_recoveryObservations e) \<and>
    \<not> hasEvent ''ORDER_SUBMITTED'' (be_events e) \<and>
    (hasDispatchEvidence e \<longrightarrow>
      (or_status (be_order e) = FAILED \<and> boundedAbsenceObserved (be_recoveryObservations e) \<and>
         hasEventFrom ''RECONCILIATION_IDENTIFIER_ABSENCE_CONFIRMED'' RECONCILIATION (be_events e)) \<or>
      (or_status (be_order e) = REJECTED \<and> hasEventFrom ''ORDER_REJECTED'' EXCHANGE (be_events e)))"
proof -
  have nd: "\<not> hasDispatchEvidence e \<Longrightarrow> \<not> hasEvent ''ORDER_SUBMITTED'' (be_events e)"
    by (auto simp: hasDispatchEvidence_def hasEvent_def DISPATCH_EVIDENCE_EVENTS_def list_ex_iff)
  have nd2: "\<not> hasDispatchEvidence e \<Longrightarrow>
      or_upbitUuid (be_order e) = None \<and> \<not> foundObserved (be_recoveryObservations e)"
    by (auto simp: hasDispatchEvidence_def)
  show ?thesis
    using assms nd nd2
    by (auto simp: blocks_def classifySubmissionBlockingOrder_def classification_def Let_def
        ACTIVE_SUBMISSION_STATUSES_def split: if_splits)
qed

lemma boundedAbsence_two:
  assumes "boundedAbsenceObserved obs"
  shows "\<exists>a\<in>set obs. \<exists>b\<in>set obs. ob_outcome a = NOT_FOUND \<and> ob_outcome b = NOT_FOUND \<and>
    ob_observedAtEpochMs a < ob_observedAtEpochMs b"
proof -
  let ?es = "notFoundEpochs obs"
  from assms have ne: "?es \<noteq> []" and lt: "hd ?es < last ?es"
    by (auto simp: boundedAbsenceObserved_def Let_def)
  from ne have "hd ?es \<in> set ?es" and "last ?es \<in> set ?es" by simp_all
  with lt show ?thesis by (fastforce simp: notFoundEpochs_def)
qed

subsection \<open>Properties\<close>

text \<open>
  An order in an active lifecycle status always blocks, whatever its evidence, and an order in
  any status outside the candidate list (\<open>RISK_REJECTED\<close>, \<open>FILLED\<close>, \<open>CANCELED\<close>) never does.
  The SQL and in-memory scans may therefore prefilter by the candidate statuses without losing a
  blocking order.
\<close>
theorem blocking_status_frame:
  "(or_status (be_order e) \<in> set ACTIVE_SUBMISSION_STATUSES \<longrightarrow> bc_blocking (classifySubmissionBlockingOrder e)) \<and>
   (bc_blocking (classifySubmissionBlockingOrder e) \<longrightarrow>
      or_status (be_order e) \<in> set SUBMISSION_BLOCKING_CANDIDATE_STATUSES)"
  using blocks_active blocks_candidate by (auto simp: blocks_def)

text \<open>
  C29. A \<open>FAILED\<close> or \<open>REJECTED\<close> order stops blocking only when nothing shows that the exchange has it: it
  has no exchange UUID, no recovery lookup ever found it and no submission was acknowledged; and if
  any other dispatch evidence is persisted, then either the exchange itself rejected it, or
  reconciliation confirmed its absence after at least two \<open>NOT_FOUND\<close> lookups at distinct instants.
\<close>
theorem unblocked_terminal_is_safe:
  assumes "\<not> bc_blocking (classifySubmissionBlockingOrder e)" and "or_status (be_order e) \<in> {FAILED, REJECTED}"
  shows "or_upbitUuid (be_order e) = None \<and>
    (\<forall>x\<in>set (be_recoveryObservations e). ob_outcome x \<noteq> FOUND) \<and>
    (\<forall>v\<in>set (be_events e). ev_eventType v \<noteq> ''ORDER_SUBMITTED'') \<and>
    (hasDispatchEvidence e \<longrightarrow>
      (\<exists>v\<in>set (be_events e). ev_eventType v = ''ORDER_REJECTED'' \<and> ev_eventSource v = EXCHANGE) \<or>
      (\<exists>a\<in>set (be_recoveryObservations e). \<exists>b\<in>set (be_recoveryObservations e).
         ob_outcome a = NOT_FOUND \<and> ob_outcome b = NOT_FOUND \<and>
         ob_observedAtEpochMs a < ob_observedAtEpochMs b))"
proof -
  from assms have "\<not> blocks e" by (simp add: blocks_def)
  from unblocked_cases [OF this assms(2)] show ?thesis
    using boundedAbsence_two [of "be_recoveryObservations e"] by (auto simp: evidence_iffs)
qed

definition sampleOrder :: "OrderRecord" where
  "sampleOrder =
     \<lparr>oi_strategyDecisionId = Some ''decision_1'', oi_exchangeAccountId = ''acct'', oi_market = KRW_BTC,
      oi_side = Ask, oi_ordType = Market, oi_volume = Some ''0.5'', oi_price = None, oi_timeInForce = None,
      oi_smpType = None, oi_identifier = ''KRW-BTC-ask-1'', oi_idempotencyKey = ''key-1'',
      oi_origin = STRATEGY, oi_requestedAt = ''2026-08-21T00:00:00.000Z'', or_id = ''order_1'',
      or_upbitUuid = None, or_status = PERSISTED, or_executionMode = LIVE,
      or_exchangeResponseJson = None, or_failureCode = None, or_failureMessage = None,
      or_createdAt = ''2026-08-21T00:00:00.000Z'', or_updatedAt = ''2026-08-21T00:00:00.000Z''\<rparr>"

definition sampleEvent :: "string \<Rightarrow> string \<Rightarrow> EventSource \<Rightarrow> OrderEventRecord" where
  "sampleEvent i t src =
     \<lparr>ev_id = i, ev_orderId = ''order_1'', ev_eventType = t, ev_eventSource = src,
      ev_payloadJson = ''{}'', ev_createdAt = ''2026-08-21T00:00:00.000Z''\<rparr>"

definition sampleObservation :: "string \<Rightarrow> ObservationOutcome \<Rightarrow> int \<Rightarrow> OrderSubmissionRecoveryObservationRecord" where
  "sampleObservation i outc ms =
     \<lparr>ob_id = i, ob_orderId = ''order_1'', ob_outcome = outc, ob_observedAt = ''2026-08-21T00:00:00.000Z'',
      ob_observedAtEpochMs = ms, ob_detailJson = ''{}'', ob_createdAt = ''2026-08-21T00:00:00.000Z''\<rparr>"

definition sampleAbsent :: SubmissionBlockingOrderEvidence where
  "sampleAbsent =
     \<lparr>be_order = sampleOrder\<lparr>or_status := FAILED, or_failureCode := Some ''ORDER_SUBMISSION_ABSENCE_CONFIRMED''\<rparr>,
      be_events = [sampleEvent ''e1'' ''ORDER_PERSISTED'' LOCAL,
        sampleEvent ''e2'' ''RECONCILIATION_IDENTIFIER_ABSENCE_CONFIRMED'' RECONCILIATION,
        sampleEvent ''e3'' ''RECONCILIATION_RECOVERY_REQUIRED'' RECONCILIATION],
      be_recoveryObservations = [sampleObservation ''o1'' NOT_FOUND 1000, sampleObservation ''o2'' NOT_FOUND 61000]\<rparr>"

lemma blocking_status_frame_witness:
  "or_status (be_order (sampleAbsent\<lparr>be_order := sampleOrder\<rparr>)) \<in> set ACTIVE_SUBMISSION_STATUSES \<and>
   bc_blocking (classifySubmissionBlockingOrder (sampleAbsent\<lparr>be_order := sampleOrder\<rparr>))"
  using blocking_status_frame [of "sampleAbsent\<lparr>be_order := sampleOrder\<rparr>"]
  by (simp add: sampleOrder_def ACTIVE_SUBMISSION_STATUSES_def)

lemma unblocked_terminal_is_safe_witness:
  "or_upbitUuid (be_order sampleAbsent) = None \<and> hasDispatchEvidence sampleAbsent \<and>
   \<not> bc_blocking (classifySubmissionBlockingOrder sampleAbsent)"
proof -
  have nb: "\<not> bc_blocking (classifySubmissionBlockingOrder sampleAbsent)" by code_simp
  have st: "or_status (be_order sampleAbsent) \<in> {FAILED, REJECTED}" by code_simp
  have ev: "hasDispatchEvidence sampleAbsent" by code_simp
  show ?thesis using nb ev unblocked_terminal_is_safe [OF nb st] by simp
qed

end
