(* ===== verification/LeaseStore.thy ===== *)
theory LeaseStore
  imports SubmissionBlocking
begin

section \<open>Account execution leases\<close>

text \<open>
  The interface \<open>AccountExecutionLeaseStore\<close> of \<open>src/src/modules/db/pilot-interfaces.ts\<close> as the locale
  \<open>lease_store\<close>, and its two implementations:
  \<open>src/src/modules/db/repositories/in-memory-account-execution-lease-store.ts\<close> (a map) and
  \<open>src/src/modules/db/repositories/sqlite-account-execution-lease-store.ts\<close> (rows of a table with the
  primary key and the foreign key of migration 0017, updated by \<open>WHERE\<close> clauses). A call returns the thrown
  error or the value, and the new state. Failures of the database engine itself (disk, locks) are not part of this
  theory: the execution service is verified against dependencies that may fail at any call.
\<close>

record AcquireAccountExecutionLeaseInput =
  ai_exchangeAccountId :: string
  ai_ownerToken :: string
  ai_purpose :: LeasePurpose
  ai_acquiredAtEpochMs :: int
  ai_expiresAtEpochMs :: int

record RenewAccountExecutionLeaseInput =
  ri_exchangeAccountId :: string
  ri_ownerToken :: string
  ri_renewedAtEpochMs :: int
  ri_expiresAtEpochMs :: int

definition validateLeaseWindow :: "string \<Rightarrow> int \<Rightarrow> int \<Rightarrow> unit res" where
  "validateLeaseWindow ownerToken atEpochMs expiresAtEpochMs =
     ebind (requireNonEmpty ownerToken ''ownerToken'') (\<lambda>_.
     ebind (throw_if (\<not> isSafeInteger atEpochMs \<or> atEpochMs < 0)
       (Error ''Account execution lease time must be a non-negative safe integer.'')) (\<lambda>_.
     throw_if (\<not> isSafeInteger expiresAtEpochMs \<or> expiresAtEpochMs \<le> atEpochMs)
       (Error ''Account execution lease expiry must be a safe integer after its operation time.'')))"

lemma validateLeaseWindow_ok:
  "validateLeaseWindow tok t e = Inr () \<longleftrightarrow>
     \<not> is_blank tok \<and> isSafeInteger t \<and> 0 \<le> t \<and> isSafeInteger e \<and> t < e"
  by (auto simp: validateLeaseWindow_def requireNonEmpty_def res_simps)

definition leaseFromInput :: "AcquireAccountExecutionLeaseInput \<Rightarrow> AccountExecutionLeaseRecord" where
  "leaseFromInput input =
     \<lparr>le_exchangeAccountId = ai_exchangeAccountId input, le_ownerToken = ai_ownerToken input,
      le_purpose = ai_purpose input, le_acquiredAtEpochMs = ai_acquiredAtEpochMs input,
      le_expiresAtEpochMs = ai_expiresAtEpochMs input\<rparr>"

subsection \<open>The interface\<close>

text \<open>
  What a lease store promises, over the abstract map of leases before and after a call.
  \<open>acquire_post\<close>: a granted lease is the requested one and replaced only a missing or expired lease;
  a denial or a throw changes nothing. \<open>renew_post\<close>: only the live owner's lease is extended, and only
  forwards. \<open>release_post\<close>: only the owner's lease is removed. No operation touches another account.
\<close>

type_synonym lease_map = "string \<rightharpoonup> AccountExecutionLeaseRecord"

definition acquire_post ::
  "lease_map \<Rightarrow> AcquireAccountExecutionLeaseInput \<Rightarrow> AccountExecutionLeaseRecord option res \<Rightarrow> lease_map \<Rightarrow> bool" where
  "acquire_post m i r m' \<longleftrightarrow>
     (case r of
        Inr (Some l) \<Rightarrow> l = leaseFromInput i \<and> m' = m(ai_exchangeAccountId i \<mapsto> l) \<and>
          ai_acquiredAtEpochMs i < ai_expiresAtEpochMs i \<and> \<not> is_blank (ai_ownerToken i) \<and>
          (\<forall>c. m (ai_exchangeAccountId i) = Some c \<longrightarrow> le_expiresAtEpochMs c \<le> ai_acquiredAtEpochMs i)
      | _ \<Rightarrow> m' = m)"

definition renew_post ::
  "lease_map \<Rightarrow> RenewAccountExecutionLeaseInput \<Rightarrow> AccountExecutionLeaseRecord option res \<Rightarrow> lease_map \<Rightarrow> bool" where
  "renew_post m j r m' \<longleftrightarrow>
     (case r of
        Inr (Some l) \<Rightarrow>
          (\<exists>c. m (ri_exchangeAccountId j) = Some c \<and> le_ownerToken c = ri_ownerToken j \<and>
             ri_renewedAtEpochMs j < le_expiresAtEpochMs c \<and> le_expiresAtEpochMs c < ri_expiresAtEpochMs j \<and>
             l = c\<lparr>le_expiresAtEpochMs := ri_expiresAtEpochMs j\<rparr> \<and> m' = m(ri_exchangeAccountId j \<mapsto> l))
      | _ \<Rightarrow> m' = m)"

definition release_post :: "lease_map \<Rightarrow> string \<Rightarrow> string \<Rightarrow> bool res \<Rightarrow> lease_map \<Rightarrow> bool" where
  "release_post m a tok r m' \<longleftrightarrow>
     (case r of
        Inr True \<Rightarrow> (\<exists>c. m a = Some c \<and> le_ownerToken c = tok) \<and> m' = m(a := None)
      | _ \<Rightarrow> m' = m)"

lemmas lease_posts = acquire_post_def renew_post_def release_post_def

locale lease_store =
  fixes getL :: "'s \<Rightarrow> string \<Rightarrow> AccountExecutionLeaseRecord option"
    and acquire :: "AcquireAccountExecutionLeaseInput \<Rightarrow> ('s, js_error, AccountExecutionLeaseRecord option) sm"
    and renew :: "RenewAccountExecutionLeaseInput \<Rightarrow> ('s, js_error, AccountExecutionLeaseRecord option) sm"
    and release :: "string \<Rightarrow> string \<Rightarrow> ('s, js_error, bool) sm"
    and inv :: "'s \<Rightarrow> bool"
  assumes acquire_law: "inv s \<Longrightarrow> acquire i s = (r, s') \<Longrightarrow> inv s' \<and> acquire_post (getL s) i r (getL s')"
    and renew_law: "inv s \<Longrightarrow> renew j s = (r, s') \<Longrightarrow> inv s' \<and> renew_post (getL s) j r (getL s')"
    and release_law: "inv s \<Longrightarrow> release a tok s = (q, s') \<Longrightarrow> inv s' \<and> release_post (getL s) a tok q (getL s')"
    and release_owner: "inv s \<Longrightarrow> getL s a = Some c \<Longrightarrow> fst (release a (le_ownerToken c) s) = Inr True"

datatype lease_op =
    OpAcquire AcquireAccountExecutionLeaseInput
  | OpRenew RenewAccountExecutionLeaseInput
  | OpRelease string string

text \<open>An operation that may end or replace the lease \<open>l\<close> of account \<open>a\<close>: its release, or an acquisition at or after its expiry.\<close>

fun threatens :: "string \<Rightarrow> AccountExecutionLeaseRecord \<Rightarrow> lease_op \<Rightarrow> bool" where
  "threatens a l (OpAcquire i) \<longleftrightarrow> ai_exchangeAccountId i = a \<and> le_expiresAtEpochMs l \<le> ai_acquiredAtEpochMs i"
| "threatens a l (OpRenew j) \<longleftrightarrow> False"
| "threatens a l (OpRelease b tok) \<longleftrightarrow> b = a \<and> tok = le_ownerToken l"

text \<open>One call on a store, its answer and the state it leaves; then a whole sequence of calls.\<close>

datatype lease_answer = LeaseAnswer "AccountExecutionLeaseRecord option res" | ReleaseAnswer "bool res"

fun lease_call ::
  "(AcquireAccountExecutionLeaseInput \<Rightarrow> ('s, js_error, AccountExecutionLeaseRecord option) sm) \<Rightarrow>
   (RenewAccountExecutionLeaseInput \<Rightarrow> ('s, js_error, AccountExecutionLeaseRecord option) sm) \<Rightarrow>
   (string \<Rightarrow> string \<Rightarrow> ('s, js_error, bool) sm) \<Rightarrow> lease_op \<Rightarrow> 's \<Rightarrow> lease_answer \<times> 's" where
  "lease_call acq ren rel (OpAcquire i) s = map_prod LeaseAnswer id (acq i s)"
| "lease_call acq ren rel (OpRenew j) s = map_prod LeaseAnswer id (ren j s)"
| "lease_call acq ren rel (OpRelease a tok) s = map_prod ReleaseAnswer id (rel a tok s)"

fun lease_calls :: "(lease_op \<Rightarrow> 's \<Rightarrow> lease_answer \<times> 's) \<Rightarrow> lease_op list \<Rightarrow> 's \<Rightarrow> lease_answer list \<times> 's" where
  "lease_calls f [] s = ([], s)"
| "lease_calls f (p # ps) s = (case f p s of (r, s') \<Rightarrow> case lease_calls f ps s' of (rs, s'') \<Rightarrow> (r # rs, s''))"

lemma snd_lease_calls: "snd (lease_calls f ps s) = fold (\<lambda>p s. snd (f p s)) ps s"
  by (induction ps arbitrary: s) (simp_all add: case_prod_beta)

context lease_store
begin

definition step :: "lease_op \<Rightarrow> 's \<Rightarrow> 's" where
  "step p s = snd (lease_call acquire renew release p s)"

lemma step_simps [simp]:
  "step (OpAcquire i) s = snd (acquire i s)"
  "step (OpRenew j) s = snd (renew j s)"
  "step (OpRelease a tok) s = snd (release a tok s)"
  by (simp_all add: step_def)

lemma step_inv: "inv s \<Longrightarrow> inv (step p s)"
proof (cases p)
  case (OpAcquire i)
  then show "inv s \<Longrightarrow> inv (step p s)" using acquire_law [of s i "fst (acquire i s)" "snd (acquire i s)"] by simp
next
  case (OpRenew j)
  then show "inv s \<Longrightarrow> inv (step p s)" using renew_law [of s j "fst (renew j s)" "snd (renew j s)"] by simp
next
  case (OpRelease a tok)
  then show "inv s \<Longrightarrow> inv (step p s)"
    using release_law [of s a tok "fst (release a tok s)" "snd (release a tok s)"] by simp
qed

lemma step_keeps:
  assumes "inv s" and "getL s a = Some l" and "\<not> threatens a l p"
  shows "\<exists>l'. getL (step p s) a = Some l' \<and> le_ownerToken l' = le_ownerToken l \<and>
    le_acquiredAtEpochMs l' = le_acquiredAtEpochMs l \<and> le_expiresAtEpochMs l \<le> le_expiresAtEpochMs l'"
proof (cases p)
  case (OpAcquire i)
  obtain r s' where run: "acquire i s = (r, s')" by fastforce
  from acquire_law [OF assms(1) run] assms OpAcquire run show ?thesis
    by (cases r) (auto simp: acquire_post_def leaseFromInput_def split: option.splits if_splits)
next
  case (OpRenew j)
  obtain r s' where run: "renew j s = (r, s')" by fastforce
  from renew_law [OF assms(1) run] assms OpRenew run show ?thesis
    by (cases r) (auto simp: renew_post_def split: option.splits if_splits)
next
  case (OpRelease b tok)
  obtain r s' where run: "release b tok s = (r, s')" by fastforce
  from release_law [OF assms(1) run] assms OpRelease run show ?thesis
    by (cases r) (auto simp: release_post_def split: bool.splits if_splits)
qed

lemma threatens_mono:
  "le_ownerToken l' = le_ownerToken l \<Longrightarrow> le_expiresAtEpochMs l \<le> le_expiresAtEpochMs l' \<Longrightarrow>
   \<not> threatens a l p \<Longrightarrow> \<not> threatens a l' p"
  by (cases p) auto

lemma fold_keeps:
  "inv s \<Longrightarrow> getL s a = Some l \<Longrightarrow> (\<forall>p\<in>set ps. \<not> threatens a l p) \<Longrightarrow>
   \<exists>l'. getL (fold step ps s) a = Some l' \<and> le_ownerToken l' = le_ownerToken l \<and>
     le_acquiredAtEpochMs l' = le_acquiredAtEpochMs l \<and> le_expiresAtEpochMs l \<le> le_expiresAtEpochMs l'"
proof (induction ps arbitrary: s l)
  case Nil
  then show ?case by simp
next
  case (Cons p ps)
  from step_keeps [OF Cons.prems(1,2)] Cons.prems(3) obtain l' where
    l': "getL (step p s) a = Some l'" "le_ownerToken l' = le_ownerToken l"
      "le_acquiredAtEpochMs l' = le_acquiredAtEpochMs l" "le_expiresAtEpochMs l \<le> le_expiresAtEpochMs l'"
    by auto
  have "\<forall>q\<in>set ps. \<not> threatens a l' q"
    using Cons.prems(3) threatens_mono [OF l'(2,4)] by auto
  from Cons.IH [OF step_inv [OF Cons.prems(1)] l'(1) this] l' show ?case
    by fastforce
qed

lemma calls_keep:
  assumes "inv s" and "getL s a = Some l" and "\<forall>p\<in>set ps. \<not> threatens a l p"
  shows "\<exists>l'. getL (snd (lease_calls (lease_call acquire renew release) ps s)) a = Some l' \<and>
    le_ownerToken l' = le_ownerToken l \<and> le_acquiredAtEpochMs l' = le_acquiredAtEpochMs l \<and>
    le_expiresAtEpochMs l \<le> le_expiresAtEpochMs l'"
  using fold_keeps [OF assms] by (simp add: snd_lease_calls step_def [abs_def])

lemma acquire_while_held:
  assumes "inv s" and "getL s (ai_exchangeAccountId i) = Some l" and "ai_acquiredAtEpochMs i < le_expiresAtEpochMs l"
    and "acquire i s = (r, s')"
  shows "\<forall>x. r \<noteq> Inr (Some x)"
  using acquire_law [OF assms(1,4)] assms(2,3) by (auto simp: acquire_post_def)

end

subsection \<open>The in-memory store\<close>

definition mem_getLease :: "lease_map \<Rightarrow> string \<Rightarrow> AccountExecutionLeaseRecord option" where
  "mem_getLease leases exchangeAccountId = leases exchangeAccountId"

definition mem_acquireLease ::
  "(string \<Rightarrow> SubmissionBlockingOrderEvidence list) \<Rightarrow> AcquireAccountExecutionLeaseInput \<Rightarrow>
   (lease_map, js_error, AccountExecutionLeaseRecord option) sm" where
  "mem_acquireLease listOrderEvidence input leases =
     (case validateLeaseWindow (ai_ownerToken input) (ai_acquiredAtEpochMs input) (ai_expiresAtEpochMs input) of
        Inl e \<Rightarrow> (Inl e, leases)
      | Inr _ \<Rightarrow>
          if list_ex (\<lambda>evidence. bc_blocking (classifySubmissionBlockingOrder evidence))
               (listOrderEvidence (ai_exchangeAccountId input))
          then (Inr None, leases)
          else if (case leases (ai_exchangeAccountId input) of None \<Rightarrow> False
                   | Some current \<Rightarrow> ai_acquiredAtEpochMs input < le_expiresAtEpochMs current)
          then (Inr None, leases)
          else (Inr (Some (leaseFromInput input)),
                leases(ai_exchangeAccountId input \<mapsto> leaseFromInput input)))"

definition mem_renewLease ::
  "RenewAccountExecutionLeaseInput \<Rightarrow> (lease_map, js_error, AccountExecutionLeaseRecord option) sm" where
  "mem_renewLease input leases =
     (case validateLeaseWindow (ri_ownerToken input) (ri_renewedAtEpochMs input) (ri_expiresAtEpochMs input) of
        Inl e \<Rightarrow> (Inl e, leases)
      | Inr _ \<Rightarrow>
          (case leases (ri_exchangeAccountId input) of
             None \<Rightarrow> (Inr None, leases)
           | Some current \<Rightarrow>
               if le_ownerToken current \<noteq> ri_ownerToken input \<or>
                  le_expiresAtEpochMs current \<le> ri_renewedAtEpochMs input \<or>
                  ri_expiresAtEpochMs input \<le> le_expiresAtEpochMs current
               then (Inr None, leases)
               else let renewed = current\<lparr>le_expiresAtEpochMs := ri_expiresAtEpochMs input\<rparr>
                    in (Inr (Some renewed), leases(ri_exchangeAccountId input \<mapsto> renewed))))"

definition mem_releaseLease :: "string \<Rightarrow> string \<Rightarrow> (lease_map, js_error, bool) sm" where
  "mem_releaseLease exchangeAccountId ownerToken leases =
     (case leases exchangeAccountId of
        None \<Rightarrow> (Inr False, leases)
      | Some current \<Rightarrow>
          if le_ownerToken current \<noteq> ownerToken then (Inr False, leases)
          else (Inr True, leases(exchangeAccountId := None)))"

subsection \<open>The SQLite store\<close>

record lease_db =
  db_accounts :: "string list"
  db_leases :: "AccountExecutionLeaseRecord list"
  db_orders :: "OrderRecord list"
  db_events :: "OrderEventRecord list"
  db_observations :: "OrderSubmissionRecoveryObservationRecord list"

definition selectLease :: "lease_db \<Rightarrow> string \<Rightarrow> AccountExecutionLeaseRecord option" where
  "selectLease db acct = find (\<lambda>row. le_exchangeAccountId row = acct) (db_leases db)"

text \<open>\<open>ORDER BY updated_at DESC, id DESC\<close> and the two ascending orders of the child rows.\<close>

definition orderRowsDesc :: "OrderRecord \<Rightarrow> OrderRecord \<Rightarrow> bool" where
  "orderRowsDesc a b \<longleftrightarrow> or_updatedAt b < or_updatedAt a \<or> (or_updatedAt a = or_updatedAt b \<and> or_id b \<le> or_id a)"

definition eventRowsAsc :: "OrderEventRecord \<Rightarrow> OrderEventRecord \<Rightarrow> bool" where
  "eventRowsAsc a b \<longleftrightarrow> ev_createdAt a < ev_createdAt b \<or> (ev_createdAt a = ev_createdAt b \<and> ev_id a \<le> ev_id b)"

definition observationRowsAsc ::
  "OrderSubmissionRecoveryObservationRecord \<Rightarrow> OrderSubmissionRecoveryObservationRecord \<Rightarrow> bool" where
  "observationRowsAsc a b \<longleftrightarrow> ob_observedAtEpochMs a < ob_observedAtEpochMs b \<or>
     (ob_observedAtEpochMs a = ob_observedAtEpochMs b \<and> ob_id a \<le> ob_id b)"

definition sqlEvidence :: "lease_db \<Rightarrow> OrderRecord \<Rightarrow> SubmissionBlockingOrderEvidence" where
  "sqlEvidence db row =
     \<lparr>be_order = row,
      be_events = sort_by eventRowsAsc (filter (\<lambda>event. ev_orderId event = or_id row) (db_events db)),
      be_recoveryObservations =
        sort_by observationRowsAsc (filter (\<lambda>ob. ob_orderId ob = or_id row) (db_observations db))\<rparr>"

definition hasBlockingOrder :: "lease_db \<Rightarrow> string \<Rightarrow> bool" where
  "hasBlockingOrder db acct =
     list_ex (\<lambda>row. bc_blocking (classifySubmissionBlockingOrder (sqlEvidence db row)))
       (sort_by orderRowsDesc
         (filter (\<lambda>row. oi_exchangeAccountId row = acct \<and>
             or_status row \<in> set SUBMISSION_BLOCKING_CANDIDATE_STATUSES) (db_orders db)))"

text \<open>\<open>UPDATE ... SET ... WHERE\<close>: the rows that match are rewritten; \<open>changes\<close> is their number.\<close>

definition sqlUpdate :: "('a \<Rightarrow> bool) \<Rightarrow> ('a \<Rightarrow> 'a) \<Rightarrow> 'a list \<Rightarrow> nat \<times> 'a list" where
  "sqlUpdate p f rows = (length (filter p rows), map (\<lambda>r. if p r then f r else r) rows)"

text \<open>
  \<open>FOREIGN KEY (exchange_account_id) REFERENCES exchange_accounts(id)\<close> with \<open>PRAGMA foreign_keys = ON\<close>: the insertion of
  a lease of an account without a row throws, and the transaction is rolled back.
\<close>

definition foreignKeyError :: js_error where
  "foreignKeyError = Error ''FOREIGN KEY constraint failed''"

definition sql_acquireLease ::
  "AcquireAccountExecutionLeaseInput \<Rightarrow> (lease_db, js_error, AccountExecutionLeaseRecord option) sm" where
  "sql_acquireLease input db =
     (case validateLeaseWindow (ai_ownerToken input) (ai_acquiredAtEpochMs input) (ai_expiresAtEpochMs input) of
        Inl e \<Rightarrow> (Inl e, db)
      | Inr _ \<Rightarrow>
          (let current = selectLease db (ai_exchangeAccountId input)
           in if hasBlockingOrder db (ai_exchangeAccountId input) then (Inr None, db)
              else case current of
                None \<Rightarrow>
                  if ai_exchangeAccountId input \<notin> set (db_accounts db) then (Inl foreignKeyError, db)
                  else (Inr (Some (leaseFromInput input)), db\<lparr>db_leases := db_leases db @ [leaseFromInput input]\<rparr>)
              | Some row \<Rightarrow>
                  if ai_acquiredAtEpochMs input < le_expiresAtEpochMs row then (Inr None, db)
                  else (case sqlUpdate
                          (\<lambda>r. le_exchangeAccountId r = ai_exchangeAccountId input \<and>
                               le_ownerToken r = le_ownerToken row \<and>
                               le_expiresAtEpochMs r \<le> ai_acquiredAtEpochMs input)
                          (\<lambda>r. r\<lparr>le_ownerToken := ai_ownerToken input, le_purpose := ai_purpose input,
                                 le_acquiredAtEpochMs := ai_acquiredAtEpochMs input,
                                 le_expiresAtEpochMs := ai_expiresAtEpochMs input\<rparr>)
                          (db_leases db) of
                        (changes, rows) \<Rightarrow>
                          (Inr (if changes = 1 then Some (leaseFromInput input) else None),
                           db\<lparr>db_leases := rows\<rparr>))))"

definition sql_renewLease ::
  "RenewAccountExecutionLeaseInput \<Rightarrow> (lease_db, js_error, AccountExecutionLeaseRecord option) sm" where
  "sql_renewLease input db =
     (case validateLeaseWindow (ri_ownerToken input) (ri_renewedAtEpochMs input) (ri_expiresAtEpochMs input) of
        Inl e \<Rightarrow> (Inl e, db)
      | Inr _ \<Rightarrow>
          (case sqlUpdate
                  (\<lambda>r. le_exchangeAccountId r = ri_exchangeAccountId input \<and>
                       le_ownerToken r = ri_ownerToken input \<and>
                       ri_renewedAtEpochMs input < le_expiresAtEpochMs r \<and>
                       le_expiresAtEpochMs r < ri_expiresAtEpochMs input)
                  (\<lambda>r. r\<lparr>le_expiresAtEpochMs := ri_expiresAtEpochMs input\<rparr>)
                  (db_leases db) of
             (changes, rows) \<Rightarrow>
               (let db' = db\<lparr>db_leases := rows\<rparr>
                in (Inr (if changes \<noteq> 1 then None else selectLease db' (ri_exchangeAccountId input)), db'))))"

definition sql_releaseLease :: "string \<Rightarrow> string \<Rightarrow> (lease_db, js_error, bool) sm" where
  "sql_releaseLease exchangeAccountId ownerToken db =
     (if is_blank ownerToken then (Inr False, db)
      else let gone = (\<lambda>r. le_exchangeAccountId r = exchangeAccountId \<and> le_ownerToken r = ownerToken)
           in (Inr (length (filter gone (db_leases db)) = 1),
               db\<lparr>db_leases := filter (\<lambda>r. \<not> gone r) (db_leases db)\<rparr>))"

subsection \<open>The map-based store is a lease store\<close>

definition lease_ok :: "string \<Rightarrow> AccountExecutionLeaseRecord \<Rightarrow> bool" where
  "lease_ok a l \<longleftrightarrow> le_exchangeAccountId l = a \<and> \<not> is_blank (le_ownerToken l) \<and>
     le_acquiredAtEpochMs l < le_expiresAtEpochMs l"

definition mem_inv :: "lease_map \<Rightarrow> bool" where
  "mem_inv leases \<longleftrightarrow> (\<forall>a l. leases a = Some l \<longrightarrow> lease_ok a l)"

lemma mem_inv_empty [simp]: "mem_inv Map.empty"
  by (simp add: mem_inv_def)

lemma mem_invD: "mem_inv s \<Longrightarrow> s a = Some l \<Longrightarrow> lease_ok a l"
  by (simp add: mem_inv_def)

lemma mem_inv_upd: "mem_inv s \<Longrightarrow> lease_ok a l \<Longrightarrow> mem_inv (s(a \<mapsto> l))"
  by (simp add: mem_inv_def)

lemma mem_inv_del: "mem_inv s \<Longrightarrow> mem_inv (s(a := None))"
  by (simp add: mem_inv_def)

lemma lease_ok_input:
  "validateLeaseWindow (ai_ownerToken i) (ai_acquiredAtEpochMs i) (ai_expiresAtEpochMs i) = Inr () \<Longrightarrow>
   lease_ok (ai_exchangeAccountId i) (leaseFromInput i)"
  by (simp add: validateLeaseWindow_ok lease_ok_def leaseFromInput_def)

lemma lease_ok_extend:
  "lease_ok a l \<Longrightarrow> le_expiresAtEpochMs l < e \<Longrightarrow> lease_ok a (l\<lparr>le_expiresAtEpochMs := e\<rparr>)"
  by (simp add: lease_ok_def)

lemma mem_getLease_eq [simp]: "mem_getLease s = s"
  by (rule ext) (simp add: mem_getLease_def)

lemma mem_acquire_law:
  assumes "mem_inv s" and run: "mem_acquireLease ev i s = (r, s')"
  shows "mem_inv s' \<and> acquire_post s i r s'"
proof (cases "validateLeaseWindow (ai_ownerToken i) (ai_acquiredAtEpochMs i) (ai_expiresAtEpochMs i)")
  case (Inl e)
  with assms show ?thesis by (auto simp: mem_acquireLease_def acquire_post_def)
next
  case (Inr u)
  then have "\<not> is_blank (ai_ownerToken i)" "ai_acquiredAtEpochMs i < ai_expiresAtEpochMs i"
    using validateLeaseWindow_ok by simp_all
  with assms Inr show ?thesis
    by (auto simp: mem_acquireLease_def acquire_post_def lease_ok_input
        intro!: mem_inv_upd split: if_splits option.splits)
qed

lemma mem_renew_law:
  assumes "mem_inv s" and run: "mem_renewLease j s = (r, s')"
  shows "mem_inv s' \<and> renew_post s j r s'"
  using assms
  by (auto simp: mem_renewLease_def renew_post_def Let_def
      intro!: mem_inv_upd lease_ok_extend dest: mem_invD split: sum.splits option.splits if_splits)

lemma mem_release_law:
  assumes "mem_inv s" and run: "mem_releaseLease a tok s = (r, s')"
  shows "mem_inv s' \<and> release_post s a tok r s'"
  using assms
  by (auto simp: mem_releaseLease_def release_post_def intro!: mem_inv_del split: option.splits if_splits)

interpretation mem: lease_store mem_getLease "mem_acquireLease ev" mem_renewLease mem_releaseLease mem_inv
  by unfold_locales
    (auto dest: mem_acquire_law mem_renew_law mem_release_law simp: mem_releaseLease_def)

subsection \<open>The table-based store is a lease store\<close>

text \<open>The primary key of the table: one row per account.\<close>

definition sql_inv :: "lease_db \<Rightarrow> bool" where
  "sql_inv db \<longleftrightarrow> distinct (map le_exchangeAccountId (db_leases db)) \<and>
     (\<forall>l\<in>set (db_leases db). lease_ok (le_exchangeAccountId l) l)"

lemma filter_key_length:
  assumes "distinct (map k xs)" and "\<And>r. p r \<Longrightarrow> k r = a"
  shows "length (filter p xs) = (case find (\<lambda>r. k r = a) xs of None \<Rightarrow> 0 | Some r \<Rightarrow> if p r then 1 else 0)"
  using assms
proof (induction xs)
  case Nil
  then show ?case by simp
next
  case (Cons x xs)
  have "k x = a \<Longrightarrow> filter p xs = []"
    using Cons.prems by (auto simp: filter_empty_conv image_iff)
  with Cons show ?case by (auto split: option.splits)
qed

lemma find_key_update:
  assumes "\<And>r. k (f r) = k r" and "\<And>r. p r \<Longrightarrow> k r = a"
  shows "find (\<lambda>r. k r = b) (map (\<lambda>r. if p r then f r else r) xs) =
    (if b = a then map_option (\<lambda>r. if p r then f r else r) (find (\<lambda>r. k r = a) xs) else find (\<lambda>r. k r = b) xs)"
  using assms by (induction xs) auto

lemma find_key_delete:
  assumes "distinct (map k xs)" and "\<And>r. p r \<Longrightarrow> k r = a"
  shows "find (\<lambda>r. k r = b) (filter (\<lambda>r. \<not> p r) xs) =
    (case find (\<lambda>r. k r = b) xs of None \<Rightarrow> None | Some r \<Rightarrow> if p r then None else Some r)"
  using assms
proof (induction xs)
  case Nil
  then show ?case by simp
next
  case (Cons x xs)
  have "k x = b \<Longrightarrow> find (\<lambda>r. k r = b) xs = None"
    using Cons.prems(1) by (auto simp: find_None_iff_set image_iff)
  with Cons show ?case by auto
qed

lemma sql_invD: "sql_inv db \<Longrightarrow> selectLease db a = Some l \<Longrightarrow> lease_ok a l"
  unfolding sql_inv_def selectLease_def by (auto dest: find_Some_set)

lemma sql_inv_update:
  assumes "sql_inv db" and "\<And>r. le_exchangeAccountId (f r) = le_exchangeAccountId r"
    and "\<And>r. p r \<Longrightarrow> lease_ok (le_exchangeAccountId r) r \<Longrightarrow> lease_ok (le_exchangeAccountId r) (f r)"
  shows "sql_inv (db\<lparr>db_leases := map (\<lambda>r. if p r then f r else r) (db_leases db)\<rparr>)"
proof -
  have "map (le_exchangeAccountId \<circ> (\<lambda>r. if p r then f r else r)) (db_leases db) =
      map le_exchangeAccountId (db_leases db)"
    using assms(2) by auto
  then have "distinct (map (le_exchangeAccountId \<circ> (\<lambda>r. if p r then f r else r)) (db_leases db))"
    using assms(1) unfolding sql_inv_def by metis
  with assms show ?thesis by (auto simp: sql_inv_def)
qed

lemma select_update:
  assumes "\<And>r. le_exchangeAccountId (f r) = le_exchangeAccountId r" and "\<And>r. p r \<Longrightarrow> le_exchangeAccountId r = a"
  shows "selectLease (db\<lparr>db_leases := map (\<lambda>r. if p r then f r else r) (db_leases db)\<rparr>) =
    (case selectLease db a of None \<Rightarrow> selectLease db
     | Some c \<Rightarrow> if p c then (selectLease db)(a \<mapsto> f c) else selectLease db)"
proof
  fix b
  show "selectLease (db\<lparr>db_leases := map (\<lambda>r. if p r then f r else r) (db_leases db)\<rparr>) b =
    (case selectLease db a of None \<Rightarrow> selectLease db
     | Some c \<Rightarrow> if p c then (selectLease db)(a \<mapsto> f c) else selectLease db) b"
    using find_key_update [of le_exchangeAccountId f p a b, OF assms, of "db_leases db"]
    by (auto simp: selectLease_def split: option.splits)
qed

lemma changes_update:
  assumes "sql_inv db" and "\<And>r. p r \<Longrightarrow> le_exchangeAccountId r = a"
  shows "length (filter p (db_leases db)) = (case selectLease db a of None \<Rightarrow> 0 | Some c \<Rightarrow> if p c then 1 else 0)"
  using filter_key_length [of le_exchangeAccountId "db_leases db" p a] assms
  by (simp add: sql_inv_def selectLease_def)

lemma select_insert:
  "selectLease db (le_exchangeAccountId l) = None \<Longrightarrow>
   selectLease (db\<lparr>db_leases := db_leases db @ [l]\<rparr>) = (selectLease db)(le_exchangeAccountId l \<mapsto> l)"
  by (rule ext) (auto simp: selectLease_def find_append split: option.splits)

lemma sql_inv_insert:
  "sql_inv db \<Longrightarrow> selectLease db (le_exchangeAccountId l) = None \<Longrightarrow> lease_ok (le_exchangeAccountId l) l \<Longrightarrow>
   sql_inv (db\<lparr>db_leases := db_leases db @ [l]\<rparr>)"
  by (auto simp: sql_inv_def selectLease_def find_None_iff_set)

text \<open>The classification looks at events as a set and at observations as a multiset, so the row order is irrelevant.\<close>

lemma list_ex_sort_by [simp]: "list_ex p (sort_by le xs) = list_ex p xs"
  by (simp add: list_ex_iff)

lemma notFoundEpochs_sort [simp]: "notFoundEpochs (sort_by le obs) = notFoundEpochs obs"
proof -
  have "mset (notFoundEpochs (sort_by le obs)) = mset (notFoundEpochs obs)"
    by (simp add: notFoundEpochs_def)
  then show ?thesis
    unfolding notFoundEpochs_def by (metis mset_sort properties_for_sort sorted_sort)
qed

lemma evidence_sort:
  "hasEvent t (sort_by le evs) = hasEvent t evs"
  "hasEventFrom t src (sort_by le evs) = hasEventFrom t src evs"
  "foundObserved (sort_by le' obs) = foundObserved obs"
  "boundedAbsenceObserved (sort_by le' obs) = boundedAbsenceObserved obs"
  "hasDispatchEvidence \<lparr>be_order = row, be_events = sort_by le evs, be_recoveryObservations = sort_by le' obs\<rparr> =
   hasDispatchEvidence \<lparr>be_order = row, be_events = evs, be_recoveryObservations = obs\<rparr>"
  by (simp_all add: hasEvent_def hasEventFrom_def foundObserved_def boundedAbsenceObserved_def hasDispatchEvidence_def)

lemma classify_sorted_evidence:
  "classifySubmissionBlockingOrder \<lparr>be_order = row, be_events = sort_by le evs, be_recoveryObservations = sort_by le' obs\<rparr> =
   classifySubmissionBlockingOrder \<lparr>be_order = row, be_events = evs, be_recoveryObservations = obs\<rparr>"
  by (simp only: classifySubmissionBlockingOrder_def SubmissionBlockingOrderEvidence.select_convs evidence_sort Let_def)

text \<open>The evidence of an account as the in-memory repository lists it: no prefilter and no order.\<close>

definition accountEvidence :: "lease_db \<Rightarrow> string \<Rightarrow> SubmissionBlockingOrderEvidence list" where
  "accountEvidence db acct =
     map (\<lambda>row. \<lparr>be_order = row, be_events = filter (\<lambda>event. ev_orderId event = or_id row) (db_events db),
                 be_recoveryObservations = filter (\<lambda>ob. ob_orderId ob = or_id row) (db_observations db)\<rparr>)
       (filter (\<lambda>row. oi_exchangeAccountId row = acct) (db_orders db))"

lemma hasBlockingOrder_eq:
  "hasBlockingOrder db acct =
     list_ex (\<lambda>e. bc_blocking (classifySubmissionBlockingOrder e)) (accountEvidence db acct)"
proof -
  have "bc_blocking (classifySubmissionBlockingOrder \<lparr>be_order = row, be_events = evs, be_recoveryObservations = obs\<rparr>) \<Longrightarrow>
      or_status row \<in> set SUBMISSION_BLOCKING_CANDIDATE_STATUSES" for row evs obs
    using blocks_candidate by (fastforce simp: blocks_def)
  then show ?thesis
    by (auto simp: hasBlockingOrder_def accountEvidence_def sqlEvidence_def classify_sorted_evidence list_ex_iff)
qed

text \<open>
  Every call on the table is the same call on the map of its rows, but that the first lease of an account needs the
  account's row.
\<close>

definition withForeignKey ::
  "string list \<Rightarrow> (AcquireAccountExecutionLeaseInput \<Rightarrow> (lease_map, js_error, AccountExecutionLeaseRecord option) sm) \<Rightarrow>
   AcquireAccountExecutionLeaseInput \<Rightarrow> (lease_map, js_error, AccountExecutionLeaseRecord option) sm" where
  "withForeignKey accounts acquire i leases = (case acquire i leases of (r, leases') \<Rightarrow>
     if (\<exists>l. r = Inr (Some l)) \<and> leases (ai_exchangeAccountId i) = None \<and> ai_exchangeAccountId i \<notin> set accounts
     then (Inl foreignKeyError, leases) else (r, leases'))"

lemma withForeignKey_registered: "ai_exchangeAccountId i \<in> set accounts \<Longrightarrow> withForeignKey accounts acquire i = acquire i"
  by (rule ext) (simp add: withForeignKey_def split: prod.split)

lemma withForeignKey_law:
  assumes "mem_inv s" "withForeignKey accounts (mem_acquireLease ev) i s = (r, s')"
  shows "mem_inv s' \<and> acquire_post s i r s'"
  using assms mem_acquire_law [OF assms(1), of ev i]
  by (auto simp: withForeignKey_def acquire_post_def split: prod.splits if_splits)

lemma sql_acquire_sim:
  assumes inv: "sql_inv db" and run: "sql_acquireLease i db = (r, db')"
  shows "withForeignKey (db_accounts db) (mem_acquireLease (accountEvidence db)) i (selectLease db) = (r, selectLease db') \<and> sql_inv db'"
proof (cases "validateLeaseWindow (ai_ownerToken i) (ai_acquiredAtEpochMs i) (ai_expiresAtEpochMs i)")
  case (Inl e)
  with assms show ?thesis by (auto simp: sql_acquireLease_def mem_acquireLease_def withForeignKey_def)
next
  case (Inr u)
  let ?a = "ai_exchangeAccountId i" and ?l = "leaseFromInput i"
  have ok: "lease_ok ?a ?l" and key: "le_exchangeAccountId ?l = ?a"
    using Inr lease_ok_input by (auto simp: leaseFromInput_def)
  consider "hasBlockingOrder db ?a" | "\<not> hasBlockingOrder db ?a" "selectLease db ?a = None"
    | row where "\<not> hasBlockingOrder db ?a" "selectLease db ?a = Some row" by fastforce
  then show ?thesis
  proof cases
    case 1
    with inv run Inr show ?thesis
      by (auto simp: sql_acquireLease_def mem_acquireLease_def withForeignKey_def hasBlockingOrder_eq)
  next
    case 2
    with inv run Inr ok key select_insert [of db ?l] sql_inv_insert [of db ?l] show ?thesis
      by (auto simp: sql_acquireLease_def mem_acquireLease_def withForeignKey_def hasBlockingOrder_eq)
  next
    case 3
    define p where "p r \<longleftrightarrow> le_exchangeAccountId r = ?a \<and> le_ownerToken r = le_ownerToken row \<and>
       le_expiresAtEpochMs r \<le> ai_acquiredAtEpochMs i" for r :: AccountExecutionLeaseRecord
    define f where "f r = r\<lparr>le_ownerToken := ai_ownerToken i, le_purpose := ai_purpose i,
       le_acquiredAtEpochMs := ai_acquiredAtEpochMs i, le_expiresAtEpochMs := ai_expiresAtEpochMs i\<rparr>"
      for r :: AccountExecutionLeaseRecord
    let ?db = "db\<lparr>db_leases := map (\<lambda>r. if p r then f r else r) (db_leases db)\<rparr>"
    have row: "lease_ok ?a row" using sql_invD [OF inv 3(2)] .
    then have frow: "f row = ?l" by (cases row) (simp add: lease_ok_def leaseFromInput_def f_def)
    have inv': "sql_inv ?db"
      using inv ok by (intro sql_inv_update) (auto simp: lease_ok_def leaseFromInput_def f_def)
    have run': "sql_acquireLease i db = (if ai_acquiredAtEpochMs i < le_expiresAtEpochMs row then (Inr None, db)
        else (Inr (if length (filter p (db_leases db)) = 1 then Some ?l else None), ?db))"
      unfolding p_def f_def using Inr 3 by (simp add: sql_acquireLease_def sqlUpdate_def)
    have "p row \<longleftrightarrow> \<not> ai_acquiredAtEpochMs i < le_expiresAtEpochMs row"
      using row by (auto simp: p_def lease_ok_def)
    then show ?thesis
      using select_update [of f p ?a db] changes_update [OF inv, of p ?a] inv inv' run run' Inr 3 frow
      by (auto simp: mem_acquireLease_def withForeignKey_def hasBlockingOrder_eq p_def f_def split: if_splits)
  qed
qed

lemma sql_renew_sim:
  assumes inv: "sql_inv db" and run: "sql_renewLease j db = (r, db')"
  shows "mem_renewLease j (selectLease db) = (r, selectLease db') \<and> sql_inv db'"
proof (cases "validateLeaseWindow (ri_ownerToken j) (ri_renewedAtEpochMs j) (ri_expiresAtEpochMs j)")
  case (Inl e)
  with assms show ?thesis by (auto simp: sql_renewLease_def mem_renewLease_def)
next
  case (Inr u)
  let ?a = "ri_exchangeAccountId j"
  define p where "p r \<longleftrightarrow> le_exchangeAccountId r = ?a \<and> le_ownerToken r = ri_ownerToken j \<and>
     ri_renewedAtEpochMs j < le_expiresAtEpochMs r \<and> le_expiresAtEpochMs r < ri_expiresAtEpochMs j"
    for r :: AccountExecutionLeaseRecord
  define f where "f r = r\<lparr>le_expiresAtEpochMs := ri_expiresAtEpochMs j\<rparr>" for r :: AccountExecutionLeaseRecord
  let ?db = "db\<lparr>db_leases := map (\<lambda>r. if p r then f r else r) (db_leases db)\<rparr>"
  have inv': "sql_inv ?db"
    using inv by (intro sql_inv_update) (auto simp: p_def f_def intro: lease_ok_extend)
  have run': "sql_renewLease j db =
      (Inr (if length (filter p (db_leases db)) \<noteq> 1 then None else selectLease ?db ?a), ?db)"
    unfolding p_def f_def using Inr by (simp add: sql_renewLease_def sqlUpdate_def Let_def)
  have "selectLease db ?a = Some c \<Longrightarrow> le_exchangeAccountId c = ?a" for c
    using sql_invD [OF inv] by (simp add: lease_ok_def)
  then show ?thesis
    using select_update [of f p ?a db] changes_update [OF inv, of p ?a] inv' run run' Inr
    by (auto simp: mem_renewLease_def Let_def p_def f_def split: option.splits if_splits)
qed

lemma sql_release_sim:
  assumes inv: "sql_inv db" and run: "sql_releaseLease a tok db = (r, db')"
  shows "mem_releaseLease a tok (selectLease db) = (r, selectLease db') \<and> sql_inv db'"
proof -
  define p where "p r \<longleftrightarrow> le_exchangeAccountId r = a \<and> le_ownerToken r = tok" for r :: AccountExecutionLeaseRecord
  let ?db = "db\<lparr>db_leases := filter (\<lambda>r. \<not> p r) (db_leases db)\<rparr>"
  have sel: "selectLease ?db b = (case selectLease db b of None \<Rightarrow> None | Some r \<Rightarrow> if p r then None else Some r)" for b
    using inv find_key_delete [where k = le_exchangeAccountId and xs = "db_leases db" and p = p and a = a and b = b]
    by (simp add: sql_inv_def selectLease_def p_def)
  have cnt: "length (filter p (db_leases db)) = (case selectLease db a of None \<Rightarrow> 0 | Some c \<Rightarrow> if p c then 1 else 0)"
    by (rule changes_update [OF inv]) (simp add: p_def)
  have inv': "sql_inv ?db"
    using inv by (auto simp: sql_inv_def distinct_map inj_on_def)
  have key: "selectLease db b = Some c \<Longrightarrow> le_exchangeAccountId c = b \<and> \<not> is_blank (le_ownerToken c)" for b c
    using sql_invD [OF inv] by (auto simp: lease_ok_def)
  have "selectLease ?db = (if \<exists>c. selectLease db a = Some c \<and> le_ownerToken c = tok
      then (selectLease db)(a := None) else selectLease db)"
    by (rule ext, unfold sel) (auto simp: p_def dest: key split: option.splits)
  moreover have "sql_releaseLease a tok db = (if is_blank tok then (Inr False, db)
      else (Inr (length (filter p (db_leases db)) = 1), ?db))"
    unfolding p_def by (simp add: sql_releaseLease_def Let_def)
  ultimately show ?thesis
    using run cnt inv inv' key [of a]
    by (cases "selectLease db a") (auto simp: mem_releaseLease_def p_def split: if_splits)
qed

lemmas sql_sims = sql_acquire_sim sql_renew_sim sql_release_sim

interpretation sql: lease_store selectLease sql_acquireLease sql_renewLease sql_releaseLease sql_inv
proof unfold_locales
  have mem: "sql_inv db \<Longrightarrow> mem_inv (selectLease db)" for db
    by (simp add: mem_inv_def sql_invD)
  show "sql_inv s' \<and> acquire_post (selectLease s) i r (selectLease s')"
    if "sql_inv s" "sql_acquireLease i s = (r, s')" for s i r s'
    using sql_acquire_sim [OF that] withForeignKey_law [OF mem [OF that(1)]] by auto
  show "sql_inv s' \<and> renew_post (selectLease s) j r (selectLease s')"
    if "sql_inv s" "sql_renewLease j s = (r, s')" for s j r s'
    using sql_renew_sim [OF that] mem_renew_law [OF mem [OF that(1)]] by auto
  show "sql_inv s' \<and> release_post (selectLease s) a tok r (selectLease s')"
    if "sql_inv s" "sql_releaseLease a tok s = (r, s')" for s a tok r s'
    using sql_release_sim [OF that] mem_release_law [OF mem [OF that(1)]] by auto
  show "fst (sql_releaseLease a (le_ownerToken c) s) = Inr True"
    if "sql_inv s" "selectLease s a = Some c" for s a c
    using sql_release_sim [OF that(1), of a "le_ownerToken c"] that(2)
    by (cases "sql_releaseLease a (le_ownerToken c) s") (auto simp: mem_releaseLease_def)
qed

lemmas sql_step_defs = sql_acquireLease_def sql_renewLease_def sql_releaseLease_def sqlUpdate_def Let_def

lemma sql_call_orders:
  "accountEvidence (snd (lease_call sql_acquireLease sql_renewLease sql_releaseLease p db)) = accountEvidence db"
  "db_accounts (snd (lease_call sql_acquireLease sql_renewLease sql_releaseLease p db)) = db_accounts db"
  by (rule ext, cases p; simp add: sql_step_defs accountEvidence_def split: sum.split option.split)
    (cases p; simp add: sql_step_defs split: sum.split option.split)

lemma sql_call_sim:
  assumes "sql_inv db"
  shows "lease_call (withForeignKey (db_accounts db) (mem_acquireLease (accountEvidence db))) mem_renewLease mem_releaseLease p (selectLease db) =
      map_prod id selectLease (lease_call sql_acquireLease sql_renewLease sql_releaseLease p db)"
    and "sql_inv (snd (lease_call sql_acquireLease sql_renewLease sql_releaseLease p db))"
proof -
  let ?acq = "sql_acquireLease" and ?ren = "sql_renewLease" and ?rel = "sql_releaseLease"
  have "lease_call (withForeignKey (db_accounts db) (mem_acquireLease (accountEvidence db))) mem_renewLease mem_releaseLease p (selectLease db) =
      map_prod id selectLease (lease_call ?acq ?ren ?rel p db) \<and> sql_inv (snd (lease_call ?acq ?ren ?rel p db))"
  proof (cases p)
    case (OpAcquire i)
    then show ?thesis using sql_acquire_sim [OF assms, of i] by (cases "?acq i db") simp
  next
    case (OpRenew j)
    then show ?thesis using sql_renew_sim [OF assms, of j] by (cases "?ren j db") simp
  next
    case (OpRelease a tok)
    then show ?thesis using sql_release_sim [OF assms, of a tok] by (cases "?rel a tok db") simp
  qed
  then show "lease_call (withForeignKey (db_accounts db) (mem_acquireLease (accountEvidence db))) mem_renewLease mem_releaseLease p (selectLease db) =
      map_prod id selectLease (lease_call ?acq ?ren ?rel p db)"
    and "sql_inv (snd (lease_call ?acq ?ren ?rel p db))" by auto
qed

lemma sql_calls_sim:
  "sql_inv db \<Longrightarrow>
   lease_calls (lease_call (withForeignKey (db_accounts db) (mem_acquireLease (accountEvidence db))) mem_renewLease mem_releaseLease) ps (selectLease db) =
   map_prod id selectLease (lease_calls (lease_call sql_acquireLease sql_renewLease sql_releaseLease) ps db)"
proof (induction ps arbitrary: db)
  case Nil
  then show ?case by simp
next
  case (Cons p ps)
  obtain r db' where run: "lease_call sql_acquireLease sql_renewLease sql_releaseLease p db = (r, db')"
    by fastforce
  with sql_call_sim [OF Cons.prems, of p] sql_call_orders [of p db] Cons.IH [of db'] show ?case
    by (auto split: prod.splits)
qed

lemma registered_calls:
  assumes "\<forall>i. OpAcquire i \<in> set ps \<longrightarrow> ai_exchangeAccountId i \<in> set accounts"
  shows "lease_calls (lease_call (withForeignKey accounts acquire) renew release) ps m = lease_calls (lease_call acquire renew release) ps m"
  using assms
proof (induction ps arbitrary: m)
  case (Cons p ps)
  then have "lease_call (withForeignKey accounts acquire) renew release p m = lease_call acquire renew release p m"
    by (cases p) (simp_all add: withForeignKey_registered)
  with Cons show ?case by (simp split: prod.splits)
qed simp

subsection \<open>Properties\<close>

text \<open>
  C27. For every database that respects the table's constraints and every sequence of acquisitions, renewals and
  releases, the SQLite lease store answers as the in-memory store with the foreign key added to it: where the in-memory
  store would grant the first lease of an account that has no row in \<open>exchange_accounts\<close>, SQLite throws and stores nothing.
  On sequences that acquire leases of registered accounts only, both give the same answers (grants, denials and errors)
  and end with the same leases, although one works by \<open>WHERE\<close> clauses on rows, prefilters the orders by status and sorts
  the evidence, and the other looks leases up in a map.
\<close>
theorem lease_stores_agree:
  assumes "sql_inv db"
  shows "lease_calls (lease_call (withForeignKey (db_accounts db) (mem_acquireLease (accountEvidence db))) mem_renewLease mem_releaseLease)
      ps (selectLease db) = map_prod id selectLease (lease_calls (lease_call sql_acquireLease sql_renewLease sql_releaseLease) ps db) \<and>
    ((\<forall>i. OpAcquire i \<in> set ps \<longrightarrow> ai_exchangeAccountId i \<in> set (db_accounts db)) \<longrightarrow>
     lease_calls (lease_call (mem_acquireLease (accountEvidence db)) mem_renewLease mem_releaseLease) ps (selectLease db) =
     map_prod id selectLease (lease_calls (lease_call sql_acquireLease sql_renewLease sql_releaseLease) ps db))"
  using sql_calls_sim [OF assms, of ps] registered_calls [of ps "db_accounts db"] by metis

text \<open>
  C28. A lease cannot be stolen: whatever sequence of calls is made on the SQLite store by anyone, as
  long as it holds no acquisition for the account at or after the lease's expiry and no release with
  the owner's token, the lease is still held by the same owner since the same instant, and its
  expiry has not moved back.
\<close>
theorem lease_not_stolen:
  assumes "sql_inv db" and "selectLease db a = Some l" and "\<forall>p\<in>set ps. \<not> threatens a l p"
  shows "\<exists>l'. selectLease (snd (lease_calls (lease_call sql_acquireLease sql_renewLease sql_releaseLease) ps db)) a = Some l' \<and>
    le_ownerToken l' = le_ownerToken l \<and> le_acquiredAtEpochMs l' = le_acquiredAtEpochMs l \<and>
    le_expiresAtEpochMs l \<le> le_expiresAtEpochMs l'"
  using assms by (rule sql.calls_keep)

text \<open>
  When the SQLite store grants a lease: exactly when the window is valid, no order of the account
  blocks a submission, the account has no lease that is still running at the acquisition time, and it has a row in
  \<open>exchange_accounts\<close> if it never had a lease.
  The granted lease is the one asked for.
\<close>
theorem lease_granted_iff:
  assumes "sql_inv db"
  shows "fst (sql_acquireLease i db) = Inr (Some l) \<longleftrightarrow>
    l = leaseFromInput i \<and>
    validateLeaseWindow (ai_ownerToken i) (ai_acquiredAtEpochMs i) (ai_expiresAtEpochMs i) = Inr () \<and>
    (\<forall>e\<in>set (accountEvidence db (ai_exchangeAccountId i)). \<not> bc_blocking (classifySubmissionBlockingOrder e)) \<and>
    (\<forall>c. selectLease db (ai_exchangeAccountId i) = Some c \<longrightarrow> le_expiresAtEpochMs c \<le> ai_acquiredAtEpochMs i) \<and>
    (selectLease db (ai_exchangeAccountId i) = None \<longrightarrow> ai_exchangeAccountId i \<in> set (db_accounts db))"
proof -
  obtain r db' where run: "sql_acquireLease i db = (r, db')" by fastforce
  from sql_acquire_sim [OF assms run] have "withForeignKey (db_accounts db) (mem_acquireLease (accountEvidence db)) i (selectLease db) = (r, selectLease db')" ..
  with run show ?thesis
    by (auto simp: withForeignKey_def mem_acquireLease_def list_ex_iff split: sum.splits if_splits option.splits)
qed

subsection \<open>Witnesses\<close>

definition sampleAcquire :: "string \<Rightarrow> int \<Rightarrow> AcquireAccountExecutionLeaseInput" where
  "sampleAcquire tok t =
     \<lparr>ai_exchangeAccountId = ''acct'', ai_ownerToken = tok, ai_purpose = ORDER_SUBMISSION,
      ai_acquiredAtEpochMs = t, ai_expiresAtEpochMs = t + 30000\<rparr>"

definition sampleDb :: lease_db where
  "sampleDb = \<lparr>db_accounts = [''acct''], db_leases = [leaseFromInput (sampleAcquire ''t1'' 1000)],
     db_orders = [be_order sampleAbsent], db_events = be_events sampleAbsent,
     db_observations = be_recoveryObservations sampleAbsent\<rparr>"

lemma sampleDb_inv: "sql_inv sampleDb"
  by (simp add: sql_inv_def sampleDb_def sampleAcquire_def leaseFromInput_def lease_ok_def is_blank_def
      trim_def is_js_space_def)

lemma lease_stores_agree_witness:
  "sql_inv sampleDb \<and>
   fst (sql_acquireLease ((sampleAcquire ''t2'' 5000)\<lparr>ai_exchangeAccountId := ''other''\<rparr>) sampleDb) = Inl foreignKeyError \<and>
   fst (lease_calls (lease_call (mem_acquireLease (accountEvidence sampleDb)) mem_renewLease mem_releaseLease)
      [OpAcquire (sampleAcquire ''t2'' 5000), OpAcquire (sampleAcquire ''t2'' 31000)] (selectLease sampleDb)) =
   [LeaseAnswer (Inr None), LeaseAnswer (Inr (Some (leaseFromInput (sampleAcquire ''t2'' 31000))))]"
proof -
  have "fst (lease_calls (lease_call sql_acquireLease sql_renewLease sql_releaseLease)
      [OpAcquire (sampleAcquire ''t2'' 5000), OpAcquire (sampleAcquire ''t2'' 31000)] sampleDb) =
    [LeaseAnswer (Inr None), LeaseAnswer (Inr (Some (leaseFromInput (sampleAcquire ''t2'' 31000))))]"
    by code_simp
  moreover have "fst (sql_acquireLease ((sampleAcquire ''t2'' 5000)\<lparr>ai_exchangeAccountId := ''other''\<rparr>) sampleDb) = Inl foreignKeyError"
    by code_simp
  moreover have "\<forall>i. OpAcquire i \<in> set [OpAcquire (sampleAcquire ''t2'' 5000), OpAcquire (sampleAcquire ''t2'' 31000)] \<longrightarrow>
      ai_exchangeAccountId i \<in> set (db_accounts sampleDb)"
    by (simp add: sampleAcquire_def sampleDb_def)
  ultimately show ?thesis
    using lease_stores_agree [OF sampleDb_inv, of "[OpAcquire (sampleAcquire ''t2'' 5000), OpAcquire (sampleAcquire ''t2'' 31000)]"]
      sampleDb_inv by (metis fst_map_prod id_apply)
qed

lemma lease_not_stolen_witness:
  "\<exists>l'. selectLease (snd (lease_calls (lease_call sql_acquireLease sql_renewLease sql_releaseLease)
      [OpAcquire (sampleAcquire ''t2'' 5000), OpRelease ''acct'' ''t2''] sampleDb)) ''acct'' = Some l' \<and>
    le_ownerToken l' = ''t1'' \<and> 31000 \<le> le_expiresAtEpochMs l'"
proof -
  have held: "selectLease sampleDb ''acct'' = Some (leaseFromInput (sampleAcquire ''t1'' 1000))"
    by (simp add: sampleDb_def selectLease_def leaseFromInput_def sampleAcquire_def)
  have "\<forall>p\<in>set [OpAcquire (sampleAcquire ''t2'' 5000), OpRelease ''acct'' ''t2''].
      \<not> threatens ''acct'' (leaseFromInput (sampleAcquire ''t1'' 1000)) p"
    by (simp add: leaseFromInput_def sampleAcquire_def)
  from lease_not_stolen [OF sampleDb_inv held this] show ?thesis
    by (auto simp: leaseFromInput_def sampleAcquire_def)
qed

lemma lease_granted_iff_witness:
  "sql_inv sampleDb \<and> fst (sql_acquireLease (sampleAcquire ''t2'' 31000) sampleDb) =
     Inr (Some (leaseFromInput (sampleAcquire ''t2'' 31000))) \<and>
   list_all (\<lambda>e. \<not> bc_blocking (classifySubmissionBlockingOrder e)) (accountEvidence sampleDb ''acct'')"
proof -
  have "fst (sql_acquireLease (sampleAcquire ''t2'' 31000) sampleDb) =
      Inr (Some (leaseFromInput (sampleAcquire ''t2'' 31000)))" by code_simp
  moreover from this have "\<forall>e\<in>set (accountEvidence sampleDb (ai_exchangeAccountId (sampleAcquire ''t2'' 31000))).
      \<not> bc_blocking (classifySubmissionBlockingOrder e)"
    using lease_granted_iff [OF sampleDb_inv] by blast
  ultimately show ?thesis by (simp add: sampleDb_inv sampleAcquire_def list_all_iff)
qed

end
