(* ===== verification/Timestamps.thy ===== *)
theory Timestamps
  imports Domain "HOL-Library.Monad_Syntax"
begin

section \<open>Timestamps\<close>

text \<open>
  The ISO-8601 readers and writers of the program and the part of \<open>Date\<close> they use:
  \<open>parsePositionGuardCandidateTimestamp\<close> (\<open>src/src/modules/strategy/position-guard-candidate-state.ts\<close>),
  \<open>parsePerformanceTimestamp\<close> (\<open>src/src/modules/performance/performance-timestamp.ts\<close>),
  \<open>parseStrictIsoTimestamp\<close> (\<open>src/src/modules/db/repositories/atomic-lifecycle-validation.ts\<close>) and
  \<open>formatCanonicalUtcIsoNanoseconds\<close> (\<open>src/src/modules/execution/candidate-execution-authority.ts\<close>).

  \<open>Date.parse\<close> is given by ECMAScript on the interchange format with an explicit offset, no fraction
  or three fraction digits, and legal elements; on any other string its value is the engine's choice,
  the parameter \<open>legacy\<close> of \<open>dateParse\<close>.
\<close>

subsection \<open>The shape of an ISO timestamp\<close>

record iso_fields =
  f_year :: string
  f_month :: string
  f_day :: string
  f_hour :: string
  f_minute :: string
  f_second :: string
  f_fraction :: string
  f_zone :: string

definition digitsN :: "nat \<Rightarrow> string \<Rightarrow> (string \<times> string) option" where
  "digitsN n s = (if n \<le> length s \<and> list_all is_digit (take n s) then Some (take n s, drop n s) else None)"

definition litC :: "char \<Rightarrow> string \<Rightarrow> string option" where
  "litC c s = (case s of d # r \<Rightarrow> if d = c then Some r else None | [] \<Rightarrow> None)"

text \<open>\<open>(?:\.(\d{1,9}))?\<close>; the group is empty when absent.\<close>

definition matchFraction :: "string \<Rightarrow> (string \<times> string) option" where
  "matchFraction s =
     (case litC CHR ''.'' s of None \<Rightarrow> Some ([], s)
      | Some r \<Rightarrow> (let ds = takeWhile is_digit r
                   in if 1 \<le> length ds \<and> length ds \<le> 9 then Some (ds, dropWhile is_digit r) else None))"

text \<open>\<open>(Z|[+-]\d{2}:\d{2})$\<close>\<close>

definition isOffset :: "string \<Rightarrow> bool" where
  "isOffset z \<longleftrightarrow> (case z of [sg, a, b, col, c, d] \<Rightarrow>
      (sg = CHR ''+'' \<or> sg = CHR ''-'') \<and> is_digit a \<and> is_digit b \<and> col = CHR '':'' \<and> is_digit c \<and> is_digit d
    | _ \<Rightarrow> False)"

definition EXPLICIT_ISO_TIMESTAMP :: "string \<Rightarrow> iso_fields option" where
  "EXPLICIT_ISO_TIMESTAMP s = do {
     (yy, s) \<leftarrow> digitsN 4 s; s \<leftarrow> litC CHR ''-'' s;
     (mo, s) \<leftarrow> digitsN 2 s; s \<leftarrow> litC CHR ''-'' s;
     (dd, s) \<leftarrow> digitsN 2 s; s \<leftarrow> litC CHR ''T'' s;
     (hh, s) \<leftarrow> digitsN 2 s; s \<leftarrow> litC CHR '':'' s;
     (mi, s) \<leftarrow> digitsN 2 s; s \<leftarrow> litC CHR '':'' s;
     (ss, s) \<leftarrow> digitsN 2 s;
     (fr, z) \<leftarrow> matchFraction s;
     if z = ''Z'' \<or> isOffset z
     then Some \<lparr>f_year = yy, f_month = mo, f_day = dd, f_hour = hh, f_minute = mi, f_second = ss,
                f_fraction = fr, f_zone = z\<rparr>
     else None }"

definition iso_render :: "iso_fields \<Rightarrow> string" where
  "iso_render f = f_year f @ ''-'' @ f_month f @ ''-'' @ f_day f @ ''T'' @ f_hour f @ '':'' @ f_minute f @ '':'' @
     f_second f @ (if f_fraction f = [] then [] else ''.'' @ f_fraction f) @ f_zone f"

text \<open>The template literal with the fraction left out.\<close>

definition wholeSecondOf :: "iso_fields \<Rightarrow> string" where
  "wholeSecondOf f = f_year f @ ''-'' @ f_month f @ ''-'' @ f_day f @ ''T'' @ f_hour f @ '':'' @ f_minute f @ '':'' @
     f_second f @ f_zone f"

definition two_digits :: "string \<Rightarrow> bool" where
  "two_digits s \<longleftrightarrow> length s = 2 \<and> list_all is_digit s"

definition iso_wf :: "iso_fields \<Rightarrow> bool" where
  "iso_wf f \<longleftrightarrow> length (f_year f) = 4 \<and> list_all is_digit (f_year f) \<and> two_digits (f_month f) \<and>
     two_digits (f_day f) \<and> two_digits (f_hour f) \<and> two_digits (f_minute f) \<and> two_digits (f_second f) \<and>
     length (f_fraction f) \<le> 9 \<and> list_all is_digit (f_fraction f) \<and> (f_zone f = ''Z'' \<or> isOffset (f_zone f))"

lemma digitsN_append: "length y = n \<Longrightarrow> list_all is_digit y \<Longrightarrow> digitsN n (y @ r) = Some (y, r)"
  by (auto simp: digitsN_def)

lemma digitsN_Some: "digitsN n s = Some (y, r) \<Longrightarrow> s = y @ r \<and> length y = n \<and> list_all is_digit y"
  by (auto simp: digitsN_def split: if_splits)

lemma litC_Cons [simp]: "litC c (d # r) = (if d = c then Some r else None)"
  by (simp add: litC_def)

lemma litC_Some: "litC c s = Some r \<longleftrightarrow> s = c # r"
  by (auto simp: litC_def split: list.splits if_splits)

lemma zone_head:
  assumes "z = ''Z'' \<or> isOffset z"
  shows "\<exists>c r. z = c # r \<and> \<not> is_digit c \<and> c \<noteq> CHR ''.''"
  using assms by (cases z) (auto simp: isOffset_def is_digit_def split: list.splits)

lemma matchFraction_Some:
  "matchFraction s = Some (fr, z) \<Longrightarrow>
   s = (if fr = [] then [] else ''.'' @ fr) @ z \<and> length fr \<le> 9 \<and> list_all is_digit fr"
  using takeWhile_dropWhile_id [of is_digit]
  by (auto simp: matchFraction_def litC_Some Let_def list_all_iff dest: set_takeWhileD split: option.splits if_splits)

lemma matchFraction_render:
  assumes "z = ''Z'' \<or> isOffset z" and "length fr \<le> 9" and "list_all is_digit fr"
  shows "matchFraction ((if fr = [] then [] else ''.'' @ fr) @ z) = Some (fr, z)"
proof -
  obtain c r where z: "z = c # r" "\<not> is_digit c" "c \<noteq> CHR ''.''" using zone_head [OF assms(1)] by auto
  have "takeWhile is_digit (fr @ z) = fr" "dropWhile is_digit (fr @ z) = z"
    using z assms(3) by (induction fr) auto
  with assms(2) z show ?thesis
    by (cases fr) (auto simp: matchFraction_def Let_def)
qed

lemma iso_match_render:
  assumes "iso_wf f"
  shows "EXPLICIT_ISO_TIMESTAMP (iso_render f) = Some f"
proof -
  let ?z = "(if f_fraction f = [] then [] else ''.'' @ f_fraction f) @ f_zone f"
  have "matchFraction ?z = Some (f_fraction f, f_zone f)"
    using assms by (intro matchFraction_render) (auto simp: iso_wf_def)
  then have m: "EXPLICIT_ISO_TIMESTAMP (f_year f @ ''-'' @ f_month f @ ''-'' @ f_day f @ ''T'' @ f_hour f @ '':'' @
      f_minute f @ '':'' @ f_second f @ ?z) = Some f"
    using assms by (simp add: EXPLICIT_ISO_TIMESTAMP_def iso_wf_def two_digits_def digitsN_append del: append_assoc)
  then show ?thesis by (simp only: iso_render_def append_assoc)
qed

lemma iso_match_Some:
  assumes "EXPLICIT_ISO_TIMESTAMP s = Some f"
  shows "s = iso_render f \<and> iso_wf f"
  using assms
  by (auto simp: EXPLICIT_ISO_TIMESTAMP_def iso_render_def iso_wf_def two_digits_def litC_Some bind_eq_Some_conv
      dest!: digitsN_Some matchFraction_Some split: if_splits)

lemma iso_match_iff: "EXPLICIT_ISO_TIMESTAMP s = Some f \<longleftrightarrow> iso_wf f \<and> s = iso_render f"
  using iso_match_render iso_match_Some by blast

lemma wholeSecond_render: "wholeSecondOf f = iso_render (f\<lparr>f_fraction := []\<rparr>)"
  by (simp add: wholeSecondOf_def iso_render_def)

lemma iso_match_wholeSecond: "iso_wf f \<Longrightarrow> EXPLICIT_ISO_TIMESTAMP (wholeSecondOf f) = Some (f\<lparr>f_fraction := []\<rparr>)"
  by (simp add: wholeSecond_render iso_match_iff iso_wf_def)

subsection \<open>The calendar\<close>

definition isLeap :: "int \<Rightarrow> bool" where
  "isLeap y \<longleftrightarrow> y mod 4 = 0 \<and> (y mod 100 \<noteq> 0 \<or> y mod 400 = 0)"

definition daysInMonth :: "int \<Rightarrow> int \<Rightarrow> int" where
  "daysInMonth year month =
     (if month = 2 then (if isLeap year then 29 else 28) else if month \<in> {4, 6, 9, 11} then 30 else 31)"

text \<open>ECMAScript's \<open>DayFromYear\<close>, and the days of the year before a month.\<close>

definition dayFromYear :: "int \<Rightarrow> int" where
  "dayFromYear y = 365 * (y - 1970) + (y - 1969) div 4 - (y - 1901) div 100 + (y - 1601) div 400"

definition daysBeforeMonth :: "int \<Rightarrow> int \<Rightarrow> int" where
  "daysBeforeMonth y m = sum_list (map (daysInMonth y) [1..m - 1])"

definition dayNumber :: "int \<Rightarrow> int \<Rightarrow> int \<Rightarrow> int" where
  "dayNumber y m d = dayFromYear y + daysBeforeMonth y m + d - 1"

lemma div_step:
  fixes x k :: int
  assumes "0 < k"
  shows "(x + 1) div k = x div k + (if k dvd x + 1 then 1 else 0)"
proof (cases "k dvd x + 1")
  case True
  then obtain q where q: "x + 1 = k * q" ..
  then have "x = (q - 1) * k + (k - 1)" by (simp add: algebra_simps)
  then have "x div k = q - 1" using assms by (simp add: div_pos_pos_trivial)
  with q True assms show ?thesis by simp
next
  case False
  have eq: "x + 1 = k * (x div k) + (x mod k + 1)" by simp
  have "x mod k + 1 \<noteq> k"
  proof
    assume "x mod k + 1 = k"
    with eq have "x + 1 = k * (x div k) + k" by simp
    then have "x + 1 = k * (x div k + 1)" by (simp only: distrib_left mult_1_right)
    with False show False by simp
  qed
  moreover have "0 \<le> x mod k" "x mod k < k" using assms by simp_all
  ultimately have "(x mod k + 1) div k = 0" by (intro div_pos_pos_trivial) auto
  moreover have "(x mod k + 1 + k * (x div k)) div k = x div k + (x mod k + 1) div k"
    using assms by (intro div_mult_self2) simp
  moreover have "x mod k + 1 + k * (x div k) = x + 1" using eq by (simp only: add.commute)
  ultimately have "(x + 1) div k = x div k" by simp
  with False show ?thesis by simp
qed

lemma dvd_shift: "k dvd c \<Longrightarrow> k dvd y - c \<longleftrightarrow> k dvd y" for k c y :: int
  using dvd_add_left_iff [of k "- c" y] by simp

lemma isLeap_dvd: "isLeap y \<longleftrightarrow> 4 dvd y \<and> (\<not> 100 dvd y \<or> 400 dvd y)"
  by (simp add: isLeap_def dvd_eq_mod_eq_0)

lemma leap_arith:
  fixes y a b c :: int
  assumes "a' = a + (if p then 1 else 0)" "b' = b + (if q then 1 else 0)" "c' = c + (if r then 1 else 0)"
    and "r \<Longrightarrow> q" "q \<Longrightarrow> p"
  shows "365 * (y + 1 - 1970) + a' - b' + c' = 365 * (y - 1970) + a - b + c + (if p \<and> (\<not> q \<or> r) then 366 else 365)"
  unfolding assms(1-3) using assms(4,5) by (cases p; cases q; cases r) simp_all

lemma dayFromYear_Suc: "dayFromYear (y + 1) = dayFromYear y + (if isLeap y then 366 else 365)"
proof -
  have d4: "(y - 1968) div 4 = (y - 1969) div 4 + (if 4 dvd y then 1 else 0)"
    using div_step [of 4 "y - 1969"] dvd_shift [of 4 1968 y] by simp
  have d100: "(y - 1900) div 100 = (y - 1901) div 100 + (if 100 dvd y then 1 else 0)"
    using div_step [of 100 "y - 1901"] dvd_shift [of 100 1900 y] by simp
  have d400: "(y - 1600) div 400 = (y - 1601) div 400 + (if 400 dvd y then 1 else 0)"
    using div_step [of 400 "y - 1601"] dvd_shift [of 400 1600 y] by simp
  have i: "400 dvd y \<Longrightarrow> 100 dvd y" "100 dvd y \<Longrightarrow> 4 dvd y"
    by (erule dvd_trans [rotated], simp)+
  have e: "y + 1 - 1969 = y - 1968" "y + 1 - 1901 = y - 1900" "y + 1 - 1601 = y - 1600" by simp_all
  show ?thesis
    unfolding dayFromYear_def isLeap_dvd e by (rule leap_arith [OF d4 d100 d400 i])
qed

text \<open>\<open>YearFromTime\<close>: the last year that starts on or before the day, searched upwards from an estimate below it.\<close>

lemma dayFromYear_step: "dayFromYear y < dayFromYear (y + 1)"
  using dayFromYear_Suc [of y] by simp

function yearUp :: "int \<Rightarrow> int \<Rightarrow> int" where
  "yearUp d y = (if dayFromYear (y + 1) \<le> d then yearUp d (y + 1) else y)"
  by pat_completeness auto
termination
proof (relation "measure (\<lambda>(d, y). nat (d - dayFromYear y))")
  show "((d, y + 1), (d, y)) \<in> measure (\<lambda>(d, y). nat (d - dayFromYear y))" if "dayFromYear (y + 1) \<le> d" for d y
    using that dayFromYear_step [of y] by simp
qed simp

declare yearUp.simps [simp del]

definition yearFromDay :: "int \<Rightarrow> int" where
  "yearFromDay d = yearUp d (1970 + (if 0 \<le> d then d div 366 else d div 365))"

lemma yearUp_bounds:
  "dayFromYear y \<le> d \<Longrightarrow> dayFromYear (yearUp d y) \<le> d \<and> d < dayFromYear (yearUp d y + 1)"
proof (induction d y rule: yearUp.induct)
  case (1 d y)
  then show ?case by (cases "dayFromYear (y + 1) \<le> d") (simp_all add: yearUp.simps [of d y])
qed

lemma dayFromYear_upper: "dayFromYear (1970 + int n) \<le> 366 * int n"
proof (induction n)
  case 0
  then show ?case by (simp add: dayFromYear_def)
next
  case (Suc n)
  then show ?case using dayFromYear_Suc [of "1970 + int n"] by (simp add: algebra_simps split: if_splits)
qed

lemma dayFromYear_lower: "dayFromYear (1970 - int n) \<le> - 365 * int n"
proof (induction n)
  case 0
  then show ?case by (simp add: dayFromYear_def)
next
  case (Suc n)
  then show ?case using dayFromYear_Suc [of "1970 - int (Suc n)"] by (simp add: algebra_simps split: if_splits)
qed

lemma yearFromDay_bounds: "dayFromYear (yearFromDay d) \<le> d \<and> d < dayFromYear (yearFromDay d + 1)"
proof -
  have "dayFromYear (1970 + (if 0 \<le> d then d div 366 else d div 365)) \<le> d"
  proof (cases "0 \<le> d")
    case True
    then have "dayFromYear (1970 + d div 366) \<le> 366 * (d div 366)"
      using dayFromYear_upper [of "nat (d div 366)"] by (simp add: pos_imp_zdiv_nonneg_iff)
    also have "\<dots> \<le> d" by simp
    finally show ?thesis using True by simp
  next
    case False
    then have "d div 365 < 0" by (simp add: neg_imp_zdiv_neg_iff)
    then have "dayFromYear (1970 + d div 365) \<le> 365 * (d div 365)"
      using dayFromYear_lower [of "nat (- (d div 365))"] by simp
    also have "\<dots> \<le> d" by simp
    finally show ?thesis using False by simp
  qed
  then show ?thesis unfolding yearFromDay_def by (rule yearUp_bounds)
qed

text \<open>\<open>MonthFromTime\<close> and \<open>DateFromTime\<close>: the month is found by walking over the months of the year.\<close>

fun monthUp :: "int \<Rightarrow> nat \<Rightarrow> int \<Rightarrow> int \<Rightarrow> int \<times> int" where
  "monthUp y 0 m r = (m, r + 1)"
| "monthUp y (Suc k) m r = (if daysInMonth y m \<le> r then monthUp y k (m + 1) (r - daysInMonth y m) else (m, r + 1))"

definition monthDay :: "int \<Rightarrow> int \<Rightarrow> int \<times> int" where
  "monthDay y r = monthUp y 11 1 r"

lemma daysBeforeMonth_1 [simp]: "daysBeforeMonth y 1 = 0"
  by (simp add: daysBeforeMonth_def)

lemma daysBeforeMonth_step: "1 \<le> m \<Longrightarrow> daysBeforeMonth y (m + 1) = daysBeforeMonth y m + daysInMonth y m"
  by (simp add: daysBeforeMonth_def upto_rec2)

lemma monthUp_sound:
  assumes "1 \<le> m" and "0 \<le> r" and "monthUp y k m r = (m', d)"
  shows "m \<le> m' \<and> m' \<le> m + int k \<and> 1 \<le> d \<and> daysBeforeMonth y m' + d - 1 = daysBeforeMonth y m + r \<and>
    (m' < m + int k \<longrightarrow> d \<le> daysInMonth y m')"
  using assms
proof (induction k arbitrary: m r)
  case 0
  then show ?case by auto
next
  case (Suc k)
  show ?case
  proof (cases "daysInMonth y m \<le> r")
    case True
    with Suc.prems have run: "monthUp y k (m + 1) (r - daysInMonth y m) = (m', d)" by simp
    from Suc.IH [OF _ _ run] True Suc.prems(1) daysBeforeMonth_step [of m y] show ?thesis by auto
  next
    case False
    with Suc.prems show ?thesis by auto
  qed
qed

lemma daysBeforeMonth_year: "daysBeforeMonth y 12 + daysInMonth y 12 = (if isLeap y then 366 else 365)"
proof -
  have "[1..12 - 1] = [1, 2, 3, 4, 5, 6, 7, 8, 9, 10, 11::int]" by (simp add: upto.simps)
  then show ?thesis by (simp add: daysBeforeMonth_def daysInMonth_def)
qed

lemma monthDay_sound:
  assumes "0 \<le> r" and "r < (if isLeap y then 366 else 365)" and "monthDay y r = (m, d)"
  shows "1 \<le> m \<and> m \<le> 12 \<and> 1 \<le> d \<and> d \<le> daysInMonth y m \<and> daysBeforeMonth y m + d - 1 = r"
proof -
  from monthUp_sound [of 1 r y 11 m d] assms
  have *: "1 \<le> m" "m \<le> 12" "1 \<le> d" "daysBeforeMonth y m + d - 1 = r" "m < 12 \<longrightarrow> d \<le> daysInMonth y m"
    by (auto simp: monthDay_def)
  moreover have "d \<le> daysInMonth y m" if "m = 12"
    using that * assms(2) daysBeforeMonth_year [of y] by auto
  ultimately show ?thesis by (cases "m = 12") auto
qed

subsection \<open>Instants\<close>

definition zoneOffsetMinutes :: "string \<Rightarrow> int" where
  "zoneOffsetMinutes z =
     (if z = ''Z'' then 0
      else (if hd z = CHR ''-'' then - 1 else 1) *
           (60 * int_of_digits (take 2 (drop 1 z)) + int_of_digits (take 2 (drop 4 z))))"

text \<open>The epoch milliseconds the fields denote (whole seconds) and the legality of the elements.\<close>

definition epochMsOf :: "iso_fields \<Rightarrow> int" where
  "epochMsOf f =
     ((dayNumber (int_of_digits (f_year f)) (int_of_digits (f_month f)) (int_of_digits (f_day f)) * 86400 +
       int_of_digits (f_hour f) * 3600 + int_of_digits (f_minute f) * 60 + int_of_digits (f_second f)) -
      zoneOffsetMinutes (f_zone f) * 60) * 1000"

definition legalCivil :: "iso_fields \<Rightarrow> bool" where
  "legalCivil f \<longleftrightarrow>
     1 \<le> int_of_digits (f_month f) \<and> int_of_digits (f_month f) \<le> 12 \<and>
     1 \<le> int_of_digits (f_day f) \<and> int_of_digits (f_day f) \<le> daysInMonth (int_of_digits (f_year f)) (int_of_digits (f_month f)) \<and>
     int_of_digits (f_hour f) \<le> 23 \<and> int_of_digits (f_minute f) \<le> 59 \<and> int_of_digits (f_second f) \<le> 59"

definition legalZone :: "string \<Rightarrow> bool" where
  "legalZone z \<longleftrightarrow> z = ''Z'' \<or>
     (int_of_digits (take 2 (drop 1 z)) \<le> 23 \<and> int_of_digits (take 2 (drop 4 z)) \<le> 59)"

definition dateParse :: "(string \<Rightarrow> jsnum) \<Rightarrow> string \<Rightarrow> jsnum" where
  "dateParse legacy s =
     (case EXPLICIT_ISO_TIMESTAMP s of None \<Rightarrow> legacy s
      | Some f \<Rightarrow>
          if legalCivil f \<and> legalZone (f_zone f) \<and> (f_fraction f = [] \<or> length (f_fraction f) = 3)
          then Num (of_int (epochMsOf f + int_of_digits (f_fraction f)))
          else legacy s)"

text \<open>\<open>toISOString\<close> of an integral time value: four digits for the years 0 to 9999, else a sign and six.\<close>

definition isoYear :: "int \<Rightarrow> string" where
  "isoYear y = (if 0 \<le> y \<and> y \<le> 9999 then pad_start 4 CHR ''0'' (digits_of_int y)
     else (if y < 0 then ''-'' else ''+'') @ pad_start 6 CHR ''0'' (digits_of_int \<bar>y\<bar>))"

definition pad2 :: "int \<Rightarrow> string" where
  "pad2 n = pad_start 2 CHR ''0'' (digits_of_int n)"

definition isoSeconds :: "int \<Rightarrow> string" where
  "isoSeconds secs =
     (let day = secs div 86400; t = secs mod 86400; y = yearFromDay day; (m, d) = monthDay y (day - dayFromYear y)
      in isoYear y @ ''-'' @ pad2 m @ ''-'' @ pad2 d @ ''T'' @ pad2 (t div 3600) @ '':'' @
         pad2 (t mod 3600 div 60) @ '':'' @ pad2 (t mod 60))"

definition toISOString :: "int \<Rightarrow> string" where
  "toISOString ms = isoSeconds (ms div 1000) @ ''.'' @ pad_start 3 CHR ''0'' (digits_of_int (ms mod 1000)) @ ''Z''"

definition isoSecondFields :: "int \<Rightarrow> iso_fields" where
  "isoSecondFields secs =
     (let day = secs div 86400; t = secs mod 86400; y = yearFromDay day; (m, d) = monthDay y (day - dayFromYear y)
      in \<lparr>f_year = isoYear y, f_month = pad2 m, f_day = pad2 d, f_hour = pad2 (t div 3600),
          f_minute = pad2 (t mod 3600 div 60), f_second = pad2 (t mod 60), f_fraction = [], f_zone = ''Z''\<rparr>)"

lemma pad2_facts:
  assumes "0 \<le> n" and "n < 100"
  shows "two_digits (pad2 n)" and "int_of_digits (pad2 n) = n"
  using assms pad_digits [of n 2] by (simp_all add: pad2_def two_digits_def)

lemma isoYear_facts:
  assumes "0 \<le> y" and "y \<le> 9999"
  shows "length (isoYear y) = 4" and "list_all is_digit (isoYear y)" and "int_of_digits (isoYear y) = y"
  using assms pad_digits [of y 4] by (simp_all add: isoYear_def)

lemma daysInMonth_le: "daysInMonth y m \<le> 31"
  by (simp add: daysInMonth_def)

lemma clock_fields:
  fixes t :: int
  assumes "0 \<le> t" and "t < 86400"
  shows "0 \<le> t div 3600" "t div 3600 \<le> 23" "0 \<le> t mod 3600 div 60" "t mod 3600 div 60 \<le> 59" "0 \<le> t mod 60" "t mod 60 \<le> 59"
    "t div 3600 * 3600 + t mod 3600 div 60 * 60 + t mod 60 = t"
proof -
  have "t mod 3600 mod 60 = t mod 60" by (simp add: mod_mod_cancel)
  moreover have "t mod 3600 div 60 * 60 + t mod 3600 mod 60 = t mod 3600" by (rule div_mult_mod_eq)
  moreover have "t div 3600 * 3600 + t mod 3600 = t" by (rule div_mult_mod_eq)
  ultimately show "t div 3600 * 3600 + t mod 3600 div 60 * 60 + t mod 60 = t" by (simp only: add.assoc)
  show "t div 3600 \<le> 23" using assms(2) by simp
  have "t mod 3600 < 3600" by simp
  then show "t mod 3600 div 60 \<le> 59" by simp
  show "t mod 60 \<le> 59" using pos_mod_bound [of 60 t] by simp
qed (use assms in \<open>simp_all add: pos_imp_zdiv_nonneg_iff\<close>)

lemma isoSecondFields_facts:
  assumes year: "0 \<le> yearFromDay (secs div 86400)" "yearFromDay (secs div 86400) \<le> 9999"
  shows "iso_wf (isoSecondFields secs)" and "legalCivil (isoSecondFields secs)"
    and "epochMsOf (isoSecondFields secs) = secs * 1000"
    and "f_zone (isoSecondFields secs) = ''Z''" and "f_fraction (isoSecondFields secs) = []"
    and "isoSeconds secs @ ''Z'' = iso_render (isoSecondFields secs)"
proof -
  define day where "day = secs div 86400"
  define t where "t = secs mod 86400"
  define y where "y = yearFromDay day"
  define hh where "hh = t div 3600"
  define mi where "mi = t mod 3600 div 60"
  define ss where "ss = t mod 60"
  obtain m d where md: "monthDay y (day - dayFromYear y) = (m, d)" by fastforce
  have fields: "isoSecondFields secs = \<lparr>f_year = isoYear y, f_month = pad2 m, f_day = pad2 d, f_hour = pad2 hh,
      f_minute = pad2 mi, f_second = pad2 ss, f_fraction = [], f_zone = ''Z''\<rparr>"
    using md by (simp add: isoSecondFields_def Let_def day_def t_def y_def hh_def mi_def ss_def)
  have "dayFromYear y \<le> day" "day < dayFromYear (y + 1)"
    using yearFromDay_bounds [of day] by (simp_all add: y_def)
  then have cal: "1 \<le> m" "m \<le> 12" "1 \<le> d" "d \<le> daysInMonth y m" "daysBeforeMonth y m + d - 1 = day - dayFromYear y"
    using monthDay_sound [OF _ _ md] dayFromYear_Suc [of y] by auto
  then have d31: "d \<le> 31" using daysInMonth_le [of y m] by simp
  have t: "0 \<le> t" "t < 86400" by (simp_all add: t_def)
  note clk = clock_fields [OF t, folded hh_def mi_def ss_def]
  have secs: "day * 86400 + t = secs" unfolding day_def t_def by (rule div_mult_mod_eq)
  have yy: "0 \<le> y" "y \<le> 9999" using year by (simp_all add: y_def day_def)
  have p: "two_digits (pad2 m)" "two_digits (pad2 d)" "two_digits (pad2 hh)" "two_digits (pad2 mi)" "two_digits (pad2 ss)"
    "int_of_digits (pad2 m) = m" "int_of_digits (pad2 d) = d" "int_of_digits (pad2 hh) = hh"
    "int_of_digits (pad2 mi) = mi" "int_of_digits (pad2 ss) = ss"
    using cal(1-3) d31 clk(1-6) by (simp_all add: pad2_facts)
  show "iso_wf (isoSecondFields secs)" using isoYear_facts [OF yy] p by (simp add: fields iso_wf_def)
  show "legalCivil (isoSecondFields secs)"
    using isoYear_facts(3) [OF yy] p cal(1-4) clk(1-6) by (simp add: fields legalCivil_def)
  have "dayNumber y m d = day" using cal(5) by (simp add: dayNumber_def)
  moreover have "day * 86400 + hh * 3600 + mi * 60 + ss = secs"
    using clk(7) secs by (simp only: add.assoc)
  ultimately show "epochMsOf (isoSecondFields secs) = secs * 1000"
    by (simp add: fields epochMsOf_def zoneOffsetMinutes_def isoYear_facts(3) [OF yy] p)
  show "f_zone (isoSecondFields secs) = ''Z''" and "f_fraction (isoSecondFields secs) = []" by (simp_all add: fields)
  show "isoSeconds secs @ ''Z'' = iso_render (isoSecondFields secs)"
    using md by (simp add: fields iso_render_def isoSeconds_def Let_def day_def t_def y_def hh_def mi_def ss_def)
qed

subsection \<open>The readers\<close>

definition invalidTimestamp :: "string \<Rightarrow> string \<Rightarrow> js_error" where
  "invalidTimestamp value label = Error (''Invalid PositionGuard candidate '' @ label @ '': '' @ value)"

definition offsetHour :: "string \<Rightarrow> int" where
  "offsetHour timezone = int_of_digits (take 2 (drop 1 timezone))"

definition offsetMinute :: "string \<Rightarrow> int" where
  "offsetMinute timezone = int_of_digits (take 2 (drop 4 timezone))"

definition isValidTimezone :: "string \<Rightarrow> bool" where
  "isValidTimezone timezone \<longleftrightarrow> timezone = ''Z'' \<or>
     (offsetMinute timezone \<le> 59 \<and> (offsetHour timezone < 14 \<or> (offsetHour timezone = 14 \<and> offsetMinute timezone = 0)))"

text \<open>The range checks both candidate and performance readers make before the time zone.\<close>

definition civilOutOfRange :: "iso_fields \<Rightarrow> bool" where
  "civilOutOfRange f \<longleftrightarrow>
     (let year = int_of_digits (f_year f); month = int_of_digits (f_month f); day = int_of_digits (f_day f)
      in month < 1 \<or> month > 12 \<or> day < 1 \<or> day > daysInMonth year month \<or>
         int_of_digits (f_hour f) > 23 \<or> int_of_digits (f_minute f) > 59 \<or> int_of_digits (f_second f) > 59)"

text \<open>\<open>BigInt(fraction.padEnd(9, "0") || "0")\<close>\<close>

definition fractionNanoseconds :: "string \<Rightarrow> int" where
  "fractionNanoseconds fraction = int_of_digits (pad_end 9 CHR ''0'' fraction)"

text \<open>The string handed to \<open>Date.parse\<close> is always in the interchange format with legal elements there, so the engine's choice cannot be reached (\<open>dateParse_wholeSecond\<close>).\<close>

definition parsePositionGuardCandidateTimestamp :: "string \<Rightarrow> string \<Rightarrow> int res" where
  "parsePositionGuardCandidateTimestamp value label =
     (case EXPLICIT_ISO_TIMESTAMP value of None \<Rightarrow> Inl (invalidTimestamp value label)
      | Some f \<Rightarrow>
          if civilOutOfRange f \<or> \<not> isValidTimezone (f_zone f) then Inl (invalidTimestamp value label)
          else (case dateParse (\<lambda>_. NaN) (wholeSecondOf f) of
                  Num epochMilliseconds \<Rightarrow>
                    Inr (\<lfloor>epochMilliseconds\<rfloor> * 1000000 + fractionNanoseconds (f_fraction f))
                | _ \<Rightarrow> Inl (invalidTimestamp value label)))"

record PerformanceTimestamp =
  pt_normalized :: string
  pt_epochNanoseconds :: int

definition isValidTimezonePerformance :: "string \<Rightarrow> bool" where
  "isValidTimezonePerformance timezone \<longleftrightarrow> timezone = ''Z'' \<or>
     offsetHour timezone < 14 \<or> (offsetHour timezone = 14 \<and> offsetMinute timezone = 0)"

definition parsePerformanceTimestamp :: "(string \<Rightarrow> jsnum) \<Rightarrow> string \<Rightarrow> PerformanceTimestamp option" where
  "parsePerformanceTimestamp legacy value =
     (case EXPLICIT_ISO_TIMESTAMP value of None \<Rightarrow> None
      | Some f \<Rightarrow>
          if civilOutOfRange f \<or> \<not> isValidTimezonePerformance (f_zone f) then None
          else (case dateParse legacy (wholeSecondOf f) of
                  Num epochMilliseconds \<Rightarrow>
                    let fraction = f_fraction f;
                        normalizedFraction = (if length fraction < 3 then pad_end 3 CHR ''0'' fraction else fraction);
                        normalizedSecond = take 19 (toISOString \<lfloor>epochMilliseconds\<rfloor>)
                    in Some \<lparr>pt_normalized = normalizedSecond @ ''.'' @
                               (if normalizedFraction = [] then ''000'' else normalizedFraction) @ ''Z'',
                             pt_epochNanoseconds =
                               \<lfloor>epochMilliseconds\<rfloor> * 1000000 + fractionNanoseconds fraction\<rparr>
                | _ \<Rightarrow> None))"

text \<open>\<open>new Date(Date.UTC(year, month, 0)).getUTCDate()\<close> for a month from 1 to 12: years below 100 are read as 1900 + year.\<close>

definition utcDaysInMonth :: "int \<Rightarrow> int \<Rightarrow> int" where
  "utcDaysInMonth year month = daysInMonth (if 0 \<le> year \<and> year \<le> 99 then 1900 + year else year) month"

definition parseStrictIsoTimestamp :: "string \<Rightarrow> string \<Rightarrow> int res" where
  "parseStrictIsoTimestamp input label =
     (case EXPLICIT_ISO_TIMESTAMP input of
        None \<Rightarrow> Inl (Error (label @ '' must be an ISO-8601 timestamp with explicit timezone.''))
      | Some f \<Rightarrow>
          let year = int_of_digits (f_year f); month = int_of_digits (f_month f); day = int_of_digits (f_day f);
              offHour = (if f_zone f = ''Z'' then 0 else offsetHour (f_zone f));
              offMinute = (if f_zone f = ''Z'' then 0 else offsetMinute (f_zone f))
          in if month < 1 \<or> month > 12 \<or> day < 1 \<or> day > utcDaysInMonth year month \<or>
                int_of_digits (f_hour f) > 23 \<or> int_of_digits (f_minute f) > 59 \<or> int_of_digits (f_second f) > 59 \<or>
                offHour > 23 \<or> offMinute > 59
             then Inl (Error (label @ '' must be a valid ISO-8601 timestamp.''))
             else (case dateParse (\<lambda>_. NaN) (wholeSecondOf f) of
                     Num wholeSecondTimestamp \<Rightarrow>
                       Inr (\<lfloor>wholeSecondTimestamp\<rfloor> * 1000000 + fractionNanoseconds (f_fraction f))
                   | _ \<Rightarrow> Inl (Error (label @ '' must be a valid ISO-8601 timestamp.''))))"

subsection \<open>The writer\<close>

definition MAX_DATE_MILLISECONDS :: int where
  "MAX_DATE_MILLISECONDS = 8640000000000000"

definition formatCanonicalUtcIsoNanoseconds :: "int \<Rightarrow> string res" where
  "formatCanonicalUtcIsoNanoseconds epochNanoseconds =
     (if epochNanoseconds < 0 then Inl (Error ''Cannot format a pre-epoch timestamp.'')
      else let wholeSeconds = epochNanoseconds div 1000000000;
               fractionalNanoseconds = epochNanoseconds mod 1000000000;
               wholeMilliseconds = wholeSeconds * 1000
           in if MAX_DATE_MILLISECONDS < wholeMilliseconds
              then Inl (Error ''Epoch nanoseconds exceed the supported UTC calendar range.'')
              else let iso = toISOString wholeMilliseconds
                   in if \<not> (case EXPLICIT_ISO_TIMESTAMP iso of None \<Rightarrow> False
                            | Some f \<Rightarrow> f_fraction f = ''000'' \<and> f_zone f = ''Z'')
                      then Inl (Error ''Epoch nanoseconds exceed the supported four-digit UTC year range.'')
                      else Inr (take 19 iso @ ''.'' @
                                pad_start 9 CHR ''0'' (digits_of_int fractionalNanoseconds) @ ''Z''))"

record CandidateExecutionAttemptTimestamps =
  ca_bindingCreatedAt :: string
  ca_orderRequestedAt :: string

definition createCandidateExecutionAttemptTimestamps :: "int \<Rightarrow> string \<Rightarrow> CandidateExecutionAttemptTimestamps res" where
  "createCandidateExecutionAttemptTimestamps activationEpochNs bindingCreatedAt =
     ebind (throw_if (activationEpochNs < 0)
       (Error ''Candidate execution activation epoch must be a non-negative bigint.'')) (\<lambda>_.
     ebind (parsePositionGuardCandidateTimestamp bindingCreatedAt ''execution binding createdAt'') (\<lambda>bindingEpochNs.
     ebind (throw_if (bindingEpochNs < 0)
       (Error ''Candidate execution binding createdAt cannot be pre-epoch.'')) (\<lambda>_.
     ebind (throw_if (bindingEpochNs \<le> activationEpochNs)
       (Error ''Candidate execution binding createdAt must be after activation.'')) (\<lambda>_.
     ebind (formatCanonicalUtcIsoNanoseconds bindingEpochNs) (\<lambda>created.
     ebind (formatCanonicalUtcIsoNanoseconds (bindingEpochNs + 1)) (\<lambda>requested.
     Inr \<lparr>ca_bindingCreatedAt = created, ca_orderRequestedAt = requested\<rparr>))))))"

subsection \<open>Facts\<close>

lemma civilOutOfRange_legal: "civilOutOfRange f \<longleftrightarrow> \<not> legalCivil f"
  by (auto simp: civilOutOfRange_def legalCivil_def Let_def)

lemma isValidTimezone_legal: "isValidTimezone z \<Longrightarrow> legalZone z"
  by (auto simp: isValidTimezone_def legalZone_def offsetHour_def offsetMinute_def)

lemma legal_wholeSecond [simp]: "legalCivil (f\<lparr>f_fraction := x\<rparr>) = legalCivil f" "epochMsOf (f\<lparr>f_fraction := x\<rparr>) = epochMsOf f"
  by (simp_all add: legalCivil_def epochMsOf_def)

lemma dateParse_wholeSecond:
  assumes "EXPLICIT_ISO_TIMESTAMP s = Some f" and "legalCivil f" and "legalZone (f_zone f)"
  shows "dateParse legacy (wholeSecondOf f) = Num (of_int (epochMsOf f))"
proof -
  have "EXPLICIT_ISO_TIMESTAMP (wholeSecondOf f) = Some (f\<lparr>f_fraction := []\<rparr>)"
    using assms(1) iso_match_Some iso_match_wholeSecond by blast
  with assms(2,3) show ?thesis by (simp add: dateParse_def)
qed

lemma candidate_timestamp_iff:
  "parsePositionGuardCandidateTimestamp v lbl = Inr n \<longleftrightarrow>
   (\<exists>f. EXPLICIT_ISO_TIMESTAMP v = Some f \<and> legalCivil f \<and> isValidTimezone (f_zone f) \<and>
      n = epochMsOf f * 1000000 + fractionNanoseconds (f_fraction f))"
  by (auto simp: parsePositionGuardCandidateTimestamp_def civilOutOfRange_legal isValidTimezone_legal
      dateParse_wholeSecond split: option.splits)

text \<open>Reading a year below 100 as 19xx loses exactly the leap day of the year 0.\<close>

lemma utcDaysInMonth_cases:
  assumes "0 \<le> year"
  shows "utcDaysInMonth year month \<le> daysInMonth year month"
    and "d \<le> daysInMonth year month \<Longrightarrow> d \<le> utcDaysInMonth year month \<or> (year = 0 \<and> month = 2 \<and> d = 29)"
proof -
  have low: "isLeap (1900 + year) \<longleftrightarrow> isLeap year \<and> year \<noteq> 0" if "year \<le> 99"
  proof -
    have "year mod 100 = year" using that assms by simp
    moreover have "(1900 + year) mod 100 = year" using that assms mod_mult_self1 [of year 19 100] by (simp add: add.commute)
    moreover have "(1900 + year) mod 4 = year mod 4" using mod_mult_self1 [of year 475 4] by (simp add: add.commute)
    moreover have "(1900 + year) mod 400 = 300 + year" "year mod 400 = year"
      using that assms mod_mult_self1 [of "300 + year" 4 400] by simp_all
    ultimately show ?thesis using assms by (simp add: isLeap_def)
  qed
  then show "utcDaysInMonth year month \<le> daysInMonth year month"
    using assms by (auto simp: utcDaysInMonth_def daysInMonth_def)
  show "d \<le> utcDaysInMonth year month \<or> (year = 0 \<and> month = 2 \<and> d = 29)" if "d \<le> daysInMonth year month"
    using that low assms by (auto simp: utcDaysInMonth_def daysInMonth_def split: if_splits)
qed

lemma strict_zone:
  "((if z = ''Z'' then 0 else offsetHour z) > 23 \<or> (if z = ''Z'' then 0 else offsetMinute z) > 59) \<longleftrightarrow> \<not> legalZone z"
  by (auto simp: legalZone_def offsetHour_def offsetMinute_def)

lemma strict_timestamp_iff:
  "parseStrictIsoTimestamp v lbl = Inr n \<longleftrightarrow>
   (\<exists>f. EXPLICIT_ISO_TIMESTAMP v = Some f \<and> legalCivil f \<and>
      int_of_digits (f_day f) \<le> utcDaysInMonth (int_of_digits (f_year f)) (int_of_digits (f_month f)) \<and>
      legalZone (f_zone f) \<and> n = epochMsOf f * 1000000 + fractionNanoseconds (f_fraction f))"
proof (cases "EXPLICIT_ISO_TIMESTAMP v")
  case None
  then show ?thesis by (simp add: parseStrictIsoTimestamp_def)
next
  case (Some f)
  let ?y = "int_of_digits (f_year f)" and ?m = "int_of_digits (f_month f)" and ?d = "int_of_digits (f_day f)"
  have "0 \<le> ?y" using iso_match_Some [OF Some] by (simp add: iso_wf_def int_of_digits_nonneg)
  note utc = utcDaysInMonth_cases(1) [OF this, of ?m]
  define bad where "bad \<longleftrightarrow> ?m < 1 \<or> ?m > 12 \<or> ?d < 1 \<or> ?d > utcDaysInMonth ?y ?m \<or>
    int_of_digits (f_hour f) > 23 \<or> int_of_digits (f_minute f) > 59 \<or> int_of_digits (f_second f) > 59"
  have bad: "\<not> bad \<longleftrightarrow> legalCivil f \<and> ?d \<le> utcDaysInMonth ?y ?m"
    using utc by (auto simp: bad_def legalCivil_def)
  have "parseStrictIsoTimestamp v lbl = (if bad \<or> \<not> legalZone (f_zone f)
      then Inl (Error (lbl @ '' must be a valid ISO-8601 timestamp.''))
      else (case dateParse (\<lambda>_. NaN) (wholeSecondOf f) of
              Num t \<Rightarrow> Inr (\<lfloor>t\<rfloor> * 1000000 + fractionNanoseconds (f_fraction f))
            | _ \<Rightarrow> Inl (Error (lbl @ '' must be a valid ISO-8601 timestamp.''))))"
    unfolding parseStrictIsoTimestamp_def Let_def Some option.case strict_zone [symmetric] bad_def by (simp only: disj_assoc)
  then show ?thesis
    using Some bad dateParse_wholeSecond [OF Some] by auto
qed

text \<open>The canonical form of an instant: the seconds of the calendar and nine digits.\<close>

lemma dayFromYear_mono: "a \<le> b \<Longrightarrow> dayFromYear a \<le> dayFromYear b"
proof (induction b rule: int_ge_induct)
  case (step i)
  then show ?case using dayFromYear_step [of i] by simp
qed simp

lemma dayFromYear_less: "dayFromYear a < dayFromYear b \<Longrightarrow> a < b"
  using dayFromYear_mono [of b a] by linarith

lemma yearFromDay_range:
  assumes "0 \<le> d"
  shows "0 \<le> yearFromDay d" and "yearFromDay d \<le> 9999 \<longleftrightarrow> d < 2932897"
proof -
  have b: "dayFromYear (yearFromDay d) \<le> d" "d < dayFromYear (yearFromDay d + 1)"
    using yearFromDay_bounds [of d] by auto
  have c: "dayFromYear 0 < 0" "dayFromYear 10000 = 2932897" by (simp_all add: dayFromYear_def)
  from b(2) assms c(1) have "dayFromYear 0 < dayFromYear (yearFromDay d + 1)" by linarith
  from dayFromYear_less [OF this] show "0 \<le> yearFromDay d" by simp
  show "yearFromDay d \<le> 9999 \<longleftrightarrow> d < 2932897"
  proof
    assume "yearFromDay d \<le> 9999"
    then have "dayFromYear (yearFromDay d + 1) \<le> dayFromYear 10000" by (intro dayFromYear_mono) simp
    with b(2) c(2) show "d < 2932897" by simp
  next
    assume "d < 2932897"
    with b(1) c(2) have "dayFromYear (yearFromDay d) < dayFromYear 10000" by simp
    from dayFromYear_less [OF this] show "yearFromDay d \<le> 9999" by simp
  qed
qed

lemma isoSeconds_length:
  assumes "0 \<le> yearFromDay (secs div 86400)" "yearFromDay (secs div 86400) \<le> 9999"
  shows "length (isoSeconds secs) = 19"
proof -
  note f = isoSecondFields_facts [OF assms]
  from f(6) have "length (isoSeconds secs) + 1 = length (iso_render (isoSecondFields secs))"
    by (metis length_append length_Cons list.size(3) One_nat_def)
  with f(1,4,5) show ?thesis by (simp add: iso_render_def iso_wf_def two_digits_def)
qed

lemma iso_render_fraction:
  assumes "f_fraction f = []" "f_zone f = ''Z''" "s @ ''Z'' = iso_render f" "fr \<noteq> []"
  shows "s @ ''.'' @ fr @ ''Z'' = iso_render (f\<lparr>f_fraction := fr\<rparr>)"
  using assms by (simp add: iso_render_def flip: append_assoc)

lemma iso_match_head: "EXPLICIT_ISO_TIMESTAMP (CHR ''+'' # s) = None"
  by (simp add: EXPLICIT_ISO_TIMESTAMP_def digitsN_def is_digit_def)

lemma iso_fields_with_fraction:
  assumes "0 \<le> yearFromDay (secs div 86400)" "yearFromDay (secs div 86400) \<le> 9999"
    and "fr \<noteq> []" "length fr \<le> 9" "list_all is_digit fr"
  shows "EXPLICIT_ISO_TIMESTAMP (isoSeconds secs @ ''.'' @ fr @ ''Z'') = Some (isoSecondFields secs\<lparr>f_fraction := fr\<rparr>)"
proof -
  note f = isoSecondFields_facts [OF assms(1,2)]
  have "isoSeconds secs @ ''.'' @ fr @ ''Z'' = iso_render (isoSecondFields secs\<lparr>f_fraction := fr\<rparr>)"
    by (rule iso_render_fraction [OF f(5,4,6) assms(3)])
  with f(1) assms(4,5) show ?thesis by (simp add: iso_match_iff iso_wf_def)
qed

lemma format_iff:
  "formatCanonicalUtcIsoNanoseconds n = Inr s \<longleftrightarrow>
   0 \<le> n \<and> n < 253402300800000000000 \<and>
   s = isoSeconds (n div 1000000000) @ ''.'' @ pad_start 9 CHR ''0'' (digits_of_int (n mod 1000000000)) @ ''Z''"
proof (cases "0 \<le> n")
  case False
  then show ?thesis by (simp add: formatCanonicalUtcIsoNanoseconds_def)
next
  case True
  define secs where "secs = n div 1000000000"
  have sec0: "0 \<le> secs div 86400" using True by (simp add: secs_def pos_imp_zdiv_nonneg_iff)
  have range: "n < 253402300800000000000 \<longleftrightarrow> secs div 86400 < 2932897" unfolding secs_def by (intro iffI; linarith)
  note yr = yearFromDay_range [OF sec0]
  have big: "\<not> MAX_DATE_MILLISECONDS < secs * 1000" if "secs div 86400 < 2932897"
    using that by (simp add: MAX_DATE_MILLISECONDS_def div_less_iff_less_mult)
  have three: "pad_start 3 CHR ''0'' (digits_of_int 0) = ''000''"
    by code_simp
  have iso: "toISOString (secs * 1000) = isoSeconds secs @ ''.'' @ ''000'' @ ''Z''"
    by (simp add: toISOString_def three)
  show ?thesis
  proof (cases "secs div 86400 < 2932897")
    case True
    then have y: "yearFromDay (secs div 86400) \<le> 9999" using yr by simp
    have "list_all is_digit ''000''" by (simp add: is_digit_def)
    then have "EXPLICIT_ISO_TIMESTAMP (toISOString (secs * 1000)) = Some (isoSecondFields secs\<lparr>f_fraction := ''000''\<rparr>)"
      unfolding iso using yr(1) y by (intro iso_fields_with_fraction) simp_all
    then show ?thesis
      using \<open>0 \<le> n\<close> range True big [OF True] isoSecondFields_facts(4) [OF yr(1) y] isoSeconds_length [OF yr(1) y]
      by (auto simp: formatCanonicalUtcIsoNanoseconds_def Let_def iso simp flip: secs_def)
  next
    case False
    then have "\<not> yearFromDay (secs div 86400) \<le> 9999" using yr by simp
    with yr(1) have "\<exists>r. isoSeconds secs = CHR ''+'' # r"
      by (auto simp: isoSeconds_def isoYear_def Let_def split: prod.splits)
    then obtain r where "isoSeconds secs = CHR ''+'' # r" ..
    then have "EXPLICIT_ISO_TIMESTAMP (toISOString (secs * 1000)) = None"
      by (simp add: iso iso_match_head)
    with \<open>0 \<le> n\<close> range False show ?thesis
      by (simp add: formatCanonicalUtcIsoNanoseconds_def Let_def flip: secs_def)
  qed
qed

lemma fractionNanoseconds_nine: "length fr = 9 \<Longrightarrow> fractionNanoseconds fr = int_of_digits fr"
  by (simp add: fractionNanoseconds_def pad_end_def)

lemma parse_format:
  assumes "formatCanonicalUtcIsoNanoseconds n = Inr s"
  shows "parsePositionGuardCandidateTimestamp s lbl = Inr n"
proof -
  define secs where "secs = n div 1000000000"
  define fr where "fr = pad_start 9 CHR ''0'' (digits_of_int (n mod 1000000000))"
  from assms have n: "0 \<le> n" "n < 253402300800000000000" and s: "s = isoSeconds secs @ ''.'' @ fr @ ''Z''"
    by (simp_all add: format_iff secs_def fr_def)
  have fr: "length fr = 9" "list_all is_digit fr" "int_of_digits fr = n mod 1000000000"
    unfolding fr_def by (rule pad_digits; simp)+
  have y: "0 \<le> yearFromDay (secs div 86400)" "yearFromDay (secs div 86400) \<le> 9999"
    using n yearFromDay_range [of "secs div 86400"]
    by (simp_all add: secs_def pos_imp_zdiv_nonneg_iff div_less_iff_less_mult)
  note f = isoSecondFields_facts [OF y]
  have "EXPLICIT_ISO_TIMESTAMP s = Some (isoSecondFields secs\<lparr>f_fraction := fr\<rparr>)"
    unfolding s by (rule iso_fields_with_fraction [OF y]) (use fr in auto)
  moreover have "n = epochMsOf (isoSecondFields secs) * 1000000 + fractionNanoseconds fr"
    using f(3) fr by (simp add: fractionNanoseconds_nine secs_def)
  ultimately show ?thesis
    using f(2,4) unfolding candidate_timestamp_iff by (auto simp: isValidTimezone_def)
qed

lemma strict_or_leap_day:
  assumes "EXPLICIT_ISO_TIMESTAMP v = Some f" and "legalCivil f"
  shows "int_of_digits (f_day f) \<le> utcDaysInMonth (int_of_digits (f_year f)) (int_of_digits (f_month f)) \<or>
    take 10 v = ''0000-02-29''"
proof (rule disjCI)
  have v: "v = iso_render f" "iso_wf f" using iso_match_Some [OF assms(1)] by auto
  then have y0: "0 \<le> int_of_digits (f_year f)" by (simp add: iso_wf_def int_of_digits_nonneg)
  assume n: "take 10 v \<noteq> ''0000-02-29''"
  show "int_of_digits (f_day f) \<le> utcDaysInMonth (int_of_digits (f_year f)) (int_of_digits (f_month f))"
  proof (rule ccontr)
    assume "\<not> ?thesis"
    with utcDaysInMonth_cases(2) [OF y0, of "int_of_digits (f_day f)" "int_of_digits (f_month f)"] assms(2)
    have e: "int_of_digits (f_year f) = 0" "int_of_digits (f_month f) = 2" "int_of_digits (f_day f) = 29"
      by (auto simp: legalCivil_def)
    have "f_year f = ''0000''" "f_month f = ''02''" "f_day f = ''29''"
      using v(2) e
      by (auto intro!: int_of_digits_inject simp: iso_wf_def two_digits_def int_of_digits_def digit_val_def is_digit_def)
    with n v(1) show False by (simp add: iso_render_def)
  qed
qed

subsection \<open>Properties\<close>

text \<open>
  C36. Writing an instant and reading it back: every nanosecond count from the epoch to the end of the
  year 9999, and no other, is formatted, and the reader used for candidate evidence returns the same
  count from the formatted string. No nanosecond is lost and no two instants share a string.
\<close>
theorem timestamp_round_trip:
  "((\<exists>s. formatCanonicalUtcIsoNanoseconds n = Inr s) \<longleftrightarrow> 0 \<le> n \<and> n < 253402300800000000000) \<and>
   (formatCanonicalUtcIsoNanoseconds n = Inr s \<longrightarrow> parsePositionGuardCandidateTimestamp s lbl = Inr n)"
  using parse_format by (auto simp: format_iff)

text \<open>
  The three independently written ISO readers agree. Whatever the engine does with malformed dates, a
  string the candidate reader accepts is read by the performance reader as the same nanosecond, and by
  the strict lifecycle reader as well, the leap day of the year 0000 apart. In the other direction a string
  the strict reader accepts is read alike by the candidate reader as soon as its offset is at most 14:00.
\<close>
theorem timestamp_readers_agree:
  "(parsePositionGuardCandidateTimestamp v lbl = Inr n \<longrightarrow>
      map_option pt_epochNanoseconds (parsePerformanceTimestamp legacy v) = Some n \<and>
      (parseStrictIsoTimestamp v lbl' = Inr n \<or> take 10 v = ''0000-02-29'')) \<and>
   (parseStrictIsoTimestamp v lbl' = Inr n \<longrightarrow>
      parsePositionGuardCandidateTimestamp v lbl = Inr n \<or>
      (\<forall>f. EXPLICIT_ISO_TIMESTAMP v = Some f \<longrightarrow> \<not> isValidTimezone (f_zone f)))"
proof (intro conjI impI)
  assume cand: "parsePositionGuardCandidateTimestamp v lbl = Inr n"
  then obtain f where f: "EXPLICIT_ISO_TIMESTAMP v = Some f" "legalCivil f" "isValidTimezone (f_zone f)"
      "n = epochMsOf f * 1000000 + fractionNanoseconds (f_fraction f)"
    unfolding candidate_timestamp_iff by blast
  have "isValidTimezonePerformance (f_zone f)"
    using f(3) by (auto simp: isValidTimezone_def isValidTimezonePerformance_def)
  with f show "map_option pt_epochNanoseconds (parsePerformanceTimestamp legacy v) = Some n"
    by (simp add: parsePerformanceTimestamp_def civilOutOfRange_legal dateParse_wholeSecond isValidTimezone_legal Let_def)
  show "parseStrictIsoTimestamp v lbl' = Inr n \<or> take 10 v = ''0000-02-29''"
    using f strict_or_leap_day [OF f(1,2)] isValidTimezone_legal [OF f(3)] by (auto simp: strict_timestamp_iff)
next
  assume "parseStrictIsoTimestamp v lbl' = Inr n"
  then show "parsePositionGuardCandidateTimestamp v lbl = Inr n \<or>
      (\<forall>f. EXPLICIT_ISO_TIMESTAMP v = Some f \<longrightarrow> \<not> isValidTimezone (f_zone f))"
    by (auto simp: strict_timestamp_iff candidate_timestamp_iff)
qed

text \<open>
  The two timestamps of a candidate order attempt: the binding instant read from any accepted
  spelling is re-spelled canonically, the order's request instant is the next nanosecond, and both come
  after the activation.
\<close>
theorem attempt_timestamps_ordered:
  assumes "createCandidateExecutionAttemptTimestamps activationEpochNs created = Inr ts"
  shows "\<exists>b. parsePositionGuardCandidateTimestamp created lbl = Inr b \<and> activationEpochNs < b \<and>
    parsePositionGuardCandidateTimestamp (ca_bindingCreatedAt ts) lbl = Inr b \<and>
    parsePositionGuardCandidateTimestamp (ca_orderRequestedAt ts) lbl = Inr (b + 1)"
proof -
  from assms obtain b c r where b: "parsePositionGuardCandidateTimestamp created ''execution binding createdAt'' = Inr b"
      "activationEpochNs < b" "formatCanonicalUtcIsoNanoseconds b = Inr c"
      "formatCanonicalUtcIsoNanoseconds (b + 1) = Inr r"
      "ts = \<lparr>ca_bindingCreatedAt = c, ca_orderRequestedAt = r\<rparr>"
    by (auto simp: createCandidateExecutionAttemptTimestamps_def res_simps)
  then have "parsePositionGuardCandidateTimestamp created lbl = Inr b"
    by (simp add: candidate_timestamp_iff)
  with b parse_format [OF b(3)] parse_format [OF b(4)] show ?thesis by auto
qed

subsection \<open>Witnesses\<close>

lemma timestamp_round_trip_witness:
  "parsePositionGuardCandidateTimestamp ''2026-08-21T09:30:00.000000007Z'' ''t'' = Inr 1787304600000000007"
proof -
  have "formatCanonicalUtcIsoNanoseconds 1787304600000000007 = Inr ''2026-08-21T09:30:00.000000007Z''"
    by code_simp
  with timestamp_round_trip [of 1787304600000000007 "''2026-08-21T09:30:00.000000007Z''" "''t''"] show ?thesis
    by simp
qed

lemma timestamp_readers_agree_witness:
  "map_option pt_epochNanoseconds (parsePerformanceTimestamp (\<lambda>_. NaN) ''2026-08-21T18:30:00.25+09:00'') =
     Some 1787304600250000000 \<and>
   parseStrictIsoTimestamp ''2026-08-21T18:30:00.25+09:00'' ''u'' = Inr 1787304600250000000"
proof -
  have "parsePositionGuardCandidateTimestamp ''2026-08-21T18:30:00.25+09:00'' ''t'' = Inr 1787304600250000000"
    by code_simp
  with timestamp_readers_agree [of "''2026-08-21T18:30:00.25+09:00''" "''t''" 1787304600250000000 "\<lambda>_. NaN" "''u''"]
  show ?thesis by simp
qed

lemma attempt_timestamps_ordered_witness:
  "parsePositionGuardCandidateTimestamp ''2026-08-21T09:30:00.250000001Z'' ''t'' = Inr 1787304600250000001"
proof -
  have run: "createCandidateExecutionAttemptTimestamps 5 ''2026-08-21T18:30:00.25+09:00'' =
      Inr \<lparr>ca_bindingCreatedAt = ''2026-08-21T09:30:00.250000000Z'', ca_orderRequestedAt = ''2026-08-21T09:30:00.250000001Z''\<rparr>"
    by code_simp
  have "parsePositionGuardCandidateTimestamp ''2026-08-21T18:30:00.25+09:00'' ''t'' = Inr 1787304600250000000"
    by code_simp
  with attempt_timestamps_ordered [OF run, of "''t''"] show ?thesis by simp
qed

end
