(* ===== verification/ExactDecimal.thy ===== *)
theory ExactDecimal
  imports Timestamps
begin

section \<open>Exact decimals\<close>

text \<open>
  The decimal arithmetic of \<open>src/src/modules/execution/candidate-evidence-decimals.ts\<close>: an integer
  coefficient and a power of ten, read from and written to canonical strings. \<open>decimalValue\<close> is the
  rational a decimal stands for; the operations are related to rational arithmetic.
\<close>

record ExactDecimal =
  ed_coefficient :: int
  ed_scale :: nat

definition decimalValue :: "ExactDecimal \<Rightarrow> rat" where
  "decimalValue d = of_int (ed_coefficient d) / 10 ^ ed_scale d"

subsection \<open>Operations\<close>

text \<open>The loop divides only multiples of ten, where truncating and flooring division agree.\<close>

fun normalizeLoop :: "int \<Rightarrow> nat \<Rightarrow> int \<times> nat" where
  "normalizeLoop coefficient 0 = (coefficient, 0)"
| "normalizeLoop coefficient (Suc scale) =
     (if coefficient mod 10 = 0 then normalizeLoop (coefficient div 10) scale else (coefficient, Suc scale))"

definition normalizeExactDecimal :: "ExactDecimal \<Rightarrow> ExactDecimal" where
  "normalizeExactDecimal d =
     (case normalizeLoop (ed_coefficient d) (ed_scale d) of (c, s) \<Rightarrow> \<lparr>ed_coefficient = c, ed_scale = s\<rparr>)"

text \<open>The comparison returns -1, 0 or 1.\<close>

definition compareExactDecimals :: "ExactDecimal \<Rightarrow> ExactDecimal \<Rightarrow> int" where
  "compareExactDecimals left right =
     (let scale = max (ed_scale left) (ed_scale right);
          leftCoefficient = ed_coefficient left * 10 ^ (scale - ed_scale left);
          rightCoefficient = ed_coefficient right * 10 ^ (scale - ed_scale right)
      in if leftCoefficient < rightCoefficient then - 1 else if leftCoefficient > rightCoefficient then 1 else 0)"

definition addExactDecimals :: "ExactDecimal \<Rightarrow> ExactDecimal \<Rightarrow> ExactDecimal" where
  "addExactDecimals left right =
     (let scale = max (ed_scale left) (ed_scale right)
      in normalizeExactDecimal
           \<lparr>ed_coefficient = ed_coefficient left * 10 ^ (scale - ed_scale left) +
              ed_coefficient right * 10 ^ (scale - ed_scale right), ed_scale = scale\<rparr>)"

definition subtractExactDecimals :: "ExactDecimal \<Rightarrow> ExactDecimal \<Rightarrow> ExactDecimal" where
  "subtractExactDecimals left right =
     (let scale = max (ed_scale left) (ed_scale right)
      in normalizeExactDecimal
           \<lparr>ed_coefficient = ed_coefficient left * 10 ^ (scale - ed_scale left) -
              ed_coefficient right * 10 ^ (scale - ed_scale right), ed_scale = scale\<rparr>)"

definition multiplyExactDecimals :: "ExactDecimal \<Rightarrow> ExactDecimal \<Rightarrow> ExactDecimal" where
  "multiplyExactDecimals left right =
     normalizeExactDecimal \<lparr>ed_coefficient = ed_coefficient left * ed_coefficient right,
       ed_scale = ed_scale left + ed_scale right\<rparr>"

text \<open>Called with non-negative arguments only, where the remainder of \<open>BigInt\<close> is \<open>mod\<close>.\<close>

function gcdLoop :: "int \<Rightarrow> int \<Rightarrow> int" where
  "gcdLoop a b = (if b = 0 then a else gcdLoop b (a mod b))"
  by pat_completeness auto
termination
  by (relation "measure (\<lambda>(a, b). nat \<bar>b\<bar>)") (auto simp: abs_mod_less)

declare gcdLoop.simps [simp del]

definition greatestCommonDivisor :: "int \<Rightarrow> int \<Rightarrow> int" where
  "greatestCommonDivisor left right = (let a = gcdLoop left right in if a = 0 then 1 else a)"

text \<open>\<open>while (denominator % p === 0n) { denominator /= p; count += 1; }\<close> for a non-zero denominator and \<open>p\<close> = 2, 5.\<close>

function stripFactor :: "int \<Rightarrow> int \<Rightarrow> nat \<Rightarrow> int \<times> nat" where
  "stripFactor p n k = (if n = 0 \<or> p < 2 \<or> n mod p \<noteq> 0 then (n, k) else stripFactor p (n div p) (Suc k))"
  by pat_completeness auto
termination
proof (relation "measure (\<lambda>(p, n, k). nat \<bar>n\<bar>)")
  fix p n :: int and k :: nat
  assume "\<not> (n = 0 \<or> p < 2 \<or> n mod p \<noteq> 0)"
  then have nz: "n \<noteq> 0" "2 \<le> p" "p dvd n" by auto
  then obtain q where q: "n = p * q" by blast
  with nz have "\<bar>q\<bar> < \<bar>n\<bar>" by (auto simp: abs_mult)
  with q nz show "((p, n div p, Suc k), (p, n, k)) \<in> measure (\<lambda>(p, n, k). nat \<bar>n\<bar>)" by simp
qed simp

declare stripFactor.simps [simp del]

definition divideExactDecimals :: "ExactDecimal \<Rightarrow> ExactDecimal \<Rightarrow> string \<Rightarrow> ExactDecimal res" where
  "divideExactDecimals left right label =
     (if ed_coefficient right = 0 then Inl (Error (label @ '' cannot divide by zero.''))
      else
        let scaleDelta = int (ed_scale right) - int (ed_scale left);
            numerator = (if 0 \<le> scaleDelta then ed_coefficient left * 10 ^ nat scaleDelta else ed_coefficient left);
            denominator = (if 0 \<le> scaleDelta then ed_coefficient right else ed_coefficient right * 10 ^ nat (- scaleDelta));
            divisor = greatestCommonDivisor \<bar>numerator\<bar> \<bar>denominator\<bar>;
            numerator = numerator div divisor;
            denominator = denominator div divisor;
            (denominator, twos) = stripFactor 2 denominator 0;
            (denominator, fives) = stripFactor 5 denominator 0
        in if denominator \<noteq> 1 \<and> denominator \<noteq> - 1
           then Inl (Error (label @ '' does not have a terminating exact decimal representation.''))
           else let scale = max twos fives;
                    numerator = (if twos < scale then numerator * 2 ^ (scale - twos) else numerator);
                    numerator = (if fives < scale then numerator * 5 ^ (scale - fives) else numerator)
                in Inr (normalizeExactDecimal \<lparr>ed_coefficient = numerator, ed_scale = scale\<rparr>))"

definition absDecimal :: "ExactDecimal \<Rightarrow> ExactDecimal" where
  "absDecimal d = (if ed_coefficient d < 0 then d\<lparr>ed_coefficient := - ed_coefficient d\<rparr> else d)"

subsection \<open>Canonical strings\<close>

text \<open>
  \<open>/^(?:0|[1-9]\d*)(?:\.\d*[1-9])?$/\<close> and
  \<open>/^(?:0|[1-9]\d*(?:\.\d*[1-9])?|-?[1-9]\d*(?:\.\d*[1-9])?)$/\<close>: the string is cut at its first dot.
\<close>

definition beforeDot :: "string \<Rightarrow> string" where
  "beforeDot s = takeWhile (\<lambda>c. c \<noteq> CHR ''.'') s"

definition fromDot :: "string \<Rightarrow> string" where
  "fromDot s = dropWhile (\<lambda>c. c \<noteq> CHR ''.'') s"

definition nonZeroWhole :: "string \<Rightarrow> bool" where
  "nonZeroWhole w \<longleftrightarrow> w \<noteq> [] \<and> list_all is_digit w \<and> hd w \<noteq> CHR ''0''"

definition canonicalTail :: "string \<Rightarrow> bool" where
  "canonicalTail r \<longleftrightarrow> r = [] \<or> (tl r \<noteq> [] \<and> list_all is_digit (tl r) \<and> last r \<noteq> CHR ''0'')"

definition CANONICAL_NON_NEGATIVE :: "string \<Rightarrow> bool" where
  "CANONICAL_NON_NEGATIVE s \<longleftrightarrow> (beforeDot s = ''0'' \<or> nonZeroWhole (beforeDot s)) \<and> canonicalTail (fromDot s)"

definition CANONICAL_SIGNED :: "string \<Rightarrow> bool" where
  "CANONICAL_SIGNED s \<longleftrightarrow> s = ''0'' \<or>
     (let u = (case s of c # r \<Rightarrow> if c = CHR ''-'' then r else s | [] \<Rightarrow> s)
      in nonZeroWhole (beforeDot u) \<and> canonicalTail (fromDot u))"

definition parseCanonicalDecimal :: "string \<Rightarrow> ExactDecimal" where
  "parseCanonicalDecimal value =
     (let negative = starts_with ''-'' value;
          unsigned = (if negative then drop 1 value else value);
          whole = beforeDot unsigned;
          fractional = drop 1 (fromDot unsigned)
      in normalizeExactDecimal
           \<lparr>ed_coefficient = (if negative then - 1 else 1) * int_of_digits (whole @ fractional),
            ed_scale = length fractional\<rparr>)"

definition parseCanonicalNonNegativeDecimal :: "string \<Rightarrow> string \<Rightarrow> ExactDecimal res" where
  "parseCanonicalNonNegativeDecimal value label =
     (if \<not> CANONICAL_NON_NEGATIVE value
      then Inl (Error (label @ '' must be a canonical non-negative decimal string.''))
      else Inr (parseCanonicalDecimal value))"

definition parseCanonicalSignedDecimal :: "string \<Rightarrow> string \<Rightarrow> ExactDecimal res" where
  "parseCanonicalSignedDecimal value label =
     (if \<not> CANONICAL_SIGNED value
      then Inl (Error (label @ '' must be a canonical signed decimal string.''))
      else Inr (parseCanonicalDecimal value))"

text \<open>\<open>padded.slice(0, -scale)\<close> and \<open>padded.slice(-scale)\<close>.\<close>

definition formatExactDecimal :: "ExactDecimal \<Rightarrow> string" where
  "formatExactDecimal value =
     (let normalized = normalizeExactDecimal value;
          sign = (if ed_coefficient normalized < 0 then ''-'' else []);
          digits = digits_of_int \<bar>ed_coefficient normalized\<bar>
      in if ed_scale normalized = 0 then sign @ digits
         else let padded = pad_start (ed_scale normalized + 1) CHR ''0'' digits;
                  cut = length padded - ed_scale normalized
              in sign @ take cut padded @ ''.'' @ drop cut padded)"

definition canonicalNonNegativeDecimal :: "string \<Rightarrow> string \<Rightarrow> string res" where
  "canonicalNonNegativeDecimal value label =
     ebind (parseCanonicalNonNegativeDecimal value label) (\<lambda>d. Inr (formatExactDecimal d))"

definition canonicalSignedDecimal :: "string \<Rightarrow> string \<Rightarrow> string res" where
  "canonicalSignedDecimal value label =
     ebind (parseCanonicalSignedDecimal value label) (\<lambda>d. Inr (formatExactDecimal d))"

subsection \<open>Normal forms\<close>

definition normalDecimal :: "ExactDecimal \<Rightarrow> bool" where
  "normalDecimal d \<longleftrightarrow> ed_scale d = 0 \<or> \<not> 10 dvd ed_coefficient d"

lemma normalizeLoop_value:
  "normalizeLoop c s = (c', s') \<Longrightarrow>
   (of_int c' / 10 ^ s' :: rat) = of_int c / 10 ^ s \<and> (s' = 0 \<or> \<not> 10 dvd c')"
proof (induction c s rule: normalizeLoop.induct)
  case (1 c)
  then show ?case by auto
next
  case (2 c s)
  show ?case
  proof (cases "10 dvd c")
    case True
    then obtain q where q: "c = 10 * q" ..
    with 2 have "(of_int c' / 10 ^ s' :: rat) = of_int q / 10 ^ s" "s' = 0 \<or> \<not> 10 dvd c'" by auto
    with q show ?thesis by simp
  next
    case False
    with "2.prems" show ?thesis by (auto simp: dvd_eq_mod_eq_0)
  qed
qed

lemma normalize_value [simp]: "decimalValue (normalizeExactDecimal d) = decimalValue d"
  using normalizeLoop_value [of "ed_coefficient d" "ed_scale d"]
  by (auto simp: normalizeExactDecimal_def decimalValue_def split: prod.splits)

lemma normalize_normal [simp]: "normalDecimal (normalizeExactDecimal d)"
  using normalizeLoop_value [of "ed_coefficient d" "ed_scale d"]
  by (auto simp: normalizeExactDecimal_def normalDecimal_def split: prod.splits)

lemma normalize_id: "normalDecimal d \<Longrightarrow> normalizeExactDecimal d = d"
proof (cases d)
  case (fields c s)
  then show "normalDecimal d \<Longrightarrow> normalizeExactDecimal d = d"
    by (cases s) (simp_all add: normalizeExactDecimal_def normalDecimal_def dvd_eq_mod_eq_0)
qed

text \<open>A normal form is determined by its value.\<close>

lemma normal_unique_le:
  assumes "normalDecimal b" and "decimalValue a = decimalValue b" and "ed_scale a \<le> ed_scale b"
  shows "ed_scale a = ed_scale b \<and> ed_coefficient a = ed_coefficient b"
proof -
  obtain k where k: "ed_scale b = ed_scale a + k" using assms(3) le_Suc_ex by blast
  have "(of_int (ed_coefficient a) :: rat) / 10 ^ ed_scale a = of_int (ed_coefficient b) / (10 ^ ed_scale a * 10 ^ k)"
    using assms(2) k by (simp add: decimalValue_def power_add)
  then have "(of_int (ed_coefficient b) :: rat) = of_int (ed_coefficient a) * 10 ^ k" by (simp add: field_simps)
  then have "(of_int (ed_coefficient b) :: rat) = of_int (ed_coefficient a * 10 ^ k)" by simp
  then have eq: "ed_coefficient b = ed_coefficient a * 10 ^ k" by (simp only: of_int_eq_iff)
  have "k = 0"
  proof (rule ccontr)
    assume "k \<noteq> 0"
    then obtain j where "k = Suc j" by (cases k) auto
    with eq have "10 dvd ed_coefficient b" by simp
    with assms(1) k \<open>k \<noteq> 0\<close> show False by (simp add: normalDecimal_def)
  qed
  with eq k show ?thesis by simp
qed

lemma normal_unique:
  assumes "normalDecimal a" "normalDecimal b" "decimalValue a = decimalValue b"
  shows "a = b"
proof (cases "ed_scale a \<le> ed_scale b")
  case True
  from normal_unique_le [OF assms(2,3) True] show ?thesis by (cases a; cases b) simp
next
  case False
  then have "ed_scale b \<le> ed_scale a" by simp
  from normal_unique_le [OF assms(1) assms(3) [symmetric] this] show ?thesis by (cases a; cases b) simp
qed

lemma normalize_eq_iff: "normalizeExactDecimal a = normalizeExactDecimal b \<longleftrightarrow> decimalValue a = decimalValue b"
  by (metis normal_unique normalize_normal normalize_value)

subsection \<open>The operations are rational arithmetic\<close>

lemma rescale:
  assumes "s \<le> m"
  shows "(of_int (c * 10 ^ (m - s)) :: rat) = of_int c / 10 ^ s * 10 ^ m"
proof -
  have "(10::rat) ^ m = 10 ^ (m - s) * 10 ^ s" using assms by (simp flip: power_add)
  then show ?thesis by simp
qed

lemma decimalValue_make: "decimalValue \<lparr>ed_coefficient = c, ed_scale = s\<rparr> = of_int c / 10 ^ s"
  by (simp add: decimalValue_def)

lemma add_value [simp]: "decimalValue (addExactDecimals l r) = decimalValue l + decimalValue r"
proof -
  define m where "m = max (ed_scale l) (ed_scale r)"
  then have "ed_scale l \<le> m" "ed_scale r \<le> m" by simp_all
  note rescale [OF this(1)] rescale [OF this(2)]
  then show ?thesis
    by (simp add: addExactDecimals_def Let_def decimalValue_make decimalValue_def [of l] decimalValue_def [of r]
        add_divide_distrib flip: m_def del: of_int_mult)
qed

lemma subtract_value [simp]: "decimalValue (subtractExactDecimals l r) = decimalValue l - decimalValue r"
proof -
  define m where "m = max (ed_scale l) (ed_scale r)"
  then have "ed_scale l \<le> m" "ed_scale r \<le> m" by simp_all
  note rescale [OF this(1)] rescale [OF this(2)]
  then show ?thesis
    by (simp add: subtractExactDecimals_def Let_def decimalValue_make decimalValue_def [of l] decimalValue_def [of r]
        diff_divide_distrib flip: m_def del: of_int_mult)
qed

lemma multiply_value [simp]: "decimalValue (multiplyExactDecimals l r) = decimalValue l * decimalValue r"
  by (simp add: multiplyExactDecimals_def decimalValue_make decimalValue_def [of l] decimalValue_def [of r] power_add)

lemma abs_value [simp]: "decimalValue (absDecimal d) = \<bar>decimalValue d\<bar>"
  by (simp add: absDecimal_def decimalValue_def)

lemma compare_value:
  "compareExactDecimals l r = (if decimalValue l < decimalValue r then - 1 else if decimalValue l > decimalValue r then 1 else 0)"
proof -
  define m where "m = max (ed_scale l) (ed_scale r)"
  define a where "a = ed_coefficient l * 10 ^ (m - ed_scale l)"
  define b where "b = ed_coefficient r * 10 ^ (m - ed_scale r)"
  have "ed_scale l \<le> m" "ed_scale r \<le> m" by (simp_all add: m_def)
  from rescale [OF this(1)] rescale [OF this(2)]
  have ab: "(of_int a :: rat) = decimalValue l * 10 ^ m" "(of_int b :: rat) = decimalValue r * 10 ^ m"
    by (simp_all add: a_def b_def decimalValue_def)
  have pos: "(0::rat) < 10 ^ m" by simp
  have "a < b \<longleftrightarrow> decimalValue l < decimalValue r" "b < a \<longleftrightarrow> decimalValue r < decimalValue l"
    using ab mult_less_cancel_right_pos [OF pos] of_int_less_iff [where ?'a = rat] by metis+
  then show ?thesis by (simp add: compareExactDecimals_def Let_def a_def b_def m_def)
qed

lemma operations_normal:
  "normalDecimal (addExactDecimals l r)" "normalDecimal (subtractExactDecimals l r)"
  "normalDecimal (multiplyExactDecimals l r)"
  by (simp_all add: addExactDecimals_def subtractExactDecimals_def multiplyExactDecimals_def Let_def)

lemma gcdLoop_gcd: "0 \<le> a \<Longrightarrow> 0 \<le> b \<Longrightarrow> gcdLoop a b = gcd a b"
proof (induction a b rule: gcdLoop.induct)
  case (1 a b)
  show ?case
  proof (cases "b = 0")
    case True
    with "1.prems" show ?thesis by (simp add: gcdLoop.simps [of a])
  next
    case False
    with "1" have "gcdLoop b (a mod b) = gcd b (a mod b)" by simp
    with False show ?thesis by (simp add: gcdLoop.simps [of a] gcd_red_int [of a])
  qed
qed

lemma greatestCommonDivisor_gcd: "d \<noteq> 0 \<Longrightarrow> greatestCommonDivisor \<bar>n\<bar> \<bar>d\<bar> = gcd n d"
  by (simp add: greatestCommonDivisor_def gcdLoop_gcd Let_def)

lemma stripFactor_spec:
  "stripFactor p n k = (m, j) \<Longrightarrow> n \<noteq> 0 \<Longrightarrow> 2 \<le> p \<Longrightarrow> k \<le> j \<and> n = m * p ^ (j - k) \<and> \<not> p dvd m \<and> m \<noteq> 0"
proof (induction p n k rule: stripFactor.induct)
  case (1 p n k)
  show ?case
  proof (cases "p dvd n")
    case False
    with "1.prems" show ?thesis by (simp add: stripFactor.simps [of p n] dvd_eq_mod_eq_0 split: if_splits)
  next
    case True
    then obtain q where q: "n = p * q" ..
    with "1.prems" have qz: "q \<noteq> 0" "n div p = q" "n mod p = 0" by auto
    with "1.prems" have run: "stripFactor p q (Suc k) = (m, j)" "q \<noteq> 0"
      by (simp_all add: stripFactor.simps [of p n])
    from "1.IH" run qz "1.prems" have ih: "Suc k \<le> j" "q = m * p ^ (j - Suc k)" "\<not> p dvd m" "m \<noteq> 0"
      by auto
    then have "j - k = Suc (j - Suc k)" by simp
    with ih q show ?thesis by simp
  qed
qed

text \<open>The reduced fraction has a terminating expansion exactly when its denominator is 2s and 5s.\<close>

lemma coprime_five:
  fixes m :: int
  assumes "\<not> 5 dvd m"
  shows "coprime m 5"
proof -
  define g where "g = gcd m 5"
  have g: "g dvd 5" "g dvd m" "0 \<le> g" by (simp_all add: g_def)
  then have "g \<le> 5" by (intro zdvd_imp_le) simp_all
  with g(3) have "g = 0 \<or> g = 1 \<or> g = 2 \<or> g = 3 \<or> g = 4 \<or> g = 5" by arith
  with g(1,2) assms have "g = 1" by auto
  then show ?thesis by (simp add: g_def coprime_iff_gcd_eq_1)
qed

lemma terminating_denominator:
  fixes n d c :: int
  assumes "coprime n d" and "d \<noteq> 0" and "(of_int n / of_int d :: rat) = of_int c / 10 ^ s"
    and "d = m * 5 ^ f * 2 ^ t" and "\<not> 2 dvd m" and "\<not> 5 dvd m"
  shows "m = 1 \<or> m = - 1"
proof -
  have "(of_int (n * 10 ^ s) :: rat) = of_int (c * d)"
    using assms(2,3) by (simp add: field_simps)
  then have "n * 10 ^ s = c * d" by (simp only: of_int_eq_iff)
  then have "d dvd n * 10 ^ s" by simp
  with assms(1) have "d dvd 10 ^ s" by (simp add: coprime_dvd_mult_right_iff coprime_commute)
  then have "m dvd 10 ^ s" using assms(4) by (metis dvd_trans dvd_triv_left mult.assoc)
  moreover have "coprime m 2" "coprime m 5"
    using assms(5) coprime_five [OF assms(6)] by simp_all
  then have "coprime m (10 ^ s)" using coprime_mult_right_iff [of m 2 5] by simp
  ultimately have "is_unit m" using coprime_common_divisor [of m "10 ^ s" m] by simp
  then show ?thesis by auto
qed

text \<open>The fraction the division reduces, and its outcome in terms of the stripped denominator.\<close>

definition quotientParts :: "ExactDecimal \<Rightarrow> ExactDecimal \<Rightarrow> int \<times> int" where
  "quotientParts l r =
     (let N = ed_coefficient l * 10 ^ (ed_scale r - ed_scale l); D = ed_coefficient r * 10 ^ (ed_scale l - ed_scale r)
      in (N div gcd N D, D div gcd N D))"

lemma quotientParts_spec:
  assumes "ed_coefficient r \<noteq> 0" and "quotientParts l r = (n, d)"
  shows "coprime n d \<and> d \<noteq> 0 \<and> (of_int n / of_int d :: rat) = decimalValue l / decimalValue r \<and>
    sgn d = sgn (ed_coefficient r)"
proof -
  define N where "N = ed_coefficient l * 10 ^ (ed_scale r - ed_scale l)"
  define D where "D = ed_coefficient r * 10 ^ (ed_scale l - ed_scale r)"
  define g where "g = gcd N D"
  have D: "D \<noteq> 0" using assms(1) by (simp add: D_def)
  then have g: "0 < g" "g dvd N" "g dvd D" by (simp_all add: g_def)
  have nd: "n = N div g" "d = D div g" using assms(2) by (simp_all add: quotientParts_def Let_def N_def D_def g_def)
  then have N': "N = n * g" and D': "D = d * g" using g by simp_all
  have cop: "coprime n d" unfolding nd g_def by (rule div_gcd_coprime) (use D in simp)
  have "(of_int n / of_int d :: rat) = of_int N / of_int D" using g(1) N' D' by simp
  also have "\<dots> = decimalValue l / decimalValue r"
  proof (cases "ed_scale l \<le> ed_scale r")
    case True
    then have "(10::rat) ^ ed_scale r = 10 ^ (ed_scale r - ed_scale l) * 10 ^ ed_scale l" by (simp flip: power_add)
    with True show ?thesis by (simp add: N_def D_def decimalValue_def)
  next
    case False
    then have "(10::rat) ^ ed_scale l = 10 ^ (ed_scale l - ed_scale r) * 10 ^ ed_scale r" by (simp flip: power_add)
    with False show ?thesis by (simp add: N_def D_def decimalValue_def)
  qed
  finally have val: "(of_int n / of_int d :: rat) = decimalValue l / decimalValue r" .
  have "sgn D = sgn d" using D' g(1) by (simp add: sgn_mult)
  moreover have "sgn D = sgn (ed_coefficient r)" by (simp add: D_def sgn_mult)
  ultimately show ?thesis using cop val D D' by auto
qed

lemma divide_eq:
  assumes "ed_coefficient r \<noteq> 0"
  shows "divideExactDecimals l r label =
    (case quotientParts l r of (n, d) \<Rightarrow> case stripFactor 2 d 0 of (d1, t) \<Rightarrow> case stripFactor 5 d1 0 of (m, f) \<Rightarrow>
       if m \<noteq> 1 \<and> m \<noteq> - 1
       then Inl (Error (label @ '' does not have a terminating exact decimal representation.''))
       else Inr (normalizeExactDecimal
              \<lparr>ed_coefficient = n * 2 ^ (max t f - t) * 5 ^ (max t f - f), ed_scale = max t f\<rparr>))"
proof -
  define N where "N = ed_coefficient l * 10 ^ (ed_scale r - ed_scale l)"
  define D where "D = ed_coefficient r * 10 ^ (ed_scale l - ed_scale r)"
  have D: "D \<noteq> 0" using assms by (simp add: D_def)
  have N': "(if 0 \<le> int (ed_scale r) - int (ed_scale l) then ed_coefficient l * 10 ^ nat (int (ed_scale r) - int (ed_scale l))
      else ed_coefficient l) = N"
    by (auto simp: N_def nat_diff_distrib)
  have D': "(if 0 \<le> int (ed_scale r) - int (ed_scale l) then ed_coefficient r
      else ed_coefficient r * 10 ^ nat (- (int (ed_scale r) - int (ed_scale l)))) = D"
    by (auto simp: D_def nat_diff_distrib)
  show ?thesis
    unfolding divideExactDecimals_def Let_def N' D' greatestCommonDivisor_gcd [OF D] quotientParts_def
      N_def [symmetric] D_def [symmetric]
    using assms by (auto split: prod.splits)
qed

lemma divide_value:
  assumes "divideExactDecimals l r label = Inr q"
  shows "decimalValue q = decimalValue l / \<bar>decimalValue r\<bar> \<and> normalDecimal q"
proof -
  from assms have r: "ed_coefficient r \<noteq> 0" by (auto simp: divideExactDecimals_def split: if_splits)
  obtain n d d1 t m f where parts: "quotientParts l r = (n, d)" "stripFactor 2 d 0 = (d1, t)" "stripFactor 5 d1 0 = (m, f)"
    by (metis surj_pair)
  note q = quotientParts_spec [OF r parts(1)]
  from stripFactor_spec [OF parts(2)] q have d1: "d = d1 * 2 ^ t" "d1 \<noteq> 0" by auto
  from stripFactor_spec [OF parts(3)] d1 have m: "d1 = m * 5 ^ f" by auto
  from assms parts have out: "m = 1 \<or> m = - 1" "q = normalizeExactDecimal
      \<lparr>ed_coefficient = n * 2 ^ (max t f - t) * 5 ^ (max t f - f), ed_scale = max t f\<rparr>"
    by (auto simp: divide_eq [OF r] split: if_splits)
  have ten: "(10::rat) ^ max t f = (2 ^ (max t f - t) * 2 ^ t) * (5 ^ (max t f - f) * 5 ^ f)"
    by (simp flip: power_add power_mult_distrib)
  have "decimalValue q = of_int n / (2 ^ t * 5 ^ f)"
    using ten by (simp add: out(2) decimalValue_make)
  also have "\<dots> = of_int n / \<bar>of_int d\<bar>"
    using out(1) d1 m by (auto simp: abs_mult)
  also have "\<dots> = decimalValue l / \<bar>decimalValue r\<bar>"
  proof (cases "0 < ed_coefficient r")
    case True
    with q have "0 < d" by (simp add: sgn_if split: if_splits)
    with q True show ?thesis by (simp add: decimalValue_def)
  next
    case False
    with q r have "d < 0" by (simp add: sgn_if split: if_splits)
    moreover from False r have "ed_coefficient r < 0" by linarith
    then have "decimalValue r < 0" by (simp add: decimalValue_def divide_neg_pos)
    moreover have "(of_int n / of_int d :: rat) = decimalValue l / decimalValue r" using q by blast
    ultimately show ?thesis by simp
  qed
  finally show ?thesis by (simp add: out(2))
qed

lemma divide_fails:
  assumes "divideExactDecimals l r label = Inl e"
  shows "decimalValue r = 0 \<or> (\<forall>x. decimalValue x \<noteq> decimalValue l / decimalValue r)"
proof (cases "ed_coefficient r = 0")
  case True
  then show ?thesis by (simp add: decimalValue_def)
next
  case False
  obtain n d d1 t m f where parts: "quotientParts l r = (n, d)" "stripFactor 2 d 0 = (d1, t)" "stripFactor 5 d1 0 = (m, f)"
    by (metis surj_pair)
  note q = quotientParts_spec [OF False parts(1)]
  from stripFactor_spec [OF parts(2)] q have d1: "d = d1 * 2 ^ t" "d1 \<noteq> 0" "\<not> 2 dvd d1" by auto
  from stripFactor_spec [OF parts(3)] d1 have m: "d1 = m * 5 ^ f" "\<not> 5 dvd m" by auto
  with d1(3) have "\<not> 2 dvd m" by simp
  moreover from assms parts have "m \<noteq> 1 \<and> m \<noteq> - 1" by (auto simp: divide_eq [OF False] split: if_splits)
  ultimately have "decimalValue x \<noteq> decimalValue l / decimalValue r" for x
    using terminating_denominator [of n d "ed_coefficient x" "ed_scale x" m f t] q d1(1) m
    by (auto simp: decimalValue_def [of x])
  then show ?thesis by simp
qed

subsection \<open>Digits of canonical strings\<close>

lemma digit_char_0: "digit_char 0 = CHR ''0''"
  by code_simp

lemma digit_val_zero: "digit_val c = 0 \<longleftrightarrow> c = CHR ''0''"
  using digit_char_val [of c] by (auto simp: digit_char_0 digit_val_def)

lemma digit_char_zero: "0 \<le> k \<Longrightarrow> k < 10 \<Longrightarrow> digit_char k = CHR ''0'' \<longleftrightarrow> k = 0"
  using digit_val_zero [of "digit_char k"] by simp

lemma digits_of_int_of_digits:
  "t \<noteq> [] \<Longrightarrow> list_all is_digit t \<Longrightarrow> hd t \<noteq> CHR ''0'' \<Longrightarrow>
   digits_of_int (int_of_digits t) = t \<and> 0 < int_of_digits t"
proof (induction t rule: rev_induct)
  case Nil
  then show ?case by simp
next
  case (snoc c s)
  then have c: "0 \<le> digit_val c" "digit_val c < 10" by simp_all
  show ?case
  proof (cases "s = []")
    case True
    with snoc.prems have "c \<noteq> CHR ''0''" by simp
    then have "digit_val c \<noteq> 0" by (simp add: digit_val_zero)
    with c True show ?thesis
      using int_of_digits_snoc [of "[]" c] by (simp add: digits_of_int.simps [of "digit_val c"])
  next
    case False
    with snoc have ih: "digits_of_int (int_of_digits s) = s" "0 < int_of_digits s" by auto
    let ?n = "10 * int_of_digits s + digit_val c"
    have "\<not> ?n < 10" "?n div 10 = int_of_digits s" "?n mod 10 = digit_val c" using ih(2) c by simp_all
    with ih c show ?thesis by (simp add: digits_of_int.simps [of ?n])
  qed
qed

lemma digits_of_int_hd: "0 < n \<Longrightarrow> hd (digits_of_int n) \<noteq> CHR ''0''"
proof (induction n rule: digits_of_int.induct)
  case (1 n)
  show ?case
  proof (cases "n < 10")
    case True
    with "1.prems" show ?thesis by (simp add: digits_of_int.simps [of n] digit_char_zero)
  next
    case False
    with "1.IH" have "hd (digits_of_int (n div 10)) \<noteq> CHR ''0''" by simp
    with False show ?thesis by (simp add: digits_of_int.simps [of n])
  qed
qed

lemma digits_of_int_last: "0 \<le> n \<Longrightarrow> last (digits_of_int n) = digit_char (n mod 10)"
  by (subst digits_of_int.simps) simp

lemma pad_start_digits:
  assumes "list_all is_digit t" and "t \<noteq> []" and "n < length t" and "hd t \<noteq> CHR ''0'' \<or> length t = n + 1"
  shows "pad_start (n + 1) CHR ''0'' (digits_of_int (int_of_digits t)) = t"
proof (cases "hd t = CHR ''0''")
  case False
  with digits_of_int_of_digits [OF assms(2,1)] assms(3) show ?thesis by (simp add: pad_start_def)
next
  case True
  with assms(4) have len: "length t = n + 1" by simp
  have bound: "0 \<le> int_of_digits t" "int_of_digits t < 10 ^ (n + 1)" "0 < n + 1"
    using int_of_digits_bound [OF assms(1)] int_of_digits_nonneg [OF assms(1)] len by simp_all
  show ?thesis
    by (rule int_of_digits_inject) (simp_all only: pad_digits [OF bound] len assms(1))
qed

lemma digit_not_dot: "is_digit c \<Longrightarrow> c \<noteq> CHR ''.'' \<and> c \<noteq> CHR ''-''"
  by (auto simp: is_digit_def)

lemma dot_cut:
  assumes "list_all is_digit w"
  shows "beforeDot (w @ CHR ''.'' # f) = w" "fromDot (w @ CHR ''.'' # f) = CHR ''.'' # f"
    "beforeDot w = w" "fromDot w = []"
  using assms by (induction w) (auto simp: beforeDot_def fromDot_def dest: digit_not_dot)

lemma dot_join: "beforeDot s @ fromDot s = s"
  by (simp add: beforeDot_def fromDot_def)

lemma fromDot_shape: "fromDot s = [] \<or> (\<exists>f. fromDot s = CHR ''.'' # f)"
  unfolding fromDot_def by (induction s) auto

text \<open>A canonical unsigned string is a whole part and a fraction without superfluous zeros.\<close>

definition unsignedOf :: "string \<Rightarrow> string \<Rightarrow> string" where
  "unsignedOf w f = w @ (if f = [] then [] else CHR ''.'' # f)"

definition canonicalParts :: "string \<Rightarrow> string \<Rightarrow> bool" where
  "canonicalParts w f \<longleftrightarrow> w \<noteq> [] \<and> list_all is_digit w \<and> list_all is_digit f \<and>
     (w = ''0'' \<or> hd w \<noteq> CHR ''0'') \<and> (f = [] \<or> last f \<noteq> CHR ''0'')"

lemma unsigned_cut:
  assumes "list_all is_digit w"
  shows "beforeDot (unsignedOf w f) = w" and "fromDot (unsignedOf w f) = (if f = [] then [] else CHR ''.'' # f)"
  using dot_cut [OF assms] by (simp_all add: unsignedOf_def)

lemma canonical_nonneg_iff: "CANONICAL_NON_NEGATIVE s \<longleftrightarrow> (\<exists>w f. s = unsignedOf w f \<and> canonicalParts w f)"
proof
  assume c: "CANONICAL_NON_NEGATIVE s"
  have d0: "is_digit CHR ''0''" by (simp add: is_digit_def)
  have "s = unsignedOf (beforeDot s) (drop 1 (fromDot s)) \<and> canonicalParts (beforeDot s) (drop 1 (fromDot s))"
    using c fromDot_shape [of s] dot_join [of s] d0
    by (auto simp: CANONICAL_NON_NEGATIVE_def canonicalParts_def nonZeroWhole_def canonicalTail_def unsignedOf_def)
  then show "\<exists>w f. s = unsignedOf w f \<and> canonicalParts w f" by blast
next
  assume "\<exists>w f. s = unsignedOf w f \<and> canonicalParts w f"
  then obtain w f where "s = unsignedOf w f" "canonicalParts w f" by blast
  then show "CANONICAL_NON_NEGATIVE s"
    by (auto simp: CANONICAL_NON_NEGATIVE_def canonicalParts_def nonZeroWhole_def canonicalTail_def unsigned_cut)
qed

lemma canonical_signed_iff:
  "CANONICAL_SIGNED s \<longleftrightarrow> s = ''0'' \<or>
     (\<exists>w f. (s = unsignedOf w f \<or> s = CHR ''-'' # unsignedOf w f) \<and> canonicalParts w f \<and> w \<noteq> ''0'')"
proof -
  have u: "nonZeroWhole (beforeDot u) \<and> canonicalTail (fromDot u) \<longleftrightarrow>
      (\<exists>w f. u = unsignedOf w f \<and> canonicalParts w f \<and> w \<noteq> ''0'')" for u
  proof
    assume "nonZeroWhole (beforeDot u) \<and> canonicalTail (fromDot u)"
    then have "u = unsignedOf (beforeDot u) (drop 1 (fromDot u)) \<and> canonicalParts (beforeDot u) (drop 1 (fromDot u)) \<and> beforeDot u \<noteq> ''0''"
      using fromDot_shape [of u] dot_join [of u]
      by (auto simp: canonicalParts_def nonZeroWhole_def canonicalTail_def unsignedOf_def)
    then show "\<exists>w f. u = unsignedOf w f \<and> canonicalParts w f \<and> w \<noteq> ''0''" by blast
  next
    assume "\<exists>w f. u = unsignedOf w f \<and> canonicalParts w f \<and> w \<noteq> ''0''"
    then show "nonZeroWhole (beforeDot u) \<and> canonicalTail (fromDot u)"
      by (auto simp: canonicalParts_def nonZeroWhole_def canonicalTail_def unsigned_cut split: if_splits)
  qed
  have head: "canonicalParts w f \<Longrightarrow> \<exists>c r. unsignedOf w f = c # r \<and> c \<noteq> CHR ''-''" for w f
    by (cases w) (auto simp: canonicalParts_def unsignedOf_def dest: digit_not_dot)
  show ?thesis
    unfolding CANONICAL_SIGNED_def Let_def u using head
    by (cases s) (auto split: if_splits, metis list.inject)
qed

lemma parts_not_ten:
  assumes "canonicalParts w f" and "f \<noteq> []"
  shows "\<not> 10 dvd int_of_digits (w @ f)"
proof -
  have eq: "w @ f = butlast (w @ f) @ [last f]" using assms(2) by (simp add: butlast_append)
  have l: "is_digit (last f)" "last f \<noteq> CHR ''0''" using assms by (auto simp: canonicalParts_def list_all_iff)
  then have v: "0 < digit_val (last f)" "digit_val (last f) < 10"
    using digit_val_zero [of "last f"] digit_val_nonneg [of "last f"] by (auto simp del: digit_val_nonneg)
  have "int_of_digits (w @ f) mod 10 = digit_val (last f)"
    by (subst eq) (use v in simp)
  with v show ?thesis by (simp add: dvd_eq_mod_eq_0)
qed

lemma parse_parts:
  assumes "canonicalParts w f"
  shows "parseCanonicalDecimal (unsignedOf w f) = \<lparr>ed_coefficient = int_of_digits (w @ f), ed_scale = length f\<rparr>"
    and "parseCanonicalDecimal (CHR ''-'' # unsignedOf w f) = \<lparr>ed_coefficient = - int_of_digits (w @ f), ed_scale = length f\<rparr>"
proof -
  have w: "list_all is_digit w" "\<not> starts_with ''-'' (unsignedOf w f)"
    using assms by (auto simp: canonicalParts_def unsignedOf_def neq_Nil_conv dest: digit_not_dot)
  have n: "normalDecimal \<lparr>ed_coefficient = int_of_digits (w @ f), ed_scale = length f\<rparr>"
    "normalDecimal \<lparr>ed_coefficient = - int_of_digits (w @ f), ed_scale = length f\<rparr>"
    using parts_not_ten [OF assms] by (auto simp: normalDecimal_def)
  show "parseCanonicalDecimal (unsignedOf w f) = \<lparr>ed_coefficient = int_of_digits (w @ f), ed_scale = length f\<rparr>"
    using w normalize_id [OF n(1)] by (cases "f = []") (simp_all add: parseCanonicalDecimal_def Let_def unsigned_cut)
  show "parseCanonicalDecimal (CHR ''-'' # unsignedOf w f) = \<lparr>ed_coefficient = - int_of_digits (w @ f), ed_scale = length f\<rparr>"
    using w normalize_id [OF n(2)] by (cases "f = []") (simp_all add: parseCanonicalDecimal_def Let_def unsigned_cut)
qed

lemma parts_digits:
  assumes "canonicalParts w f"
  shows "f = [] \<Longrightarrow> digits_of_int (int_of_digits w) = w"
    and "pad_start (length f + 1) CHR ''0'' (digits_of_int (int_of_digits (w @ f))) = w @ f"
proof -
  show "digits_of_int (int_of_digits w) = w" if "f = []"
  proof (cases "w = ''0''")
    case True
    then show ?thesis by (simp add: int_of_digits_def digit_val_def digits_of_int.simps digit_char_0)
  next
    case False
    with assms digits_of_int_of_digits [of w] show ?thesis by (auto simp: canonicalParts_def)
  qed
  show "pad_start (length f + 1) CHR ''0'' (digits_of_int (int_of_digits (w @ f))) = w @ f"
    using assms by (intro pad_start_digits) (auto simp: canonicalParts_def)
qed

lemma format_parts:
  assumes "canonicalParts w f"
  shows "formatExactDecimal \<lparr>ed_coefficient = int_of_digits (w @ f), ed_scale = length f\<rparr> = unsignedOf w f"
    and "0 < int_of_digits (w @ f) \<Longrightarrow>
      formatExactDecimal \<lparr>ed_coefficient = - int_of_digits (w @ f), ed_scale = length f\<rparr> = CHR ''-'' # unsignedOf w f"
proof -
  have n: "normalDecimal \<lparr>ed_coefficient = int_of_digits (w @ f), ed_scale = length f\<rparr>"
    "normalDecimal \<lparr>ed_coefficient = - int_of_digits (w @ f), ed_scale = length f\<rparr>"
    using parts_not_ten [OF assms] by (auto simp: normalDecimal_def)
  have nn: "0 \<le> int_of_digits (w @ f)" using assms by (intro int_of_digits_nonneg) (simp add: canonicalParts_def)
  show "formatExactDecimal \<lparr>ed_coefficient = int_of_digits (w @ f), ed_scale = length f\<rparr> = unsignedOf w f"
    using nn parts_digits [OF assms]
    by (auto simp: formatExactDecimal_def normalize_id [OF n(1)] Let_def unsignedOf_def)
  show "0 < int_of_digits (w @ f) \<Longrightarrow>
      formatExactDecimal \<lparr>ed_coefficient = - int_of_digits (w @ f), ed_scale = length f\<rparr> = CHR ''-'' # unsignedOf w f"
    using parts_digits [OF assms]
    by (auto simp: formatExactDecimal_def normalize_id [OF n(2)] Let_def unsignedOf_def)
qed

text \<open>Every normal decimal has canonical parts.\<close>

lemma parts_exist:
  assumes "normalDecimal \<lparr>ed_coefficient = c, ed_scale = k\<rparr>" and "0 \<le> c"
  shows "\<exists>w f. canonicalParts w f \<and> int_of_digits (w @ f) = c \<and> length f = k"
proof -
  define p where "p = pad_start (k + 1) CHR ''0'' (digits_of_int c)"
  let ?cut = "length p - k"
  have d0: "is_digit CHR ''0''" by (simp add: is_digit_def)
  have dg: "list_all is_digit (digits_of_int c)" using digits_of_int_digits [OF assms(2)] .
  then have p: "list_all is_digit p" "int_of_digits p = c" "k < length p"
    using assms(2) d0 by (auto simp: p_def pad_start_def list_all_iff)
  have lastp: "last p = last (digits_of_int c)" by (simp add: p_def pad_start_def)
  have w: "take ?cut p = ''0'' \<or> hd (take ?cut p) \<noteq> CHR ''0''"
  proof (cases "length (digits_of_int c) \<le> k")
    case True
    then have "length p = k + 1" and "hd p = CHR ''0''" by (auto simp: p_def pad_start_def hd_append)
    then have "take ?cut p = [hd p]" by (cases p) auto
    with \<open>hd p = CHR ''0''\<close> show ?thesis by simp
  next
    case False
    then have pd: "p = digits_of_int c" by (simp add: p_def pad_start_def)
    show ?thesis
    proof (cases "c = 0")
      case True
      then have "digits_of_int c = ''0''" by (simp add: digits_of_int.simps digit_char_0)
      with False pd show ?thesis by simp
    next
      case False
      with assms(2) digits_of_int_hd [of c] pd p(3) show ?thesis by (cases p) (auto simp: take_Cons')
    qed
  qed
  have f: "drop ?cut p = [] \<or> last (drop ?cut p) \<noteq> CHR ''0''"
  proof (cases "k = 0")
    case False
    with assms(1) have "\<not> 10 dvd c" by (simp add: normalDecimal_def)
    then have "c mod 10 \<noteq> 0" by (simp add: dvd_eq_mod_eq_0)
    then have "last p \<noteq> CHR ''0''"
      using lastp digits_of_int_last [OF assms(2)] digit_char_zero [of "c mod 10"] by simp
    with False p(3) show ?thesis by (simp add: last_drop)
  qed simp
  have "canonicalParts (take ?cut p) (drop ?cut p)"
    using p w f by (auto simp: canonicalParts_def list_all_iff dest: in_set_takeD in_set_dropD)
  with p(2,3) show ?thesis by (intro exI [of _ "take ?cut p"] exI [of _ "drop ?cut p"]) simp
qed

lemma decimal_sign: "decimalValue d < 0 \<longleftrightarrow> ed_coefficient d < 0" "0 \<le> decimalValue d \<longleftrightarrow> 0 \<le> ed_coefficient d"
proof -
  have "(0::rat) < 10 ^ ed_scale d" by simp
  then show "decimalValue d < 0 \<longleftrightarrow> ed_coefficient d < 0" "0 \<le> decimalValue d \<longleftrightarrow> 0 \<le> ed_coefficient d"
    unfolding decimalValue_def by (simp_all add: pos_divide_less_eq pos_le_divide_eq)
qed

lemma format_nonneg:
  assumes "0 \<le> decimalValue d"
  obtains w f where "canonicalParts w f" "formatExactDecimal d = unsignedOf w f"
    "normalizeExactDecimal d = \<lparr>ed_coefficient = int_of_digits (w @ f), ed_scale = length f\<rparr>"
proof -
  obtain c k where n: "normalizeExactDecimal d = \<lparr>ed_coefficient = c, ed_scale = k\<rparr>" by (metis ExactDecimal.cases)
  have "normalDecimal \<lparr>ed_coefficient = c, ed_scale = k\<rparr>" "0 \<le> c"
    using assms normalize_normal [of d] normalize_value [of d] n decimal_sign(2) [of "normalizeExactDecimal d"] by simp_all
  from parts_exist [OF this] obtain w f where p: "canonicalParts w f" "int_of_digits (w @ f) = c" "length f = k" by blast
  moreover have "formatExactDecimal d = formatExactDecimal (normalizeExactDecimal d)"
    by (simp add: formatExactDecimal_def normalize_id)
  ultimately show ?thesis using that n format_parts(1) [OF p(1)] by simp
qed

lemma format_negative:
  assumes "decimalValue d < 0"
  obtains w f where "canonicalParts w f" "formatExactDecimal d = CHR ''-'' # unsignedOf w f"
    "normalizeExactDecimal d = \<lparr>ed_coefficient = - int_of_digits (w @ f), ed_scale = length f\<rparr>"
proof -
  obtain c k where n: "normalizeExactDecimal d = \<lparr>ed_coefficient = c, ed_scale = k\<rparr>" by (metis ExactDecimal.cases)
  have "normalDecimal \<lparr>ed_coefficient = - c, ed_scale = k\<rparr>" "0 < - c"
    using assms normalize_normal [of d] normalize_value [of d] n decimal_sign(1) [of "normalizeExactDecimal d"]
    by (simp_all add: normalDecimal_def)
  moreover from this obtain w f where p: "canonicalParts w f" "int_of_digits (w @ f) = - c" "length f = k"
    using parts_exist [of "- c" k] by auto
  moreover have "formatExactDecimal d = formatExactDecimal (normalizeExactDecimal d)"
    by (simp add: formatExactDecimal_def normalize_id)
  ultimately show ?thesis using that n format_parts(2) [OF p(1)] by simp
qed

lemma parse_nonneg_format:
  assumes "0 \<le> decimalValue d"
  shows "parseCanonicalNonNegativeDecimal (formatExactDecimal d) lbl = Inr (normalizeExactDecimal d)"
  using assms
  by (rule format_nonneg) (auto simp: parseCanonicalNonNegativeDecimal_def canonical_nonneg_iff parse_parts)

lemma format_parse_nonneg:
  assumes "parseCanonicalNonNegativeDecimal s lbl = Inr d"
  shows "formatExactDecimal d = s" and "normalDecimal d" and "0 \<le> decimalValue d"
proof -
  from assms obtain w f where s: "s = unsignedOf w f" "canonicalParts w f" "d = parseCanonicalDecimal s"
    by (auto simp: parseCanonicalNonNegativeDecimal_def canonical_nonneg_iff split: if_splits)
  then have d: "d = \<lparr>ed_coefficient = int_of_digits (w @ f), ed_scale = length f\<rparr>" by (simp add: parse_parts)
  show "formatExactDecimal d = s" unfolding d s(1) by (rule format_parts(1) [OF s(2)])
  show "normalDecimal d" using s(3) by (simp add: parseCanonicalDecimal_def Let_def)
  have "0 \<le> int_of_digits (w @ f)" using s(2) by (intro int_of_digits_nonneg) (simp add: canonicalParts_def)
  then show "0 \<le> decimalValue d" by (simp add: d decimalValue_make)
qed

lemma parse_nonneg_inject:
  assumes "parseCanonicalNonNegativeDecimal s lbl = Inr d" and "parseCanonicalNonNegativeDecimal t lbl' = Inr e"
  shows "s = t \<longleftrightarrow> decimalValue d = decimalValue e"
proof
  assume "s = t"
  with assms show "decimalValue d = decimalValue e" by (simp add: parseCanonicalNonNegativeDecimal_def split: if_splits)
next
  assume "decimalValue d = decimalValue e"
  with normal_unique format_parse_nonneg(2) [OF assms(1)] format_parse_nonneg(2) [OF assms(2)] have "d = e" by blast
  with format_parse_nonneg(1) [OF assms(1)] format_parse_nonneg(1) [OF assms(2)] show "s = t" by simp
qed

lemma canonicalNonNegative_id: "canonicalNonNegativeDecimal s lbl = Inr t \<Longrightarrow> t = s"
  by (auto simp: canonicalNonNegativeDecimal_def res_simps dest: format_parse_nonneg)

text \<open>What the signed pattern accepts: zero, and numbers of absolute value at least one.\<close>

lemma parts_at_least_one:
  assumes "canonicalParts w f"
  shows "w = ''0'' \<longleftrightarrow> (of_int (int_of_digits (w @ f)) / 10 ^ length f :: rat) < 1"
proof -
  have dig: "list_all is_digit w" "list_all is_digit f" using assms by (auto simp: canonicalParts_def)
  have split: "int_of_digits (w @ f) = int_of_digits w * 10 ^ length f + int_of_digits f"
    by (rule int_of_digits_append)
  have lt: "(of_int (int_of_digits (w @ f)) / 10 ^ length f :: rat) < 1 \<longleftrightarrow> int_of_digits (w @ f) < 10 ^ length f"
    by (simp add: pos_divide_less_eq)
  show ?thesis
  proof (cases "w = ''0''")
    case True
    then have "int_of_digits w = 0" by (simp add: int_of_digits_def digit_val_def)
    with True split int_of_digits_bound [OF dig(2)] lt show ?thesis by simp
  next
    case False
    with assms digits_of_int_of_digits [of w] have "1 \<le> int_of_digits w" by (auto simp: canonicalParts_def)
    then have "10 ^ length f \<le> int_of_digits w * 10 ^ length f" by simp
    with False split int_of_digits_nonneg [OF dig(2)] lt show ?thesis by simp
  qed
qed

lemma canonical_zero: "canonicalParts ''0'' []"
  by (simp add: canonicalParts_def is_digit_def)

lemma unsigned_inject:
  assumes "unsignedOf w f = unsignedOf w' f'" "list_all is_digit w" "list_all is_digit w'"
  shows "w = w' \<and> f = f'"
proof -
  have "w = w'" "(if f = [] then [] else CHR ''.'' # f) = (if f' = [] then [] else CHR ''.'' # f')"
    using assms unsigned_cut by metis+
  then show ?thesis by (simp split: if_splits)
qed

lemma signed_accepts:
  assumes "canonicalParts w f"
  shows "CANONICAL_SIGNED (unsignedOf w f) \<longleftrightarrow> unsignedOf w f = ''0'' \<or> w \<noteq> ''0''"
    and "CANONICAL_SIGNED (CHR ''-'' # unsignedOf w f) \<longleftrightarrow> w \<noteq> ''0''"
proof -
  have w: "list_all is_digit w" using assms by (simp add: canonicalParts_def)
  have head: "unsignedOf x g \<noteq> CHR ''-'' # r" if "canonicalParts x g" for x g r
    using that by (cases x) (auto simp: canonicalParts_def unsignedOf_def dest: digit_not_dot)
  have same: "w = x" if "unsignedOf w f = unsignedOf x g" "canonicalParts x g" for x g
    using unsigned_inject [OF that(1) w] that(2) by (simp add: canonicalParts_def)
  show "CANONICAL_SIGNED (unsignedOf w f) \<longleftrightarrow> unsignedOf w f = ''0'' \<or> w \<noteq> ''0''"
  proof
    assume "CANONICAL_SIGNED (unsignedOf w f)"
    then show "unsignedOf w f = ''0'' \<or> w \<noteq> ''0''"
      unfolding canonical_signed_iff using same head [OF assms] by blast
  next
    assume "unsignedOf w f = ''0'' \<or> w \<noteq> ''0''"
    then show "CANONICAL_SIGNED (unsignedOf w f)" unfolding canonical_signed_iff using assms by blast
  qed
  show "CANONICAL_SIGNED (CHR ''-'' # unsignedOf w f) \<longleftrightarrow> w \<noteq> ''0''"
  proof
    assume "CANONICAL_SIGNED (CHR ''-'' # unsignedOf w f)"
    then obtain x g where "CHR ''-'' # unsignedOf w f = unsignedOf x g \<or> CHR ''-'' # unsignedOf w f = CHR ''-'' # unsignedOf x g"
        "canonicalParts x g" "x \<noteq> ''0''"
      unfolding canonical_signed_iff by auto
    moreover from this(2) head have "unsignedOf x g \<noteq> CHR ''-'' # unsignedOf w f" by blast
    ultimately show "w \<noteq> ''0''" using same by auto
  next
    assume "w \<noteq> ''0''"
    then show "CANONICAL_SIGNED (CHR ''-'' # unsignedOf w f)" unfolding canonical_signed_iff using assms by blast
  qed
qed

lemma parse_signed_format:
  "parseCanonicalSignedDecimal (formatExactDecimal d) lbl =
     (if decimalValue d = 0 \<or> 1 \<le> \<bar>decimalValue d\<bar> then Inr (normalizeExactDecimal d)
      else Inl (Error (lbl @ '' must be a canonical signed decimal string.'')))"
proof (cases "0 \<le> decimalValue d")
  case True
  then obtain w f where f: "canonicalParts w f" "formatExactDecimal d = unsignedOf w f"
      "normalizeExactDecimal d = \<lparr>ed_coefficient = int_of_digits (w @ f), ed_scale = length f\<rparr>"
    by (rule format_nonneg)
  have val: "decimalValue d = of_int (int_of_digits (w @ f)) / 10 ^ length f"
    using f(3) normalize_value [of d] by (simp add: decimalValue_make)
  have zero: "decimalValue d = 0 \<longleftrightarrow> unsignedOf w f = ''0''"
  proof
    assume "decimalValue d = 0"
    then have "normalizeExactDecimal d = \<lparr>ed_coefficient = 0, ed_scale = 0\<rparr>"
      by (intro normal_unique normalize_normal) (simp_all add: normalDecimal_def decimalValue_make)
    then have "formatExactDecimal d = ''0''" by (simp add: formatExactDecimal_def digits_of_int.simps [of 0] digit_char_0)
    with f(2) show "unsignedOf w f = ''0''" by simp
  next
    assume "unsignedOf w f = ''0''"
    then have "unsignedOf w f = unsignedOf ''0'' []" by (simp add: unsignedOf_def)
    moreover have "list_all is_digit w" "list_all is_digit ''0''" using f(1) canonical_zero unfolding canonicalParts_def by blast+
    ultimately have "w = ''0'' \<and> f = []" by (rule unsigned_inject)
    with val show "decimalValue d = 0" by (simp add: int_of_digits_def digit_val_def)
  qed
  show ?thesis
    unfolding parseCanonicalSignedDecimal_def f(2,3) parse_parts(1) [OF f(1)] signed_accepts(1) [OF f(1)]
      zero [symmetric] parts_at_least_one [OF f(1), folded val]
    using True by (simp add: not_less)
next
  case False
  then have neg: "decimalValue d < 0" by simp
  then obtain w f where f: "canonicalParts w f" "formatExactDecimal d = CHR ''-'' # unsignedOf w f"
      "normalizeExactDecimal d = \<lparr>ed_coefficient = - int_of_digits (w @ f), ed_scale = length f\<rparr>"
    by (rule format_negative)
  have val: "- decimalValue d = of_int (int_of_digits (w @ f)) / 10 ^ length f"
    using f(3) normalize_value [of d] by (simp add: decimalValue_make)
  show ?thesis
    unfolding parseCanonicalSignedDecimal_def f(2,3) parse_parts(2) [OF f(1)] signed_accepts(2) [OF f(1)]
      parts_at_least_one [OF f(1), folded val]
    using neg by (simp add: not_less)
qed

subsection \<open>Properties\<close>

text \<open>
  C34. Canonical decimal strings are unique names of their values. A string the non-negative reader accepts
  is printed back unchanged; a non-negative decimal printed and read is its own normal form; and two
  accepted strings are equal exactly when their values are, so the \<open>===\<close> comparisons on quantities in the
  candidate state compare numbers.
\<close>
theorem canonical_decimal_round_trip:
  "(parseCanonicalNonNegativeDecimal s lbl = Inr d \<longrightarrow> formatExactDecimal d = s) \<and>
   (0 \<le> decimalValue x \<longrightarrow>
      parseCanonicalNonNegativeDecimal (formatExactDecimal x) lbl = Inr (normalizeExactDecimal x)) \<and>
   (parseCanonicalNonNegativeDecimal s lbl = Inr d \<longrightarrow> parseCanonicalNonNegativeDecimal t lbl' = Inr e \<longrightarrow>
      (s = t \<longleftrightarrow> decimalValue d = decimalValue e))"
  using format_parse_nonneg(1) parse_nonneg_format parse_nonneg_inject by blast

text \<open>
  Exactness of the arithmetic: the sum, difference and product of two decimals have exactly the sum,
  difference and product of the values, the results are in normal form, and the comparison is the
  comparison of the values.
\<close>
theorem exact_arithmetic:
  "decimalValue (addExactDecimals l r) = decimalValue l + decimalValue r \<and>
   decimalValue (subtractExactDecimals l r) = decimalValue l - decimalValue r \<and>
   decimalValue (multiplyExactDecimals l r) = decimalValue l * decimalValue r \<and>
   normalDecimal (addExactDecimals l r) \<and> normalDecimal (subtractExactDecimals l r) \<and>
   normalDecimal (multiplyExactDecimals l r) \<and>
   compareExactDecimals l r =
     (if decimalValue l < decimalValue r then - 1 else if decimalValue l > decimalValue r then 1 else 0)"
  by (simp add: compare_value operations_normal)

text \<open>
  C35. Division: for a positive divisor the result is exactly the quotient, and the division fails only when
  the divisor is zero or no decimal at all has the value of the quotient.
\<close>
theorem exact_division:
  assumes "0 < decimalValue r"
  shows "case divideExactDecimals l r label of
      Inr q \<Rightarrow> decimalValue q = decimalValue l / decimalValue r \<and> normalDecimal q
    | Inl e \<Rightarrow> (\<forall>x. decimalValue x \<noteq> decimalValue l / decimalValue r)"
  using assms divide_value [of l r label] divide_fails [of l r label] by (auto split: sum.split)

text \<open>
  Division loses the sign of a negative divisor: whenever it succeeds for a negative divisor, the
  value it returns is the negated quotient.
\<close>
theorem division_negative_divisor:
  assumes "decimalValue r < 0" and "divideExactDecimals l r label = Inr q"
  shows "decimalValue q = - (decimalValue l / decimalValue r)"
  using assms divide_value [of l r label q] by simp

text \<open>
  The signed reader does not accept everything the printer prints: a printed decimal is read back
  exactly when it is zero or its absolute value is at least one; every non-zero value strictly between -1
  and 1 is refused.
\<close>
theorem signed_reader_gap:
  "parseCanonicalSignedDecimal (formatExactDecimal d) lbl =
     (if decimalValue d = 0 \<or> 1 \<le> \<bar>decimalValue d\<bar> then Inr (normalizeExactDecimal d)
      else Inl (Error (lbl @ '' must be a canonical signed decimal string.'')))"
  by (rule parse_signed_format)

subsection \<open>Witnesses\<close>

lemma canonical_decimal_round_trip_witness:
  "formatExactDecimal \<lparr>ed_coefficient = 1205, ed_scale = 3\<rparr> = ''1.205'' \<and>
   parseCanonicalNonNegativeDecimal (formatExactDecimal \<lparr>ed_coefficient = 50, ed_scale = 3\<rparr>) ''q'' =
     Inr (normalizeExactDecimal \<lparr>ed_coefficient = 50, ed_scale = 3\<rparr>)"
proof -
  have "parseCanonicalNonNegativeDecimal ''1.205'' ''q'' = Inr \<lparr>ed_coefficient = 1205, ed_scale = 3\<rparr>" by code_simp
  with canonical_decimal_round_trip [of "''1.205''" "''q''" "\<lparr>ed_coefficient = 1205, ed_scale = 3\<rparr>"
      "\<lparr>ed_coefficient = 50, ed_scale = 3\<rparr>" "''1.205''" "''q''" "\<lparr>ed_coefficient = 1205, ed_scale = 3\<rparr>"]
  show ?thesis by (simp add: decimalValue_make)
qed

lemma exact_division_witness:
  "decimalValue \<lparr>ed_coefficient = 375, ed_scale = 3\<rparr> =
     decimalValue \<lparr>ed_coefficient = 3, ed_scale = 0\<rparr> / decimalValue \<lparr>ed_coefficient = 8, ed_scale = 0\<rparr>"
proof -
  have pos: "0 < decimalValue \<lparr>ed_coefficient = 8, ed_scale = 0\<rparr>" by (simp add: decimalValue_make)
  have "divideExactDecimals \<lparr>ed_coefficient = 3, ed_scale = 0\<rparr> \<lparr>ed_coefficient = 8, ed_scale = 0\<rparr> ''q'' =
      Inr \<lparr>ed_coefficient = 375, ed_scale = 3\<rparr>" by code_simp
  with exact_division [OF pos, of "\<lparr>ed_coefficient = 3, ed_scale = 0\<rparr>" "''q''"] show ?thesis by simp
qed

lemma division_negative_divisor_witness:
  "divideExactDecimals \<lparr>ed_coefficient = 1, ed_scale = 0\<rparr> \<lparr>ed_coefficient = - 2, ed_scale = 0\<rparr> ''q'' =
     Inr \<lparr>ed_coefficient = 5, ed_scale = 1\<rparr> \<and>
   decimalValue \<lparr>ed_coefficient = 5, ed_scale = 1\<rparr> =
     - (decimalValue \<lparr>ed_coefficient = 1, ed_scale = 0\<rparr> / decimalValue \<lparr>ed_coefficient = - 2, ed_scale = 0\<rparr>)"
proof -
  have neg: "decimalValue \<lparr>ed_coefficient = - 2, ed_scale = 0\<rparr> < 0" by (simp add: decimalValue_make)
  have run: "divideExactDecimals \<lparr>ed_coefficient = 1, ed_scale = 0\<rparr> \<lparr>ed_coefficient = - 2, ed_scale = 0\<rparr> ''q'' =
      Inr \<lparr>ed_coefficient = 5, ed_scale = 1\<rparr>" by code_simp
  with division_negative_divisor [OF neg run] show ?thesis by simp
qed

end
