(* ===== verification/CandidateState.thy ===== *)
theory CandidateState
  imports ExactDecimal
begin

section \<open>The candidate episode ledger\<close>

text \<open>
  \<open>src/src/modules/execution/candidate-evidence-decimals.ts\<close> replays terminal execution evidence into an
  exact episode state (inventory, cost basis, realized profit) kept as canonical decimal strings:
  \<open>deriveExactRemainingQuantity\<close>, \<open>advanceExactCandidateState\<close>, \<open>projectExactCandidateState\<close>. An evidence
  quantity is a string or a number, as in the source; the exact ledger refuses numbers.
\<close>

datatype StrategyEntryPath = PULLBACK | RECLAIM | BREAKOUT_HOLD | NONE

datatype CandidateDecimal = DecString string | DecNumber jsnum

datatype TerminalStatus = TerminalFilled | TerminalCanceled

record PositionGuardCandidateExecutionEvidence =
  ce_evidenceId :: string
  ce_executedAt :: string
  ce_action :: StrategyDecisionAction
  ce_entryPath :: StrategyEntryPath
  ce_terminalStatus :: TerminalStatus
  ce_executedQuantity :: CandidateDecimal
  ce_grossQuoteValueKrw :: CandidateDecimal
  ce_confirmedFeeKrw :: CandidateDecimal
  ce_remainingQuantity :: CandidateDecimal

record ExactCandidateState =
  xs_currentEpisodeAddCount :: int
  xs_currentEpisodeCostBasisKrw :: string
  xs_currentEpisodeInventoryQuantity :: string
  xs_currentEpisodeRealizedPnlKrw :: string
  xs_lastFullExitAt :: "string option"
  xs_lastFullExitRealizedPnlKrw :: "string option"
  xs_lastEntryPath :: "StrategyEntryPath option"
  xs_lastEvidenceAt :: "string option"
  xs_lastEvidenceId :: "string option"
  xs_stateVersion :: int

definition EXACT_CANDIDATE_QUANTITY_TOLERANCE :: string where
  "EXACT_CANDIDATE_QUANTITY_TOLERANCE = ''0.000000000001''"

definition QUANTITY_TOLERANCE :: ExactDecimal where
  "QUANTITY_TOLERANCE = parseCanonicalDecimal EXACT_CANDIDATE_QUANTITY_TOLERANCE"

definition createExactEmptyCandidateState :: ExactCandidateState where
  "createExactEmptyCandidateState =
     \<lparr>xs_currentEpisodeAddCount = 0, xs_currentEpisodeCostBasisKrw = ''0'', xs_currentEpisodeInventoryQuantity = ''0'',
      xs_currentEpisodeRealizedPnlKrw = ''0'', xs_lastFullExitAt = None, xs_lastFullExitRealizedPnlKrw = None,
      xs_lastEntryPath = None, xs_lastEvidenceAt = None, xs_lastEvidenceId = None, xs_stateVersion = 0\<rparr>"

text \<open>\<open>canonicalNonNegativeDecimal\<close> on a field that may hold a number.\<close>

definition canonicalField :: "CandidateDecimal \<Rightarrow> string \<Rightarrow> string res" where
  "canonicalField v label =
     (case v of DecString s \<Rightarrow> canonicalNonNegativeDecimal s label
      | DecNumber _ \<Rightarrow> Inl (Error (label @ '' must be a canonical non-negative decimal string.'')))"

definition isBuyAction :: "StrategyDecisionAction \<Rightarrow> bool" where
  "isBuyAction action \<longleftrightarrow> action = ENTER \<or> action = ADD"

definition deriveExactRemainingQuantity :: "string \<Rightarrow> StrategyDecisionAction \<Rightarrow> string \<Rightarrow> string res" where
  "deriveExactRemainingQuantity currentQuantity action executedQuantity =
     ebind (parseCanonicalNonNegativeDecimal currentQuantity ''candidate exact inventory quantity'') (\<lambda>current.
     ebind (parseCanonicalNonNegativeDecimal executedQuantity ''candidate executed quantity'') (\<lambda>executed.
     if isBuyAction action then Inr (formatExactDecimal (addExactDecimals current executed))
     else ebind (throw_if (compareExactDecimals executed (addExactDecimals current QUANTITY_TOLERANCE) > 0)
            (Error ''Terminal sell evidence exceeds exact candidate inventory.'')) (\<lambda>_.
          let remaining = subtractExactDecimals current executed
          in if compareExactDecimals (absDecimal remaining) QUANTITY_TOLERANCE \<le> 0 then Inr ''0''
             else Inr (formatExactDecimal remaining))))"

definition assertExactChronology ::
  "ExactCandidateState \<Rightarrow> PositionGuardCandidateExecutionEvidence \<Rightarrow> unit res" where
  "assertExactChronology state evidence =
     (case xs_lastEvidenceAt state of None \<Rightarrow> Inr ()
      | Some lastAt \<Rightarrow>
          ebind (parsePositionGuardCandidateTimestamp lastAt ''candidate state lastEvidenceAt'') (\<lambda>cursor.
          ebind (parsePositionGuardCandidateTimestamp (ce_executedAt evidence) ''candidate evidence executedAt'') (\<lambda>next.
          throw_if (next < cursor \<or>
              (next = cursor \<and> (case xs_lastEvidenceId state of None \<Rightarrow> False | Some lastId \<Rightarrow> ce_evidenceId evidence \<le> lastId)))
            (Error ''Candidate evidence must be in exact persisted chronology order.''))))"

text \<open>
  The body after the checks: a buy, or a sell that closes or reduces the episode. \<open>expectedRemaining\<close> is the
  derived remaining quantity.
\<close>

definition advanceBuy ::
  "ExactCandidateState \<Rightarrow> PositionGuardCandidateExecutionEvidence \<Rightarrow> string \<Rightarrow> ExactDecimal \<Rightarrow> ExactDecimal \<Rightarrow> ExactDecimal \<Rightarrow>
   ExactCandidateState res" where
  "advanceBuy state evidence expectedRemaining currentCost gross fee =
     ebind (throw_if (ce_action evidence = ENTER \<and> xs_currentEpisodeInventoryQuantity state \<noteq> ''0'')
       (Error ''Candidate ENTER evidence requires an exact flat episode.'')) (\<lambda>_.
     ebind (throw_if (ce_action evidence = ADD \<and> xs_currentEpisodeInventoryQuantity state = ''0'')
       (Error ''Candidate ADD evidence requires an exact open episode.'')) (\<lambda>_.
     Inr (state\<lparr>xs_currentEpisodeInventoryQuantity := expectedRemaining,
           xs_currentEpisodeCostBasisKrw := formatExactDecimal (addExactDecimals currentCost (addExactDecimals gross fee)),
           xs_lastEntryPath := (if ce_action evidence = ENTER then Some (ce_entryPath evidence) else xs_lastEntryPath state),
           xs_currentEpisodeAddCount :=
             (if ce_action evidence = ADD then xs_currentEpisodeAddCount state + 1 else xs_currentEpisodeAddCount state)\<rparr>)))"

definition advanceSell ::
  "ExactCandidateState \<Rightarrow> PositionGuardCandidateExecutionEvidence \<Rightarrow> string \<Rightarrow> ExactDecimal \<Rightarrow> ExactDecimal \<Rightarrow> ExactDecimal \<Rightarrow>
   ExactDecimal \<Rightarrow> ExactDecimal \<Rightarrow> ExactDecimal \<Rightarrow> ExactCandidateState res" where
  "advanceSell state evidence expectedRemaining currentCost currentQuantity currentPnl executed gross fee =
     ebind (throw_if (xs_currentEpisodeInventoryQuantity state = ''0'')
       (Error ''Candidate sell evidence requires an exact open episode.'')) (\<lambda>_.
     ebind (if expectedRemaining = ''0'' then Inr currentCost
            else divideExactDecimals (multiplyExactDecimals currentCost executed) currentQuantity
                   ''candidate proportional cost allocation'') (\<lambda>removedCost.
     let realized = subtractExactDecimals (addExactDecimals currentPnl (subtractExactDecimals gross fee)) removedCost
     in if expectedRemaining = ''0''
        then Inr (state\<lparr>xs_currentEpisodeAddCount := 0, xs_currentEpisodeCostBasisKrw := ''0'',
               xs_currentEpisodeInventoryQuantity := ''0'', xs_currentEpisodeRealizedPnlKrw := ''0'',
               xs_lastFullExitAt := Some (ce_executedAt evidence),
               xs_lastFullExitRealizedPnlKrw := Some (formatExactDecimal realized)\<rparr>)
        else Inr (state\<lparr>xs_currentEpisodeCostBasisKrw := formatExactDecimal (subtractExactDecimals currentCost removedCost),
               xs_currentEpisodeInventoryQuantity := expectedRemaining,
               xs_currentEpisodeRealizedPnlKrw := formatExactDecimal realized\<rparr>)))"

definition advanceFill ::
  "ExactCandidateState \<Rightarrow> PositionGuardCandidateExecutionEvidence \<Rightarrow> string \<Rightarrow> ExactDecimal \<Rightarrow> ExactDecimal \<Rightarrow> ExactDecimal \<Rightarrow>
   ExactDecimal \<Rightarrow> ExactDecimal \<Rightarrow> ExactDecimal \<Rightarrow> ExactCandidateState res" where
  "advanceFill state evidence expectedRemaining currentCost currentQuantity currentPnl executed gross fee =
     (if isBuyAction (ce_action evidence)
      then advanceBuy state evidence expectedRemaining currentCost gross fee
      else advanceSell state evidence expectedRemaining currentCost currentQuantity currentPnl executed gross fee)"

definition advanceExactCandidateState ::
  "ExactCandidateState \<Rightarrow> PositionGuardCandidateExecutionEvidence \<Rightarrow> ExactCandidateState res" where
  "advanceExactCandidateState state evidence =
     ebind (canonicalField (ce_executedQuantity evidence) ''candidate evidence executedQuantity'') (\<lambda>executedQuantity.
     ebind (canonicalField (ce_grossQuoteValueKrw evidence) ''candidate evidence grossQuoteValueKrw'') (\<lambda>grossQuoteValueKrw.
     ebind (canonicalField (ce_confirmedFeeKrw evidence) ''candidate evidence confirmedFeeKrw'') (\<lambda>confirmedFeeKrw.
     ebind (canonicalField (ce_remainingQuantity evidence) ''candidate evidence remainingQuantity'') (\<lambda>remainingQuantity.
     ebind (assertExactChronology state evidence) (\<lambda>_.
     if executedQuantity = ''0'' then
       ebind (throw_if (remainingQuantity \<noteq> xs_currentEpisodeInventoryQuantity state)
         (Error ''Terminal no-fill candidate evidence contradicts exact inventory.'')) (\<lambda>_. Inr state)
     else
     ebind (deriveExactRemainingQuantity (xs_currentEpisodeInventoryQuantity state) (ce_action evidence) executedQuantity)
       (\<lambda>expectedRemaining.
     ebind (throw_if (expectedRemaining \<noteq> remainingQuantity)
       (Error (''Candidate evidence '' @ ce_evidenceId evidence @ '' remainingQuantity contradicts exact inventory.''))) (\<lambda>_.
     ebind (parseCanonicalNonNegativeDecimal (xs_currentEpisodeCostBasisKrw state) ''candidate exact cost basis'') (\<lambda>currentCost.
     ebind (parseCanonicalNonNegativeDecimal (xs_currentEpisodeInventoryQuantity state) ''candidate exact inventory'') (\<lambda>currentQuantity.
     ebind (parseCanonicalSignedDecimal (xs_currentEpisodeRealizedPnlKrw state) ''candidate exact realized pnl'') (\<lambda>currentPnl.
     ebind (parseCanonicalNonNegativeDecimal executedQuantity ''candidate executed quantity'') (\<lambda>executed.
     ebind (parseCanonicalNonNegativeDecimal grossQuoteValueKrw ''candidate gross quote value'') (\<lambda>gross.
     ebind (parseCanonicalNonNegativeDecimal confirmedFeeKrw ''candidate confirmed fee'') (\<lambda>fee.
     ebind (advanceFill state evidence expectedRemaining currentCost currentQuantity currentPnl executed gross fee) (\<lambda>next.
     Inr (next\<lparr>xs_lastEvidenceAt := Some (ce_executedAt evidence), xs_lastEvidenceId := Some (ce_evidenceId evidence),
               xs_stateVersion := xs_stateVersion next + 1\<rparr>)))))))))))))))"

definition compareDeterministicIdentifiers :: "string \<Rightarrow> string \<Rightarrow> int" where
  "compareDeterministicIdentifiers left right = (if left < right then - 1 else if left > right then 1 else 0)"

text \<open>The comparison callback of the projection, read as "at most 0".\<close>

definition chronology_le ::
  "PositionGuardCandidateExecutionEvidence \<times> int \<Rightarrow> PositionGuardCandidateExecutionEvidence \<times> int \<Rightarrow> bool" where
  "chronology_le left right \<longleftrightarrow>
     (if snd left < snd right then True else if snd left > snd right then False
      else compareDeterministicIdentifiers (ce_evidenceId (fst left)) (ce_evidenceId (fst right)) \<le> 0)"

definition orderEvidence ::
  "PositionGuardCandidateExecutionEvidence list \<Rightarrow> PositionGuardCandidateExecutionEvidence list res" where
  "orderEvidence evidence =
     ebind (emapM (\<lambda>item. ebind (parsePositionGuardCandidateTimestamp (ce_executedAt item) ''candidate evidence executedAt'')
         (\<lambda>epochNanoseconds. Inr (item, epochNanoseconds))) evidence) (\<lambda>pairs.
     Inr (map fst (sort_by chronology_le pairs)))"

definition projectExactCandidateState ::
  "PositionGuardCandidateExecutionEvidence list \<Rightarrow> ExactCandidateState res" where
  "projectExactCandidateState evidence =
     ebind (orderEvidence evidence) (\<lambda>ordered. efold advanceExactCandidateState createExactEmptyCandidateState ordered)"

subsection \<open>The ledger over the rationals\<close>

text \<open>The abstract ledger: what the strings stand for, and one step of it in rational arithmetic.\<close>

record ledger =
  lg_quantity :: rat
  lg_cost :: rat
  lg_pnl :: rat
  lg_exitPnl :: "rat option"

definition numVal :: "string \<Rightarrow> rat" where
  "numVal s = decimalValue (parseCanonicalDecimal s)"

definition fieldVal :: "CandidateDecimal \<Rightarrow> rat" where
  "fieldVal v = (case v of DecString s \<Rightarrow> numVal s | DecNumber _ \<Rightarrow> 0)"

definition absLedger :: "ExactCandidateState \<Rightarrow> ledger" where
  "absLedger st =
     \<lparr>lg_quantity = numVal (xs_currentEpisodeInventoryQuantity st), lg_cost = numVal (xs_currentEpisodeCostBasisKrw st),
      lg_pnl = numVal (xs_currentEpisodeRealizedPnlKrw st),
      lg_exitPnl = map_option numVal (xs_lastFullExitRealizedPnlKrw st)\<rparr>"

definition tolerance :: rat where
  "tolerance = 1 / 10 ^ 12"

definition ledgerStep :: "StrategyDecisionAction \<Rightarrow> rat \<Rightarrow> rat \<Rightarrow> rat \<Rightarrow> ledger \<Rightarrow> ledger" where
  "ledgerStep action executed gross fee L =
     (if executed = 0 then L
      else if isBuyAction action
      then L\<lparr>lg_quantity := lg_quantity L + executed, lg_cost := lg_cost L + gross + fee\<rparr>
      else if \<bar>lg_quantity L - executed\<bar> \<le> tolerance
      then L\<lparr>lg_quantity := 0, lg_cost := 0, lg_pnl := 0,
             lg_exitPnl := Some (lg_pnl L + gross - fee - lg_cost L)\<rparr>
      else let removed = lg_cost L * executed / lg_quantity L
           in L\<lparr>lg_quantity := lg_quantity L - executed, lg_cost := lg_cost L - removed,
                lg_pnl := lg_pnl L + gross - fee - removed\<rparr>)"

definition evidenceStep :: "PositionGuardCandidateExecutionEvidence \<Rightarrow> ledger \<Rightarrow> ledger" where
  "evidenceStep e = ledgerStep (ce_action e) (fieldVal (ce_executedQuantity e)) (fieldVal (ce_grossQuoteValueKrw e))
     (fieldVal (ce_confirmedFeeKrw e))"

lemma parse_format_value: "parseCanonicalDecimal (formatExactDecimal d) = normalizeExactDecimal d"
proof (cases "0 \<le> decimalValue d")
  case True
  then show ?thesis by (rule format_nonneg) (simp add: parse_parts)
next
  case False
  then have "decimalValue d < 0" by simp
  then show ?thesis by (rule format_negative) (simp add: parse_parts)
qed

lemma numVal_format [simp]: "numVal (formatExactDecimal d) = decimalValue d"
  by (simp add: numVal_def parse_format_value)

lemma numVal_zero [simp]: "numVal ''0'' = 0"
  by (simp add: numVal_def parse_parts [OF canonical_zero, unfolded unsignedOf_def, simplified] decimalValue_make
      int_of_digits_def digit_val_def)

lemma parse_nonneg_Inr:
  "parseCanonicalNonNegativeDecimal s lbl = Inr d \<longleftrightarrow> CANONICAL_NON_NEGATIVE s \<and> d = parseCanonicalDecimal s"
  by (auto simp: parseCanonicalNonNegativeDecimal_def)

lemma canonical_facts:
  assumes "CANONICAL_NON_NEGATIVE s"
  shows "formatExactDecimal (parseCanonicalDecimal s) = s" and "0 \<le> numVal s"
  using assms format_parse_nonneg [of s "[]" "parseCanonicalDecimal s"] by (simp_all add: parse_nonneg_Inr numVal_def)

lemma format_canonical: "0 \<le> decimalValue d \<Longrightarrow> CANONICAL_NON_NEGATIVE (formatExactDecimal d)"
  using parse_nonneg_format [of d "[]"] by (simp add: parse_nonneg_Inr)

lemma canonical_0: "CANONICAL_NON_NEGATIVE ''0''"
  using canonical_zero by (auto simp: canonical_nonneg_iff unsignedOf_def)

lemma parse_signed_numVal: "parseCanonicalSignedDecimal s lbl = Inr d \<Longrightarrow> decimalValue d = numVal s"
  by (auto simp: parseCanonicalSignedDecimal_def numVal_def split: if_splits)

lemma canonical_eq_zero: "CANONICAL_NON_NEGATIVE s \<Longrightarrow> s = ''0'' \<longleftrightarrow> numVal s = 0"
  using parse_nonneg_inject [of s "[]" _ "''0''" "[]"] canonical_0 numVal_zero
  by (simp add: parse_nonneg_Inr numVal_def)

lemma canonicalField_Inr: "canonicalField v lbl = Inr s \<longleftrightarrow> v = DecString s \<and> CANONICAL_NON_NEGATIVE s"
  by (auto simp: canonicalField_def canonicalNonNegativeDecimal_def parse_nonneg_Inr res_simps canonical_facts
      split: CandidateDecimal.splits)

lemma tolerance_value: "decimalValue QUANTITY_TOLERANCE = tolerance"
proof -
  have eq: "QUANTITY_TOLERANCE = \<lparr>ed_coefficient = 1, ed_scale = 12\<rparr>" by code_simp
  show ?thesis unfolding eq tolerance_def by (simp only: decimalValue_make of_int_1)
qed

lemma tolerance_pos: "0 < tolerance"
  by (simp add: tolerance_def)

lemma derive_remaining:
  assumes "deriveExactRemainingQuantity cur a ex = Inr r"
  shows "CANONICAL_NON_NEGATIVE cur" and "CANONICAL_NON_NEGATIVE r"
    and "isBuyAction a \<Longrightarrow> numVal r = numVal cur + numVal ex"
    and "\<not> isBuyAction a \<Longrightarrow> numVal r = (if \<bar>numVal cur - numVal ex\<bar> \<le> tolerance then 0 else numVal cur - numVal ex)"
    and "\<not> isBuyAction a \<Longrightarrow> (r = ''0'' \<longleftrightarrow> \<bar>numVal cur - numVal ex\<bar> \<le> tolerance)"
    and "\<not> isBuyAction a \<Longrightarrow> r \<noteq> ''0'' \<Longrightarrow> numVal ex < numVal cur"
proof -
  let ?c = "parseCanonicalDecimal cur" and ?e = "parseCanonicalDecimal ex"
  show c: "CANONICAL_NON_NEGATIVE cur"
    using assms by (auto simp: deriveExactRemainingQuantity_def parse_nonneg_Inr res_simps)
  have e: "CANONICAL_NON_NEGATIVE ex"
    using assms by (auto simp: deriveExactRemainingQuantity_def parse_nonneg_Inr res_simps)
  have nn: "0 \<le> numVal cur" "0 \<le> numVal ex" using canonical_facts c e by auto
  show buy: "numVal r = numVal cur + numVal ex" if "isBuyAction a"
    using assms that by (auto simp: deriveExactRemainingQuantity_def parse_nonneg_Inr res_simps numVal_def [of cur] numVal_def [of ex])
  have sell: "\<not> numVal ex > numVal cur + tolerance"
      "r = (if \<bar>numVal cur - numVal ex\<bar> \<le> tolerance then ''0'' else formatExactDecimal (subtractExactDecimals ?c ?e))"
    if "\<not> isBuyAction a"
    using assms that
    by (auto simp: deriveExactRemainingQuantity_def parse_nonneg_Inr res_simps compare_value tolerance_value Let_def
        numVal_def split: if_splits)
  show val: "numVal r = (if \<bar>numVal cur - numVal ex\<bar> \<le> tolerance then 0 else numVal cur - numVal ex)" if "\<not> isBuyAction a"
    using sell [OF that] by (auto simp: numVal_def [of cur] numVal_def [of ex])
  have pos: "0 < numVal cur - numVal ex" if "\<not> isBuyAction a" "\<not> \<bar>numVal cur - numVal ex\<bar> \<le> tolerance"
    using sell(1) [OF that(1)] that(2) tolerance_pos by (auto simp: abs_if split: if_splits)
  show zero: "r = ''0'' \<longleftrightarrow> \<bar>numVal cur - numVal ex\<bar> \<le> tolerance" if "\<not> isBuyAction a"
  proof (cases "\<bar>numVal cur - numVal ex\<bar> \<le> tolerance")
    case True
    with sell(2) [OF that] show ?thesis by simp
  next
    case False
    with val [OF that] pos [OF that] have "numVal r \<noteq> 0" by simp
    with False numVal_zero show ?thesis by auto
  qed
  show "numVal ex < numVal cur" if "\<not> isBuyAction a" "r \<noteq> ''0''"
    using zero [OF that(1)] pos [OF that(1)] that(2) by simp
  show "CANONICAL_NON_NEGATIVE r"
  proof (cases "isBuyAction a")
    case True
    then have "r = formatExactDecimal (addExactDecimals ?c ?e)"
      using assms by (auto simp: deriveExactRemainingQuantity_def parse_nonneg_Inr res_simps)
    with nn show ?thesis by (auto intro!: format_canonical simp: numVal_def)
  next
    case False
    with sell(2) [OF False] pos [OF False] canonical_0 show ?thesis
      by (auto intro!: format_canonical simp: numVal_def)
  qed
qed

lemma parse_numVal [simp]: "decimalValue (parseCanonicalDecimal s) = numVal s"
  by (simp add: numVal_def)

subsection \<open>One accepted step\<close>

text \<open>What the code knows once every reader of the state and the evidence has succeeded.\<close>

lemma advance_fill:
  assumes run: "advanceExactCandidateState st e = Inr st'" and fill: "ce_executedQuantity e \<noteq> DecString ''0''"
  obtains ex gross fee r pnl st1 where
    "ce_executedQuantity e = DecString ex" "CANONICAL_NON_NEGATIVE ex" "ex \<noteq> ''0''"
    "ce_grossQuoteValueKrw e = DecString gross" "CANONICAL_NON_NEGATIVE gross"
    "ce_confirmedFeeKrw e = DecString fee" "CANONICAL_NON_NEGATIVE fee"
    "ce_remainingQuantity e = DecString r"
    "assertExactChronology st e = Inr ()"
    "deriveExactRemainingQuantity (xs_currentEpisodeInventoryQuantity st) (ce_action e) ex = Inr r"
    "CANONICAL_NON_NEGATIVE (xs_currentEpisodeCostBasisKrw st)"
    "parseCanonicalSignedDecimal (xs_currentEpisodeRealizedPnlKrw st) ''candidate exact realized pnl'' = Inr pnl"
    "advanceFill st e r (parseCanonicalDecimal (xs_currentEpisodeCostBasisKrw st))
       (parseCanonicalDecimal (xs_currentEpisodeInventoryQuantity st)) pnl (parseCanonicalDecimal ex)
       (parseCanonicalDecimal gross) (parseCanonicalDecimal fee) = Inr st1"
    "st' = st1\<lparr>xs_lastEvidenceAt := Some (ce_executedAt e), xs_lastEvidenceId := Some (ce_evidenceId e),
       xs_stateVersion := xs_stateVersion st1 + 1\<rparr>"
  using assms that
  unfolding advanceExactCandidateState_def
  by (auto simp: res_simps canonicalField_Inr parse_nonneg_Inr split: if_splits)

lemma advance_no_fill:
  assumes "advanceExactCandidateState st e = Inr st'" and "ce_executedQuantity e = DecString ''0''"
  shows "st' = st \<and> ce_remainingQuantity e = DecString (xs_currentEpisodeInventoryQuantity st)"
  using assms unfolding advanceExactCandidateState_def
  by (auto simp: res_simps canonicalField_Inr split: if_splits)

lemma advanceBuy_Inr:
  "advanceBuy st e r cost gross fee = Inr st1 \<longleftrightarrow>
     (ce_action e = ENTER \<longrightarrow> xs_currentEpisodeInventoryQuantity st = ''0'') \<and>
     (ce_action e = ADD \<longrightarrow> xs_currentEpisodeInventoryQuantity st \<noteq> ''0'') \<and>
     st1 = st\<lparr>xs_currentEpisodeInventoryQuantity := r,
        xs_currentEpisodeCostBasisKrw := formatExactDecimal (addExactDecimals cost (addExactDecimals gross fee)),
        xs_lastEntryPath := (if ce_action e = ENTER then Some (ce_entryPath e) else xs_lastEntryPath st),
        xs_currentEpisodeAddCount :=
          (if ce_action e = ADD then xs_currentEpisodeAddCount st + 1 else xs_currentEpisodeAddCount st)\<rparr>"
  by (auto simp: advanceBuy_def res_simps)

lemma advanceSell_close:
  "advanceSell st e ''0'' cost qty pnl ex gross fee = Inr st1 \<longleftrightarrow>
     xs_currentEpisodeInventoryQuantity st \<noteq> ''0'' \<and>
     st1 = st\<lparr>xs_currentEpisodeAddCount := 0, xs_currentEpisodeCostBasisKrw := ''0'',
        xs_currentEpisodeInventoryQuantity := ''0'', xs_currentEpisodeRealizedPnlKrw := ''0'',
        xs_lastFullExitAt := Some (ce_executedAt e),
        xs_lastFullExitRealizedPnlKrw := Some (formatExactDecimal
          (subtractExactDecimals (addExactDecimals pnl (subtractExactDecimals gross fee)) cost))\<rparr>"
  by (auto simp: advanceSell_def res_simps Let_def)

lemma advanceSell_reduce:
  "r \<noteq> ''0'' \<Longrightarrow> advanceSell st e r cost qty pnl ex gross fee = Inr st1 \<longleftrightarrow>
     xs_currentEpisodeInventoryQuantity st \<noteq> ''0'' \<and>
     (\<exists>removed. divideExactDecimals (multiplyExactDecimals cost ex) qty ''candidate proportional cost allocation'' = Inr removed \<and>
        st1 = st\<lparr>xs_currentEpisodeCostBasisKrw := formatExactDecimal (subtractExactDecimals cost removed),
          xs_currentEpisodeInventoryQuantity := r,
          xs_currentEpisodeRealizedPnlKrw := formatExactDecimal
            (subtractExactDecimals (addExactDecimals pnl (subtractExactDecimals gross fee)) removed)\<rparr>)"
  by (auto simp: advanceSell_def res_simps Let_def)

lemma fill_refines:
  assumes derive: "deriveExactRemainingQuantity (xs_currentEpisodeInventoryQuantity st) (ce_action e) ex = Inr r"
    and ex: "numVal ex \<noteq> 0"
    and pnl: "decimalValue pnl = numVal (xs_currentEpisodeRealizedPnlKrw st)"
    and run: "advanceFill st e r (parseCanonicalDecimal (xs_currentEpisodeCostBasisKrw st))
       (parseCanonicalDecimal (xs_currentEpisodeInventoryQuantity st)) pnl (parseCanonicalDecimal ex)
       (parseCanonicalDecimal gross) (parseCanonicalDecimal fee) = Inr st1"
  shows "absLedger st1 = ledgerStep (ce_action e) (numVal ex) (numVal gross) (numVal fee) (absLedger st)"
proof -
  note d = derive_remaining [OF derive]
  consider "isBuyAction (ce_action e)" | "\<not> isBuyAction (ce_action e)" "r = ''0''"
    | "\<not> isBuyAction (ce_action e)" "r \<noteq> ''0''" by blast
  then show ?thesis
  proof cases
    case 1
    with run ex d(3) show ?thesis
      by (auto simp: advanceFill_def advanceBuy_Inr absLedger_def ledgerStep_def add.assoc)
  next
    case 2
    with d(5) have "\<bar>numVal (xs_currentEpisodeInventoryQuantity st) - numVal ex\<bar> \<le> tolerance" by simp
    with 2 run ex pnl show ?thesis
      by (auto simp: advanceFill_def advanceSell_close absLedger_def ledgerStep_def algebra_simps)
  next
    case 3
    with d(4,5) have far: "\<not> \<bar>numVal (xs_currentEpisodeInventoryQuantity st) - numVal ex\<bar> \<le> tolerance"
      "numVal r = numVal (xs_currentEpisodeInventoryQuantity st) - numVal ex" by auto
    from 3 run obtain removed where rem: "divideExactDecimals
          (multiplyExactDecimals (parseCanonicalDecimal (xs_currentEpisodeCostBasisKrw st)) (parseCanonicalDecimal ex))
          (parseCanonicalDecimal (xs_currentEpisodeInventoryQuantity st)) ''candidate proportional cost allocation'' = Inr removed"
      and st1: "st1 = st\<lparr>xs_currentEpisodeCostBasisKrw :=
            formatExactDecimal (subtractExactDecimals (parseCanonicalDecimal (xs_currentEpisodeCostBasisKrw st)) removed),
          xs_currentEpisodeInventoryQuantity := r,
          xs_currentEpisodeRealizedPnlKrw := formatExactDecimal (subtractExactDecimals (addExactDecimals pnl
            (subtractExactDecimals (parseCanonicalDecimal gross) (parseCanonicalDecimal fee))) removed)\<rparr>"
      by (auto simp: advanceFill_def advanceSell_reduce)
    have "decimalValue removed = numVal (xs_currentEpisodeCostBasisKrw st) * numVal ex / numVal (xs_currentEpisodeInventoryQuantity st)"
      using divide_value [OF rem] canonical_facts(2) [OF d(1)] by simp
    with 3 far ex pnl st1 show ?thesis
      by (simp add: absLedger_def ledgerStep_def Let_def algebra_simps)
  qed
qed

lemma absLedger_cursor [simp]:
  "absLedger (st\<lparr>xs_lastEvidenceAt := a, xs_lastEvidenceId := b, xs_stateVersion := v\<rparr>) = absLedger st"
  by (simp add: absLedger_def)

lemma advance_refines:
  assumes run: "advanceExactCandidateState st e = Inr st'"
  shows "absLedger st' = evidenceStep e (absLedger st)"
proof (cases "ce_executedQuantity e = DecString ''0''")
  case True
  with advance_no_fill [OF run True] show ?thesis
    by (simp add: evidenceStep_def ledgerStep_def fieldVal_def)
next
  case False
  from run False show ?thesis
  proof (rule advance_fill)
    fix ex gross fee r pnl st1
    assume "CANONICAL_NON_NEGATIVE ex" "ex \<noteq> ''0''"
      and derive: "deriveExactRemainingQuantity (xs_currentEpisodeInventoryQuantity st) (ce_action e) ex = Inr r"
      and p: "parseCanonicalSignedDecimal (xs_currentEpisodeRealizedPnlKrw st) ''candidate exact realized pnl'' = Inr pnl"
      and fields: "ce_executedQuantity e = DecString ex" "ce_grossQuoteValueKrw e = DecString gross"
        "ce_confirmedFeeKrw e = DecString fee"
      and fill: "advanceFill st e r (parseCanonicalDecimal (xs_currentEpisodeCostBasisKrw st))
         (parseCanonicalDecimal (xs_currentEpisodeInventoryQuantity st)) pnl (parseCanonicalDecimal ex)
         (parseCanonicalDecimal gross) (parseCanonicalDecimal fee) = Inr st1"
      and st': "st' = st1\<lparr>xs_lastEvidenceAt := Some (ce_executedAt e), xs_lastEvidenceId := Some (ce_evidenceId e),
         xs_stateVersion := xs_stateVersion st1 + 1\<rparr>"
    then have "numVal ex \<noteq> 0" using canonical_eq_zero by blast
    from fill_refines [OF derive this parse_signed_numVal [OF p] fill] show ?thesis
      by (simp add: st' evidenceStep_def fieldVal_def fields)
  qed
qed

subsection \<open>The invariant\<close>

definition printedDecimal :: "string \<Rightarrow> bool" where
  "printedDecimal s \<longleftrightarrow> (\<exists>d. s = formatExactDecimal d)"

definition exact_inv :: "ExactCandidateState \<Rightarrow> bool" where
  "exact_inv st \<longleftrightarrow>
     CANONICAL_NON_NEGATIVE (xs_currentEpisodeInventoryQuantity st) \<and>
     CANONICAL_NON_NEGATIVE (xs_currentEpisodeCostBasisKrw st) \<and>
     printedDecimal (xs_currentEpisodeRealizedPnlKrw st) \<and>
     (xs_currentEpisodeInventoryQuantity st = ''0'' \<longrightarrow>
        xs_currentEpisodeCostBasisKrw st = ''0'' \<and> xs_currentEpisodeRealizedPnlKrw st = ''0'' \<and>
        xs_currentEpisodeAddCount st = 0) \<and>
     (xs_currentEpisodeInventoryQuantity st \<noteq> ''0'' \<longrightarrow> xs_lastEntryPath st \<noteq> None) \<and>
     0 \<le> xs_currentEpisodeAddCount st \<and> 0 \<le> xs_stateVersion st \<and>
     (xs_lastEvidenceAt st = None \<longleftrightarrow> xs_lastEvidenceId st = None) \<and>
     (xs_lastFullExitAt st = None \<longleftrightarrow> xs_lastFullExitRealizedPnlKrw st = None) \<and>
     (xs_lastEvidenceAt st = None \<longrightarrow> st = createExactEmptyCandidateState)"

lemma format_zero: "formatExactDecimal \<lparr>ed_coefficient = 0, ed_scale = 0\<rparr> = ''0''"
  by code_simp

lemma printed_format [simp]: "printedDecimal (formatExactDecimal d)"
  by (auto simp: printedDecimal_def)

lemma printed_zero [simp]: "printedDecimal ''0''"
  by (metis format_zero printed_format)

lemma exact_inv_empty: "exact_inv createExactEmptyCandidateState"
  by (simp add: exact_inv_def createExactEmptyCandidateState_def canonical_0)

text \<open>What the cursor update does not touch.\<close>

definition body_inv :: "ExactCandidateState \<Rightarrow> bool" where
  "body_inv st \<longleftrightarrow>
     CANONICAL_NON_NEGATIVE (xs_currentEpisodeInventoryQuantity st) \<and>
     CANONICAL_NON_NEGATIVE (xs_currentEpisodeCostBasisKrw st) \<and>
     printedDecimal (xs_currentEpisodeRealizedPnlKrw st) \<and>
     (xs_currentEpisodeInventoryQuantity st = ''0'' \<longrightarrow>
        xs_currentEpisodeCostBasisKrw st = ''0'' \<and> xs_currentEpisodeRealizedPnlKrw st = ''0'' \<and>
        xs_currentEpisodeAddCount st = 0) \<and>
     (xs_currentEpisodeInventoryQuantity st \<noteq> ''0'' \<longrightarrow> xs_lastEntryPath st \<noteq> None) \<and>
     0 \<le> xs_currentEpisodeAddCount st \<and> 0 \<le> xs_stateVersion st \<and>
     (xs_lastFullExitAt st = None \<longleftrightarrow> xs_lastFullExitRealizedPnlKrw st = None)"

lemma exact_inv_body: "exact_inv st \<Longrightarrow> body_inv st"
  by (simp add: exact_inv_def body_inv_def)

lemma exact_inv_cursor:
  "body_inv st \<Longrightarrow> exact_inv (st\<lparr>xs_lastEvidenceAt := Some a, xs_lastEvidenceId := Some b, xs_stateVersion := xs_stateVersion st + 1\<rparr>)"
  by (simp add: exact_inv_def body_inv_def)

lemma fill_body_inv:
  assumes inv: "body_inv st"
    and derive: "deriveExactRemainingQuantity (xs_currentEpisodeInventoryQuantity st) (ce_action e) ex = Inr r"
    and can: "CANONICAL_NON_NEGATIVE ex" "ex \<noteq> ''0''" "CANONICAL_NON_NEGATIVE gross" "CANONICAL_NON_NEGATIVE fee"
    and run: "advanceFill st e r (parseCanonicalDecimal (xs_currentEpisodeCostBasisKrw st))
       (parseCanonicalDecimal (xs_currentEpisodeInventoryQuantity st)) pnl (parseCanonicalDecimal ex)
       (parseCanonicalDecimal gross) (parseCanonicalDecimal fee) = Inr st1"
  shows "body_inv st1"
proof -
  note d = derive_remaining [OF derive]
  let ?q = "numVal (xs_currentEpisodeInventoryQuantity st)" and ?c = "numVal (xs_currentEpisodeCostBasisKrw st)"
  have nn: "0 \<le> ?q" "0 \<le> ?c" "0 \<le> numVal gross" "0 \<le> numVal fee"
    using inv can canonical_facts(2) by (auto simp: body_inv_def)
  have ex: "0 < numVal ex" using can(1,2) canonical_facts(2) canonical_eq_zero by force
  consider "isBuyAction (ce_action e)" | "\<not> isBuyAction (ce_action e)" "r = ''0''"
    | "\<not> isBuyAction (ce_action e)" "r \<noteq> ''0''" by blast
  then show ?thesis
  proof cases
    case 1
    with d(3) nn ex have "r \<noteq> ''0''" by auto
    moreover have "CANONICAL_NON_NEGATIVE (formatExactDecimal (addExactDecimals
        (parseCanonicalDecimal (xs_currentEpisodeCostBasisKrw st))
        (addExactDecimals (parseCanonicalDecimal gross) (parseCanonicalDecimal fee))))"
      using nn by (intro format_canonical) simp
    ultimately show ?thesis using 1 run inv d(2)
      by (auto simp: advanceFill_def advanceBuy_Inr body_inv_def isBuyAction_def)
  next
    case 2
    with run inv show ?thesis by (auto simp: advanceFill_def advanceSell_close body_inv_def canonical_0)
  next
    case 3
    with run obtain removed where rem: "divideExactDecimals
          (multiplyExactDecimals (parseCanonicalDecimal (xs_currentEpisodeCostBasisKrw st)) (parseCanonicalDecimal ex))
          (parseCanonicalDecimal (xs_currentEpisodeInventoryQuantity st)) ''candidate proportional cost allocation'' = Inr removed"
      and st1: "st1 = st\<lparr>xs_currentEpisodeCostBasisKrw :=
            formatExactDecimal (subtractExactDecimals (parseCanonicalDecimal (xs_currentEpisodeCostBasisKrw st)) removed),
          xs_currentEpisodeInventoryQuantity := r,
          xs_currentEpisodeRealizedPnlKrw := formatExactDecimal (subtractExactDecimals (addExactDecimals pnl
            (subtractExactDecimals (parseCanonicalDecimal gross) (parseCanonicalDecimal fee))) removed)\<rparr>"
      and opened: "xs_currentEpisodeInventoryQuantity st \<noteq> ''0''"
      by (auto simp: advanceFill_def advanceSell_reduce)
    from 3 d(6) have less: "numVal ex < ?q" by blast
    have "decimalValue removed = ?c * (numVal ex / ?q)" using divide_value [OF rem] nn(1) by simp
    also have "\<dots> \<le> ?c * 1" using nn less ex by (intro mult_left_mono) simp_all
    finally show ?thesis using st1 inv d(2) 3 opened by (auto simp: body_inv_def intro!: format_canonical)
  qed
qed

lemma advance_inv:
  assumes inv: "exact_inv st" and run: "advanceExactCandidateState st e = Inr st'"
  shows "exact_inv st'"
proof (cases "ce_executedQuantity e = DecString ''0''")
  case True
  with advance_no_fill [OF run True] inv show ?thesis by simp
next
  case False
  from run False show ?thesis
    by (rule advance_fill) (simp, blast intro: exact_inv_cursor fill_body_inv [OF exact_inv_body [OF inv]])
qed

lemma exact_inv_fold: "exact_inv st \<Longrightarrow> efold advanceExactCandidateState st es = Inr st' \<Longrightarrow> exact_inv st'"
  by (rule efold_invariant) (auto intro: advance_inv)

subsection \<open>Cash flow\<close>

text \<open>What an evidence pays in or out, and the profit booked at the steps that close an episode.\<close>

definition cashFlow :: "PositionGuardCandidateExecutionEvidence \<Rightarrow> rat" where
  "cashFlow e = (if fieldVal (ce_executedQuantity e) = 0 then 0
     else if isBuyAction (ce_action e) then - (fieldVal (ce_grossQuoteValueKrw e) + fieldVal (ce_confirmedFeeKrw e))
     else fieldVal (ce_grossQuoteValueKrw e) - fieldVal (ce_confirmedFeeKrw e))"

definition closesEpisode :: "PositionGuardCandidateExecutionEvidence \<Rightarrow> ExactCandidateState \<Rightarrow> bool" where
  "closesEpisode e st' \<longleftrightarrow> ce_executedQuantity e \<noteq> DecString ''0'' \<and> \<not> isBuyAction (ce_action e) \<and>
     xs_currentEpisodeInventoryQuantity st' = ''0''"

fun bookedPnl :: "ExactCandidateState \<Rightarrow> PositionGuardCandidateExecutionEvidence list \<Rightarrow> rat" where
  "bookedPnl st [] = 0"
| "bookedPnl st (e # es) =
     (case advanceExactCandidateState st e of Inl _ \<Rightarrow> 0
      | Inr st' \<Rightarrow> (if closesEpisode e st' then numVal (the (xs_lastFullExitRealizedPnlKrw st')) else 0) + bookedPnl st' es)"

definition openPosition :: "ExactCandidateState \<Rightarrow> rat" where
  "openPosition st = numVal (xs_currentEpisodeRealizedPnlKrw st) - numVal (xs_currentEpisodeCostBasisKrw st)"

lemma closes_iff:
  assumes inv: "exact_inv st" and run: "advanceExactCandidateState st e = Inr st'"
    and nb: "\<not> isBuyAction (ce_action e)" and fill: "ce_executedQuantity e \<noteq> DecString ''0''"
  shows "xs_currentEpisodeInventoryQuantity st' = ''0'' \<longleftrightarrow>
    \<bar>numVal (xs_currentEpisodeInventoryQuantity st) - fieldVal (ce_executedQuantity e)\<bar> \<le> tolerance"
  using run fill
proof (rule advance_fill)
  fix ex gross fee r pnl st1
  assume f: "ce_executedQuantity e = DecString ex"
    "deriveExactRemainingQuantity (xs_currentEpisodeInventoryQuantity st) (ce_action e) ex = Inr r"
    "advanceFill st e r (parseCanonicalDecimal (xs_currentEpisodeCostBasisKrw st))
       (parseCanonicalDecimal (xs_currentEpisodeInventoryQuantity st)) pnl (parseCanonicalDecimal ex)
       (parseCanonicalDecimal gross) (parseCanonicalDecimal fee) = Inr st1"
    "st' = st1\<lparr>xs_lastEvidenceAt := Some (ce_executedAt e), xs_lastEvidenceId := Some (ce_evidenceId e),
       xs_stateVersion := xs_stateVersion st1 + 1\<rparr>"
  have "xs_currentEpisodeInventoryQuantity st1 = r"
    using f(3) nb by (cases "r = ''0''") (auto simp: advanceFill_def advanceSell_close advanceSell_reduce)
  with f(4) derive_remaining(5) [OF f(2) nb] show ?thesis by (simp add: f(1) fieldVal_def)
qed

lemma cash_step:
  assumes inv: "exact_inv st" and run: "advanceExactCandidateState st e = Inr st'"
  shows "(if closesEpisode e st' then numVal (the (xs_lastFullExitRealizedPnlKrw st')) else 0) + openPosition st' =
    openPosition st + cashFlow e"
proof (cases "ce_executedQuantity e = DecString ''0''")
  case True
  with advance_no_fill [OF run True] show ?thesis by (simp add: closesEpisode_def cashFlow_def fieldVal_def)
next
  case False
  then have nz: "fieldVal (ce_executedQuantity e) \<noteq> 0"
    using run by (elim advance_fill) (auto simp: fieldVal_def canonical_eq_zero)
  note ref = advance_refines [OF run]
  have L: "numVal (xs_currentEpisodeRealizedPnlKrw x) = lg_pnl (absLedger x)" "numVal (xs_currentEpisodeCostBasisKrw x) = lg_cost (absLedger x)"
    "numVal (xs_currentEpisodeInventoryQuantity x) = lg_quantity (absLedger x)"
    "map_option numVal (xs_lastFullExitRealizedPnlKrw x) = lg_exitPnl (absLedger x)" for x
    by (simp_all add: absLedger_def)
  show ?thesis
  proof (cases "isBuyAction (ce_action e)")
    case True
    with nz ref show ?thesis
      by (simp add: closesEpisode_def cashFlow_def openPosition_def L evidenceStep_def ledgerStep_def)
  next
    case sell: False
    note closed = closes_iff [OF inv run sell False]
    show ?thesis
    proof (cases "xs_currentEpisodeInventoryQuantity st' = ''0''")
      case True
      with closed ref nz sell have "lg_exitPnl (absLedger st') =
          Some (lg_pnl (absLedger st) + fieldVal (ce_grossQuoteValueKrw e) - fieldVal (ce_confirmedFeeKrw e) - lg_cost (absLedger st))"
        and "lg_pnl (absLedger st') = 0" "lg_cost (absLedger st') = 0"
        by (simp_all add: evidenceStep_def ledgerStep_def L)
      moreover from this(1) have "numVal (the (xs_lastFullExitRealizedPnlKrw st')) = the (lg_exitPnl (absLedger st'))"
        by (cases "xs_lastFullExitRealizedPnlKrw st'") (auto simp: absLedger_def)
      ultimately show ?thesis using True False sell nz by (simp add: closesEpisode_def cashFlow_def openPosition_def L)
    next
      case reduced: False
      with closed ref nz sell show ?thesis
        by (simp add: closesEpisode_def cashFlow_def openPosition_def L evidenceStep_def ledgerStep_def Let_def)
    qed
  qed
qed

lemma cash_fold:
  "exact_inv st \<Longrightarrow> efold advanceExactCandidateState st es = Inr st' \<Longrightarrow>
   bookedPnl st es + openPosition st' = openPosition st + sum_list (map cashFlow es)"
proof (induction es arbitrary: st)
  case Nil
  then show ?case by simp
next
  case (Cons e es)
  from Cons.prems obtain s1 where s1: "advanceExactCandidateState st e = Inr s1" "efold advanceExactCandidateState s1 es = Inr st'"
    by (auto simp: res_simps)
  from Cons.IH [OF advance_inv [OF Cons.prems(1) s1(1)] s1(2)] cash_step [OF Cons.prems(1) s1(1)] s1(1) show ?case by simp
qed

subsection \<open>The order of the evidence\<close>

lemma compare_le: "compareDeterministicIdentifiers a b \<le> 0 \<longleftrightarrow> a \<le> b"
  by (auto simp: compareDeterministicIdentifiers_def)

lemma chronology_le_iff:
  "chronology_le a b \<longleftrightarrow> snd a < snd b \<or> (snd a = snd b \<and> ce_evidenceId (fst a) \<le> ce_evidenceId (fst b))"
  by (auto simp: chronology_le_def compare_le)

interpretation chron: comparison chronology_le
  by unfold_locales (auto simp: chronology_le_iff)

definition withEpoch :: "PositionGuardCandidateExecutionEvidence \<Rightarrow> (PositionGuardCandidateExecutionEvidence \<times> int) res" where
  "withEpoch item = ebind (parsePositionGuardCandidateTimestamp (ce_executedAt item) ''candidate evidence executedAt'')
     (\<lambda>epochNanoseconds. Inr (item, epochNanoseconds))"

lemma emapM_total: "(\<forall>x\<in>set xs. \<exists>y. f x = Inr y) \<longleftrightarrow> emapM f xs = Inr (map (projr \<circ> f) xs)"
  by (induction xs) (auto simp: ebind_eq_Inr)

lemma emapM_Inr_total: "emapM f xs = Inr ys \<Longrightarrow> (\<forall>x\<in>set xs. \<exists>y. f x = Inr y)"
  by (induction xs arbitrary: ys) (auto simp: res_simps)

lemma orderEvidence_perm:
  assumes "orderEvidence es = Inr os" and "mset es = mset es'" and "distinct (map ce_evidenceId es)"
  shows "orderEvidence es' = Inr os"
proof -
  let ?g = "projr \<circ> withEpoch"
  have sets: "set es = set es'" using assms(2) by (metis set_mset_mset)
  from assms(1) obtain ps where "emapM withEpoch es = Inr ps" "os = map fst (sort_by chronology_le ps)"
    by (auto simp: orderEvidence_def res_simps simp flip: withEpoch_def [abs_def])
  moreover from this(1) have total: "\<forall>x\<in>set es. \<exists>y. withEpoch x = Inr y" by (rule emapM_Inr_total)
  ultimately have os: "os = map fst (sort_by chronology_le (map ?g es))"
    and es': "emapM withEpoch es' = Inr (map ?g es')"
    using emapM_total [of es withEpoch] emapM_total [of es' withEpoch] sets by auto
  have fst: "fst (?g x) = x" if "x \<in> set es" for x
    using total that by (auto simp: withEpoch_def res_simps)
  have "sort_by chronology_le (map ?g es) = sort_by chronology_le (map ?g es')"
  proof (rule chron.sort_perm)
    show "mset (map ?g es) = mset (map ?g es')" using assms(2) by simp
    fix x y
    assume "x \<in> set (map ?g es)" "y \<in> set (map ?g es)" and le: "chronology_le x y" "chronology_le y x"
    then obtain a b where ab: "x = ?g a" "y = ?g b" "a \<in> set es" "b \<in> set es" by auto
    with le fst have "ce_evidenceId a = ce_evidenceId b" by (auto simp: chronology_le_iff)
    with ab assms(3) show "x = y" by (auto simp: distinct_map inj_on_def)
  qed
  with os es' show ?thesis by (simp add: orderEvidence_def flip: withEpoch_def [abs_def])
qed

lemma orderEvidence_mset: "orderEvidence es = Inr os \<Longrightarrow> mset os = mset es"
proof -
  assume "orderEvidence es = Inr os"
  then obtain ps where ps: "emapM withEpoch es = Inr ps" "os = map fst (sort_by chronology_le ps)"
    by (auto simp: orderEvidence_def res_simps simp flip: withEpoch_def [abs_def])
  have "map fst ps = es" using ps(1)
    by (induction es arbitrary: ps) (auto simp: res_simps withEpoch_def)
  with ps(2) show ?thesis by simp (metis mset_map mset_sort_by)
qed

subsection \<open>Properties\<close>

text \<open>
  C30. The exact ledger on decimal strings implements rational bookkeeping: whenever an evidence is accepted, the
  numbers the new strings stand for are exactly those of the abstract ledger step (quantity bought
  or sold, cost basis raised by value and fee or reduced in proportion, profit realized, an episode
  closed when the remaining quantity is within the tolerance), without any rounding.
\<close>
theorem ledger_refinement:
  assumes "advanceExactCandidateState st e = Inr st'"
  shows "absLedger st' = evidenceStep e (absLedger st)"
  using assms by (rule advance_refines)

text \<open>
  C31. Realized profit is cash flow. Replaying any accepted evidence from the empty state, the profits booked at
  the episode closings plus what is still open (realized profit less cost basis) equal the sum of what the
  sells brought in net of fees less what the buys cost with fees. In a flat final state the booked
  profits are exactly the net cash flow.
\<close>
theorem booked_pnl_is_cash_flow:
  assumes "orderEvidence es = Inr os" and "projectExactCandidateState es = Inr st'"
  shows "bookedPnl createExactEmptyCandidateState os + openPosition st' = sum_list (map cashFlow es) \<and>
    (xs_currentEpisodeInventoryQuantity st' = ''0'' \<longrightarrow>
       bookedPnl createExactEmptyCandidateState os = sum_list (map cashFlow es))"
proof -
  have fold: "efold advanceExactCandidateState createExactEmptyCandidateState os = Inr st'"
    using assms by (simp add: projectExactCandidateState_def)
  have "sum_mset (image_mset cashFlow (mset os)) = sum_mset (image_mset cashFlow (mset es))"
    using orderEvidence_mset [OF assms(1)] by simp
  then have sums: "sum_list (map cashFlow os) = sum_list (map cashFlow es)"
    by (metis mset_map sum_mset_sum_list)
  have "openPosition createExactEmptyCandidateState = 0"
    by (simp add: openPosition_def createExactEmptyCandidateState_def)
  with cash_fold [OF exact_inv_empty fold] sums
  have eq: "bookedPnl createExactEmptyCandidateState os + openPosition st' = sum_list (map cashFlow es)" by simp
  moreover have "openPosition st' = 0" if "xs_currentEpisodeInventoryQuantity st' = ''0''"
    using exact_inv_fold [OF exact_inv_empty fold] that by (simp add: exact_inv_def openPosition_def)
  ultimately show ?thesis by (auto simp: eq [symmetric])
qed

text \<open>
  C32. Every projected state is well formed: canonical quantity and cost, a flat episode has no cost, profit or
  adds, an open one has an entry path, and cursor and exit data are complete or absent.
\<close>
theorem projected_state_well_formed:
  assumes "projectExactCandidateState es = Inr st"
  shows "exact_inv st"
  using assms exact_inv_fold [OF exact_inv_empty]
  by (auto simp: projectExactCandidateState_def res_simps)

text \<open>
  The projection does not depend on the order in which the evidence is listed, as long as the
  identifiers are distinct.
\<close>
theorem projection_order_independent:
  assumes "projectExactCandidateState es = Inr st" and "mset es = mset es'" and "distinct (map ce_evidenceId es)"
  shows "projectExactCandidateState es' = Inr st"
proof -
  from assms(1) obtain os where os: "orderEvidence es = Inr os"
      "efold advanceExactCandidateState createExactEmptyCandidateState os = Inr st"
    unfolding projectExactCandidateState_def ebind_eq_Inr by blast
  from orderEvidence_perm [OF os(1) assms(2,3)] os(2) show ?thesis
    by (simp add: projectExactCandidateState_def)
qed

text \<open>
  No fill is counted twice: evidence that was just applied is refused when it is presented again.
\<close>
theorem evidence_not_replayed:
  assumes "advanceExactCandidateState st e = Inr st'" and "ce_executedQuantity e \<noteq> DecString ''0''"
  shows "\<exists>err. advanceExactCandidateState st' e = Inl err"
proof (rule ccontr)
  assume "\<not> ?thesis"
  then obtain st'' where "advanceExactCandidateState st' e = Inr st''" by (cases "advanceExactCandidateState st' e") auto
  from this assms(2) have "assertExactChronology st' e = Inr ()" by (elim advance_fill)
  moreover from assms have "xs_lastEvidenceAt st' = Some (ce_executedAt e)" "xs_lastEvidenceId st' = Some (ce_evidenceId e)"
    by (elim advance_fill; simp)+
  ultimately show False
    by (auto simp: assertExactChronology_def res_simps candidate_timestamp_iff)
qed

text \<open>
  C33. A realized profit strictly between -1 and 1 and not zero wedges the ledger: the state the code itself writes
  cannot be read back, so every later fill, the closing exit included, is refused.
\<close>
theorem fractional_pnl_wedges:
  assumes "xs_currentEpisodeRealizedPnlKrw st = formatExactDecimal d" and "decimalValue d \<noteq> 0" and "\<bar>decimalValue d\<bar> < 1"
    and "ce_executedQuantity e \<noteq> DecString ''0''"
  shows "\<exists>err. advanceExactCandidateState st e = Inl err"
proof (rule ccontr)
  assume "\<not> ?thesis"
  then obtain st' where "advanceExactCandidateState st e = Inr st'" by (cases "advanceExactCandidateState st e") auto
  from this assms(4) obtain pnl where
    "parseCanonicalSignedDecimal (xs_currentEpisodeRealizedPnlKrw st) ''candidate exact realized pnl'' = Inr pnl"
    by (rule advance_fill)
  with assms(1-3) show False by (simp add: parse_signed_format)
qed

subsection \<open>Witnesses\<close>

definition sampleEvidence :: "string \<Rightarrow> string \<Rightarrow> StrategyDecisionAction \<Rightarrow> string \<Rightarrow> string \<Rightarrow> string \<Rightarrow>
  PositionGuardCandidateExecutionEvidence" where
  "sampleEvidence i t a ex gross r =
     \<lparr>ce_evidenceId = i, ce_executedAt = t, ce_action = a, ce_entryPath = PULLBACK, ce_terminalStatus = TerminalFilled,
      ce_executedQuantity = DecString ex, ce_grossQuoteValueKrw = DecString gross, ce_confirmedFeeKrw = DecString ''0'',
      ce_remainingQuantity = DecString r\<rparr>"

definition sampleEnter :: PositionGuardCandidateExecutionEvidence where
  "sampleEnter = sampleEvidence ''e1'' ''2026-08-21T00:00:00Z'' ENTER ''2'' ''1000'' ''2''"

definition sampleReduce :: PositionGuardCandidateExecutionEvidence where
  "sampleReduce = sampleEvidence ''e2'' ''2026-08-21T01:00:00Z'' REDUCE ''1'' ''500.5'' ''1''"

definition sampleExit :: PositionGuardCandidateExecutionEvidence where
  "sampleExit = sampleEvidence ''e3'' ''2026-08-21T02:00:00Z'' EXIT ''2'' ''1003'' ''0''"

definition sampleOpen :: ExactCandidateState where
  "sampleOpen = createExactEmptyCandidateState\<lparr>xs_currentEpisodeCostBasisKrw := ''1000'',
     xs_currentEpisodeInventoryQuantity := ''2'', xs_lastEntryPath := Some PULLBACK,
     xs_lastEvidenceAt := Some ''2026-08-21T00:00:00Z'', xs_lastEvidenceId := Some ''e1'', xs_stateVersion := 1\<rparr>"

definition sampleReduced :: ExactCandidateState where
  "sampleReduced = createExactEmptyCandidateState\<lparr>xs_currentEpisodeCostBasisKrw := ''500'',
     xs_currentEpisodeInventoryQuantity := ''1'', xs_currentEpisodeRealizedPnlKrw := ''0.5'', xs_lastEntryPath := Some PULLBACK,
     xs_lastEvidenceAt := Some ''2026-08-21T01:00:00Z'', xs_lastEvidenceId := Some ''e2'', xs_stateVersion := 2\<rparr>"

definition sampleClosed :: ExactCandidateState where
  "sampleClosed = createExactEmptyCandidateState\<lparr>xs_lastFullExitAt := Some ''2026-08-21T02:00:00Z'',
     xs_lastFullExitRealizedPnlKrw := Some ''3'', xs_lastEntryPath := Some PULLBACK,
     xs_lastEvidenceAt := Some ''2026-08-21T02:00:00Z'', xs_lastEvidenceId := Some ''e3'', xs_stateVersion := 2\<rparr>"

lemma sample_enter_run: "advanceExactCandidateState createExactEmptyCandidateState sampleEnter = Inr sampleOpen"
  by code_simp

lemma sample_project_run: "projectExactCandidateState [sampleExit, sampleEnter] = Inr sampleClosed"
  by code_simp

lemma sample_wedge_run: "projectExactCandidateState [sampleEnter, sampleReduce] = Inr sampleReduced"
  by code_simp

lemma ledger_refinement_witness:
  "absLedger sampleOpen = evidenceStep sampleEnter (absLedger createExactEmptyCandidateState)"
  by (rule ledger_refinement [OF sample_enter_run])

lemma booked_pnl_is_cash_flow_witness:
  "bookedPnl createExactEmptyCandidateState [sampleEnter, sampleExit] = sum_list (map cashFlow [sampleExit, sampleEnter])"
proof -
  have ord: "orderEvidence [sampleExit, sampleEnter] = Inr [sampleEnter, sampleExit]" by code_simp
  from booked_pnl_is_cash_flow [OF ord sample_project_run] show ?thesis
    by (simp add: sampleClosed_def createExactEmptyCandidateState_def)
qed

lemma projected_state_well_formed_witness: "exact_inv sampleClosed"
  by (rule projected_state_well_formed [OF sample_project_run])

lemma projection_order_independent_witness:
  "projectExactCandidateState [sampleEnter, sampleExit] = Inr sampleClosed"
  by (rule projection_order_independent [OF sample_project_run])
    (simp_all add: sampleExit_def sampleEnter_def sampleEvidence_def add_mset_commute)

lemma evidence_not_replayed_witness: "\<exists>err. advanceExactCandidateState sampleOpen sampleEnter = Inl err"
  by (rule evidence_not_replayed [OF sample_enter_run]) (simp add: sampleEnter_def sampleEvidence_def)

lemma fractional_pnl_wedges_witness:
  "projectExactCandidateState [sampleEnter, sampleReduce] = Inr sampleReduced \<and>
   (\<exists>err. advanceExactCandidateState sampleReduced
      (sampleEvidence ''e3'' ''2026-08-21T02:00:00Z'' EXIT ''1'' ''600'' ''0'') = Inl err)"
proof
  show "projectExactCandidateState [sampleEnter, sampleReduce] = Inr sampleReduced" by (rule sample_wedge_run)
  have p: "xs_currentEpisodeRealizedPnlKrw sampleReduced = formatExactDecimal \<lparr>ed_coefficient = 5, ed_scale = 1\<rparr>"
    by code_simp
  show "\<exists>err. advanceExactCandidateState sampleReduced
      (sampleEvidence ''e3'' ''2026-08-21T02:00:00Z'' EXIT ''1'' ''600'' ''0'') = Inl err"
    by (rule fractional_pnl_wedges [OF p]) (simp_all add: decimalValue_make sampleEvidence_def)
qed

end
