(* ===== verification/RiskGuards.thy ===== *)
theory RiskGuards
  imports ExactDecimal
begin

section \<open>Risk guards, order identity and order decimals\<close>

text \<open>
  \<open>src/src/modules/risk/guards.ts\<close>, \<open>src/src/modules/execution/idempotency.ts\<close> and
  \<open>src/src/modules/exchange/upbit/order-decimals.ts\<close>. The guards compute with JavaScript numbers, NaN and
  infinities included; \<open>dateParse legacy\<close> is \<open>Date.parse\<close>. \<open>createFingerprint\<close> (SHA-256, from Node) is the
  parameter \<open>fingerprint\<close>.
\<close>

record RiskEvaluationContext =
  rc_policy :: ExecutionPolicy
  rc_systemStatus :: SystemStatus
  rc_market :: SupportedMarket
  rc_priceSnapshot :: "PriceSnapshot option"
  rc_portfolio :: PortfolioExposureSnapshot
  rc_openOrders :: "OrderRecord list"
  rc_requestedSide :: OrderSide
  rc_requestedIdempotencyKey :: string
  rc_requestedPrice :: "string option"
  rc_requestedVolume :: "string option"
  rc_requestedNotionalKrw :: "jsnum option"
  rc_requestedQuantity :: "jsnum option"
  rc_now :: string

record TriggeredRule =
  tg_code :: RiskRuleCode
  tg_level :: RiskEventLevel
  tg_message :: string

record RiskEvaluationResult =
  re_accepted :: bool
  re_triggeredRules :: "TriggeredRule list"

definition ACTIVE_DUPLICATE_STATUSES :: "OrderLifecycleStatus list" where
  "ACTIVE_DUPLICATE_STATUSES =
     [INTENT_CREATED, PERSISTED, SUBMITTING, OPEN, PARTIALLY_FILLED, CANCEL_REQUESTED, RECONCILIATION_REQUIRED]"

text \<open>\<open>value ? String(Number(value)) : null\<close>: the empty string is falsy.\<close>

definition normalizeOptionalNumberString :: "string option \<Rightarrow> string option" where
  "normalizeOptionalNumberString value =
     (case value of None \<Rightarrow> None | Some s \<Rightarrow> if s = [] then None else Some (numberToString (numberOf s)))"

definition matchesRequestShape :: "OrderRecord \<Rightarrow> RiskEvaluationContext \<Rightarrow> bool" where
  "matchesRequestShape order context \<longleftrightarrow>
     oi_market order = rc_market context \<and> oi_side order = rc_requestedSide context \<and>
     normalizeOptionalNumberString (oi_price order) = normalizeOptionalNumberString (rc_requestedPrice context) \<and>
     normalizeOptionalNumberString (oi_volume order) = normalizeOptionalNumberString (rc_requestedVolume context)"

definition hasDuplicateOpenOrder :: "RiskEvaluationContext \<Rightarrow> bool" where
  "hasDuplicateOpenOrder context =
     list_ex (\<lambda>order. or_status order \<in> set ACTIVE_DUPLICATE_STATUSES \<and>
         (oi_idempotencyKey order = rc_requestedIdempotencyKey context \<or> matchesRequestShape order context))
       (rc_openOrders context)"

definition block :: "RiskRuleCode \<Rightarrow> string \<Rightarrow> TriggeredRule" where
  "block code message = \<lparr>tg_code = code, tg_level = BLOCK, tg_message = message\<rparr>"

text \<open>\<open>if (c) triggeredRules.push(rule)\<close>\<close>

definition pushIf :: "bool \<Rightarrow> TriggeredRule \<Rightarrow> TriggeredRule list" where
  "pushIf c rule = (if c then [rule] else [])"

definition priceAgeMs :: "(string \<Rightarrow> jsnum) \<Rightarrow> RiskEvaluationContext \<Rightarrow> PriceSnapshot \<Rightarrow> jsnum" where
  "priceAgeMs legacy context snapshot = num_sub (dateParse legacy (rc_now context)) (dateParse legacy (ps_capturedAt snapshot))"

definition stalePriceRules :: "(string \<Rightarrow> jsnum) \<Rightarrow> RiskEvaluationContext \<Rightarrow> TriggeredRule list" where
  "stalePriceRules legacy context =
     (case rc_priceSnapshot context of
        None \<Rightarrow> [block STALE_PRICE_GUARD ''No price snapshot is available for risk evaluation.'']
      | Some snapshot \<Rightarrow>
          let ageMs = priceAgeMs legacy context snapshot
          in pushIf (\<not> isFiniteNumber ageMs \<or> num_greater (num_abs ageMs) (po_stalePriceThresholdMs (rc_policy context)))
               (block STALE_PRICE_GUARD ''Price snapshot is stale or outside the allowed clock skew.''))"

definition exposureDeltaKrw :: "RiskEvaluationContext \<Rightarrow> jsnum \<Rightarrow> jsnum" where
  "exposureDeltaKrw context notional = (if rc_requestedSide context = Ask then num_neg notional else notional)"

definition projectedExposure :: "jsnum \<Rightarrow> jsnum \<Rightarrow> jsnum" where
  "projectedExposure current delta = num_max (Num 0) (num_add current delta)"

definition exposureRules :: "RiskEvaluationContext \<Rightarrow> TriggeredRule list" where
  "exposureRules context =
     (case rc_requestedNotionalKrw context of
        None \<Rightarrow> []
      | Some notional \<Rightarrow>
          let asset = getAssetForMarket (rc_market context);
              delta = exposureDeltaKrw context notional;
              projectedAssetExposure = projectedExposure (pe_assetExposureKrw (rc_portfolio context) asset) delta;
              projectedTotalExposure = projectedExposure (pe_totalExposureKrw (rc_portfolio context)) delta
          in if num_greater delta (Num 0)
             then pushIf (num_greater projectedAssetExposure
                     (num_mul (pe_totalEquityKrw (rc_portfolio context)) (po_maxAllocationByAsset (rc_policy context) asset)))
                    (block PER_ASSET_MAX_ALLOCATION
                      (''Projected '' @ assetStr asset @ '' exposure exceeds configured max allocation.'')) @
                  pushIf (num_greater projectedTotalExposure
                     (num_mul (pe_totalEquityKrw (rc_portfolio context)) (po_totalExposureCap (rc_policy context))))
                    (block TOTAL_EXPOSURE_CAP ''Projected total exposure exceeds configured cap.'')
             else [])"

definition evaluateRiskGuards :: "(string \<Rightarrow> jsnum) \<Rightarrow> RiskEvaluationContext \<Rightarrow> RiskEvaluationResult" where
  "evaluateRiskGuards legacy context =
     (let triggeredRules =
        pushIf (po_globalKillSwitch (rc_policy context) \<or> rc_systemStatus context = KILL_SWITCHED)
          (block GLOBAL_KILL_SWITCH ''Global kill switch is active.'') @
        pushIf (rc_systemStatus context = PAUSED) (block EXECUTION_PAUSED ''Execution is paused by operator state.'') @
        pushIf (rc_systemStatus context = DEGRADED)
          (block SYSTEM_DEGRADED ''Execution is blocked while the system is DEGRADED pending operator review.'') @
        pushIf (po_executionMode (rc_policy context) = LIVE \<and> po_liveExecutionGate (rc_policy context) = DISABLED)
          (block LIVE_EXECUTION_DISABLED ''LIVE mode is requested but live execution gate is disabled.'') @
        stalePriceRules legacy context @
        pushIf (case rc_requestedNotionalKrw context of None \<Rightarrow> False
                | Some notional \<Rightarrow> num_less notional (po_minimumOrderValueKrw (rc_policy context)))
          (block MINIMUM_ORDER_VALUE_GUARD ''Requested order value is below the configured minimum.'') @
        pushIf (hasDuplicateOpenOrder context)
          (block DUPLICATE_ORDER_GUARD ''A matching active order already exists.'') @
        exposureRules context
      in \<lparr>re_accepted = (triggeredRules = []), re_triggeredRules = triggeredRules\<rparr>)"

subsection \<open>Order identity\<close>

definition orElse :: "string option \<Rightarrow> string \<Rightarrow> string" where
  "orElse v d = (case v of None \<Rightarrow> d | Some s \<Rightarrow> s)"

fun joinBar :: "string list \<Rightarrow> string" where
  "joinBar [] = []"
| "joinBar [s] = s"
| "joinBar (s # t # ts) = s @ ''|'' @ joinBar (t # ts)"

definition buildOrderIdempotencyKey ::
  "(string \<Rightarrow> string) \<Rightarrow> string \<Rightarrow> string option \<Rightarrow> string \<Rightarrow> string \<Rightarrow> string \<Rightarrow> string option \<Rightarrow> string option \<Rightarrow> string" where
  "buildOrderIdempotencyKey fingerprint exchangeAccountId strategyDecisionId market side ordType price volume =
     fingerprint (joinBar [exchangeAccountId, orElse strategyDecisionId ''manual'', market, side, ordType,
       orElse price ''null'', orElse volume ''null''])"

text \<open>\<open>requestedAt.replace(/[-:.TZ]/g, "")\<close> and the twelve leading digits of the fingerprint.\<close>

definition buildOrderIdentifier ::
  "(string \<Rightarrow> string) \<Rightarrow> string \<Rightarrow> string \<Rightarrow> string option \<Rightarrow> string \<Rightarrow> string" where
  "buildOrderIdentifier fingerprint market side strategyDecisionId requestedAt =
     (let timestamp = filter (\<lambda>c. c \<notin> set ''-:.TZ'') requestedAt;
          suffix = take 12 (fingerprint (market @ ''|'' @ side @ ''|'' @ orElse strategyDecisionId ''manual'' @ ''|'' @ timestamp))
      in market @ ''-'' @ side @ ''-'' @ suffix)"

subsection \<open>Order decimals\<close>

definition UPBIT_ORDER_DECIMAL_PLACES :: nat where
  "UPBIT_ORDER_DECIMAL_PLACES = 8"

text \<open>\<open>replace(/^0+(?=\d)/, "")\<close> and \<open>replace(/0+$/, "")\<close>.\<close>

fun stripLeadingZeros :: "string \<Rightarrow> string" where
  "stripLeadingZeros (c # d # r) = (if c = CHR ''0'' then stripLeadingZeros (d # r) else c # d # r)"
| "stripLeadingZeros s = s"

definition stripTrailingZeros :: "string \<Rightarrow> string" where
  "stripTrailingZeros s = rev (dropWhile (\<lambda>c. c = CHR ''0'') (rev s))"

definition canonicalizeUpbitOrderDecimal :: "string \<Rightarrow> string \<Rightarrow> string res" where
  "canonicalizeUpbitOrderDecimal value label =
     (if \<not> isPlainDecimal value then Inl (Error (label @ '' must be a non-negative decimal string.''))
      else let integerPart = takeWhile is_digit value;
               fractionalPart = drop 1 (dropWhile is_digit value);
               integer = stripLeadingZeros integerPart;
               fractional = stripTrailingZeros (take UPBIT_ORDER_DECIMAL_PLACES fractionalPart)
           in Inr (if fractional \<noteq> [] then integer @ ''.'' @ fractional else integer))"

definition serializeUpbitOrderDecimal :: "jsnum \<Rightarrow> string \<Rightarrow> string res" where
  "serializeUpbitOrderDecimal value label =
     (if \<not> isFiniteNumber value \<or> num_less value (Num 0)
      then Inl (Error (label @ '' must be a finite non-negative number.''))
      else canonicalizeUpbitOrderDecimal (numberToString value) label)"

subsection \<open>Facts\<close>

lemma pushIf_Nil [simp]: "pushIf c r = [] \<longleftrightarrow> \<not> c"
  by (simp add: pushIf_def)

lemma accepted_iff:
  "re_accepted (evaluateRiskGuards legacy c) \<longleftrightarrow>
     \<not> po_globalKillSwitch (rc_policy c) \<and> rc_systemStatus c \<notin> {KILL_SWITCHED, PAUSED, DEGRADED} \<and>
     \<not> (po_executionMode (rc_policy c) = LIVE \<and> po_liveExecutionGate (rc_policy c) = DISABLED) \<and>
     stalePriceRules legacy c = [] \<and>
     (\<forall>notional. rc_requestedNotionalKrw c = Some notional \<longrightarrow> \<not> num_less notional (po_minimumOrderValueKrw (rc_policy c))) \<and>
     \<not> hasDuplicateOpenOrder c \<and> exposureRules c = []"
  by (auto simp: evaluateRiskGuards_def Let_def split: option.splits)

lemma stalePriceRules_Nil:
  "stalePriceRules legacy c = [] \<longleftrightarrow>
     (\<exists>snap q. rc_priceSnapshot c = Some snap \<and> priceAgeMs legacy c snap = Num q \<and>
        \<not> num_greater (Num \<bar>q\<bar>) (po_stalePriceThresholdMs (rc_policy c)))"
proof (cases "rc_priceSnapshot c")
  case None
  then show ?thesis by (simp add: stalePriceRules_def)
next
  case (Some snap)
  then show ?thesis by (cases "priceAgeMs legacy c snap") (auto simp: stalePriceRules_def Let_def)
qed

lemma stripLeadingZeros_facts:
  "w \<noteq> [] \<Longrightarrow> list_all is_digit w \<Longrightarrow>
   stripLeadingZeros w \<noteq> [] \<and> list_all is_digit (stripLeadingZeros w) \<and>
   (stripLeadingZeros w = ''0'' \<or> hd (stripLeadingZeros w) \<noteq> CHR ''0'') \<and>
   (\<exists>k. w = replicate k CHR ''0'' @ stripLeadingZeros w)"
proof (induction w rule: stripLeadingZeros.induct)
  case (1 c d r)
  show ?case
  proof (cases "c = CHR ''0''")
    case True
    let ?t = "stripLeadingZeros (d # r)"
    have eq: "stripLeadingZeros (c # d # r) = ?t" using True by simp
    from 1 True obtain k where ih: "?t \<noteq> []" "list_all is_digit ?t" "?t = ''0'' \<or> hd ?t \<noteq> CHR ''0''"
        "d # r = replicate k CHR ''0'' @ ?t" by auto
    from ih(4) True have "c # d # r = replicate (Suc k) CHR ''0'' @ ?t" by simp
    with ih(1-3) show ?thesis unfolding eq by blast
  next
    case False
    with 1 show ?thesis by (auto intro: exI [of _ 0])
  qed
qed (auto intro: exI [of _ 0])

lemma stripTrailingZeros_facts:
  "list_all is_digit f \<Longrightarrow> list_all is_digit (stripTrailingZeros f) \<and>
   (stripTrailingZeros f = [] \<or> last (stripTrailingZeros f) \<noteq> CHR ''0'') \<and>
   (\<exists>k. f = stripTrailingZeros f @ replicate k CHR ''0'')"
proof (induction f rule: rev_induct)
  case Nil
  then show ?case by (simp add: stripTrailingZeros_def)
next
  case (snoc c f)
  show ?case
  proof (cases "c = CHR ''0''")
    case True
    then have eq: "stripTrailingZeros (f @ [c]) = stripTrailingZeros f" by (simp add: stripTrailingZeros_def)
    let ?t = "stripTrailingZeros f"
    from snoc obtain k where ih: "list_all is_digit ?t" "?t = [] \<or> last ?t \<noteq> CHR ''0''" "f = ?t @ replicate k CHR ''0''"
      by auto
    from ih(3) have "f @ [c] = ?t @ replicate (Suc k) CHR ''0''"
      using True by (metis append.assoc replicate_Suc replicate_append_same)
    with ih(1,2) show ?thesis unfolding eq by blast
  next
    case False
    then have "stripTrailingZeros (f @ [c]) = f @ [c]" by (simp add: stripTrailingZeros_def)
    with snoc.prems False show ?thesis by (auto intro: exI [of _ 0])
  qed
qed

text \<open>The value of a plain decimal string \<open>w.f\<close>, and what truncation to eight places does to it.\<close>

definition partsVal :: "string \<Rightarrow> string \<Rightarrow> rat" where
  "partsVal w f = of_int (int_of_digits (w @ f)) / 10 ^ length f"

definition plainVal :: "string \<Rightarrow> rat" where
  "plainVal s = partsVal (takeWhile is_digit s) (drop 1 (dropWhile is_digit s))"

lemma partsVal_zeros: "partsVal (replicate k CHR ''0'' @ w) f = partsVal w f" "partsVal w (f @ replicate k CHR ''0'') = partsVal w f"
proof -
  show "partsVal (replicate k CHR ''0'' @ w) f = partsVal w f" by (simp add: partsVal_def)
  have "int_of_digits (w @ f @ replicate k CHR ''0'') = int_of_digits (w @ f) * 10 ^ k"
    using int_of_digits_append [of "w @ f" "replicate k CHR ''0''"] int_of_digits_zeros [of k "[]"] by simp
  then show "partsVal w (f @ replicate k CHR ''0'') = partsVal w f" by (simp add: partsVal_def power_add)
qed

lemma partsVal_take:
  assumes "list_all is_digit f"
  shows "partsVal w (take n f) \<le> partsVal w f \<and> partsVal w f < partsVal w (take n f) + 1 / 10 ^ n"
proof -
  define d where "d = drop n f"
  have d: "list_all is_digit d" using assms by (auto simp: d_def list_all_iff dest: in_set_dropD)
  have bounds: "0 \<le> int_of_digits d" "int_of_digits d < 10 ^ length d"
    using int_of_digits_nonneg [OF d] int_of_digits_bound [OF d] .
  have len: "length f = length (take n f) + length d" by (simp add: d_def)
  have "int_of_digits (w @ f) = int_of_digits (w @ take n f) * 10 ^ length d + int_of_digits d"
    using int_of_digits_append [of "w @ take n f" d] by (simp add: d_def)
  then have v: "partsVal w f = partsVal w (take n f) + of_int (int_of_digits d) / (10 ^ length (take n f) * 10 ^ length d)"
    unfolding partsVal_def len power_add by (simp add: add_divide_distrib)
  have up: "(of_int (int_of_digits d) :: rat) / (10 ^ length (take n f) * 10 ^ length d) < 1 / 10 ^ n"
  proof (cases "n \<le> length f")
    case True
    have "(of_int (int_of_digits d) :: rat) < of_int (10 ^ length d)" using bounds(2) by (simp only: of_int_less_iff)
    then have "(of_int (int_of_digits d) :: rat) / 10 ^ length d < 1" by (simp add: pos_divide_less_eq)
    then have "(of_int (int_of_digits d) :: rat) / 10 ^ length d / 10 ^ n < 1 / 10 ^ n"
      by (intro divide_strict_right_mono) simp_all
    with True show ?thesis by (simp add: min_def mult.commute)
  next
    case False
    then show ?thesis by (simp add: d_def)
  qed
  have "(0::rat) \<le> of_int (int_of_digits d) / (10 ^ length (take n f) * 10 ^ length d)"
    using bounds(1) by simp
  with v up show ?thesis by simp
qed

lemma plain_parts:
  assumes "isPlainDecimal s"
  defines "w \<equiv> takeWhile is_digit s" and "f \<equiv> drop 1 (dropWhile is_digit s)"
  shows "w \<noteq> []" and "list_all is_digit w" and "list_all is_digit f"
proof -
  show "w \<noteq> []" using assms by (simp add: isPlainDecimal_def Let_def)
  show "list_all is_digit w" by (auto simp: w_def list_all_iff dest: set_takeWhileD)
  show "list_all is_digit f" using assms(1) by (auto simp: f_def isPlainDecimal_def Let_def drop_Suc dropWhile_eq_Nil_conv [THEN iffD2])
qed

lemma canonicalize_parts:
  assumes "canonicalizeUpbitOrderDecimal v lbl = Inr u"
  obtains w f where "u = unsignedOf w f" "canonicalParts w f" "length f \<le> 8"
    "partsVal w f \<le> plainVal v" "plainVal v < partsVal w f + 1 / 10 ^ 8"
proof -
  define w where "w = takeWhile is_digit v"
  define f where "f = drop 1 (dropWhile is_digit v)"
  from assms have plain: "isPlainDecimal v" by (auto simp: canonicalizeUpbitOrderDecimal_def split: if_splits)
  note p = plain_parts [OF plain, folded w_def f_def]
  define i where "i = stripLeadingZeros w"
  define g where "g = stripTrailingZeros (take 8 f)"
  have u: "u = unsignedOf i g"
    using assms plain
    by (simp add: canonicalizeUpbitOrderDecimal_def Let_def unsignedOf_def i_def g_def w_def f_def
        UPBIT_ORDER_DECIMAL_PLACES_def split: if_splits)
  have t8: "list_all is_digit (take 8 f)" using p(3) by (auto simp: list_all_iff dest: in_set_takeD)
  from stripLeadingZeros_facts [OF p(1,2)] obtain k where i: "i \<noteq> []" "list_all is_digit i"
      "i = ''0'' \<or> hd i \<noteq> CHR ''0''" "w = replicate k CHR ''0'' @ i" unfolding i_def by blast
  from stripTrailingZeros_facts [OF t8] obtain j where g: "list_all is_digit g" "g = [] \<or> last g \<noteq> CHR ''0''"
      "take 8 f = g @ replicate j CHR ''0''" unfolding g_def by blast
  have "length (take 8 f) \<le> 8" by simp
  with g(3) have "length g \<le> 8" by (metis length_append le_trans le_add1)
  moreover have "partsVal i g = partsVal w (take 8 f)"
    unfolding i(4) g(3) by (simp only: partsVal_zeros)
  moreover have "canonicalParts i g" using i g by (simp add: canonicalParts_def)
  moreover have "plainVal v = partsVal w f" by (simp add: plainVal_def w_def f_def)
  ultimately show ?thesis
    using that [OF u] partsVal_take [OF p(3), of w 8] by simp
qed

lemma canonicalize_fixed:
  assumes "canonicalParts w f" and "length f \<le> 8"
  shows "canonicalizeUpbitOrderDecimal (unsignedOf w f) lbl = Inr (unsignedOf w f)"
proof -
  have dig: "w \<noteq> []" "list_all is_digit w" "list_all is_digit f" using assms(1) by (auto simp: canonicalParts_def)
  have dot: "\<not> is_digit CHR ''.''" by (simp add: is_digit_def)
  have cut: "takeWhile is_digit (unsignedOf w f) = w" "dropWhile is_digit (unsignedOf w f) = (if f = [] then [] else CHR ''.'' # f)"
    using dig(2) dot by (auto simp: unsignedOf_def list_all_iff takeWhile_append dropWhile_append)
  have lead: "stripLeadingZeros w = w" using assms(1) by (cases w rule: stripLeadingZeros.cases) (auto simp: canonicalParts_def)
  have trail: "stripTrailingZeros f = f" using assms(1)
    by (cases f rule: rev_cases) (auto simp: canonicalParts_def stripTrailingZeros_def)
  show ?thesis
    using dig cut lead trail assms(2)
    by (auto simp: canonicalizeUpbitOrderDecimal_def isPlainDecimal_def Let_def UPBIT_ORDER_DECIMAL_PLACES_def unsignedOf_def)
qed

lemma unsigned_fraction:
  assumes "canonicalParts w f"
  shows "drop 1 (dropWhile is_digit (unsignedOf w f)) = f"
  using assms by (auto simp: canonicalParts_def unsignedOf_def list_all_iff dropWhile_append is_digit_def)

lemma partsVal_places:
  assumes "length f \<le> n"
  shows "partsVal w f * 10 ^ n = of_int (int_of_digits (w @ f) * 10 ^ (n - length f))"
proof -
  have "(10 :: rat) ^ n = 10 ^ length f * 10 ^ (n - length f)" using assms by (simp flip: power_add)
  then show ?thesis by (simp add: partsVal_def)
qed

lemma places_floor:
  fixes x v :: rat
  assumes "x * 10 ^ n = of_int m" "x \<le> v" "v < x + 1 / 10 ^ n"
  shows "x = of_int \<lfloor>v * 10 ^ n\<rfloor> / 10 ^ n"
proof -
  have "x * 10 ^ n \<le> v * 10 ^ n" using assms(2) by simp
  moreover have "v * 10 ^ n < (x + 1 / 10 ^ n) * 10 ^ n" using assms(3) by (intro mult_strict_right_mono) simp_all
  ultimately have "of_int m \<le> v * 10 ^ n" "v * 10 ^ n < of_int m + 1" using assms(1) by (simp_all add: distrib_right)
  then have "\<lfloor>v * 10 ^ n\<rfloor> = m" by (simp add: floor_eq_iff)
  then show ?thesis using assms(1) by (simp add: field_simps)
qed

subsection \<open>Properties\<close>

text \<open>
  What acceptance by the risk guards means. An accepted request has the kill switch off, a system that is
  neither killed, paused nor degraded, an open gate if it is live, a price snapshot whose age is a finite
  number within the threshold in both directions, a notional not below the minimum, no active order with
  the same idempotency key or the same shape, and, for a request that raises exposure, projected asset and
  total exposures that do not exceed the configured shares of the equity; and every such request is accepted.
\<close>
theorem risk_acceptance:
  "re_accepted (evaluateRiskGuards legacy c) \<longleftrightarrow>
     \<not> po_globalKillSwitch (rc_policy c) \<and> rc_systemStatus c \<notin> {KILL_SWITCHED, PAUSED, DEGRADED} \<and>
     \<not> (po_executionMode (rc_policy c) = LIVE \<and> po_liveExecutionGate (rc_policy c) = DISABLED) \<and>
     (\<exists>snap q. rc_priceSnapshot c = Some snap \<and> priceAgeMs legacy c snap = Num q \<and>
        \<not> num_greater (Num \<bar>q\<bar>) (po_stalePriceThresholdMs (rc_policy c))) \<and>
     \<not> (\<exists>notional. rc_requestedNotionalKrw c = Some notional \<and> num_less notional (po_minimumOrderValueKrw (rc_policy c))) \<and>
     \<not> (\<exists>ord\<in>set (rc_openOrders c). or_status ord \<in> set ACTIVE_DUPLICATE_STATUSES \<and>
          (oi_idempotencyKey ord = rc_requestedIdempotencyKey c \<or> matchesRequestShape ord c)) \<and>
     \<not> (\<exists>notional. rc_requestedNotionalKrw c = Some notional \<and> num_greater (exposureDeltaKrw c notional) (Num 0) \<and>
          (num_greater
             (projectedExposure (pe_assetExposureKrw (rc_portfolio c) (getAssetForMarket (rc_market c))) (exposureDeltaKrw c notional))
             (num_mul (pe_totalEquityKrw (rc_portfolio c)) (po_maxAllocationByAsset (rc_policy c) (getAssetForMarket (rc_market c)))) \<or>
           num_greater (projectedExposure (pe_totalExposureKrw (rc_portfolio c)) (exposureDeltaKrw c notional))
             (num_mul (pe_totalEquityKrw (rc_portfolio c)) (po_totalExposureCap (rc_policy c)))))"
  unfolding accepted_iff stalePriceRules_Nil
  by (auto simp: hasDuplicateOpenOrder_def list_ex_iff exposureRules_def Let_def split: option.splits)

text \<open>
  The exposure caps are open to NaN: when the equity is not a number, no projected exposure, however large,
  triggers either cap.
\<close>
theorem exposure_caps_ignore_nan:
  assumes "pe_totalEquityKrw (rc_portfolio c) = NaN"
  shows "exposureRules c = []"
  using assms by (auto simp: exposureRules_def Let_def num_greater_def dest: num_less_not_NaN split: option.splits)

text \<open>
  C37. Order decimals are cut off after the eighth place: the canonical string has at most eight digits after the point
  and denotes the given value rounded down to a multiple of the eighth place, it is a canonical decimal of the exact
  arithmetic, and canonicalizing it again changes nothing.
\<close>
theorem order_decimal_truncation:
  assumes "canonicalizeUpbitOrderDecimal v lbl = Inr u"
  shows "decimalValue (parseCanonicalDecimal u) = of_int \<lfloor>plainVal v * 10 ^ 8\<rfloor> / 10 ^ 8 \<and>
    length (drop 1 (dropWhile is_digit u)) \<le> 8 \<and> CANONICAL_NON_NEGATIVE u \<and> canonicalizeUpbitOrderDecimal u lbl = Inr u"
  using assms
proof (rule canonicalize_parts)
  fix w f
  assume u: "u = unsignedOf w f" and parts: "canonicalParts w f" and len: "length f \<le> 8"
    and low: "partsVal w f \<le> plainVal v" and high: "plainVal v < partsVal w f + 1 / 10 ^ 8"
  have "decimalValue (parseCanonicalDecimal u) = partsVal w f"
    using parts u by (simp add: parse_parts decimalValue_make partsVal_def)
  moreover have "partsVal w f = of_int \<lfloor>plainVal v * 10 ^ 8\<rfloor> / 10 ^ 8"
    by (rule places_floor [OF partsVal_places [OF len] low high])
  moreover have "drop 1 (dropWhile is_digit u) = f" using unsigned_fraction [OF parts] u by simp
  ultimately show ?thesis using u parts len by (auto simp: canonical_nonneg_iff canonicalize_fixed)
qed

subsection \<open>Witnesses\<close>

lemma exposure_caps_ignore_nan_witness:
  "exposureRules
     \<lparr>rc_policy = \<lparr>po_executionMode = LIVE, po_liveExecutionGate = ENABLED, po_globalKillSwitch = False,
        po_maxAllocationByAsset = (\<lambda>_. Num (1 / 2)), po_totalExposureCap = Num (1 / 2), po_stalePriceThresholdMs = Num 1000,
        po_minimumOrderValueKrw = Num 5000\<rparr>,
      rc_systemStatus = RUNNING, rc_market = KRW_BTC, rc_priceSnapshot = None,
      rc_portfolio = \<lparr>pe_totalEquityKrw = NaN, pe_totalExposureKrw = Num 0, pe_assetExposureKrw = (\<lambda>_. Num 0)\<rparr>,
      rc_openOrders = [], rc_requestedSide = Bid, rc_requestedIdempotencyKey = ''k'', rc_requestedPrice = None,
      rc_requestedVolume = None, rc_requestedNotionalKrw = Some (Num 1000000000), rc_requestedQuantity = None, rc_now = []\<rparr> = []"
  by (rule exposure_caps_ignore_nan) simp

lemma order_decimal_truncation_witness:
  "canonicalizeUpbitOrderDecimal ''0012.345678919'' ''price'' = Inr ''12.34567891'' \<and> CANONICAL_NON_NEGATIVE ''12.34567891'' \<and>
   decimalValue (parseCanonicalDecimal ''12.34567891'') = of_int \<lfloor>plainVal ''0012.345678919'' * 10 ^ 8\<rfloor> / 10 ^ 8"
proof -
  have run: "canonicalizeUpbitOrderDecimal ''0012.345678919'' ''price'' = Inr ''12.34567891''" by code_simp
  from order_decimal_truncation [OF run] run show ?thesis by blast
qed

end
