(* ===== verification/RuntimeOwnership.thy ===== *)
theory RuntimeOwnership
  imports Domain
begin

section \<open>Runtime ownership: the store\<close>

text \<open>
  \<open>src/src/domain/runtime-ownership.ts\<close>, the validators of
  \<open>src/src/modules/db/runtime-ownership-interfaces.ts\<close> and the store of
  \<open>src/src/modules/db/repositories/in-memory-runtime-ownership-store.ts\<close>: at most one process owns the
  runtime; every acquisition has a new generation, which fences off the earlier owners. The checks that a
  value is an object with exactly the documented keys hold for every value of the record types.
\<close>

datatype RuntimeOwnershipEventType = ACQUIRED | TAKEN_OVER | RELEASED | LOST_EVENT

record RuntimeOwnershipRecord =
  ro_ownerToken :: string
  ro_generation :: int
  ro_executionMode :: ExecutionMode
  ro_acquiredAtEpochMs :: int
  ro_heartbeatAtEpochMs :: int
  ro_expiresAtEpochMs :: int

record RuntimeOwnershipAcquisition =
  ra_record :: RuntimeOwnershipRecord
  ra_takeover :: bool

record RuntimeOwnershipEventRecord =
  oe_id :: int
  oe_generation :: int
  oe_eventType :: RuntimeOwnershipEventType
  oe_executionMode :: ExecutionMode
  oe_reasonCode :: string
  oe_eventAtEpochMs :: int

record AuthorityExecutionState =
  as_exchangeAccountId :: string
  as_executionMode :: ExecutionMode
  as_liveExecutionGate :: LiveExecutionGate
  as_systemStatus :: SystemStatus
  as_killSwitchActive :: bool

record PersistedRuntimeExecutionAuthority =
  pa_runtimeOwnership :: RuntimeOwnershipRecord
  pa_executionState :: "AuthorityExecutionState option"

record AcquireRuntimeOwnershipInput =
  aq_ownerToken :: string
  aq_executionMode :: ExecutionMode
  aq_acquiredAtEpochMs :: int
  aq_expiresAtEpochMs :: int

record RenewRuntimeOwnershipInput =
  rn_ownerToken :: string
  rn_generation :: int
  rn_heartbeatAtEpochMs :: int
  rn_expiresAtEpochMs :: int

record ReleaseRuntimeOwnershipInput =
  rel_ownerToken :: string
  rel_generation :: int
  rel_releasedAtEpochMs :: int

record RecordRuntimeOwnershipLostInput =
  lo_ownerToken :: string
  lo_generation :: int
  lo_lostAtEpochMs :: int
  lo_reasonCode :: string

subsection \<open>Validation\<close>

definition is_token_char :: "char \<Rightarrow> bool" where
  "is_token_char c \<longleftrightarrow> is_digit c \<or> is_upper c \<or> is_lower c \<or> c = CHR ''_'' \<or> c = CHR ''-''"

definition OWNER_TOKEN_PATTERN :: "string \<Rightarrow> bool" where
  "OWNER_TOKEN_PATTERN s \<longleftrightarrow> length s = 64 \<and> list_all is_token_char s"

text \<open>\<open>/^[A-Z][A-Z0-9_]{0,63}$/\<close>\<close>

definition REASON_CODE_PATTERN :: "string \<Rightarrow> bool" where
  "REASON_CODE_PATTERN s \<longleftrightarrow> s \<noteq> [] \<and> is_upper (hd s) \<and> length (tl s) \<le> 63 \<and>
     list_all (\<lambda>c. is_upper c \<or> is_digit c \<or> c = CHR ''_'') (tl s)"

definition validateOwnerToken :: "string \<Rightarrow> unit res" where
  "validateOwnerToken ownerToken = throw_if (\<not> OWNER_TOKEN_PATTERN ownerToken)
     (Error ''Runtime ownership owner token must be exactly 64 token-safe characters.'')"

definition validateReasonCode :: "string \<Rightarrow> unit res" where
  "validateReasonCode reasonCode = throw_if (\<not> REASON_CODE_PATTERN reasonCode)
     (Error ''Runtime ownership reason code must be 1-64 uppercase code characters.'')"

definition validateEpochMs :: "int \<Rightarrow> string \<Rightarrow> unit res" where
  "validateEpochMs value label = throw_if (\<not> isSafeInteger value \<or> value < 0)
     (Error (''Runtime ownership '' @ label @ '' must be a non-negative safe integer.''))"

definition validatePositiveSafeInteger :: "int \<Rightarrow> string \<Rightarrow> unit res" where
  "validatePositiveSafeInteger value label = throw_if (\<not> isSafeInteger value \<or> value < 1)
     (Error (label @ '' must be a positive safe integer.''))"

definition validateGeneration :: "int \<Rightarrow> unit res" where
  "validateGeneration generation = validatePositiveSafeInteger generation ''Runtime ownership generation''"

definition validateAcquireRuntimeOwnershipInput :: "AcquireRuntimeOwnershipInput \<Rightarrow> unit res" where
  "validateAcquireRuntimeOwnershipInput input =
     ebind (validateOwnerToken (aq_ownerToken input)) (\<lambda>_.
     ebind (validateEpochMs (aq_acquiredAtEpochMs input) ''acquiredAtEpochMs'') (\<lambda>_.
     ebind (validateEpochMs (aq_expiresAtEpochMs input) ''expiresAtEpochMs'') (\<lambda>_.
     throw_if (aq_expiresAtEpochMs input \<le> aq_acquiredAtEpochMs input)
       (Error ''Runtime ownership expiry must be after acquisition time.''))))"

definition validateRenewRuntimeOwnershipInput :: "RenewRuntimeOwnershipInput \<Rightarrow> unit res" where
  "validateRenewRuntimeOwnershipInput input =
     ebind (validateOwnerToken (rn_ownerToken input)) (\<lambda>_.
     ebind (validateGeneration (rn_generation input)) (\<lambda>_.
     ebind (validateEpochMs (rn_heartbeatAtEpochMs input) ''heartbeatAtEpochMs'') (\<lambda>_.
     ebind (validateEpochMs (rn_expiresAtEpochMs input) ''expiresAtEpochMs'') (\<lambda>_.
     throw_if (rn_expiresAtEpochMs input \<le> rn_heartbeatAtEpochMs input)
       (Error ''Runtime ownership expiry must be after heartbeat time.'')))))"

definition validateReleaseRuntimeOwnershipInput :: "ReleaseRuntimeOwnershipInput \<Rightarrow> unit res" where
  "validateReleaseRuntimeOwnershipInput input =
     ebind (validateOwnerToken (rel_ownerToken input)) (\<lambda>_.
     ebind (validateGeneration (rel_generation input)) (\<lambda>_.
     validateEpochMs (rel_releasedAtEpochMs input) ''releasedAtEpochMs''))"

definition validateRecordRuntimeOwnershipLostInput :: "RecordRuntimeOwnershipLostInput \<Rightarrow> unit res" where
  "validateRecordRuntimeOwnershipLostInput input =
     ebind (validateOwnerToken (lo_ownerToken input)) (\<lambda>_.
     ebind (validateGeneration (lo_generation input)) (\<lambda>_.
     ebind (validateEpochMs (lo_lostAtEpochMs input) ''lostAtEpochMs'') (\<lambda>_.
     validateReasonCode (lo_reasonCode input))))"

definition validateRuntimeOwnershipRecord :: "RuntimeOwnershipRecord \<Rightarrow> unit res" where
  "validateRuntimeOwnershipRecord record =
     ebind (validateOwnerToken (ro_ownerToken record)) (\<lambda>_.
     ebind (validateGeneration (ro_generation record)) (\<lambda>_.
     ebind (validateEpochMs (ro_acquiredAtEpochMs record) ''acquiredAtEpochMs'') (\<lambda>_.
     ebind (validateEpochMs (ro_heartbeatAtEpochMs record) ''heartbeatAtEpochMs'') (\<lambda>_.
     ebind (validateEpochMs (ro_expiresAtEpochMs record) ''expiresAtEpochMs'') (\<lambda>_.
     ebind (throw_if (ro_heartbeatAtEpochMs record < ro_acquiredAtEpochMs record)
       (Error ''Runtime ownership heartbeat timestamp cannot precede acquisition.'')) (\<lambda>_.
     throw_if (ro_expiresAtEpochMs record \<le> ro_heartbeatAtEpochMs record)
       (Error ''Runtime ownership expiry must be after heartbeat time.'')))))))"

definition validateRuntimeOwnershipEventRecord :: "RuntimeOwnershipEventRecord \<Rightarrow> unit res" where
  "validateRuntimeOwnershipEventRecord event =
     ebind (validatePositiveSafeInteger (oe_id event) ''Runtime ownership event id'') (\<lambda>_.
     ebind (validateGeneration (oe_generation event)) (\<lambda>_.
     ebind (validateReasonCode (oe_reasonCode event)) (\<lambda>_.
     validateEpochMs (oe_eventAtEpochMs event) ''eventAtEpochMs'')))"

definition validateRuntimeOwnershipEventLimit :: "int \<Rightarrow> unit res" where
  "validateRuntimeOwnershipEventLimit limit = validatePositiveSafeInteger limit ''Runtime ownership event limit''"

definition assertNoTimestampRollback :: "int \<Rightarrow> int \<Rightarrow> unit res" where
  "assertNoTimestampRollback candidateEpochMs floorEpochMs = throw_if (candidateEpochMs < floorEpochMs)
     (Error ''Runtime ownership timestamp rollback is not permitted.'')"

subsection \<open>The store\<close>

record ownership_store =
  os_current :: "RuntimeOwnershipRecord option"
  os_events :: "RuntimeOwnershipEventRecord list"
  os_nextEventId :: int

definition emptyOwnershipStore :: ownership_store where
  "emptyOwnershipStore = \<lparr>os_current = None, os_events = [], os_nextEventId = 1\<rparr>"

text \<open>The loops that validate every event and take the maximum of a field.\<close>

definition foldEventMaximum :: "(RuntimeOwnershipEventRecord \<Rightarrow> int) \<Rightarrow> int \<Rightarrow> RuntimeOwnershipEventRecord list \<Rightarrow> int res" where
  "foldEventMaximum field start events =
     efold (\<lambda>maximum event. ebind (validateRuntimeOwnershipEventRecord event) (\<lambda>_. Inr (max maximum (field event)))) start events"

definition maximumEventTimestamp :: "ownership_store \<Rightarrow> int res" where
  "maximumEventTimestamp s = foldEventMaximum oe_eventAtEpochMs 0 (os_events s)"

definition appendEvent ::
  "int \<Rightarrow> RuntimeOwnershipEventType \<Rightarrow> ExecutionMode \<Rightarrow> string \<Rightarrow> int \<Rightarrow> (ownership_store, js_error, unit) sm" where
  "appendEvent generation eventType executionMode reasonCode eventAtEpochMs s =
     (if \<not> isSafeInteger (os_nextEventId s) then (Inl (Error ''Runtime ownership event id overflow.''), s)
      else let record = \<lparr>oe_id = os_nextEventId s, oe_generation = generation, oe_eventType = eventType,
                  oe_executionMode = executionMode, oe_reasonCode = reasonCode, oe_eventAtEpochMs = eventAtEpochMs\<rparr>
           in (case validateRuntimeOwnershipEventRecord record of Inl e \<Rightarrow> (Inl e, s)
               | Inr _ \<Rightarrow> (Inr (), s\<lparr>os_events := os_events s @ [record], os_nextEventId := os_nextEventId s + 1\<rparr>)))"

definition validCurrent :: "ownership_store \<Rightarrow> unit res" where
  "validCurrent s = (case os_current s of None \<Rightarrow> Inr () | Some current \<Rightarrow> validateRuntimeOwnershipRecord current)"

definition store_getCurrent :: "(ownership_store, js_error, RuntimeOwnershipRecord option) sm" where
  "store_getCurrent s = (ebind (validCurrent s) (\<lambda>_. Inr (os_current s)), s)"

definition store_getCurrentExecutionAuthority ::
  "string \<Rightarrow> (ownership_store, js_error, PersistedRuntimeExecutionAuthority option) sm" where
  "store_getCurrentExecutionAuthority exchangeAccountId s =
     (ebind (validCurrent s) (\<lambda>_.
        Inr (map_option (\<lambda>current. \<lparr>pa_runtimeOwnership = current, pa_executionState = None\<rparr>) (os_current s))), s)"

text \<open>The part of the acquisition before the first write.\<close>

definition prepareAcquisition :: "AcquireRuntimeOwnershipInput \<Rightarrow> ownership_store \<Rightarrow> RuntimeOwnershipRecord res" where
  "prepareAcquisition input s =
     ebind (validateAcquireRuntimeOwnershipInput input) (\<lambda>_.
     ebind (validCurrent s) (\<lambda>_.
     ebind (maximumEventTimestamp s) (\<lambda>eventFloor.
     ebind (assertNoTimestampRollback (aq_acquiredAtEpochMs input)
       (max (case os_current s of None \<Rightarrow> 0 | Some current \<Rightarrow> ro_heartbeatAtEpochMs current) eventFloor)) (\<lambda>_.
     ebind (foldEventMaximum oe_generation
       (case os_current s of None \<Rightarrow> 0 | Some current \<Rightarrow> ro_generation current) (os_events s)) (\<lambda>maximumGeneration.
     ebind (throw_if (MAX_SAFE_INTEGER \<le> maximumGeneration) (Error ''Runtime ownership generation overflow.'')) (\<lambda>_.
     let record = \<lparr>ro_ownerToken = aq_ownerToken input, ro_generation = maximumGeneration + 1,
           ro_executionMode = aq_executionMode input, ro_acquiredAtEpochMs = aq_acquiredAtEpochMs input,
           ro_heartbeatAtEpochMs = aq_acquiredAtEpochMs input, ro_expiresAtEpochMs = aq_expiresAtEpochMs input\<rparr>
     in ebind (validateRuntimeOwnershipRecord record) (\<lambda>_. Inr record)))))))"

definition acquireAfterProcessLock ::
  "AcquireRuntimeOwnershipInput \<Rightarrow> (ownership_store, js_error, RuntimeOwnershipAcquisition) sm" where
  "acquireAfterProcessLock input s =
     (case prepareAcquisition input s of
        Inl e \<Rightarrow> (Inl e, s)
      | Inr record \<Rightarrow>
          let takeover = (os_current s \<noteq> None)
          in sbind (appendEvent (ro_generation record) (if takeover then TAKEN_OVER else ACQUIRED) (ro_executionMode record)
                 ''PROCESS_LOCK_ACQUIRED'' (aq_acquiredAtEpochMs input))
               (\<lambda>_. sreturn \<lparr>ra_record = record, ra_takeover = takeover\<rparr>) (s\<lparr>os_current := Some record\<rparr>))"

text \<open>The common prefix of renewal, release and loss: nothing owned, another owner, or a rollback.\<close>

definition ownedChecked :: "string \<Rightarrow> int \<Rightarrow> int \<Rightarrow> ownership_store \<Rightarrow> RuntimeOwnershipRecord option res" where
  "ownedChecked ownerToken generation atEpochMs s =
     (case os_current s of None \<Rightarrow> Inr None
      | Some current \<Rightarrow>
          ebind (validateRuntimeOwnershipRecord current) (\<lambda>_.
          if ro_ownerToken current \<noteq> ownerToken \<or> ro_generation current \<noteq> generation then Inr None
          else ebind (maximumEventTimestamp s) (\<lambda>eventFloor.
               ebind (assertNoTimestampRollback atEpochMs (max (ro_heartbeatAtEpochMs current) eventFloor)) (\<lambda>_.
               Inr (Some current)))))"

definition store_renew :: "RenewRuntimeOwnershipInput \<Rightarrow> (ownership_store, js_error, RuntimeOwnershipRecord option) sm" where
  "store_renew input s =
     (case ebind (validateRenewRuntimeOwnershipInput input)
             (\<lambda>_. ownedChecked (rn_ownerToken input) (rn_generation input) (rn_heartbeatAtEpochMs input) s) of
        Inl e \<Rightarrow> (Inl e, s)
      | Inr None \<Rightarrow> (Inr None, s)
      | Inr (Some current) \<Rightarrow>
          if rn_heartbeatAtEpochMs input = ro_heartbeatAtEpochMs current \<or>
             ro_expiresAtEpochMs current \<le> rn_heartbeatAtEpochMs input \<or>
             rn_expiresAtEpochMs input \<le> ro_expiresAtEpochMs current
          then (Inr None, s)
          else let renewed = current\<lparr>ro_heartbeatAtEpochMs := rn_heartbeatAtEpochMs input,
                                     ro_expiresAtEpochMs := rn_expiresAtEpochMs input\<rparr>
               in (case validateRuntimeOwnershipRecord renewed of Inl e \<Rightarrow> (Inl e, s)
                   | Inr _ \<Rightarrow> (Inr (Some renewed), s\<lparr>os_current := Some renewed\<rparr>)))"

definition store_release :: "ReleaseRuntimeOwnershipInput \<Rightarrow> (ownership_store, js_error, bool) sm" where
  "store_release input s =
     (case ebind (validateReleaseRuntimeOwnershipInput input)
             (\<lambda>_. ownedChecked (rel_ownerToken input) (rel_generation input) (rel_releasedAtEpochMs input) s) of
        Inl e \<Rightarrow> (Inl e, s)
      | Inr None \<Rightarrow> (Inr False, s)
      | Inr (Some current) \<Rightarrow>
          if ro_expiresAtEpochMs current \<le> rel_releasedAtEpochMs input then (Inr False, s)
          else (case appendEvent (ro_generation current) RELEASED (ro_executionMode current) ''CLEAN_RELEASE''
                       (rel_releasedAtEpochMs input) s of
                  (Inl e, s') \<Rightarrow> (Inl e, s')
                | (Inr _, s') \<Rightarrow> (Inr True, s'\<lparr>os_current := None\<rparr>)))"

definition store_recordLost :: "RecordRuntimeOwnershipLostInput \<Rightarrow> (ownership_store, js_error, bool) sm" where
  "store_recordLost input s =
     (case ebind (validateRecordRuntimeOwnershipLostInput input)
             (\<lambda>_. ownedChecked (lo_ownerToken input) (lo_generation input) (lo_lostAtEpochMs input) s) of
        Inl e \<Rightarrow> (Inl e, s)
      | Inr None \<Rightarrow> (Inr False, s)
      | Inr (Some current) \<Rightarrow>
          (case appendEvent (ro_generation current) LOST_EVENT (ro_executionMode current) (lo_reasonCode input)
                  (lo_lostAtEpochMs input) s of
             (Inl e, s') \<Rightarrow> (Inl e, s')
           | (Inr _, s') \<Rightarrow> (Inr True, s')))"

text \<open>\<open>events.slice(-limit).reverse()\<close>\<close>

definition listRecentEvents :: "int \<Rightarrow> ownership_store \<Rightarrow> RuntimeOwnershipEventRecord list res" where
  "listRecentEvents limit s =
     ebind (validateRuntimeOwnershipEventLimit limit) (\<lambda>_.
     emapM (\<lambda>event. ebind (validateRuntimeOwnershipEventRecord event) (\<lambda>_. Inr event)) (take (nat limit) (rev (os_events s))))"

subsection \<open>The interface: generations fence off earlier owners\<close>

text \<open>
  What clients of \<open>RuntimeOwnershipStore\<close> rely on. \<open>gens s\<close> bounds every generation the store has ever handed
  out; a new owner gets a larger one, and only the current generation can renew, release or report a loss.
\<close>

datatype ownership_op =
    OpAcquireOwnership AcquireRuntimeOwnershipInput
  | OpRenewOwnership RenewRuntimeOwnershipInput
  | OpReleaseOwnership ReleaseRuntimeOwnershipInput
  | OpRecordLost RecordRuntimeOwnershipLostInput

definition owns :: "RuntimeOwnershipRecord option \<Rightarrow> string \<Rightarrow> int \<Rightarrow> bool" where
  "owns cur tok g \<longleftrightarrow> (\<exists>c. cur = Some c \<and> ro_ownerToken c = tok \<and> ro_generation c = g)"

locale ownership_fencing =
  fixes cur :: "'s \<Rightarrow> RuntimeOwnershipRecord option"
    and acquire :: "AcquireRuntimeOwnershipInput \<Rightarrow> ('s, js_error, RuntimeOwnershipAcquisition) sm"
    and renew :: "RenewRuntimeOwnershipInput \<Rightarrow> ('s, js_error, RuntimeOwnershipRecord option) sm"
    and release :: "ReleaseRuntimeOwnershipInput \<Rightarrow> ('s, js_error, bool) sm"
    and lost :: "RecordRuntimeOwnershipLostInput \<Rightarrow> ('s, js_error, bool) sm"
    and inv :: "'s \<Rightarrow> bool"
    and gens :: "'s \<Rightarrow> int"
  assumes cur_gens: "inv s \<Longrightarrow> cur s = Some c \<Longrightarrow> ro_generation c \<le> gens s"
    and acquire_law: "inv s \<Longrightarrow> acquire i s = (r, s') \<Longrightarrow> inv s' \<and> gens s \<le> gens s' \<and>
      (cur s' = cur s \<or> (\<exists>c. cur s' = Some c \<and> gens s < ro_generation c)) \<and>
      (\<forall>a. r = Inr a \<longrightarrow> cur s' = Some (ra_record a) \<and> gens s < ro_generation (ra_record a))"
    and renew_law: "inv s \<Longrightarrow> renew j s = (q, s') \<Longrightarrow> inv s' \<and> gens s \<le> gens s' \<and>
      (case q of Inr (Some c') \<Rightarrow> owns (cur s) (rn_ownerToken j) (rn_generation j) \<and> cur s' = Some c' \<and>
           ro_generation c' = rn_generation j
       | _ \<Rightarrow> cur s' = cur s)"
    and release_law: "inv s \<Longrightarrow> release k s = (b, s') \<Longrightarrow> inv s' \<and> gens s \<le> gens s' \<and>
      (if b = Inr True then owns (cur s) (rel_ownerToken k) (rel_generation k) \<and> cur s' = None else cur s' = cur s)"
    and lost_law: "inv s \<Longrightarrow> lost l s = (d, s') \<Longrightarrow> inv s' \<and> gens s \<le> gens s' \<and> cur s' = cur s \<and>
      (d = Inr True \<longrightarrow> owns (cur s) (lo_ownerToken l) (lo_generation l))"
begin

fun step :: "ownership_op \<Rightarrow> 's \<Rightarrow> 's" where
  "step (OpAcquireOwnership i) s = snd (acquire i s)"
| "step (OpRenewOwnership j) s = snd (renew j s)"
| "step (OpReleaseOwnership k) s = snd (release k s)"
| "step (OpRecordLost l) s = snd (lost l s)"

definition fenced :: "int \<Rightarrow> 's \<Rightarrow> bool" where
  "fenced g s \<longleftrightarrow> inv s \<and> g \<le> gens s \<and> (\<forall>c. cur s = Some c \<longrightarrow> g < ro_generation c)"

lemma fenced_step: "fenced g s \<Longrightarrow> fenced g (step p s)"
proof (cases p)
  case (OpAcquireOwnership i)
  then show "fenced g s \<Longrightarrow> fenced g (step p s)"
    using acquire_law [of s i "fst (acquire i s)" "snd (acquire i s)"] by (auto simp: fenced_def)
next
  case (OpRenewOwnership j)
  then show "fenced g s \<Longrightarrow> fenced g (step p s)"
    using renew_law [of s j "fst (renew j s)" "snd (renew j s)"]
    by (auto simp: fenced_def owns_def split: sum.splits option.splits)
next
  case (OpReleaseOwnership k)
  then show "fenced g s \<Longrightarrow> fenced g (step p s)"
    using release_law [of s k "fst (release k s)" "snd (release k s)"]
    by (auto simp: fenced_def split: if_splits)
next
  case (OpRecordLost l)
  then show "fenced g s \<Longrightarrow> fenced g (step p s)"
    using lost_law [of s l "fst (lost l s)" "snd (lost l s)"] by (auto simp: fenced_def)
qed

lemma fenced_steps: "fenced g s \<Longrightarrow> fenced g (fold step ps s)"
  by (induction ps arbitrary: s) (auto intro: fenced_step)

lemma fenced_powerless:
  assumes "fenced g s"
  shows "rn_generation j = g \<Longrightarrow> fst (renew j s) \<noteq> Inr (Some c)"
    and "rel_generation k = g \<Longrightarrow> fst (release k s) \<noteq> Inr True"
    and "lo_generation l = g \<Longrightarrow> fst (lost l s) \<noteq> Inr True"
proof -
  have no: "\<not> owns (cur s) tok g" for tok using assms by (auto simp: fenced_def owns_def)
  have inv: "inv s" using assms by (simp add: fenced_def)
  show "fst (renew j s) \<noteq> Inr (Some c)" if "rn_generation j = g"
    using renew_law [OF inv, of j "fst (renew j s)" "snd (renew j s)"] no that by auto
  show "fst (release k s) \<noteq> Inr True" if "rel_generation k = g"
    using release_law [OF inv, of k "fst (release k s)" "snd (release k s)"] no that by auto
  show "fst (lost l s) \<noteq> Inr True" if "lo_generation l = g"
    using lost_law [OF inv, of l "fst (lost l s)" "snd (lost l s)"] no that by auto
qed

lemma takeover_fences:
  assumes "inv s" and "cur s = Some c" and "acquire i s = (Inr a, s')"
  shows "fenced (ro_generation c) s'"
  using acquire_law [OF assms(1,3)] cur_gens [OF assms(1,2)] by (auto simp: fenced_def)

end

subsection \<open>The in-memory store keeps its records valid and fences\<close>

definition maxGeneration :: "ownership_store \<Rightarrow> int" where
  "maxGeneration s = fold max (map oe_generation (os_events s)) (case os_current s of None \<Rightarrow> 0 | Some c \<Rightarrow> ro_generation c)"

definition os_inv :: "ownership_store \<Rightarrow> bool" where
  "os_inv s \<longleftrightarrow>
     (\<forall>c. os_current s = Some c \<longrightarrow> validateRuntimeOwnershipRecord c = Inr ()) \<and>
     (\<forall>e\<in>set (os_events s). validateRuntimeOwnershipEventRecord e = Inr ()) \<and>
     map oe_id (os_events s) = [1..int (length (os_events s))] \<and>
     os_nextEventId s = int (length (os_events s)) + 1 \<and>
     sorted (map oe_eventAtEpochMs (os_events s)) \<and>
     (\<forall>c. os_current s = Some c \<longrightarrow> (\<forall>e\<in>set (os_events s). oe_generation e \<le> ro_generation c))"

lemma os_inv_empty: "os_inv emptyOwnershipStore"
  by (simp add: os_inv_def emptyOwnershipStore_def)

lemma fold_max_le: "(a::int) \<le> fold max xs a" "x \<in> set xs \<Longrightarrow> x \<le> fold max xs a"
proof -
  have mono: "b \<le> fold max ys b" for b :: int and ys by (induction ys arbitrary: b) (auto intro: order_trans [OF max.cobounded2])
  then show "a \<le> fold max xs a" .
  show "x \<in> set xs \<Longrightarrow> x \<le> fold max xs a"
  proof (induction xs arbitrary: a)
    case (Cons y ys)
    then show ?case using mono [of "max y a" ys] by auto
  qed simp
qed

lemma fold_max_bound: "a \<le> b \<Longrightarrow> (\<forall>x\<in>set xs. x \<le> b) \<Longrightarrow> fold max xs a \<le> (b::int)"
  by (induction xs arbitrary: a) auto

lemma foldEventMaximum_valid:
  assumes "\<forall>e\<in>set es. validateRuntimeOwnershipEventRecord e = Inr ()"
  shows "foldEventMaximum f a es = Inr (fold max (map f es) a)"
  using assms unfolding foldEventMaximum_def
  by (induction es arbitrary: a) (auto simp: max.commute)

lemma os_inv_events: "os_inv s \<Longrightarrow> \<forall>e\<in>set (os_events s). validateRuntimeOwnershipEventRecord e = Inr ()"
  by (simp add: os_inv_def)

lemma appendEvent_cases:
  assumes "appendEvent g t m rc ts s = (r, s')"
  obtains (failed) err where "r = Inl err" "s' = s"
  | (appended) e where "r = Inr ()" "validateRuntimeOwnershipEventRecord e = Inr ()" "oe_id e = os_nextEventId s"
      "oe_generation e = g" "oe_eventAtEpochMs e = ts"
      "s' = s\<lparr>os_events := os_events s @ [e], os_nextEventId := os_nextEventId s + 1\<rparr>"
proof -
  let ?e = "\<lparr>oe_id = os_nextEventId s, oe_generation = g, oe_eventType = t, oe_executionMode = m,
    oe_reasonCode = rc, oe_eventAtEpochMs = ts\<rparr>"
  show thesis
  proof (cases "isSafeInteger (os_nextEventId s) \<and> validateRuntimeOwnershipEventRecord ?e = Inr ()")
    case True
    with assms have "r = Inr ()" "s' = s\<lparr>os_events := os_events s @ [?e], os_nextEventId := os_nextEventId s + 1\<rparr>"
      by (simp_all add: appendEvent_def Let_def)
    with True appended [of ?e] show thesis by simp
  next
    case False
    then have "\<exists>err. appendEvent g t m rc ts s = (Inl err, s)"
      by (cases "validateRuntimeOwnershipEventRecord ?e") (auto simp: appendEvent_def Let_def)
    with assms failed show thesis by auto
  qed
qed

lemma os_inv_append:
  assumes inv: "os_inv s" and run: "appendEvent g t m rc ts s = (r, s')"
    and floor: "fold max (map oe_eventAtEpochMs (os_events s)) 0 \<le> ts"
    and gen: "\<And>c. os_current s = Some c \<Longrightarrow> g = ro_generation c"
  shows "os_inv s' \<and> os_current s' = os_current s \<and> maxGeneration s \<le> maxGeneration s' \<and>
    (r = Inr () \<longrightarrow> (\<exists>e\<in>set (os_events s'). oe_generation e = g))"
  using run
proof (cases rule: appendEvent_cases)
  case failed
  with inv show ?thesis by simp
next
  case (appended e)
  have "\<forall>x\<in>set (os_events s). oe_eventAtEpochMs x \<le> ts"
    using fold_max_le(2) [of _ "map oe_eventAtEpochMs (os_events s)" 0] floor by (auto intro: order_trans)
  moreover have "[1..int (length (os_events s)) + 1] = [1..int (length (os_events s))] @ [int (length (os_events s)) + 1]"
    using upto_rec2 [of 1 "int (length (os_events s)) + 1"] by simp
  ultimately have "os_inv s'" using inv appended gen
    by (auto simp: os_inv_def sorted_append add.commute)
  moreover have "maxGeneration s \<le> maxGeneration s'" using appended by (simp add: maxGeneration_def)
  ultimately show ?thesis using appended by auto
qed

lemma os_inv_current:
  "os_inv s \<Longrightarrow> validateRuntimeOwnershipRecord c = Inr () \<Longrightarrow> (\<forall>e\<in>set (os_events s). oe_generation e \<le> ro_generation c) \<Longrightarrow>
   os_inv (s\<lparr>os_current := Some c\<rparr>)"
  by (simp add: os_inv_def)

lemma os_inv_release: "os_inv s \<Longrightarrow> os_inv (s\<lparr>os_current := None\<rparr>)"
  by (simp add: os_inv_def)

lemma maxGeneration_cur: "os_current s = Some c \<Longrightarrow> ro_generation c \<le> maxGeneration s"
  using fold_max_le(1) by (simp add: maxGeneration_def)

lemma maxGeneration_event: "e \<in> set (os_events s) \<Longrightarrow> oe_generation e \<le> maxGeneration s"
  unfolding maxGeneration_def by (rule fold_max_le(2)) simp

lemma maxGeneration_set:
  "os_inv s \<Longrightarrow> maxGeneration s \<le> ro_generation c \<Longrightarrow> maxGeneration (s\<lparr>os_current := Some c\<rparr>) = ro_generation c"
proof (rule antisym)
  assume inv: "os_inv s" and le: "maxGeneration s \<le> ro_generation c"
  show "maxGeneration (s\<lparr>os_current := Some c\<rparr>) \<le> ro_generation c"
    using maxGeneration_event [of _ s] le
    unfolding maxGeneration_def by (intro fold_max_bound) (auto intro: order_trans simp flip: maxGeneration_def)
  show "ro_generation c \<le> maxGeneration (s\<lparr>os_current := Some c\<rparr>)" by (rule maxGeneration_cur) simp
qed

lemma maximumEventTimestamp_valid:
  "os_inv s \<Longrightarrow> maximumEventTimestamp s = Inr (fold max (map oe_eventAtEpochMs (os_events s)) 0)"
  by (simp add: maximumEventTimestamp_def foldEventMaximum_valid os_inv_events)

lemma prepareAcquisition_Inr:
  assumes inv: "os_inv s" and "prepareAcquisition i s = Inr c"
  shows "validateRuntimeOwnershipRecord c = Inr () \<and> ro_generation c = maxGeneration s + 1 \<and>
    fold max (map oe_eventAtEpochMs (os_events s)) 0 \<le> aq_acquiredAtEpochMs i"
proof -
  have "foldEventMaximum oe_generation (case os_current s of None \<Rightarrow> 0 | Some c \<Rightarrow> ro_generation c) (os_events s) =
      Inr (maxGeneration s)"
    using foldEventMaximum_valid [OF os_inv_events [OF inv]] by (simp add: maxGeneration_def)
  with assms(2) show ?thesis
    by (auto simp: prepareAcquisition_def maximumEventTimestamp_valid [OF inv] res_simps Let_def
        assertNoTimestampRollback_def)
qed

lemma mem_acquire_fences:
  assumes inv: "os_inv s" and run: "acquireAfterProcessLock i s = (r, s')"
  shows "os_inv s' \<and> maxGeneration s \<le> maxGeneration s' \<and>
    (os_current s' = os_current s \<or> (\<exists>c. os_current s' = Some c \<and> maxGeneration s < ro_generation c)) \<and>
    (\<forall>a. r = Inr a \<longrightarrow> os_current s' = Some (ra_record a) \<and> maxGeneration s < ro_generation (ra_record a))"
proof (cases "prepareAcquisition i s")
  case (Inl e)
  with inv run show ?thesis by (auto simp: acquireAfterProcessLock_def)
next
  case (Inr c)
  note c = prepareAcquisition_Inr [OF inv Inr]
  let ?s = "s\<lparr>os_current := Some c\<rparr>"
  obtain t q s1 where app: "appendEvent (ro_generation c) t (ro_executionMode c) ''PROCESS_LOCK_ACQUIRED''
      (aq_acquiredAtEpochMs i) ?s = (q, s1)" "s' = s1" "\<forall>a. r = Inr a \<longrightarrow> ra_record a = c"
    using run Inr by (auto simp: acquireAfterProcessLock_def Let_def sbind_def split: prod.splits sum.splits)
  have "\<forall>e\<in>set (os_events s). oe_generation e \<le> ro_generation c" using maxGeneration_event [of _ s] c by fastforce
  then have inv1: "os_inv ?s" using inv c by (intro os_inv_current) auto
  have "maxGeneration ?s = ro_generation c" using maxGeneration_set [OF inv] c by simp
  with os_inv_append [OF inv1 app(1)] app c show ?thesis by auto
qed

lemma ownedChecked_Some:
  assumes inv: "os_inv s" and "ownedChecked tok g ts s = Inr (Some c)"
  shows "os_current s = Some c \<and> ro_ownerToken c = tok \<and> ro_generation c = g \<and> ro_heartbeatAtEpochMs c \<le> ts \<and>
    fold max (map oe_eventAtEpochMs (os_events s)) 0 \<le> ts"
  using assms(2)
  by (auto simp: ownedChecked_def maximumEventTimestamp_valid [OF inv] res_simps assertNoTimestampRollback_def
      split: option.splits if_splits)

lemma store_renew_cases:
  assumes "store_renew j s = (r, s')"
  shows "(s' = s \<and> (\<forall>c'. r \<noteq> Inr (Some c'))) \<or>
    (\<exists>c. ownedChecked (rn_ownerToken j) (rn_generation j) (rn_heartbeatAtEpochMs j) s = Inr (Some c) \<and>
      r = Inr (Some (c\<lparr>ro_heartbeatAtEpochMs := rn_heartbeatAtEpochMs j, ro_expiresAtEpochMs := rn_expiresAtEpochMs j\<rparr>)) \<and>
      s' = s\<lparr>os_current := Some (c\<lparr>ro_heartbeatAtEpochMs := rn_heartbeatAtEpochMs j, ro_expiresAtEpochMs := rn_expiresAtEpochMs j\<rparr>)\<rparr> \<and>
      validateRuntimeOwnershipRecord (c\<lparr>ro_heartbeatAtEpochMs := rn_heartbeatAtEpochMs j, ro_expiresAtEpochMs := rn_expiresAtEpochMs j\<rparr>) = Inr ())"
proof (cases "ebind (validateRenewRuntimeOwnershipInput j)
    (\<lambda>_. ownedChecked (rn_ownerToken j) (rn_generation j) (rn_heartbeatAtEpochMs j) s)")
  case (Inl e)
  with assms show ?thesis by (auto simp: store_renew_def)
next
  case (Inr q)
  show ?thesis
  proof (cases q)
    case None
    with assms Inr show ?thesis by (auto simp: store_renew_def)
  next
    case (Some c)
    let ?c = "c\<lparr>ro_heartbeatAtEpochMs := rn_heartbeatAtEpochMs j, ro_expiresAtEpochMs := rn_expiresAtEpochMs j\<rparr>"
    from Inr Some have "ownedChecked (rn_ownerToken j) (rn_generation j) (rn_heartbeatAtEpochMs j) s = Inr (Some c)"
      by (auto simp: ebind_eq_Inr)
    with assms Inr Some show ?thesis
      by (cases "validateRuntimeOwnershipRecord ?c") (auto simp: store_renew_def Let_def simp del: RuntimeOwnershipRecord.update_convs split: if_splits)
  qed
qed

lemma mem_renew_fences:
  assumes inv: "os_inv s" and run: "store_renew j s = (r, s')"
  shows "os_inv s' \<and> maxGeneration s \<le> maxGeneration s' \<and>
    (case r of Inr (Some c') \<Rightarrow> owns (os_current s) (rn_ownerToken j) (rn_generation j) \<and> os_current s' = Some c' \<and>
         ro_generation c' = rn_generation j
     | _ \<Rightarrow> os_current s' = os_current s)"
proof (cases "s' = s \<and> (\<forall>c'. r \<noteq> Inr (Some c'))")
  case True
  with inv show ?thesis by (auto split: sum.splits option.splits)
next
  case False
  then obtain c where c: "ownedChecked (rn_ownerToken j) (rn_generation j) (rn_heartbeatAtEpochMs j) s = Inr (Some c)"
    and new: "r = Inr (Some (c\<lparr>ro_heartbeatAtEpochMs := rn_heartbeatAtEpochMs j, ro_expiresAtEpochMs := rn_expiresAtEpochMs j\<rparr>))"
      "s' = s\<lparr>os_current := Some (c\<lparr>ro_heartbeatAtEpochMs := rn_heartbeatAtEpochMs j, ro_expiresAtEpochMs := rn_expiresAtEpochMs j\<rparr>)\<rparr>"
      "validateRuntimeOwnershipRecord (c\<lparr>ro_heartbeatAtEpochMs := rn_heartbeatAtEpochMs j, ro_expiresAtEpochMs := rn_expiresAtEpochMs j\<rparr>) = Inr ()"
    using store_renew_cases [OF run] by metis
  note own = ownedChecked_Some [OF inv c]
  have "os_inv s'" unfolding new(2) using inv own new(3) by (intro os_inv_current) (auto simp: os_inv_def)
  moreover have "maxGeneration s' = maxGeneration s" using own by (simp add: new(2) maxGeneration_def)
  ultimately show ?thesis using own new by (auto simp: owns_def)
qed

lemma mem_release_fences:
  assumes inv: "os_inv s" and run: "store_release k s = (r, s')"
  shows "os_inv s' \<and> maxGeneration s \<le> maxGeneration s' \<and>
    (if r = Inr True then owns (os_current s) (rel_ownerToken k) (rel_generation k) \<and> os_current s' = None
     else os_current s' = os_current s)"
proof (cases "s' = s \<and> r \<noteq> Inr True")
  case True
  with inv show ?thesis by auto
next
  case False
  then obtain c q s1 where c: "ownedChecked (rel_ownerToken k) (rel_generation k) (rel_releasedAtEpochMs k) s = Inr (Some c)"
    and app: "appendEvent (ro_generation c) RELEASED (ro_executionMode c) ''CLEAN_RELEASE'' (rel_releasedAtEpochMs k) s = (q, s1)"
    and out: "(case q of Inl e \<Rightarrow> (Inl e, s1) | Inr _ \<Rightarrow> (Inr True, s1\<lparr>os_current := None\<rparr>)) = (r, s')"
    using run by (auto simp: store_release_def ebind_eq_Inr split: sum.splits option.splits if_splits prod.splits)
  note own = ownedChecked_Some [OF inv c]
  have ap: "os_inv s1 \<and> os_current s1 = os_current s \<and> maxGeneration s \<le> maxGeneration s1 \<and>
      (q = Inr () \<longrightarrow> (\<exists>e\<in>set (os_events s1). oe_generation e = ro_generation c))"
    using own by (intro os_inv_append [OF inv app]) auto
  show ?thesis
  proof (cases q)
    case (Inl e)
    with out ap show ?thesis by auto
  next
    case (Inr u)
    with ap obtain e where e: "e \<in> set (os_events s1)" "oe_generation e = ro_generation c" by auto
    have "maxGeneration s1 \<le> maxGeneration (s1\<lparr>os_current := None\<rparr>)"
    proof -
      have "fold max (map oe_generation (os_events s1)) (ro_generation c) \<le> maxGeneration (s1\<lparr>os_current := None\<rparr>)"
        using maxGeneration_event [of e "s1\<lparr>os_current := None\<rparr>"] maxGeneration_event [of _ "s1\<lparr>os_current := None\<rparr>"] e
        by (intro fold_max_bound) auto
      with own ap show ?thesis by (simp add: maxGeneration_def)
    qed
    with Inr out ap own show ?thesis by (auto simp: owns_def os_inv_release)
  qed
qed

lemma mem_lost_fences:
  assumes inv: "os_inv s" and run: "store_recordLost l s = (r, s')"
  shows "os_inv s' \<and> maxGeneration s \<le> maxGeneration s' \<and> os_current s' = os_current s \<and>
    (r = Inr True \<longrightarrow> owns (os_current s) (lo_ownerToken l) (lo_generation l))"
proof (cases "s' = s \<and> r \<noteq> Inr True")
  case True
  with inv show ?thesis by auto
next
  case False
  then obtain c q where c: "ownedChecked (lo_ownerToken l) (lo_generation l) (lo_lostAtEpochMs l) s = Inr (Some c)"
    and app: "appendEvent (ro_generation c) LOST_EVENT (ro_executionMode c) (lo_reasonCode l) (lo_lostAtEpochMs l) s = (q, s')"
    using run by (auto simp: store_recordLost_def ebind_eq_Inr split: sum.splits option.splits if_splits prod.splits)
  note own = ownedChecked_Some [OF inv c]
  have "os_inv s' \<and> os_current s' = os_current s \<and> maxGeneration s \<le> maxGeneration s' \<and>
      (q = Inr () \<longrightarrow> (\<exists>e\<in>set (os_events s'). oe_generation e = ro_generation c))"
    using own by (intro os_inv_append [OF inv app]) auto
  with own show ?thesis by (auto simp: owns_def)
qed

interpretation ownmem: ownership_fencing os_current acquireAfterProcessLock store_renew store_release store_recordLost
  os_inv maxGeneration
proof unfold_locales
  fix s c assume "os_inv s" "os_current s = Some c"
  then show "ro_generation c \<le> maxGeneration s" by (intro maxGeneration_cur)
qed (rule mem_acquire_fences mem_renew_fences mem_release_fences mem_lost_fences; assumption)+

subsection \<open>Properties\<close>

text \<open>The effect of a call on the store, whatever it answers.\<close>

fun ownership_step :: "ownership_op \<Rightarrow> ownership_store \<Rightarrow> ownership_store" where
  "ownership_step (OpAcquireOwnership i) s = snd (acquireAfterProcessLock i s)"
| "ownership_step (OpRenewOwnership j) s = snd (store_renew j s)"
| "ownership_step (OpReleaseOwnership k) s = snd (store_release k s)"
| "ownership_step (OpRecordLost l) s = snd (store_recordLost l s)"

lemma ownmem_step: "ownmem.step = ownership_step"
proof (intro ext)
  fix p s show "ownmem.step p s = ownership_step p s" by (cases p) (simp_all only: ownmem.step.simps ownership_step.simps)
qed

lemma os_inv_step: "os_inv s \<Longrightarrow> os_inv (ownership_step p s)"
  using mem_acquire_fences [of s] mem_renew_fences [of s] mem_release_fences [of s] mem_lost_fences [of s]
  by (cases p) (metis ownership_step.simps prod.collapse)+

lemma os_inv_steps: "os_inv s \<Longrightarrow> os_inv (fold ownership_step ps s)"
  by (induction ps arbitrary: s) (simp_all add: os_inv_step)

text \<open>
  C38. In every state the store can reach, the current ownership record and all events pass their own
  validators, event ids count up from 1 without gaps, event times never go back and no event has a generation
  above the current owner's. In particular reading the store never throws.
\<close>

theorem ownership_invariant:
  fixes ps defines "s \<equiv> fold ownership_step ps emptyOwnershipStore"
  shows "os_inv s \<and> fst (store_getCurrent s) = Inr (os_current s) \<and>
    map oe_id (os_events s) = [1..int (length (os_events s))] \<and> sorted (map oe_eventAtEpochMs (os_events s))"
proof -
  have inv: "os_inv s" unfolding s_def by (rule os_inv_steps [OF os_inv_empty])
  moreover have "fst (store_getCurrent s) = Inr (os_current s)"
    using inv by (auto simp: store_getCurrent_def validCurrent_def os_inv_def split: option.splits)
  ultimately show ?thesis by (simp add: os_inv_def)
qed

text \<open>
  C39. A takeover is final for the process it displaces. Once an acquisition succeeds while \<open>c\<close> is the recorded
  owner, then after any further calls of any processes no call with the generation of \<open>c\<close> renews, releases or
  reports a loss, and the current owner, if any, has a larger generation.
\<close>

theorem takeover_fences_old_owner:
  fixes ps qs i c defines "s \<equiv> fold ownership_step ps emptyOwnershipStore"
  defines "t \<equiv> fold ownership_step qs (snd (acquireAfterProcessLock i s))"
  assumes "os_current s = Some c" and "fst (acquireAfterProcessLock i s) = Inr a"
  shows "(rn_generation j = ro_generation c \<longrightarrow> (\<forall>r. fst (store_renew j t) \<noteq> Inr (Some r))) \<and>
    (rel_generation k = ro_generation c \<longrightarrow> fst (store_release k t) \<noteq> Inr True) \<and>
    (lo_generation l = ro_generation c \<longrightarrow> fst (store_recordLost l t) \<noteq> Inr True) \<and>
    (\<forall>d. os_current t = Some d \<longrightarrow> ro_generation c < ro_generation d)"
proof -
  have inv: "os_inv s" unfolding s_def by (rule os_inv_steps [OF os_inv_empty])
  have "acquireAfterProcessLock i s = (Inr a, snd (acquireAfterProcessLock i s))" using assms(4) by (metis prod.collapse)
  from ownmem.fenced_steps [OF ownmem.takeover_fences [OF inv assms(3) this], of qs]
  have f: "ownmem.fenced (ro_generation c) t" by (simp add: t_def ownmem_step)
  then show ?thesis using ownmem.fenced_powerless [OF f] by (auto simp: ownmem.fenced_def)
qed

definition sampleToken :: "char \<Rightarrow> string" where
  "sampleToken c = replicate 64 c"

definition sampleOwnerAcquire :: "char \<Rightarrow> int \<Rightarrow> AcquireRuntimeOwnershipInput" where
  "sampleOwnerAcquire c t = \<lparr>aq_ownerToken = sampleToken c, aq_executionMode = LIVE, aq_acquiredAtEpochMs = t,
     aq_expiresAtEpochMs = t + 1000\<rparr>"

theorem takeover_fences_old_owner_witness:
  "\<nexists>r. fst (store_renew \<lparr>rn_ownerToken = sampleToken (CHR ''a''), rn_generation = 1, rn_heartbeatAtEpochMs = 5300,
      rn_expiresAtEpochMs = 9000\<rparr>
     (fold ownership_step [] (snd (acquireAfterProcessLock (sampleOwnerAcquire (CHR ''b'') 5200)
       (fold ownership_step [OpAcquireOwnership (sampleOwnerAcquire (CHR ''a'') 5000)] emptyOwnershipStore)))))
   = Inr (Some r)"
proof -
  let ?s = "fold ownership_step [OpAcquireOwnership (sampleOwnerAcquire (CHR ''a'') 5000)] emptyOwnershipStore"
  have "map_option ro_generation (os_current ?s) = Some 1" by code_simp
  then obtain c where c: "os_current ?s = Some c" "ro_generation c = 1" by (cases "os_current ?s") auto
  have "\<not> isl (fst (acquireAfterProcessLock (sampleOwnerAcquire (CHR ''b'') 5200) ?s))" by code_simp
  then obtain a where a: "fst (acquireAfterProcessLock (sampleOwnerAcquire (CHR ''b'') 5200) ?s) = Inr a"
    by (cases "fst (acquireAfterProcessLock (sampleOwnerAcquire (CHR ''b'') 5200) ?s)") auto
  show ?thesis
    using takeover_fences_old_owner [OF c(1) a, of "\<lparr>rn_ownerToken = sampleToken (CHR ''a''), rn_generation = 1,
      rn_heartbeatAtEpochMs = 5300, rn_expiresAtEpochMs = 9000\<rparr>" "[]" undefined undefined] c(2) by auto
qed

end
