(* ===== verification/OwnershipGuard.thy ===== *)
theory OwnershipGuard
  imports RuntimeOwnership
begin

section \<open>The runtime ownership guard and its heartbeat\<close>

text \<open>
  \<open>src/src/app/runtime-ownership-guard.ts\<close> and \<open>src/src/app/runtime-heartbeat.ts\<close>. The state is the guard object
  together with the rest of the world \<open>'w\<close>, on which the loss listeners act. Code between two \<open>await\<close>s runs to
  completion. A store call that is awaited is a dependency on guard and world together, because other callbacks
  (a lost process lock, another assertion) may run before it answers; the synchronous read of the combined
  authority is a dependency on the world alone.
\<close>

definition RUNTIME_HEARTBEAT_INTERVAL_MS :: int where
  "RUNTIME_HEARTBEAT_INTERVAL_MS = 10000"

definition RUNTIME_OWNERSHIP_TTL_MS :: int where
  "RUNTIME_OWNERSHIP_TTL_MS = 45000"

datatype GuardStatus = UNOWNED | OWNED | LOST

text \<open>Listeners are functions; the set tells them apart by identity, here a number.\<close>

record 'w guard =
  gd_status :: GuardStatus
  gd_acquisitionReserved :: bool
  gd_record :: "RuntimeOwnershipRecord option"
  gd_takeover :: bool
  gd_lossReason :: "string option"
  gd_listeners :: "(nat \<times> (string \<Rightarrow> 'w \<Rightarrow> 'w)) list"

type_synonym ('w, 'a) gm = "('w guard \<times> 'w, js_error, 'a) sm"

record 'w guard_deps =
  gp_isHeld :: "'w \<Rightarrow> bool"
  gp_nowEpochMs :: "'w \<Rightarrow> int \<times> 'w"
  gp_ownerToken :: string
  gp_acquireAfterProcessLock :: "AcquireRuntimeOwnershipInput \<Rightarrow> ('w, RuntimeOwnershipAcquisition) gm"
  gp_getCurrent :: "('w, RuntimeOwnershipRecord option) gm"
  gp_getCurrentExecutionAuthority :: "(string \<Rightarrow> ('w, js_error, PersistedRuntimeExecutionAuthority option) sm) option"
  gp_renew :: "RenewRuntimeOwnershipInput \<Rightarrow> ('w, RuntimeOwnershipRecord option) gm"

record AssertCurrentExecutionAuthorityInput =
  ax_atEpochMs :: int
  ax_exchangeAccountId :: string
  ax_expectedExecutionMode :: ExecutionMode
  ax_expectedLiveExecutionGate :: LiveExecutionGate

record CurrentRuntimeExecutionAuthority =
  ca_runtimeOwnership :: RuntimeOwnershipRecord
  ca_executionState :: AuthorityExecutionState

record RuntimeOwnershipSnapshot =
  sn_status :: GuardStatus
  sn_generation :: "int option"
  sn_executionMode :: "ExecutionMode option"
  sn_acquiredAtEpochMs :: "int option"
  sn_heartbeatAtEpochMs :: "int option"
  sn_expiresAtEpochMs :: "int option"
  sn_takeover :: bool
  sn_lossReason :: "string option"

subsection \<open>Loss\<close>

definition isCleanupFenceReason :: "string option \<Rightarrow> bool" where
  "isCleanupFenceReason reason \<longleftrightarrow>
     reason = Some ''RUNTIME_SHUTDOWN'' \<or> reason = Some ''SCOPED_WORK_COMPLETE'' \<or> reason = Some ''STARTUP_FAILED''"

definition notifyLoss :: "string \<Rightarrow> 'w guard \<Rightarrow> 'w \<Rightarrow> 'w" where
  "notifyLoss reason g w = fold (\<lambda>(_, listener). listener reason) (gd_listeners g) w"

definition markLost :: "string \<Rightarrow> ('w, bool) gm" where
  "markLost reason gw = (case gw of (g, w) \<Rightarrow>
     if \<not> REASON_CODE_PATTERN reason
     then (Inl (Error ''Runtime ownership loss reason must be a non-secret uppercase reason code.''), gw)
     else if gd_status g = LOST then
       (if \<not> isCleanupFenceReason (gd_lossReason g) \<or> isCleanupFenceReason (Some reason) then (Inr False, gw)
        else (Inr True, (g\<lparr>gd_lossReason := Some reason\<rparr>, notifyLoss reason g w)))
     else (Inr True, (g\<lparr>gd_status := LOST, gd_lossReason := Some reason\<rparr>, notifyLoss reason g w)))"

definition throwLost :: "('w, 'a) gm" where
  "throwLost gw = (Inl (RuntimeOwnershipGuardError RUNTIME_OWNERSHIP_LOST
     (''RUNTIME_OWNERSHIP_LOST: '' @ (case gd_lossReason (fst gw) of Some r \<Rightarrow> r | None \<Rightarrow> ''UNKNOWN''))), gw)"

definition loseAndThrow :: "string \<Rightarrow> ('w, 'a) gm" where
  "loseAndThrow reason = sbind (markLost reason) (\<lambda>_. throwLost)"

definition onLost :: "nat \<Rightarrow> (string \<Rightarrow> 'w \<Rightarrow> 'w) \<Rightarrow> ('w, unit) gm" where
  "onLost handle listener = smodify (\<lambda>(g, w).
     (if handle \<in> fst ` set (gd_listeners g) then g else g\<lparr>gd_listeners := gd_listeners g @ [(handle, listener)]\<rparr>, w))"

definition unsubscribe :: "nat \<Rightarrow> ('w, unit) gm" where
  "unsubscribe handle = smodify (\<lambda>(g, w). (g\<lparr>gd_listeners := filter (\<lambda>(h, _). h \<noteq> handle) (gd_listeners g)\<rparr>, w))"

definition newGuard :: "'w guard" where
  "newGuard = \<lparr>gd_status = UNOWNED, gd_acquisitionReserved = False, gd_record = None, gd_takeover = False,
     gd_lossReason = None, gd_listeners = []\<rparr>"

text \<open>The constructor; its subscription to the process lock is an event source of the world.\<close>

definition constructGuard :: "'w guard_deps \<Rightarrow> 'w \<Rightarrow> 'w guard \<times> 'w" where
  "constructGuard deps w =
     (if gp_isHeld deps w then (newGuard, w) else snd (markLost ''PROCESS_LOCK_LOST'' (newGuard, w)))"

subsection \<open>Assertions\<close>

definition guardValidateEpochMs :: "int \<Rightarrow> unit res" where
  "guardValidateEpochMs value = throw_if (\<not> isSafeInteger value \<or> value < 0)
     (Error ''Runtime ownership assertion time must be a non-negative safe integer.'')"

definition notHeld :: "string \<Rightarrow> js_error" where
  "notHeld detail = RuntimeOwnershipGuardError RUNTIME_OWNERSHIP_NOT_HELD (''RUNTIME_OWNERSHIP_NOT_HELD: '' @ detail)"

definition requireRecord :: "('w, RuntimeOwnershipRecord) gm" where
  "requireRecord gw = (case gd_record (fst gw) of
     None \<Rightarrow> (Inl (notHeld ''Runtime ownership has not been acquired.''), gw) | Some record \<Rightarrow> (Inr record, gw))"

definition readClock :: "'w guard_deps \<Rightarrow> ('w, int) gm" where
  "readClock deps gw = (case gp_nowEpochMs deps (snd gw) of (t, w') \<Rightarrow> (Inr t, (fst gw, w')))"

definition assertLocallyHeld :: "'w guard_deps \<Rightarrow> ('w, unit) gm" where
  "assertLocallyHeld deps =
     sbind (sget fst) (\<lambda>g.
     sbind (sget snd) (\<lambda>w.
     if gd_status g = LOST then throwLost
     else if \<not> gp_isHeld deps w then loseAndThrow ''PROCESS_LOCK_LOST''
     else (case gd_record g of
         None \<Rightarrow> sthrow (notHeld ''Runtime ownership has not been acquired.'')
       | Some record \<Rightarrow>
           if gd_status g \<noteq> OWNED then sthrow (notHeld ''Runtime ownership has not been acquired.'')
           else sbind (readClock deps) (\<lambda>nowEpochMs.
                sbind (slift (guardValidateEpochMs nowEpochMs)) (\<lambda>_.
                if nowEpochMs \<ge> ro_expiresAtEpochMs record then loseAndThrow ''OWNERSHIP_EXPIRED'' else sreturn ())))))"

definition sameOwnership :: "RuntimeOwnershipRecord \<Rightarrow> RuntimeOwnershipRecord option \<Rightarrow> bool" where
  "sameOwnership expected persisted \<longleftrightarrow> (case persisted of None \<Rightarrow> False | Some p \<Rightarrow>
     ro_ownerToken p = ro_ownerToken expected \<and> ro_generation p = ro_generation expected \<and>
     ro_executionMode p = ro_executionMode expected \<and> ro_acquiredAtEpochMs p = ro_acquiredAtEpochMs expected)"

definition assertCurrent :: "'w guard_deps \<Rightarrow> int \<Rightarrow> ('w, RuntimeOwnershipRecord) gm" where
  "assertCurrent deps atEpochMs =
     sbind (slift (guardValidateEpochMs atEpochMs)) (\<lambda>_.
     sbind (assertLocallyHeld deps) (\<lambda>_.
     sbind requireRecord (\<lambda>expected.
     sbind (gp_getCurrent deps) (\<lambda>persisted.
     sbind (assertLocallyHeld deps) (\<lambda>_.
     if \<not> sameOwnership expected persisted then loseAndThrow ''PERSISTED_OWNERSHIP_MISMATCH''
     else if atEpochMs \<ge> ro_expiresAtEpochMs (the persisted) then loseAndThrow ''OWNERSHIP_EXPIRED''
     else sbind (smodify (\<lambda>(g, w). (g\<lparr>gd_record := persisted\<rparr>, w))) (\<lambda>_.
          sreturn (the persisted)))))))"

definition isExecutionAllowed :: "AuthorityExecutionState option \<Rightarrow> AssertCurrentExecutionAuthorityInput \<Rightarrow> bool" where
  "isExecutionAllowed state expected \<longleftrightarrow> (case state of None \<Rightarrow> False | Some st \<Rightarrow>
     as_exchangeAccountId st = ax_exchangeAccountId expected \<and> as_systemStatus st = RUNNING \<and> \<not> as_killSwitchActive st \<and>
     as_executionMode st = ax_expectedExecutionMode expected \<and>
     as_liveExecutionGate st = ax_expectedLiveExecutionGate expected)"

definition onWorld :: "('w, js_error, 'a) sm \<Rightarrow> ('w, 'a) gm" where
  "onWorld m gw = (case m (snd gw) of (r, w') \<Rightarrow> (r, (fst gw, w')))"

text \<open>The checks before the callback, and the authority they establish.\<close>

definition adoptAuthority ::
  "AssertCurrentExecutionAuthorityInput \<Rightarrow> RuntimeOwnershipRecord \<Rightarrow> PersistedRuntimeExecutionAuthority option \<Rightarrow>
   ('w, CurrentRuntimeExecutionAuthority) gm" where
  "adoptAuthority input expectedOwnership persisted =
     (case persisted of
        None \<Rightarrow> loseAndThrow ''PERSISTED_OWNERSHIP_MISMATCH''
      | Some authority \<Rightarrow>
          if \<not> sameOwnership expectedOwnership (Some (pa_runtimeOwnership authority))
          then loseAndThrow ''PERSISTED_OWNERSHIP_MISMATCH''
          else if ax_atEpochMs input \<ge> ro_expiresAtEpochMs (pa_runtimeOwnership authority)
          then loseAndThrow ''OWNERSHIP_EXPIRED''
          else if \<not> isExecutionAllowed (pa_executionState authority) input
          then sthrow (Error ''final pre-send authority is blocked'')
          else sbind (smodify (\<lambda>(g, w). (g\<lparr>gd_record := Some (pa_runtimeOwnership authority)\<rparr>, w))) (\<lambda>_.
               sreturn \<lparr>ca_runtimeOwnership = pa_runtimeOwnership authority,
                        ca_executionState = the (pa_executionState authority)\<rparr>))"

definition currentExecutionAuthority ::
  "'w guard_deps \<Rightarrow> AssertCurrentExecutionAuthorityInput \<Rightarrow> ('w, CurrentRuntimeExecutionAuthority) gm" where
  "currentExecutionAuthority deps input =
     sbind (slift (guardValidateEpochMs (ax_atEpochMs input))) (\<lambda>_.
     sbind (sguard (ax_exchangeAccountId input = [])
       (Error ''Final runtime execution authority requires an exchange account id.'')) (\<lambda>_.
     sbind (assertLocallyHeld deps) (\<lambda>_.
     sbind requireRecord (\<lambda>expectedOwnership.
     case gp_getCurrentExecutionAuthority deps of
       None \<Rightarrow> sthrow (notHeld ''Persisted combined execution authority is unavailable.'')
     | Some readAuthority \<Rightarrow>
         sbind (onWorld (readAuthority (ax_exchangeAccountId input))) (\<lambda>persisted.
         sbind (assertLocallyHeld deps) (\<lambda>_.
         adoptAuthority input expectedOwnership persisted))))))"

definition runWithCurrentExecutionAuthority ::
  "'w guard_deps \<Rightarrow> AssertCurrentExecutionAuthorityInput \<Rightarrow> ('w, unit) gm \<Rightarrow> ('w, CurrentRuntimeExecutionAuthority) gm" where
  "runWithCurrentExecutionAuthority deps input callback =
     sbind (currentExecutionAuthority deps input) (\<lambda>authority.
     sbind callback (\<lambda>_. sreturn authority))"

subsection \<open>Acquisition and renewal\<close>

definition acquire :: "'w guard_deps \<Rightarrow> ExecutionMode \<Rightarrow> int \<Rightarrow> ('w, RuntimeOwnershipRecord) gm" where
  "acquire deps executionMode acquiredAtEpochMs =
     sbind (sget fst) (\<lambda>g.
     sbind (sguard (gd_status g \<noteq> UNOWNED \<or> gd_acquisitionReserved g)
       (RuntimeOwnershipGuardError RUNTIME_OWNERSHIP_REACQUISITION_FORBIDDEN
         ''RUNTIME_OWNERSHIP_REACQUISITION_FORBIDDEN: A runtime ownership guard can acquire only once.'')) (\<lambda>_.
     sbind (smodify (\<lambda>(g, w). (g\<lparr>gd_acquisitionReserved := True\<rparr>, w))) (\<lambda>_.
     sbind (sget snd) (\<lambda>w.
     if \<not> gp_isHeld deps w then loseAndThrow ''PROCESS_LOCK_LOST''
     else
     sbind (gp_acquireAfterProcessLock deps \<lparr>aq_ownerToken = gp_ownerToken deps, aq_executionMode = executionMode,
       aq_acquiredAtEpochMs = acquiredAtEpochMs, aq_expiresAtEpochMs = acquiredAtEpochMs + RUNTIME_OWNERSHIP_TTL_MS\<rparr>) (\<lambda>acquisition.
     sbind (smodify (\<lambda>(g, w). (g\<lparr>gd_record := Some (ra_record acquisition), gd_takeover := ra_takeover acquisition\<rparr>, w))) (\<lambda>_.
     sbind (sget (\<lambda>(g, w). gd_status g = LOST \<or> \<not> gp_isHeld deps w)) (\<lambda>lost.
     if lost then loseAndThrow ''PROCESS_LOCK_LOST''
     else sbind (smodify (\<lambda>(g, w). (g\<lparr>gd_status := OWNED\<rparr>, w))) (\<lambda>_. sreturn (ra_record acquisition)))))))))"

definition guardSnapshot :: "'w guard \<Rightarrow> RuntimeOwnershipSnapshot" where
  "guardSnapshot g = \<lparr>sn_status = gd_status g, sn_generation = map_option ro_generation (gd_record g),
     sn_executionMode = map_option ro_executionMode (gd_record g),
     sn_acquiredAtEpochMs = map_option ro_acquiredAtEpochMs (gd_record g),
     sn_heartbeatAtEpochMs = map_option ro_heartbeatAtEpochMs (gd_record g),
     sn_expiresAtEpochMs = map_option ro_expiresAtEpochMs (gd_record g),
     sn_takeover = gd_takeover g, sn_lossReason = gd_lossReason g\<rparr>"

definition acceptRenewal :: "RuntimeOwnershipRecord \<Rightarrow> ('w, unit) gm" where
  "acceptRenewal record =
     sbind (sget fst) (\<lambda>g.
     if gd_status g \<noteq> OWNED then sreturn ()
     else sbind requireRecord (\<lambda>expected.
          if \<not> sameOwnership expected (Some record) then loseAndThrow ''PERSISTED_OWNERSHIP_MISMATCH''
          else smodify (\<lambda>(g, w). (g\<lparr>gd_record := Some record\<rparr>, w))))"

subsection \<open>Heartbeat\<close>

text \<open>
  The heartbeat's fields are the first component of the world, since its loss listener acts on them; a pending
  timer is its delay. \<open>onLoss\<close> is the effect of the callback given at construction. The promises \<open>inFlight\<close>,
  \<open>stopPromise\<close> and \<open>lossCallbackPromise\<close> only tell callers when to stop waiting.
\<close>

record heartbeat =
  hb_started :: bool
  hb_stopped :: bool
  hb_timer :: "int option"
  hb_lossNotified :: bool

type_synonym 'x hw = "heartbeat \<times> 'x"

definition updHb :: "(heartbeat \<Rightarrow> heartbeat) \<Rightarrow> ('x hw, unit) gm" where
  "updHb f = smodify (\<lambda>(g, (h, x)). (g, (f h, x)))"

definition ownedNow :: "('x hw, bool) gm" where
  "ownedNow = sget (\<lambda>(g, w). sn_status (guardSnapshot g) = OWNED)"

definition heartbeatStopped :: "('x hw, bool) gm" where
  "heartbeatStopped = sget (\<lambda>(g, (h, x)). hb_stopped h)"

definition schedule :: "int \<Rightarrow> ('x hw, unit) gm" where
  "schedule delayMs =
     sbind heartbeatStopped (\<lambda>stopped.
     sbind ownedNow (\<lambda>owned.
     if stopped \<or> \<not> owned then sreturn () else updHb (\<lambda>h. h\<lparr>hb_timer := Some delayMs\<rparr>)))"

definition lose :: "string \<Rightarrow> ('x hw, unit) gm" where
  "lose reason =
     sbind (sget (\<lambda>(g, w). sn_status (guardSnapshot g) = LOST)) (\<lambda>lost.
     if lost then sreturn () else sbind (markLost reason) (\<lambda>_. sreturn ()))"

definition handleGuardLoss :: "(string \<Rightarrow> 'x \<Rightarrow> 'x) \<Rightarrow> string \<Rightarrow> 'x hw \<Rightarrow> 'x hw" where
  "handleGuardLoss onLoss reason hx = (case hx of (h, x) \<Rightarrow>
     if hb_lossNotified h then (h\<lparr>hb_timer := None\<rparr>, x)
     else (h\<lparr>hb_timer := None, hb_lossNotified := True\<rparr>, onLoss reason x))"

definition is_word_char :: "char \<Rightarrow> bool" where
  "is_word_char c \<longleftrightarrow> is_digit c \<or> is_upper c \<or> is_lower c \<or> c = CHR ''_''"

text \<open>\<open>/\bword\b/.test(s)\<close>; the flag says whether a word character comes before.\<close>

fun wordOccurs :: "string \<Rightarrow> bool \<Rightarrow> string \<Rightarrow> bool" where
  "wordOccurs word before [] = False"
| "wordOccurs word before (c # cs) =
     ((\<not> before \<and> starts_with word (c # cs) \<and>
       (case drop (length word) (c # cs) of [] \<Rightarrow> True | d # _ \<Rightarrow> \<not> is_word_char d)) \<or>
      wordOccurs word (is_word_char c) cs)"

definition isTransientStoreError :: "js_error \<Rightarrow> bool" where
  "isTransientStoreError error \<longleftrightarrow>
     (case error of
        SqliteError code errcode _ \<Rightarrow>
          code = Some ''SQLITE_BUSY'' \<or> code = Some ''SQLITE_LOCKED'' \<or> errcode = Some 5 \<or> errcode = Some 6
      | _ \<Rightarrow> False) \<or>
     wordOccurs ''SQLITE_BUSY'' False (errorMessage error) \<or> wordOccurs ''SQLITE_LOCKED'' False (errorMessage error)"

definition attemptRenewal :: "'x hw guard_deps \<Rightarrow> ('x hw, unit) gm" where
  "attemptRenewal deps =
     sbind (sget (\<lambda>(g, w). guardSnapshot g)) (\<lambda>lease.
     case (sn_generation lease, sn_expiresAtEpochMs lease) of
       (Some generation, Some expiresAtEpochMs) \<Rightarrow>
         if sn_status lease \<noteq> OWNED then sreturn ()
         else
         sbind (readClock deps) (\<lambda>attemptedAtEpochMs.
         if attemptedAtEpochMs \<ge> expiresAtEpochMs then lose ''HEARTBEAT_EXPIRED''
         else scatch
           (sbind (assertLocallyHeld deps) (\<lambda>_.
            sbind (gp_renew deps \<lparr>rn_ownerToken = gp_ownerToken deps, rn_generation = generation,
              rn_heartbeatAtEpochMs = attemptedAtEpochMs, rn_expiresAtEpochMs = attemptedAtEpochMs + RUNTIME_OWNERSHIP_TTL_MS\<rparr>) (\<lambda>renewed.
            sbind ownedNow (\<lambda>owned.
            if \<not> owned then sreturn ()
            else (case renewed of
              None \<Rightarrow> lose ''HEARTBEAT_RENEWAL_MISMATCH''
            | Some record \<Rightarrow>
                sbind (readClock deps) (\<lambda>nowEpochMs.
                if nowEpochMs \<ge> expiresAtEpochMs then lose ''HEARTBEAT_EXPIRED''
                else sbind (acceptRenewal record) (\<lambda>_. schedule RUNTIME_HEARTBEAT_INTERVAL_MS)))))))
           (\<lambda>error.
            sbind ownedNow (\<lambda>owned.
            if \<not> owned then sreturn ()
            else sbind (readClock deps) (\<lambda>retryAtEpochMs.
                 if retryAtEpochMs \<ge> expiresAtEpochMs then lose ''HEARTBEAT_EXPIRED''
                 else if \<not> isTransientStoreError error then lose ''HEARTBEAT_RENEWAL_FAILED''
                 else schedule (min RUNTIME_HEARTBEAT_INTERVAL_MS (expiresAtEpochMs - retryAtEpochMs))))))
     | _ \<Rightarrow> sreturn ())"

definition runScheduledAttempt :: "'x hw guard_deps \<Rightarrow> ('x hw, unit) gm" where
  "runScheduledAttempt deps =
     sbind (updHb (\<lambda>h. h\<lparr>hb_timer := None\<rparr>)) (\<lambda>_.
     sbind heartbeatStopped (\<lambda>stopped.
     sbind ownedNow (\<lambda>owned.
     if stopped \<or> \<not> owned then sreturn () else attemptRenewal deps)))"

definition heartbeatStart :: "nat \<Rightarrow> (string \<Rightarrow> 'x \<Rightarrow> 'x) \<Rightarrow> ('x hw, unit) gm" where
  "heartbeatStart handle onLoss =
     sbind (sget (\<lambda>(g, (h, x)). h)) (\<lambda>h.
     sbind (sguard (hb_stopped h) (Error ''Runtime heartbeat cannot restart after stop.'')) (\<lambda>_.
     if hb_started h then sreturn ()
     else sbind ownedNow (\<lambda>owned.
          sbind (sguard (\<not> owned) (Error ''Runtime heartbeat requires currently owned runtime authority.'')) (\<lambda>_.
          sbind (updHb (\<lambda>h. h\<lparr>hb_started := True\<rparr>)) (\<lambda>_.
          sbind (onLost handle (handleGuardLoss onLoss)) (\<lambda>_.
          schedule RUNTIME_HEARTBEAT_INTERVAL_MS))))))"

definition heartbeatStop :: "('x hw, unit) gm" where
  "heartbeatStop = updHb (\<lambda>h. h\<lparr>hb_stopped := True, hb_started := False, hb_timer := None\<rparr>)"

subsection \<open>The gate before a send\<close>

lemma throwLost_run [simp]: "throwLost gw \<noteq> (Inr x, s)"
  by (simp add: throwLost_def)

lemma loseAndThrow_run [simp]: "loseAndThrow reason gw \<noteq> (Inr x, s)"
  by (auto simp: loseAndThrow_def sbind_eq_Inr)

lemma requireRecord_eq_Inr [res_simps]: "requireRecord gw = (Inr r, s) \<longleftrightarrow> gd_record (fst gw) = Some r \<and> s = gw"
  by (auto simp: requireRecord_def split: option.splits)

lemma assertLocallyHeld_Inr:
  assumes "assertLocallyHeld deps (g, w) = (Inr u, (g', w'))"
  obtains rec0 t where "g' = g" "gd_status g = OWNED" "gd_record g = Some rec0" "gp_isHeld deps w"
    "gp_nowEpochMs deps w = (t, w')" "0 \<le> t" "t < ro_expiresAtEpochMs rec0"
  using assms that
  by (auto simp: assertLocallyHeld_def res_simps readClock_def guardValidateEpochMs_def
      split: if_splits option.splits prod.splits)

definition gateOpen ::
  "'w guard_deps \<Rightarrow> AssertCurrentExecutionAuthorityInput \<Rightarrow> 'w guard \<Rightarrow> CurrentRuntimeExecutionAuthority \<Rightarrow> 'w guard \<Rightarrow> 'w \<Rightarrow> bool" where
  "gateOpen deps input g0 a g w \<longleftrightarrow>
     gd_status g = OWNED \<and> gd_record g = Some (ca_runtimeOwnership a) \<and>
     (\<exists>own. gd_record g0 = Some own \<and> sameOwnership own (Some (ca_runtimeOwnership a)) \<and>
        (\<exists>w0 t. gp_isHeld deps w0 \<and> gp_nowEpochMs deps w0 = (t, w) \<and> t < ro_expiresAtEpochMs own)) \<and>
     ax_atEpochMs input < ro_expiresAtEpochMs (ca_runtimeOwnership a) \<and>
     as_exchangeAccountId (ca_executionState a) = ax_exchangeAccountId input \<and>
     as_systemStatus (ca_executionState a) = RUNNING \<and> \<not> as_killSwitchActive (ca_executionState a) \<and>
     as_executionMode (ca_executionState a) = ax_expectedExecutionMode input \<and>
     as_liveExecutionGate (ca_executionState a) = ax_expectedLiveExecutionGate input"

lemma onWorld_eq_Inr [res_simps]: "onWorld m gw = (Inr x, s) \<longleftrightarrow> (\<exists>w'. m (snd gw) = (Inr x, w') \<and> s = (fst gw, w'))"
  by (auto simp: onWorld_def split: prod.splits)

lemma adoptAuthority_Inr:
  assumes "adoptAuthority input own p (g, w) = (Inr a, (g', w'))"
  shows "sameOwnership own (Some (ca_runtimeOwnership a)) \<and> ax_atEpochMs input < ro_expiresAtEpochMs (ca_runtimeOwnership a) \<and>
    isExecutionAllowed (Some (ca_executionState a)) input \<and> g' = g\<lparr>gd_record := Some (ca_runtimeOwnership a)\<rparr> \<and> w' = w"
  using assms
  by (cases p; cases "pa_executionState (the p)")
     (auto simp: adoptAuthority_def res_simps isExecutionAllowed_def split: if_splits)

lemma currentExecutionAuthority_gate:
  assumes "currentExecutionAuthority deps input (g, w) = (Inr a, (g', w'))"
  shows "gateOpen deps input g a g' w'"
proof -
  from assms obtain g1 w1 own p w2 g3 w3 where held1: "assertLocallyHeld deps (g, w) = (Inr (), (g1, w1))"
    and own: "gd_record g1 = Some own" and held2: "assertLocallyHeld deps (g1, w2) = (Inr (), (g3, w3))"
    and fin: "adoptAuthority input own p (g3, w3) = (Inr a, (g', w'))"
    by (auto simp: currentExecutionAuthority_def res_simps split: option.splits)
  from held1 have g1: "g1 = g" by (auto elim: assertLocallyHeld_Inr)
  with held2 own obtain t where h2: "g3 = g" "gd_status g = OWNED" "gp_isHeld deps w2" "gp_nowEpochMs deps w2 = (t, w3)"
    "t < ro_expiresAtEpochMs own" by (auto elim!: assertLocallyHeld_Inr)
  show ?thesis
    using adoptAuthority_Inr [OF fin] h2 own g1 by (auto simp: gateOpen_def isExecutionAllowed_def)
qed

text \<open>
  C23. The final gate in front of an exchange call. Whatever callback is passed, either it is never started and the
  call fails, or it is started exactly once and in a state where the guard owns the runtime, the process lock
  was held and the lease unexpired at the last clock reading, the persisted ownership is the guard's own, and
  the persisted execution state is RUNNING without kill switch, in the expected mode, gate and account.
\<close>

theorem send_gate:
  "(\<exists>e s1. \<forall>callback. runWithCurrentExecutionAuthority deps input callback (g, w) = (Inl e, s1)) \<or>
   (\<exists>a g1 w1. gateOpen deps input g a g1 w1 \<and>
      (\<forall>callback. runWithCurrentExecutionAuthority deps input callback (g, w) = sbind callback (\<lambda>_. sreturn a) (g1, w1)))"
proof -
  obtain r s1 where Pair: "currentExecutionAuthority deps input (g, w) = (r, s1)"
    by (rule prod.exhaust)
  show ?thesis
  proof (cases r)
    case (Inl e)
    with Pair show ?thesis by (auto simp: runWithCurrentExecutionAuthority_def sbind_def)
  next
    case (Inr a)
    obtain g1 w1 where s1: "s1 = (g1, w1)" by fastforce
    have "gateOpen deps input g a g1 w1" by (rule currentExecutionAuthority_gate) (use Pair Inr s1 in simp)
    moreover have "runWithCurrentExecutionAuthority deps input callback (g, w) = sbind callback (\<lambda>_. sreturn a) (g1, w1)" for callback
      using Pair Inr s1 by (simp add: runWithCurrentExecutionAuthority_def sbind_run)
    ultimately show ?thesis by blast
  qed
qed

text \<open>
  A lost guard is dead: once ownership is lost, the guard refuses every assertion, every gated callback and
  every acquisition, ignores renewals, changes nothing when it does so, and no later loss report revives it.
\<close>

theorem lost_guard_is_dead:
  fixes h :: "'w guard" and w defines "g \<equiv> h\<lparr>gd_status := LOST\<rparr>"
  shows "(\<exists>m. assertLocallyHeld deps (g, w) = (Inl (RuntimeOwnershipGuardError RUNTIME_OWNERSHIP_LOST m), (g, w))) \<and>
    (\<exists>e. assertCurrent deps t (g, w) = (Inl e, (g, w))) \<and>
    (\<exists>e. \<forall>callback. runWithCurrentExecutionAuthority deps input callback (g, w) = (Inl e, (g, w))) \<and>
    (\<exists>m. acquire deps mode t (g, w) = (Inl (RuntimeOwnershipGuardError RUNTIME_OWNERSHIP_REACQUISITION_FORBIDDEN m), (g, w))) \<and>
    acceptRenewal record (g, w) = (Inr (), (g, w)) \<and> gd_status (fst (snd (markLost reason (g, w)))) = LOST"
proof -
  have lost: "\<exists>m. assertLocallyHeld deps (g, w) = (Inl (RuntimeOwnershipGuardError RUNTIME_OWNERSHIP_LOST m), (g, w))"
    by (simp add: assertLocallyHeld_def g_def sbind_def throwLost_def)
  then obtain m where m: "assertLocallyHeld deps (g, w) = (Inl (RuntimeOwnershipGuardError RUNTIME_OWNERSHIP_LOST m), (g, w))" ..
  have "\<exists>e. assertCurrent deps t (g, w) = (Inl e, (g, w))"
    using m by (simp add: assertCurrent_def sbind_def guardValidateEpochMs_def throw_if_def)
  moreover have "\<exists>e. \<forall>callback. runWithCurrentExecutionAuthority deps input callback (g, w) = (Inl e, (g, w))"
    using m by (simp add: runWithCurrentExecutionAuthority_def currentExecutionAuthority_def sbind_def guardValidateEpochMs_def throw_if_def sguard_run)
  moreover have "\<exists>m. acquire deps mode t (g, w) = (Inl (RuntimeOwnershipGuardError RUNTIME_OWNERSHIP_REACQUISITION_FORBIDDEN m), (g, w))"
    by (simp add: acquire_def sbind_def sguard_run g_def)
  moreover have "acceptRenewal record (g, w) = (Inr (), (g, w))" by (simp add: acceptRenewal_def sbind_def g_def)
  moreover have "gd_status (fst (snd (markLost reason (g, w)))) = LOST" by (simp add: markLost_def g_def)
  ultimately show ?thesis using lost by simp
qed

subsection \<open>The heartbeat does not lapse\<close>

definition beating :: "'x hw guard \<times> 'x hw \<Rightarrow> bool" where
  "beating s \<longleftrightarrow> (case s of (g, (h, x)) \<Rightarrow> gd_status g \<noteq> OWNED \<or> hb_stopped h \<or>
     (\<exists>d. hb_timer h = Some d \<and> 0 < d \<and> d \<le> RUNTIME_HEARTBEAT_INTERVAL_MS))"

definition settles :: "('s \<Rightarrow> bool) \<Rightarrow> ('s, 'e, 'a) sm \<Rightarrow> bool" where
  "settles P m \<longleftrightarrow> (\<forall>s x s'. m s = (Inr x, s') \<longrightarrow> P s')"

definition completes :: "('s \<Rightarrow> bool) \<Rightarrow> ('s, 'e, 'a) sm \<Rightarrow> bool" where
  "completes P m \<longleftrightarrow> (\<forall>s. \<exists>x s'. m s = (Inr x, s') \<and> P s')"

lemma settles_sbind: "(\<And>x. settles P (f x)) \<Longrightarrow> settles P (sbind m f)"
  by (auto simp: settles_def sbind_eq_Inr)

lemma completes_settles: "completes P m \<Longrightarrow> settles P m"
  unfolding completes_def settles_def by (metis Pair_inject sum.inject(2))

lemma completes_sbind: "unfailing m \<Longrightarrow> (\<And>x. completes P (f x)) \<Longrightarrow> completes P (sbind m f)"
  unfolding completes_def unfailing_def sbind_def
  by (auto split: prod.splits sum.splits) (metis fst_conv)+

lemma completes_unit: "completes P (m :: ('s, 'e, unit) sm) \<Longrightarrow> \<exists>s'. m s = (Inr (), s') \<and> P s'"
  unfolding completes_def by simp

lemma completes_scatch: "settles P m \<Longrightarrow> (\<And>e. completes P (h e)) \<Longrightarrow> completes P (scatch m h)"
  unfolding completes_def settles_def scatch_def by (auto split: prod.splits sum.splits)

lemma unfailing_guard [atomic_intros]: "unfailing (readClock deps)" "unfailing ownedNow" "unfailing heartbeatStopped" "unfailing (updHb f)"
  by (auto simp: unfailing_def readClock_def ownedNow_def heartbeatStopped_def updHb_def split: prod.splits)

lemma completes_schedule: "0 < d \<Longrightarrow> d \<le> RUNTIME_HEARTBEAT_INTERVAL_MS \<Longrightarrow> completes beating (schedule d)"
  by (auto simp: completes_def schedule_def sbind_def heartbeatStopped_def ownedNow_def updHb_def beating_def guardSnapshot_def
      split: prod.splits)

lemma loss_reasons:
  "REASON_CODE_PATTERN ''HEARTBEAT_EXPIRED''" "REASON_CODE_PATTERN ''HEARTBEAT_RENEWAL_MISMATCH''"
  "REASON_CODE_PATTERN ''HEARTBEAT_RENEWAL_FAILED''"
  by code_simp+

lemma completes_lose: "REASON_CODE_PATTERN reason \<Longrightarrow> completes beating (lose reason)"
  by (auto simp: completes_def lose_def sbind_def markLost_def beating_def guardSnapshot_def split: prod.splits)

lemma attemptRenewal_handler:
  "completes beating (sbind ownedNow (\<lambda>owned.
     if \<not> owned then sreturn ()
     else sbind (readClock deps) (\<lambda>retryAtEpochMs.
       if retryAtEpochMs \<ge> expiresAtEpochMs then lose ''HEARTBEAT_EXPIRED''
       else if \<not> isTransientStoreError error then lose ''HEARTBEAT_RENEWAL_FAILED''
       else schedule (min RUNTIME_HEARTBEAT_INTERVAL_MS (expiresAtEpochMs - retryAtEpochMs)))))"
proof -
  let ?k = "sbind (readClock deps) (\<lambda>retryAtEpochMs.
       if retryAtEpochMs \<ge> expiresAtEpochMs then lose ''HEARTBEAT_EXPIRED''
       else if \<not> isTransientStoreError error then lose ''HEARTBEAT_RENEWAL_FAILED''
       else schedule (min RUNTIME_HEARTBEAT_INTERVAL_MS (expiresAtEpochMs - retryAtEpochMs)))"
  have k: "completes beating ?k"
    by (intro completes_sbind unfailing_guard) (auto intro: completes_lose completes_schedule simp: loss_reasons RUNTIME_HEARTBEAT_INTERVAL_MS_def)
  show ?thesis
    using k unfolding completes_def
    by (auto simp: sbind_def ownedNow_def beating_def guardSnapshot_def split: prod.splits)
qed

lemma settles_owned:
  assumes "settles beating m"
  shows "settles beating (sbind ownedNow (\<lambda>owned. if \<not> owned then sreturn () else m))"
  using assms unfolding settles_def
  by (auto simp: sbind_def ownedNow_def beating_def guardSnapshot_def split: prod.splits if_splits)

lemma settles_body:
  "settles beating (sbind (assertLocallyHeld deps) (\<lambda>_. sbind (gp_renew deps i) (\<lambda>renewed. sbind ownedNow (\<lambda>owned.
     if \<not> owned then sreturn ()
     else (case renewed of None \<Rightarrow> lose ''HEARTBEAT_RENEWAL_MISMATCH''
       | Some record \<Rightarrow> sbind (readClock deps) (\<lambda>nowEpochMs.
           if nowEpochMs \<ge> expiresAtEpochMs then lose ''HEARTBEAT_EXPIRED''
           else sbind (acceptRenewal record) (\<lambda>_. schedule RUNTIME_HEARTBEAT_INTERVAL_MS)))))))"
proof (rule settles_sbind, rule settles_sbind, rule settles_owned)
  fix renewed
  have "settles beating (schedule RUNTIME_HEARTBEAT_INTERVAL_MS)"
    by (rule completes_settles, rule completes_schedule) (simp_all add: RUNTIME_HEARTBEAT_INTERVAL_MS_def)
  then show "settles beating (case renewed of None \<Rightarrow> lose ''HEARTBEAT_RENEWAL_MISMATCH''
       | Some record \<Rightarrow> sbind (readClock deps) (\<lambda>nowEpochMs.
           if nowEpochMs \<ge> expiresAtEpochMs then lose ''HEARTBEAT_EXPIRED''
           else sbind (acceptRenewal record) (\<lambda>_. schedule RUNTIME_HEARTBEAT_INTERVAL_MS)))"
    by (cases renewed) (auto intro!: settles_sbind completes_settles [OF completes_lose] simp: loss_reasons)
qed

lemma attemptRenewal_beating:
  assumes "gd_status g = OWNED \<longrightarrow> gd_record g \<noteq> None"
  shows "\<exists>s'. attemptRenewal deps (g, hx) = (Inr (), s') \<and> beating s'"
proof (cases "gd_record g")
  case None
  with assms have "beating (g, hx)" by (cases hx) (simp add: beating_def)
  with None show ?thesis by (simp add: attemptRenewal_def sbind_def guardSnapshot_def)
next
  case (Some rec0)
  let ?attempt = "\<lambda>t. if t \<ge> ro_expiresAtEpochMs rec0 then lose ''HEARTBEAT_EXPIRED''
         else scatch
           (sbind (assertLocallyHeld deps) (\<lambda>_.
            sbind (gp_renew deps \<lparr>rn_ownerToken = gp_ownerToken deps, rn_generation = ro_generation rec0,
              rn_heartbeatAtEpochMs = t, rn_expiresAtEpochMs = t + RUNTIME_OWNERSHIP_TTL_MS\<rparr>) (\<lambda>renewed.
            sbind ownedNow (\<lambda>owned.
            if \<not> owned then sreturn ()
            else (case renewed of
              None \<Rightarrow> lose ''HEARTBEAT_RENEWAL_MISMATCH''
            | Some rec1 \<Rightarrow>
                sbind (readClock deps) (\<lambda>nowEpochMs.
                if nowEpochMs \<ge> ro_expiresAtEpochMs rec0 then lose ''HEARTBEAT_EXPIRED''
                else sbind (acceptRenewal rec1) (\<lambda>_. schedule RUNTIME_HEARTBEAT_INTERVAL_MS)))))))
           (\<lambda>error.
            sbind ownedNow (\<lambda>owned.
            if \<not> owned then sreturn ()
            else sbind (readClock deps) (\<lambda>retryAtEpochMs.
                 if retryAtEpochMs \<ge> ro_expiresAtEpochMs rec0 then lose ''HEARTBEAT_EXPIRED''
                 else if \<not> isTransientStoreError error then lose ''HEARTBEAT_RENEWAL_FAILED''
                 else schedule (min RUNTIME_HEARTBEAT_INTERVAL_MS (ro_expiresAtEpochMs rec0 - retryAtEpochMs)))))"
  have "completes beating (?attempt t)" for t
    using completes_lose [OF loss_reasons(1)] completes_scatch [OF settles_body attemptRenewal_handler] by auto
  then have "completes beating (sbind (readClock deps) ?attempt)" by (intro completes_sbind unfailing_guard)
  then have run: "\<exists>s'. sbind (readClock deps) ?attempt (g, hx) = (Inr (), s') \<and> beating s'" by (rule completes_unit)
  show ?thesis
  proof (cases "gd_status g = OWNED")
    case True
    with Some have "attemptRenewal deps (g, hx) = sbind (readClock deps) ?attempt (g, hx)"
      by (simp add: attemptRenewal_def guardSnapshot_def sbind_run(2) [OF sget_run])
    with run show ?thesis by simp
  next
    case False
    with Some show ?thesis by (cases hx) (simp add: attemptRenewal_def sbind_def guardSnapshot_def beating_def)
  qed
qed

text \<open>A guard that owns the runtime over a store that is always busy.\<close>

definition sampleGuardDeps :: "int hw guard_deps" where
  "sampleGuardDeps = \<lparr>gp_isHeld = (\<lambda>_. True), gp_nowEpochMs = (\<lambda>(h, t). (t, (h, t + 1))), gp_ownerToken = ''owner'',
     gp_acquireAfterProcessLock = (\<lambda>_. sthrow (Error ''unused'')), gp_getCurrent = sreturn None,
     gp_getCurrentExecutionAuthority = None,
     gp_renew = (\<lambda>_. sthrow (SqliteError (Some ''SQLITE_BUSY'') (Some 5) ''database is locked''))\<rparr>"

definition sampleGuard :: "int hw guard" where
  "sampleGuard = newGuard\<lparr>gd_status := OWNED, gd_record := Some \<lparr>ro_ownerToken = ''owner'', ro_generation = 1,
     ro_executionMode = DRY_RUN, ro_acquiredAtEpochMs = 0, ro_heartbeatAtEpochMs = 0, ro_expiresAtEpochMs = 45000\<rparr>\<rparr>"

definition sampleHeartbeat :: heartbeat where
  "sampleHeartbeat = \<lparr>hb_started = True, hb_stopped = False, hb_timer = Some 10000, hb_lossNotified = False\<rparr>"

text \<open>
  C24. The heartbeat never silently stops. However a renewal attempt goes (renewed, refused, failed with any error,
  interrupted by other callbacks), the attempt itself returns normally, and afterwards the guard no longer
  counts as owner, or the heartbeat was stopped, or the next attempt is scheduled within the heartbeat interval.
\<close>

theorem heartbeat_never_lapses:
  assumes "gd_status g = OWNED \<longrightarrow> gd_record g \<noteq> None"
  shows "\<exists>s'. runScheduledAttempt deps (g, (h, x)) = (Inr (), s') \<and> beating s'"
proof -
  let ?h = "h\<lparr>hb_timer := None\<rparr>"
  have "runScheduledAttempt deps (g, (h, x)) =
      (if hb_stopped h \<or> gd_status g \<noteq> OWNED then (Inr (), (g, (?h, x))) else attemptRenewal deps (g, (?h, x)))"
    by (simp add: runScheduledAttempt_def sbind_def updHb_def heartbeatStopped_def ownedNow_def guardSnapshot_def)
  with attemptRenewal_beating [OF assms, of deps "(?h, x)"] show ?thesis by (auto simp: beating_def)
qed

lemma heartbeat_never_lapses_witness:
  "\<exists>s'. runScheduledAttempt sampleGuardDeps (sampleGuard, (sampleHeartbeat, 5)) = (Inr (), s') \<and> beating s'"
  by (rule heartbeat_never_lapses) (simp add: sampleGuard_def)

end
