(* ===== verification/OperatorState.thy ===== *)
theory OperatorState
  imports Timestamps
begin

section \<open>Operator state: pause, kill switch, degradation\<close>

text \<open>
  The store of \<open>InMemoryOperatorStateStore\<close> (\<open>src/src/modules/db/repositories/in-memory-repositories.ts\<close>), the
  fault-pause validators of \<open>atomic-lifecycle-validation.ts\<close> and the seed comparison of
  \<open>src/src/modules/db/interfaces.ts\<close>. The wall clock is an argument of the operations that read it; an
  operation that reads it twice has two.
\<close>

subsection \<open>Fault pauses\<close>

record FaultPauseInput =
  fp_exchangeAccountId :: string
  fp_faultId :: string
  fp_reason :: string
  fp_occurredAt :: string
  fp_transitionAt :: "string option"

definition validateFaultPauseInput :: "FaultPauseInput \<Rightarrow> unit res" where
  "validateFaultPauseInput input =
     ebind (throw_if (fp_exchangeAccountId input = [] \<or> is_blank (fp_faultId input) \<or> is_blank (fp_reason input))
       (Error ''Automatic fault pauses require non-empty account, faultId, and reason.'')) (\<lambda>_.
     ebind (parseStrictIsoTimestamp (fp_occurredAt input) ''occurredAt'') (\<lambda>_.
     case fp_transitionAt input of
       None \<Rightarrow> Inr ()
     | Some transitionAt \<Rightarrow>
         ebind (parseStrictIsoTimestamp (fp_occurredAt input) ''occurredAt'') (\<lambda>occurredAtEpoch.
         ebind (parseStrictIsoTimestamp transitionAt ''transitionAt'') (\<lambda>transitionAtEpoch.
         throw_if (transitionAtEpoch < occurredAtEpoch)
           (Error ''Automatic fault pause transitionAt cannot predate fault occurrence.'')))))"

definition validateFaultPauseTimestamp :: "FaultPauseInput \<Rightarrow> ExecutionStateRecord \<Rightarrow> string res" where
  "validateFaultPauseTimestamp input current =
     (let requestedTransitionAt = (case fp_transitionAt input of None \<Rightarrow> fp_occurredAt input | Some t \<Rightarrow> t)
      in ebind (parseStrictIsoTimestamp requestedTransitionAt ''transitionAt'') (\<lambda>requestedEpoch.
         ebind (parseStrictIsoTimestamp (st_updatedAt current) ''current updatedAt'') (\<lambda>currentEpoch.
         ebind (throw_if (fp_transitionAt input = None \<and> requestedEpoch < currentEpoch)
           (Error ''Automatic fault pause occurredAt cannot predate current execution state.'')) (\<lambda>_.
         Inr (if requestedEpoch < currentEpoch then st_updatedAt current else requestedTransitionAt)))))"

definition deriveFaultPauseTransitionAt :: "string \<Rightarrow> string \<Rightarrow> string res" where
  "deriveFaultPauseTransitionAt occurredAt currentUpdatedAt =
     ebind (parseStrictIsoTimestamp occurredAt ''occurredAt'') (\<lambda>occurredAtEpoch.
     ebind (parseStrictIsoTimestamp currentUpdatedAt ''current updatedAt'') (\<lambda>currentEpoch.
     Inr (if occurredAtEpoch < currentEpoch then currentUpdatedAt else occurredAt)))"

definition faultPauseTransitionMatchesOccurrence :: "FaultPauseInput \<Rightarrow> string \<Rightarrow> bool" where
  "faultPauseTransitionMatchesOccurrence input transitionAt =
     (if fp_transitionAt input = None then transitionAt = fp_occurredAt input
      else (case ebind (parseStrictIsoTimestamp transitionAt ''persisted transition createdAt'') (\<lambda>left.
                 ebind (parseStrictIsoTimestamp (fp_occurredAt input) ''occurredAt'') (\<lambda>right. Inr (left \<ge> right))) of
              Inl _ \<Rightarrow> False | Inr b \<Rightarrow> b))"

definition formatFaultPauseReason :: "FaultPauseInput \<Rightarrow> string" where
  "formatFaultPauseReason input = ''faultId='' @ fp_faultId input @ ''; reason='' @ fp_reason input"

subsection \<open>The store\<close>

record operator_store =
  op_state :: ExecutionStateRecord
  op_transitions :: "ExecutionStateTransitionRecord list"

definition newOperatorStateStore :: "ExecutionStateRecord \<Rightarrow> operator_store" where
  "newOperatorStateStore state =
     \<lparr>op_state = state,
      op_transitions = [\<lparr>tr_id = ''execution_state_transition_bootstrap'', tr_exchangeAccountId = st_exchangeAccountId state,
        tr_command = BOOTSTRAP, tr_fromExecutionMode = None, tr_toExecutionMode = st_executionMode state,
        tr_fromLiveExecutionGate = None, tr_toLiveExecutionGate = st_liveExecutionGate state,
        tr_fromSystemStatus = None, tr_toSystemStatus = st_systemStatus state,
        tr_fromKillSwitchActive = None, tr_toKillSwitchActive = st_killSwitchActive state,
        tr_reason = Some ''bootstrap_seed'', tr_createdAt = st_updatedAt state\<rparr>]\<rparr>"

definition defaultTransitionId :: "operator_store \<Rightarrow> string" where
  "defaultTransitionId s = ''execution_state_transition_'' @ digits_of_int (int (length (op_transitions s)) + 1)"

text \<open>The assignment of the next state followed by \<open>recordTransition\<close> (\<open>unshift\<close> puts the newest first).\<close>

definition transitionOf ::
  "ExecutionStateRecord \<Rightarrow> ExecutionStateRecord \<Rightarrow> ExecutionStateTransitionCommand \<Rightarrow> string option \<Rightarrow> string \<Rightarrow>
   ExecutionStateTransitionRecord" where
  "transitionOf fromState toState command reason ident =
     \<lparr>tr_id = ident, tr_exchangeAccountId = st_exchangeAccountId toState, tr_command = command,
      tr_fromExecutionMode = Some (st_executionMode fromState), tr_toExecutionMode = st_executionMode toState,
      tr_fromLiveExecutionGate = Some (st_liveExecutionGate fromState),
      tr_toLiveExecutionGate = st_liveExecutionGate toState,
      tr_fromSystemStatus = Some (st_systemStatus fromState), tr_toSystemStatus = st_systemStatus toState,
      tr_fromKillSwitchActive = Some (st_killSwitchActive fromState),
      tr_toKillSwitchActive = st_killSwitchActive toState,
      tr_reason = reason, tr_createdAt = st_updatedAt toState\<rparr>"

definition recordTransition ::
  "ExecutionStateRecord \<Rightarrow> ExecutionStateTransitionCommand \<Rightarrow> string option \<Rightarrow> string \<Rightarrow> operator_store \<Rightarrow> operator_store" where
  "recordTransition toState command reason ident s =
     \<lparr>op_state = toState, op_transitions = transitionOf (op_state s) toState command reason ident # op_transitions s\<rparr>"

definition getState :: "operator_store \<Rightarrow> ExecutionStateRecord" where
  "getState s = op_state s"

definition listTransitions :: "int option \<Rightarrow> operator_store \<Rightarrow> ExecutionStateTransitionRecord list" where
  "listTransitions limit s = slice0 (case limit of None \<Rightarrow> 20 | Some n \<Rightarrow> n) (op_transitions s)"

definition getTransitionById :: "string \<Rightarrow> operator_store \<Rightarrow> ExecutionStateTransitionRecord option" where
  "getTransitionById ident s = find (\<lambda>candidate. tr_id candidate = ident) (op_transitions s)"

definition applyFaultPauseAtomically :: "FaultPauseInput \<Rightarrow> (operator_store, js_error, ExecutionStateRecord) sm" where
  "applyFaultPauseAtomically input s =
     (let state = op_state s; reason = formatFaultPauseReason input in
      case validateFaultPauseInput input of Inl e \<Rightarrow> (Inl e, s) | Inr _ \<Rightarrow>
      if fp_exchangeAccountId input \<noteq> st_exchangeAccountId state
      then (Inl (Error (''Fault '' @ fp_faultId input @ '' is for a different exchange account.'')), s)
      else (case getTransitionById (fp_faultId input) s of
        Some existing \<Rightarrow>
          if tr_command existing = AUTOMATIC_PAUSE \<and> tr_exchangeAccountId existing = fp_exchangeAccountId input \<and>
             tr_reason existing = Some reason \<and>
             faultPauseTransitionMatchesOccurrence input (tr_createdAt existing) \<and>
             (st_systemStatus state = PAUSED \<or> st_systemStatus state = KILL_SWITCHED)
          then (Inr state, s)
          else (Inl (Error (''Conflicting duplicate automatic pause '' @ fp_faultId input @ ''.'')), s)
      | None \<Rightarrow>
          (case validateFaultPauseTimestamp input state of Inl e \<Rightarrow> (Inl e, s) | Inr transitionAt \<Rightarrow>
             let preservesKillSwitch = (st_killSwitchActive state \<or> st_systemStatus state = KILL_SWITCHED);
                 next = state\<lparr>st_systemStatus := (if preservesKillSwitch then KILL_SWITCHED else PAUSED),
                              st_pauseReason := (if preservesKillSwitch then st_pauseReason state else Some reason),
                              st_updatedAt := transitionAt\<rparr>
             in (Inr next, recordTransition next AUTOMATIC_PAUSE (Some reason) (fp_faultId input) s))))"

definition pause :: "string option \<Rightarrow> string \<Rightarrow> operator_store \<Rightarrow> operator_store" where
  "pause reason now s =
     (let state = op_state s;
          pauseReason = (case reason of Some r \<Rightarrow> Some r | None \<Rightarrow> st_pauseReason state)
      in recordTransition
           (state\<lparr>st_systemStatus := (if st_killSwitchActive state then KILL_SWITCHED else PAUSED),
                  st_pauseReason := pauseReason, st_updatedAt := now\<rparr>)
           CmdPause pauseReason (defaultTransitionId s) s)"

text \<open>\<open>a || b\<close> on nullable strings: null and the empty string are false.\<close>

definition truthy :: "string option \<Rightarrow> bool" where
  "truthy v \<longleftrightarrow> v \<noteq> None \<and> v \<noteq> Some []"

definition resolveResumedSystemStatus :: "ExecutionStateRecord \<Rightarrow> SystemStatus" where
  "resolveResumedSystemStatus state =
     (if st_killSwitchActive state then KILL_SWITCHED
      else if truthy (st_degradedReason state) \<or> truthy (st_degradedAt state) then DEGRADED
      else RUNNING)"

definition resolveSystemStatusForDegradation :: "ExecutionStateRecord \<Rightarrow> SystemStatus" where
  "resolveSystemStatusForDegradation state =
     (if st_killSwitchActive state \<or> st_systemStatus state = KILL_SWITCHED then KILL_SWITCHED
      else if st_systemStatus state = PAUSED then PAUSED
      else DEGRADED)"

definition resume :: "string \<Rightarrow> operator_store \<Rightarrow> operator_store" where
  "resume now s =
     (let state = op_state s
      in recordTransition
           (state\<lparr>st_systemStatus := resolveResumedSystemStatus state, st_pauseReason := None, st_updatedAt := now\<rparr>)
           CmdResume None (defaultTransitionId s) s)"

definition activateKillSwitch :: "string option \<Rightarrow> string \<Rightarrow> operator_store \<Rightarrow> operator_store" where
  "activateKillSwitch reason now s =
     (let state = op_state s;
          pauseReason = (case reason of Some r \<Rightarrow> Some r | None \<Rightarrow> st_pauseReason state)
      in recordTransition
           (state\<lparr>st_killSwitchActive := True, st_systemStatus := KILL_SWITCHED, st_pauseReason := pauseReason,
                  st_updatedAt := now\<rparr>)
           CmdKillswitch pauseReason (defaultTransitionId s) s)"

definition setExecutionMode :: "ExecutionMode \<Rightarrow> string \<Rightarrow> operator_store \<Rightarrow> operator_store" where
  "setExecutionMode mode now s =
     recordTransition ((op_state s)\<lparr>st_executionMode := mode, st_updatedAt := now\<rparr>)
       SET_EXECUTION_MODE (Some (modeStr mode)) (defaultTransitionId s) s"

definition setLiveExecutionGate :: "LiveExecutionGate \<Rightarrow> string \<Rightarrow> operator_store \<Rightarrow> operator_store" where
  "setLiveExecutionGate gate now s =
     recordTransition ((op_state s)\<lparr>st_liveExecutionGate := gate, st_updatedAt := now\<rparr>)
       SET_LIVE_EXECUTION_GATE (Some (gateStr gate)) (defaultTransitionId s) s"

text \<open>The first clock reading is the one kept as \<open>degradedAt\<close> when none is recorded yet.\<close>

definition markDegraded :: "string option \<Rightarrow> string \<Rightarrow> string \<Rightarrow> operator_store \<Rightarrow> operator_store" where
  "markDegraded reason now1 now2 s =
     (let state = op_state s;
          degradedReason = (case reason of Some r \<Rightarrow> r
            | None \<Rightarrow> (case st_degradedReason state of Some r \<Rightarrow> r | None \<Rightarrow> ''startup_portfolio_drift_detected''));
          degradedAt = (case st_degradedAt state of Some t \<Rightarrow> t | None \<Rightarrow> now1)
      in recordTransition
           (state\<lparr>st_systemStatus := resolveSystemStatusForDegradation state, st_degradedReason := Some degradedReason,
                  st_degradedAt := Some degradedAt, st_updatedAt := now2\<rparr>)
           MARK_DEGRADED (Some degradedReason) (defaultTransitionId s) s)"

definition clearDegraded :: "string option \<Rightarrow> string \<Rightarrow> operator_store \<Rightarrow> operator_store" where
  "clearDegraded reason now s =
     (let state = op_state s
      in recordTransition
           (state\<lparr>st_systemStatus := (if st_systemStatus state = DEGRADED then RUNNING else st_systemStatus state),
                  st_degradedReason := None, st_degradedAt := None, st_updatedAt := now\<rparr>)
           CLEAR_DEGRADED (Some (case reason of Some r \<Rightarrow> r | None \<Rightarrow> ''startup_recovery_clean'')) (defaultTransitionId s) s)"

subsection \<open>Rollback authority\<close>

record CandidatePilotRollbackOperatorState =
  ro2_id :: string
  ro2_exchangeAccountId :: string
  ro2_systemStatus :: SystemStatus
  ro2_updatedAt :: string

definition validateCandidatePilotRollbackOperatorState ::
  "CandidatePilotRollbackOperatorState \<Rightarrow> CandidatePilotRollbackOperatorState res" where
  "validateCandidatePilotRollbackOperatorState value =
     ebind (requireNonEmpty (ro2_id value) ''candidate pilot rollback execution state id'') (\<lambda>_.
     ebind (requireNonEmpty (ro2_exchangeAccountId value) ''candidate pilot rollback execution state exchangeAccountId'') (\<lambda>_.
     ebind (throw_if (ro2_systemStatus value \<noteq> PAUSED \<and> ro2_systemStatus value \<noteq> KILL_SWITCHED)
       (Error ''Candidate pilot rollback expected operator state must be PAUSED or KILL_SWITCHED.'')) (\<lambda>_.
     ebind (parsePositionGuardCandidateTimestamp (ro2_updatedAt value)
       ''candidate pilot rollback expected operator state updatedAt'') (\<lambda>_.
     Inr value))))"

definition matchesCandidatePilotRollbackOperatorState ::
  "ExecutionStateRecord \<Rightarrow> CandidatePilotRollbackOperatorState \<Rightarrow> string \<Rightarrow> bool" where
  "matchesCandidatePilotRollbackOperatorState current expected deploymentExchangeAccountId \<longleftrightarrow>
     ro2_exchangeAccountId expected = deploymentExchangeAccountId \<and>
     st_id current = ro2_id expected \<and>
     st_exchangeAccountId current = ro2_exchangeAccountId expected \<and>
     st_systemStatus current = ro2_systemStatus expected \<and>
     st_updatedAt current = ro2_updatedAt expected \<and>
     (st_systemStatus current = PAUSED \<or> st_systemStatus current = KILL_SWITCHED)"

text \<open>
  The operation is a callback on the rest of the world. \<open>Inr None\<close> is the answer with
  \<open>authorityMatched: false\<close>, \<open>Inr (Some v)\<close> the one with the operation's value.
\<close>

definition runWithCandidatePilotRollbackAuthority ::
  "operator_store \<Rightarrow> CandidatePilotRollbackOperatorState \<Rightarrow> ('w, js_error, 'a) sm \<Rightarrow> ('w, js_error, 'a option) sm" where
  "runWithCandidatePilotRollbackAuthority s expected operation w =
     (case validateCandidatePilotRollbackOperatorState expected of
        Inl e \<Rightarrow> (Inl e, w)
      | Inr authority \<Rightarrow>
          if \<not> matchesCandidatePilotRollbackOperatorState (op_state s) authority (ro2_exchangeAccountId authority)
          then (Inr None, w)
          else sbind operation (\<lambda>v. sreturn (Some v)) w)"

subsection \<open>Seed comparison\<close>

definition detectExecutionStateSeedMismatches :: "ExecutionStateRecord \<Rightarrow> ExecutionStateSeed \<Rightarrow> string list" where
  "detectExecutionStateSeedMismatches state seed =
     (if st_executionMode state \<noteq> se_executionMode seed then [''execution_mode''] else []) @
     (if st_liveExecutionGate state \<noteq> se_liveExecutionGate seed then [''live_execution_gate''] else []) @
     (if st_killSwitchActive state \<noteq> se_killSwitchActive seed then [''kill_switch''] else [])"

subsection \<open>Sequences of operations\<close>

datatype operator_op =
    OpPause "string option" string
  | OpResume string
  | OpKillSwitch "string option" string
  | OpSetMode ExecutionMode string
  | OpSetGate LiveExecutionGate string
  | OpMarkDegraded "string option" string string
  | OpClearDegraded "string option" string
  | OpPauseForFault FaultPauseInput

fun operator_step :: "operator_op \<Rightarrow> operator_store \<Rightarrow> operator_store" where
  "operator_step (OpPause r t) s = pause r t s"
| "operator_step (OpResume t) s = resume t s"
| "operator_step (OpKillSwitch r t) s = activateKillSwitch r t s"
| "operator_step (OpSetMode m t) s = setExecutionMode m t s"
| "operator_step (OpSetGate g t) s = setLiveExecutionGate g t s"
| "operator_step (OpMarkDegraded r t u) s = markDegraded r t u s"
| "operator_step (OpClearDegraded r t) s = clearDegraded r t s"
| "operator_step (OpPauseForFault i) s = snd (applyFaultPauseAtomically i s)"

definition stopped :: "ExecutionStateRecord \<Rightarrow> bool" where
  "stopped st \<longleftrightarrow> st_systemStatus st = PAUSED \<or> st_systemStatus st = KILL_SWITCHED"

definition killed :: "ExecutionStateRecord \<Rightarrow> bool" where
  "killed st \<longleftrightarrow> st_killSwitchActive st \<and> st_systemStatus st = KILL_SWITCHED"

lemmas operator_defs = pause_def resume_def activateKillSwitch_def setExecutionMode_def setLiveExecutionGate_def
  markDegraded_def clearDegraded_def recordTransition_def Let_def resolveResumedSystemStatus_def
  resolveSystemStatusForDegradation_def

text \<open>A fault pause either leaves the store alone or writes one transition into a stopped state.\<close>

lemma applyFaultPause_cases:
  assumes "applyFaultPauseAtomically i s = (r, s')"
  obtains (failed) e where "r = Inl e" "s' = s"
  | (replayed) t where "r = Inr (op_state s)" "s' = s" "stopped (op_state s)"
      "getTransitionById (fp_faultId i) s = Some t"
  | (applied) nxt where "r = Inr nxt" "getTransitionById (fp_faultId i) s = None"
      "s' = recordTransition nxt AUTOMATIC_PAUSE (Some (formatFaultPauseReason i)) (fp_faultId i) s"
      "validateFaultPauseInput i = Inr ()" "fp_exchangeAccountId i = st_exchangeAccountId (op_state s)"
      "validateFaultPauseTimestamp i (op_state s) = Inr (st_updatedAt nxt)"
      "st_exchangeAccountId nxt = st_exchangeAccountId (op_state s)"
      "st_killSwitchActive nxt = st_killSwitchActive (op_state s)" "stopped nxt"
      "st_killSwitchActive (op_state s) \<or> st_systemStatus (op_state s) = KILL_SWITCHED \<Longrightarrow> st_systemStatus nxt = KILL_SWITCHED"
proof (cases "validateFaultPauseInput i = Inr () \<and> fp_exchangeAccountId i = st_exchangeAccountId (op_state s)")
  case False
  then have "\<exists>e. applyFaultPauseAtomically i s = (Inl e, s)"
    by (cases "validateFaultPauseInput i") (auto simp: applyFaultPauseAtomically_def)
  with assms failed show thesis by auto
next
  case True
  show thesis
  proof (cases "getTransitionById (fp_faultId i) s")
    case (Some t)
    then have "applyFaultPauseAtomically i s = (Inr (op_state s), s) \<and> stopped (op_state s) \<or>
        (\<exists>e. applyFaultPauseAtomically i s = (Inl e, s))"
      using True by (auto simp: applyFaultPauseAtomically_def stopped_def Let_def)
    with assms failed replayed Some show thesis by auto
  next
    case None
    show thesis
    proof (cases "validateFaultPauseTimestamp i (op_state s)")
      case (Inl e)
      with True None have "applyFaultPauseAtomically i s = (Inl e, s)" by (simp add: applyFaultPauseAtomically_def)
      with assms failed show thesis by auto
    next
      case (Inr ts)
      let ?ks = "st_killSwitchActive (op_state s) \<or> st_systemStatus (op_state s) = KILL_SWITCHED"
      let ?n = "(op_state s)\<lparr>st_systemStatus := (if ?ks then KILL_SWITCHED else PAUSED),
        st_pauseReason := (if ?ks then st_pauseReason (op_state s) else Some (formatFaultPauseReason i)), st_updatedAt := ts\<rparr>"
      have "applyFaultPauseAtomically i s =
          (Inr ?n, recordTransition ?n AUTOMATIC_PAUSE (Some (formatFaultPauseReason i)) (fp_faultId i) s)"
        using True None Inr by (simp add: applyFaultPauseAtomically_def Let_def)
      with assms True None Inr show thesis by (intro applied [of ?n]) (auto simp: stopped_def)
    qed
  qed
qed

lemma step_killed: "killed (op_state s) \<Longrightarrow> killed (op_state (operator_step p s))"
proof (cases p)
  case (OpPauseForFault i)
  assume k: "killed (op_state s)"
  obtain r s' where run: "applyFaultPauseAtomically i s = (r, s')" by fastforce
  then have "killed (op_state s')"
    by (cases rule: applyFaultPause_cases) (use k in \<open>auto simp: killed_def recordTransition_def\<close>)
  with OpPauseForFault run show ?thesis by simp
qed (auto simp: killed_def operator_defs)

lemma step_stopped:
  "stopped (op_state s) \<Longrightarrow> (\<And>t. p \<noteq> OpResume t) \<Longrightarrow> stopped (op_state (operator_step p s))"
proof (cases p)
  case (OpPauseForFault i)
  assume k: "stopped (op_state s)"
  obtain r s' where run: "applyFaultPauseAtomically i s = (r, s')" by fastforce
  then have "stopped (op_state s')"
    by (cases rule: applyFaultPause_cases) (use k in \<open>auto simp: recordTransition_def\<close>)
  with OpPauseForFault run show ?thesis by simp
qed (auto simp: stopped_def operator_defs)

lemma fold_step_invariant:
  "P s \<Longrightarrow> (\<And>p s. p \<in> set ps \<Longrightarrow> P s \<Longrightarrow> P (f p s)) \<Longrightarrow> P (fold f ps s)"
  by (induction ps arbitrary: s) auto

subsection \<open>The interface of a fault-pause store\<close>

text \<open>
  What the repositories and the execution service rely on when they pause trading: success means trading
  is stopped, and failure means nothing has changed.
\<close>

locale fault_pauser =
  fixes pauseForFault :: "FaultPauseInput \<Rightarrow> ('s, js_error, ExecutionStateRecord) sm"
    and current :: "'s \<Rightarrow> ExecutionStateRecord"
  assumes pause_stops: "pauseForFault i s = (Inr st, s') \<Longrightarrow> current s' = st \<and> stopped st"
    and pause_atomic: "pauseForFault i s = (Inl e, s') \<Longrightarrow> s' = s"
begin

lemma pause_never_starts: "pauseForFault i s = (r, s') \<Longrightarrow> stopped (current s) \<Longrightarrow> stopped (current s')"
  using pause_stops pause_atomic by (cases r) (metis, metis)

end

interpretation opstore: fault_pauser applyFaultPauseAtomically op_state
proof
  fix i s st s' assume "applyFaultPauseAtomically i s = (Inr st, s')"
  then show "op_state s' = st \<and> stopped st"
    by (cases rule: applyFaultPause_cases) (auto simp: recordTransition_def)
next
  fix i s e s' assume "applyFaultPauseAtomically i s = (Inl e, s')"
  then show "s' = s" by (cases rule: applyFaultPause_cases) auto
qed

subsection \<open>Properties\<close>

text \<open>
  C22. The kill switch is permanent: after it is activated, no sequence of operations of the store (resume,
  mode and gate changes, degradation and recovery, pauses) deactivates it or leaves the kill-switched status.
\<close>

theorem kill_switch_permanent:
  "st_killSwitchActive (op_state (fold operator_step ps (activateKillSwitch reason now s))) \<and>
   st_systemStatus (op_state (fold operator_step ps (activateKillSwitch reason now s))) = KILL_SWITCHED"
proof -
  have "killed (op_state (activateKillSwitch reason now s))" by (simp add: killed_def operator_defs)
  then have "killed (op_state (fold operator_step ps (activateKillSwitch reason now s)))"
    by (rule fold_step_invariant) (rule step_killed)
  then show ?thesis by (simp add: killed_def)
qed

text \<open>
  C21. An accepted fault pause keeps trading stopped until an operator resumes: after it, any sequence of
  operations without a resume ends in PAUSED or KILL\_SWITCHED.
\<close>

theorem fault_pause_holds:
  assumes "applyFaultPauseAtomically i s = (Inr st, s')" and "list_all (\<lambda>p. \<forall>t. p \<noteq> OpResume t) ps"
  shows "st_systemStatus (op_state (fold operator_step ps s')) \<in> {PAUSED, KILL_SWITCHED}"
proof -
  have "stopped (op_state s')" using opstore.pause_stops [OF assms(1)] by simp
  then have "stopped (op_state (fold operator_step ps s'))"
    using assms(2) by (rule_tac fold_step_invariant) (auto simp: list_all_iff intro: step_stopped)
  then show ?thesis by (auto simp: stopped_def)
qed

text \<open>
  The audit trail, newest first: every entry starts where the entry before it ended, the oldest is the
  bootstrap entry, and the newest ends in the current state.
\<close>

definition endsAt :: "ExecutionStateTransitionRecord \<Rightarrow> ExecutionMode \<times> LiveExecutionGate \<times> SystemStatus \<times> bool" where
  "endsAt t = (tr_toExecutionMode t, tr_toLiveExecutionGate t, tr_toSystemStatus t, tr_toKillSwitchActive t)"

definition startsAt ::
  "ExecutionStateTransitionRecord \<Rightarrow> ExecutionMode option \<times> LiveExecutionGate option \<times> SystemStatus option \<times> bool option" where
  "startsAt t = (tr_fromExecutionMode t, tr_fromLiveExecutionGate t, tr_fromSystemStatus t, tr_fromKillSwitchActive t)"

fun chained :: "ExecutionStateTransitionRecord list \<Rightarrow> bool" where
  "chained [] = False"
| "chained [t] = (tr_command t = BOOTSTRAP \<and> startsAt t = (None, None, None, None))"
| "chained (t # u # ts) = ((case endsAt u of (m, g, st, k) \<Rightarrow> startsAt t = (Some m, Some g, Some st, Some k)) \<and> chained (u # ts))"

definition audited :: "operator_store \<Rightarrow> bool" where
  "audited s \<longleftrightarrow> chained (op_transitions s) \<and>
     endsAt (hd (op_transitions s)) = (st_executionMode (op_state s), st_liveExecutionGate (op_state s),
       st_systemStatus (op_state s), st_killSwitchActive (op_state s)) \<and>
     tr_createdAt (hd (op_transitions s)) = st_updatedAt (op_state s)"

lemma audited_record: "audited s \<Longrightarrow> audited (recordTransition nxt cmd r ident s)"
  by (cases "op_transitions s")
    (auto simp: audited_def recordTransition_def transitionOf_def endsAt_def startsAt_def)

lemma audited_step: "audited s \<Longrightarrow> audited (operator_step p s)"
proof (cases p)
  case (OpPauseForFault i)
  assume a: "audited s"
  obtain r s' where run: "applyFaultPauseAtomically i s = (r, s')" by fastforce
  then have "audited s'" by (cases rule: applyFaultPause_cases) (use a in \<open>auto intro: audited_record\<close>)
  with OpPauseForFault run show ?thesis by simp
qed (simp_all add: pause_def resume_def activateKillSwitch_def setExecutionMode_def setLiveExecutionGate_def
      markDegraded_def clearDegraded_def Let_def audited_record)

text \<open>
  The transition log is a complete audit trail: whatever operations run after the store is created, the
  oldest entry is the bootstrap, each entry starts in exactly the mode, gate, status and kill switch in which
  the previous one ended, and the newest entry ends in the current state at its update time.
\<close>

theorem transition_log_audits_state:
  "audited (fold operator_step ps (newOperatorStateStore st))"
proof (rule fold_step_invariant)
  show "audited (newOperatorStateStore st)"
    by (simp add: audited_def newOperatorStateStore_def startsAt_def endsAt_def)
qed (rule audited_step)

lemma parseStrict_label: "parseStrictIsoTimestamp t l = Inr v \<Longrightarrow> parseStrictIsoTimestamp t l' = Inr v"
  by (auto simp: parseStrictIsoTimestamp_def Let_def split: option.splits if_splits jsnum.splits)

lemma fault_pause_timestamp:
  assumes "validateFaultPauseInput i = Inr ()" and "validateFaultPauseTimestamp i st = Inr ts"
  shows "faultPauseTransitionMatchesOccurrence i ts" and
    "\<exists>v u. parseStrictIsoTimestamp ts l = Inr v \<and> parseStrictIsoTimestamp (st_updatedAt st) l = Inr u \<and> u \<le> v"
proof -
  show "faultPauseTransitionMatchesOccurrence i ts"
  proof (cases "fp_transitionAt i")
    case None
    with assms(2) show ?thesis
      by (auto simp: faultPauseTransitionMatchesOccurrence_def validateFaultPauseTimestamp_def Let_def res_simps split: if_splits)
  next
    case (Some t)
    with assms(1) obtain a b where ab: "parseStrictIsoTimestamp (fp_occurredAt i) ''occurredAt'' = Inr a"
      "parseStrictIsoTimestamp t ''transitionAt'' = Inr b" "a \<le> b"
      by (auto simp: validateFaultPauseInput_def res_simps)
    from assms(2) Some ab(2) obtain c where c: "parseStrictIsoTimestamp (st_updatedAt st) ''current updatedAt'' = Inr c"
      "ts = (if b < c then st_updatedAt st else t)"
      by (auto simp: validateFaultPauseTimestamp_def Let_def res_simps)
    have "parseStrictIsoTimestamp ts ''persisted transition createdAt'' = Inr (max b c)"
      using c parseStrict_label [OF ab(2)] parseStrict_label [OF c(1)] by auto
    with Some ab show ?thesis by (simp add: faultPauseTransitionMatchesOccurrence_def)
  qed
  from assms(2) obtain b c where bc:
    "parseStrictIsoTimestamp (case fp_transitionAt i of None \<Rightarrow> fp_occurredAt i | Some t \<Rightarrow> t) ''transitionAt'' = Inr b"
    "parseStrictIsoTimestamp (st_updatedAt st) ''current updatedAt'' = Inr c"
    "ts = (if b < c then st_updatedAt st else (case fp_transitionAt i of None \<Rightarrow> fp_occurredAt i | Some t \<Rightarrow> t))"
    by (auto simp: validateFaultPauseTimestamp_def Let_def res_simps)
  then show "\<exists>v u. parseStrictIsoTimestamp ts l = Inr v \<and> parseStrictIsoTimestamp (st_updatedAt st) l = Inr u \<and> u \<le> v"
    using parseStrict_label [OF bc(1), of l] parseStrict_label [OF bc(2), of l] by auto
qed

text \<open>
  A fault pause can be retried: replaying an accepted pause answers the same state and leaves the store as
  it is. The first application records its own identifier and reason and never moves the state's update
  time back.
\<close>

theorem fault_pause_replay:
  assumes run: "applyFaultPauseAtomically i s = (Inr st, s')"
  shows "applyFaultPauseAtomically i s' = (Inr st, s') \<and> (s' \<noteq> s \<longrightarrow>
    (\<exists>v u. parseStrictIsoTimestamp (st_updatedAt st) [] = Inr v \<and>
       parseStrictIsoTimestamp (st_updatedAt (op_state s)) [] = Inr u \<and> u \<le> v))"
  using run
proof (cases rule: applyFaultPause_cases)
  case (failed e)
  then show ?thesis by simp
next
  case (replayed t)
  with run show ?thesis by simp
next
  case (applied nxt)
  note ts = fault_pause_timestamp [OF applied(4,6)]
  have "getTransitionById (fp_faultId i) s' =
      Some (transitionOf (op_state s) nxt AUTOMATIC_PAUSE (Some (formatFaultPauseReason i)) (fp_faultId i))"
    by (simp add: applied(3) getTransitionById_def recordTransition_def transitionOf_def)
  moreover have "op_state s' = nxt" by (simp add: applied(3) recordTransition_def)
  ultimately have "applyFaultPauseAtomically i s' = (Inr nxt, s')"
    using applied ts(1) by (simp add: applyFaultPauseAtomically_def transitionOf_def stopped_def Let_def)
  with applied ts(2) [of "[]"] show ?thesis by simp
qed

definition sampleState :: ExecutionStateRecord where
  "sampleState = \<lparr>st_id = ''st'', st_exchangeAccountId = ''acc'', st_executionMode = LIVE, st_liveExecutionGate = ENABLED,
     st_systemStatus = RUNNING, st_killSwitchActive = False, st_pauseReason = None, st_degradedReason = None,
     st_degradedAt = None, st_updatedAt = ''2026-01-01T00:00:00Z''\<rparr>"

definition sampleFault :: FaultPauseInput where
  "sampleFault = \<lparr>fp_exchangeAccountId = ''acc'', fp_faultId = ''fault-1'', fp_reason = ''lost'',
     fp_occurredAt = ''2026-01-01T00:00:05Z'', fp_transitionAt = None\<rparr>"

lemma sampleFault_accepted:
  "\<exists>st s'. applyFaultPauseAtomically sampleFault (newOperatorStateStore sampleState) = (Inr st, s')"
proof -
  have "\<not> isl (fst (applyFaultPauseAtomically sampleFault (newOperatorStateStore sampleState)))" by code_simp
  then show ?thesis
    by (cases "applyFaultPauseAtomically sampleFault (newOperatorStateStore sampleState)")
      (auto simp: isl_def split: sum.splits, metis sum.exhaust)
qed

theorem fault_pause_holds_witness:
  "\<exists>st s'. applyFaultPauseAtomically sampleFault (newOperatorStateStore sampleState) = (Inr st, s') \<and>
     st_systemStatus (op_state (fold operator_step [OpMarkDegraded None ''t'' ''u'', OpClearDegraded None ''v''] s'))
     \<in> {PAUSED, KILL_SWITCHED}"
proof -
  obtain st s' where run: "applyFaultPauseAtomically sampleFault (newOperatorStateStore sampleState) = (Inr st, s')"
    using sampleFault_accepted by blast
  from fault_pause_holds [OF run, of "[OpMarkDegraded None ''t'' ''u'', OpClearDegraded None ''v'']"] run
  show ?thesis by auto
qed

theorem fault_pause_replay_witness:
  "\<exists>st s'. applyFaultPauseAtomically sampleFault (newOperatorStateStore sampleState) = (Inr st, s') \<and>
     applyFaultPauseAtomically sampleFault s' = (Inr st, s')"
  using sampleFault_accepted fault_pause_replay [of sampleFault "newOperatorStateStore sampleState"] by blast

end
