(* ===== verification/AtomicLifecycle.thy ===== *)
theory AtomicLifecycle
  imports SubmissionBlocking OperatorState
begin

section \<open>Validation of order lifecycle writes\<close>

text \<open>
  \<open>src/src/modules/db/repositories/atomic-lifecycle-validation.ts\<close>: what both repositories check before
  they write an order intent, an exchange submission, an uncertain submission, a reconciled snapshot or a
  reconciliation recovery. \<open>recordsEqual\<close> compares own enumerable keys with \<open>===\<close>; on records whose
  fields are strings, booleans and nulls it is equality of the records.
\<close>

subsection \<open>Inputs\<close>

record PersistOrderIntentInput =
  pi_order :: OrderRecord
  pi_event :: OrderEventRecord

record PersistExchangeSubmissionInput =
  px_order :: OrderRecord
  px_event :: OrderEventRecord
  px_fills :: "FillRecord list"
  px_terminalEvent :: "OrderEventRecord option"

record PersistReconciledExchangeSnapshotInput =
  pr_expectedOrder :: OrderRecord
  pr_order :: OrderRecord
  pr_event :: "OrderEventRecord option"
  pr_fills :: "FillRecord list"

record PersistReconciliationRecoveryInput =
  pv_expectedOrder :: OrderRecord
  pv_order :: OrderRecord
  pv_event :: OrderEventRecord
  pv_riskEvent :: RiskEventRecord

record PersistUncertainSubmissionInput =
  pu_order :: OrderRecord
  pu_event :: OrderEventRecord
  pu_riskEvent :: RiskEventRecord

datatype Completion = APPLY | RETRY

datatype FillResolution = INSERT | PRESERVE

definition recordsEqual :: "'a \<Rightarrow> 'a \<Rightarrow> bool" where
  "recordsEqual left right \<longleftrightarrow> left = right"

subsection \<open>Events and fills\<close>

definition validateOrderEvent :: "OrderRecord \<Rightarrow> OrderEventRecord \<Rightarrow> string \<Rightarrow> EventSource \<Rightarrow> unit res" where
  "validateOrderEvent ord event type source =
     throw_if (ev_orderId event \<noteq> or_id ord \<or> ev_eventType event \<noteq> type \<or> ev_eventSource event \<noteq> source)
       (Error (''Order event '' @ ev_id event @ '' is not canonical for order '' @ or_id ord @ ''.''))"

definition eventSourceForExecutionMode :: "ExecutionMode \<Rightarrow> EventSource" where
  "eventSourceForExecutionMode executionMode = (if executionMode = DRY_RUN then LOCAL else EXCHANGE)"

definition nul :: char where
  "nul = CHR 0x00"

definition fillIdentity :: "FillRecord \<Rightarrow> string" where
  "fillIdentity fill = fl_id fill @ [nul] @ fl_orderId fill @ [nul] @ fl_exchangeFillId fill"

definition fillExchangeIdentity :: "FillRecord \<Rightarrow> string" where
  "fillExchangeIdentity fill = fl_orderId fill @ [nul] @ fl_exchangeFillId fill"

text \<open>The loop over the fills with the two growing sets of identities seen so far.\<close>

fun validateFillsLoop :: "OrderRecord \<Rightarrow> string list \<Rightarrow> string list \<Rightarrow> FillRecord list \<Rightarrow> unit res" where
  "validateFillsLoop ord ids exchangeIdentities [] = Inr ()"
| "validateFillsLoop ord ids exchangeIdentities (fill # fills) =
     ebind (throw_if (fl_orderId fill \<noteq> or_id ord \<or> fl_market fill \<noteq> oi_market ord \<or> fl_side fill \<noteq> oi_side ord \<or>
              fl_id fill \<in> set ids \<or> fillExchangeIdentity fill \<in> set exchangeIdentities)
       (Error (''Fill '' @ fl_id fill @ '' is invalid for order '' @ or_id ord @ ''.''))) (\<lambda>_.
     validateFillsLoop ord (fl_id fill # ids) (fillExchangeIdentity fill # exchangeIdentities) fills)"

definition validateFills :: "OrderRecord \<Rightarrow> FillRecord list \<Rightarrow> unit res" where
  "validateFills ord fills = validateFillsLoop ord [] [] fills"

definition validateExactDecimal :: "string \<Rightarrow> string \<Rightarrow> bool \<Rightarrow> unit res" where
  "validateExactDecimal value label allowZero =
     ebind (throw_if (\<not> isPlainDecimal value) (Error (label @ '' must be a plain non-negative decimal string.''))) (\<lambda>_.
     throw_if (\<not> allowZero \<and> \<not> list_ex (\<lambda>c. is_digit c \<and> c \<noteq> CHR ''0'') value)
       (Error (label @ '' must be greater than zero.'')))"

definition validateFillForOrder :: "OrderRecord \<Rightarrow> FillRecord \<Rightarrow> unit res" where
  "validateFillForOrder ord fill =
     ebind (throw_if (fl_orderId fill \<noteq> or_id ord \<or> fl_market fill \<noteq> oi_market ord \<or> fl_side fill \<noteq> oi_side ord)
       (Error (''Fill '' @ fl_id fill @ '' identity does not match order '' @ or_id ord @ ''.''))) (\<lambda>_.
     ebind (validateExactDecimal (fl_price fill) ''fill price'' False) (\<lambda>_.
     ebind (validateExactDecimal (fl_volume fill) ''fill volume'' False) (\<lambda>_.
     ebind (case fl_feeAmount fill of None \<Rightarrow> Inr () | Some fee \<Rightarrow> validateExactDecimal fee ''fill fee amount'' True) (\<lambda>_.
     throw_if (case fl_executionEpochNs fill of None \<Rightarrow> False | Some ns \<Rightarrow> \<not> (ns \<noteq> [] \<and> list_all is_digit ns))
       (Error (''Fill '' @ fl_id fill @ '' executionEpochNs must be an exact non-negative integer string.''))))))"

definition normalizeFillFeeProvenance :: "FillRecord \<Rightarrow> FillRecord" where
  "normalizeFillFeeProvenance record =
     record\<lparr>fl_feeProvenance := (case fl_feeProvenance record of None \<Rightarrow> Some FEE_LEGACY_UNVERIFIED | p \<Rightarrow> p),
            fl_executionTimestampProvenance :=
              (case fl_executionTimestampProvenance record of None \<Rightarrow> Some TS_LEGACY_UNVERIFIED | p \<Rightarrow> p)\<rparr>"

definition resolveImmutableFillReplay :: "FillRecord option \<Rightarrow> FillRecord \<Rightarrow> FillResolution res" where
  "resolveImmutableFillReplay existing fill =
     (case existing of
        None \<Rightarrow> Inr INSERT
      | Some ex \<Rightarrow>
          if fillExchangeIdentity ex \<noteq> fillExchangeIdentity fill \<or> (fl_id ex = fl_id fill \<and> fl_orderId ex \<noteq> fl_orderId fill)
          then Inl (Error (''Conflicting fill identity '' @ fl_id fill @ ''.''))
          else if \<not> recordsEqual (ex\<lparr>fl_id := []\<rparr>) (fill\<lparr>fl_id := []\<rparr>)
          then Inl (Error (''Conflicting duplicate fill '' @ fl_exchangeFillId fill @ ''.''))
          else Inr PRESERVE)"

text \<open>\<open>new Map(right.map(r => [identity(r), r]))\<close> has as many entries as \<open>right\<close> when the identities differ.\<close>

definition recordsEqualSet :: "'a list \<Rightarrow> 'a list \<Rightarrow> ('a \<Rightarrow> string) \<Rightarrow> bool" where
  "recordsEqualSet left right identity \<longleftrightarrow>
     length left = length right \<and> distinct (map identity right) \<and>
     list_all (\<lambda>record. case find (\<lambda>r. identity r = identity record) right of
        None \<Rightarrow> False | Some matching \<Rightarrow> recordsEqual record matching) left"

subsection \<open>Orders\<close>

text \<open>The immutable fields, in the order in which they are compared.\<close>

definition immutableFieldChanges :: "OrderRecord \<Rightarrow> OrderRecord \<Rightarrow> (string \<times> bool) list" where
  "immutableFieldChanges existing nxt =
     [(''strategyDecisionId'', oi_strategyDecisionId existing \<noteq> oi_strategyDecisionId nxt),
      (''exchangeAccountId'', oi_exchangeAccountId existing \<noteq> oi_exchangeAccountId nxt),
      (''market'', oi_market existing \<noteq> oi_market nxt), (''side'', oi_side existing \<noteq> oi_side nxt),
      (''ordType'', oi_ordType existing \<noteq> oi_ordType nxt), (''volume'', oi_volume existing \<noteq> oi_volume nxt),
      (''price'', oi_price existing \<noteq> oi_price nxt), (''timeInForce'', oi_timeInForce existing \<noteq> oi_timeInForce nxt),
      (''smpType'', oi_smpType existing \<noteq> oi_smpType nxt), (''identifier'', oi_identifier existing \<noteq> oi_identifier nxt),
      (''idempotencyKey'', oi_idempotencyKey existing \<noteq> oi_idempotencyKey nxt),
      (''origin'', oi_origin existing \<noteq> oi_origin nxt), (''requestedAt'', oi_requestedAt existing \<noteq> oi_requestedAt nxt),
      (''executionMode'', or_executionMode existing \<noteq> or_executionMode nxt),
      (''createdAt'', or_createdAt existing \<noteq> or_createdAt nxt)]"

definition validateOrderIdentity :: "OrderRecord \<Rightarrow> OrderRecord \<Rightarrow> unit res" where
  "validateOrderIdentity existing nxt =
     ebind (throw_if (or_id existing \<noteq> or_id nxt) (Error ''Order identity cannot change id.'')) (\<lambda>_.
     case find snd (immutableFieldChanges existing nxt) of
       None \<Rightarrow> Inr ()
     | Some (field, _) \<Rightarrow> Inl (Error (''Order '' @ or_id nxt @ '' cannot change immutable '' @ field @ ''.'')))"

fun validateNewOrderUniqueness :: "OrderRecord list \<Rightarrow> OrderRecord \<Rightarrow> unit res" where
  "validateNewOrderUniqueness [] nxt = Inr ()"
| "validateNewOrderUniqueness (existing # rest) nxt =
     (if or_id existing = or_id nxt then Inl (Error (''Conflicting duplicate order id '' @ or_id nxt @ ''.''))
      else if oi_identifier existing = oi_identifier nxt
      then Inl (Error (''Conflicting duplicate order identifier '' @ oi_identifier nxt @ ''.''))
      else if oi_exchangeAccountId existing = oi_exchangeAccountId nxt \<and> oi_idempotencyKey existing = oi_idempotencyKey nxt
      then Inl (Error (''Conflicting duplicate order idempotency key '' @ oi_idempotencyKey nxt @ ''.''))
      else validateNewOrderUniqueness rest nxt)"

definition validateOrderIntentInput :: "PersistOrderIntentInput \<Rightarrow> unit res" where
  "validateOrderIntentInput input =
     ebind (throw_if (or_status (pi_order input) \<noteq> PERSISTED) (Error ''Order intent must have PERSISTED status.'')) (\<lambda>_.
     validateOrderEvent (pi_order input) (pi_event input) ''ORDER_PERSISTED'' LOCAL)"

definition validateExchangeSubmissionInput :: "PersistExchangeSubmissionInput \<Rightarrow> unit res" where
  "validateExchangeSubmissionInput input =
     (let ord = px_order input; event = px_event input; fills = px_fills input;
          expectedEventSource = eventSourceForExecutionMode (or_executionMode ord)
      in
      ebind (throw_if (case px_terminalEvent input of None \<Rightarrow> False | Some t \<Rightarrow> ev_id t = ev_id event)
        (Error ''Submission and terminal order events must use distinct ids.'')) (\<lambda>_.
      ebind (if or_status ord = OPEN then
               throw_if (fills \<noteq> []) (Error ''OPEN exchange submissions must not contain fills.'')
             else if or_status ord = PARTIALLY_FILLED \<or> or_status ord = FILLED then
               throw_if (fills = []) (Error (statusStr (or_status ord) @ '' exchange submissions require at least one fill.''))
             else if or_status ord = REJECTED then
               throw_if (fills \<noteq> []) (Error ''REJECTED exchange submissions must not contain fills.'')
             else Inl (Error (''Exchange submission has unsupported status '' @ statusStr (or_status ord) @ ''.''))) (\<lambda>_.
      ebind (validateOrderEvent ord event (if or_status ord = REJECTED then ''ORDER_REJECTED'' else ''ORDER_SUBMITTED'')
        expectedEventSource) (\<lambda>_.
      ebind (case px_terminalEvent input of
               Some t \<Rightarrow> ebind (throw_if (or_status ord \<noteq> FILLED) (Error ''Terminal submission events require a FILLED order.''))
                   (\<lambda>_. validateOrderEvent ord t ''ORDER_FILLED'' expectedEventSource)
             | None \<Rightarrow> throw_if (or_status ord = FILLED)
                   (Error ''FILLED exchange submissions require terminal order evidence.'')) (\<lambda>_.
      validateFills ord fills)))))"

definition uncertainRiskLinked :: "RiskEventLevel \<Rightarrow> RiskRuleCode \<Rightarrow> OrderRecord \<Rightarrow> RiskEventRecord \<Rightarrow> bool" where
  "uncertainRiskLinked level code ord riskEvent \<longleftrightarrow>
     rk_level riskEvent = level \<and> rk_ruleCode riskEvent = code \<and> rk_orderId riskEvent = Some (or_id ord) \<and>
     rk_exchangeAccountId riskEvent = oi_exchangeAccountId ord \<and>
     rk_strategyDecisionId riskEvent = oi_strategyDecisionId ord"

definition validateUncertainSubmissionInput :: "PersistUncertainSubmissionInput \<Rightarrow> unit res" where
  "validateUncertainSubmissionInput input =
     (let ord = pu_order input in
      ebind (throw_if (or_status ord \<noteq> RECONCILIATION_REQUIRED)
        (Error ''Uncertain submission must have RECONCILIATION_REQUIRED status.'')) (\<lambda>_.
      ebind (throw_if (or_failureCode ord \<noteq> Some ''RECONCILIATION_REQUIRED'')
        (Error ''Uncertain submission must use RECONCILIATION_REQUIRED failureCode.'')) (\<lambda>_.
      ebind (validateOrderEvent ord (pu_event input) ''RECONCILIATION_RECOVERY_REQUIRED''
        (eventSourceForExecutionMode (or_executionMode ord))) (\<lambda>_.
      throw_if (\<not> uncertainRiskLinked BLOCK POSITION_GUARD_PILOT_UNCERTAIN_ORDER ord (pu_riskEvent input))
        (Error ''Uncertain submission risk event must exactly link the blocked order.'')))))"

definition notYetSubmitted :: "OrderRecord \<Rightarrow> bool" where
  "notYetSubmitted ord \<longleftrightarrow> or_status ord = PERSISTED \<or> or_status ord = SUBMITTING"

definition validateExchangeSubmissionCompletion ::
  "OrderRecord \<Rightarrow> OrderRecord \<Rightarrow> PersistExchangeSubmissionInput \<Rightarrow> OrderEventRecord list \<Rightarrow> FillRecord list \<Rightarrow> Completion res" where
  "validateExchangeSubmissionCompletion currentOrder nextOrder input existingEvents existingFills =
     ebind (validateOrderIdentity currentOrder nextOrder) (\<lambda>_.
     let submissionEvents = filter (\<lambda>event. ev_eventType event = ''ORDER_SUBMITTED'' \<or> ev_eventType event = ''ORDER_REJECTED'') existingEvents;
         terminalEvents = filter (\<lambda>event. ev_eventType event = ''ORDER_FILLED'') existingEvents
     in if notYetSubmitted currentOrder then
          (if submissionEvents = [] \<and> terminalEvents = [] \<and> existingFills = [] then Inr APPLY
           else Inl (Error (''Corrupt partial exchange submission children for order '' @ or_id nextOrder @ ''.'')))
        else if recordsEqual currentOrder nextOrder \<and> length submissionEvents = 1 \<and>
          recordsEqual (hd submissionEvents) (px_event input) \<and>
          (case px_terminalEvent input of None \<Rightarrow> terminalEvents = []
           | Some t \<Rightarrow> length terminalEvents = 1 \<and> recordsEqual (hd terminalEvents) t) \<and>
          recordsEqualSet existingFills (px_fills input) fillIdentity
        then Inr RETRY
        else Inl (Error (''Conflicting exchange submission for order '' @ or_id nextOrder @ ''.'')))"

definition validateUncertainSubmissionCompletion ::
  "OrderRecord \<Rightarrow> OrderRecord \<Rightarrow> PersistUncertainSubmissionInput \<Rightarrow> OrderEventRecord list \<Rightarrow> RiskEventRecord list \<Rightarrow> Completion res" where
  "validateUncertainSubmissionCompletion currentOrder nextOrder input existingEvents existingRiskEvents =
     ebind (validateOrderIdentity currentOrder nextOrder) (\<lambda>_.
     let recoveryEvents = filter (\<lambda>event. ev_eventType event = ''RECONCILIATION_RECOVERY_REQUIRED'') existingEvents;
         uncertainRiskEvents = filter (\<lambda>event. rk_ruleCode event = POSITION_GUARD_PILOT_UNCERTAIN_ORDER) existingRiskEvents
     in if notYetSubmitted currentOrder then
          (if recoveryEvents = [] \<and> uncertainRiskEvents = [] then Inr APPLY
           else Inl (Error (''Corrupt partial uncertain submission children for order '' @ or_id nextOrder @ ''.'')))
        else if recordsEqual currentOrder nextOrder \<and> length recoveryEvents = 1 \<and> length uncertainRiskEvents = 1 \<and>
          recordsEqual (hd recoveryEvents) (pu_event input) \<and> recordsEqual (hd uncertainRiskEvents) (pu_riskEvent input)
        then Inr RETRY
        else Inl (Error (''Conflicting uncertain submission for order '' @ or_id nextOrder @ ''.'')))"

subsection \<open>Reconciliation\<close>

fun validateSnapshotFillsLoop :: "OrderRecord \<Rightarrow> string list \<Rightarrow> string list \<Rightarrow> FillRecord list \<Rightarrow> unit res" where
  "validateSnapshotFillsLoop ord ids exchangeIdentities [] = Inr ()"
| "validateSnapshotFillsLoop ord ids exchangeIdentities (fill # fills) =
     ebind (validateFillForOrder ord fill) (\<lambda>_.
     ebind (throw_if (fl_id fill \<in> set ids \<or> fillExchangeIdentity fill \<in> set exchangeIdentities)
       (Error (''Duplicate fill identity '' @ fl_id fill @ '' in reconciled order '' @ or_id ord @ ''.''))) (\<lambda>_.
     validateSnapshotFillsLoop ord (fl_id fill # ids) (fillExchangeIdentity fill # exchangeIdentities) fills))"

definition validateReconciledExchangeSnapshotInput :: "PersistReconciledExchangeSnapshotInput \<Rightarrow> unit res" where
  "validateReconciledExchangeSnapshotInput input =
     (let ord = pr_order input in
      ebind (validateOrderIdentity (pr_expectedOrder input) ord) (\<lambda>_.
      ebind (throw_if ((\<not> recordsEqual (pr_expectedOrder input) ord) \<noteq> (pr_event input \<noteq> None))
        (Error ''Reconciled order changes require exactly one reconciliation event.'')) (\<lambda>_.
      ebind (case pr_event input of None \<Rightarrow> Inr ()
             | Some event \<Rightarrow> throw_if (ev_orderId event \<noteq> or_id ord \<or> ev_eventType event \<noteq> ''RECONCILIATION_STATUS_UPDATED'' \<or>
                  ev_eventSource event \<noteq> RECONCILIATION)
                 (Error (''Reconciliation event '' @ ev_id event @ '' is invalid for order '' @ or_id ord @ ''.''))) (\<lambda>_.
      validateSnapshotFillsLoop ord [] [] (pr_fills input)))))"

definition validateReconciliationRecoveryInput :: "PersistReconciliationRecoveryInput \<Rightarrow> unit res" where
  "validateReconciliationRecoveryInput input =
     (let ord = pv_order input in
      ebind (validateOrderIdentity (pv_expectedOrder input) ord) (\<lambda>_.
      ebind (throw_if (or_status ord \<noteq> RECONCILIATION_REQUIRED \<or> or_failureCode ord \<noteq> Some ''RECONCILIATION_REQUIRED'')
        (Error ''Reconciliation recovery must set RECONCILIATION_REQUIRED status and failureCode.'')) (\<lambda>_.
      ebind (validateOrderEvent ord (pv_event input) ''RECONCILIATION_RECOVERY_REQUIRED'' RECONCILIATION) (\<lambda>_.
      throw_if (\<not> uncertainRiskLinked WARN ORDER_RECOVERY_REQUIRED ord (pv_riskEvent input))
        (Error ''Reconciliation recovery risk event must exactly link the blocked order.'')))))"

definition validateReconciliationRecoveryCompletion ::
  "OrderRecord \<Rightarrow> OrderRecord \<Rightarrow> PersistReconciliationRecoveryInput \<Rightarrow> OrderEventRecord list \<Rightarrow> RiskEventRecord list \<Rightarrow> Completion res" where
  "validateReconciliationRecoveryCompletion currentOrder nextOrder input existingEvents existingRiskEvents =
     ebind (validateOrderIdentity currentOrder nextOrder) (\<lambda>_.
     let recoveryEvents = filter (\<lambda>event. ev_eventType event = ''RECONCILIATION_RECOVERY_REQUIRED'') existingEvents;
         recoveryRiskEvents = filter (\<lambda>event. rk_ruleCode event = ORDER_RECOVERY_REQUIRED) existingRiskEvents
     in if \<not> recordsEqual currentOrder nextOrder then
          (if recoveryEvents = [] \<and> recoveryRiskEvents = [] then Inr APPLY
           else Inl (Error (''Corrupt partial reconciliation recovery children for order '' @ or_id nextOrder @ ''.'')))
        else if length recoveryEvents = 1 \<and> length recoveryRiskEvents = 1 \<and>
          recordsEqual (hd recoveryEvents) (pv_event input) \<and> recordsEqual (hd recoveryRiskEvents) (pv_riskEvent input)
        then Inr RETRY
        else Inl (Error (''Conflicting reconciliation recovery for order '' @ or_id nextOrder @ ''.'')))"

subsection \<open>What the checks establish\<close>

definition sameIdentity :: "OrderRecord \<Rightarrow> OrderRecord \<Rightarrow> bool" where
  "sameIdentity a b \<longleftrightarrow> or_id a = or_id b \<and> OrderIntent.truncate a = OrderIntent.truncate b \<and>
     or_executionMode a = or_executionMode b \<and> or_createdAt a = or_createdAt b"

lemma sameIdentity_refl [simp]: "sameIdentity a a"
  by (simp add: sameIdentity_def)

lemma sameIdentity_trans: "sameIdentity a b \<Longrightarrow> sameIdentity b c \<Longrightarrow> sameIdentity a c"
  by (simp add: sameIdentity_def)

lemma sameIdentity_fields:
  "sameIdentity a b \<Longrightarrow> or_id a = or_id b \<and> oi_identifier a = oi_identifier b \<and>
     oi_exchangeAccountId a = oi_exchangeAccountId b \<and> oi_idempotencyKey a = oi_idempotencyKey b \<and>
     oi_strategyDecisionId a = oi_strategyDecisionId b"
  by (simp add: sameIdentity_def OrderIntent.truncate_def)

lemma validateOrderIdentity_Inr [res_simps]: "validateOrderIdentity a b = Inr () \<longleftrightarrow> sameIdentity a b"
  by (auto simp: validateOrderIdentity_def immutableFieldChanges_def sameIdentity_def OrderIntent.truncate_def res_simps
      split: if_splits)

lemma validateNewOrderUniqueness_Inr [res_simps]:
  "validateNewOrderUniqueness xs n = Inr () \<longleftrightarrow> (\<forall>x\<in>set xs. or_id x \<noteq> or_id n \<and> oi_identifier x \<noteq> oi_identifier n \<and>
     (oi_exchangeAccountId x, oi_idempotencyKey x) \<noteq> (oi_exchangeAccountId n, oi_idempotencyKey n))"
  by (induction xs) auto

lemma validateFillsLoop_Inr:
  "validateFillsLoop ord ids xids fills = Inr () \<longleftrightarrow>
     (\<forall>f\<in>set fills. fl_orderId f = or_id ord \<and> fl_market f = oi_market ord \<and> fl_side f = oi_side ord) \<and>
     distinct (map fl_id fills) \<and> set (map fl_id fills) \<inter> set ids = {} \<and>
     distinct (map fillExchangeIdentity fills) \<and> set (map fillExchangeIdentity fills) \<inter> set xids = {}"
  by (induction fills arbitrary: ids xids) (auto simp: res_simps)

lemma validateSnapshotFillsLoop_Inr:
  "validateSnapshotFillsLoop ord ids xids fills = Inr () \<longleftrightarrow>
     (\<forall>f\<in>set fills. validateFillForOrder ord f = Inr ()) \<and>
     distinct (map fl_id fills) \<and> set (map fl_id fills) \<inter> set ids = {} \<and>
     distinct (map fillExchangeIdentity fills) \<and> set (map fillExchangeIdentity fills) \<inter> set xids = {}"
  by (induction fills arbitrary: ids xids) (auto simp: res_simps)

lemma fillExchangeIdentity_same_order:
  "fl_orderId a = fl_orderId b \<Longrightarrow> fillExchangeIdentity a = fillExchangeIdentity b \<longleftrightarrow> fl_exchangeFillId a = fl_exchangeFillId b"
  by (simp add: fillExchangeIdentity_def)

lemma append_nul_inject:
  "nul \<notin> set a \<Longrightarrow> nul \<notin> set b \<Longrightarrow> a @ nul # x = b @ nul # y \<longleftrightarrow> a = b \<and> x = y"
proof (induction a arbitrary: b)
  case Nil
  then show ?case by (cases b) auto
next
  case (Cons c a)
  then show ?case by (cases b) auto
qed

lemma normalize_fill_fields [simp]:
  "fl_id (normalizeFillFeeProvenance f) = fl_id f" "fl_orderId (normalizeFillFeeProvenance f) = fl_orderId f"
  "fl_exchangeFillId (normalizeFillFeeProvenance f) = fl_exchangeFillId f"
  by (simp_all add: normalizeFillFeeProvenance_def)

lemma normalize_fill_idem [simp]:
  "normalizeFillFeeProvenance (normalizeFillFeeProvenance f) = normalizeFillFeeProvenance f"
  by (simp add: normalizeFillFeeProvenance_def split: option.splits)

end
