(* ===== verification/Repository.thy ===== *)
theory Repository
  imports AtomicLifecycle
begin

section \<open>The execution repository: orders, events, fills, snapshots, runs\<close>

text \<open>
  \<open>InMemoryExecutionRepository\<close> of \<open>src/src/modules/db/repositories/in-memory-repositories.ts\<close>, except the
  notification outbox (theory \<open>Notifications\<close>). The object's arrays are the fields of \<open>repo\<close>; a method is an
  operation of the state-with-exceptions monad that reads, checks and assigns in the order of the code.
  \<open>cloneRecord\<close> copies an object, which values of HOL do not need. \<open>localeCompare\<close> depends on the host's locale
  and is an argument of the methods that sort by it; the language requires a consistent comparison, which is
  the predicate \<open>collation\<close>.
\<close>

subsection \<open>Collation\<close>

type_synonym collator = "string \<Rightarrow> string \<Rightarrow> int"

definition collation :: "collator \<Rightarrow> bool" where
  "collation lc \<longleftrightarrow> (\<forall>x. lc x x = 0) \<and> (\<forall>x y. lc x y < 0 \<longleftrightarrow> 0 < lc y x) \<and>
     (\<forall>x y z. lc x y \<le> 0 \<longrightarrow> lc y z \<le> 0 \<longrightarrow> lc x z \<le> 0)"

definition ascBy :: "collator \<Rightarrow> ('a \<Rightarrow> string) \<Rightarrow> 'a \<Rightarrow> 'a \<Rightarrow> bool" where
  "ascBy lc key left right \<longleftrightarrow> lc (key left) (key right) \<le> 0"

definition descBy :: "collator \<Rightarrow> ('a \<Rightarrow> string) \<Rightarrow> 'a \<Rightarrow> 'a \<Rightarrow> bool" where
  "descBy lc key left right \<longleftrightarrow> lc (key right) (key left) \<le> 0"

text \<open>\<open>first || second\<close> on comparison results.\<close>

definition orCompare :: "int \<Rightarrow> int \<Rightarrow> int" where
  "orCompare first second = (if first \<noteq> 0 then first else second)"

subsection \<open>Records of the store\<close>

datatype SnapshotSource = EXCHANGE_POLL | RECONCILIATION_SNAPSHOT

record BalanceSnapshotRecord =
  bs_id :: string
  bs_exchangeAccountId :: string
  bs_capturedAt :: string
  bs_source :: SnapshotSource
  bs_totalKrwValue :: "string option"
  bs_balancesJson :: string

record PositionSnapshotRecord =
  pn_id :: string
  pn_exchangeAccountId :: string
  pn_capturedAt :: string
  pn_source :: SnapshotSource
  pn_positionsJson :: string

datatype ReconciliationStatus = SUCCESS | DRIFT_DETECTED | ERROR

record ReconciliationRunRecord =
  rr_id :: string
  rr_exchangeAccountId :: string
  rr_status :: ReconciliationStatus
  rr_startedAt :: string
  rr_completedAt :: "string option"
  rr_summaryJson :: string
  rr_errorMessage :: "string option"

datatype StrategySchedulerRunStatus = STARTED | COMPLETED | RUN_FAILED | SKIPPED

record StrategySchedulerRunRecord =
  sr_id :: string
  sr_exchangeAccountId :: string
  sr_market :: SupportedMarket
  sr_status :: StrategySchedulerRunStatus
  sr_startedAt :: string
  sr_completedAt :: "string option"
  sr_intervalMs :: int
  sr_runOnStart :: bool
  sr_strategyDecisionId :: "string option"
  sr_action :: "StrategyDecisionAction option"
  sr_orderId :: "string option"
  sr_orderStatus :: "OrderLifecycleStatus option"
  sr_submissionAccepted :: "bool option"
  sr_detail :: "string option"
  sr_errorMessage :: "string option"
  sr_summaryJson :: string

datatype HistoryRecoveryCheckpointType = CLOSED_ORDER_ARCHIVE

fun checkpointTypeStr :: "HistoryRecoveryCheckpointType \<Rightarrow> string" where
  "checkpointTypeStr CLOSED_ORDER_ARCHIVE = ''CLOSED_ORDER_ARCHIVE''"

record HistoryRecoveryCheckpointRecord =
  hc_id :: string
  hc_exchangeAccountId :: string
  hc_market :: SupportedMarket
  hc_checkpointType :: HistoryRecoveryCheckpointType
  hc_nextWindowEndAt :: string
  hc_updatedAt :: string

record repo =
  rp_strategyDecisions :: "StrategyDecisionRecord list"
  rp_orders :: "OrderRecord list"
  rp_orderEvents :: "OrderEventRecord list"
  rp_fills :: "FillRecord list"
  rp_observations :: "OrderSubmissionRecoveryObservationRecord list"
  rp_balanceSnapshots :: "BalanceSnapshotRecord list"
  rp_positionSnapshots :: "PositionSnapshotRecord list"
  rp_riskEvents :: "RiskEventRecord list"
  rp_reconciliationRuns :: "ReconciliationRunRecord list"
  rp_strategySchedulerRuns :: "StrategySchedulerRunRecord list"
  rp_checkpoints :: "HistoryRecoveryCheckpointRecord list"

definition emptyRepo :: repo where
  "emptyRepo = \<lparr>rp_strategyDecisions = [], rp_orders = [], rp_orderEvents = [], rp_fills = [], rp_observations = [],
     rp_balanceSnapshots = [], rp_positionSnapshots = [], rp_riskEvents = [], rp_reconciliationRuns = [],
     rp_strategySchedulerRuns = [], rp_checkpoints = []\<rparr>"

type_synonym 'a rm = "(repo, js_error, 'a) sm"

definition ACTIVE_ORDER_STATUSES :: "OrderLifecycleStatus list" where
  "ACTIVE_ORDER_STATUSES =
     [INTENT_CREATED, PERSISTED, SUBMITTING, OPEN, PARTIALLY_FILLED, CANCEL_REQUESTED, RECONCILIATION_REQUIRED]"

subsection \<open>Helpers\<close>

definition assertSameAccount :: "OrderRecord \<Rightarrow> OrderRecord \<Rightarrow> unit rm" where
  "assertSameAccount existing nxt = sguard (oi_exchangeAccountId existing \<noteq> oi_exchangeAccountId nxt)
     (Error (''Order '' @ or_id nxt @ '' cannot change exchange account.''))"

definition assertNoConflictingRecord :: "('a \<Rightarrow> string) \<Rightarrow> 'a option \<Rightarrow> 'a \<Rightarrow> string \<Rightarrow> unit rm" where
  "assertNoConflictingRecord ident existing nxt label =
     sguard (case existing of None \<Rightarrow> False | Some record \<Rightarrow> \<not> recordsEqual record nxt)
       (Error (''Conflicting duplicate '' @ label @ '' '' @ ident nxt @ ''.''))"

definition sameFill :: "FillRecord \<Rightarrow> FillRecord \<Rightarrow> bool" where
  "sameFill fill candidate \<longleftrightarrow> fl_id candidate = fl_id fill \<or>
     (fl_orderId candidate = fl_orderId fill \<and> fl_exchangeFillId candidate = fl_exchangeFillId fill)"

definition findStoredFill :: "FillRecord list \<Rightarrow> FillRecord \<Rightarrow> FillRecord option res" where
  "findStoredFill fills fill =
     (let matches = filter (sameFill fill) fills
      in if length matches > 1 then Inl (Error (''Conflicting fill identity '' @ fl_id fill @ ''.''))
         else Inr (case matches of [] \<Rightarrow> None | m # _ \<Rightarrow> Some m))"

definition validateCandidateOrderReadLimit :: "int \<Rightarrow> unit res" where
  "validateCandidateOrderReadLimit limit = throw_if (\<not> isSafeInteger limit \<or> limit \<le> 0)
     (Error ''Candidate submission-blocking order read limit must be a positive safe integer.'')"

definition orderById :: "string \<Rightarrow> repo \<Rightarrow> OrderRecord option" where
  "orderById ident s = find (\<lambda>candidate. or_id candidate = ident) (rp_orders s)"

definition eventById :: "string \<Rightarrow> repo \<Rightarrow> OrderEventRecord option" where
  "eventById ident s = find (\<lambda>candidate. ev_id candidate = ident) (rp_orderEvents s)"

definition riskEventById :: "string \<Rightarrow> repo \<Rightarrow> RiskEventRecord option" where
  "riskEventById ident s = find (\<lambda>candidate. rk_id candidate = ident) (rp_riskEvents s)"

definition eventsOf :: "string \<Rightarrow> repo \<Rightarrow> OrderEventRecord list" where
  "eventsOf orderId s = filter (\<lambda>candidate. ev_orderId candidate = orderId) (rp_orderEvents s)"

definition fillsOf :: "string \<Rightarrow> repo \<Rightarrow> FillRecord list" where
  "fillsOf orderId s = filter (\<lambda>candidate. fl_orderId candidate = orderId) (rp_fills s)"

definition riskEventsOf :: "string \<Rightarrow> repo \<Rightarrow> RiskEventRecord list" where
  "riskEventsOf orderId s = filter (\<lambda>candidate. rk_orderId candidate = Some orderId) (rp_riskEvents s)"

definition replaceOrder :: "OrderRecord \<Rightarrow> repo \<Rightarrow> repo" where
  "replaceOrder ord s = s\<lparr>rp_orders := replace_where (\<lambda>candidate. or_id candidate = or_id ord) ord (rp_orders s)\<rparr>"

definition addEvents :: "OrderEventRecord list \<Rightarrow> repo \<Rightarrow> repo" where
  "addEvents events s = s\<lparr>rp_orderEvents := rp_orderEvents s @ events\<rparr>"

definition addFills :: "FillRecord list \<Rightarrow> repo \<Rightarrow> repo" where
  "addFills fills s = s\<lparr>rp_fills := rp_fills s @ fills\<rparr>"

definition addRiskEvent :: "RiskEventRecord \<Rightarrow> repo \<Rightarrow> repo" where
  "addRiskEvent event s = s\<lparr>rp_riskEvents := rp_riskEvents s @ [event]\<rparr>"

text \<open>An order the method cannot do without.\<close>

definition requireOrder :: "string \<Rightarrow> string \<Rightarrow> OrderRecord rm" where
  "requireOrder ident message s = (case orderById ident s of None \<Rightarrow> (Inl (Error message), s) | Some ord \<Rightarrow> (Inr ord, s))"

subsection \<open>Decisions and orders\<close>

definition saveStrategyDecision :: "StrategyDecisionRecord \<Rightarrow> unit rm" where
  "saveStrategyDecision record = smodify (\<lambda>s. s\<lparr>rp_strategyDecisions := rp_strategyDecisions s @ [record]\<rparr>)"

definition first :: "'a list \<Rightarrow> 'a option" where
  "first xs = (case xs of [] \<Rightarrow> None | x # _ \<Rightarrow> Some x)"

definition getLatestStrategyDecision ::
  "collator \<Rightarrow> string \<Rightarrow> SupportedMarket \<Rightarrow> string option \<Rightarrow> repo \<Rightarrow> StrategyDecisionRecord option" where
  "getLatestStrategyDecision lc exchangeAccountId market strategyKey s =
     first (sort_by (descBy lc sd_createdAt)
       (filter (\<lambda>candidate. sd_exchangeAccountId candidate = exchangeAccountId \<and> sd_market candidate = market \<and>
          (strategyKey = None \<or> Some (sd_strategyKey candidate) = strategyKey)) (rp_strategyDecisions s)))"

definition getStrategyDecisionById :: "string \<Rightarrow> repo \<Rightarrow> StrategyDecisionRecord option" where
  "getStrategyDecisionById ident s = find (\<lambda>candidate. sd_id candidate = ident) (rp_strategyDecisions s)"

definition saveOrder :: "OrderRecord \<Rightarrow> unit rm" where
  "saveOrder record = smodify (\<lambda>s. s\<lparr>rp_orders := rp_orders s @ [record]\<rparr>)"

definition updateOrder :: "OrderRecord \<Rightarrow> unit rm" where
  "updateOrder record =
     smodify (\<lambda>s. s\<lparr>rp_orders := upsert (\<lambda>candidate. or_id candidate = or_id record) record (rp_orders s)\<rparr>)"

definition persistOrderIntent :: "PersistOrderIntentInput \<Rightarrow> unit rm" where
  "persistOrderIntent input =
     sbind (slift (validateOrderIntentInput input)) (\<lambda>_.
     sbind (sget (orderById (or_id (pi_order input)))) (\<lambda>existingOrder.
     sbind (sget (eventById (ev_id (pi_event input)))) (\<lambda>existingEvent.
     case existingOrder of
       Some ord \<Rightarrow>
         sguard (\<not> recordsEqual ord (pi_order input) \<or>
           (case existingEvent of None \<Rightarrow> True | Some event \<Rightarrow> \<not> recordsEqual event (pi_event input)))
           (Error (''Conflicting duplicate order intent '' @ or_id (pi_order input) @ ''.''))
     | None \<Rightarrow>
         sbind (sguard (existingEvent \<noteq> None)
           (Error (''Conflicting duplicate order event '' @ ev_id (pi_event input) @ ''.''))) (\<lambda>_.
         sbind (sget rp_orders) (\<lambda>orders.
         sbind (slift (validateNewOrderUniqueness orders (pi_order input))) (\<lambda>_.
         smodify (\<lambda>s. addEvents [pi_event input] (s\<lparr>rp_orders := rp_orders s @ [pi_order input]\<rparr>))))))))"

definition normalizeSubmission :: "PersistExchangeSubmissionInput \<Rightarrow> PersistExchangeSubmissionInput" where
  "normalizeSubmission input = input\<lparr>px_fills := map normalizeFillFeeProvenance (px_fills input)\<rparr>"

text \<open>The checks of the fills against the stored ones, in the two passes of the code.\<close>

definition noConflictingFills :: "FillRecord list \<Rightarrow> unit rm" where
  "noConflictingFills fills s =
     (case emapM (findStoredFill (rp_fills s)) fills of
        Inl e \<Rightarrow> (Inl e, s)
      | Inr existing \<Rightarrow>
          (case find (\<lambda>(ex, fill). case ex of None \<Rightarrow> False | Some record \<Rightarrow> \<not> recordsEqual record fill) (zip existing fills) of
             None \<Rightarrow> (Inr (), s)
           | Some (ex, fill) \<Rightarrow> (Inl (Error (''Conflicting duplicate fill '' @ fl_id fill @ ''.'')), s)))"

definition persistExchangeSubmission :: "PersistExchangeSubmissionInput \<Rightarrow> unit rm" where
  "persistExchangeSubmission input0 =
     (let input = normalizeSubmission input0; ord = px_order input in
      sbind (slift (validateExchangeSubmissionInput input)) (\<lambda>_.
      sbind (requireOrder (or_id ord) (''Cannot persist exchange submission for missing order '' @ or_id ord @ ''.'')) (\<lambda>existingOrder.
      sbind (assertSameAccount existingOrder ord) (\<lambda>_.
      sbind (sget (eventById (ev_id (px_event input)))) (\<lambda>existingEvent.
      sbind (assertNoConflictingRecord ev_id existingEvent (px_event input) ''order event'') (\<lambda>_.
      sbind (case px_terminalEvent input of None \<Rightarrow> sreturn ()
             | Some terminalEvent \<Rightarrow>
                 sbind (sget (eventById (ev_id terminalEvent))) (\<lambda>existingTerminalEvent.
                 assertNoConflictingRecord ev_id existingTerminalEvent terminalEvent ''terminal order event'')) (\<lambda>_.
      sbind (noConflictingFills (px_fills input)) (\<lambda>_.
      sbind (sget (eventsOf (or_id ord))) (\<lambda>orderEvents.
      sbind (sget (fillsOf (or_id ord))) (\<lambda>orderFills.
      sbind (slift (validateExchangeSubmissionCompletion existingOrder ord input orderEvents orderFills)) (\<lambda>completion.
      if completion = RETRY then sreturn ()
      else smodify (\<lambda>s. addFills (px_fills input)
             (addEvents (px_event input # (case px_terminalEvent input of None \<Rightarrow> [] | Some t \<Rightarrow> [t]))
               (replaceOrder ord s))))))))))))))"

datatype SnapshotOutcome = APPLIED | DUPLICATE | CONFLICT

record PersistReconciledExchangeSnapshotResult =
  res_outcome :: SnapshotOutcome
  res_insertedFillCount :: nat

text \<open>The part after the comparison with the expected order.\<close>

definition applyReconciledSnapshot ::
  "OrderRecord \<Rightarrow> PersistReconciledExchangeSnapshotInput \<Rightarrow> PersistReconciledExchangeSnapshotResult rm" where
  "applyReconciledSnapshot currentOrder input =
     (let ord = pr_order input in
      sbind (sget (\<lambda>s. case pr_event input of None \<Rightarrow> None | Some event \<Rightarrow> eventById (ev_id event) s)) (\<lambda>existingEvent.
      sbind (case pr_event input of None \<Rightarrow> sreturn ()
             | Some event \<Rightarrow> assertNoConflictingRecord ev_id existingEvent event ''reconciliation order event'') (\<lambda>_.
      sbind (sget rp_fills) (\<lambda>stored.
      sbind (slift (emapM (\<lambda>fill. ebind (findStoredFill stored fill) (\<lambda>existing.
               ebind (resolveImmutableFillReplay existing fill) (\<lambda>resolution. Inr (fill, resolution)))) (pr_fills input)))
        (\<lambda>fillResolutions.
      let insertedFills = map fst (filter (\<lambda>(fill, resolution). resolution = INSERT) fillResolutions);
          orderChanged = (\<not> recordsEqual currentOrder ord);
          eventInserted = (pr_event input \<noteq> None \<and> existingEvent = None)
      in sbind (smodify (\<lambda>s. addFills insertedFills
                  (addEvents (if eventInserted then (case pr_event input of None \<Rightarrow> [] | Some event \<Rightarrow> [event]) else [])
                    (replaceOrder ord s)))) (\<lambda>_.
         sreturn \<lparr>res_outcome = (if orderChanged \<or> eventInserted \<or> insertedFills \<noteq> [] then APPLIED else DUPLICATE),
                  res_insertedFillCount = length insertedFills\<rparr>))))))"

definition persistReconciledExchangeSnapshot ::
  "PersistReconciledExchangeSnapshotInput \<Rightarrow> PersistReconciledExchangeSnapshotResult rm" where
  "persistReconciledExchangeSnapshot input0 =
     (let input = input0\<lparr>pr_fills := map normalizeFillFeeProvenance (pr_fills input0)\<rparr>; ord = pr_order input in
      sbind (slift (validateReconciledExchangeSnapshotInput input)) (\<lambda>_.
      sbind (requireOrder (or_id ord) (''Cannot persist reconciliation for missing order '' @ or_id ord @ ''.'')) (\<lambda>currentOrder.
      if \<not> recordsEqual currentOrder (pr_expectedOrder input)
      then sreturn \<lparr>res_outcome = CONFLICT, res_insertedFillCount = 0\<rparr>
      else applyReconciledSnapshot currentOrder input)))"

definition persistReconciliationRecovery :: "PersistReconciliationRecoveryInput \<Rightarrow> SnapshotOutcome rm" where
  "persistReconciliationRecovery input =
     (let ord = pv_order input in
      sbind (slift (validateReconciliationRecoveryInput input)) (\<lambda>_.
      sbind (requireOrder (or_id ord) (''Cannot persist reconciliation recovery for missing order '' @ or_id ord @ ''.'')) (\<lambda>currentOrder.
      if \<not> recordsEqual currentOrder (pv_expectedOrder input) then sreturn CONFLICT
      else
      sbind (assertSameAccount currentOrder ord) (\<lambda>_.
      sbind (sget (eventById (ev_id (pv_event input)))) (\<lambda>existingEvent.
      sbind (sget (riskEventById (rk_id (pv_riskEvent input)))) (\<lambda>existingRiskEvent.
      sbind (assertNoConflictingRecord ev_id existingEvent (pv_event input) ''reconciliation recovery event'') (\<lambda>_.
      sbind (assertNoConflictingRecord rk_id existingRiskEvent (pv_riskEvent input) ''reconciliation recovery risk event'') (\<lambda>_.
      sbind (sget (eventsOf (or_id ord))) (\<lambda>orderEvents.
      sbind (sget (riskEventsOf (or_id ord))) (\<lambda>riskEvents.
      sbind (slift (validateReconciliationRecoveryCompletion currentOrder ord input orderEvents riskEvents)) (\<lambda>completion.
      if completion = RETRY then sreturn DUPLICATE
      else sbind (smodify (\<lambda>s. addRiskEvent (pv_riskEvent input) (addEvents [pv_event input] (replaceOrder ord s)))) (\<lambda>_.
           sreturn APPLIED))))))))))))"

definition persistUncertainSubmission :: "PersistUncertainSubmissionInput \<Rightarrow> unit rm" where
  "persistUncertainSubmission input =
     (let ord = pu_order input in
      sbind (slift (validateUncertainSubmissionInput input)) (\<lambda>_.
      sbind (requireOrder (or_id ord) (''Cannot persist uncertain submission for missing order '' @ or_id ord @ ''.'')) (\<lambda>existingOrder.
      sbind (assertSameAccount existingOrder ord) (\<lambda>_.
      sbind (sget (eventById (ev_id (pu_event input)))) (\<lambda>existingEvent.
      sbind (sget (riskEventById (rk_id (pu_riskEvent input)))) (\<lambda>existingRiskEvent.
      sbind (assertNoConflictingRecord ev_id existingEvent (pu_event input) ''order event'') (\<lambda>_.
      sbind (assertNoConflictingRecord rk_id existingRiskEvent (pu_riskEvent input) ''risk event'') (\<lambda>_.
      sbind (sget (eventsOf (or_id ord))) (\<lambda>orderEvents.
      sbind (sget (riskEventsOf (or_id ord))) (\<lambda>riskEvents.
      sbind (slift (validateUncertainSubmissionCompletion existingOrder ord input orderEvents riskEvents)) (\<lambda>completion.
      if completion = RETRY then sreturn ()
      else smodify (\<lambda>s. addRiskEvent (pu_riskEvent input) (addEvents [pu_event input] (replaceOrder ord s))))))))))))))"

definition findOrderByIdempotencyKey :: "string \<Rightarrow> string \<Rightarrow> repo \<Rightarrow> OrderRecord option" where
  "findOrderByIdempotencyKey exchangeAccountId idempotencyKey s =
     find (\<lambda>candidate. oi_exchangeAccountId candidate = exchangeAccountId \<and> oi_idempotencyKey candidate = idempotencyKey) (rp_orders s)"

definition findOrderById :: "string \<Rightarrow> string \<Rightarrow> repo \<Rightarrow> OrderRecord option" where
  "findOrderById exchangeAccountId orderId s =
     find (\<lambda>candidate. oi_exchangeAccountId candidate = exchangeAccountId \<and> or_id candidate = orderId) (rp_orders s)"

definition findOrderByReference :: "string \<Rightarrow> string \<Rightarrow> repo \<Rightarrow> OrderRecord option" where
  "findOrderByReference exchangeAccountId reference s =
     find (\<lambda>candidate. oi_exchangeAccountId candidate = exchangeAccountId \<and>
       (or_id candidate = reference \<or> oi_identifier candidate = reference \<or> or_upbitUuid candidate = Some reference)) (rp_orders s)"

definition listActiveOrders :: "collator \<Rightarrow> string \<Rightarrow> SupportedMarket option \<Rightarrow> int option \<Rightarrow> repo \<Rightarrow> OrderRecord list" where
  "listActiveOrders lc exchangeAccountId market limit s =
     slice0_opt limit (sort_by (descBy lc or_updatedAt)
       (filter (\<lambda>candidate. oi_exchangeAccountId candidate = exchangeAccountId \<and>
          (market = None \<or> Some (oi_market candidate) = market) \<and> or_status candidate \<in> set ACTIVE_ORDER_STATUSES) (rp_orders s)))"

definition evidenceOf :: "repo \<Rightarrow> OrderRecord \<Rightarrow> SubmissionBlockingOrderEvidence" where
  "evidenceOf s candidate = \<lparr>be_order = candidate, be_events = eventsOf (or_id candidate) s,
     be_recoveryObservations = filter (\<lambda>observation. ob_orderId observation = or_id candidate) (rp_observations s)\<rparr>"

definition listSubmissionBlockingOrders :: "collator \<Rightarrow> string \<Rightarrow> int \<Rightarrow> repo \<Rightarrow> OrderRecord list res" where
  "listSubmissionBlockingOrders lc exchangeAccountId limit s =
     ebind (validateCandidateOrderReadLimit limit) (\<lambda>_.
     Inr (slice0 limit (sort_by (\<lambda>left right. orCompare (lc (or_updatedAt right) (or_updatedAt left)) (lc (or_id right) (or_id left)) \<le> 0)
       (filter (\<lambda>candidate. oi_exchangeAccountId candidate = exchangeAccountId \<and>
            or_status candidate \<in> set SUBMISSION_BLOCKING_CANDIDATE_STATUSES \<and>
            bc_blocking (classifySubmissionBlockingOrder (evidenceOf s candidate))) (rp_orders s)))))"

definition listOrders :: "string \<Rightarrow> repo \<Rightarrow> OrderRecord list" where
  "listOrders exchangeAccountId s = filter (\<lambda>candidate. oi_exchangeAccountId candidate = exchangeAccountId) (rp_orders s)"

subsection \<open>Events, fills, observations\<close>

definition appendOrderEvent :: "OrderEventRecord \<Rightarrow> unit rm" where
  "appendOrderEvent record = smodify (addEvents [record])"

definition listOrderEvents :: "collator \<Rightarrow> string \<Rightarrow> repo \<Rightarrow> OrderEventRecord list" where
  "listOrderEvents lc orderId s = sort_by (ascBy lc ev_createdAt) (eventsOf orderId s)"

definition saveFill :: "FillRecord \<Rightarrow> unit rm" where
  "saveFill record0 =
     (let record = normalizeFillFeeProvenance record0 in
      sbind (requireOrder (fl_orderId record) (''Cannot persist fill for missing order '' @ fl_orderId record @ ''.'')) (\<lambda>ord.
      sbind (slift (validateFillForOrder ord record)) (\<lambda>_.
      sbind (sget rp_fills) (\<lambda>stored.
      sbind (slift (findStoredFill stored record)) (\<lambda>existing.
      sbind (slift (resolveImmutableFillReplay existing record)) (\<lambda>resolution.
      if resolution = INSERT then smodify (addFills [record]) else sreturn ()))))))"

definition listFills :: "string option \<Rightarrow> repo \<Rightarrow> FillRecord list" where
  "listFills orderId s = (if truthy orderId then fillsOf (the orderId) s else rp_fills s)"

definition saveOrderSubmissionRecoveryObservation :: "OrderSubmissionRecoveryObservationRecord \<Rightarrow> unit rm" where
  "saveOrderSubmissionRecoveryObservation record =
     sbind (sget (\<lambda>s. find (\<lambda>candidate. ob_id candidate = ob_id record) (rp_observations s))) (\<lambda>existing.
     case existing of
       Some ex \<Rightarrow> sguard (\<not> recordsEqual ex record)
         (Error (''Conflicting duplicate order submission recovery observation '' @ ob_id record @ ''.''))
     | None \<Rightarrow> smodify (\<lambda>s. s\<lparr>rp_observations := rp_observations s @ [record]\<rparr>))"

definition listOrderSubmissionRecoveryObservations ::
  "collator \<Rightarrow> string \<Rightarrow> repo \<Rightarrow> OrderSubmissionRecoveryObservationRecord list" where
  "listOrderSubmissionRecoveryObservations lc orderId s =
     sort_by (\<lambda>left right. orCompare (ob_observedAtEpochMs left - ob_observedAtEpochMs right) (lc (ob_id left) (ob_id right)) \<le> 0)
       (filter (\<lambda>candidate. ob_orderId candidate = orderId) (rp_observations s))"

subsection \<open>Writes that also pause trading\<close>

text \<open>
  The repository may have been given a store with \<open>applyFaultPauseAtomically\<close>; its state \<open>'p\<close> is the second
  component. Both methods pause first and write their own arrays only when the pause has succeeded.
\<close>

type_synonym 'p pauser = "FaultPauseInput \<Rightarrow> ('p, js_error, ExecutionStateRecord) sm"

definition onRepo :: "'a rm \<Rightarrow> (repo \<times> 'p, js_error, 'a) sm" where
  "onRepo m sp = (case m (fst sp) of (r, s') \<Rightarrow> (r, (s', snd sp)))"

definition onPauser :: "('p, js_error, 'a) sm \<Rightarrow> (repo \<times> 'p, js_error, 'a) sm" where
  "onPauser m sp = (case m (snd sp) of (r, p') \<Rightarrow> (r, (fst sp, p')))"

text \<open>\<open>failureCode\<close> has the single literal type ORDER\_SUBMISSION\_ABSENCE\_CONFIRMED.\<close>

record FinalizeBoundedSubmissionAbsenceInput =
  fz_orderId :: string
  fz_expectedStatus :: OrderLifecycleStatus
  fz_expectedUpdatedAt :: string
  fz_failedAt :: string
  fz_failureMessage :: string
  fz_event :: OrderEventRecord
  fz_faultPause :: FaultPauseInput

definition failedAbsentOrder :: "FinalizeBoundedSubmissionAbsenceInput \<Rightarrow> OrderRecord \<Rightarrow> OrderRecord" where
  "failedAbsentOrder input current =
     current\<lparr>or_status := FAILED, or_failureCode := Some ''ORDER_SUBMISSION_ABSENCE_CONFIRMED'',
             or_failureMessage := Some (fz_failureMessage input), or_updatedAt := fz_failedAt input\<rparr>"

definition finalizeBoundedSubmissionAbsence ::
  "'p pauser option \<Rightarrow> FinalizeBoundedSubmissionAbsenceInput \<Rightarrow> (repo \<times> 'p, js_error, bool) sm" where
  "finalizeBoundedSubmissionAbsence atomicFaultPauseStore input =
     sbind (onRepo (sget (orderById (fz_orderId input)))) (\<lambda>found.
     case found of
       None \<Rightarrow> sreturn False
     | Some current \<Rightarrow>
         if or_status current \<noteq> fz_expectedStatus input \<or> or_updatedAt current \<noteq> fz_expectedUpdatedAt input
         then sreturn False
         else (case atomicFaultPauseStore of
           None \<Rightarrow> sthrow (Error ''In-memory bounded absence finalization requires an atomic fault-pause store.'')
         | Some applyPause \<Rightarrow>
             sbind (onRepo (sget (eventById (ev_id (fz_event input))))) (\<lambda>existingEvent.
             sbind (sguard (ev_orderId (fz_event input) \<noteq> fz_orderId input \<or> existingEvent \<noteq> None)
               (Error ''Bounded absence finalization event is invalid or conflicts with persisted evidence.'')) (\<lambda>_.
             sbind (onPauser (applyPause (fz_faultPause input))) (\<lambda>_.
             sbind (onRepo (smodify (\<lambda>s. addEvents [fz_event input]
               (s\<lparr>rp_orders := replace_where (\<lambda>ord. or_id ord = fz_orderId input) (failedAbsentOrder input current) (rp_orders s)\<rparr>)))) (\<lambda>_.
             sreturn True))))))"

record PersistCandidateProjectionFaultInput =
  pf_orderId :: string
  pf_event :: OrderEventRecord
  pf_faultPause :: FaultPauseInput

definition persistCandidateProjectionFault ::
  "'p pauser option \<Rightarrow> PersistCandidateProjectionFaultInput \<Rightarrow> (repo \<times> 'p, js_error, SnapshotOutcome) sm" where
  "persistCandidateProjectionFault atomicFaultPauseStore input =
     (case atomicFaultPauseStore of
        None \<Rightarrow> sthrow (Error ''In-memory candidate projection faults require an atomic fault-pause store.'')
      | Some applyPause \<Rightarrow>
          sbind (onRepo (sget (orderById (pf_orderId input)))) (\<lambda>found.
          sbind (sguard (case found of None \<Rightarrow> True
              | Some ord \<Rightarrow> ev_orderId (pf_event input) \<noteq> or_id ord \<or>
                  fp_exchangeAccountId (pf_faultPause input) \<noteq> oi_exchangeAccountId ord)
            (Error ''Candidate projection fault provenance does not match a persisted order.'')) (\<lambda>_.
          sbind (sguard (ev_createdAt (pf_event input) \<noteq> fp_occurredAt (pf_faultPause input))
            (Error ''Candidate projection fault occurrence does not match its immutable event timestamp.'')) (\<lambda>_.
          sbind (slift (validateFaultPauseInput (pf_faultPause input))) (\<lambda>_.
          sbind (onRepo (sget (eventById (ev_id (pf_event input))))) (\<lambda>existing.
          sbind (sguard (case existing of None \<Rightarrow> False | Some event \<Rightarrow> \<not> recordsEqual event (pf_event input))
            (Error (''Conflicting candidate projection fault event '' @ ev_id (pf_event input) @ ''.''))) (\<lambda>_.
          sbind (onPauser (applyPause (pf_faultPause input))) (\<lambda>_.
          if existing = None
          then sbind (onRepo (smodify (addEvents [pf_event input]))) (\<lambda>_. sreturn APPLIED)
          else sreturn DUPLICATE))))))))"

subsection \<open>Snapshots, risk events, runs, checkpoints\<close>

definition saveBalanceSnapshot :: "BalanceSnapshotRecord \<Rightarrow> unit rm" where
  "saveBalanceSnapshot record = smodify (\<lambda>s. s\<lparr>rp_balanceSnapshots := rp_balanceSnapshots s @ [record]\<rparr>)"

definition getLatestBalanceSnapshot :: "collator \<Rightarrow> string \<Rightarrow> repo \<Rightarrow> BalanceSnapshotRecord option" where
  "getLatestBalanceSnapshot lc exchangeAccountId s = first (sort_by (descBy lc bs_capturedAt)
     (filter (\<lambda>candidate. bs_exchangeAccountId candidate = exchangeAccountId) (rp_balanceSnapshots s)))"

definition savePositionSnapshot :: "PositionSnapshotRecord \<Rightarrow> unit rm" where
  "savePositionSnapshot record = smodify (\<lambda>s. s\<lparr>rp_positionSnapshots := rp_positionSnapshots s @ [record]\<rparr>)"

definition getLatestPositionSnapshot :: "collator \<Rightarrow> string \<Rightarrow> repo \<Rightarrow> PositionSnapshotRecord option" where
  "getLatestPositionSnapshot lc exchangeAccountId s = first (sort_by (descBy lc pn_capturedAt)
     (filter (\<lambda>candidate. pn_exchangeAccountId candidate = exchangeAccountId) (rp_positionSnapshots s)))"

definition saveRiskEvent :: "RiskEventRecord \<Rightarrow> unit rm" where
  "saveRiskEvent record = smodify (addRiskEvent record)"

definition listRiskEvents :: "collator \<Rightarrow> string \<Rightarrow> int option \<Rightarrow> repo \<Rightarrow> RiskEventRecord list" where
  "listRiskEvents lc exchangeAccountId limit s = slice0_opt limit (sort_by (descBy lc rk_createdAt)
     (filter (\<lambda>candidate. rk_exchangeAccountId candidate = exchangeAccountId) (rp_riskEvents s)))"

definition saveReconciliationRun :: "ReconciliationRunRecord \<Rightarrow> unit rm" where
  "saveReconciliationRun record = smodify (\<lambda>s. s\<lparr>rp_reconciliationRuns := rp_reconciliationRuns s @ [record]\<rparr>)"

definition updateReconciliationRun :: "ReconciliationRunRecord \<Rightarrow> unit rm" where
  "updateReconciliationRun record =
     smodify (\<lambda>s. s\<lparr>rp_reconciliationRuns := upsert (\<lambda>candidate. rr_id candidate = rr_id record) record (rp_reconciliationRuns s)\<rparr>)"

definition listReconciliationRuns :: "collator \<Rightarrow> string \<Rightarrow> int option \<Rightarrow> repo \<Rightarrow> ReconciliationRunRecord list" where
  "listReconciliationRuns lc exchangeAccountId limit s = slice0_opt limit (sort_by (descBy lc rr_startedAt)
     (filter (\<lambda>candidate. rr_exchangeAccountId candidate = exchangeAccountId) (rp_reconciliationRuns s)))"

definition saveStrategySchedulerRun :: "StrategySchedulerRunRecord \<Rightarrow> unit rm" where
  "saveStrategySchedulerRun record =
     smodify (\<lambda>s. s\<lparr>rp_strategySchedulerRuns :=
       upsert (\<lambda>candidate. sr_id candidate = sr_id record) record (rp_strategySchedulerRuns s)\<rparr>)"

definition updateStrategySchedulerRun :: "StrategySchedulerRunRecord \<Rightarrow> unit rm" where
  "updateStrategySchedulerRun record = saveStrategySchedulerRun record"

definition listStrategySchedulerRuns :: "collator \<Rightarrow> string \<Rightarrow> int option \<Rightarrow> repo \<Rightarrow> StrategySchedulerRunRecord list" where
  "listStrategySchedulerRuns lc exchangeAccountId limit s = slice0_opt limit (sort_by (descBy lc sr_startedAt)
     (filter (\<lambda>candidate. sr_exchangeAccountId candidate = exchangeAccountId) (rp_strategySchedulerRuns s)))"

definition sameCheckpoint :: "string \<Rightarrow> SupportedMarket \<Rightarrow> HistoryRecoveryCheckpointType \<Rightarrow> HistoryRecoveryCheckpointRecord \<Rightarrow> bool" where
  "sameCheckpoint exchangeAccountId market checkpointType candidate \<longleftrightarrow>
     hc_exchangeAccountId candidate = exchangeAccountId \<and> hc_market candidate = market \<and> hc_checkpointType candidate = checkpointType"

definition saveHistoryRecoveryCheckpoint :: "HistoryRecoveryCheckpointRecord \<Rightarrow> unit rm" where
  "saveHistoryRecoveryCheckpoint record =
     smodify (\<lambda>s. s\<lparr>rp_checkpoints :=
       upsert (sameCheckpoint (hc_exchangeAccountId record) (hc_market record) (hc_checkpointType record)) record (rp_checkpoints s)\<rparr>)"

definition listHistoryRecoveryCheckpoints :: "collator \<Rightarrow> string \<Rightarrow> repo \<Rightarrow> HistoryRecoveryCheckpointRecord list" where
  "listHistoryRecoveryCheckpoints lc exchangeAccountId s =
     sort_by (\<lambda>left right. orCompare (lc (marketStr (hc_market left)) (marketStr (hc_market right)))
         (lc (checkpointTypeStr (hc_checkpointType left)) (checkpointTypeStr (hc_checkpointType right))) \<le> 0)
       (filter (\<lambda>candidate. hc_exchangeAccountId candidate = exchangeAccountId) (rp_checkpoints s))"

definition getHistoryRecoveryCheckpoint ::
  "string \<Rightarrow> SupportedMarket \<Rightarrow> HistoryRecoveryCheckpointType \<Rightarrow> repo \<Rightarrow> HistoryRecoveryCheckpointRecord option" where
  "getHistoryRecoveryCheckpoint exchangeAccountId market checkpointType s =
     find (sameCheckpoint exchangeAccountId market checkpointType) (rp_checkpoints s)"

end
