(* ===== verification/RepositoryInvariants.thy ===== *)
theory RepositoryInvariants
  imports Repository "HOL-Library.Sublist"
begin

section \<open>What the execution repository keeps\<close>

text \<open>
  Every write of the order part either fails and changes nothing or has one of a few effects; orders keep
  their identity and are never dropped, events, fills, risk events and observations are only appended, order and fill
  ids stay unique, and the identifiers and idempotency keys of orders too unless an unchecked operation adds an order
  under one that is taken. The states are those a sequence of repository calls reaches.
\<close>

subsection \<open>Inversion of the runs\<close>

lemma slift_eq_Inr [res_simps]: "slift r s = (Inr x, t) \<longleftrightarrow> r = Inr x \<and> t = s"
  by auto

lemma requireOrder_eq_Inr [res_simps]: "requireOrder i m s = (Inr ord, t) \<longleftrightarrow> orderById i s = Some ord \<and> t = s"
  by (auto simp: requireOrder_def split: option.splits)

lemma assertSameAccount_eq_Inr [res_simps]:
  "assertSameAccount a b s = (Inr u, t) \<longleftrightarrow> oi_exchangeAccountId a = oi_exchangeAccountId b \<and> t = s"
  by (auto simp: assertSameAccount_def res_simps)

lemma assertNoConflictingRecord_eq_Inr [res_simps]:
  "assertNoConflictingRecord f ex n l s = (Inr u, t) \<longleftrightarrow> (\<forall>r. ex = Some r \<longrightarrow> r = n) \<and> t = s"
  by (auto simp: assertNoConflictingRecord_def recordsEqual_def res_simps split: option.splits)

lemma noConflictingFills_eq_Inr:
  assumes "noConflictingFills fills s = (Inr u, t)"
  shows "t = s" and "f \<in> set fills \<Longrightarrow> findStoredFill (rp_fills s) f = Inr (Some r) \<Longrightarrow> r = f"
    and "f \<in> set fills \<Longrightarrow> \<exists>ex. findStoredFill (rp_fills s) f = Inr ex"
proof -
  let ?p = "\<lambda>(ex, fill). case ex of None \<Rightarrow> False | Some record \<Rightarrow> \<not> recordsEqual record fill"
  obtain ex where ex: "emapM (findStoredFill (rp_fills s)) fills = Inr ex"
    using assms by (cases "emapM (findStoredFill (rp_fills s)) fills") (auto simp: noConflictingFills_def)
  with assms have nf: "find ?p (zip ex fills) = None" and t: "t = s"
    by (cases "find ?p (zip ex fills)"; auto simp: noConflictingFills_def)+
  show "t = s" by (rule t)
  have len: "length ex = length fills" using emapM_length [OF ex] .
  have nth: "findStoredFill (rp_fills s) (fills ! k) = Inr (ex ! k)" if "k < length fills" for k
    using emapM_Inr_map [OF ex] that len by (metis nth_map)
  show "r = f" if f: "f \<in> set fills" "findStoredFill (rp_fills s) f = Inr (Some r)"
  proof -
    from f obtain k where k: "k < length fills" "fills ! k = f" by (auto simp: in_set_conv_nth)
    then have "(Some r, f) \<in> set (zip ex fills)" using nth f(2) len by (force simp: set_zip)
    with nf have "\<not> ?p (Some r, f)" unfolding find_None_iff by blast
    then show ?thesis by (simp add: recordsEqual_def)
  qed
  show "\<exists>ex. findStoredFill (rp_fills s) f = Inr ex" if "f \<in> set fills"
    using that nth by (auto simp: in_set_conv_nth)
qed

definition fillsAdmissible :: "FillRecord list \<Rightarrow> repo \<Rightarrow> bool" where
  "fillsAdmissible fills s \<longleftrightarrow> noConflictingFills fills s = (Inr (), s)"

lemma noConflictingFills_run [res_simps]:
  "noConflictingFills fills s = (Inr u, t) \<longleftrightarrow> fillsAdmissible fills s \<and> t = s"
  using noConflictingFills_eq_Inr(1) by (auto simp: fillsAdmissible_def)

lemma noConflictingFills_readonly [atomic_intros]: "readonly (noConflictingFills fills)"
  by (auto simp: readonly_def noConflictingFills_def split: sum.splits option.splits)

lemma repo_readonly [atomic_intros]:
  "readonly (requireOrder i m)" "readonly (assertSameAccount a b)" "readonly (assertNoConflictingRecord f e n l)"
  by (auto simp: readonly_def requireOrder_def assertSameAccount_def assertNoConflictingRecord_def sguard_def split: option.splits)

subsection \<open>A failed write changes nothing\<close>

lemma all_or_nothing_if [atomic_intros]:
  "(b \<Longrightarrow> all_or_nothing m) \<Longrightarrow> (\<not> b \<Longrightarrow> all_or_nothing n) \<Longrightarrow> all_or_nothing (if b then m else n)"
  by simp

lemma all_or_nothing_option [atomic_intros]:
  "all_or_nothing m \<Longrightarrow> (\<And>x. all_or_nothing (n x)) \<Longrightarrow> all_or_nothing (case v of None \<Rightarrow> m | Some x \<Rightarrow> n x)"
  by (cases v) auto

lemma readonly_option [atomic_intros]:
  "readonly m \<Longrightarrow> (\<And>x. readonly (n x)) \<Longrightarrow> readonly (case v of None \<Rightarrow> m | Some x \<Rightarrow> n x)"
  by (cases v) auto

lemmas atomic_rules = all_or_nothing_sbind all_or_nothing_if all_or_nothing_option readonly_basic readonly_option readonly_sbind
  repo_readonly noConflictingFills_readonly unfailing_basic unfailing_sbind

lemma all_or_nothing_basic:
  "all_or_nothing (smodify g)" "all_or_nothing (sreturn x)" "all_or_nothing (sguard b e)"
  by (auto intro: all_or_nothing_unfailing all_or_nothing_readonly readonly_basic unfailing_basic)

lemma all_or_nothing_write: "(\<And>u. unfailing (h u)) \<Longrightarrow> all_or_nothing (sbind (smodify g) h)"
  by (auto simp: all_or_nothing_def unfailing_def sbind_def) (metis fst_conv)

lemma repo_writes_all_or_nothing:
  "all_or_nothing (persistOrderIntent i1)" "all_or_nothing (persistExchangeSubmission i2)"
  "all_or_nothing (persistReconciledExchangeSnapshot i3)" "all_or_nothing (persistReconciliationRecovery i4)"
  "all_or_nothing (persistUncertainSubmission i5)" "all_or_nothing (saveFill i6)"
  "all_or_nothing (saveOrderSubmissionRecoveryObservation i7)"
  unfolding persistOrderIntent_def persistExchangeSubmission_def persistReconciledExchangeSnapshot_def
    applyReconciledSnapshot_def persistReconciliationRecovery_def persistUncertainSubmission_def saveFill_def saveOrderSubmissionRecoveryObservation_def Let_def
  by (intro all_or_nothing_basic all_or_nothing_write atomic_rules)+

subsection \<open>Effects of the writes\<close>

lemma persistOrderIntent_effect:
  assumes "persistOrderIntent i s = (Inr u, s')"
  shows "s' = s \<and> orderById (or_id (pi_order i)) s = Some (pi_order i) \<or>
    (\<forall>x\<in>set (rp_orders s). or_id x \<noteq> or_id (pi_order i) \<and> oi_identifier x \<noteq> oi_identifier (pi_order i) \<and>
       (oi_exchangeAccountId x, oi_idempotencyKey x) \<noteq> (oi_exchangeAccountId (pi_order i), oi_idempotencyKey (pi_order i))) \<and>
    s' = addEvents [pi_event i] (s\<lparr>rp_orders := rp_orders s @ [pi_order i]\<rparr>)"
  using assms by (auto simp: persistOrderIntent_def res_simps recordsEqual_def split: option.splits)

text \<open>A write that replaces the order by one of the same identity and appends.\<close>

definition rewritten :: "OrderRecord \<Rightarrow> OrderEventRecord list \<Rightarrow> FillRecord list \<Rightarrow> RiskEventRecord list \<Rightarrow> repo \<Rightarrow> repo \<Rightarrow> bool" where
  "rewritten ord evs fills risks s s' \<longleftrightarrow>
     (\<exists>cur. orderById (or_id ord) s = Some cur \<and> sameIdentity cur ord) \<and>
     s' = s\<lparr>rp_orders := replace_where (\<lambda>x. or_id x = or_id ord) ord (rp_orders s),
            rp_orderEvents := rp_orderEvents s @ evs, rp_fills := rp_fills s @ fills, rp_riskEvents := rp_riskEvents s @ risks\<rparr>"

lemmas write_defs = replaceOrder_def addEvents_def addFills_def addRiskEvent_def

definition newFills :: "FillRecord list \<Rightarrow> repo \<Rightarrow> bool" where
  "newFills fills s \<longleftrightarrow> distinct (map fl_id fills) \<and> distinct (map (\<lambda>f. (fl_orderId f, fl_exchangeFillId f)) fills) \<and>
     (\<forall>f\<in>set fills. \<forall>g\<in>set (rp_fills s). \<not> sameFill f g)"

lemma findStoredFill_None: "findStoredFill fs f = Inr None \<longleftrightarrow> (\<forall>g\<in>set fs. \<not> sameFill f g)"
  by (cases "filter (sameFill f) fs") (auto simp: findStoredFill_def Let_def filter_empty_conv dest: Cons_eq_filterD [OF sym])

lemma findStoredFill_Some: "findStoredFill fs f = Inr (Some r) \<Longrightarrow> r \<in> set fs \<and> sameFill f r"
  by (cases "filter (sameFill f) fs") (auto simp: findStoredFill_def Let_def split: if_splits dest: Cons_eq_filterD [OF sym])

lemma persistExchangeSubmission_Inr:
  assumes "persistExchangeSubmission i s = (Inr u, s')"
  shows "\<exists>cur c. validateExchangeSubmissionInput (normalizeSubmission i) = Inr () \<and>
    orderById (or_id (px_order i)) s = Some cur \<and>
    (\<forall>e. eventById (ev_id (px_event i)) s = Some e \<longrightarrow> e = px_event i) \<and>
    (\<forall>t e. px_terminalEvent i = Some t \<longrightarrow> eventById (ev_id t) s = Some e \<longrightarrow> e = t) \<and>
    fillsAdmissible (map normalizeFillFeeProvenance (px_fills i)) s \<and>
    validateExchangeSubmissionCompletion cur (px_order i) (normalizeSubmission i) (eventsOf (or_id (px_order i)) s)
       (fillsOf (or_id (px_order i)) s) = Inr c \<and>
    s' = (if c = RETRY then s else addFills (map normalizeFillFeeProvenance (px_fills i))
      (addEvents (px_event i # (case px_terminalEvent i of None \<Rightarrow> [] | Some t \<Rightarrow> [t])) (replaceOrder (px_order i) s)))"
proof -
  have n: "px_order (normalizeSubmission i) = px_order i" "px_event (normalizeSubmission i) = px_event i"
    "px_terminalEvent (normalizeSubmission i) = px_terminalEvent i"
    "px_fills (normalizeSubmission i) = map normalizeFillFeeProvenance (px_fills i)"
    by (simp_all add: normalizeSubmission_def)
  show ?thesis
    using assms unfolding persistExchangeSubmission_def Let_def n
    by (cases "px_terminalEvent i") (auto simp: res_simps split: if_splits)
qed

lemma persistExchangeSubmission_effect:
  assumes "persistExchangeSubmission i s = (Inr u, s')"
  shows "s' = s \<or> (\<exists>cur. orderById (or_id (px_order i)) s = Some cur \<and> notYetSubmitted cur \<and>
    rewritten (px_order i) (px_event i # (case px_terminalEvent i of None \<Rightarrow> [] | Some t \<Rightarrow> [t]))
      (map normalizeFillFeeProvenance (px_fills i)) [] s s' \<and> newFills (map normalizeFillFeeProvenance (px_fills i)) s)"
proof -
  let ?n = "normalizeSubmission i"
  have nf: "px_fills ?n = map normalizeFillFeeProvenance (px_fills i)" by (simp add: normalizeSubmission_def)
  obtain cur c where val: "validateExchangeSubmissionInput ?n = Inr ()"
    and cur: "orderById (or_id (px_order i)) s = Some cur" and fills: "noConflictingFills (px_fills ?n) s = (Inr (), s)"
    and comp: "validateExchangeSubmissionCompletion cur (px_order i) ?n (eventsOf (or_id (px_order i)) s) (fillsOf (or_id (px_order i)) s) = Inr c"
    and out: "s' = (if c = RETRY then s else addFills (px_fills ?n)
      (addEvents (px_event i # (case px_terminalEvent i of None \<Rightarrow> [] | Some t \<Rightarrow> [t])) (replaceOrder (px_order i) s)))"
    using persistExchangeSubmission_Inr [OF assms] unfolding nf fillsAdmissible_def by blast
  show ?thesis
  proof (cases "c = RETRY")
    case True
    with out show ?thesis by simp
  next
    case False
    with comp have same: "sameIdentity cur (px_order i)" and none: "fillsOf (or_id (px_order i)) s = []" and ny: "notYetSubmitted cur"
      by (auto simp: validateExchangeSubmissionCompletion_def Let_def res_simps normalizeSubmission_def split: if_splits)
    from val have "validateFills (px_order i) (px_fills ?n) = Inr ()"
      by (auto simp: validateExchangeSubmissionInput_def Let_def res_simps normalizeSubmission_def)
    then have fl: "\<forall>f\<in>set (px_fills ?n). fl_orderId f = or_id (px_order i)" "distinct (map fl_id (px_fills ?n))"
      "distinct (map fillExchangeIdentity (px_fills ?n))"
      by (auto simp: validateFills_def validateFillsLoop_Inr)
    have "inj_on (\<lambda>f. (fl_orderId f, fl_exchangeFillId f)) (set (px_fills ?n))"
      using fl(1,3) by (auto simp: inj_on_def distinct_map fillExchangeIdentity_def)
    then have d2: "distinct (map (\<lambda>f. (fl_orderId f, fl_exchangeFillId f)) (px_fills ?n))"
      using fl(2) by (simp add: distinct_map)
    have "\<not> sameFill f g" if f: "f \<in> set (px_fills ?n)" and g: "g \<in> set (rp_fills s)" for f g
    proof -
      obtain ex where ex: "findStoredFill (rp_fills s) f = Inr ex" using noConflictingFills_eq_Inr(3) [OF fills f] ..
      have "ex = None"
      proof (cases ex)
        case (Some r)
        with ex have "r = f" "r \<in> set (rp_fills s)"
          using noConflictingFills_eq_Inr(2) [OF fills f] findStoredFill_Some by auto
        with none fl(1) f show ?thesis by (auto simp: fillsOf_def filter_empty_conv)
      qed
      with ex g show ?thesis by (simp add: findStoredFill_None)
    qed
    with d2 fl(2) have "newFills (px_fills ?n) s" by (auto simp: newFills_def)
    with cur same ny out False show ?thesis
      by (auto simp: rewritten_def write_defs normalizeSubmission_def)
  qed
qed

lemma resolveImmutableFillReplay_INSERT: "resolveImmutableFillReplay ex f = Inr INSERT \<longleftrightarrow> ex = None"
  by (auto simp: resolveImmutableFillReplay_def split: option.splits)

lemma fill_resolutions_Inr:
  assumes "emapM (\<lambda>fill. ebind (findStoredFill stored fill) (\<lambda>existing.
      ebind (resolveImmutableFillReplay existing fill) (\<lambda>resolution. Inr (fill, resolution)))) fills = Inr rs"
  shows "map fst rs = fills" and "(f, INSERT) \<in> set rs \<Longrightarrow> \<forall>g\<in>set stored. \<not> sameFill f g"
  using assms
  by (induction fills arbitrary: rs) (auto simp: res_simps resolveImmutableFillReplay_INSERT findStoredFill_None)

lemma validateFillForOrder_order: "validateFillForOrder ord f = Inr () \<Longrightarrow> fl_orderId f = or_id ord"
  by (simp add: validateFillForOrder_def res_simps)

lemma applyReconciledSnapshot_effect:
  assumes run: "applyReconciledSnapshot cur n s = (Inr r, s')" and "orderById (or_id (pr_order n)) s = Some cur"
    and "sameIdentity cur (pr_order n)" and "\<forall>f\<in>set (pr_fills n). fl_orderId f = or_id (pr_order n)"
    and d: "distinct (map fl_id (pr_fills n))" "distinct (map fillExchangeIdentity (pr_fills n))"
  shows "\<exists>evs fills. rewritten (pr_order n) evs fills [] s s' \<and> newFills fills s \<and> set evs \<subseteq> set_option (pr_event n)"
proof -
  let ?E = "emapM (\<lambda>fill. ebind (findStoredFill (rp_fills s) fill) (\<lambda>existing.
        ebind (resolveImmutableFillReplay existing fill) (\<lambda>resolution. Inr (fill, resolution)))) (pr_fills n)"
  from run obtain rs evs where
    rs: "emapM (\<lambda>fill. ebind (findStoredFill (rp_fills s) fill) (\<lambda>existing.
        ebind (resolveImmutableFillReplay existing fill) (\<lambda>resolution. Inr (fill, resolution)))) (pr_fills n) = Inr rs"
    and out: "s' = addFills (map fst (filter (\<lambda>(fill, resolution). resolution = INSERT) rs)) (addEvents evs (replaceOrder (pr_order n) s))"
    and evs: "set evs \<subseteq> set_option (pr_event n)"
  proof (cases "pr_event n")
    case None
    with run have "\<exists>rs. ?E = Inr rs \<and> s' = addFills (map fst (filter (\<lambda>(fill, resolution). resolution = INSERT) rs))
        (addEvents [] (replaceOrder (pr_order n) s))"
      by (auto simp: applyReconciledSnapshot_def Let_def res_simps)
    then show thesis using that [of _ "[]"] by auto
  next
    case (Some e)
    with run have "\<exists>rs. ?E = Inr rs \<and> s' = addFills (map fst (filter (\<lambda>(fill, resolution). resolution = INSERT) rs))
        (addEvents (if eventById (ev_id e) s = None then [e] else []) (replaceOrder (pr_order n) s))"
      by (auto simp: applyReconciledSnapshot_def Let_def res_simps)
    then show thesis using that [of _ "if eventById (ev_id e) s = None then [e] else []"] Some by auto
  qed
  let ?ins = "map fst (filter (\<lambda>(fill, resolution). resolution = INSERT) rs)"
  have "inj_on (\<lambda>f. (fl_orderId f, fl_exchangeFillId f)) (set (pr_fills n))"
    using assms(4) d(2) by (auto simp: inj_on_def distinct_map fillExchangeIdentity_def)
  then have d2: "distinct (map (\<lambda>f. (fl_orderId f, fl_exchangeFillId f)) (pr_fills n))"
    using d(1) by (simp add: distinct_map)
  have mf: "map fst rs = pr_fills n" by (rule fill_resolutions_Inr(1) [OF rs])
  have "distinct (map fl_id ?ins)" "distinct (map (\<lambda>f. (fl_orderId f, fl_exchangeFillId f)) ?ins)"
    using d(1) d2 unfolding mf [symmetric] by (simp_all add: distinct_map_filter)
  moreover have "\<forall>f\<in>set ?ins. \<forall>g\<in>set (rp_fills s). \<not> sameFill f g" using fill_resolutions_Inr(2) [OF rs] by auto
  ultimately have "newFills ?ins s" by (simp add: newFills_def)
  moreover have "rewritten (pr_order n) evs ?ins [] s s'" using assms(2,3) out by (auto simp: rewritten_def write_defs)
  ultimately show ?thesis using evs by blast
qed

lemma persistReconciledExchangeSnapshot_effect:
  assumes "persistReconciledExchangeSnapshot i s = (Inr r, s')"
  shows "s' = s \<and> res_outcome r = CONFLICT \<or> (\<exists>evs fills. rewritten (pr_order i) evs fills [] s s' \<and> newFills fills s \<and>
    orderById (or_id (pr_order i)) s = Some (pr_expectedOrder i) \<and> set evs \<subseteq> set_option (pr_event i))"
proof -
  define n where "n = i\<lparr>pr_fills := map normalizeFillFeeProvenance (pr_fills i)\<rparr>"
  have n [simp]: "pr_order n = pr_order i" "pr_expectedOrder n = pr_expectedOrder i" "pr_event n = pr_event i" by (simp_all add: n_def)
  from assms obtain cur where val: "validateReconciledExchangeSnapshotInput n = Inr ()"
    and cur: "orderById (or_id (pr_order i)) s = Some cur"
    and run: "(if cur \<noteq> pr_expectedOrder i then sreturn \<lparr>res_outcome = CONFLICT, res_insertedFillCount = 0\<rparr>
      else applyReconciledSnapshot cur n) s = (Inr r, s')"
    unfolding persistReconciledExchangeSnapshot_def Let_def n_def [symmetric] by (auto simp: res_simps recordsEqual_def)
  show ?thesis
  proof (cases "cur = pr_expectedOrder i")
    case False
    with run show ?thesis by auto
  next
    case True
    from val have same: "sameIdentity (pr_expectedOrder i) (pr_order i)" and
      fl: "\<forall>f\<in>set (pr_fills n). validateFillForOrder (pr_order i) f = Inr ()" "distinct (map fl_id (pr_fills n))"
      "distinct (map fillExchangeIdentity (pr_fills n))"
      by (auto simp: validateReconciledExchangeSnapshotInput_def Let_def res_simps validateSnapshotFillsLoop_Inr)
    from True run have run': "applyReconciledSnapshot cur n s = (Inr r, s')" by simp
    have "\<exists>evs fills. rewritten (pr_order n) evs fills [] s s' \<and> newFills fills s \<and> set evs \<subseteq> set_option (pr_event n)"
      using True cur same fl validateFillForOrder_order by (intro applyReconciledSnapshot_effect [OF run']) auto
    with True cur show ?thesis by auto
  qed
qed

lemma persistReconciliationRecovery_effect:
  assumes "persistReconciliationRecovery i s = (Inr r, s')"
  shows "s' = s \<or> rewritten (pv_order i) [pv_event i] [] [pv_riskEvent i] s s'"
  using assms
  by (auto simp: persistReconciliationRecovery_def Let_def res_simps recordsEqual_def rewritten_def write_defs
      validateReconciliationRecoveryInput_def split: if_splits)

lemma persistUncertainSubmission_effect:
  assumes "persistUncertainSubmission i s = (Inr r, s')"
  shows "s' = s \<or> rewritten (pu_order i) [pu_event i] [] [pu_riskEvent i] s s'"
  using assms
  by (auto simp: persistUncertainSubmission_def Let_def res_simps recordsEqual_def rewritten_def write_defs
      validateUncertainSubmissionCompletion_def split: if_splits)

lemma saveFill_effect:
  assumes "saveFill f s = (Inr r, s')"
  shows "s' = s \<or> newFills [normalizeFillFeeProvenance f] s \<and> s' = addFills [normalizeFillFeeProvenance f] s"
  using assms
  by (auto simp: saveFill_def Let_def res_simps newFills_def resolveImmutableFillReplay_INSERT findStoredFill_None split: if_splits)

lemma failedAbsentOrder_same [simp]: "sameIdentity cur (failedAbsentOrder i cur)" "or_id (failedAbsentOrder i cur) = or_id cur"
  by (simp_all add: failedAbsentOrder_def sameIdentity_def OrderIntent.truncate_def)

lemma finalizeBoundedSubmissionAbsence_effect:
  assumes "finalizeBoundedSubmissionAbsence pauser i (s, p) = (Inr b, (s', p'))"
  shows "(if b then \<exists>cur st f. pauser = Some f \<and> orderById (fz_orderId i) s = Some cur \<and> ev_orderId (fz_event i) = fz_orderId i \<and>
      f (fz_faultPause i) p = (Inr st, p') \<and> rewritten (failedAbsentOrder i cur) [fz_event i] [] [] s s'
    else s' = s \<and> p' = p)"
proof (cases "orderById (fz_orderId i) s")
  case None
  with assms show ?thesis by (auto simp: finalizeBoundedSubmissionAbsence_def onRepo_def sbind_def)
next
  case (Some cur)
  then have "or_id cur = fz_orderId i" by (auto simp: orderById_def dest: find_Some_set)
  with assms Some show ?thesis
    by (auto simp: finalizeBoundedSubmissionAbsence_def onRepo_def onPauser_def sbind_eq_Inr sguard_eq_Inr rewritten_def
        addEvents_def failedAbsentOrder_same split: option.splits if_splits prod.splits)
qed

lemma persistCandidateProjectionFault_effect:
  assumes "persistCandidateProjectionFault pauser i (s, p) = (Inr r, (s', p'))"
  shows "(\<exists>st f. pauser = Some f \<and> f (pf_faultPause i) p = (Inr st, p')) \<and>
    s' = (if r = APPLIED then addEvents [pf_event i] s else s)"
  using assms
  by (auto simp: persistCandidateProjectionFault_def onRepo_def onPauser_def sbind_eq_Inr sguard_eq_Inr
      split: option.splits if_splits prod.splits)

subsection \<open>Invariants\<close>

definition uniqueOrders :: "repo \<Rightarrow> bool" where
  "uniqueOrders s \<longleftrightarrow> distinct (map or_id (rp_orders s)) \<and> distinct (map oi_identifier (rp_orders s)) \<and>
     distinct (map (\<lambda>x. (oi_exchangeAccountId x, oi_idempotencyKey x)) (rp_orders s))"

text \<open>What every store operation keeps without help of its caller: the ids.\<close>

definition uniqueIds :: "repo \<Rightarrow> bool" where
  "uniqueIds s \<longleftrightarrow> distinct (map or_id (rp_orders s))"

definition uniqueFills :: "repo \<Rightarrow> bool" where
  "uniqueFills s \<longleftrightarrow> distinct (map fl_id (rp_fills s)) \<and>
     distinct (map (\<lambda>f. (fl_orderId f, fl_exchangeFillId f)) (rp_fills s))"

definition evolves :: "repo \<Rightarrow> repo \<Rightarrow> bool" where
  "evolves s s' \<longleftrightarrow> (\<exists>ords news. rp_orders s' = ords @ news \<and> list_all2 sameIdentity (rp_orders s) ords) \<and>
     prefix (rp_orderEvents s) (rp_orderEvents s') \<and> prefix (rp_fills s) (rp_fills s') \<and>
     prefix (rp_riskEvents s) (rp_riskEvents s') \<and> prefix (rp_observations s) (rp_observations s')"

lemma list_all2_sameIdentity_refl: "list_all2 sameIdentity xs xs"
  by (simp add: list.rel_refl)

lemma list_all2_sameIdentity_trans:
  "list_all2 sameIdentity xs ys \<Longrightarrow> list_all2 sameIdentity ys zs \<Longrightarrow> list_all2 sameIdentity xs zs"
  by (rule list_all2_trans) (auto intro: sameIdentity_trans)

lemma evolves_refl [simp]: "evolves s s"
  unfolding evolves_def
  by (intro conjI exI [of _ "rp_orders s"] exI [of _ "[]"]) (simp_all add: list_all2_sameIdentity_refl)

lemma evolves_trans: "evolves s t \<Longrightarrow> evolves t u \<Longrightarrow> evolves s u"
proof -
  assume st: "evolves s t" and tu: "evolves t u"
  from st obtain a n where a: "rp_orders t = a @ n" "list_all2 sameIdentity (rp_orders s) a" by (auto simp: evolves_def)
  from tu obtain b m where b: "rp_orders u = b @ m" "list_all2 sameIdentity (a @ n) b" by (auto simp: evolves_def a(1))
  then obtain b1 b2 where c: "b = b1 @ b2" "list_all2 sameIdentity a b1" by (auto simp: list_all2_append1)
  have "rp_orders u = b1 @ (b2 @ m)" "list_all2 sameIdentity (rp_orders s) b1"
    using b(1) c list_all2_sameIdentity_trans [OF a(2) c(2)] by auto
  then have "\<exists>ords news. rp_orders u = ords @ news \<and> list_all2 sameIdentity (rp_orders s) ords" by blast
  moreover have "prefix (rp_orderEvents s) (rp_orderEvents u)"
    by (rule prefix_order.order_trans [of _ "rp_orderEvents t"]) (use st tu in \<open>simp_all add: evolves_def\<close>)
  moreover have "prefix (rp_fills s) (rp_fills u)"
    by (rule prefix_order.order_trans [of _ "rp_fills t"]) (use st tu in \<open>simp_all add: evolves_def\<close>)
  moreover have "prefix (rp_riskEvents s) (rp_riskEvents u)"
    by (rule prefix_order.order_trans [of _ "rp_riskEvents t"]) (use st tu in \<open>simp_all add: evolves_def\<close>)
  moreover have "prefix (rp_observations s) (rp_observations u)"
    by (rule prefix_order.order_trans [of _ "rp_observations t"]) (use st tu in \<open>simp_all add: evolves_def\<close>)
  ultimately show ?thesis by (simp add: evolves_def)
qed

lemma evolves_order:
  "evolves s s' \<Longrightarrow> ord \<in> set (rp_orders s) \<Longrightarrow> \<exists>ord'\<in>set (rp_orders s'). sameIdentity ord ord'"
proof -
  assume "evolves s s'" "ord \<in> set (rp_orders s)"
  then obtain ords news where o: "rp_orders s' = ords @ news" "list_all2 sameIdentity (rp_orders s) ords" by (auto simp: evolves_def)
  from \<open>ord \<in> _\<close> obtain k where k: "k < length (rp_orders s)" "rp_orders s ! k = ord" by (auto simp: in_set_conv_nth)
  with o(2) have "sameIdentity ord (ords ! k)" "k < length ords" by (auto simp: list_all2_conv_all_nth)
  with o(1) show ?thesis by auto
qed

lemma identity_maps:
  assumes "list_all2 sameIdentity xs ys"
  shows "map or_id ys = map or_id xs" "map oi_identifier ys = map oi_identifier xs"
    "map (\<lambda>x. (oi_exchangeAccountId x, oi_idempotencyKey x)) ys = map (\<lambda>x. (oi_exchangeAccountId x, oi_idempotencyKey x)) xs"
  using assms by (induction rule: list_all2_induct) (auto dest: sameIdentity_fields)

lemma orderById_unique:
  assumes "uniqueIds s" "orderById i s = Some cur" "x \<in> set (rp_orders s)" "or_id x = i"
  shows "x = cur"
  using assms find_eq_distinct [of or_id "rp_orders s" x] by (auto simp: uniqueIds_def orderById_def)

lemma orderById_id: "orderById i s = Some cur \<Longrightarrow> or_id cur = i \<and> cur \<in> set (rp_orders s)"
  by (auto simp: orderById_def dest: find_Some_set)

lemma replace_identity:
  assumes "uniqueIds s" "orderById (or_id ord) s = Some cur" "sameIdentity cur ord"
  shows "list_all2 sameIdentity (rp_orders s) (replace_where (\<lambda>x. or_id x = or_id ord) ord (rp_orders s))"
  using orderById_unique [OF assms(1,2)] assms(3) by (auto simp: replace_where_def list_all2_conv_all_nth dest!: nth_mem)

lemma rewritten_invariants:
  assumes "uniqueIds s" "uniqueFills s" "rewritten ord evs fills risks s s'" "newFills fills s"
  shows "uniqueIds s' \<and> uniqueFills s' \<and> evolves s s' \<and> (uniqueOrders s \<longrightarrow> uniqueOrders s')"
proof -
  from assms(3) obtain cur where cur: "orderById (or_id ord) s = Some cur" "sameIdentity cur ord"
    and s': "s' = s\<lparr>rp_orders := replace_where (\<lambda>x. or_id x = or_id ord) ord (rp_orders s),
            rp_orderEvents := rp_orderEvents s @ evs, rp_fills := rp_fills s @ fills, rp_riskEvents := rp_riskEvents s @ risks\<rparr>"
    by (auto simp: rewritten_def)
  note rel = replace_identity [OF assms(1) cur]
  have "uniqueIds s'" using assms(1) identity_maps [OF rel] by (simp add: uniqueIds_def s')
  moreover have "uniqueOrders s \<longrightarrow> uniqueOrders s'" using identity_maps [OF rel] by (simp add: uniqueOrders_def s')
  moreover have "uniqueFills s'"
    using assms(2,4) by (auto simp: uniqueFills_def newFills_def s' sameFill_def)
  moreover have "evolves s s'" using rel by (auto simp: evolves_def s')
  ultimately show ?thesis by simp
qed

lemma newFills_Nil [simp]: "newFills [] s"
  by (simp add: newFills_def)

subsection \<open>Reachable states\<close>

text \<open>
  The calls that touch orders, events, fills, risk events and observations. Two of them check nothing, and their rules
  have what their callers do as premises. \<open>saveOrder\<close> appends: its one caller, the recovery of exchange orders that are
  not stored (\<open>src/src/modules/reconciliation/reconciliation-service.ts\<close>, \<open>recoverMissingExchangeOrders\<close>), gives the
  order an id of its own. \<open>updateOrder\<close> overwrites the stored order of the same id, or appends when there is none: its
  callers (\<open>reconciliation-service.ts\<close> and \<open>execution-service.ts\<close>) pass a copy of a stored order with another status.
  Nothing is assumed of the identifier and the idempotency key of an order that is saved.
\<close>

inductive repo_step :: "repo \<Rightarrow> repo \<Rightarrow> bool" where
  intent: "persistOrderIntent i s = (r, s') \<Longrightarrow> repo_step s s'"
| submission: "persistExchangeSubmission i s = (r, s') \<Longrightarrow> repo_step s s'"
| snapshot: "persistReconciledExchangeSnapshot i s = (r, s') \<Longrightarrow> repo_step s s'"
| recovery: "persistReconciliationRecovery i s = (r, s') \<Longrightarrow> repo_step s s'"
| uncertain: "persistUncertainSubmission i s = (r, s') \<Longrightarrow> repo_step s s'"
| save: "orderById (or_id ord) s = None \<Longrightarrow> saveOrder ord s = (r, s') \<Longrightarrow> repo_step s s'"
| update: "\<forall>old. orderById (or_id ord) s = Some old \<longrightarrow> sameIdentity old ord \<Longrightarrow> updateOrder ord s = (r, s') \<Longrightarrow> repo_step s s'"
| event: "appendOrderEvent e s = (r, s') \<Longrightarrow> repo_step s s'"
| fill: "saveFill f s = (r, s') \<Longrightarrow> repo_step s s'"
| observation: "saveOrderSubmissionRecoveryObservation ob s = (r, s') \<Longrightarrow> repo_step s s'"
| risk: "saveRiskEvent rk s = (r, s') \<Longrightarrow> repo_step s s'"
| absence: "finalizeBoundedSubmissionAbsence (Some applyFaultPauseAtomically) i (s, p) = (r, (s', p')) \<Longrightarrow> repo_step s s'"
| projectionFault: "persistCandidateProjectionFault (Some applyFaultPauseAtomically) j (s, p) = (r, (s', p')) \<Longrightarrow> repo_step s s'"

definition repo_inv :: "repo \<Rightarrow> bool" where
  "repo_inv s \<longleftrightarrow> uniqueIds s \<and> uniqueFills s"

definition unusedIdentity :: "OrderRecord \<Rightarrow> repo \<Rightarrow> bool" where
  "unusedIdentity ord s \<longleftrightarrow> (\<forall>x\<in>set (rp_orders s). or_id x \<noteq> or_id ord \<and> oi_identifier x \<noteq> oi_identifier ord \<and>
     (oi_exchangeAccountId x, oi_idempotencyKey x) \<noteq> (oi_exchangeAccountId ord, oi_idempotencyKey ord))"

text \<open>A call of one of the two unchecked operations that adds an order whose identifier or key is taken.\<close>

definition reusesIdentity :: "repo \<Rightarrow> repo \<Rightarrow> bool" where
  "reusesIdentity s s' \<longleftrightarrow> (\<exists>ord. (saveOrder ord s = (Inr (), s') \<or> updateOrder ord s = (Inr (), s')) \<and>
     orderById (or_id ord) s = None \<and> \<not> unusedIdentity ord s)"

definition keeps :: "repo \<Rightarrow> repo \<Rightarrow> bool" where
  "keeps s s' \<longleftrightarrow> repo_inv s' \<and> evolves s s' \<and> (uniqueOrders s \<longrightarrow> reusesIdentity s s' \<or> uniqueOrders s')"

lemma keeps_refl: "repo_inv s \<Longrightarrow> keeps s s"
  by (simp add: keeps_def)

lemma all_or_nothingD: "all_or_nothing m \<Longrightarrow> m s = (r, s') \<Longrightarrow> s' = s \<or> (\<exists>x. r = Inr x)"
  by (cases r) (auto simp: all_or_nothing_def)

lemma all_or_nothing_Inl: "all_or_nothing m \<Longrightarrow> m s = (Inl e, s') \<Longrightarrow> s' = s"
  by (auto simp: all_or_nothing_def)

lemma upsert_replace:
  "find p xs = Some y \<Longrightarrow> \<forall>x\<in>set xs. p x \<longrightarrow> x = y \<Longrightarrow> distinct xs \<Longrightarrow> upsert p v xs = replace_where p v xs"
proof (induction xs)
  case (Cons a xs)
  show ?case
  proof (cases "p a")
    case True
    with Cons.prems have "\<forall>x\<in>set xs. \<not> p x" by (auto split: if_splits)
    then have "map (\<lambda>x. if p x then v else x) xs = xs" by (simp add: map_idI)
    with True show ?thesis by (simp add: replace_where_def)
  next
    case False
    with Cons show ?thesis by (simp add: replace_where_def)
  qed
qed simp

lemma kept_self: "\<exists>ords. (\<exists>news. xs = ords @ news) \<and> list_all2 sameIdentity xs ords"
  by (intro exI [of _ xs] conjI exI [of _ "[]"]) (simp_all add: list_all2_sameIdentity_refl)

lemma same_orders_keeps:
  assumes "repo_inv s" "rp_orders s' = rp_orders s" "uniqueFills s'" "prefix (rp_orderEvents s) (rp_orderEvents s')"
    "prefix (rp_fills s) (rp_fills s')" "prefix (rp_riskEvents s) (rp_riskEvents s')" "prefix (rp_observations s) (rp_observations s')"
  shows "keeps s s'"
  using assms by (simp add: keeps_def repo_inv_def uniqueIds_def uniqueOrders_def evolves_def kept_self)

lemma append_keeps:
  "repo_inv s \<Longrightarrow> keeps s (addEvents evs s)"
  "repo_inv s \<Longrightarrow> keeps s (addRiskEvent rk s)"
  "repo_inv s \<Longrightarrow> keeps s (s\<lparr>rp_observations := rp_observations s @ obs\<rparr>)"
  "repo_inv s \<Longrightarrow> newFills fs s \<Longrightarrow> keeps s (addFills fs s)"
  by (rule same_orders_keeps; auto simp: repo_inv_def uniqueFills_def write_defs newFills_def sameFill_def)+

lemma rewritten_keeps: "repo_inv s \<Longrightarrow> rewritten ord evs fills risks s s' \<Longrightarrow> newFills fills s \<Longrightarrow> keeps s s'"
  unfolding keeps_def repo_inv_def by (drule (1) rewritten_invariants [rotated 2], simp_all)

lemma added_order:
  assumes "repo_inv s" "\<forall>x\<in>set (rp_orders s). or_id x \<noteq> or_id ord"
  shows "repo_inv (addEvents evs (s\<lparr>rp_orders := rp_orders s @ [ord]\<rparr>))" (is "repo_inv ?s'")
    and "evolves s (addEvents evs (s\<lparr>rp_orders := rp_orders s @ [ord]\<rparr>))"
    and "uniqueOrders s \<Longrightarrow> unusedIdentity ord s \<Longrightarrow> uniqueOrders (addEvents evs (s\<lparr>rp_orders := rp_orders s @ [ord]\<rparr>))"
proof -
  show "repo_inv ?s'" using assms by (auto simp: repo_inv_def uniqueIds_def uniqueFills_def addEvents_def)
  show "evolves s ?s'" using list_all2_sameIdentity_refl by (auto simp: evolves_def addEvents_def)
  show "uniqueOrders ?s'" if "uniqueOrders s" "unusedIdentity ord s"
    using that by (auto simp: uniqueOrders_def unusedIdentity_def addEvents_def)
qed

lemma append_order_keeps:
  assumes "repo_inv s" "unusedIdentity ord s"
  shows "keeps s (addEvents evs (s\<lparr>rp_orders := rp_orders s @ [ord]\<rparr>))"
  using added_order [of s ord] assms by (simp add: keeps_def unusedIdentity_def)

lemma plain_intent_effect:
  assumes "persistOrderIntent i s = (Inr u, s')"
  shows "s' = s \<and> pi_order i \<in> set (rp_orders s) \<or>
    unusedIdentity (pi_order i) s \<and> s' = addEvents [pi_event i] (s\<lparr>rp_orders := rp_orders s @ [pi_order i]\<rparr>)"
  using persistOrderIntent_effect [OF assms] by (auto simp: unusedIdentity_def dest: orderById_id)

lemma intent_keeps: "repo_inv s \<Longrightarrow> persistOrderIntent i s = (Inr u, s') \<Longrightarrow> keeps s s'"
  using plain_intent_effect append_order_keeps keeps_refl by blast

lemma addEvents_Nil [simp]: "addEvents [] s = s"
  by (simp add: addEvents_def)

lemma orderById_None: "orderById i s = None \<longleftrightarrow> (\<forall>x\<in>set (rp_orders s). or_id x \<noteq> i)"
  by (auto simp: orderById_def find_None_iff)

lemma unchecked_append_keeps:
  assumes "repo_inv s" "orderById (or_id ord) s = None" "s' = s\<lparr>rp_orders := rp_orders s @ [ord]\<rparr>"
    and "saveOrder ord s = (Inr (), s') \<or> updateOrder ord s = (Inr (), s')"
  shows "keeps s s'"
proof -
  note added = added_order [OF assms(1), of ord "[]"]
  have "reusesIdentity s s'" if "\<not> unusedIdentity ord s" using assms(2,4) that by (auto simp: reusesIdentity_def)
  then have "uniqueOrders s \<longrightarrow> reusesIdentity s s' \<or> uniqueOrders s'"
    using added(3) assms(2,3) by (auto simp: orderById_None)
  then show ?thesis using added(1,2) assms(2,3) by (simp add: keeps_def orderById_None)
qed

lemma upsert_append: "\<forall>x\<in>set xs. \<not> p x \<Longrightarrow> upsert p v xs = xs @ [v]"
  by (induction xs) auto

lemma updateOrder_stored:
  assumes "repo_inv s" "orderById (or_id ord) s = Some old" "sameIdentity old ord" "updateOrder ord s = (r, s')"
  shows "rewritten ord [] [] [] s s'"
proof -
  have u: "uniqueIds s" using assms(1) by (simp add: repo_inv_def)
  have "upsert (\<lambda>candidate. or_id candidate = or_id ord) ord (rp_orders s) =
      replace_where (\<lambda>candidate. or_id candidate = or_id ord) ord (rp_orders s)"
    using assms(2) orderById_unique [OF u assms(2)] u
    by (intro upsert_replace [of _ _ old]) (auto simp: orderById_def uniqueIds_def distinct_map)
  with assms show ?thesis by (auto simp: updateOrder_def rewritten_def)
qed

lemma updateOrder_keeps:
  assumes "repo_inv s" "\<forall>old. orderById (or_id ord) s = Some old \<longrightarrow> sameIdentity old ord" "updateOrder ord s = (r, s')"
  shows "keeps s s'"
proof (cases "orderById (or_id ord) s")
  case None
  with assms(3) show ?thesis
    by (intro unchecked_append_keeps [OF assms(1) None]) (auto simp: updateOrder_def orderById_None upsert_append)
next
  case (Some old)
  with assms show ?thesis using updateOrder_stored rewritten_keeps newFills_Nil by blast
qed

lemma repo_step_keeps:
  assumes "repo_step s s'" "repo_inv s"
  shows "keeps s s'"
proof -
  have same: "s' = s \<Longrightarrow> ?thesis" using keeps_refl [OF assms(2)] by simp
  have rew: "rewritten ord evs fills risks s s' \<Longrightarrow> newFills fills s \<Longrightarrow> ?thesis" for ord evs fills risks
    by (rule rewritten_keeps [OF assms(2)])
  note failed = repo_writes_all_or_nothing [THEN all_or_nothingD]
  from assms(1) show ?thesis
  proof cases
    case (intent i r)
    from failed(1) [OF intent] same intent intent_keeps [OF assms(2)] show ?thesis by blast
  next
    case (submission i r)
    from failed(2) [OF submission] show ?thesis
      using same rew submission persistExchangeSubmission_effect by blast
  next
    case (snapshot i r)
    from failed(3) [OF snapshot] show ?thesis
      using same rew snapshot persistReconciledExchangeSnapshot_effect by blast
  next
    case (recovery i r)
    from failed(4) [OF recovery] show ?thesis
      using same rew recovery persistReconciliationRecovery_effect newFills_Nil by blast
  next
    case (uncertain i r)
    from failed(5) [OF uncertain] show ?thesis
      using same rew uncertain persistUncertainSubmission_effect newFills_Nil by blast
  next
    case (save ord r)
    then show ?thesis by (intro unchecked_append_keeps [OF assms(2)]) (auto simp: saveOrder_def)
  next
    case (update ord r)
    then show ?thesis by (rule updateOrder_keeps [OF assms(2)])
  next
    case (event e r)
    then show ?thesis using append_keeps(1) [OF assms(2)] by (auto simp: appendOrderEvent_def)
  next
    case (fill f r)
    from failed(6) [OF fill] show ?thesis
      using same fill saveFill_effect append_keeps(4) [OF assms(2)] by blast
  next
    case (observation ob r)
    then show ?thesis using append_keeps(3) [OF assms(2)] same
      by (auto simp: saveOrderSubmissionRecoveryObservation_def sbind_def sguard_run split: option.splits if_splits)
  next
    case (risk rk r)
    then show ?thesis using append_keeps(2) [OF assms(2)] by (auto simp: saveRiskEvent_def)
  next
    case (absence i p r p')
    show ?thesis
    proof (cases r)
      case (Inl e)
      with absence have "s' = s"
        by (auto simp: finalizeBoundedSubmissionAbsence_def onRepo_def onPauser_def sbind_def sguard_run
            split: option.splits if_splits prod.splits sum.splits)
      then show ?thesis by (rule same)
    next
      case (Inr b)
      with absence have "s' = s \<or> (\<exists>cur. rewritten (failedAbsentOrder i cur) [fz_event i] [] [] s s')"
        using finalizeBoundedSubmissionAbsence_effect by (fastforce split: if_splits)
      with same rew newFills_Nil show ?thesis by blast
    qed
  next
    case (projectionFault j p r p')
    show ?thesis
    proof (cases r)
      case (Inl e)
      with projectionFault have "s' = s"
        by (auto simp: persistCandidateProjectionFault_def onRepo_def onPauser_def sbind_def sguard_run
            split: option.splits if_splits prod.splits sum.splits)
      then show ?thesis by (rule same)
    next
      case (Inr b)
      with projectionFault have "s' = s \<or> s' = addEvents [pf_event j] s"
        using persistCandidateProjectionFault_effect by (fastforce split: if_splits)
      with same append_keeps(1) [OF assms(2)] show ?thesis by blast
    qed
  qed
qed

lemma repo_step_invariants: "repo_step s s' \<Longrightarrow> repo_inv s \<Longrightarrow> repo_inv s' \<and> evolves s s'"
  using repo_step_keeps by (simp add: keeps_def)

lemma repo_steps_invariants:
  "repo_step\<^sup>*\<^sup>* s s' \<Longrightarrow> repo_inv s \<Longrightarrow> repo_inv s' \<and> evolves s s'"
proof (induction rule: rtranclp_induct)
  case (step t u)
  with repo_step_invariants [of t u] evolves_trans [of s t u] show ?case by blast
qed simp

subsection \<open>Retrying a submission write\<close>

lemma emapM_Inr: "(\<And>x. x \<in> set xs \<Longrightarrow> f x = Inr (g x)) \<Longrightarrow> emapM f xs = Inr (map g xs)"
  by (induction xs) auto

lemma find_zip_same: "(\<And>x. x \<in> set xs \<Longrightarrow> \<not> P (g x, x)) \<Longrightarrow> find P (zip (map g xs) xs) = None"
  by (induction xs) auto

lemma filter_sameFill:
  assumes "distinct (map fl_id fs)" "distinct (map (\<lambda>f. (fl_orderId f, fl_exchangeFillId f)) fs)" "f \<in> set fs"
  shows "filter (sameFill f) fs = [f]"
proof -
  have "filter (sameFill f) fs = filter (\<lambda>g. fl_id g = fl_id f) fs"
    using assms by (intro filter_cong) (auto simp: sameFill_def distinct_map inj_on_def)
  also have "\<dots> = [f]" by (rule filter_singleton_distinct [OF assms(1,3)])
  finally show ?thesis .
qed

lemma stored_fills_admissible:
  assumes "newFills fs s" and "rp_fills s' = rp_fills s @ fs"
  shows "fillsAdmissible fs s'"
proof -
  have "findStoredFill (rp_fills s') f = Inr (Some f)" if "f \<in> set fs" for f
  proof -
    have "filter (sameFill f) (rp_fills s) = []" using assms(1) that by (auto simp: newFills_def filter_empty_conv)
    moreover have "filter (sameFill f) fs = [f]" using assms(1) that by (intro filter_sameFill) (auto simp: newFills_def)
    ultimately show ?thesis by (simp add: findStoredFill_def assms(2))
  qed
  then have "emapM (findStoredFill (rp_fills s')) fs = Inr (map Some fs)" by (rule emapM_Inr)
  moreover have "find (\<lambda>(ex, fill). case ex of None \<Rightarrow> False | Some record \<Rightarrow> \<not> recordsEqual record fill) (zip (map Some fs) fs) = None"
    by (rule find_zip_same) (simp add: recordsEqual_def)
  ultimately show ?thesis by (simp add: fillsAdmissible_def noConflictingFills_def)
qed

lemma recordsEqualSet_self:
  assumes "distinct (map fl_id fs)" "\<forall>f\<in>set fs. nul \<notin> set (fl_id f)"
  shows "recordsEqualSet fs fs fillIdentity"
proof -
  have "inj_on fillIdentity (set fs)"
    using assms by (auto simp: inj_on_def fillIdentity_def append_nul_inject distinct_map)
  then have d: "distinct (map fillIdentity fs)" using assms(1) by (simp add: distinct_map)
  then show ?thesis
    using find_eq_distinct [OF d] by (auto simp: recordsEqualSet_def list_all_iff recordsEqual_def)
qed

lemma replaced_orderById:
  assumes "orderById (or_id ord) s = Some cur" "rp_orders s' = replace_where (\<lambda>x. or_id x = or_id ord) ord (rp_orders s)"
  shows "orderById (or_id ord) s' = Some ord"
proof -
  have "find (\<lambda>x. or_id x = or_id ord) (map (\<lambda>x. if or_id x = or_id ord then ord else x) xs) = Some ord"
    if "find (\<lambda>x. or_id x = or_id ord) xs = Some cur" for xs
    using that by (induction xs) (auto split: if_splits)
  with assms show ?thesis by (simp add: orderById_def replace_where_def)
qed

lemma validSubmission_status:
  "validateExchangeSubmissionInput i = Inr () \<Longrightarrow> \<not> notYetSubmitted (px_order i)"
  by (auto simp: validateExchangeSubmissionInput_def Let_def res_simps notYetSubmitted_def)

lemma validSubmission_events:
  assumes "validateExchangeSubmissionInput i = Inr ()"
  shows "ev_orderId (px_event i) = or_id (px_order i)" "ev_eventType (px_event i) \<in> {''ORDER_SUBMITTED'', ''ORDER_REJECTED''}"
    "px_terminalEvent i = Some t \<Longrightarrow> ev_orderId t = or_id (px_order i) \<and> ev_eventType t = ''ORDER_FILLED'' \<and> ev_id t \<noteq> ev_id (px_event i)"
  using assms by (auto simp: validateExchangeSubmissionInput_def Let_def res_simps validateOrderEvent_def split: option.splits if_splits)

lemma submission_run:
  assumes "validateExchangeSubmissionInput (normalizeSubmission i) = Inr ()" "orderById (or_id (px_order i)) s = Some (px_order i)"
    "eventById (ev_id (px_event i)) s = Some (px_event i)"
    "\<And>t. px_terminalEvent i = Some t \<Longrightarrow> eventById (ev_id t) s = Some t"
    "fillsAdmissible (map normalizeFillFeeProvenance (px_fills i)) s"
    "validateExchangeSubmissionCompletion (px_order i) (px_order i) (normalizeSubmission i) (eventsOf (or_id (px_order i)) s)
       (fillsOf (or_id (px_order i)) s) = Inr RETRY"
  shows "persistExchangeSubmission i s = (Inr (), s)"
proof -
  have n: "px_order (normalizeSubmission i) = px_order i" "px_event (normalizeSubmission i) = px_event i"
    "px_terminalEvent (normalizeSubmission i) = px_terminalEvent i"
    "px_fills (normalizeSubmission i) = map normalizeFillFeeProvenance (px_fills i)"
    by (simp_all add: normalizeSubmission_def)
  show ?thesis
    using assms unfolding persistExchangeSubmission_def Let_def n fillsAdmissible_def
    by (cases "px_terminalEvent i")
      (simp_all add: sbind_def requireOrder_def assertSameAccount_def assertNoConflictingRecord_def sguard_run recordsEqual_def)
qed

lemma submission_retry:
  assumes run: "persistExchangeSubmission i s = (Inr (), s')" and nn: "\<forall>f\<in>set (px_fills i). nul \<notin> set (fl_id f)"
  shows "persistExchangeSubmission i s' = (Inr (), s')"
proof -
  let ?n = "normalizeSubmission i" and ?f = "map normalizeFillFeeProvenance (px_fills i)" and ?o = "or_id (px_order i)"
  have n: "px_order ?n = px_order i" "px_event ?n = px_event i" "px_terminalEvent ?n = px_terminalEvent i" "px_fills ?n = ?f"
    by (simp_all add: normalizeSubmission_def)
  from persistExchangeSubmission_Inr [OF run] obtain cur c where val: "validateExchangeSubmissionInput ?n = Inr ()"
    and ev: "\<forall>e. eventById (ev_id (px_event i)) s = Some e \<longrightarrow> e = px_event i"
    and tev: "\<forall>t e. px_terminalEvent i = Some t \<longrightarrow> eventById (ev_id t) s = Some e \<longrightarrow> e = t"
    and comp: "validateExchangeSubmissionCompletion cur (px_order i) ?n (eventsOf ?o s) (fillsOf ?o s) = Inr c"
    and out: "s' = (if c = RETRY then s else addFills ?f
      (addEvents (px_event i # (case px_terminalEvent i of None \<Rightarrow> [] | Some t \<Rightarrow> [t])) (replaceOrder (px_order i) s)))"
    and cur: "orderById ?o s = Some cur"
    by blast
  show ?thesis
  proof (cases "c = RETRY")
    case True
    with out run show ?thesis by simp
  next
    case False
    note evs = validSubmission_events [OF val, unfolded n] and st = validSubmission_status [OF val, unfolded n]
    let ?t = "case px_terminalEvent i of None \<Rightarrow> [] | Some t \<Rightarrow> [t]"
    from comp False have sub: "filter (\<lambda>e. ev_eventType e = ''ORDER_SUBMITTED'' \<or> ev_eventType e = ''ORDER_REJECTED'') (eventsOf ?o s) = []"
      "filter (\<lambda>e. ev_eventType e = ''ORDER_FILLED'') (eventsOf ?o s) = []" "fillsOf ?o s = []"
      by (auto simp: validateExchangeSubmissionCompletion_def Let_def res_simps split: if_splits)
    have s': "rp_orders s' = replace_where (\<lambda>x. or_id x = ?o) (px_order i) (rp_orders s)"
      "rp_orderEvents s' = rp_orderEvents s @ px_event i # ?t" "rp_fills s' = rp_fills s @ ?f"
      using out False by (simp_all add: write_defs)
    have nf: "newFills ?f s"
    proof (cases "?f = []")
      case False
      then have "s' \<noteq> s" using s'(3) by auto
      with persistExchangeSubmission_effect [OF run] show ?thesis by blast
    qed simp
    have fo: "\<forall>f\<in>set ?f. fl_orderId f = ?o"
      using val by (auto simp: validateExchangeSubmissionInput_def Let_def res_simps n validateFills_def validateFillsLoop_Inr)
    have "eventsOf ?o s' = eventsOf ?o s @ px_event i # ?t"
      using evs by (auto simp: eventsOf_def s'(2) split: option.splits)
    then have eo: "filter (\<lambda>e. ev_eventType e = ''ORDER_SUBMITTED'' \<or> ev_eventType e = ''ORDER_REJECTED'') (eventsOf ?o s') = [px_event i]"
      "filter (\<lambda>e. ev_eventType e = ''ORDER_FILLED'') (eventsOf ?o s') = ?t"
      using sub evs by (auto split: option.splits)
    have ff: "fillsOf ?o s' = ?f"
    proof -
      have "fillsOf ?o s' = fillsOf ?o s @ filter (\<lambda>f. fl_orderId f = ?o) ?f" by (simp only: fillsOf_def s'(3) filter_append)
      also have "\<dots> = ?f" using sub(3) fo by (simp only: append_Nil) (rule filter_True)
      finally show ?thesis .
    qed
    have "recordsEqualSet ?f ?f fillIdentity" using nf nn by (intro recordsEqualSet_self) (auto simp: newFills_def)
    then have c2: "validateExchangeSubmissionCompletion (px_order i) (px_order i) ?n (eventsOf ?o s') (fillsOf ?o s') = Inr RETRY"
      unfolding validateExchangeSubmissionCompletion_def Let_def eo ff n using st
      by (auto simp: recordsEqual_def validateOrderIdentity_Inr [THEN iffD2, OF sameIdentity_refl] split: option.splits)
    have "eventById (ev_id (px_event i)) s' = Some (px_event i)"
      using ev by (auto simp: eventById_def s'(2) find_append split: option.splits)
    moreover have "eventById (ev_id t) s' = Some t" if "px_terminalEvent i = Some t" for t
      using tev evs(3) [OF that] that by (auto simp: eventById_def s'(2) find_append split: option.splits)
    ultimately show ?thesis
      using submission_run [OF val replaced_orderById [OF cur s'(1)] _ _ stored_fills_admissible [OF nf s'(3)] c2] by blast
  qed
qed

subsection \<open>Properties\<close>

lemma repo_inv_empty: "repo_inv emptyRepo"
  by (simp add: repo_inv_def uniqueIds_def uniqueFills_def emptyRepo_def)

text \<open>
  The order history is append-only: along any calls from a reachable state, every order stays in the
  repository with the same identity fields (id, account, market, side, amounts, identifier, idempotency key,
  mode, creation time), and the logs of events, fills, risk events and recovery observations only grow at
  the end.
\<close>

theorem order_history_append_only:
  assumes "repo_step\<^sup>*\<^sup>* emptyRepo s" and "repo_step\<^sup>*\<^sup>* s s'" and "ord \<in> set (rp_orders s)"
  shows "(\<exists>ord'\<in>set (rp_orders s'). sameIdentity ord ord') \<and> prefix (rp_orderEvents s) (rp_orderEvents s') \<and>
    prefix (rp_fills s) (rp_fills s') \<and> prefix (rp_riskEvents s) (rp_riskEvents s') \<and>
    prefix (rp_observations s) (rp_observations s')"
proof -
  have "repo_inv s" using repo_steps_invariants [OF assms(1) repo_inv_empty] by simp
  from repo_steps_invariants [OF assms(2) this] have ev: "evolves s s'" by simp
  from evolves_order [OF ev assms(3)] ev show ?thesis by (simp add: evolves_def)
qed

text \<open>
  Writing an exchange submission can be retried after a crash: if the write was accepted, the same write
  again is accepted and changes nothing: no second event, no duplicated fill. (Fill ids contain no NUL
  character, which the code uses as the separator of its identity strings.)
\<close>

theorem submission_write_retry:
  assumes "persistExchangeSubmission i s = (Inr (), s')" and "\<forall>f\<in>set (px_fills i). nul \<notin> set (fl_id f)"
  shows "persistExchangeSubmission i s' = (Inr (), s')"
  using assms by (rule submission_retry)

subsection \<open>An order that is submitted and filled\<close>

definition sampleOrder :: OrderRecord where
  "sampleOrder = \<lparr>oi_strategyDecisionId = Some ''d1'', oi_exchangeAccountId = ''acc'', oi_market = KRW_BTC, oi_side = Bid,
     oi_ordType = Limit, oi_volume = Some ''0.1'', oi_price = Some ''50000000'', oi_timeInForce = None, oi_smpType = None,
     oi_identifier = ''ident-1'', oi_idempotencyKey = ''key-1'', oi_origin = STRATEGY, oi_requestedAt = ''2026-01-01T00:00:00Z'',
     or_id = ''o1'', or_upbitUuid = None, or_status = PERSISTED, or_executionMode = LIVE, or_exchangeResponseJson = None,
     or_failureCode = None, or_failureMessage = None, or_createdAt = ''2026-01-01T00:00:00Z'', or_updatedAt = ''2026-01-01T00:00:00Z''\<rparr>"

definition sampleEvent :: "string \<Rightarrow> string \<Rightarrow> EventSource \<Rightarrow> OrderEventRecord" where
  "sampleEvent ident type source = \<lparr>ev_id = ident, ev_orderId = ''o1'', ev_eventType = type, ev_eventSource = source,
     ev_payloadJson = ''{}'', ev_createdAt = ''2026-01-01T00:00:01Z''\<rparr>"

definition sampleFill :: FillRecord where
  "sampleFill = \<lparr>fl_id = ''f1'', fl_orderId = ''o1'', fl_exchangeFillId = ''x1'', fl_market = KRW_BTC, fl_side = Bid,
     fl_price = ''50000000'', fl_volume = ''0.1'', fl_feeCurrency = Some ''KRW'', fl_feeAmount = Some ''2500'', fl_feeProvenance = None,
     fl_executionTimestampProvenance = None, fl_executionEpochNs = None, fl_filledAt = ''2026-01-01T00:00:02Z'',
     fl_rawPayloadJson = ''{}''\<rparr>"

definition sampleIntent :: PersistOrderIntentInput where
  "sampleIntent = \<lparr>pi_order = sampleOrder, pi_event = sampleEvent ''e1'' ''ORDER_PERSISTED'' LOCAL\<rparr>"

definition sampleSubmission :: PersistExchangeSubmissionInput where
  "sampleSubmission = \<lparr>px_order = sampleOrder\<lparr>or_status := FILLED, or_upbitUuid := Some ''u1''\<rparr>,
     px_event = sampleEvent ''e2'' ''ORDER_SUBMITTED'' EXCHANGE, px_fills = [sampleFill],
     px_terminalEvent = Some (sampleEvent ''e3'' ''ORDER_FILLED'' EXCHANGE)\<rparr>"

definition sampleRepo1 :: repo where
  "sampleRepo1 = snd (persistOrderIntent sampleIntent emptyRepo)"

definition sampleRepo2 :: repo where
  "sampleRepo2 = snd (persistExchangeSubmission sampleSubmission sampleRepo1)"

lemma sample_runs:
  "repo_step\<^sup>*\<^sup>* emptyRepo sampleRepo1" "repo_step\<^sup>*\<^sup>* sampleRepo1 sampleRepo2"
  unfolding sampleRepo1_def sampleRepo2_def
  by (rule r_into_rtranclp, rule repo_step.intent, rule prod.collapse [symmetric])
    (rule r_into_rtranclp, rule repo_step.submission, rule prod.collapse [symmetric])

lemma sample_submission_accepted: "persistExchangeSubmission sampleSubmission sampleRepo1 = (Inr (), sampleRepo2)"
proof -
  have "fst (persistExchangeSubmission sampleSubmission sampleRepo1) = Inr ()" by code_simp
  then show ?thesis unfolding sampleRepo2_def by (metis prod.collapse)
qed

theorem order_history_append_only_witness:
  "(\<exists>ord'\<in>set (rp_orders sampleRepo2). sameIdentity sampleOrder ord') \<and> prefix (rp_orderEvents sampleRepo1) (rp_orderEvents sampleRepo2)"
proof -
  have "sampleOrder \<in> set (rp_orders sampleRepo1)" by code_simp
  from order_history_append_only [OF sample_runs this] show ?thesis by simp
qed

theorem submission_write_retry_witness:
  "persistExchangeSubmission sampleSubmission sampleRepo2 = (Inr (), sampleRepo2)"
  using submission_write_retry [OF sample_submission_accepted]
  by (simp add: sampleSubmission_def sampleFill_def nul_def)

end
