(* ===== verification/SubmissionRecovery.thy ===== *)
theory SubmissionRecovery
  imports CandidateState RepositoryInvariants
begin

section \<open>Recovery of submissions with an unknown outcome\<close>

text \<open>
  \<open>src/src/modules/reconciliation/submission-recovery-state-machine.ts\<close>: how often and for how long the exchange
  must deny knowing an order before its absence counts as confirmed, and how that decision fits the repository's
  finalization and the classification of blocking orders.
\<close>

record BoundedAbsencePolicy =
  bp_minimumNotFoundObservations :: int
  bp_minimumElapsedMs :: int

record BoundedAbsenceEvaluation =
  av_notFoundObservationCount :: int
  av_elapsedMs :: int
  av_confirmed :: bool

definition isPotentiallyDispatchedRecoveryStatus :: "OrderLifecycleStatus \<Rightarrow> bool" where
  "isPotentiallyDispatchedRecoveryStatus status \<longleftrightarrow>
     status = SUBMITTING \<or> status = RECONCILIATION_REQUIRED \<or> status = FAILED \<or> status = REJECTED"

definition observation_le ::
  "OrderSubmissionRecoveryObservationRecord \<Rightarrow> OrderSubmissionRecoveryObservationRecord \<Rightarrow> bool" where
  "observation_le left right \<longleftrightarrow> orCompare (ob_observedAtEpochMs left - ob_observedAtEpochMs right)
     (compareDeterministicIdentifiers (ob_id left) (ob_id right)) \<le> 0"

definition evaluateBoundedAbsence ::
  "OrderSubmissionRecoveryObservationRecord list \<Rightarrow> BoundedAbsencePolicy \<Rightarrow> BoundedAbsenceEvaluation" where
  "evaluateBoundedAbsence observations policy =
     (let hasDurableFoundEvidence = list_ex (\<lambda>observation. ob_outcome observation = FOUND) observations;
          absence = sort_by observation_le (filter (\<lambda>observation. ob_outcome observation = NOT_FOUND) observations);
          elapsedMs = (if absence = [] then 0 else ob_observedAtEpochMs (last absence) - ob_observedAtEpochMs (hd absence))
      in \<lparr>av_notFoundObservationCount = int (length absence), av_elapsedMs = elapsedMs,
          av_confirmed = (\<not> hasDurableFoundEvidence \<and> int (length absence) \<ge> bp_minimumNotFoundObservations policy \<and>
            elapsedMs \<ge> bp_minimumElapsedMs policy)\<rparr>)"

text \<open>The policy the reconciliation service accepts (\<open>src/src/modules/reconciliation/reconciliation-service.ts\<close>).\<close>

definition DEFAULT_IDENTIFIER_RECOVERY_POLICY :: BoundedAbsencePolicy where
  "DEFAULT_IDENTIFIER_RECOVERY_POLICY = \<lparr>bp_minimumNotFoundObservations = 2, bp_minimumElapsedMs = 60000\<rparr>"

definition validateIdentifierRecoveryPolicy :: "BoundedAbsencePolicy \<Rightarrow> BoundedAbsencePolicy res" where
  "validateIdentifierRecoveryPolicy policy =
     ebind (throw_if (\<not> isSafeInteger (bp_minimumNotFoundObservations policy) \<or> bp_minimumNotFoundObservations policy < 2)
       (Error ''Identifier recovery requires at least two persisted not-found observations.'')) (\<lambda>_.
     ebind (throw_if (\<not> isSafeInteger (bp_minimumElapsedMs policy) \<or> bp_minimumElapsedMs policy \<le> 0)
       (Error ''Identifier recovery requires a positive persisted elapsed-time bound.'')) (\<lambda>_.
     Inr policy))"

lemma observation_le_iff:
  "observation_le a b \<longleftrightarrow> ob_observedAtEpochMs a < ob_observedAtEpochMs b \<or>
     (ob_observedAtEpochMs a = ob_observedAtEpochMs b \<and> ob_id a \<le> ob_id b)"
  by (auto simp: observation_le_def orCompare_def compare_le)

interpretation observations: comparison observation_le
  by unfold_locales (auto simp: observation_le_iff)

lemma notFoundEpochs_sorted:
  "notFoundEpochs obs = map ob_observedAtEpochMs (sort_by observation_le (filter (\<lambda>ob. ob_outcome ob = NOT_FOUND) obs))"
proof -
  let ?a = "sort_by observation_le (filter (\<lambda>ob. ob_outcome ob = NOT_FOUND) obs)"
  have "sorted_wrt (\<lambda>x y. ob_observedAtEpochMs x \<le> ob_observedAtEpochMs y) ?a"
    by (rule sorted_wrt_mono_rel [OF _ observations.sorted_sort]) (auto simp: observation_le_iff)
  then have "sorted (map ob_observedAtEpochMs ?a)" by (simp add: sorted_map)
  moreover have "mset (map ob_observedAtEpochMs ?a) = mset (map ob_observedAtEpochMs (filter (\<lambda>ob. ob_outcome ob = NOT_FOUND) obs))"
    by simp
  ultimately show ?thesis unfolding notFoundEpochs_def by (metis properties_for_sort)
qed

lemma confirmed_absence_observed:
  assumes "av_confirmed (evaluateBoundedAbsence obs policy)"
    and "validateIdentifierRecoveryPolicy policy = Inr policy"
  shows "boundedAbsenceObserved obs \<and> \<not> foundObserved obs"
  using assms
  by (auto simp: validateIdentifierRecoveryPolicy_def res_simps evaluateBoundedAbsence_def Let_def boundedAbsenceObserved_def notFoundEpochs_sorted foundObserved_def
      hd_map last_map split: if_splits)

lemma replaced_evidence:
  assumes "rewritten ord evs [] [] s s'" "or_id ord = i"
  shows "evidenceOf s' ord = \<lparr>be_order = ord, be_events = eventsOf i s @ filter (\<lambda>e. ev_orderId e = i) evs,
    be_recoveryObservations = filter (\<lambda>ob. ob_orderId ob = i) (rp_observations s)\<rparr>"
  using assms by (auto simp: evidenceOf_def rewritten_def eventsOf_def)

text \<open>
  C25. What the finalization of a confirmed absence does to the account. When the absence of an order is confirmed under a
  policy the service accepts, and the finalization of that order with the absence event of the reconciliation succeeds,
  then trading is stopped and the order is FAILED; it keeps blocking new submissions exactly if it has an exchange id or
  a stored submission event, and otherwise the classification finds the bounded-absence evidence in the repository.
\<close>

theorem bounded_absence_unblocks:
  assumes run: "finalizeBoundedSubmissionAbsence (Some applyFaultPauseAtomically) i (s, p) = (Inr True, (s', p'))"
    and absent: "av_confirmed (evaluateBoundedAbsence (filter (\<lambda>ob. ob_orderId ob = fz_orderId i) (rp_observations s)) policy)"
      "validateIdentifierRecoveryPolicy policy = Inr policy"
    and event: "ev_eventType (fz_event i) = ''RECONCILIATION_IDENTIFIER_ABSENCE_CONFIRMED''" "ev_eventSource (fz_event i) = RECONCILIATION"
  shows "stopped (op_state p') \<and> (\<exists>cur ord. orderById (fz_orderId i) s = Some cur \<and> orderById (fz_orderId i) s' = Some ord \<and>
    or_status ord = FAILED \<and>
    (let c = classifySubmissionBlockingOrder (evidenceOf s' ord) in
     if or_upbitUuid cur \<noteq> None \<or> hasEvent ''ORDER_SUBMITTED'' (eventsOf (fz_orderId i) s)
     then bc_blocking c \<and> bc_reasonCode c = UNRESOLVED_POTENTIALLY_DISPATCHED
     else \<not> bc_blocking c \<and> bc_reasonCode c = BOUNDED_ABSENCE_CONFIRMED))"
proof -
  from finalizeBoundedSubmissionAbsence_effect [OF run] obtain cur st where
    cur: "orderById (fz_orderId i) s = Some cur" and
    eo: "ev_orderId (fz_event i) = fz_orderId i" and pause: "applyFaultPauseAtomically (fz_faultPause i) p = (Inr st, p')"
    and rew: "rewritten (failedAbsentOrder i cur) [fz_event i] [] [] s s'" by auto
  let ?ord = "failedAbsentOrder i cur"
  have idn: "or_id ?ord = fz_orderId i" using orderById_id [OF cur] by simp
  have "orderById (or_id ?ord) s' = Some ?ord"
    using cur idn rew by (intro replaced_orderById [of _ s cur]) (auto simp: rewritten_def)
  moreover have "let c = classifySubmissionBlockingOrder (evidenceOf s' ?ord) in
      if or_upbitUuid cur \<noteq> None \<or> hasEvent ''ORDER_SUBMITTED'' (eventsOf (fz_orderId i) s)
      then bc_blocking c \<and> bc_reasonCode c = UNRESOLVED_POTENTIALLY_DISPATCHED
      else \<not> bc_blocking c \<and> bc_reasonCode c = BOUNDED_ABSENCE_CONFIRMED"
    using confirmed_absence_observed [OF absent] event eo
    unfolding replaced_evidence [OF rew idn]
    by (auto simp: classifySubmissionBlockingOrder_def classification_def Let_def failedAbsentOrder_def ACTIVE_SUBMISSION_STATUSES_def
        hasEvent_def hasEventFrom_def hasDispatchEvidence_def DISPATCH_EVIDENCE_EVENTS_def list_ex_iff)
  ultimately show ?thesis
    using opstore.pause_stops [OF pause] idn cur by (auto simp: failedAbsentOrder_def)
qed

definition sampleObservation :: "string \<Rightarrow> int \<Rightarrow> OrderSubmissionRecoveryObservationRecord" where
  "sampleObservation ident ms = \<lparr>ob_id = ident, ob_orderId = ''o1'', ob_outcome = NOT_FOUND, ob_observedAt = ''2026-01-01T00:00:00Z'',
     ob_observedAtEpochMs = ms, ob_detailJson = ''{}'', ob_createdAt = ''2026-01-01T00:00:00Z''\<rparr>"

definition sampleUncertainRepo :: repo where
  "sampleUncertainRepo = sampleRepo1\<lparr>rp_observations := [sampleObservation ''a'' 1000, sampleObservation ''b'' 70000]\<rparr>"

definition sampleFinalize :: FinalizeBoundedSubmissionAbsenceInput where
  "sampleFinalize = \<lparr>fz_orderId = ''o1'', fz_expectedStatus = PERSISTED, fz_expectedUpdatedAt = ''2026-01-01T00:00:00Z'',
     fz_failedAt = ''2026-01-01T00:02:00Z'', fz_failureMessage = ''absent'',
     fz_event = sampleEvent ''e9'' ''RECONCILIATION_IDENTIFIER_ABSENCE_CONFIRMED'' RECONCILIATION, fz_faultPause = sampleFault\<rparr>"

definition sampleKnownRepo :: repo where
  "sampleKnownRepo = sampleUncertainRepo\<lparr>rp_orders := [sampleOrder\<lparr>or_upbitUuid := Some ''u1''\<rparr>]\<rparr>"

lemma sample_finalizes:
  "fst (finalizeBoundedSubmissionAbsence (Some applyFaultPauseAtomically) sampleFinalize (sampleUncertainRepo, newOperatorStateStore sampleState)) = Inr True"
  "fst (finalizeBoundedSubmissionAbsence (Some applyFaultPauseAtomically) sampleFinalize (sampleKnownRepo, newOperatorStateStore sampleState)) = Inr True"
  by code_simp+

lemma sample_absence:
  "av_confirmed (evaluateBoundedAbsence (filter (\<lambda>ob. ob_orderId ob = fz_orderId sampleFinalize) (rp_observations sampleUncertainRepo)) DEFAULT_IDENTIFIER_RECOVERY_POLICY)"
  "av_confirmed (evaluateBoundedAbsence (filter (\<lambda>ob. ob_orderId ob = fz_orderId sampleFinalize) (rp_observations sampleKnownRepo)) DEFAULT_IDENTIFIER_RECOVERY_POLICY)"
  "validateIdentifierRecoveryPolicy DEFAULT_IDENTIFIER_RECOVERY_POLICY = Inr DEFAULT_IDENTIFIER_RECOVERY_POLICY"
  by code_simp+

theorem bounded_absence_unblocks_witness:
  "\<exists>s1 p1 ord1 s2 p2 ord2.
     finalizeBoundedSubmissionAbsence (Some applyFaultPauseAtomically) sampleFinalize (sampleUncertainRepo, newOperatorStateStore sampleState) = (Inr True, (s1, p1)) \<and>
     stopped (op_state p1) \<and> orderById ''o1'' s1 = Some ord1 \<and> \<not> bc_blocking (classifySubmissionBlockingOrder (evidenceOf s1 ord1)) \<and>
     finalizeBoundedSubmissionAbsence (Some applyFaultPauseAtomically) sampleFinalize (sampleKnownRepo, newOperatorStateStore sampleState) = (Inr True, (s2, p2)) \<and>
     orderById ''o1'' s2 = Some ord2 \<and> bc_blocking (classifySubmissionBlockingOrder (evidenceOf s2 ord2))"
proof -
  obtain s1 p1 where run1: "finalizeBoundedSubmissionAbsence (Some applyFaultPauseAtomically) sampleFinalize
      (sampleUncertainRepo, newOperatorStateStore sampleState) = (Inr True, (s1, p1))"
    using sample_finalizes(1) by (metis prod.collapse)
  obtain s2 p2 where run2: "finalizeBoundedSubmissionAbsence (Some applyFaultPauseAtomically) sampleFinalize
      (sampleKnownRepo, newOperatorStateStore sampleState) = (Inr True, (s2, p2))"
    using sample_finalizes(2) by (metis prod.collapse)
  have event: "fz_orderId sampleFinalize = ''o1''" "ev_eventType (fz_event sampleFinalize) = ''RECONCILIATION_IDENTIFIER_ABSENCE_CONFIRMED''"
    "ev_eventSource (fz_event sampleFinalize) = RECONCILIATION" by (simp_all add: sampleFinalize_def sampleEvent_def)
  have "map_option or_upbitUuid (orderById ''o1'' sampleUncertainRepo) = Some None"
    "map_option or_upbitUuid (orderById ''o1'' sampleKnownRepo) = Some (Some ''u1'')"
    "\<not> hasEvent ''ORDER_SUBMITTED'' (eventsOf ''o1'' sampleUncertainRepo)" by code_simp+
  with bounded_absence_unblocks [OF run1 sample_absence(1,3) event(2,3)] bounded_absence_unblocks [OF run2 sample_absence(2,3) event(2,3)]
    run1 run2 event(1) show ?thesis by (auto simp: Let_def)
qed

end
