(* ===== verification/Notifications.thy ===== *)
theory Notifications
  imports Repository
begin

section \<open>The notification outbox and the inbound offset\<close>

text \<open>
  The rest of \<open>src/src/modules/db/repositories/in-memory-repositories.ts\<close>: operator notifications are claimed
  under a lease token by a delivery worker, and their outcome is written by compare-and-set on that token; the
  Telegram inbound offset store. The collation is the argument \<open>lc\<close>, as in \<open>Repository\<close>.
\<close>

datatype OperatorNotificationSeverity = SEV_INFO | SEV_WARN | SEV_ERROR

datatype OperatorNotificationStatus = PENDING | SENT | DELIVERY_FAILED

datatype OperatorNotificationFailureClass = RETRYABLE | PERMANENT

datatype OperatorNotificationAttemptOutcome = OUT_SENT | RETRY_SCHEDULED | OUT_FAILED | STALE_LEASE

datatype OperatorNotificationDeliveryRunStatus = DRUN_COMPLETED | DRUN_SKIPPED | DRUN_FAILED

datatype OperatorNotificationType =
    ORDER_REJECTED_NOTE | ORDER_SUBMISSION_FAILED | POSITION_GUARD_PILOT_ACTIVATED | POSITION_GUARD_PILOT_FAULT_PAUSED
  | POSITION_GUARD_PILOT_UNCERTAIN_SUBMISSION | POSITION_GUARD_PILOT_ROLLBACK_STARTED | POSITION_GUARD_PILOT_ROLLBACK_COMPLETED
  | RECONCILIATION_DRIFT_DETECTED | SCHEDULER_STARTUP_BLOCKED | SCHEDULER_ORDER_REJECTED | SCHEDULER_ORDER_SUBMITTED
  | SCHEDULER_RUN_FAILED | SCHEDULER_RUN_SKIPPED | SYNC_FAILED

record OperatorNotificationRecord =
  nt_id :: string
  nt_exchangeAccountId :: string
  nt_notificationType :: OperatorNotificationType
  nt_severity :: OperatorNotificationSeverity
  nt_title :: string
  nt_message :: string
  nt_payloadJson :: string
  nt_deliveryStatus :: OperatorNotificationStatus
  nt_attemptCount :: int
  nt_lastAttemptAt :: "string option"
  nt_nextAttemptAt :: "string option"
  nt_failureClass :: "OperatorNotificationFailureClass option"
  nt_leaseToken :: "string option"
  nt_leaseExpiresAt :: "string option"
  nt_createdAt :: string
  nt_deliveredAt :: "string option"
  nt_lastError :: "string option"

record OperatorNotificationDeliveryTransition =
  dt_id :: string
  dt_leaseToken :: string
  dt_deliveryStatus :: OperatorNotificationStatus
  dt_attemptCount :: int
  dt_lastAttemptAt :: string
  dt_nextAttemptAt :: "string option"
  dt_failureClass :: "OperatorNotificationFailureClass option"
  dt_deliveredAt :: "string option"
  dt_lastError :: "string option"

record OperatorNotificationDeliveryAttemptRecord =
  da_id :: string
  da_notificationId :: string
  da_exchangeAccountId :: string
  da_attemptCount :: int
  da_leaseToken :: "string option"
  da_outcome :: OperatorNotificationAttemptOutcome
  da_failureClass :: "OperatorNotificationFailureClass option"
  da_attemptedAt :: string
  da_nextAttemptAt :: "string option"
  da_deliveredAt :: "string option"
  da_errorMessage :: "string option"
  da_createdAt :: string

record OperatorNotificationDeliveryRunRecord =
  dr_id :: string
  dr_exchangeAccountId :: string
  dr_workerName :: string
  dr_status :: OperatorNotificationDeliveryRunStatus
  dr_startedAt :: string
  dr_completedAt :: "string option"
  dr_attemptedCount :: int
  dr_sentCount :: int
  dr_retryScheduledCount :: int
  dr_failedCount :: int
  dr_staleLeaseCount :: int
  dr_pendingTotalCount :: int
  dr_pendingDueCount :: int
  dr_pendingScheduledCount :: int
  dr_activeLeaseCount :: int
  dr_expiredLeaseCount :: int
  dr_abandonedLeaseCandidateCount :: int
  dr_skippedReason :: "string option"
  dr_errorMessage :: "string option"
  dr_summaryJson :: string

record outbox =
  nb_notifications :: "OperatorNotificationRecord list"
  nb_attempts :: "OperatorNotificationDeliveryAttemptRecord list"
  nb_runs :: "OperatorNotificationDeliveryRunRecord list"

type_synonym 'a om = "(outbox, js_error, 'a) sm"

subsection \<open>Operations\<close>

definition saveOperatorNotification :: "OperatorNotificationRecord \<Rightarrow> unit om" where
  "saveOperatorNotification record =
     sbind (sget (\<lambda>s. list_ex (\<lambda>candidate. nt_id candidate = nt_id record) (nb_notifications s))) (\<lambda>exists.
     sbind (sguard exists (Error (''Operator notification '' @ nt_id record @ '' already exists.''))) (\<lambda>_.
     smodify (\<lambda>s. s\<lparr>nb_notifications := nb_notifications s @ [record]\<rparr>)))"

definition saveOperatorNotificationDeliveryAttempt :: "OperatorNotificationDeliveryAttemptRecord \<Rightarrow> unit om" where
  "saveOperatorNotificationDeliveryAttempt record =
     smodify (\<lambda>s. s\<lparr>nb_attempts := upsert (\<lambda>candidate. da_id candidate = da_id record) record (nb_attempts s)\<rparr>)"

definition saveOperatorNotificationDeliveryRun :: "OperatorNotificationDeliveryRunRecord \<Rightarrow> unit om" where
  "saveOperatorNotificationDeliveryRun record =
     smodify (\<lambda>s. s\<lparr>nb_runs := upsert (\<lambda>candidate. dr_id candidate = dr_id record) record (nb_runs s)\<rparr>)"

record ClaimInput =
  cl_limit :: "int option"
  cl_dueBefore :: "string option"
  cl_claimedAt :: string
  cl_leaseToken :: string
  cl_leaseExpiresAt :: string

text \<open>\<open>dueBefore === null || value === null || value.localeCompare(dueBefore) <= 0\<close>\<close>

definition dueBy :: "collator \<Rightarrow> string option \<Rightarrow> string option \<Rightarrow> bool" where
  "dueBy lc dueBefore value =
     (case dueBefore of None \<Rightarrow> True | Some d \<Rightarrow> (case value of None \<Rightarrow> True | Some v \<Rightarrow> lc v d \<le> 0))"

definition dueAt :: "OperatorNotificationRecord \<Rightarrow> string" where
  "dueAt record = (case nt_nextAttemptAt record of Some t \<Rightarrow> t | None \<Rightarrow> nt_createdAt record)"

definition due_le :: "collator \<Rightarrow> OperatorNotificationRecord \<Rightarrow> OperatorNotificationRecord \<Rightarrow> bool" where
  "due_le lc left right \<longleftrightarrow> orCompare (lc (dueAt left) (dueAt right)) (lc (nt_createdAt left) (nt_createdAt right)) \<le> 0"

definition claimable :: "collator \<Rightarrow> string \<Rightarrow> string option \<Rightarrow> OperatorNotificationRecord \<Rightarrow> bool" where
  "claimable lc exchangeAccountId dueBefore candidate \<longleftrightarrow>
     nt_exchangeAccountId candidate = exchangeAccountId \<and> nt_deliveryStatus candidate = PENDING \<and>
     dueBy lc dueBefore (nt_nextAttemptAt candidate) \<and> dueBy lc dueBefore (nt_leaseExpiresAt candidate)"

definition claimRecord :: "ClaimInput \<Rightarrow> OperatorNotificationRecord \<Rightarrow> OperatorNotificationRecord" where
  "claimRecord input candidate =
     candidate\<lparr>nt_attemptCount := nt_attemptCount candidate + 1, nt_lastAttemptAt := Some (cl_claimedAt input),
       nt_leaseToken := Some (cl_leaseToken input), nt_leaseExpiresAt := Some (cl_leaseExpiresAt input)\<rparr>"

text \<open>\<open>selected.map(...)\<close>, whose callback replaces the stored record of the same id.\<close>

fun claimEach :: "ClaimInput \<Rightarrow> OperatorNotificationRecord list \<Rightarrow> OperatorNotificationRecord list om" where
  "claimEach input [] = sreturn []"
| "claimEach input (candidate # rest) =
     sbind (sget nb_notifications) (\<lambda>stored.
     sbind (sguard (\<not> list_ex (\<lambda>record. nt_id record = nt_id candidate) stored)
       (Error (''Operator notification '' @ nt_id candidate @ '' is missing.''))) (\<lambda>_.
     sbind (smodify (\<lambda>s. s\<lparr>nb_notifications :=
       upsert (\<lambda>record. nt_id record = nt_id candidate) (claimRecord input candidate) (nb_notifications s)\<rparr>)) (\<lambda>_.
     sbind (claimEach input rest) (\<lambda>claimed. sreturn (claimRecord input candidate # claimed)))))"

definition claimPendingOperatorNotifications ::
  "collator \<Rightarrow> string \<Rightarrow> ClaimInput \<Rightarrow> OperatorNotificationRecord list om" where
  "claimPendingOperatorNotifications lc exchangeAccountId input =
     sbind (sget nb_notifications) (\<lambda>stored.
     claimEach input (slice0_opt (cl_limit input) (sort_by (due_le lc)
       (filter (claimable lc exchangeAccountId (cl_dueBefore input)) stored))))"

definition transitionRecord :: "OperatorNotificationDeliveryTransition \<Rightarrow> OperatorNotificationRecord \<Rightarrow> OperatorNotificationRecord" where
  "transitionRecord transition current =
     current\<lparr>nt_deliveryStatus := dt_deliveryStatus transition, nt_attemptCount := dt_attemptCount transition,
       nt_lastAttemptAt := Some (dt_lastAttemptAt transition), nt_nextAttemptAt := dt_nextAttemptAt transition,
       nt_failureClass := dt_failureClass transition, nt_leaseToken := None, nt_leaseExpiresAt := None,
       nt_deliveredAt := dt_deliveredAt transition, nt_lastError := dt_lastError transition\<rparr>"

definition compareAndSetOperatorNotificationDeliveryStatus :: "OperatorNotificationDeliveryTransition \<Rightarrow> bool om" where
  "compareAndSetOperatorNotificationDeliveryStatus transition s =
     (case find (\<lambda>candidate. nt_id candidate = dt_id transition) (nb_notifications s) of
        None \<Rightarrow> (Inr False, s)
      | Some current \<Rightarrow>
          if nt_leaseToken current \<noteq> Some (dt_leaseToken transition) then (Inr False, s)
          else (Inr True, s\<lparr>nb_notifications := upsert (\<lambda>candidate. nt_id candidate = dt_id transition)
                  (transitionRecord transition current) (nb_notifications s)\<rparr>))"

definition listOperatorNotifications :: "collator \<Rightarrow> string \<Rightarrow> int option \<Rightarrow> outbox \<Rightarrow> OperatorNotificationRecord list" where
  "listOperatorNotifications lc exchangeAccountId limit s = slice0_opt limit (sort_by (descBy lc nt_createdAt)
     (filter (\<lambda>candidate. nt_exchangeAccountId candidate = exchangeAccountId) (nb_notifications s)))"

definition listOperatorNotificationDeliveryAttempts ::
  "collator \<Rightarrow> string \<Rightarrow> int option \<Rightarrow> outbox \<Rightarrow> OperatorNotificationDeliveryAttemptRecord list" where
  "listOperatorNotificationDeliveryAttempts lc exchangeAccountId limit s = slice0_opt limit (sort_by (descBy lc da_attemptedAt)
     (filter (\<lambda>candidate. da_exchangeAccountId candidate = exchangeAccountId) (nb_attempts s)))"

definition listOperatorNotificationDeliveryRuns ::
  "collator \<Rightarrow> string \<Rightarrow> int option \<Rightarrow> outbox \<Rightarrow> OperatorNotificationDeliveryRunRecord list" where
  "listOperatorNotificationDeliveryRuns lc exchangeAccountId limit s = slice0_opt limit (sort_by (descBy lc dr_startedAt)
     (filter (\<lambda>candidate. dr_exchangeAccountId candidate = exchangeAccountId) (nb_runs s)))"

definition listPendingOperatorNotifications ::
  "collator \<Rightarrow> string \<Rightarrow> int option \<Rightarrow> string option \<Rightarrow> outbox \<Rightarrow> OperatorNotificationRecord list" where
  "listPendingOperatorNotifications lc exchangeAccountId limit dueBefore s = slice0_opt limit (sort_by (due_le lc)
     (filter (\<lambda>candidate. nt_exchangeAccountId candidate = exchangeAccountId \<and> nt_deliveryStatus candidate = PENDING \<and>
        dueBy lc dueBefore (nt_nextAttemptAt candidate)) (nb_notifications s)))"

subsection \<open>Inbound offset\<close>

record TelegramInboundOffsetRecord =
  io_id :: string
  io_exchangeAccountId :: string
  io_botTokenRef :: string
  io_nextOffset :: int
  io_lastUpdateId :: "int option"
  io_updatedAt :: string

text \<open>\<open>updateSource\<close> has the single literal type GET\_UPDATES.\<close>

definition sameOffset :: "string \<Rightarrow> string \<Rightarrow> TelegramInboundOffsetRecord \<Rightarrow> bool" where
  "sameOffset exchangeAccountId botTokenRef candidate \<longleftrightarrow>
     io_exchangeAccountId candidate = exchangeAccountId \<and> io_botTokenRef candidate = botTokenRef"

definition getTelegramInboundOffset :: "string \<Rightarrow> string \<Rightarrow> TelegramInboundOffsetRecord list \<Rightarrow> TelegramInboundOffsetRecord option" where
  "getTelegramInboundOffset exchangeAccountId botTokenRef offsets = find (sameOffset exchangeAccountId botTokenRef) offsets"

definition saveTelegramInboundOffset :: "TelegramInboundOffsetRecord \<Rightarrow> TelegramInboundOffsetRecord list \<Rightarrow> TelegramInboundOffsetRecord list" where
  "saveTelegramInboundOffset record offsets =
     upsert (sameOffset (io_exchangeAccountId record) (io_botTokenRef record)) record offsets"

subsection \<open>Claims\<close>

definition distinctIds :: "outbox \<Rightarrow> bool" where
  "distinctIds s \<longleftrightarrow> distinct (map nt_id (nb_notifications s))"

lemma upsert_present_map:
  "\<exists>x\<in>set xs. p x \<Longrightarrow> \<forall>x\<in>set xs. p x \<longrightarrow> f x = f v \<Longrightarrow> map f (upsert p v xs) = map f xs"
  by (induction xs) auto

lemma set_upsert_present:
  "distinct (map f xs) \<Longrightarrow> \<exists>x\<in>set xs. f x = k \<Longrightarrow> f v = k \<Longrightarrow> x \<in> set (upsert (\<lambda>y. f y = k) v xs) \<longleftrightarrow> x = v \<or> (x \<in> set xs \<and> f x \<noteq> k)"
proof (induction xs)
  case (Cons a xs)
  show ?case
  proof (cases "f a = k")
    case True
    with Cons.prems(1) have "\<forall>y\<in>set xs. f y \<noteq> k" by (auto simp: image_iff)
    with True show ?thesis by auto
  next
    case False
    with Cons show ?thesis by auto
  qed
qed simp

lemma claimRecord_fields [simp]:
  "nt_id (claimRecord i c) = nt_id c" "nt_leaseToken (claimRecord i c) = Some (cl_leaseToken i)"
  "nt_leaseExpiresAt (claimRecord i c) = Some (cl_leaseExpiresAt i)"
  by (simp_all add: claimRecord_def)

lemma claimEach_total:
  assumes "distinctIds s" "\<forall>c\<in>set cs. \<exists>n\<in>set (nb_notifications s). nt_id n = nt_id c"
  shows "\<exists>s'. claimEach i cs s = (Inr (map (claimRecord i) cs), s') \<and> distinctIds s' \<and>
    map nt_id (nb_notifications s') = map nt_id (nb_notifications s) \<and>
    (\<forall>n\<in>set (nb_notifications s'). if nt_id n \<in> nt_id ` set cs then nt_leaseToken n = Some (cl_leaseToken i) \<and>
       nt_leaseExpiresAt n = Some (cl_leaseExpiresAt i) else n \<in> set (nb_notifications s))"
  using assms
proof (induction cs arbitrary: s)
  case Nil
  then show ?case by simp
next
  case (Cons c cs)
  let ?s1 = "s\<lparr>nb_notifications := upsert (\<lambda>record. nt_id record = nt_id c) (claimRecord i c) (nb_notifications s)\<rparr>"
  have ex: "\<exists>n\<in>set (nb_notifications s). nt_id n = nt_id c" using Cons.prems(2) by simp
  have ids: "map nt_id (nb_notifications ?s1) = map nt_id (nb_notifications s)"
    using ex by (simp add: upsert_present_map)
  then have d1: "distinctIds ?s1" using Cons.prems(1) by (simp only: distinctIds_def)
  have "nt_id ` set (nb_notifications ?s1) = nt_id ` set (nb_notifications s)" using ids by (metis list.set_map)
  then have "\<forall>x\<in>set cs. \<exists>n\<in>set (nb_notifications ?s1). nt_id n = nt_id x"
    using Cons.prems(2) by (metis (no_types, lifting) image_iff list.set_intros(2))
  from Cons.IH [OF d1 this] obtain s' where s': "claimEach i cs ?s1 = (Inr (map (claimRecord i) cs), s')" "distinctIds s'"
    "map nt_id (nb_notifications s') = map nt_id (nb_notifications ?s1)"
    "\<forall>n\<in>set (nb_notifications s'). if nt_id n \<in> nt_id ` set cs then nt_leaseToken n = Some (cl_leaseToken i) \<and>
       nt_leaseExpiresAt n = Some (cl_leaseExpiresAt i) else n \<in> set (nb_notifications ?s1)" by blast
  have "claimEach i (c # cs) s = (Inr (map (claimRecord i) (c # cs)), s')"
    using ex s'(1) by (simp add: sbind_def sguard_run list_ex_iff)
  moreover have "\<forall>n\<in>set (nb_notifications s'). if nt_id n \<in> nt_id ` set (c # cs) then nt_leaseToken n = Some (cl_leaseToken i) \<and>
       nt_leaseExpiresAt n = Some (cl_leaseExpiresAt i) else n \<in> set (nb_notifications s)"
    using s'(4) set_upsert_present [of nt_id "nb_notifications s" "nt_id c" "claimRecord i c"] Cons.prems(1) ex
    by (auto simp: distinctIds_def split: if_splits)
  ultimately show ?case using s'(2,3) ids by (auto simp only:)
qed

lemma claim_result:
  assumes "distinctIds s"
  obtains cs s' where "claimPendingOperatorNotifications lc acc i s = (Inr (map (claimRecord i) cs), s')" "distinctIds s'"
    "set cs \<subseteq> {n \<in> set (nb_notifications s). claimable lc acc (cl_dueBefore i) n}"
    "map nt_id (nb_notifications s') = map nt_id (nb_notifications s)"
    "\<forall>n\<in>set (nb_notifications s'). if nt_id n \<in> nt_id ` set cs
       then nt_leaseToken n = Some (cl_leaseToken i) \<and> nt_leaseExpiresAt n = Some (cl_leaseExpiresAt i) else n \<in> set (nb_notifications s)"
proof -
  let ?cs = "slice0_opt (cl_limit i) (sort_by (due_le lc) (filter (claimable lc acc (cl_dueBefore i)) (nb_notifications s)))"
  have sub: "set ?cs \<subseteq> {n \<in> set (nb_notifications s). claimable lc acc (cl_dueBefore i) n}"
    using set_slice0_opt [of "cl_limit i" "sort_by (due_le lc) (filter (claimable lc acc (cl_dueBefore i)) (nb_notifications s))"] by auto
  from claimEach_total [OF assms, of ?cs i] sub that show thesis
    by (fastforce simp: claimPendingOperatorNotifications_def sbind_def split: if_splits)
qed

subsection \<open>Sequences of calls\<close>

text \<open>The calls that change the outbox, each with the ids of the notifications it hands out.\<close>

datatype outbox_op =
    OpClaim string ClaimInput
  | OpReport OperatorNotificationDeliveryTransition
  | OpNotify OperatorNotificationRecord
  | OpAttempt OperatorNotificationDeliveryAttemptRecord
  | OpRun OperatorNotificationDeliveryRunRecord

fun outboxCall :: "collator \<Rightarrow> outbox_op \<Rightarrow> outbox \<Rightarrow> string list \<times> outbox" where
  "outboxCall lc (OpClaim account input) s = (case claimPendingOperatorNotifications lc account input s of
     (Inl e, s') \<Rightarrow> ([], s') | (Inr claimed, s') \<Rightarrow> (map nt_id claimed, s'))"
| "outboxCall lc (OpReport transition) s = ([], snd (compareAndSetOperatorNotificationDeliveryStatus transition s))"
| "outboxCall lc (OpNotify record) s = ([], snd (saveOperatorNotification record s))"
| "outboxCall lc (OpAttempt record) s = ([], snd (saveOperatorNotificationDeliveryAttempt record s))"
| "outboxCall lc (OpRun record) s = ([], snd (saveOperatorNotificationDeliveryRun record s))"

fun outboxCalls :: "collator \<Rightarrow> outbox_op list \<Rightarrow> outbox \<Rightarrow> string list \<times> outbox" where
  "outboxCalls lc [] s = ([], s)"
| "outboxCalls lc (op # ops) s = (case outboxCall lc op s of (out, s') \<Rightarrow>
     case outboxCalls lc ops s' of (rest, s'') \<Rightarrow> (out @ rest, s''))"

text \<open>
  The calls that may end the lease of a notification: a claim that names no due time or one at or after the expiry of
  the lease, and the report of the lease's own holder.
\<close>

fun mayEndLease :: "collator \<Rightarrow> string \<Rightarrow> string \<Rightarrow> string \<Rightarrow> outbox_op \<Rightarrow> bool" where
  "mayEndLease lc ident token expiry (OpClaim account input) \<longleftrightarrow>
     (case cl_dueBefore input of None \<Rightarrow> True | Some due \<Rightarrow> lc expiry due \<le> 0)"
| "mayEndLease lc ident token expiry (OpReport transition) \<longleftrightarrow> dt_id transition = ident \<and> dt_leaseToken transition = token"
| "mayEndLease lc ident token expiry op \<longleftrightarrow> False"

definition leased :: "string \<Rightarrow> string \<Rightarrow> string \<Rightarrow> outbox \<Rightarrow> bool" where
  "leased ident token expiry s \<longleftrightarrow> distinctIds s \<and>
     (\<exists>n\<in>set (nb_notifications s). nt_id n = ident \<and> nt_leaseToken n = Some token \<and> nt_leaseExpiresAt n = Some expiry)"

lemma leased_only:
  assumes "leased ident token expiry s" "n \<in> set (nb_notifications s)" "nt_id n = ident"
  shows "nt_leaseToken n = Some token \<and> nt_leaseExpiresAt n = Some expiry"
proof -
  obtain m where m: "m \<in> set (nb_notifications s)" "nt_id m = ident" "nt_leaseToken m = Some token" "nt_leaseExpiresAt m = Some expiry"
    and d: "distinct (map nt_id (nb_notifications s))"
    using assms(1) by (auto simp: leased_def distinctIds_def)
  have "n = m" using d m(1,2) assms(2,3) by (auto simp: distinct_map inj_on_def)
  with m show ?thesis by simp
qed

lemma leased_claim:
  assumes "leased ident token expiry s" "\<not> mayEndLease lc ident token expiry (OpClaim account i)"
  shows "ident \<notin> set (fst (outboxCall lc (OpClaim account i) s)) \<and> leased ident token expiry (snd (outboxCall lc (OpClaim account i) s))"
proof -
  obtain due where due: "cl_dueBefore i = Some due" "0 < lc expiry due" using assms(2) by (auto split: option.splits)
  have "distinctIds s" using assms(1) by (simp add: leased_def)
  then obtain cs s' where run: "claimPendingOperatorNotifications lc account i s = (Inr (map (claimRecord i) cs), s')"
    and d: "distinctIds s'" and cs: "set cs \<subseteq> {n \<in> set (nb_notifications s). claimable lc account (cl_dueBefore i) n}"
    and ids: "map nt_id (nb_notifications s') = map nt_id (nb_notifications s)"
    and others: "\<forall>n\<in>set (nb_notifications s'). if nt_id n \<in> nt_id ` set cs
       then nt_leaseToken n = Some (cl_leaseToken i) \<and> nt_leaseExpiresAt n = Some (cl_leaseExpiresAt i) else n \<in> set (nb_notifications s)"
    by (rule claim_result [of s lc account i])
  have free: "ident \<notin> nt_id ` set cs"
    using cs due leased_only [OF assms(1)] by (fastforce simp: claimable_def dueBy_def)
  have "ident \<in> nt_id ` set (nb_notifications s)" using assms(1) by (auto simp: leased_def)
  then have "ident \<in> nt_id ` set (nb_notifications s')" using ids by (metis list.set_map)
  then obtain n where n: "n \<in> set (nb_notifications s')" "nt_id n = ident" by auto
  with bspec [OF others n(1)] free have "n \<in> set (nb_notifications s)" by simp
  from leased_only [OF assms(1) this n(2)] n d have "leased ident token expiry s'" by (auto simp: leased_def)
  with run free show ?thesis by (auto simp: image_iff)
qed

lemma leased_report:
  assumes "leased ident token expiry s" "\<not> mayEndLease lc ident token expiry (OpReport t)"
  shows "leased ident token expiry (snd (compareAndSetOperatorNotificationDeliveryStatus t s))"
proof (cases "find (\<lambda>c. nt_id c = dt_id t) (nb_notifications s)")
  case None
  with assms(1) show ?thesis by (simp add: compareAndSetOperatorNotificationDeliveryStatus_def)
next
  case (Some current)
  then have current: "current \<in> set (nb_notifications s)" "nt_id current = dt_id t" by (auto dest: find_Some_set)
  show ?thesis
  proof (cases "nt_leaseToken current = Some (dt_leaseToken t)")
    case False
    with Some assms(1) show ?thesis by (simp add: compareAndSetOperatorNotificationDeliveryStatus_def)
  next
    case True
    then have other: "dt_id t \<noteq> ident" using leased_only [OF assms(1) current(1)] current(2) assms(2) by auto
    let ?xs = "upsert (\<lambda>c. nt_id c = dt_id t) (transitionRecord t current) (nb_notifications s)"
    have same: "nt_id (transitionRecord t current) = dt_id t" using current(2) by (simp add: transitionRecord_def)
    have "map nt_id ?xs = map nt_id (nb_notifications s)" using current same by (intro upsert_present_map) auto
    moreover have d: "distinct (map nt_id (nb_notifications s))" using assms(1) by (simp add: leased_def distinctIds_def)
    moreover have "n \<in> set ?xs \<longleftrightarrow> n = transitionRecord t current \<or> n \<in> set (nb_notifications s) \<and> nt_id n \<noteq> dt_id t" for n
      using set_upsert_present [OF d _ same] current by blast
    ultimately have "leased ident token expiry (s\<lparr>nb_notifications := ?xs\<rparr>)"
      using assms(1) other by (auto simp: leased_def distinctIds_def)
    with Some True show ?thesis by (simp add: compareAndSetOperatorNotificationDeliveryStatus_def)
  qed
qed

lemma leased_notify:
  assumes "leased ident token expiry s"
  shows "leased ident token expiry (snd (saveOperatorNotification record s))"
  using assms by (auto simp: saveOperatorNotification_def leased_def distinctIds_def sbind_def sguard_run list_ex_iff)

lemma leased_call:
  assumes "leased ident token expiry s" "\<not> mayEndLease lc ident token expiry op"
  shows "ident \<notin> set (fst (outboxCall lc op s)) \<and> leased ident token expiry (snd (outboxCall lc op s))"
proof (cases op)
  case (OpClaim account i)
  with leased_claim [OF assms(1)] assms(2) show ?thesis by blast
next
  case (OpReport t)
  with leased_report [OF assms(1)] assms(2) show ?thesis by simp
next
  case (OpNotify n)
  with leased_notify [OF assms(1)] show ?thesis by simp
next
  case (OpAttempt a)
  with assms(1) show ?thesis by (simp add: leased_def distinctIds_def saveOperatorNotificationDeliveryAttempt_def)
next
  case (OpRun d)
  with assms(1) show ?thesis by (simp add: leased_def distinctIds_def saveOperatorNotificationDeliveryRun_def)
qed

lemma leased_calls:
  "leased ident token expiry s \<Longrightarrow> \<forall>op\<in>set ops. \<not> mayEndLease lc ident token expiry op \<Longrightarrow>
   ident \<notin> set (fst (outboxCalls lc ops s)) \<and> leased ident token expiry (snd (outboxCalls lc ops s))"
proof (induction ops arbitrary: s)
  case (Cons op ops)
  obtain out s1 where call: "outboxCall lc op s = (out, s1)" by fastforce
  then have "ident \<notin> set out" "leased ident token expiry s1" using leased_call [OF Cons.prems(1), of lc op] Cons.prems(2) by auto
  moreover have "\<forall>op\<in>set ops. \<not> mayEndLease lc ident token expiry op" using Cons.prems(2) by simp
  ultimately show ?case using Cons.IH [of s1] call by (cases "outboxCalls lc ops s1") simp
qed simp

subsection \<open>Properties\<close>

text \<open>
  C26. A claim always answers, and what it hands out stays with its worker: over any sequence of later calls on the
  outbox (claims for any account, delivery reports, new notifications, attempts, runs), as long as every claim names a
  due time before the expiry of the lease and the worker itself does not report, no claim hands the notification out
  again and it keeps the worker's token and expiry. (A claim without a due time does not look at leases at all; the
  delivery worker always names the present time.)
\<close>

theorem notification_lease_exclusive:
  assumes "distinctIds s"
  shows "\<exists>claimed s1. claimPendingOperatorNotifications lc account i s = (Inr claimed, s1) \<and>
    (\<forall>n\<in>set claimed. \<forall>ops.
       (\<forall>op\<in>set ops. \<not> mayEndLease lc (nt_id n) (cl_leaseToken i) (cl_leaseExpiresAt i) op) \<longrightarrow>
       nt_id n \<notin> set (fst (outboxCalls lc ops s1)) \<and>
       leased (nt_id n) (cl_leaseToken i) (cl_leaseExpiresAt i) (snd (outboxCalls lc ops s1)))"
proof -
  obtain cs s1 where run: "claimPendingOperatorNotifications lc account i s = (Inr (map (claimRecord i) cs), s1)"
    and d: "distinctIds s1" and cs: "set cs \<subseteq> {n \<in> set (nb_notifications s). claimable lc account (cl_dueBefore i) n}"
    and ids: "map nt_id (nb_notifications s1) = map nt_id (nb_notifications s)"
    and taken: "\<forall>n\<in>set (nb_notifications s1). if nt_id n \<in> nt_id ` set cs
       then nt_leaseToken n = Some (cl_leaseToken i) \<and> nt_leaseExpiresAt n = Some (cl_leaseExpiresAt i) else n \<in> set (nb_notifications s)"
    using assms by (rule claim_result [of s lc account i])
  have "leased (nt_id n) (cl_leaseToken i) (cl_leaseExpiresAt i) s1" if n: "n \<in> set (map (claimRecord i) cs)" for n
  proof -
    obtain c where c: "c \<in> set cs" "nt_id n = nt_id c" using n by auto
    then have "nt_id n \<in> nt_id ` set (nb_notifications s1)" using cs ids by (metis (no_types, lifting) image_eqI list.set_map mem_Collect_eq subsetD)
    with taken c d show ?thesis by (fastforce simp: leased_def)
  qed
  with leased_calls run show ?thesis by blast
qed

text \<open>
  The outcome of a delivery is recorded at most once per claim: the compare-and-set succeeds exactly when the
  record still carries the caller's lease token, and a success ends the lease, so that a second report with
  the same token, or the report of a worker whose lease was taken over, changes nothing.
\<close>

theorem delivery_recorded_once:
  assumes "compareAndSetOperatorNotificationDeliveryStatus t s = (r, s')"
  shows "r = Inr (\<exists>n. find (\<lambda>c. nt_id c = dt_id t) (nb_notifications s) = Some n \<and> nt_leaseToken n = Some (dt_leaseToken t)) \<and>
    (r = Inr False \<longrightarrow> s' = s) \<and>
    (r = Inr True \<longrightarrow> dt_id u = dt_id t \<longrightarrow> compareAndSetOperatorNotificationDeliveryStatus u s' = (Inr False, s'))"
proof (cases "find (\<lambda>c. nt_id c = dt_id t) (nb_notifications s)")
  case None
  with assms show ?thesis by (auto simp: compareAndSetOperatorNotificationDeliveryStatus_def)
next
  case (Some n)
  then have idn: "nt_id n = dt_id t" by (auto dest: find_Some_set)
  show ?thesis
  proof (cases "nt_leaseToken n = Some (dt_leaseToken t)")
    case True
    have "find (\<lambda>c. nt_id c = dt_id t) (upsert (\<lambda>c. nt_id c = dt_id t) (transitionRecord t n) (nb_notifications s)) = Some (transitionRecord t n)"
      using idn by (intro find_upsert) (simp add: transitionRecord_def)
    with True Some assms show ?thesis
      by (auto simp: compareAndSetOperatorNotificationDeliveryStatus_def) (simp add: transitionRecord_def)
  next
    case False
    with Some assms show ?thesis by (auto simp: compareAndSetOperatorNotificationDeliveryStatus_def)
  qed
qed

definition sampleNotification :: OperatorNotificationRecord where
  "sampleNotification = \<lparr>nt_id = ''n1'', nt_exchangeAccountId = ''acc'', nt_notificationType = SYNC_FAILED, nt_severity = SEV_WARN,
     nt_title = ''t'', nt_message = ''m'', nt_payloadJson = ''{}'', nt_deliveryStatus = PENDING, nt_attemptCount = 0,
     nt_lastAttemptAt = None, nt_nextAttemptAt = None, nt_failureClass = None, nt_leaseToken = Some ''tok'',
     nt_leaseExpiresAt = None, nt_createdAt = ''2026-01-01T00:00:00Z'', nt_deliveredAt = None, nt_lastError = None\<rparr>"

definition sampleOutbox :: outbox where
  "sampleOutbox = \<lparr>nb_notifications = [sampleNotification], nb_attempts = [], nb_runs = []\<rparr>"

text \<open>Comparison by code units, one admissible collation.\<close>

definition codeUnitCompare :: collator where
  "codeUnitCompare x y = (if x < y then - 1 else if x = y then 0 else 1)"

definition sampleClaim :: "string \<Rightarrow> string \<Rightarrow> string \<Rightarrow> ClaimInput" where
  "sampleClaim token due expiry = \<lparr>cl_limit = None, cl_dueBefore = Some due, cl_claimedAt = due, cl_leaseToken = token,
     cl_leaseExpiresAt = expiry\<rparr>"

definition sampleTransition :: OperatorNotificationDeliveryTransition where
  "sampleTransition = \<lparr>dt_id = ''n1'', dt_leaseToken = ''tok'', dt_deliveryStatus = SENT, dt_attemptCount = 1,
     dt_lastAttemptAt = ''2026-01-01T00:00:01Z'', dt_nextAttemptAt = None, dt_failureClass = None,
     dt_deliveredAt = Some ''2026-01-01T00:00:01Z'', dt_lastError = None\<rparr>"

definition laterCalls :: "outbox_op list" where
  "laterCalls = [OpClaim ''acc'' (sampleClaim ''b'' ''2026-01-01T00:00:30Z'' ''2026-01-01T00:01:00Z''), OpReport sampleTransition,
     OpClaim ''acc'' (sampleClaim ''c'' ''2026-01-01T00:00:10Z'' ''2026-01-01T00:01:00Z'')]"

theorem notification_lease_exclusive_witness:
  "\<exists>claimed s1.
    claimPendingOperatorNotifications codeUnitCompare ''acc'' (sampleClaim ''a'' ''2026-01-01T00:00:01Z'' ''2026-01-01T00:00:31Z'') sampleOutbox = (Inr claimed, s1) \<and>
    (\<exists>n\<in>set claimed. nt_id n \<notin> set (fst (outboxCalls codeUnitCompare laterCalls s1)))"
proof -
  let ?i = "sampleClaim ''a'' ''2026-01-01T00:00:01Z'' ''2026-01-01T00:00:31Z''"
  have "distinctIds sampleOutbox" by (simp add: distinctIds_def sampleOutbox_def)
  from notification_lease_exclusive [OF this, of codeUnitCompare "''acc''" ?i] obtain claimed s1 where
    run: "claimPendingOperatorNotifications codeUnitCompare ''acc'' ?i sampleOutbox = (Inr claimed, s1)"
    and held: "\<forall>n\<in>set claimed. \<forall>ops. (\<forall>op\<in>set ops. \<not> mayEndLease codeUnitCompare (nt_id n) (cl_leaseToken ?i) (cl_leaseExpiresAt ?i) op) \<longrightarrow>
       nt_id n \<notin> set (fst (outboxCalls codeUnitCompare ops s1))" by blast
  have "map_sum id (map nt_id) (fst (claimPendingOperatorNotifications codeUnitCompare ''acc'' ?i sampleOutbox)) = Inr [''n1'']" by code_simp
  then have ids: "map nt_id claimed = [''n1'']" unfolding run by simp
  then have "''n1'' \<in> nt_id ` set claimed" by (metis list.set_intros(1) list.set_map)
  then obtain n where n: "n \<in> set claimed" "nt_id n = ''n1''" by auto
  have "list_all (\<lambda>op. \<not> mayEndLease codeUnitCompare ''n1'' ''a'' ''2026-01-01T00:00:31Z'' op) laterCalls" by code_simp
  then have "\<forall>op\<in>set laterCalls. \<not> mayEndLease codeUnitCompare (nt_id n) (cl_leaseToken ?i) (cl_leaseExpiresAt ?i) op"
    unfolding n(2) by (simp add: list_all_iff sampleClaim_def)
  with held n(1) have "nt_id n \<notin> set (fst (outboxCalls codeUnitCompare laterCalls s1))" by blast
  with n(1) run show ?thesis by blast
qed

theorem delivery_recorded_once_witness:
  "\<exists>s'. compareAndSetOperatorNotificationDeliveryStatus sampleTransition sampleOutbox = (Inr True, s') \<and>
     compareAndSetOperatorNotificationDeliveryStatus sampleTransition s' = (Inr False, s')"
proof -
  let ?r = "compareAndSetOperatorNotificationDeliveryStatus sampleTransition sampleOutbox"
  have "fst ?r = Inr True" by code_simp
  then have run: "?r = (Inr True, snd ?r)" by (metis prod.collapse)
  from delivery_recorded_once [OF run, of sampleTransition] run show ?thesis by auto
qed

end
