(* ===== verification/Json.thy ===== *)
theory Json
  imports JsNumber
begin

section \<open>JSON text\<close>

text \<open>
  What the program uses of \<open>JSON.stringify\<close> and \<open>JSON.parse\<close>: values without \<open>undefined\<close>, printed without
  spaces; texts read by the grammar of the JSON standard. A string is a sequence of code units up to 255, as
  everywhere in the development. \<open>parseValue\<close> has fuel; every recursive call is on a shorter text, so the length
  of the text is enough. The round trip shows this for what \<open>stringify\<close> prints.
\<close>

datatype json =
    JNull
  | JBool bool
  | JNumber jsnum
  | JString string
  | JArray "json list"
  | JObject "(string \<times> json) list"

abbreviation JInt :: "int \<Rightarrow> json" where
  "JInt i \<equiv> JNumber (Num (of_int i))"

definition optJson :: "('a \<Rightarrow> json) \<Rightarrow> 'a option \<Rightarrow> json" where
  "optJson f v = (case v of None \<Rightarrow> JNull | Some x \<Rightarrow> f x)"

subsection \<open>Printing\<close>

definition hexDigit :: "nat \<Rightarrow> char" where
  "hexDigit n = (if n < 10 then char_of (48 + n) else char_of (87 + n))"

definition escapeChar :: "char \<Rightarrow> string" where
  "escapeChar c = (let n = of_char c :: nat in
     if n = 34 then [CHR 0x5C, CHR 0x22] else if n = 92 then [CHR 0x5C, CHR 0x5C]
     else if n = 8 then [CHR 0x5C, CHR ''b''] else if n = 9 then [CHR 0x5C, CHR ''t'']
     else if n = 10 then [CHR 0x5C, CHR ''n''] else if n = 12 then [CHR 0x5C, CHR ''f'']
     else if n = 13 then [CHR 0x5C, CHR ''r'']
     else if n < 32 then [CHR 0x5C, CHR ''u'', CHR ''0'', CHR ''0'', hexDigit (n div 16), hexDigit (n mod 16)]
     else [c])"

definition quote :: "string \<Rightarrow> string" where
  "quote s = [CHR 0x22] @ concat (map escapeChar s) @ [CHR 0x22]"

definition printNumber :: "jsnum \<Rightarrow> string" where
  "printNumber x = (if isFiniteNumber x then numberToString x else ''null'')"

function (sequential) stringify :: "json \<Rightarrow> string" and stringifyElements :: "json list \<Rightarrow> string"
  and stringifyMembers :: "(string \<times> json) list \<Rightarrow> string" where
  "stringify JNull = ''null''"
| "stringify (JBool b) = (if b then ''true'' else ''false'')"
| "stringify (JNumber x) = printNumber x"
| "stringify (JString s) = quote s"
| "stringify (JArray xs) = ''['' @ stringifyElements xs @ '']''"
| "stringify (JObject ms) = ''{'' @ stringifyMembers ms @ ''}''"
| "stringifyElements [] = ''''"
| "stringifyElements [x] = stringify x"
| "stringifyElements (x # xs) = stringify x @ '','' @ stringifyElements xs"
| "stringifyMembers [] = ''''"
| "stringifyMembers [(k, v)] = quote k @ '':'' @ stringify v"
| "stringifyMembers ((k, v) # ms) = quote k @ '':'' @ stringify v @ '','' @ stringifyMembers ms"
  by pat_completeness auto
termination
  by (relation "measure (\<lambda>c. case c of Inl v \<Rightarrow> size v | Inr (Inl xs) \<Rightarrow> size_list size xs
        | Inr (Inr ms) \<Rightarrow> size_list (size_prod (\<lambda>_. 0) size) ms)") auto

subsection \<open>Reading\<close>

definition is_json_space :: "char \<Rightarrow> bool" where
  "is_json_space c \<longleftrightarrow> c = CHR '' '' \<or> c = CHR 0x09 \<or> c = CHR 0x0A \<or> c = CHR 0x0D"

abbreviation skipSpace :: "string \<Rightarrow> string" where
  "skipSpace \<equiv> dropWhile is_json_space"

fun unhex :: "string \<Rightarrow> nat \<Rightarrow> nat option" where
  "unhex [] n = Some n"
| "unhex (c # cs) n = (case radix_val 16 c of None \<Rightarrow> None | Some v \<Rightarrow> unhex cs (16 * n + nat v))"

text \<open>The rest of a string literal after the opening quote.\<close>

fun parseString :: "string \<Rightarrow> (string \<times> string) option" where
  "parseString [] = None"
| "parseString (c # cs) =
     (if c = CHR 0x22 then Some ([], cs)
      else if c = CHR 0x5C then
        (case cs of [] \<Rightarrow> None
         | e # ds \<Rightarrow>
             if e = CHR ''u'' then
               (if length (take 4 ds) < 4 then None
                else (case unhex (take 4 ds) 0 of None \<Rightarrow> None
                      | Some n \<Rightarrow> map_option (apfst (Cons (char_of n))) (parseString (drop 4 ds))))
             else (case map_of [(CHR 0x22, CHR 0x22), (CHR 0x5C, CHR 0x5C), (CHR ''/'', CHR ''/''), (CHR ''b'', CHR 0x08),
                       (CHR ''f'', CHR 0x0C), (CHR ''n'', CHR 0x0A), (CHR ''r'', CHR 0x0D), (CHR ''t'', CHR 0x09)] e of
                     None \<Rightarrow> None
                   | Some x \<Rightarrow> map_option (apfst (Cons x)) (parseString ds)))
      else if (of_char c :: nat) < 32 then None
      else map_option (apfst (Cons c)) (parseString cs))"

definition parseNumber :: "string \<Rightarrow> (json \<times> string) option" where
  "parseNumber s =
     (let sign = (if starts_with ''-'' s then ''-'' else '''');
          s1 = drop (length sign) s;
          whole = takeWhile is_digit s1; s2 = dropWhile is_digit s1;
          frac = (if starts_with ''.'' s2 then CHR ''.'' # takeWhile is_digit (tl s2) else '''');
          s3 = drop (length frac) s2;
          expo = (case s3 of c # r \<Rightarrow>
                    if c = CHR ''e'' \<or> c = CHR ''E''
                    then c # (case r of d # _ \<Rightarrow> if d = CHR ''+'' \<or> d = CHR ''-'' then [d] else [] | [] \<Rightarrow> []) @
                         takeWhile is_digit (case r of d # r' \<Rightarrow> if d = CHR ''+'' \<or> d = CHR ''-'' then r' else r | [] \<Rightarrow> [])
                    else ''''
                  | [] \<Rightarrow> '''')
      in if whole = '''' \<or> (1 < length whole \<and> hd whole = CHR ''0'') \<or> frac = ''.'' \<or>
            (expo \<noteq> '''' \<and> \<not> is_digit (last expo))
         then None
         else Some (JNumber (numberOf (sign @ whole @ frac @ expo)), drop (length expo) s3))"

function (sequential) parseValue :: "nat \<Rightarrow> string \<Rightarrow> (json \<times> string) option"
  and parseElements :: "nat \<Rightarrow> string \<Rightarrow> (json list \<times> string) option"
  and parseMembers :: "nat \<Rightarrow> string \<Rightarrow> ((string \<times> json) list \<times> string) option" where
  "parseValue 0 s = None"
| "parseValue (Suc n) s =
     (case s of [] \<Rightarrow> None
      | c # cs \<Rightarrow>
          if starts_with ''null'' s then Some (JNull, drop 4 s)
          else if starts_with ''true'' s then Some (JBool True, drop 4 s)
          else if starts_with ''false'' s then Some (JBool False, drop 5 s)
          else if c = CHR 0x22 then map_option (apfst JString) (parseString cs)
          else if c = CHR ''['' then
            (case skipSpace cs of d # r \<Rightarrow> if d = CHR '']'' then Some (JArray [], r)
                 else map_option (apfst JArray) (parseElements n (d # r)) | [] \<Rightarrow> None)
          else if c = CHR ''{'' then
            (case skipSpace cs of d # r \<Rightarrow> if d = CHR ''}'' then Some (JObject [], r)
                 else map_option (apfst JObject) (parseMembers n (d # r)) | [] \<Rightarrow> None)
          else parseNumber s)"
| "parseElements 0 s = None"
| "parseElements (Suc n) s =
     (case parseValue n s of None \<Rightarrow> None
      | Some (v, r) \<Rightarrow>
          (case skipSpace r of [] \<Rightarrow> None
           | c # r' \<Rightarrow>
               if c = CHR '']'' then Some ([v], r')
               else if c = CHR '','' then map_option (apfst (Cons v)) (parseElements n (skipSpace r'))
               else None))"
| "parseMembers 0 s = None"
| "parseMembers (Suc n) s =
     (case s of [] \<Rightarrow> None
      | q # s1 \<Rightarrow>
          if q \<noteq> CHR 0x22 then None
          else (case parseString s1 of None \<Rightarrow> None
                | Some (k, r0) \<Rightarrow>
                    (case skipSpace r0 of [] \<Rightarrow> None
                     | c # r1 \<Rightarrow>
                         if c \<noteq> CHR '':'' then None
                         else (case parseValue n (skipSpace r1) of None \<Rightarrow> None
                               | Some (v, r) \<Rightarrow>
                                   (case skipSpace r of [] \<Rightarrow> None
                                    | d # r' \<Rightarrow>
                                        if d = CHR ''}'' then Some ([(k, v)], r')
                                        else if d = CHR '','' then map_option (apfst (Cons (k, v))) (parseMembers n (skipSpace r'))
                                        else None)))))"
  by pat_completeness auto
termination
  by (relation "measure (\<lambda>c. case c of Inl (n, s) \<Rightarrow> n | Inr (Inl (n, s)) \<Rightarrow> n | Inr (Inr (n, s)) \<Rightarrow> n)") auto

text \<open>\<open>JSON.parse\<close>; \<open>None\<close> is the \<open>SyntaxError\<close> it throws.\<close>

definition parseJson :: "string \<Rightarrow> json option" where
  "parseJson s =
     (case parseValue (Suc (length s)) (skipSpace s) of None \<Rightarrow> None
      | Some (v, r) \<Rightarrow> if skipSpace r = [] then Some v else None)"

text \<open>A property of a parsed object: the last member of that name.\<close>

definition member :: "string \<Rightarrow> (string \<times> json) list \<Rightarrow> json option" where
  "member k ms = map_of (rev ms) k"

subsection \<open>The round trip\<close>

lemma char_codes:
  "char_of (34 :: nat) = CHR 0x22" "char_of (92 :: nat) = CHR 0x5C" "char_of (8 :: nat) = CHR 0x08" "char_of (9 :: nat) = CHR 0x09"
  "char_of (10 :: nat) = CHR 0x0A" "char_of (12 :: nat) = CHR 0x0C" "char_of (13 :: nat) = CHR 0x0D"
  by code_simp+

lemma char_code: "k < 256 \<Longrightarrow> (of_char (char_of k) :: int) = int (k :: nat)"
  using of_nat_of_char [of "char_of k", where ?'a = int] by simp

lemma hex_value: "v < 16 \<Longrightarrow> radix_val 16 (hexDigit v) = Some (int v)"
  using char_code [of "48 + v"] char_code [of "87 + v"]
  by (cases "v < 10") (simp_all add: radix_val_def hexDigit_def is_digit_def is_lower_def is_upper_def digit_val_def)

lemma hex_code:
  assumes "n < 32"
  shows "unhex [CHR ''0'', CHR ''0'', hexDigit (n div 16), hexDigit (n mod 16)] 0 = Some n"
proof -
  have "radix_val 16 CHR ''0'' = Some 0" by code_simp
  moreover have "n div 16 < 16" "n mod 16 < 16" using assms by auto
  ultimately show ?thesis using assms by (simp add: hex_value nat_add_distrib)
qed

lemma parseString_escape: "parseString (escapeChar c @ r) = map_option (apfst (Cons c)) (parseString r)"
proof -
  define n where "n = (of_char c :: nat)"
  have c: "c = char_of n" by (simp add: n_def)
  consider "n \<in> {34, 92, 8, 9, 10, 12, 13}" | "n \<notin> {34, 92, 8, 9, 10, 12, 13}" "n < 32" | "n \<notin> {34, 92}" "32 \<le> n" by fastforce
  then show ?thesis
  proof cases
    case 1
    then show ?thesis by (auto simp: c escapeChar_def char_codes)
  next
    case 2
    then have "escapeChar c = [CHR 0x5C, CHR ''u'', CHR ''0'', CHR ''0'', hexDigit (n div 16), hexDigit (n mod 16)]"
      by (simp add: escapeChar_def n_def Let_def)
    then show ?thesis using hex_code [OF 2(2)] by (simp add: c)
  next
    case 3
    then have "escapeChar c = [c]" "c \<noteq> CHR 0x22" "c \<noteq> CHR 0x5C"
      by (auto simp: escapeChar_def n_def Let_def)
    then show ?thesis using 3(2) by (simp add: n_def)
  qed
qed

lemma parseString_quote: "parseString (concat (map escapeChar s) @ CHR 0x22 # r) = Some (s, r)"
  by (induction s) (simp_all add: parseString_escape)

text \<open>Values without numbers, and the texts that may follow a printed value.\<close>

fun numberFree :: "json \<Rightarrow> bool" where
  "numberFree (JNumber x) = False"
| "numberFree (JArray xs) = list_all numberFree xs"
| "numberFree (JObject ms) = list_all (\<lambda>m. numberFree (snd m)) ms"
| "numberFree v = True"

lemma stringify_head:
  "numberFree v \<Longrightarrow> \<exists>c t. stringify v = c # t \<and> \<not> is_json_space c \<and> c \<noteq> CHR '']'' \<and> c \<noteq> CHR ''}''"
  by (cases v) (auto simp: quote_def is_json_space_def)

lemma starts_with_head: "c \<noteq> d \<Longrightarrow> \<not> starts_with (d # ds) (c # cs)"
  by simp

lemma value_head:
  "numberFree v \<Longrightarrow> stringify v \<noteq> [] \<and> skipSpace (stringify v @ r) = stringify v @ r"
  using stringify_head [of v] by auto

lemma parseElements_step:
  "parseValue n s = Some (v, CHR '']'' # r) \<Longrightarrow> parseElements (Suc n) s = Some ([v], r)"
  "parseValue n s = Some (v, CHR '','' # t) \<Longrightarrow> skipSpace t = t \<Longrightarrow> parseElements n t = Some (vs, r) \<Longrightarrow>
    parseElements (Suc n) s = Some (v # vs, r)"
  by (simp_all add: is_json_space_def)

lemma parseMembers_step:
  "parseValue n s = Some (v, CHR ''}'' # r) \<Longrightarrow> skipSpace s = s \<Longrightarrow> parseMembers (Suc n) (quote k @ '':'' @ s) = Some ([(k, v)], r)"
  "parseValue n s = Some (v, CHR '','' # t) \<Longrightarrow> skipSpace s = s \<Longrightarrow> skipSpace t = t \<Longrightarrow> parseMembers n t = Some (ms, r) \<Longrightarrow>
    parseMembers (Suc n) (quote k @ '':'' @ s) = Some ((k, v) # ms, r)"
  by (simp_all add: quote_def parseString_quote is_json_space_def)

lemma parse_stringify:
  "numberFree v \<Longrightarrow> length (stringify v) \<le> n \<Longrightarrow> parseValue (Suc n) (stringify v @ r) = Some (v, r)"
  "list_all numberFree xs \<Longrightarrow> xs \<noteq> [] \<Longrightarrow> length (stringifyElements xs) < n \<Longrightarrow>
    parseElements (Suc n) (stringifyElements xs @ CHR '']'' # r) = Some (xs, r)"
  "list_all (\<lambda>m. numberFree (snd m)) ms \<Longrightarrow> ms \<noteq> [] \<Longrightarrow> length (stringifyMembers ms) < n \<Longrightarrow>
    parseMembers (Suc n) (stringifyMembers ms @ CHR ''}'' # r) = Some (ms, r)"
proof (induction v and xs and ms arbitrary: n r and n r and n r rule: stringify_stringifyElements_stringifyMembers.induct)
  case (4 s)
  then show ?case by (simp add: quote_def parseString_quote)
next
  case (5 xs)
  show ?case
  proof (cases "xs = []")
    case True
    then show ?thesis by (simp add: is_json_space_def)
  next
    case False
    obtain m where n: "n = Suc m" using 5(3) by (cases n) auto
    obtain x ys where xs: "xs = x # ys" using False by (cases xs) auto
    then have hd: "\<exists>c t. stringifyElements xs @ CHR '']'' # r = c # t \<and> \<not> is_json_space c \<and> c \<noteq> CHR '']''"
      using stringify_head [of x] 5(2) by (cases ys) auto
    have "parseElements (Suc m) (stringifyElements xs @ CHR '']'' # r) = Some (xs, r)"
      using 5 False n by (intro 5(1)) auto
    with hd show ?thesis by (auto simp: n)
  qed
next
  case (6 ms)
  show ?case
  proof (cases "ms = []")
    case True
    then show ?thesis by (simp add: is_json_space_def)
  next
    case False
    obtain m where n: "n = Suc m" using 6(3) by (cases n) auto
    obtain k v ys where ms: "ms = (k, v) # ys" using False by (cases ms) auto
    then have hd: "\<exists>t. stringifyMembers ms @ CHR ''}'' # r = CHR 0x22 # t"
      by (cases ys) (auto simp: quote_def)
    have "parseMembers (Suc m) (stringifyMembers ms @ CHR ''}'' # r) = Some (ms, r)"
      using 6 False n by (intro 6(1)) auto
    with hd show ?thesis by (auto simp: n is_json_space_def)
  qed
next
  case (8 x)
  then obtain m where n: "n = Suc m" by (cases n) auto
  with 8 have "parseValue (Suc m) (stringify x @ CHR '']'' # r) = Some (x, CHR '']'' # r)" by (intro 8(1)) auto
  then show ?case unfolding n stringifyElements.simps by (rule parseElements_step)
next
  case (9 x y ys)
  let ?t = "stringifyElements (y # ys) @ CHR '']'' # r"
  obtain m where n: "n = Suc m" using 9(5) by (cases n) auto
  have len: "length (stringify x) + length (stringifyElements (y # ys)) < m" using 9(5) n by simp
  have t: "parseElements (Suc m) ?t = Some (y # ys, r)" using 9(3) len by (intro 9(2)) auto
  have sp: "skipSpace ?t = ?t" using stringify_head [of y] 9(3) by (cases ys) auto
  have x: "parseValue (Suc m) (stringify x @ CHR '','' # ?t) = Some (x, CHR '','' # ?t)" using 9(3) len by (intro 9(1)) auto
  show ?case using parseElements_step(2) [OF x sp t] by (simp add: n)
next
  case (11 k v)
  obtain m where n: "n = Suc m" using 11(4) by (cases n) auto
  have v: "parseValue (Suc m) (stringify v @ CHR ''}'' # r) = Some (v, CHR ''}'' # r)" using 11 n by (intro 11(1)) auto
  show ?case using parseMembers_step(1) [OF v] 11(2) value_head by (simp add: n)
next
  case (12 k v y ys)
  let ?t = "stringifyMembers (y # ys) @ CHR ''}'' # r"
  obtain m where n: "n = Suc m" using 12(5) by (cases n) auto
  have len: "length (stringify v) + length (stringifyMembers (y # ys)) + 2 < m"
    using 12(5) n by (simp add: quote_def)
  have t: "parseMembers (Suc m) ?t = Some (y # ys, r)" using 12(3) len by (intro 12(2)) auto
  have sp: "skipSpace ?t = ?t" by (cases y; cases ys) (auto simp: quote_def is_json_space_def)
  have v: "parseValue (Suc m) (stringify v @ CHR '','' # ?t) = Some (v, CHR '','' # ?t)" using 12(3) len by (intro 12(1)) auto
  show ?case using parseMembers_step(2) [OF v _ sp t] 12(3) value_head by (simp add: n)
qed auto

lemma parseJson_stringify:
  assumes "numberFree v"
  shows "parseJson (stringify v) = Some v"
  using parse_stringify(1) [of v "length (stringify v)" "[]"] value_head [of v "[]"] assms by (simp add: parseJson_def)

end
