(* ===== verification/CandidateBinding.thy ===== *)
theory CandidateBinding
  imports Json CandidateState Repository
begin

section \<open>Candidate execution authority and the binding of an order\<close>

text \<open>
  \<open>src/src/modules/execution/candidate-execution-authority.ts\<close>,
  \<open>src/src/modules/db/repositories/candidate-bound-order-validation.ts\<close>, the deployment and binding validators of
  \<open>src/src/modules/db/pilot-interfaces.ts\<close>, and the atomic write of a candidate order in the in-memory repositories.
  SHA-256 is the parameter \<open>sha256\<close> (text to lower-case hexadecimal digest). That a value has exactly the expected
  own properties holds by typing; fields of a single literal type are read back from a database and checked, so
  they are strings here.
\<close>

datatype PositionGuardPilotPhase = PHASE_DISABLED | PENDING_FLAT | ACTIVE | PAUSED_FAULT | DRAINING

record PositionGuardPilotDeploymentRecord =
  dp_id :: string
  dp_exchangeAccountId :: string
  dp_pilotId :: string
  dp_market :: SupportedMarket
  dp_policyId :: string
  dp_policyVersion :: string
  dp_phase :: PositionGuardPilotPhase
  dp_activationAt :: "string option"
  dp_activationEpochNs :: "int option"
  dp_createdAt :: string
  dp_updatedAt :: string

record CandidateExecutionBindingRecord =
  bd_id :: string
  bd_deploymentId :: string
  bd_strategyDecisionId :: string
  bd_orderId :: string
  bd_exchangeAccountId :: string
  bd_activationAt :: string
  bd_activationEpochNs :: int
  bd_market :: SupportedMarket
  bd_strategyKey :: string
  bd_policyId :: string
  bd_policyVersion :: string
  bd_executionMode :: ExecutionMode
  bd_ordType :: OrderType
  bd_action :: StrategyDecisionAction
  bd_side :: OrderSide
  bd_intendedQuantity :: "string option"
  bd_intendedNotionalKrw :: "string option"
  bd_boundPrice :: "string option"
  bd_boundVolume :: "string option"
  bd_boundTimeInForce :: "TimeInForce option"
  bd_boundSmpType :: "UpbitSelfMatchPrevention option"
  bd_materialVersion :: string
  bd_orderMaterialHash :: string
  bd_createdAt :: string

datatype RouteReason = CANDIDATE_ALLOWED | CANDIDATE_EARLY_THESIS_FAILURE | DRAINING_RISK_REDUCTION_PRESERVED

record CandidateExecutionAuthority =
  xa_kind :: string
  xa_deploymentId :: string
  xa_exchangeAccountId :: string
  xa_pilotId :: string
  xa_market :: SupportedMarket
  xa_strategyKey :: string
  xa_policyId :: string
  xa_policyVersion :: string
  xa_activationAt :: string
  xa_activationEpochNs :: int
  xa_expectedPhase :: PositionGuardPilotPhase
  xa_expectedDeploymentUpdatedAt :: string
  xa_expectedStateVersion :: int
  xa_routeReason :: RouteReason

abbreviation STRATEGY_KEY :: string where
  "STRATEGY_KEY \<equiv> ''position_guard.paper_core.v1''"

abbreviation PILOT_ID :: string where
  "PILOT_ID \<equiv> ''BTC_COMBINED_CONSERVATIVE_PILOT_V1''"

abbreviation POLICY_ID :: string where
  "POLICY_ID \<equiv> ''COMBINED_CONSERVATIVE''"

abbreviation POLICY_VERSION :: string where
  "POLICY_VERSION \<equiv> ''PCS-2026-001.DEPLOYMENT_READINESS_V1''"

subsection \<open>Deployment and binding\<close>

definition validateCandidatePilotDeployment :: "PositionGuardPilotDeploymentRecord \<Rightarrow> PositionGuardPilotDeploymentRecord res" where
  "validateCandidatePilotDeployment deployment =
     ebind (requireNonEmpty (dp_id deployment) ''deployment id'') (\<lambda>_.
     ebind (requireNonEmpty (dp_exchangeAccountId deployment) ''deployment exchangeAccountId'') (\<lambda>_.
     ebind (throw_if (dp_pilotId deployment \<noteq> PILOT_ID \<or> dp_market deployment \<noteq> KRW_BTC \<or>
         dp_policyId deployment \<noteq> POLICY_ID \<or> dp_policyVersion deployment \<noteq> POLICY_VERSION)
       (Error ''Candidate pilot deployment must use the exact approved identity.'')) (\<lambda>_.
     ebind (parsePositionGuardCandidateTimestamp (dp_createdAt deployment) ''deployment createdAt'') (\<lambda>createdAt.
     ebind (parsePositionGuardCandidateTimestamp (dp_updatedAt deployment) ''deployment updatedAt'') (\<lambda>updatedAt.
     ebind (throw_if (updatedAt < createdAt)
       (Error ''Candidate pilot deployment updatedAt cannot precede createdAt.'')) (\<lambda>_.
     ebind (throw_if ((dp_activationAt deployment = None) \<noteq> (dp_activationEpochNs deployment = None))
       (Error ''Candidate pilot deployment activation timestamp and epoch must be persisted together.'')) (\<lambda>_.
     ebind (case (dp_activationAt deployment, dp_activationEpochNs deployment) of
         (Some activationAt, Some epochNs) \<Rightarrow>
           ebind (parsePositionGuardCandidateTimestamp activationAt ''deployment activationAt'') (\<lambda>activationEpochNs.
           throw_if (activationEpochNs < 0 \<or> activationEpochNs \<noteq> epochNs)
             (Error ''Candidate pilot deployment activation epoch does not match its timestamp.''))
       | _ \<Rightarrow> Inr ()) (\<lambda>_.
     ebind (throw_if ((dp_phase deployment = ACTIVE \<or> dp_phase deployment = DRAINING) \<and> dp_activationAt deployment = None)
       (Error ''Active candidate pilot deployments require a persisted activation instant.'')) (\<lambda>_.
     Inr deployment)))))))))"

definition smpStr :: "UpbitSelfMatchPrevention \<Rightarrow> string" where
  "smpStr v = (case v of Cancel_maker \<Rightarrow> ''cancel_maker'' | Cancel_taker \<Rightarrow> ''cancel_taker'' | Reduce_smp \<Rightarrow> ''reduce'')"

definition bigintToString :: "int \<Rightarrow> string" where
  "bigintToString i = (if i < 0 then ''-'' else '''') @ digits_of_int \<bar>i\<bar>"

definition bindingMaterial :: "CandidateExecutionBindingRecord \<Rightarrow> json" where
  "bindingMaterial binding = JObject
     [(''schemaVersion'', JInt 2), (''materialVersion'', JString (bd_materialVersion binding)), (''id'', JString (bd_id binding)),
      (''deploymentId'', JString (bd_deploymentId binding)), (''strategyDecisionId'', JString (bd_strategyDecisionId binding)),
      (''orderId'', JString (bd_orderId binding)), (''exchangeAccountId'', JString (bd_exchangeAccountId binding)),
      (''activationAt'', JString (bd_activationAt binding)),
      (''activationEpochNs'', JString (bigintToString (bd_activationEpochNs binding))),
      (''market'', JString (marketStr (bd_market binding))), (''strategyKey'', JString (bd_strategyKey binding)),
      (''policyId'', JString (bd_policyId binding)), (''policyVersion'', JString (bd_policyVersion binding)),
      (''executionMode'', JString (modeStr (bd_executionMode binding))), (''ordType'', JString (ordTypeStr (bd_ordType binding))),
      (''action'', JString (actionStr (bd_action binding))), (''side'', JString (sideStr (bd_side binding))),
      (''intendedQuantity'', optJson JString (bd_intendedQuantity binding)),
      (''intendedNotionalKrw'', optJson JString (bd_intendedNotionalKrw binding)),
      (''boundPrice'', optJson JString (bd_boundPrice binding)), (''boundVolume'', optJson JString (bd_boundVolume binding)),
      (''boundTimeInForce'', optJson (JString \<circ> timeInForceStr) (bd_boundTimeInForce binding)),
      (''boundSmpType'', optJson (JString \<circ> smpStr) (bd_boundSmpType binding)), (''createdAt'', JString (bd_createdAt binding))]"

definition candidateExecutionBindingMaterialHash :: "(string \<Rightarrow> string) \<Rightarrow> CandidateExecutionBindingRecord \<Rightarrow> string" where
  "candidateExecutionBindingMaterialHash sha256 binding = sha256 (stringify (bindingMaterial binding))"

definition isSha256Hex :: "string \<Rightarrow> bool" where
  "isSha256Hex s \<longleftrightarrow> length s = 64 \<and> list_all (\<lambda>c. is_digit c \<or> c \<in> set ''abcdef'') s"

definition isCandidateAction :: "StrategyDecisionAction \<Rightarrow> bool" where
  "isCandidateAction value \<longleftrightarrow> value = ENTER \<or> value = ADD \<or> value = REDUCE \<or> value = EXIT"

definition checkOptionalDecimal :: "string option \<Rightarrow> string \<Rightarrow> unit res" where
  "checkOptionalDecimal value label =
     (case value of None \<Rightarrow> Inr () | Some v \<Rightarrow> ebind (canonicalNonNegativeDecimal v label) (\<lambda>_. Inr ()))"

definition validateCandidateExecutionBinding ::
  "(string \<Rightarrow> string) \<Rightarrow> CandidateExecutionBindingRecord \<Rightarrow> CandidateExecutionBindingRecord res" where
  "validateCandidateExecutionBinding sha256 binding =
     ebind (emapM (\<lambda>field. requireNonEmpty field ''candidate execution binding identity'')
       [bd_id binding, bd_deploymentId binding, bd_strategyDecisionId binding, bd_orderId binding, bd_exchangeAccountId binding]) (\<lambda>_.
     ebind (throw_if (bd_market binding \<noteq> KRW_BTC \<or> bd_strategyKey binding \<noteq> STRATEGY_KEY \<or>
         bd_policyId binding \<noteq> POLICY_ID \<or> bd_policyVersion binding \<noteq> POLICY_VERSION \<or> \<not> isCandidateAction (bd_action binding))
       (Error ''Candidate execution binding has an invalid persisted provenance identity.'')) (\<lambda>_.
     ebind (parsePositionGuardCandidateTimestamp (bd_activationAt binding) ''binding activationAt'') (\<lambda>activationEpochNs.
     ebind (throw_if (activationEpochNs < 0 \<or> activationEpochNs \<noteq> bd_activationEpochNs binding)
       (Error ''Candidate execution binding activation epoch does not match its timestamp.'')) (\<lambda>_.
     ebind (parsePositionGuardCandidateTimestamp (bd_createdAt binding) ''binding createdAt'') (\<lambda>createdAt.
     ebind (checkOptionalDecimal (bd_intendedQuantity binding) ''binding intendedQuantity'') (\<lambda>_.
     ebind (checkOptionalDecimal (bd_intendedNotionalKrw binding) ''binding intendedNotionalKrw'') (\<lambda>_.
     ebind (checkOptionalDecimal (bd_boundPrice binding) ''binding boundPrice'') (\<lambda>_.
     ebind (checkOptionalDecimal (bd_boundVolume binding) ''binding boundVolume'') (\<lambda>_.
     ebind (throw_if (bd_materialVersion binding \<noteq> ''BINDING_V2'' \<or> \<not> isSha256Hex (bd_orderMaterialHash binding))
       (Error ''Candidate execution binding material version or hash is invalid.'')) (\<lambda>_.
     ebind (throw_if (createdAt \<le> activationEpochNs)
       (Error ''Candidate execution binding must be created after its activation instant.'')) (\<lambda>_.
     ebind (throw_if (candidateExecutionBindingMaterialHash sha256 binding \<noteq> bd_orderMaterialHash binding)
       (Error ''Candidate execution binding material hash does not match its persisted shape.'')) (\<lambda>_.
     Inr binding))))))))))))"

subsection \<open>The order intent bound to a deployment\<close>

record PersistCandidateBoundOrderIntentInput =
  bi_order :: OrderRecord
  bi_event :: OrderEventRecord
  bi_binding :: CandidateExecutionBindingRecord
  bi_decision :: StrategyDecisionRecord
  bi_deployment :: PositionGuardPilotDeploymentRecord
  bi_exactStateVersion :: int
  bi_expectedPhase :: PositionGuardPilotPhase
  bi_expectedDeploymentUpdatedAt :: string
  bi_expectedStateVersion :: int

record PersistCandidateBoundOrderIntentRequest =
  br_order :: OrderRecord
  br_event :: OrderEventRecord
  br_binding :: CandidateExecutionBindingRecord
  br_expectedPhase :: PositionGuardPilotPhase
  br_expectedDeploymentUpdatedAt :: string
  br_expectedStateVersion :: int

definition validateStateVersion :: "int \<Rightarrow> string \<Rightarrow> unit res" where
  "validateStateVersion value label = throw_if (\<not> isSafeInteger value \<or> value < 0)
     (Error (''Candidate-bound '' @ label @ '' must be a non-negative safe integer.''))"

definition validateOptionalDecimal :: "string option \<Rightarrow> string \<Rightarrow> unit res" where
  "validateOptionalDecimal value label = (case value of None \<Rightarrow> Inr ()
     | Some v \<Rightarrow> ebind (canonicalNonNegativeDecimal v label) (\<lambda>c. throw_if (c \<noteq> v) (Error (label @ '' must be canonical.''))))"

definition validatePositiveDecimal :: "string \<Rightarrow> string \<Rightarrow> unit res" where
  "validatePositiveDecimal value label =
     ebind (canonicalNonNegativeDecimal value (label @ '' value'')) (\<lambda>canonical.
     throw_if (canonical \<noteq> value \<or> canonical = ''0'') (Error (label @ '' requires a canonical positive decimal.'')))"

definition validateCandidateOrderShape :: "PositionGuardPilotPhase \<Rightarrow> StrategyDecisionRecord \<Rightarrow> OrderRecord \<Rightarrow> unit res" where
  "validateCandidateOrderShape phase decision ord =
     (let isEntry = (sd_action decision = ENTER \<or> sd_action decision = ADD)
      in ebind (throw_if (phase = DRAINING \<and> isEntry)
           (Error ''DRAINING candidate deployments allow only REDUCE or EXIT orders.'')) (\<lambda>_.
         if isEntry then
           ebind (throw_if (oi_side ord \<noteq> Bid \<or> oi_ordType ord \<noteq> Price \<or> oi_price ord = None \<or>
               oi_price ord \<noteq> sd_intendedNotionalKrw decision \<or> sd_intendedQuantity decision \<noteq> None \<or>
               oi_volume ord \<noteq> None \<or> oi_timeInForce ord \<noteq> None \<or> oi_smpType ord \<noteq> None)
             (Error ''Candidate entry order shape is invalid.'')) (\<lambda>_.
           validatePositiveDecimal (the (oi_price ord)) ''Candidate entry order shape'')
         else
           ebind (throw_if (oi_side ord \<noteq> Ask \<or> oi_ordType ord \<noteq> Market \<or> sd_intendedNotionalKrw decision \<noteq> None \<or>
               oi_price ord \<noteq> None \<or> oi_volume ord = None \<or> oi_volume ord \<noteq> sd_intendedQuantity decision \<or>
               oi_timeInForce ord \<noteq> None \<or> oi_smpType ord \<noteq> None)
             (Error ''Candidate exit order shape is invalid.'')) (\<lambda>_.
           validatePositiveDecimal (the (oi_volume ord)) ''Candidate exit order shape'')))"

definition validateDecision :: "StrategyDecisionRecord \<Rightarrow> OrderRecord \<Rightarrow> CandidateExecutionBindingRecord \<Rightarrow> unit res" where
  "validateDecision decision ord binding =
     ebind (throw_if (is_blank (sd_id decision) \<or> sd_status decision \<noteq> READY \<or> sd_strategyKey decision \<noteq> STRATEGY_KEY \<or>
         sd_market decision \<noteq> KRW_BTC \<or> \<not> isCandidateAction (sd_action decision) \<or>
         Some (sd_id decision) \<noteq> oi_strategyDecisionId ord \<or> sd_id decision \<noteq> bd_strategyDecisionId binding \<or>
         sd_exchangeAccountId decision \<noteq> oi_exchangeAccountId ord \<or> sd_exchangeAccountId decision \<noteq> bd_exchangeAccountId binding \<or>
         sd_market decision \<noteq> oi_market ord \<or> sd_market decision \<noteq> bd_market binding \<or>
         sd_strategyKey decision \<noteq> bd_strategyKey binding \<or> sd_action decision \<noteq> bd_action binding \<or>
         sd_intendedQuantity decision \<noteq> bd_intendedQuantity binding \<or>
         sd_intendedNotionalKrw decision \<noteq> bd_intendedNotionalKrw binding)
       (Error ''Candidate-bound order intent does not match its persisted READY strategy decision.'')) (\<lambda>_.
     ebind (validateOptionalDecimal (sd_intendedQuantity decision) ''decision intendedQuantity'') (\<lambda>_.
     ebind (validateOptionalDecimal (sd_intendedNotionalKrw decision) ''decision intendedNotionalKrw'') (\<lambda>_.
     ebind (validateOptionalDecimal (sd_referencePrice decision) ''decision referencePrice'') (\<lambda>_.
     ebind (parsePositionGuardCandidateTimestamp (sd_createdAt decision) ''candidate-bound decision createdAt'') (\<lambda>decisionCreatedAt.
     ebind (parsePositionGuardCandidateTimestamp (bd_createdAt binding) ''candidate-bound binding createdAt'') (\<lambda>bindingCreatedAt.
     ebind (parsePositionGuardCandidateTimestamp (oi_requestedAt ord) ''candidate-bound order requestedAt'') (\<lambda>requestedAt.
     ebind (throw_if (bindingCreatedAt < decisionCreatedAt \<or> requestedAt \<le> bindingCreatedAt)
       (Error ''Candidate decision and binding chronology must satisfy decision <= binding < request.'')) (\<lambda>_.
     let expectedSide = (if sd_action decision = ENTER \<or> sd_action decision = ADD then Bid else Ask)
     in ebind (throw_if (oi_side ord \<noteq> expectedSide \<or> bd_side binding \<noteq> expectedSide)
          (Error ''Candidate-bound order side does not match its strategy action.'')) (\<lambda>_.
        if expectedSide = Bid
        then throw_if (sd_intendedNotionalKrw decision = None \<or> oi_price ord \<noteq> sd_intendedNotionalKrw decision)
               (Error ''Candidate entry order does not match its intended notional.'')
        else throw_if (sd_intendedQuantity decision = None \<or> oi_volume ord \<noteq> sd_intendedQuantity decision)
               (Error ''Candidate exit order does not match its intended quantity.''))))))))))"

definition validateDeployment ::
  "PersistCandidateBoundOrderIntentInput \<Rightarrow> PositionGuardPilotDeploymentRecord \<Rightarrow> CandidateExecutionBindingRecord \<Rightarrow> unit res" where
  "validateDeployment input deployment binding =
     throw_if (dp_id deployment \<noteq> bd_deploymentId binding \<or> dp_exchangeAccountId deployment \<noteq> bd_exchangeAccountId binding \<or>
         dp_pilotId deployment \<noteq> PILOT_ID \<or> dp_market deployment \<noteq> bd_market binding \<or>
         dp_policyId deployment \<noteq> bd_policyId binding \<or> dp_policyVersion deployment \<noteq> bd_policyVersion binding \<or>
         dp_phase deployment \<noteq> bi_expectedPhase input \<or> dp_updatedAt deployment \<noteq> bi_expectedDeploymentUpdatedAt input \<or>
         dp_activationAt deployment \<noteq> Some (bd_activationAt binding) \<or>
         dp_activationEpochNs deployment \<noteq> Some (bd_activationEpochNs binding))
       (Error ''Candidate-bound order intent does not match its persisted deployment authority.'')"

definition validateOrderBinding :: "OrderRecord \<Rightarrow> CandidateExecutionBindingRecord \<Rightarrow> unit res" where
  "validateOrderBinding ord binding =
     ebind (throw_if (or_id ord \<noteq> bd_orderId binding \<or> oi_exchangeAccountId ord \<noteq> bd_exchangeAccountId binding \<or>
         oi_market ord \<noteq> bd_market binding \<or> or_executionMode ord \<noteq> bd_executionMode binding \<or>
         oi_ordType ord \<noteq> bd_ordType binding \<or> oi_side ord \<noteq> bd_side binding \<or> oi_price ord \<noteq> bd_boundPrice binding \<or>
         oi_volume ord \<noteq> bd_boundVolume binding \<or> oi_timeInForce ord \<noteq> bd_boundTimeInForce binding \<or>
         oi_smpType ord \<noteq> bd_boundSmpType binding)
       (Error ''Candidate execution binding does not match immutable order material.'')) (\<lambda>_.
     ebind (validateOptionalDecimal (oi_price ord) ''order price'') (\<lambda>_.
     validateOptionalDecimal (oi_volume ord) ''order volume''))"

definition validateImmutableRequest :: "OrderRecord \<Rightarrow> OrderEventRecord \<Rightarrow> CandidateExecutionBindingRecord \<Rightarrow> unit res" where
  "validateImmutableRequest ord event binding =
     ebind (throw_if (oi_origin ord \<noteq> STRATEGY \<or> or_upbitUuid ord \<noteq> None \<or> or_exchangeResponseJson ord \<noteq> None \<or>
         or_failureCode ord \<noteq> None \<or> or_failureMessage ord \<noteq> None)
       (Error ''Candidate-bound order intent must be a pristine local strategy order.'')) (\<lambda>_.
     ebind (throw_if (oi_requestedAt ord \<noteq> or_createdAt ord \<or> oi_requestedAt ord \<noteq> or_updatedAt ord \<or>
         ev_createdAt event \<noteq> oi_requestedAt ord)
       (Error ''Candidate-bound order timestamps must share the immutable request instant.'')) (\<lambda>_.
     ebind (parsePositionGuardCandidateTimestamp (bd_createdAt binding) ''binding createdAt'') (\<lambda>bindingCreatedAt.
     ebind (parsePositionGuardCandidateTimestamp (oi_requestedAt ord) ''order requestedAt'') (\<lambda>requestedAt.
     throw_if (requestedAt \<noteq> bindingCreatedAt + 1)
       (Error ''Candidate order requestedAt must be the exact nanosecond successor of binding createdAt.'')))))"

definition validateCandidateBoundOrderIntent ::
  "(string \<Rightarrow> string) \<Rightarrow> PersistCandidateBoundOrderIntentInput \<Rightarrow> unit res" where
  "validateCandidateBoundOrderIntent sha256 value =
     ebind (validateOrderIntentInput \<lparr>pi_order = bi_order value, pi_event = bi_event value\<rparr>) (\<lambda>_.
     ebind (validateCandidateExecutionBinding sha256 (bi_binding value)) (\<lambda>binding.
     ebind (validateCandidatePilotDeployment (bi_deployment value)) (\<lambda>deployment.
     ebind (validateStateVersion (bi_exactStateVersion value) ''exact state version'') (\<lambda>_.
     ebind (validateStateVersion (bi_expectedStateVersion value) ''expected state version'') (\<lambda>_.
     ebind (throw_if (bi_exactStateVersion value \<noteq> bi_expectedStateVersion value)
       (Error ''Candidate-bound order intent exact state version has changed.'')) (\<lambda>_.
     ebind (throw_if (bi_expectedPhase value \<noteq> ACTIVE \<and> bi_expectedPhase value \<noteq> DRAINING)
       (Error ''Candidate-bound order intent expected deployment phase is invalid.'')) (\<lambda>_.
     ebind (parsePositionGuardCandidateTimestamp (bi_expectedDeploymentUpdatedAt value)
       ''candidate-bound expected deployment updatedAt'') (\<lambda>_.
     ebind (validateDecision (bi_decision value) (bi_order value) binding) (\<lambda>_.
     ebind (validateDeployment value deployment binding) (\<lambda>_.
     ebind (validateOrderBinding (bi_order value) binding) (\<lambda>_.
     ebind (validateCandidateOrderShape (bi_expectedPhase value) (bi_decision value) (bi_order value)) (\<lambda>_.
     validateImmutableRequest (bi_order value) (bi_event value) binding))))))))))))"

definition assertExactRecordMatch :: "'a \<Rightarrow> 'a \<Rightarrow> string \<Rightarrow> unit res" where
  "assertExactRecordMatch persisted expected label =
     throw_if (persisted \<noteq> expected) (Error (label @ '' changed before submission.''))"

text \<open>The projection of the reread intent; the persisted order is the expected one at its only call.\<close>

record FinalProjection =
  fp_order :: OrderRecord
  fp_event :: OrderEventRecord
  fp_decision :: StrategyDecisionRecord
  fp_binding :: CandidateExecutionBindingRecord

definition projectCandidateFinalBoundOrderIntent ::
  "(string \<Rightarrow> string) \<Rightarrow> OrderRecord \<Rightarrow> OrderRecord \<Rightarrow> OrderEventRecord \<Rightarrow> OrderEventRecord \<Rightarrow> StrategyDecisionRecord \<Rightarrow>
   StrategyDecisionRecord \<Rightarrow> CandidateExecutionBindingRecord \<Rightarrow> CandidateExecutionBindingRecord \<Rightarrow> FinalProjection res" where
  "projectCandidateFinalBoundOrderIntent sha256 persistedOrder expectedOrder persistedEvent expectedEvent persistedDecision
     expectedDecision persistedBinding expectedBinding =
     ebind (validateCandidateExecutionBinding sha256 persistedBinding) (\<lambda>persistedBinding.
     ebind (validateCandidateExecutionBinding sha256 expectedBinding) (\<lambda>expectedBinding.
     ebind (assertExactRecordMatch persistedOrder expectedOrder ''candidate final order'') (\<lambda>_.
     ebind (assertExactRecordMatch persistedEvent expectedEvent ''candidate final event'') (\<lambda>_.
     ebind (assertExactRecordMatch persistedDecision expectedDecision ''candidate final decision'') (\<lambda>_.
     ebind (assertExactRecordMatch persistedBinding expectedBinding ''candidate final binding'') (\<lambda>_.
     ebind (throw_if (or_status persistedOrder \<noteq> SUBMITTING)
       (Error ''Candidate final order must remain exactly SUBMITTING before projection.'')) (\<lambda>_.
     Inr \<lparr>fp_order = persistedOrder\<lparr>or_status := PERSISTED\<rparr>, fp_event = persistedEvent, fp_decision = persistedDecision,
          fp_binding = persistedBinding\<rparr>)))))))"

subsection \<open>The authority and the derivation of a binding\<close>

definition authorityRequireNonEmpty :: "string \<Rightarrow> string \<Rightarrow> unit res" where
  "authorityRequireNonEmpty value label =
     throw_if (is_blank value) (Error (''Candidate execution authority '' @ label @ '' must be a non-empty string.''))"

definition validateRouteReason :: "PositionGuardPilotPhase \<Rightarrow> RouteReason \<Rightarrow> unit res" where
  "validateRouteReason phase routeReason =
     (if phase = ACTIVE
      then throw_if (routeReason \<noteq> CANDIDATE_ALLOWED \<and> routeReason \<noteq> CANDIDATE_EARLY_THESIS_FAILURE)
             (Error ''ACTIVE candidate execution authority route reason is invalid.'')
      else if phase = DRAINING
      then throw_if (routeReason \<noteq> DRAINING_RISK_REDUCTION_PRESERVED)
             (Error ''DRAINING candidate execution authority route reason is invalid.'')
      else Inl (Error ''Candidate execution authority expected phase is invalid.''))"

definition validateCandidateExecutionAuthority :: "CandidateExecutionAuthority \<Rightarrow> CandidateExecutionAuthority res" where
  "validateCandidateExecutionAuthority record =
     ebind (authorityRequireNonEmpty (xa_deploymentId record) ''deploymentId'') (\<lambda>_.
     ebind (authorityRequireNonEmpty (xa_exchangeAccountId record) ''exchangeAccountId'') (\<lambda>_.
     ebind (throw_if (xa_kind record \<noteq> ''POSITION_GUARD_BTC_CANDIDATE'' \<or> xa_pilotId record \<noteq> PILOT_ID \<or>
         xa_market record \<noteq> KRW_BTC \<or> xa_strategyKey record \<noteq> STRATEGY_KEY \<or> xa_policyId record \<noteq> POLICY_ID \<or>
         xa_policyVersion record \<noteq> POLICY_VERSION)
       (Error ''Candidate execution authority must use the exact approved frozen identity.'')) (\<lambda>_.
     ebind (parsePositionGuardCandidateTimestamp (xa_activationAt record) ''execution authority activationAt'') (\<lambda>activationEpochNs.
     ebind (throw_if (activationEpochNs < 0 \<or> activationEpochNs \<noteq> xa_activationEpochNs record)
       (Error ''Candidate execution authority activation epoch does not match its timestamp.'')) (\<lambda>_.
     ebind (parsePositionGuardCandidateTimestamp (xa_expectedDeploymentUpdatedAt record)
       ''execution authority expected deployment updatedAt'') (\<lambda>deploymentUpdatedAt.
     ebind (throw_if (deploymentUpdatedAt < activationEpochNs)
       (Error ''Candidate execution authority deployment chronology is invalid: updatedAt precedes activation.'')) (\<lambda>_.
     ebind (throw_if (\<not> isSafeInteger (xa_expectedStateVersion record) \<or> xa_expectedStateVersion record < 0)
       (Error ''Candidate execution authority expected state version must be a non-negative safe integer.'')) (\<lambda>_.
     ebind (validateRouteReason (xa_expectedPhase record) (xa_routeReason record)) (\<lambda>_.
     Inr record)))))))))"

definition asExecutedAction :: "StrategyDecisionAction \<Rightarrow> StrategyDecisionAction res" where
  "asExecutedAction value =
     ebind (throw_if (value \<noteq> ENTER \<and> value \<noteq> ADD \<and> value \<noteq> REDUCE \<and> value \<noteq> EXIT)
       (Error ''Candidate execution binding requires an executed strategy action.'')) (\<lambda>_. Inr value)"

definition bindingMaterialOf ::
  "CandidateExecutionAuthority \<Rightarrow> OrderRecord \<Rightarrow> StrategyDecisionRecord \<Rightarrow> StrategyDecisionAction \<Rightarrow> string \<Rightarrow> string \<Rightarrow>
   CandidateExecutionBindingRecord" where
  "bindingMaterialOf authority ord decision action bindingId bindingCreatedAt =
     \<lparr>bd_id = bindingId, bd_deploymentId = xa_deploymentId authority, bd_strategyDecisionId = sd_id decision,
      bd_orderId = or_id ord, bd_exchangeAccountId = xa_exchangeAccountId authority,
      bd_activationAt = xa_activationAt authority, bd_activationEpochNs = xa_activationEpochNs authority,
      bd_market = xa_market authority, bd_strategyKey = xa_strategyKey authority, bd_policyId = xa_policyId authority,
      bd_policyVersion = xa_policyVersion authority, bd_executionMode = or_executionMode ord, bd_ordType = oi_ordType ord,
      bd_action = action, bd_side = oi_side ord, bd_intendedQuantity = sd_intendedQuantity decision,
      bd_intendedNotionalKrw = sd_intendedNotionalKrw decision, bd_boundPrice = oi_price ord,
      bd_boundVolume = oi_volume ord, bd_boundTimeInForce = oi_timeInForce ord, bd_boundSmpType = oi_smpType ord,
      bd_materialVersion = ''BINDING_V2'', bd_orderMaterialHash = [], bd_createdAt = bindingCreatedAt\<rparr>"

definition derivedIntentOf ::
  "CandidateExecutionAuthority \<Rightarrow> OrderRecord \<Rightarrow> StrategyDecisionRecord \<Rightarrow> CandidateExecutionBindingRecord \<Rightarrow>
   PersistCandidateBoundOrderIntentInput" where
  "derivedIntentOf authority ord decision binding =
     \<lparr>bi_order = ord,
      bi_event = \<lparr>ev_id = ''candidate-binding-validation:'' @ bd_id binding, ev_orderId = or_id ord,
        ev_eventType = ''ORDER_PERSISTED'', ev_eventSource = LOCAL,
        ev_payloadJson = stringify (JObject [(''decisionAction'', JString (actionStr (sd_action decision)))]),
        ev_createdAt = oi_requestedAt ord\<rparr>,
      bi_binding = binding, bi_decision = decision,
      bi_deployment = \<lparr>dp_id = xa_deploymentId authority, dp_exchangeAccountId = xa_exchangeAccountId authority,
        dp_pilotId = xa_pilotId authority, dp_market = xa_market authority, dp_policyId = xa_policyId authority,
        dp_policyVersion = xa_policyVersion authority, dp_phase = xa_expectedPhase authority,
        dp_activationAt = Some (xa_activationAt authority), dp_activationEpochNs = Some (xa_activationEpochNs authority),
        dp_createdAt = xa_activationAt authority, dp_updatedAt = xa_expectedDeploymentUpdatedAt authority\<rparr>,
      bi_exactStateVersion = xa_expectedStateVersion authority, bi_expectedPhase = xa_expectedPhase authority,
      bi_expectedDeploymentUpdatedAt = xa_expectedDeploymentUpdatedAt authority,
      bi_expectedStateVersion = xa_expectedStateVersion authority\<rparr>"

definition deriveCandidateExecutionBinding ::
  "(string \<Rightarrow> string) \<Rightarrow> CandidateExecutionAuthority \<Rightarrow> OrderRecord \<Rightarrow> StrategyDecisionRecord \<Rightarrow> string \<Rightarrow> string \<Rightarrow>
   CandidateExecutionBindingRecord res" where
  "deriveCandidateExecutionBinding sha256 rawAuthority ord decision bindingId createdAt =
     ebind (validateCandidateExecutionAuthority rawAuthority) (\<lambda>authority.
     ebind (authorityRequireNonEmpty bindingId ''bindingId'') (\<lambda>_.
     ebind (createCandidateExecutionAttemptTimestamps (xa_activationEpochNs authority) createdAt) (\<lambda>timestamps.
     ebind (asExecutedAction (sd_action decision)) (\<lambda>action.
     ebind (throw_if (xa_routeReason authority = CANDIDATE_EARLY_THESIS_FAILURE \<and> action \<noteq> EXIT)
       (Error ''Candidate early thesis failure authority permits only an EXIT action.'')) (\<lambda>_.
     ebind (throw_if (oi_requestedAt ord \<noteq> ca_orderRequestedAt timestamps)
       (Error ''Candidate order requestedAt must be the exact canonical nanosecond successor.'')) (\<lambda>_.
     let material = bindingMaterialOf authority ord decision action bindingId (ca_bindingCreatedAt timestamps)
     in ebind (validateCandidateExecutionBinding sha256
          (material\<lparr>bd_orderMaterialHash := candidateExecutionBindingMaterialHash sha256 material\<rparr>)) (\<lambda>binding.
        ebind (validateCandidateBoundOrderIntent sha256 (derivedIntentOf authority ord decision binding)) (\<lambda>_.
        Inr binding))))))))"

subsection \<open>The atomic write of a candidate order\<close>

text \<open>
  The part of the in-memory pilot repository the write reads: deployments and exact states by deployment id, and
  the bindings in insertion order, at most one per order id.
\<close>

record candidate_store =
  cs_deployments :: "string \<rightharpoonup> PositionGuardPilotDeploymentRecord"
  cs_exactStates :: "string \<rightharpoonup> ExactCandidateState"
  cs_bindings :: "CandidateExecutionBindingRecord list"

record PreparedInMemoryCandidateBoundOrderIntent =
  pp_deployment :: "PositionGuardPilotDeploymentRecord option"
  pp_exactState :: "ExactCandidateState option"
  pp_existingBindingByOrderId :: "CandidateExecutionBindingRecord option"
  pp_existingBindingById :: "CandidateExecutionBindingRecord option"

definition getExecutionBindingForOrder :: "string \<Rightarrow> candidate_store \<Rightarrow> CandidateExecutionBindingRecord option" where
  "getExecutionBindingForOrder orderId c = find (\<lambda>b. bd_orderId b = orderId) (cs_bindings c)"

definition snapshotAuthority ::
  "CandidateExecutionBindingRecord \<Rightarrow> candidate_store \<Rightarrow> PreparedInMemoryCandidateBoundOrderIntent" where
  "snapshotAuthority binding c = \<lparr>pp_deployment = cs_deployments c (bd_deploymentId binding),
     pp_exactState = cs_exactStates c (bd_deploymentId binding),
     pp_existingBindingByOrderId = getExecutionBindingForOrder (bd_orderId binding) c,
     pp_existingBindingById = find (\<lambda>b. bd_id b = bd_id binding) (cs_bindings c)\<rparr>"

definition prepareCandidateBoundOrderIntent ::
  "(string \<Rightarrow> string) \<Rightarrow> CandidateExecutionBindingRecord \<Rightarrow> candidate_store \<Rightarrow> PreparedInMemoryCandidateBoundOrderIntent res" where
  "prepareCandidateBoundOrderIntent sha256 input c =
     ebind (validateCandidateExecutionBinding sha256 input) (\<lambda>binding. Inr (snapshotAuthority binding c))"

text \<open>The commit capability of a preparation; its one caller uses it once.\<close>

definition commitBinding ::
  "CandidateExecutionBindingRecord \<Rightarrow> PreparedInMemoryCandidateBoundOrderIntent \<Rightarrow> (candidate_store, js_error, unit) sm" where
  "commitBinding binding prepared =
     sbind (sget (snapshotAuthority binding)) (\<lambda>current.
     sbind (sguard (current \<noteq> prepared) (Error ''Candidate-bound order authority changed before binding commit.'')) (\<lambda>_.
     let byOrder = pp_existingBindingByOrderId current; byId = pp_existingBindingById current
     in if byOrder \<noteq> None \<or> byId \<noteq> None
        then sguard (byOrder \<noteq> Some binding \<or> byId \<noteq> Some binding)
               (Error ''Candidate-bound order binding conflicts with prepared authority.'')
        else smodify (\<lambda>c. c\<lparr>cs_bindings := cs_bindings c @ [binding]\<rparr>)))"

definition onFst :: "('a, 'e, 'x) sm \<Rightarrow> ('a \<times> 'b, 'e, 'x) sm" where
  "onFst m s = (case m (fst s) of (r, a) \<Rightarrow> (r, (a, snd s)))"

definition onSnd :: "('b, 'e, 'x) sm \<Rightarrow> ('a \<times> 'b, 'e, 'x) sm" where
  "onSnd m s = (case m (snd s) of (r, b) \<Rightarrow> (r, (fst s, b)))"

definition conflictsWith :: "'a \<Rightarrow> 'a option \<Rightarrow> bool" where
  "conflictsWith record existing \<longleftrightarrow> (case existing of None \<Rightarrow> False | Some r \<Rightarrow> \<not> recordsEqual r record)"

text \<open>What is already stored of the intent: conflicts are refused, and so is a part of it.\<close>

definition checkStoredIntent ::
  "PersistCandidateBoundOrderIntentRequest \<Rightarrow> PreparedInMemoryCandidateBoundOrderIntent \<Rightarrow> repo \<Rightarrow> bool res" where
  "checkStoredIntent input prepared s =
     (let ord = br_order input; event = br_event input; binding = br_binding input;
          existingOrdersById = filter (\<lambda>x. or_id x = or_id ord) (rp_orders s);
          existingEventsById = filter (\<lambda>x. ev_id x = ev_id event) (rp_orderEvents s);
          existingOrder = first existingOrdersById;
          existingEventById = first existingEventsById;
          existingOrderEvents = eventsOf (or_id ord) s;
          byOrder = pp_existingBindingByOrderId prepared; byId = pp_existingBindingById prepared
      in ebind (throw_if (1 < length existingOrdersById)
           (Error (''Conflicting duplicate candidate-bound order id '' @ or_id ord @ ''.''))) (\<lambda>_.
         ebind (throw_if (1 < length existingEventsById)
           (Error (''Conflicting duplicate candidate-bound order event id '' @ ev_id event @ ''.''))) (\<lambda>_.
         ebind (throw_if (conflictsWith event existingEventById)
           (Error (''Conflicting candidate-bound order event '' @ ev_id event @ ''.''))) (\<lambda>_.
         ebind (throw_if (conflictsWith binding byOrder)
           (Error (''Conflicting candidate-bound binding for order '' @ or_id ord @ ''.''))) (\<lambda>_.
         ebind (throw_if (conflictsWith binding byId)
           (Error (''Conflicting candidate-bound binding id '' @ bd_id binding @ ''.''))) (\<lambda>_.
         if existingOrder = None \<and> existingOrderEvents = [] \<and> existingEventById = None \<and> byOrder = None \<and> byId = None
         then Inr False
         else ebind (throw_if (existingOrder \<noteq> Some ord \<or> existingOrderEvents \<noteq> [event] \<or> existingEventById = None \<or>
                byOrder \<noteq> Some binding \<or> byId \<noteq> Some binding)
                (Error (''Dangling partial candidate-bound order intent '' @ or_id ord @ ''.''))) (\<lambda>_. Inr True)))))))"

definition storeCandidateIntent ::
  "PersistCandidateBoundOrderIntentRequest \<Rightarrow> PreparedInMemoryCandidateBoundOrderIntent \<Rightarrow> (repo \<times> candidate_store, js_error, unit) sm" where
  "storeCandidateIntent input prepared =
     sbind (sget fst) (\<lambda>s.
     sbind (slift (checkStoredIntent input prepared s)) (\<lambda>alreadyStored.
     if alreadyStored then onSnd (commitBinding (br_binding input) prepared)
     else sbind (slift (validateNewOrderUniqueness (rp_orders s) (br_order input))) (\<lambda>_.
          sbind (onSnd (commitBinding (br_binding input) prepared)) (\<lambda>_.
          onFst (smodify (\<lambda>s. addEvents [br_event input] (s\<lparr>rp_orders := rp_orders s @ [br_order input]\<rparr>)))))))"

definition persistCandidateBoundOrderIntent ::
  "(string \<Rightarrow> string) \<Rightarrow> bool \<Rightarrow> PersistCandidateBoundOrderIntentRequest \<Rightarrow> (repo \<times> candidate_store, js_error, unit) sm" where
  "persistCandidateBoundOrderIntent sha256 configured input =
     (let ord = br_order input in
      sbind (slift (validateCandidateExecutionBinding sha256 (br_binding input))) (\<lambda>_.
      sbind (sguard (\<not> configured) (Error ''In-memory candidate-bound order store is required.'')) (\<lambda>_.
      sbind (sget (\<lambda>(s, c). find (\<lambda>d. Some (sd_id d) = oi_strategyDecisionId ord) (rp_strategyDecisions s))) (\<lambda>decision.
      sbind (sget snd) (\<lambda>c.
      sbind (slift (prepareCandidateBoundOrderIntent sha256 (br_binding input) c)) (\<lambda>prepared.
      case decision of
        None \<Rightarrow> sthrow (Error (''Persisted candidate strategy decision '' @
                  (case oi_strategyDecisionId ord of None \<Rightarrow> ''none'' | Some i \<Rightarrow> i) @ '' is missing.''))
      | Some persistedDecision \<Rightarrow>
          (case (pp_deployment prepared, pp_exactState prepared) of
             (Some deployment, Some exactState) \<Rightarrow>
               sbind (slift (validateCandidateBoundOrderIntent sha256
                 \<lparr>bi_order = ord, bi_event = br_event input, bi_binding = br_binding input, bi_decision = persistedDecision,
                  bi_deployment = deployment, bi_exactStateVersion = xs_stateVersion exactState,
                  bi_expectedPhase = br_expectedPhase input,
                  bi_expectedDeploymentUpdatedAt = br_expectedDeploymentUpdatedAt input,
                  bi_expectedStateVersion = br_expectedStateVersion input\<rparr>)) (\<lambda>_.
               storeCandidateIntent input prepared)
           | _ \<Rightarrow> sthrow (Error (''Persisted candidate authority '' @ bd_deploymentId (br_binding input) @ '' is missing.'')))))))))"

subsection \<open>The hash commits to the binding\<close>

lemma stringify_inject: "numberFree v \<Longrightarrow> numberFree w \<Longrightarrow> stringify v = stringify w \<Longrightarrow> v = w"
  by (metis option.inject parseJson_stringify)

lemma smpStr_inject: "smpStr v = smpStr w \<longleftrightarrow> v = w"
  by (cases v; cases w) (simp_all add: smpStr_def)

lemma timeInForceStr_inject: "timeInForceStr v = timeInForceStr w \<longleftrightarrow> v = w"
  by (cases v; cases w) simp_all

lemma modeStr_inject: "modeStr v = modeStr w \<longleftrightarrow> v = w"
  by (cases v; cases w) simp_all

lemma actionStr_inject: "actionStr v = actionStr w \<longleftrightarrow> v = w"
  by (cases v; cases w) simp_all

lemma optJson_inject:
  "optJson JString v = optJson JString w \<longleftrightarrow> v = w"
  "optJson (JString \<circ> timeInForceStr) p = optJson (JString \<circ> timeInForceStr) q \<longleftrightarrow> p = q"
  "optJson (JString \<circ> smpStr) x = optJson (JString \<circ> smpStr) y \<longleftrightarrow> x = y"
  by (simp_all add: optJson_def timeInForceStr_inject smpStr_inject split: option.splits)

lemma bigintToString_inject:
  assumes "0 \<le> i" "0 \<le> j" "bigintToString i = bigintToString j"
  shows "i = j"
proof -
  from assms have "digits_of_int i = digits_of_int j" by (simp add: bigintToString_def)
  then have "int_of_digits (digits_of_int i) = int_of_digits (digits_of_int j)" by simp
  with assms show ?thesis by (simp add: int_of_digits_of_int)
qed

lemma bindingMaterial_inject:
  assumes "stringify (bindingMaterial b) = stringify (bindingMaterial c)"
    and "0 \<le> bd_activationEpochNs b" "0 \<le> bd_activationEpochNs c"
  shows "b\<lparr>bd_orderMaterialHash := h\<rparr> = c\<lparr>bd_orderMaterialHash := h\<rparr>"
proof -
  define rest where "rest d = (case bindingMaterial d of JObject (m # ms) \<Rightarrow> JObject ms | _ \<Rightarrow> JNull)" for d
  have split: "stringify (bindingMaterial d) = ''{'' @ quote ''schemaVersion'' @ '':'' @ stringify (JInt 2) @ '','' @ tl (stringify (rest d))" for d
    by (simp add: bindingMaterial_def rest_def)
  have hd: "stringify (rest d) = CHR ''{'' # tl (stringify (rest d))" for d
    by (simp add: bindingMaterial_def rest_def)
  have "tl (stringify (rest b)) = tl (stringify (rest c))"
    using assms(1) unfolding split by simp
  then have "stringify (rest b) = stringify (rest c)" by (metis hd)
  moreover have "numberFree (rest d)" for d by (simp add: bindingMaterial_def rest_def optJson_def split: option.splits)
  ultimately have "rest b = rest c" by (blast intro: stringify_inject)
  then have "bigintToString (bd_activationEpochNs b) = bigintToString (bd_activationEpochNs c)" and
    fields: "bd_materialVersion b = bd_materialVersion c" "bd_id b = bd_id c" "bd_deploymentId b = bd_deploymentId c"
      "bd_strategyDecisionId b = bd_strategyDecisionId c" "bd_orderId b = bd_orderId c"
      "bd_exchangeAccountId b = bd_exchangeAccountId c" "bd_activationAt b = bd_activationAt c"
      "bd_market b = bd_market c" "bd_strategyKey b = bd_strategyKey c" "bd_policyId b = bd_policyId c"
      "bd_policyVersion b = bd_policyVersion c" "bd_executionMode b = bd_executionMode c" "bd_ordType b = bd_ordType c"
      "bd_action b = bd_action c" "bd_side b = bd_side c" "bd_intendedQuantity b = bd_intendedQuantity c"
      "bd_intendedNotionalKrw b = bd_intendedNotionalKrw c" "bd_boundPrice b = bd_boundPrice c"
      "bd_boundVolume b = bd_boundVolume c" "bd_boundTimeInForce b = bd_boundTimeInForce c"
      "bd_boundSmpType b = bd_boundSmpType c" "bd_createdAt b = bd_createdAt c"
    unfolding rest_def bindingMaterial_def
    by (simp_all add: optJson_inject smpStr_inject timeInForceStr_inject modeStr_inject actionStr_inject
        sideStr_inject ordTypeStr_inject marketStr_inject)
  moreover from this(1) assms(2,3) have "bd_activationEpochNs b = bd_activationEpochNs c" by (blast intro: bigintToString_inject)
  ultimately show ?thesis by simp
qed

lemma validateCandidateExecutionBinding_Inr:
  assumes "validateCandidateExecutionBinding sha256 b = Inr c"
  shows "c = b \<and> bd_market b = KRW_BTC \<and> bd_orderMaterialHash b = candidateExecutionBindingMaterialHash sha256 b \<and>
    isCandidateAction (bd_action b) \<and>
    (\<exists>t. parsePositionGuardCandidateTimestamp (bd_createdAt b) ''binding createdAt'' = Inr t \<and> bd_activationEpochNs b < t) \<and>
    0 \<le> bd_activationEpochNs b"
  using assms by (auto simp: validateCandidateExecutionBinding_def res_simps simp del: emapM.simps)

text \<open>
  C8. The material hash commits to the whole binding: two different bindings that both pass validation can carry the same
  hash only if SHA-256 maps two different texts to one digest. So no field of a stored binding (order, decision,
  price, volume, side, mode, activation, creation time) can be changed unnoticed.
\<close>

theorem binding_hash_commits:
  assumes "validateCandidateExecutionBinding sha256 b = Inr b'" and "validateCandidateExecutionBinding sha256 c = Inr c'"
    and "bd_orderMaterialHash b = bd_orderMaterialHash c" and "b \<noteq> c"
  shows "\<exists>x y. x \<noteq> y \<and> sha256 x = sha256 y"
proof -
  note valid = validateCandidateExecutionBinding_Inr [OF assms(1)] validateCandidateExecutionBinding_Inr [OF assms(2)]
  have "stringify (bindingMaterial b) \<noteq> stringify (bindingMaterial c)"
  proof
    assume "stringify (bindingMaterial b) = stringify (bindingMaterial c)"
    then have "b\<lparr>bd_orderMaterialHash := bd_orderMaterialHash b\<rparr> = c\<lparr>bd_orderMaterialHash := bd_orderMaterialHash b\<rparr>"
      using bindingMaterial_inject valid by blast
    with assms(3) have "b = c" by (cases b; cases c) simp
    with assms(4) show False ..
  qed
  moreover have "sha256 (stringify (bindingMaterial b)) = sha256 (stringify (bindingMaterial c))"
    using valid assms(3) by (simp add: candidateExecutionBindingMaterialHash_def)
  ultimately show ?thesis by blast
qed

subsection \<open>What an accepted intent satisfies\<close>

lemma positive_decimal: "validatePositiveDecimal v lbl = Inr u \<Longrightarrow> 0 < numVal v"
  using canonical_facts(2) [of v] canonical_eq_zero [of v]
  by (auto simp: validatePositiveDecimal_def canonicalNonNegativeDecimal_def parse_nonneg_Inr res_simps)

lemma candidate_label: "parsePositionGuardCandidateTimestamp t l = Inr n \<longleftrightarrow> parsePositionGuardCandidateTimestamp t l' = Inr n"
  by (simp add: candidate_timestamp_iff)

definition epochNsOf :: "string \<Rightarrow> int option" where
  "epochNsOf t = (case parsePositionGuardCandidateTimestamp t [] of Inl _ \<Rightarrow> None | Inr n \<Rightarrow> Some n)"

lemma epochNsOf_eq: "epochNsOf t = Some n \<longleftrightarrow> parsePositionGuardCandidateTimestamp t l = Inr n"
  using candidate_label [of t "[]" n l] by (auto simp: epochNsOf_def split: sum.splits)

lemma epochNsOf_parse: "parsePositionGuardCandidateTimestamp t l = Inr n \<Longrightarrow> epochNsOf t = Some n"
  using epochNsOf_eq [of t n l] by blast

lemma validateCandidateOrderShape_Inr:
  assumes "validateCandidateOrderShape phase dec ord = Inr u"
  shows "if sd_action dec \<in> {ENTER, ADD}
    then phase \<noteq> DRAINING \<and> oi_side ord = Bid \<and> oi_ordType ord = Price \<and> oi_volume ord = None \<and>
      (\<exists>p. oi_price ord = Some p \<and> sd_intendedNotionalKrw dec = Some p \<and> 0 < numVal p)
    else oi_side ord = Ask \<and> oi_ordType ord = Market \<and> oi_price ord = None \<and>
      (\<exists>q. oi_volume ord = Some q \<and> sd_intendedQuantity dec = Some q \<and> 0 < numVal q)"
  using assms by (auto simp: validateCandidateOrderShape_def Let_def res_simps dest: positive_decimal split: if_splits)

lemma validateImmutableRequest_Inr:
  assumes "validateImmutableRequest ord event b = Inr u"
  shows "\<exists>t. epochNsOf (bd_createdAt b) = Some t \<and> epochNsOf (oi_requestedAt ord) = Some (t + 1)"
  using assms unfolding validateImmutableRequest_def ebind_eq_Inr throw_if_eq_Inr
  by (auto dest!: epochNsOf_parse)

lemma validateDecision_Inr:
  assumes "validateDecision dec ord b = Inr u"
  shows "sd_status dec = READY \<and> oi_strategyDecisionId ord = Some (sd_id dec) \<and> bd_strategyDecisionId b = sd_id dec \<and>
    (\<exists>d t. epochNsOf (sd_createdAt dec) = Some d \<and> epochNsOf (bd_createdAt b) = Some t \<and> d \<le> t)"
  using assms unfolding validateDecision_def ebind_eq_Inr throw_if_eq_Inr
  by (auto dest!: epochNsOf_parse)

text \<open>
  C6. A candidate order that is accepted for persistence is tied to a READY decision and to the deployment as it was
  expected; entries only happen in an ACTIVE deployment, as a market buy for the decided positive amount; in a
  DRAINING deployment only sells of the decided positive quantity happen. The binding is later than the activation of the
  deployment and not before the decision, and the request comes one nanosecond after the binding.
\<close>

theorem candidate_intent_sound:
  assumes "validateCandidateBoundOrderIntent sha256 v = Inr ()"
  shows "let ord = bi_order v; dec = bi_decision v; b = bi_binding v; d = bi_deployment v in
    or_status ord = PERSISTED \<and> sd_status dec = READY \<and> oi_strategyDecisionId ord = Some (sd_id dec) \<and> bd_orderId b = or_id ord \<and>
    bd_deploymentId b = dp_id d \<and> dp_updatedAt d = bi_expectedDeploymentUpdatedAt v \<and>
    bi_exactStateVersion v = bi_expectedStateVersion v \<and>
    (if sd_action dec \<in> {ENTER, ADD}
     then dp_phase d = ACTIVE \<and> oi_side ord = Bid \<and> oi_ordType ord = Price \<and> oi_volume ord = None \<and>
       (\<exists>p. oi_price ord = Some p \<and> sd_intendedNotionalKrw dec = Some p \<and> 0 < numVal p)
     else dp_phase d \<in> {ACTIVE, DRAINING} \<and> oi_side ord = Ask \<and> oi_ordType ord = Market \<and> oi_price ord = None \<and>
       (\<exists>q. oi_volume ord = Some q \<and> sd_intendedQuantity dec = Some q \<and> 0 < numVal q)) \<and>
    (\<exists>a t e. dp_activationEpochNs d = Some a \<and> epochNsOf (sd_createdAt dec) = Some e \<and> epochNsOf (bd_createdAt b) = Some t \<and>
       epochNsOf (oi_requestedAt ord) = Some (t + 1) \<and> 0 \<le> a \<and> a < t \<and> e \<le> t)"
proof -
  from assms obtain b d where
      intent: "validateOrderIntentInput \<lparr>pi_order = bi_order v, pi_event = bi_event v\<rparr> = Inr ()"
      and b: "validateCandidateExecutionBinding sha256 (bi_binding v) = Inr b"
      and d: "validateCandidatePilotDeployment (bi_deployment v) = Inr d"
      and ver: "bi_exactStateVersion v = bi_expectedStateVersion v"
      and phase: "bi_expectedPhase v = ACTIVE \<or> bi_expectedPhase v = DRAINING"
      and dec: "validateDecision (bi_decision v) (bi_order v) b = Inr ()"
      and dep: "validateDeployment v d b = Inr ()" and ob: "validateOrderBinding (bi_order v) b = Inr ()"
      and shape: "validateCandidateOrderShape (bi_expectedPhase v) (bi_decision v) (bi_order v) = Inr ()"
      and imm: "validateImmutableRequest (bi_order v) (bi_event v) b = Inr ()"
    by (auto simp: validateCandidateBoundOrderIntent_def res_simps)
  note vb = validateCandidateExecutionBinding_Inr [OF b]
  have vd: "d = bi_deployment v" using d by (auto simp: validateCandidatePilotDeployment_def res_simps)
  have time: "\<exists>t. epochNsOf (bd_createdAt b) = Some t \<and> bd_activationEpochNs b < t"
    using vb by (auto dest!: epochNsOf_parse)
  have "dp_phase d = bi_expectedPhase v" "dp_activationEpochNs d = Some (bd_activationEpochNs b)" "bd_deploymentId b = dp_id d"
      "dp_updatedAt d = bi_expectedDeploymentUpdatedAt v"
    using dep by (auto simp: validateDeployment_def res_simps)
  moreover have "bd_orderId b = or_id (bi_order v)" using ob by (auto simp: validateOrderBinding_def res_simps)
  moreover have "or_status (bi_order v) = PERSISTED" using intent by (auto simp: validateOrderIntentInput_def res_simps)
  ultimately show ?thesis
    using validateDecision_Inr [OF dec] validateImmutableRequest_Inr [OF imm] validateCandidateOrderShape_Inr [OF shape]
      time vb phase ver unfolding vd Let_def
    by (cases "sd_action (bi_decision v) \<in> {ENTER, ADD}") auto
qed

subsection \<open>The write is all or nothing, and can be retried\<close>

lemma onFst_eq_Inr [res_simps]: "onFst m s = (Inr x, t) \<longleftrightarrow> (\<exists>a. m (fst s) = (Inr x, a) \<and> t = (a, snd s))"
  by (auto simp: onFst_def split: prod.splits)

lemma onSnd_eq_Inr [res_simps]: "onSnd m s = (Inr x, t) \<longleftrightarrow> (\<exists>b. m (snd s) = (Inr x, b) \<and> t = (fst s, b))"
  by (auto simp: onSnd_def split: prod.splits)

lemma all_or_nothing_onSnd: "all_or_nothing m \<Longrightarrow> all_or_nothing (onSnd m)"
  by (auto simp: all_or_nothing_def onSnd_def split: prod.splits)

lemma unfailing_onFst: "unfailing m \<Longrightarrow> unfailing (onFst m)"
  by (auto simp: unfailing_def onFst_def split: prod.splits) (metis fst_conv)

lemma all_or_nothing_commit: "all_or_nothing (commitBinding b p)"
  unfolding commitBinding_def Let_def
  by (intro all_or_nothing_sbind atomic_intros) (auto intro: all_or_nothing_readonly all_or_nothing_unfailing atomic_intros)

lemma storeCandidateIntent_all_or_nothing: "all_or_nothing (storeCandidateIntent input prepared)"
proof -
  have commit: "all_or_nothing (onSnd (commitBinding b p))" for b p
    by (intro all_or_nothing_onSnd all_or_nothing_commit)
  have add: "unfailing (onFst (smodify f))" for f :: "repo \<Rightarrow> repo"
    by (intro unfailing_onFst atomic_intros)
  have "all_or_nothing (if stored then onSnd (commitBinding (br_binding input) prepared)
      else sbind (slift r) (\<lambda>_. sbind (onSnd (commitBinding (br_binding input) prepared)) (\<lambda>_. onFst (smodify f))))"
    for stored and r :: "unit res" and f :: "repo \<Rightarrow> repo"
    by (cases stored) (simp_all add: commit all_or_nothing_sbind [OF readonly_basic(3)] all_or_nothing_then [OF commit add])
  then show ?thesis
    unfolding storeCandidateIntent_def by (intro all_or_nothing_sbind atomic_intros)
qed

lemma all_or_nothing_throw: "all_or_nothing (sthrow e)"
  by (simp add: all_or_nothing_def)

lemma persistCandidate_all_or_nothing: "all_or_nothing (persistCandidateBoundOrderIntent sha256 configured input)"
  unfolding persistCandidateBoundOrderIntent_def Let_def
  by (intro all_or_nothing_sbind atomic_intros)
     (auto intro!: all_or_nothing_sbind readonly_basic storeCandidateIntent_all_or_nothing all_or_nothing_throw split: option.splits)

lemma commitBinding_Inr:
  assumes "commitBinding b (snapshotAuthority b c) c = (Inr u, c')"
  shows "c' = c \<and> getExecutionBindingForOrder (bd_orderId b) c = Some b \<or>
    c' = c\<lparr>cs_bindings := cs_bindings c @ [b]\<rparr> \<and> getExecutionBindingForOrder (bd_orderId b) c = None \<and>
    find (\<lambda>x. bd_id x = bd_id b) (cs_bindings c) = None"
  using assms by (auto simp: commitBinding_def Let_def res_simps snapshotAuthority_def split: if_splits)

lemma checkStoredIntent_Inr:
  assumes "checkStoredIntent i p s = Inr stored"
  shows "if stored then first (filter (\<lambda>x. or_id x = or_id (br_order i)) (rp_orders s)) = Some (br_order i) \<and>
      eventsOf (or_id (br_order i)) s = [br_event i] \<and> pp_existingBindingByOrderId p = Some (br_binding i)
    else filter (\<lambda>x. or_id x = or_id (br_order i)) (rp_orders s) = [] \<and> eventsOf (or_id (br_order i)) s = [] \<and>
      filter (\<lambda>x. ev_id x = ev_id (br_event i)) (rp_orderEvents s) = [] \<and>
      pp_existingBindingByOrderId p = None \<and> pp_existingBindingById p = None"
  using assms by (auto simp: checkStoredIntent_def Let_def res_simps first_def split: if_splits list.splits)

lemma persistCandidate_Inr:
  assumes "persistCandidateBoundOrderIntent sha256 configured i (s, c) = (Inr u, (s', c'))"
  obtains dec dep ex where "configured"
    "find (\<lambda>d. Some (sd_id d) = oi_strategyDecisionId (br_order i)) (rp_strategyDecisions s) = Some dec"
    "cs_deployments c (bd_deploymentId (br_binding i)) = Some dep" "cs_exactStates c (bd_deploymentId (br_binding i)) = Some ex"
    "validateCandidateExecutionBinding sha256 (br_binding i) = Inr (br_binding i)"
    "validateCandidateBoundOrderIntent sha256
       \<lparr>bi_order = br_order i, bi_event = br_event i, bi_binding = br_binding i, bi_decision = dec, bi_deployment = dep,
        bi_exactStateVersion = xs_stateVersion ex, bi_expectedPhase = br_expectedPhase i,
        bi_expectedDeploymentUpdatedAt = br_expectedDeploymentUpdatedAt i,
        bi_expectedStateVersion = br_expectedStateVersion i\<rparr> = Inr ()"
    "(checkStoredIntent i (snapshotAuthority (br_binding i) c) s = Inr True \<and> s' = s \<and> c' = c) \<or>
     (checkStoredIntent i (snapshotAuthority (br_binding i) c) s = Inr False \<and>
      s' = addEvents [br_event i] (s\<lparr>rp_orders := rp_orders s @ [br_order i]\<rparr>) \<and>
      c' = c\<lparr>cs_bindings := cs_bindings c @ [br_binding i]\<rparr>)"
proof -
  let ?b = "br_binding i" let ?p = "snapshotAuthority ?b c"
  let ?bi = "\<lambda>dec dep ex. \<lparr>bi_order = br_order i, bi_event = br_event i, bi_binding = ?b, bi_decision = dec, bi_deployment = dep,
        bi_exactStateVersion = xs_stateVersion ex, bi_expectedPhase = br_expectedPhase i,
        bi_expectedDeploymentUpdatedAt = br_expectedDeploymentUpdatedAt i,
        bi_expectedStateVersion = br_expectedStateVersion i\<rparr>"
  obtain b0 where b: "validateCandidateExecutionBinding sha256 ?b = Inr b0" and conf: configured
    using assms by (auto simp: persistCandidateBoundOrderIntent_def Let_def res_simps)
  have b0: "b0 = ?b" using validateCandidateExecutionBinding_Inr [OF b] by simp
  have prep: "prepareCandidateBoundOrderIntent sha256 ?b c = Inr ?p"
    using b b0 by (simp add: prepareCandidateBoundOrderIntent_def)
  from assms b conf prep obtain dec dep ex where
      f: "find (\<lambda>d. Some (sd_id d) = oi_strategyDecisionId (br_order i)) (rp_strategyDecisions s) = Some dec"
      "cs_deployments c (bd_deploymentId ?b) = Some dep" "cs_exactStates c (bd_deploymentId ?b) = Some ex"
      "validateCandidateBoundOrderIntent sha256 (?bi dec dep ex) = Inr ()"
      and run: "storeCandidateIntent i ?p (s, c) = (Inr u, (s', c'))"
    by (cases "find (\<lambda>d. Some (sd_id d) = oi_strategyDecisionId (br_order i)) (rp_strategyDecisions s)";
        cases "cs_deployments c (bd_deploymentId ?b)"; cases "cs_exactStates c (bd_deploymentId ?b)")
       (auto simp: persistCandidateBoundOrderIntent_def Let_def res_simps snapshotAuthority_def)
  from run obtain stored where st: "checkStoredIntent i ?p s = Inr stored"
      "(stored \<and> commitBinding ?b ?p c = (Inr (), c') \<and> s' = s) \<or>
       (\<not> stored \<and> commitBinding ?b ?p c = (Inr (), c') \<and> s' = addEvents [br_event i] (s\<lparr>rp_orders := rp_orders s @ [br_order i]\<rparr>))"
    by (auto simp: storeCandidateIntent_def res_simps split: if_splits)
  show thesis
  proof (rule that [of dec dep ex])
    show "(checkStoredIntent i ?p s = Inr True \<and> s' = s \<and> c' = c) \<or>
     (checkStoredIntent i ?p s = Inr False \<and> s' = addEvents [br_event i] (s\<lparr>rp_orders := rp_orders s @ [br_order i]\<rparr>) \<and>
      c' = c\<lparr>cs_bindings := cs_bindings c @ [?b]\<rparr>)"
      using st commitBinding_Inr [of ?b c "()" c'] checkStoredIntent_Inr [OF st(1)]
      by (cases stored) (auto simp: snapshotAuthority_def)
  qed (use f b b0 conf in simp_all)
qed

lemma persistCandidate_run:
  assumes "find (\<lambda>d. Some (sd_id d) = oi_strategyDecisionId (br_order i)) (rp_strategyDecisions s) = Some dec"
    and "cs_deployments c (bd_deploymentId (br_binding i)) = Some dep" "cs_exactStates c (bd_deploymentId (br_binding i)) = Some ex"
    and "validateCandidateExecutionBinding sha256 (br_binding i) = Inr (br_binding i)"
    and "validateCandidateBoundOrderIntent sha256
       \<lparr>bi_order = br_order i, bi_event = br_event i, bi_binding = br_binding i, bi_decision = dec, bi_deployment = dep,
        bi_exactStateVersion = xs_stateVersion ex, bi_expectedPhase = br_expectedPhase i,
        bi_expectedDeploymentUpdatedAt = br_expectedDeploymentUpdatedAt i,
        bi_expectedStateVersion = br_expectedStateVersion i\<rparr> = Inr ()"
  shows "persistCandidateBoundOrderIntent sha256 True i (s, c) = storeCandidateIntent i (snapshotAuthority (br_binding i) c) (s, c)"
  using assms
  by (simp add: persistCandidateBoundOrderIntent_def Let_def prepareCandidateBoundOrderIntent_def sbind_def sguard_run
      snapshotAuthority_def)

definition intentStored :: "PersistCandidateBoundOrderIntentRequest \<Rightarrow> repo \<Rightarrow> candidate_store \<Rightarrow> bool" where
  "intentStored i s c \<longleftrightarrow> br_order i \<in> set (rp_orders s) \<and> eventsOf (or_id (br_order i)) s = [br_event i] \<and>
     getExecutionBindingForOrder (or_id (br_order i)) c = Some (br_binding i)"

lemma persistCandidate_idle:
  assumes "checkStoredIntent i (snapshotAuthority (br_binding i) c) s = Inr True"
  shows "storeCandidateIntent i (snapshotAuthority (br_binding i) c) (s, c) = (Inr (), (s, c))"
proof -
  from assms have "pp_existingBindingByOrderId (snapshotAuthority (br_binding i) c) = Some (br_binding i)"
      "pp_existingBindingById (snapshotAuthority (br_binding i) c) = Some (br_binding i)"
    by (auto simp: checkStoredIntent_def Let_def res_simps split: if_splits)
  with assms show ?thesis
    by (simp add: storeCandidateIntent_def sbind_def commitBinding_def Let_def onSnd_def sguard_run)
qed

lemma find_snoc_None: "find p xs = None \<Longrightarrow> p x \<Longrightarrow> find p (xs @ [x]) = Some x"
  by (induction xs) (auto split: if_splits)

lemma checkStored_after:
  assumes "checkStoredIntent i (snapshotAuthority (br_binding i) c) s = Inr False" and "ev_orderId (br_event i) = or_id (br_order i)"
  shows "checkStoredIntent i (snapshotAuthority (br_binding i) (c\<lparr>cs_bindings := cs_bindings c @ [br_binding i]\<rparr>))
    (addEvents [br_event i] (s\<lparr>rp_orders := rp_orders s @ [br_order i]\<rparr>)) = Inr True"
  using checkStoredIntent_Inr [OF assms(1)] assms(2)
  by (simp add: checkStoredIntent_def Let_def addEvents_def eventsOf_def first_def conflictsWith_def recordsEqual_def
      snapshotAuthority_def getExecutionBindingForOrder_def find_snoc_None)

text \<open>
  C7. Order, event and binding of a candidate intent are stored together or not at all: a failed write changes neither
  repository, after a successful one all three are there and were validated against the stored decision,
  deployment and state version, and the same write again succeeds and changes nothing.
\<close>

theorem candidate_intent_atomic:
  assumes "persistCandidateBoundOrderIntent sha256 configured i (s, c) = (r, (s', c'))"
  shows "(\<forall>e. r = Inl e \<longrightarrow> s' = s \<and> c' = c) \<and>
    (r = Inr () \<longrightarrow> intentStored i s' c' \<and> persistCandidateBoundOrderIntent sha256 configured i (s', c') = (Inr (), (s', c')))"
proof (intro conjI allI impI)
  fix e assume "r = Inl e"
  with assms persistCandidate_all_or_nothing have "(s', c') = (s, c)" unfolding all_or_nothing_def by blast
  then show "s' = s" "c' = c" by auto
next
  assume "r = Inr ()"
  with assms have run: "persistCandidateBoundOrderIntent sha256 configured i (s, c) = (Inr (), (s', c'))" by simp
  let ?p = "\<lambda>c. snapshotAuthority (br_binding i) c"
  from run obtain dec dep ex where conf: configured
    and f: "find (\<lambda>d. Some (sd_id d) = oi_strategyDecisionId (br_order i)) (rp_strategyDecisions s) = Some dec"
    "cs_deployments c (bd_deploymentId (br_binding i)) = Some dep" "cs_exactStates c (bd_deploymentId (br_binding i)) = Some ex"
    "validateCandidateExecutionBinding sha256 (br_binding i) = Inr (br_binding i)"
    "validateCandidateBoundOrderIntent sha256
       \<lparr>bi_order = br_order i, bi_event = br_event i, bi_binding = br_binding i, bi_decision = dec, bi_deployment = dep,
        bi_exactStateVersion = xs_stateVersion ex, bi_expectedPhase = br_expectedPhase i,
        bi_expectedDeploymentUpdatedAt = br_expectedDeploymentUpdatedAt i,
        bi_expectedStateVersion = br_expectedStateVersion i\<rparr> = Inr ()"
    and cases: "(checkStoredIntent i (?p c) s = Inr True \<and> s' = s \<and> c' = c) \<or>
     (checkStoredIntent i (?p c) s = Inr False \<and> s' = addEvents [br_event i] (s\<lparr>rp_orders := rp_orders s @ [br_order i]\<rparr>) \<and>
      c' = c\<lparr>cs_bindings := cs_bindings c @ [br_binding i]\<rparr>)"
    by (rule persistCandidate_Inr)
  have ev: "ev_orderId (br_event i) = or_id (br_order i)" and bo: "bd_orderId (br_binding i) = or_id (br_order i)"
    using f(4,5) by (auto simp: validateCandidateBoundOrderIntent_def validateOrderIntentInput_def validateOrderEvent_def
        validateOrderBinding_def res_simps)
  have again: "checkStoredIntent i (?p c') s' = Inr True" using cases checkStored_after [OF _ ev] by auto
  from checkStoredIntent_Inr [OF again] bo show "intentStored i s' c'"
    by (auto simp: intentStored_def snapshotAuthority_def first_def split: list.splits dest!: Cons_eq_filterD [OF sym])
  show "persistCandidateBoundOrderIntent sha256 configured i (s', c') = (Inr (), (s', c'))"
    using cases f conf persistCandidate_run [of i s' dec c' dep ex sha256] persistCandidate_idle [OF again]
    by (auto simp: addEvents_def)
qed

subsection \<open>A derived binding can be persisted\<close>

definition deploymentMatches :: "CandidateExecutionAuthority \<Rightarrow> PositionGuardPilotDeploymentRecord \<Rightarrow> bool" where
  "deploymentMatches a d \<longleftrightarrow> dp_id d = xa_deploymentId a \<and> dp_exchangeAccountId d = xa_exchangeAccountId a \<and>
     dp_pilotId d = xa_pilotId a \<and> dp_market d = xa_market a \<and> dp_policyId d = xa_policyId a \<and>
     dp_policyVersion d = xa_policyVersion a \<and> dp_phase d = xa_expectedPhase a \<and>
     dp_activationAt d = Some (xa_activationAt a) \<and> dp_activationEpochNs d = Some (xa_activationEpochNs a) \<and>
     dp_updatedAt d = xa_expectedDeploymentUpdatedAt a"

definition persistedEventOf :: "OrderRecord \<Rightarrow> OrderEventRecord \<Rightarrow> bool" where
  "persistedEventOf ord event \<longleftrightarrow> ev_orderId event = or_id ord \<and> ev_eventType event = ''ORDER_PERSISTED'' \<and>
     ev_eventSource event = LOCAL \<and> ev_createdAt event = oi_requestedAt ord"

lemma deriveCandidateExecutionBinding_Inr:
  assumes "deriveCandidateExecutionBinding sha256 a ord dec bindingId createdAt = Inr b"
  obtains ev d where "validateCandidateBoundOrderIntent sha256
      \<lparr>bi_order = ord, bi_event = ev, bi_binding = b, bi_decision = dec, bi_deployment = d,
       bi_exactStateVersion = xa_expectedStateVersion a, bi_expectedPhase = xa_expectedPhase a,
       bi_expectedDeploymentUpdatedAt = xa_expectedDeploymentUpdatedAt a,
       bi_expectedStateVersion = xa_expectedStateVersion a\<rparr> = Inr ()"
    "deploymentMatches a d" "persistedEventOf ord ev" "bd_id b = bindingId"
  using assms
  unfolding deriveCandidateExecutionBinding_def Let_def ebind_eq_Inr
  by (auto simp: deploymentMatches_def persistedEventOf_def validateCandidateExecutionAuthority_def res_simps derivedIntentOf_def
      bindingMaterialOf_def dest!: validateCandidateExecutionBinding_Inr)

text \<open>
  What is derived can be stored: if the binding of an order is derived from an authority, then the intent with that
  binding passes the validation of the repository for the order's own persisted event, whenever the stored
  deployment is valid and still the one the authority expects. Derivation and persistence never disagree for
  another reason than a changed deployment or state version.
\<close>

theorem derived_binding_persistable:
  assumes "deriveCandidateExecutionBinding sha256 a ord dec bindingId createdAt = Inr b"
    and "validateCandidatePilotDeployment d = Inr d" and "deploymentMatches a d" and "persistedEventOf ord event"
  shows "validateCandidateBoundOrderIntent sha256
      \<lparr>bi_order = ord, bi_event = event, bi_binding = b, bi_decision = dec, bi_deployment = d,
       bi_exactStateVersion = xa_expectedStateVersion a, bi_expectedPhase = xa_expectedPhase a,
       bi_expectedDeploymentUpdatedAt = xa_expectedDeploymentUpdatedAt a,
       bi_expectedStateVersion = xa_expectedStateVersion a\<rparr> = Inr ()"
proof -
  let ?v = "\<lambda>ev d. \<lparr>bi_order = ord, bi_event = ev, bi_binding = b, bi_decision = dec, bi_deployment = d,
       bi_exactStateVersion = xa_expectedStateVersion a, bi_expectedPhase = xa_expectedPhase a,
       bi_expectedDeploymentUpdatedAt = xa_expectedDeploymentUpdatedAt a,
       bi_expectedStateVersion = xa_expectedStateVersion a\<rparr>"
  from assms(1) obtain ev d0 where v: "validateCandidateBoundOrderIntent sha256 (?v ev d0) = Inr ()"
      and m: "deploymentMatches a d0" "persistedEventOf ord ev"
    by (rule deriveCandidateExecutionBinding_Inr)
  have dep: "validateDeployment (?v event d) d b' = validateDeployment (?v ev d0) d0 b'" for b'
    using m(1) assms(3) by (simp add: validateDeployment_def deploymentMatches_def)
  have imm: "validateImmutableRequest ord event b' = validateImmutableRequest ord ev b'" for b'
    using m(2) assms(4) by (simp add: validateImmutableRequest_def persistedEventOf_def)
  have intent: "validateOrderIntentInput \<lparr>pi_order = ord, pi_event = event\<rparr> = validateOrderIntentInput \<lparr>pi_order = ord, pi_event = ev\<rparr>"
    using m(2) assms(4) by (auto simp: validateOrderIntentInput_def validateOrderEvent_def persistedEventOf_def)
  have same: "validateCandidatePilotDeployment d0 = Inr y \<Longrightarrow> y = d0" for y
    by (auto simp: validateCandidatePilotDeployment_def res_simps)
  show ?thesis
    using v assms(2) unfolding validateCandidateBoundOrderIntent_def
    by (auto simp: ebind_eq_Inr dep imm intent dest!: same)
qed

subsection \<open>Witnesses\<close>

definition sampleSha :: "string \<Rightarrow> string" where
  "sampleSha text = replicate 64 CHR ''a''"

definition sampleAuthority :: CandidateExecutionAuthority where
  "sampleAuthority = \<lparr>xa_kind = ''POSITION_GUARD_BTC_CANDIDATE'', xa_deploymentId = ''dep'', xa_exchangeAccountId = ''acc'',
     xa_pilotId = PILOT_ID, xa_market = KRW_BTC, xa_strategyKey = STRATEGY_KEY, xa_policyId = POLICY_ID,
     xa_policyVersion = POLICY_VERSION, xa_activationAt = ''2026-08-21T00:00:00Z'', xa_activationEpochNs = 1787270400000000000,
     xa_expectedPhase = ACTIVE, xa_expectedDeploymentUpdatedAt = ''2026-08-21T00:00:00Z'', xa_expectedStateVersion = 0,
     xa_routeReason = CANDIDATE_ALLOWED\<rparr>"

definition sampleDeployment :: PositionGuardPilotDeploymentRecord where
  "sampleDeployment = \<lparr>dp_id = ''dep'', dp_exchangeAccountId = ''acc'', dp_pilotId = PILOT_ID, dp_market = KRW_BTC,
     dp_policyId = POLICY_ID, dp_policyVersion = POLICY_VERSION, dp_phase = ACTIVE,
     dp_activationAt = Some ''2026-08-21T00:00:00Z'', dp_activationEpochNs = Some 1787270400000000000,
     dp_createdAt = ''2026-08-20T00:00:00Z'', dp_updatedAt = ''2026-08-21T00:00:00Z''\<rparr>"

definition sampleDecision :: StrategyDecisionRecord where
  "sampleDecision = \<lparr>sd_id = ''dec'', sd_exchangeAccountId = ''acc'', sd_strategyKey = STRATEGY_KEY, sd_market = KRW_BTC,
     sd_action = ENTER, sd_status = READY, sd_decisionBasisJson = ''{}'', sd_intendedNotionalKrw = Some ''10000'',
     sd_intendedQuantity = None, sd_referencePrice = Some ''100'', sd_createdAt = ''2026-08-21T00:30:00Z''\<rparr>"

definition sampleCandidateOrder :: OrderRecord where
  "sampleCandidateOrder = \<lparr>oi_strategyDecisionId = Some ''dec'', oi_exchangeAccountId = ''acc'', oi_market = KRW_BTC, oi_side = Bid,
     oi_ordType = Price, oi_volume = None, oi_price = Some ''10000'', oi_timeInForce = None, oi_smpType = None,
     oi_identifier = ''ident'', oi_idempotencyKey = ''key'', oi_origin = STRATEGY,
     oi_requestedAt = ''2026-08-21T01:00:00.000000001Z'', or_id = ''ord'', or_upbitUuid = None, or_status = PERSISTED,
     or_executionMode = DRY_RUN, or_exchangeResponseJson = None, or_failureCode = None, or_failureMessage = None,
     or_createdAt = ''2026-08-21T01:00:00.000000001Z'', or_updatedAt = ''2026-08-21T01:00:00.000000001Z''\<rparr>"

definition sampleCandidateEvent :: OrderEventRecord where
  "sampleCandidateEvent = \<lparr>ev_id = ''ev'', ev_orderId = ''ord'', ev_eventType = ''ORDER_PERSISTED'', ev_eventSource = LOCAL,
     ev_payloadJson = ''{}'', ev_createdAt = ''2026-08-21T01:00:00.000000001Z''\<rparr>"

definition sampleBinding :: "string \<Rightarrow> CandidateExecutionBindingRecord" where
  "sampleBinding i = \<lparr>bd_id = i, bd_deploymentId = ''dep'', bd_strategyDecisionId = ''dec'', bd_orderId = ''ord'',
     bd_exchangeAccountId = ''acc'', bd_activationAt = ''2026-08-21T00:00:00Z'', bd_activationEpochNs = 1787270400000000000,
     bd_market = KRW_BTC, bd_strategyKey = STRATEGY_KEY, bd_policyId = POLICY_ID, bd_policyVersion = POLICY_VERSION,
     bd_executionMode = DRY_RUN, bd_ordType = Price, bd_action = ENTER, bd_side = Bid, bd_intendedQuantity = None,
     bd_intendedNotionalKrw = Some ''10000'', bd_boundPrice = Some ''10000'', bd_boundVolume = None, bd_boundTimeInForce = None,
     bd_boundSmpType = None, bd_materialVersion = ''BINDING_V2'', bd_orderMaterialHash = replicate 64 CHR ''a'',
     bd_createdAt = ''2026-08-21T01:00:00.000000000Z''\<rparr>"

lemma sample_hash: "candidateExecutionBindingMaterialHash sampleSha b = replicate 64 CHR ''a''"
  by (simp add: candidateExecutionBindingMaterialHash_def sampleSha_def)

lemma sample_binding_valid:
  "validateCandidateExecutionBinding sampleSha (sampleBinding ''b1'') = Inr (sampleBinding ''b1'')"
  "validateCandidateExecutionBinding sampleSha (sampleBinding ''b2'') = Inr (sampleBinding ''b2'')"
  unfolding validateCandidateExecutionBinding_def sample_hash by code_simp+

lemma binding_hash_commits_witness: "\<exists>x y. x \<noteq> y \<and> sampleSha x = sampleSha y"
  by (rule binding_hash_commits [OF sample_binding_valid]) (simp_all add: sampleBinding_def)

definition sampleRequest :: PersistCandidateBoundOrderIntentRequest where
  "sampleRequest = \<lparr>br_order = sampleCandidateOrder, br_event = sampleCandidateEvent, br_binding = sampleBinding ''b1'',
     br_expectedPhase = ACTIVE, br_expectedDeploymentUpdatedAt = ''2026-08-21T00:00:00Z'', br_expectedStateVersion = 0\<rparr>"

abbreviation sampleBoundIntent :: PersistCandidateBoundOrderIntentInput where
  "sampleBoundIntent \<equiv> \<lparr>bi_order = sampleCandidateOrder, bi_event = sampleCandidateEvent, bi_binding = sampleBinding ''b1'',
     bi_decision = sampleDecision, bi_deployment = sampleDeployment, bi_exactStateVersion = 0, bi_expectedPhase = ACTIVE,
     bi_expectedDeploymentUpdatedAt = ''2026-08-21T00:00:00Z'', bi_expectedStateVersion = 0\<rparr>"

lemma sample_parts:
  "validateOrderIntentInput \<lparr>pi_order = sampleCandidateOrder, pi_event = sampleCandidateEvent\<rparr> = Inr ()"
  "validateCandidatePilotDeployment sampleDeployment = Inr sampleDeployment"
  "validateDecision sampleDecision sampleCandidateOrder (sampleBinding ''b1'') = Inr ()"
  "validateDeployment sampleBoundIntent sampleDeployment (sampleBinding ''b1'') = Inr ()"
  "validateOrderBinding sampleCandidateOrder (sampleBinding ''b1'') = Inr ()"
  "validateCandidateOrderShape ACTIVE sampleDecision sampleCandidateOrder = Inr ()"
  "validateImmutableRequest sampleCandidateOrder sampleCandidateEvent (sampleBinding ''b1'') = Inr ()"
  "parsePositionGuardCandidateTimestamp ''2026-08-21T00:00:00Z'' ''candidate-bound expected deployment updatedAt'' = Inr 1787270400000000000"
  by code_simp+

lemma sample_intent_valid: "validateCandidateBoundOrderIntent sampleSha sampleBoundIntent = Inr ()"
  using sample_parts
  by (auto simp: validateCandidateBoundOrderIntent_def sample_binding_valid validateStateVersion_def isSafeInteger_def MAX_SAFE_INTEGER_def)

lemma candidate_intent_sound_witness:
  "or_status sampleCandidateOrder = PERSISTED \<and> dp_phase sampleDeployment = ACTIVE \<and> oi_side sampleCandidateOrder = Bid"
  using candidate_intent_sound [OF sample_intent_valid] by (simp add: Let_def sampleDecision_def)

definition sampleCandidateStore :: candidate_store where
  "sampleCandidateStore = \<lparr>cs_deployments = [''dep'' \<mapsto> sampleDeployment],
     cs_exactStates = [''dep'' \<mapsto> createExactEmptyCandidateState], cs_bindings = []\<rparr>"

abbreviation sampleDecided :: repo where
  "sampleDecided \<equiv> emptyRepo\<lparr>rp_strategyDecisions := [sampleDecision]\<rparr>"

lemma sample_candidate_run:
  "\<exists>s' c'. persistCandidateBoundOrderIntent sampleSha True sampleRequest (sampleDecided, sampleCandidateStore) = (Inr (), (s', c'))"
proof -
  have "persistCandidateBoundOrderIntent sampleSha True sampleRequest (sampleDecided, sampleCandidateStore) =
      storeCandidateIntent sampleRequest (snapshotAuthority (br_binding sampleRequest) sampleCandidateStore) (sampleDecided, sampleCandidateStore)"
    by (rule persistCandidate_run [where dec = sampleDecision and dep = sampleDeployment and ex = createExactEmptyCandidateState])
       (simp_all add: sampleRequest_def sampleDecision_def sampleCandidateOrder_def sampleCandidateStore_def
         sampleBinding_def createExactEmptyCandidateState_def sample_binding_valid [unfolded sampleBinding_def]
         sample_intent_valid [unfolded sampleBinding_def sampleDecision_def sampleCandidateOrder_def])
  moreover have "fst (storeCandidateIntent sampleRequest (snapshotAuthority (br_binding sampleRequest) sampleCandidateStore)
      (sampleDecided, sampleCandidateStore)) = Inr ()"
    by (simp add: storeCandidateIntent_def checkStoredIntent_def Let_def sbind_def onSnd_def onFst_def commitBinding_def sguard_run
        snapshotAuthority_def sampleCandidateStore_def getExecutionBindingForOrder_def emptyRepo_def eventsOf_def first_def
        conflictsWith_def)
  ultimately show ?thesis
    by (cases "storeCandidateIntent sampleRequest (snapshotAuthority (br_binding sampleRequest) sampleCandidateStore)
      (sampleDecided, sampleCandidateStore)") auto
qed

lemma candidate_intent_atomic_witness:
  "\<exists>s' c'. persistCandidateBoundOrderIntent sampleSha True sampleRequest (sampleDecided, sampleCandidateStore) = (Inr (), (s', c')) \<and>
     intentStored sampleRequest s' c'"
  using sample_candidate_run candidate_intent_atomic by blast

lemma sample_derived_intent:
  "validateCandidateBoundOrderIntent sampleSha (derivedIntentOf sampleAuthority sampleCandidateOrder sampleDecision (sampleBinding ''b1'')) = Inr ()"
proof -
  let ?v = "derivedIntentOf sampleAuthority sampleCandidateOrder sampleDecision (sampleBinding ''b1'')"
  have "validateOrderIntentInput \<lparr>pi_order = bi_order ?v, pi_event = bi_event ?v\<rparr> = Inr ()"
    by (simp add: derivedIntentOf_def validateOrderIntentInput_def validateOrderEvent_def sampleCandidateOrder_def)
  moreover have "validateImmutableRequest (bi_order ?v) (bi_event ?v) (sampleBinding ''b1'') = Inr ()"
    using sample_parts(7) by (simp add: derivedIntentOf_def validateImmutableRequest_def sampleCandidateOrder_def sampleCandidateEvent_def)
  moreover have "validateCandidatePilotDeployment (bi_deployment ?v) = Inr (bi_deployment ?v)" by code_simp
  moreover have "validateDeployment ?v (bi_deployment ?v) (sampleBinding ''b1'') = Inr ()"
    by (simp add: derivedIntentOf_def validateDeployment_def sampleAuthority_def sampleBinding_def)
  ultimately show ?thesis
    using sample_parts(3,5,6,8)
    by (simp add: validateCandidateBoundOrderIntent_def sample_binding_valid validateStateVersion_def isSafeInteger_def
        MAX_SAFE_INTEGER_def derivedIntentOf_def sampleAuthority_def)
qed

lemma sample_derivation:
  "deriveCandidateExecutionBinding sampleSha sampleAuthority sampleCandidateOrder sampleDecision ''b1'' ''2026-08-21T01:00:00Z'' =
   Inr (sampleBinding ''b1'')"
proof -
  have auth: "validateCandidateExecutionAuthority sampleAuthority = Inr sampleAuthority" by code_simp
  have time: "createCandidateExecutionAttemptTimestamps (xa_activationEpochNs sampleAuthority) ''2026-08-21T01:00:00Z'' =
      Inr \<lparr>ca_bindingCreatedAt = ''2026-08-21T01:00:00.000000000Z'', ca_orderRequestedAt = ''2026-08-21T01:00:00.000000001Z''\<rparr>"
    by code_simp
  have name: "authorityRequireNonEmpty ''b1'' ''bindingId'' = Inr ()" "asExecutedAction (sd_action sampleDecision) = Inr ENTER"
    by code_simp+
  have "(bindingMaterialOf sampleAuthority sampleCandidateOrder sampleDecision ENTER ''b1'' ''2026-08-21T01:00:00.000000000Z'')
      \<lparr>bd_orderMaterialHash := replicate 64 CHR ''a''\<rparr> = sampleBinding ''b1''"
    by (simp add: bindingMaterialOf_def sampleAuthority_def sampleCandidateOrder_def sampleDecision_def sampleBinding_def)
  moreover have "xa_routeReason sampleAuthority = CANDIDATE_ALLOWED"
      "oi_requestedAt sampleCandidateOrder = ''2026-08-21T01:00:00.000000001Z''"
    by (simp_all add: sampleAuthority_def sampleCandidateOrder_def)
  ultimately show ?thesis
    unfolding deriveCandidateExecutionBinding_def sample_hash auth ebind_simps time name Let_def
    by (simp add: sample_binding_valid sample_derived_intent)
qed

lemma derived_binding_persistable_witness:
  "validateCandidateBoundOrderIntent sampleSha
      \<lparr>bi_order = sampleCandidateOrder, bi_event = sampleCandidateEvent, bi_binding = sampleBinding ''b1'',
       bi_decision = sampleDecision, bi_deployment = sampleDeployment,
       bi_exactStateVersion = xa_expectedStateVersion sampleAuthority, bi_expectedPhase = xa_expectedPhase sampleAuthority,
       bi_expectedDeploymentUpdatedAt = xa_expectedDeploymentUpdatedAt sampleAuthority,
       bi_expectedStateVersion = xa_expectedStateVersion sampleAuthority\<rparr> = Inr ()"
  by (rule derived_binding_persistable [OF sample_derivation sample_parts(2)])
     (simp_all add: deploymentMatches_def persistedEventOf_def sampleAuthority_def sampleDeployment_def sampleCandidateOrder_def
       sampleCandidateEvent_def)

end
