(* ===== verification/ExecutionHelpers.thy ===== *)
theory ExecutionHelpers
  imports CandidateBinding RiskGuards LeaseStore
begin

section \<open>The pure parts of the execution service\<close>

text \<open>
  The types of \<open>src/src/modules/exchange/interfaces.ts\<close> and \<open>src/src/modules/execution/interfaces.ts\<close> and the functions of
  \<open>src/src/modules/execution/execution-service.ts\<close> that touch no dependency. Numbers are binary64, \<open>legacy\<close> is
  \<open>Date.parse\<close> outside the explicit ISO forms, and a raw exchange answer is a JSON value.
\<close>

subsection \<open>Types\<close>

datatype SendPath = LIVE_ADAPTER | DRY_RUN_ADAPTER

record UpbitOrderRequest =
  uq_market :: SupportedMarket
  uq_side :: OrderSide
  uq_ordType :: OrderType
  uq_volume :: "string option"
  uq_price :: "string option"
  uq_identifier :: string
  uq_timeInForce :: "TimeInForce option"
  uq_smpType :: "UpbitSelfMatchPrevention option"

record UpbitOrderChance =
  ch_marketId :: string
  ch_askTypes :: "string list"
  ch_bidTypes :: "string list"
  ch_maxTotal :: "string option"
  ch_bidMinTotal :: "jsnum option"
  ch_askMinTotal :: "jsnum option"
  ch_bidFee :: string
  ch_askFee :: string

record ExchangeFillSnapshot =
  xf_tradeUuid :: "string option"
  xf_side :: OrderSide
  xf_price :: string
  xf_volume :: string
  xf_funds :: "string option"
  xf_fee :: "string option"
  xf_createdAt :: "string option"
  xf_raw :: json

text \<open>\<open>timeInForce\<close> and \<open>smpType\<close> are optional and nullable: the outer option is absence.\<close>

record ExchangeOrderSnapshot =
  xo_uuid :: string
  xo_identifier :: "string option"
  xo_market :: SupportedMarket
  xo_side :: OrderSide
  xo_ordType :: OrderType
  xo_state :: string
  xo_price :: "string option"
  xo_volume :: "string option"
  xo_timeInForce :: "TimeInForce option option"
  xo_smpType :: "UpbitSelfMatchPrevention option option"
  xo_remainingVolume :: "string option"
  xo_executedVolume :: "string option"
  xo_paidFee :: "string option"
  xo_createdAt :: string
  xo_fills :: "ExchangeFillSnapshot list"
  xo_raw :: json

record OrderValidationResult =
  vr_accepted :: bool
  vr_marketOnline :: bool
  vr_reason :: "string option"
  vr_preview :: "ExchangeOrderSnapshot option"

record SubmitOrderFromDecisionInput =
  si_exchangeAccountId :: string
  si_strategyDecisionId :: "string option"
  si_referencePriceCapturedAt :: string
  si_decision :: StrategyDecision
  si_side :: OrderSide
  si_ordType :: OrderType
  si_price :: "string option"
  si_volume :: "string option"
  si_origin :: "OrderOrigin option"
  si_market :: "SupportedMarket option"
  si_candidateAuthority :: "CandidateExecutionAuthority option"

datatype SubmissionOutcome =
    OUTCOME_SUBMITTED | OUTCOME_SIMULATED_FILLED | OUTCOME_REJECTED | OUTCOME_DUPLICATE | OUTCOME_LEASE_BLOCKED
  | OUTCOME_RECONCILIATION_REQUIRED

record SubmitOrderFromDecisionResult =
  sr_accepted :: bool
  sr_outcome :: SubmissionOutcome
  sr_order :: "OrderRecord option"
  sr_reason :: "string option"

subsection \<open>Truth values and numbers\<close>

text \<open>\<open>value ? .. : ..\<close> on a nullable string: present and not empty.\<close>

definition truthyString :: "string option \<Rightarrow> bool" where
  "truthyString v \<longleftrightarrow> v \<noteq> None \<and> v \<noteq> Some []"

definition toLowerAscii :: "string \<Rightarrow> string" where
  "toLowerAscii s = map (\<lambda>c. if is_upper c then char_of ((of_char c :: nat) + 32) else c) s"

definition intOfNumber :: "jsnum \<Rightarrow> int" where
  "intOfNumber x = (case x of Num q \<Rightarrow> \<lfloor>q\<rfloor> | _ \<Rightarrow> 0)"

text \<open>\<open>x.toFixed(12)\<close>\<close>

definition toFixed12 :: "jsnum \<Rightarrow> string" where
  "toFixed12 x = (case x of
     Num q \<Rightarrow>
       if q \<ge> 10 ^ 21 \<or> q \<le> - (10 ^ 21) then numberToString x
       else let n = \<lfloor>\<bar>q\<bar> * 10 ^ 12 + 1 / 2\<rfloor>; ds = pad_start 13 CHR ''0'' (digits_of_int n)
            in (if q < 0 then ''-'' else []) @ take (length ds - 12) ds @ ''.'' @ drop (length ds - 12) ds
   | _ \<Rightarrow> numberToString x)"

subsection \<open>Adapter and authority\<close>

type_synonym ExecutionAuthorityTuple = "ExecutionMode \<times> LiveExecutionGate"

definition selectExecutionAuthority :: "ExecutionStateRecord \<Rightarrow> ExecutionAuthorityTuple" where
  "selectExecutionAuthority state = (st_executionMode state, st_liveExecutionGate state)"

definition executionAdapterAcceptsAuthority :: "SendPath \<Rightarrow> ExecutionAuthorityTuple \<Rightarrow> bool" where
  "executionAdapterAcceptsAuthority sendPath authority =
     (let fullyLive = (fst authority = LIVE \<and> snd authority = ENABLED)
      in if sendPath = LIVE_ADAPTER then fullyLive else \<not> fullyLive)"

definition executionModeForAdapter :: "SendPath \<Rightarrow> ExecutionMode" where
  "executionModeForAdapter sendPath = (if sendPath = LIVE_ADAPTER then LIVE else DRY_RUN)"

definition eventSourceForAdapter :: "SendPath \<Rightarrow> EventSource" where
  "eventSourceForAdapter sendPath = (if sendPath = LIVE_ADAPTER then EXCHANGE else LOCAL)"

definition composeExecutionPolicy :: "ExecutionStateRecord \<Rightarrow> ExecutionRiskLimits \<Rightarrow> SendPath \<Rightarrow> ExecutionPolicy" where
  "composeExecutionPolicy state riskLimits sendPath =
     \<lparr>po_executionMode = executionModeForAdapter sendPath,
      po_liveExecutionGate = (if sendPath = LIVE_ADAPTER then ENABLED else DISABLED),
      po_globalKillSwitch = st_killSwitchActive state,
      po_maxAllocationByAsset = rl_maxAllocationByAsset riskLimits,
      po_totalExposureCap = rl_totalExposureCap riskLimits,
      po_stalePriceThresholdMs = rl_stalePriceThresholdMs riskLimits,
      po_minimumOrderValueKrw = rl_minimumOrderValueKrw riskLimits\<rparr>"

definition isTerminalOrderStatus :: "OrderLifecycleStatus \<Rightarrow> bool" where
  "isTerminalOrderStatus status \<longleftrightarrow> status = FILLED \<or> status = CANCELED \<or> status = REJECTED"

definition hasExecutedVolume :: "string option \<Rightarrow> bool" where
  "hasExecutedVolume executedVolume \<longleftrightarrow>
     truthyString executedVolume \<and> num_greater (numberOf (the executedVolume)) (Num 0)"

definition mapExchangeOrderStatus :: "string \<Rightarrow> string option \<Rightarrow> OrderType \<Rightarrow> OrderSide \<Rightarrow> OrderLifecycleStatus" where
  "mapExchangeOrderStatus exchangeState executedVolume ordType side =
     (if exchangeState = ''done'' then FILLED
      else if exchangeState = ''cancel''
      then (if side = Bid \<and> ordType = Price \<and> hasExecutedVolume executedVolume then FILLED else CANCELED)
      else if hasExecutedVolume executedVolume then PARTIALLY_FILLED else OPEN)"

subsection \<open>Errors of a submission\<close>

record SubmissionErrorDescription =
  de_message :: string
  de_metadata :: ExchangeOrderSubmissionErrorOptions

definition describeSubmissionError :: "js_error \<Rightarrow> SubmissionErrorDescription" where
  "describeSubmissionError error = (case error of
     ExchangeOrderSubmissionError options \<Rightarrow> \<lparr>de_message = errorMessage error, de_metadata = options\<rparr>
   | _ \<Rightarrow> \<lparr>de_message = ''Order submission outcome is uncertain and requires reconciliation.'',
          de_metadata = \<lparr>xe_kind = UNCERTAIN, xe_status = None, xe_exchangeCode = None, xe_exchangeName = None,
            xe_responseReceived = False\<rparr>\<rparr>)"

definition isDuplicateIdentifierError :: "ExchangeOrderSubmissionErrorOptions \<Rightarrow> bool" where
  "isDuplicateIdentifierError error \<longleftrightarrow>
     list_ex (\<lambda>value. map_option (toLowerAscii \<circ> trim) value = Some ''duplicate_identifier'')
       [xe_exchangeCode error, xe_exchangeName error]"

definition isDefinitiveRejection :: "js_error \<Rightarrow> bool" where
  "isDefinitiveRejection error \<longleftrightarrow> (case error of
     ExchangeOrderSubmissionError options \<Rightarrow> xe_kind options = DEFINITIVE_REJECTION \<and> \<not> isDuplicateIdentifierError options
   | _ \<Rightarrow> False)"

definition isOwnershipError :: "js_error \<Rightarrow> bool" where
  "isOwnershipError error \<longleftrightarrow> (case error of RuntimeOwnershipGuardError _ _ \<Rightarrow> True | _ \<Rightarrow> False)"

definition isPostSendPersistenceError :: "js_error \<Rightarrow> bool" where
  "isPostSendPersistenceError error \<longleftrightarrow> (case error of PostSendPersistenceSafetyError _ \<Rightarrow> True | _ \<Rightarrow> False)"

definition metadataMembers :: "ExchangeOrderSubmissionErrorOptions \<Rightarrow> (string \<times> json) list" where
  "metadataMembers m =
     [(''kind'', JString (if xe_kind m = DEFINITIVE_REJECTION then ''DEFINITIVE_REJECTION'' else ''UNCERTAIN'')),
      (''status'', optJson JInt (xe_status m)), (''exchangeCode'', optJson JString (xe_exchangeCode m)),
      (''exchangeName'', optJson JString (xe_exchangeName m)), (''responseReceived'', JBool (xe_responseReceived m))]"

subsection \<open>Amounts\<close>

definition deriveRequestedNotionalKrw :: "StrategyDecision \<Rightarrow> string option \<Rightarrow> string option \<Rightarrow> jsnum option" where
  "deriveRequestedNotionalKrw decision price volume =
     (if truthyString price \<and> truthyString volume \<and>
         isFiniteNumber (numberOf (the price)) \<and> isFiniteNumber (numberOf (the volume))
      then Some (num_mul (numberOf (the price)) (numberOf (the volume)))
      else if truthyString volume \<and> isFiniteNumber (numberOf (the volume)) \<and> isFiniteNumber (dc_referencePrice decision)
      then Some (num_mul (dc_referencePrice decision) (numberOf (the volume)))
      else if truthyString price
      then (if isFiniteNumber (numberOf (the price)) then Some (numberOf (the price)) else None)
      else None)"

definition deriveDryRunVolume :: "jsnum option \<Rightarrow> jsnum \<Rightarrow> string option" where
  "deriveDryRunVolume requestedNotionalKrw referencePrice = (case requestedNotionalKrw of
     None \<Rightarrow> None
   | Some notional \<Rightarrow>
       if \<not> isFiniteNumber notional \<or> num_le notional (Num 0) \<or> \<not> isFiniteNumber referencePrice \<or> num_le referencePrice (Num 0)
       then None
       else let s = stripTrailingZeros (toFixed12 (num_div notional referencePrice))
            in Some (if s \<noteq> [] \<and> last s = CHR ''.'' then butlast s else s))"

definition nullableNumberString :: "jsnum option \<Rightarrow> string option" where
  "nullableNumberString value = map_option numberToString value"

definition nullableDecisionNotionalString :: "StrategyDecision \<Rightarrow> string option res" where
  "nullableDecisionNotionalString decision = (case dc_requestedNotionalKrw decision of
     None \<Rightarrow> Inr None
   | Some notional \<Rightarrow> ebind (serializeUpbitOrderDecimal notional ''candidate market-buy quote'') (\<lambda>s. Inr (Some s)))"

definition assertCanonicalUpbitMarketBuyQuote :: "SubmitOrderFromDecisionInput \<Rightarrow> unit res" where
  "assertCanonicalUpbitMarketBuyQuote input =
     (if si_side input \<noteq> Bid \<or> si_ordType input \<noteq> Price then Inr ()
      else (case (si_price input, dc_requestedNotionalKrw (si_decision input)) of
          (Some price, Some notional) \<Rightarrow>
            if si_volume input \<noteq> None \<or> \<not> isFiniteNumber notional \<or> num_le notional (Num 0)
            then Inl (Error ''Market-buy quote must have a positive decision notional, price, and no volume.'')
            else ebind (canonicalizeUpbitOrderDecimal price ''market-buy quote'') (\<lambda>canonical.
                 ebind (serializeUpbitOrderDecimal notional ''market-buy decision notional'') (\<lambda>expected.
                 throw_if (price \<noteq> canonical \<or> price \<noteq> expected)
                   (Error ''Market-buy quote must exactly match the canonical decision notional.'')))
        | _ \<Rightarrow> Inl (Error ''Market-buy quote must have a positive decision notional, price, and no volume.'')))"

subsection \<open>Exchange fills\<close>

definition directExchangeFillTimestamp ::
  "string option \<Rightarrow> FillExecutionTimestampProvenance \<times> string option \<times> string" where
  "directExchangeFillTimestamp createdAt = (case createdAt of
     None \<Rightarrow> (TS_LEGACY_UNVERIFIED, None, [])
   | Some t \<Rightarrow>
       (case parsePositionGuardCandidateTimestamp t ''exchange fill createdAt'' of
          Inr epochNs \<Rightarrow> (TS_EXCHANGE_FILL_CONFIRMED, Some (bigintToString epochNs), t)
        | Inl _ \<Rightarrow> (TS_LEGACY_UNVERIFIED, None, t)))"

definition resolveChanceTypeToken :: "OrderType \<Rightarrow> TimeInForce option \<Rightarrow> string" where
  "resolveChanceTypeToken ordType timeInForce = (case timeInForce of
     None \<Rightarrow> ordTypeStr ordType | Some t \<Rightarrow> ordTypeStr ordType @ ''_'' @ timeInForceStr t)"

subsection \<open>The lease window\<close>

record LeaseWindow =
  lw_atEpochMs :: int
  lw_expiresAtEpochMs :: int

definition leaseWindow :: "(string \<Rightarrow> jsnum) \<Rightarrow> jsnum \<Rightarrow> string \<Rightarrow> string \<Rightarrow> LeaseWindow res" where
  "leaseWindow legacy duration timestamp operation =
     (let atEpochMs = dateParse legacy timestamp; expiresAtEpochMs = num_add atEpochMs duration
      in if \<not> isSafeIntegerNumber atEpochMs \<or> num_less atEpochMs (Num 0) \<or> \<not> isSafeIntegerNumber duration \<or> num_le duration (Num 0)
         then Inl (AccountExecutionLeaseSafetyError
                (''Account execution lease '' @ operation @ '' requires positive safe integer timestamps and duration.''))
         else if \<not> isSafeIntegerNumber expiresAtEpochMs \<or> num_le expiresAtEpochMs atEpochMs
         then Inl (AccountExecutionLeaseSafetyError (''Account execution lease '' @ operation @ '' expiry is unsafe.''))
         else Inr \<lparr>lw_atEpochMs = intOfNumber atEpochMs, lw_expiresAtEpochMs = intOfNumber expiresAtEpochMs\<rparr>)"

definition isOwnedLease :: "AccountExecutionLeaseRecord option \<Rightarrow> string \<Rightarrow> string \<Rightarrow> int \<Rightarrow> bool" where
  "isOwnedLease lease exchangeAccountId ownerToken atEpochMs \<longleftrightarrow> (case lease of None \<Rightarrow> False | Some l \<Rightarrow>
     le_exchangeAccountId l = exchangeAccountId \<and> le_ownerToken l = ownerToken \<and> isSafeInteger (le_acquiredAtEpochMs l) \<and>
     isSafeInteger (le_expiresAtEpochMs l) \<and> atEpochMs < le_expiresAtEpochMs l)"

subsection \<open>The final look at the stored orders\<close>

definition CANDIDATE_FINAL_ORDER_SCAN_LIMIT :: int where
  "CANDIDATE_FINAL_ORDER_SCAN_LIMIT = 100"

definition sameOrderRecord :: "OrderRecord \<Rightarrow> OrderRecord \<Rightarrow> bool" where
  "sameOrderRecord left right \<longleftrightarrow> left = right"

text \<open>The scan returns whether the expected order was seen and whether another order was.\<close>

fun scanActiveOrders :: "string \<Rightarrow> OrderRecord \<Rightarrow> bool \<Rightarrow> bool \<Rightarrow> OrderRecord list \<Rightarrow> (bool \<times> bool) res" where
  "scanActiveOrders orderId expectedOrder expectedOrderIsActive hasCompetingOrder [] =
     Inr (expectedOrderIsActive, hasCompetingOrder)"
| "scanActiveOrders orderId expectedOrder expectedOrderIsActive hasCompetingOrder (activeOrder # rest) =
     (if or_id activeOrder = orderId
      then if expectedOrderIsActive \<or> \<not> sameOrderRecord activeOrder expectedOrder
           then Inl (Error ''final persisted order scan is ambiguous or mutated'')
           else scanActiveOrders orderId expectedOrder True hasCompetingOrder rest
      else scanActiveOrders orderId expectedOrder expectedOrderIsActive True rest)"

definition assertFinalPersistedSubmissionAuthority ::
  "string \<Rightarrow> OrderRecord \<Rightarrow> OrderRecord list \<Rightarrow> OrderRecord option \<Rightarrow> unit res" where
  "assertFinalPersistedSubmissionAuthority orderId expectedOrder activeOrders persistedOrder =
     ebind (throw_if (CANDIDATE_FINAL_ORDER_SCAN_LIMIT < int (length activeOrders))
       (Error ''final submission-blocking order scan exceeded its safety bound'')) (\<lambda>_.
     ebind (scanActiveOrders orderId expectedOrder False False activeOrders) (\<lambda>(expectedOrderIsActive, hasCompetingOrder).
     throw_if (hasCompetingOrder \<or> \<not> expectedOrderIsActive \<or>
         (case persistedOrder of None \<Rightarrow> True
          | Some p \<Rightarrow> or_status p \<noteq> SUBMITTING \<or> \<not> sameOrderRecord p expectedOrder))
       (Error ''final persisted SUBMITTING order authority changed'')))"

subsection \<open>The duplicate of a candidate order\<close>

definition matchesCandidateDuplicateOrder :: "OrderRecord \<Rightarrow> StrategyDecisionRecord \<Rightarrow> string \<Rightarrow> bool" where
  "matchesCandidateDuplicateOrder ord decision idempotencyKey \<longleftrightarrow>
     oi_exchangeAccountId ord = sd_exchangeAccountId decision \<and> oi_strategyDecisionId ord = Some (sd_id decision) \<and>
     oi_market ord = sd_market decision \<and> oi_origin ord = STRATEGY \<and> oi_idempotencyKey ord = idempotencyKey \<and>
     \<not> is_blank (oi_identifier ord) \<and> or_createdAt ord = oi_requestedAt ord \<and>
     (if sd_action decision = ENTER \<or> sd_action decision = ADD
      then oi_side ord = Bid \<and> oi_ordType ord = Price \<and> oi_price ord = sd_intendedNotionalKrw decision \<and> oi_volume ord = None
      else oi_side ord = Ask \<and> oi_ordType ord = Market \<and> oi_price ord = None \<and> oi_volume ord = sd_intendedQuantity decision) \<and>
     oi_timeInForce ord = None \<and> oi_smpType ord = None"

definition matchesCandidateDuplicateBinding ::
  "CandidateExecutionBindingRecord \<Rightarrow> OrderRecord \<Rightarrow> StrategyDecisionRecord \<Rightarrow> CandidateExecutionAuthority \<Rightarrow> bool" where
  "matchesCandidateDuplicateBinding binding ord decision authority =
     (case ebind (parsePositionGuardCandidateTimestamp (bd_createdAt binding) ''candidate duplicate binding createdAt'')
             (\<lambda>epochNs. formatCanonicalUtcIsoNanoseconds (epochNs + 1)) of
        Inl _ \<Rightarrow> False
      | Inr expectedRequestedAt \<Rightarrow>
          bd_deploymentId binding = xa_deploymentId authority \<and> bd_strategyDecisionId binding = sd_id decision \<and>
          bd_orderId binding = or_id ord \<and> bd_exchangeAccountId binding = xa_exchangeAccountId authority \<and>
          bd_activationAt binding = xa_activationAt authority \<and> bd_activationEpochNs binding = xa_activationEpochNs authority \<and>
          bd_market binding = xa_market authority \<and> bd_strategyKey binding = xa_strategyKey authority \<and>
          bd_policyId binding = xa_policyId authority \<and> bd_policyVersion binding = xa_policyVersion authority \<and>
          bd_executionMode binding = or_executionMode ord \<and> bd_ordType binding = oi_ordType ord \<and>
          bd_action binding = sd_action decision \<and> bd_side binding = oi_side ord \<and>
          bd_intendedQuantity binding = sd_intendedQuantity decision \<and>
          bd_intendedNotionalKrw binding = sd_intendedNotionalKrw decision \<and>
          bd_boundPrice binding = oi_price ord \<and> bd_boundVolume binding = oi_volume ord \<and>
          bd_boundTimeInForce binding = oi_timeInForce ord \<and> bd_boundSmpType binding = oi_smpType ord \<and>
          oi_requestedAt ord = expectedRequestedAt)"

definition matchesCandidateDuplicateDeployment ::
  "PositionGuardPilotDeploymentRecord \<Rightarrow> int \<Rightarrow> CandidateExecutionAuthority \<Rightarrow> bool" where
  "matchesCandidateDuplicateDeployment deployment exactStateVersion authority \<longleftrightarrow>
     dp_id deployment = xa_deploymentId authority \<and> dp_exchangeAccountId deployment = xa_exchangeAccountId authority \<and>
     dp_pilotId deployment = xa_pilotId authority \<and> dp_market deployment = xa_market authority \<and>
     dp_policyId deployment = xa_policyId authority \<and> dp_policyVersion deployment = xa_policyVersion authority \<and>
     dp_phase deployment = xa_expectedPhase authority \<and> dp_updatedAt deployment = xa_expectedDeploymentUpdatedAt authority \<and>
     dp_activationAt deployment = Some (xa_activationAt authority) \<and>
     dp_activationEpochNs deployment = Some (xa_activationEpochNs authority) \<and>
     exactStateVersion = xa_expectedStateVersion authority"

definition matchesCandidateDuplicatePersistedEvent :: "OrderEventRecord \<Rightarrow> OrderRecord \<Rightarrow> StrategyDecisionRecord \<Rightarrow> bool" where
  "matchesCandidateDuplicatePersistedEvent event ord decision \<longleftrightarrow>
     ev_orderId event = or_id ord \<and> ev_eventSource event = LOCAL \<and> ev_createdAt event = oi_requestedAt ord \<and>
     (case parseJson (ev_payloadJson event) of
        Some (JObject payload) \<Rightarrow> member ''idempotencyKey'' payload = Some (JString (oi_idempotencyKey ord)) \<and>
          member ''decisionAction'' payload = Some (JString (actionStr (sd_action decision)))
      | _ \<Rightarrow> False)"

definition candidateFaultOccurredAt :: "CandidateExecutionAuthority \<Rightarrow> string option \<Rightarrow> string res" where
  "candidateFaultOccurredAt authority attemptedAt =
     ebind (parsePositionGuardCandidateTimestamp (xa_expectedDeploymentUpdatedAt authority)
       ''candidate authority expected deployment updatedAt'') (\<lambda>updatedAt.
     let minimumEpochNs = max (xa_activationEpochNs authority) updatedAt;
         attempted = (case attemptedAt of None \<Rightarrow> None | Some t \<Rightarrow>
           (case parsePositionGuardCandidateTimestamp t ''candidate fault attemptedAt'' of
              Inl _ \<Rightarrow> None
            | Inr attemptedEpochNs \<Rightarrow>
                if minimumEpochNs \<le> attemptedEpochNs
                then (case formatCanonicalUtcIsoNanoseconds attemptedEpochNs of Inl _ \<Rightarrow> None | Inr s \<Rightarrow> Some s)
                else None))
     in case attempted of Some s \<Rightarrow> Inr s | None \<Rightarrow> formatCanonicalUtcIsoNanoseconds (minimumEpochNs + 1))"

end
