(* ===== verification/Effects.thy ===== *)
theory Effects
  imports Prelude
begin

section \<open>Preconditions of effectful code\<close>

text \<open>
  \<open>wp m Q s\<close>: running \<open>m\<close> from \<open>s\<close> ends in a result and a state with \<open>Q\<close>, whether it returns or throws. The
  equations in \<open>wp_simps\<close> follow the structure of the code; \<open>wp_mono\<close> applies what is known of a subroutine.
\<close>

definition wp :: "('s, 'e, 'a) sm \<Rightarrow> ('e + 'a \<Rightarrow> 's \<Rightarrow> bool) \<Rightarrow> 's \<Rightarrow> bool" where
  "wp m Q s = (case m s of (r, t) \<Rightarrow> Q r t)"

named_theorems wp_simps \<open>preconditions by the structure of the code\<close>

text \<open>A \<open>try\<close> whose outcome is inspected afterwards, and \<open>Promise.all\<close> on operations that start in order.\<close>

definition sattempt :: "('s, 'e, 'a) sm \<Rightarrow> ('s, 'x, 'e + 'a) sm" where
  "sattempt m s = (case m s of (r, s') \<Rightarrow> (Inr r, s'))"

fun sallSettled :: "('s, 'e, 'a) sm list \<Rightarrow> ('s, 'e, ('e + 'a) list) sm" where
  "sallSettled [] = sreturn []"
| "sallSettled (m # ms) = sbind (sattempt m) (\<lambda>r. sbind (sallSettled ms) (\<lambda>rs. sreturn (r # rs)))"

definition promiseAll :: "('s, 'e, 'a) sm list \<Rightarrow> ('s, 'e, 'a list) sm" where
  "promiseAll ms = sbind (sallSettled ms) (\<lambda>rs. slift (emapM (\<lambda>r. r) rs))"

lemma wp_basic [wp_simps]:
  "wp (sreturn x) Q s = Q (Inr x) s"
  "wp (sthrow e) Q s = Q (Inl e) s"
  "wp (slift r) Q s = Q r s"
  "wp (sget f) Q s = Q (Inr (f s)) s"
  by (simp_all add: wp_def)

lemma wp_unit [wp_simps]:
  "wp (smodify g) Q s = Q (Inr ()) (g s)"
  "wp (sguard b e) Q s = (if b then Q (Inl e) s else Q (Inr ()) s)"
  by (simp_all add: wp_def sguard_run)

lemma wp_sbind [wp_simps]:
  "wp (sbind m f) Q s = wp m (\<lambda>r t. case r of Inl e \<Rightarrow> Q (Inl e) t | Inr x \<Rightarrow> wp (f x) Q t) s"
  by (simp add: wp_def sbind_def split: prod.splits sum.splits)

lemma wp_scatch [wp_simps]:
  "wp (scatch m h) Q s = wp m (\<lambda>r t. case r of Inl e \<Rightarrow> wp (h e) Q t | Inr x \<Rightarrow> Q (Inr x) t) s"
  by (simp add: wp_def scatch_def split: prod.splits sum.splits)

lemma wp_sfinally [wp_simps]:
  "wp (sfinally m c) Q s = wp m (\<lambda>r t. wp c (\<lambda>r' u. case r' of Inl e \<Rightarrow> Q (Inl e) u | Inr _ \<Rightarrow> Q r u) t) s"
  by (simp add: wp_def sfinally_def split: prod.splits sum.splits)

lemma wp_sattempt [wp_simps]: "wp (sattempt m) Q s = wp m (\<lambda>r t. Q (Inr r) t) s"
  by (simp add: wp_def sattempt_def split: prod.splits)

lemma wp_mono: "wp m Q s \<Longrightarrow> (\<And>r t. Q r t \<Longrightarrow> R r t) \<Longrightarrow> wp m R s"
  by (simp add: wp_def split: prod.splits)

lemma wp_conj: "wp m (\<lambda>r t. Q r t \<and> R r t) s \<longleftrightarrow> wp m Q s \<and> wp m R s"
  by (simp add: wp_def split: prod.splits)

lemma wpD: "wp m Q s \<Longrightarrow> m s = (r, t) \<Longrightarrow> Q r t"
  by (simp add: wp_def)

lemma wpI: "(\<And>r t. m s = (r, t) \<Longrightarrow> Q r t) \<Longrightarrow> wp m Q s"
  by (simp add: wp_def split: prod.splits)

text \<open>
  An invariant of the states a computation passes through, as a preorder between the state before and after.
  A locale instance gives the rules for one preorder; they are applied by the structure of the code.
\<close>

locale step_preorder =
  fixes rel :: "'s \<Rightarrow> 's \<Rightarrow> bool"
  assumes rel_refl: "rel s s"
    and rel_trans: "rel s t \<Longrightarrow> rel t u \<Longrightarrow> rel s u"
begin

lemma along_sbind: "(\<And>s. wp m (\<lambda>r. rel s) s) \<Longrightarrow> (\<And>x s. wp (f x) (\<lambda>r. rel s) s) \<Longrightarrow> wp (sbind m f) (\<lambda>r. rel s) s"
  unfolding wp_sbind by (rule wp_mono [of m "\<lambda>r. rel s"]) (auto split: sum.splits intro: wp_mono rel_trans)

lemma along_scatch: "(\<And>s. wp m (\<lambda>r. rel s) s) \<Longrightarrow> (\<And>e s. wp (h e) (\<lambda>r. rel s) s) \<Longrightarrow> wp (scatch m h) (\<lambda>r. rel s) s"
  unfolding wp_scatch by (rule wp_mono [of m "\<lambda>r. rel s"]) (auto split: sum.splits intro: wp_mono rel_trans)

lemma along_sfinally: "(\<And>s. wp m (\<lambda>r. rel s) s) \<Longrightarrow> (\<And>s. wp c (\<lambda>r. rel s) s) \<Longrightarrow> wp (sfinally m c) (\<lambda>r. rel s) s"
  unfolding wp_sfinally
  by (rule wp_mono [of m "\<lambda>r. rel s"], blast, rule wp_mono, blast) (auto split: sum.splits intro: rel_trans)

lemma along_sattempt: "(\<And>s. wp m (\<lambda>r. rel s) s) \<Longrightarrow> wp (sattempt m) (\<lambda>r. rel s) s"
  by (simp add: wp_sattempt)

lemma along_silent:
  "wp (sreturn x) (\<lambda>r. rel s) s" "wp (sthrow e) (\<lambda>r. rel s) s" "wp (slift y) (\<lambda>r. rel s) s"
  "wp (sget g) (\<lambda>r. rel s) s" "wp (sguard b e') (\<lambda>r. rel s) s"
  by (simp_all add: wp_basic wp_unit rel_refl)

end

text \<open>The branches of the code; stated for any precondition.\<close>

lemma wp_branches:
  "(b \<Longrightarrow> wp x Q s) \<Longrightarrow> (\<not> b \<Longrightarrow> wp y Q s) \<Longrightarrow> wp (if b then x else y) Q s"
  "(v = None \<Longrightarrow> wp x Q s) \<Longrightarrow> (\<And>a. v = Some a \<Longrightarrow> wp (f a) Q s) \<Longrightarrow> wp (case v of None \<Rightarrow> x | Some a \<Rightarrow> f a) Q s"
  "(\<And>a b. p = (a, b) \<Longrightarrow> wp (g a b) Q s) \<Longrightarrow> wp (case p of (a, b) \<Rightarrow> g a b) Q s"
  "(\<And>a. u = Inl a \<Longrightarrow> wp (h a) Q s) \<Longrightarrow> (\<And>a. u = Inr a \<Longrightarrow> wp (k a) Q s) \<Longrightarrow> wp (case u of Inl a \<Rightarrow> h a | Inr a \<Rightarrow> k a) Q s"
  "(l = [] \<Longrightarrow> wp x Q s) \<Longrightarrow> (\<And>a as. l = a # as \<Longrightarrow> wp (c a as) Q s) \<Longrightarrow> wp (case l of [] \<Rightarrow> x | a # as \<Rightarrow> c a as) Q s"
  by (auto split: option.splits prod.splits sum.splits list.splits)

end
