(* ===== verification/ExecutionService.thy ===== *)
theory ExecutionService
  imports ExecutionHelpers OwnershipGuard Effects
begin

section \<open>The execution service\<close>

text \<open>
  \<open>src/src/modules/execution/execution-service.ts\<close>: submitting an order from a decision. The dependencies (repositories,
  lease store, operator state, pilot repository, exchange adapter, runtime ownership, reporter, clocks, identifiers)
  are a record of operations on an arbitrary world \<open>'w\<close>; each may throw, and what other callbacks do to the world
  while one is awaited is part of its effect. The state of a submission is the world, the method's local flags as
  the code assigns them, and a record of the calls made so far with their results. Nothing reads that record: it
  is there to speak about the order of calls. \<open>createOrder\<close> starts the request and returns its promise, here the
  computation that awaits it.
\<close>

subsection \<open>Dependencies\<close>

record 'w validator =
  va_getOrderChance :: "SupportedMarket \<Rightarrow> ('w, js_error, UpbitOrderChance) sm"
  va_testOrder :: "UpbitOrderRequest \<Rightarrow> ('w, js_error, OrderValidationResult) sm"

record 'w ownership =
  ow_assertLocallyHeld :: "('w, js_error, unit) sm"
  ow_assertCurrent :: "int \<Rightarrow> ('w, js_error, RuntimeOwnershipRecord) sm"
  ow_currentExecutionAuthority ::
    "(AssertCurrentExecutionAuthorityInput \<Rightarrow> ('w, js_error, CurrentRuntimeExecutionAuthority) sm) option"

datatype CandidateIntentFaultStage = STAGE_DUPLICATE | DERIVATION | PERSISTENCE | FINAL_REVALIDATION

record PauseCandidateIntentFaultInput =
  pf_deploymentId :: string
  pf_exchangeAccountId :: string
  pf_stage :: CandidateIntentFaultStage
  pf_strategyDecisionId :: string
  pf_orderId :: string
  pf_bindingId :: string
  pf_faultId :: string
  pf_reasonCode :: string
  pf_provenanceJson :: string
  pf_occurredAt :: string

record 'w pilots =
  pl_getDeployment :: "string \<Rightarrow> ('w, js_error, PositionGuardPilotDeploymentRecord option) sm"
  pl_getExactState :: "string \<Rightarrow> ('w, js_error, ExactCandidateState option) sm"
  pl_getExecutionBindingForOrder :: "string \<Rightarrow> ('w, js_error, CandidateExecutionBindingRecord option) sm"
  pl_pauseForCandidateIntentFault :: "PauseCandidateIntentFaultInput \<Rightarrow> ('w, js_error, unit) sm"

record OperatorReport =
  rt_exchangeAccountId :: string
  rt_notificationType :: string
  rt_severity :: string
  rt_title :: string
  rt_message :: string
  rt_payload :: json

type_synonym 'w promise = "('w, js_error, ExchangeOrderSnapshot) sm"

record 'w exec_deps =
  xd_riskLimits :: ExecutionRiskLimits
  xd_sendPath :: SendPath
  xd_createOrder :: "UpbitOrderRequest \<Rightarrow> ('w, js_error, 'w promise) sm"
  xd_executionValidator :: "'w validator"
  xd_validationAdapter :: "'w validator option"
  xd_findOrderByIdempotencyKey :: "string \<Rightarrow> string \<Rightarrow> ('w, js_error, OrderRecord option) sm"
  xd_listActiveOrders :: "string \<Rightarrow> ('w, js_error, OrderRecord list) sm"
  xd_getPortfolioExposure :: "string \<Rightarrow> ('w, js_error, PortfolioExposureSnapshot) sm"
  xd_saveRiskEvent :: "RiskEventRecord \<Rightarrow> ('w, js_error, unit) sm"
  xd_persistOrderIntent :: "PersistOrderIntentInput \<Rightarrow> ('w, js_error, unit) sm"
  xd_persistCandidateBoundOrderIntent :: "PersistCandidateBoundOrderIntentRequest \<Rightarrow> ('w, js_error, unit) sm"
  xd_updateOrder :: "OrderRecord \<Rightarrow> ('w, js_error, unit) sm"
  xd_listSubmissionBlockingOrders :: "string \<Rightarrow> int \<Rightarrow> ('w, js_error, OrderRecord list) sm"
  xd_findOrderById :: "string \<Rightarrow> string \<Rightarrow> ('w, js_error, OrderRecord option) sm"
  xd_persistExchangeSubmission :: "PersistExchangeSubmissionInput \<Rightarrow> ('w, js_error, unit) sm"
  xd_persistUncertainSubmission :: "PersistUncertainSubmissionInput \<Rightarrow> ('w, js_error, unit) sm"
  xd_listOrderEvents :: "string \<Rightarrow> ('w, js_error, OrderEventRecord list) sm"
  xd_getStrategyDecisionById :: "(string \<Rightarrow> ('w, js_error, StrategyDecisionRecord option) sm) option"
  xd_acquireLease :: "AcquireAccountExecutionLeaseInput \<Rightarrow> ('w, js_error, AccountExecutionLeaseRecord option) sm"
  xd_renewLease :: "RenewAccountExecutionLeaseInput \<Rightarrow> ('w, js_error, AccountExecutionLeaseRecord option) sm"
  xd_releaseLease :: "string \<Rightarrow> string \<Rightarrow> ('w, js_error, bool) sm"
  xd_accountExecutionLeaseMs :: jsnum
  xd_getState :: "('w, js_error, ExecutionStateRecord) sm"
  xd_pauseForFault :: "FaultPauseInput \<Rightarrow> ('w, js_error, ExecutionStateRecord) sm"
  xd_runtimeOwnership :: "'w ownership option"
  xd_candidatePilots :: "'w pilots option"
  xd_reporter :: "(OperatorReport \<Rightarrow> ('w, js_error, unit) sm) option"
  xd_currentTimestamp :: "'w \<Rightarrow> string \<times> 'w"
  xd_wallClock :: "'w \<Rightarrow> string \<times> 'w"
  xd_dateNow :: "'w \<Rightarrow> int \<times> 'w"
  xd_createId :: "string \<Rightarrow> 'w \<Rightarrow> string \<times> 'w"
  xd_sha256 :: "string \<Rightarrow> string"
  xd_legacyDateParse :: "string \<Rightarrow> jsnum"

definition throwRuntimeOwnershipNotHeld :: "('w, js_error, 'a) sm" where
  "throwRuntimeOwnershipNotHeld = sthrow (RuntimeOwnershipGuardError RUNTIME_OWNERSHIP_NOT_HELD
     ''RUNTIME_OWNERSHIP_NOT_HELD: Runtime ownership is unavailable in this composition.'')"

definition createUnavailableRuntimeOwnershipAuthority :: "'w ownership" where
  "createUnavailableRuntimeOwnershipAuthority = \<lparr>ow_assertLocallyHeld = throwRuntimeOwnershipNotHeld,
     ow_assertCurrent = (\<lambda>_. throwRuntimeOwnershipNotHeld), ow_currentExecutionAuthority = None\<rparr>"

definition runtimeOwnership :: "'w exec_deps \<Rightarrow> 'w ownership" where
  "runtimeOwnership deps = (case xd_runtimeOwnership deps of
     None \<Rightarrow> createUnavailableRuntimeOwnershipAuthority | Some authority \<Rightarrow> authority)"

subsection \<open>Calls and the state of a submission\<close>

datatype call =
    CAssertLocallyHeld "unit res"
  | CAssertCurrent int "RuntimeOwnershipRecord res"
  | CExecutionAuthority AssertCurrentExecutionAuthorityInput "CurrentRuntimeExecutionAuthority res"
  | CFindOrderByIdempotencyKey string string "OrderRecord option res"
  | CAcquireLease AcquireAccountExecutionLeaseInput "AccountExecutionLeaseRecord option res"
  | CRenewLease RenewAccountExecutionLeaseInput "AccountExecutionLeaseRecord option res"
  | CReleaseLease string string "bool res"
  | CListActiveOrders string "OrderRecord list res"
  | CGetState "ExecutionStateRecord res"
  | CGetPortfolioExposure string "PortfolioExposureSnapshot res"
  | CSaveRiskEvent RiskEventRecord "unit res"
  | CGetOrderChance SupportedMarket "UpbitOrderChance res"
  | CTestOrder UpbitOrderRequest "OrderValidationResult res"
  | CPersistOrderIntent PersistOrderIntentInput "unit res"
  | CPersistCandidateIntent PersistCandidateBoundOrderIntentRequest "unit res"
  | CUpdateOrder OrderRecord "unit res"
  | CListSubmissionBlockingOrders string int "OrderRecord list res"
  | CFindOrderById string string "OrderRecord option res"
  | CCreateOrder UpbitOrderRequest "unit res"
  | CAwaitOrder "ExchangeOrderSnapshot res"
  | CPersistExchangeSubmission PersistExchangeSubmissionInput "unit res"
  | CPersistUncertainSubmission PersistUncertainSubmissionInput "unit res"
  | CPauseForFault FaultPauseInput "ExecutionStateRecord res"
  | CPauseForCandidateFault PauseCandidateIntentFaultInput "unit res"
  | CListOrderEvents string "OrderEventRecord list res"
  | CGetStrategyDecision string "StrategyDecisionRecord option res"
  | CGetDeployment string "PositionGuardPilotDeploymentRecord option res"
  | CGetExactState string "ExactCandidateState option res"
  | CGetBinding string "CandidateExecutionBindingRecord option res"
  | CReport OperatorReport "unit res"

record 'w run =
  ru_world :: 'w
  ru_calls :: "call list"
  ru_releaseLease :: bool
  ru_createOrderInvoked :: bool
  ru_finalCheckStarted :: bool
  ru_ownershipAssertionFailed :: bool
  ru_promise :: "'w promise option"

type_synonym ('w, 'a) xm = "('w run, js_error, 'a) sm"

definition invokeAs :: "('a \<Rightarrow> 'b) \<Rightarrow> ('b res \<Rightarrow> call) \<Rightarrow> ('w, js_error, 'a) sm \<Rightarrow> ('w, 'a) xm" where
  "invokeAs view k m r = (case m (ru_world r) of (res, w) \<Rightarrow>
     (res, r\<lparr>ru_world := w, ru_calls := ru_calls r @ [k (map_sum id view res)]\<rparr>))"

definition invoke :: "('a res \<Rightarrow> call) \<Rightarrow> ('w, js_error, 'a) sm \<Rightarrow> ('w, 'a) xm" where
  "invoke k m = invokeAs id k m"

text \<open>Clocks and identifiers do not throw and leave no trace.\<close>

definition draw :: "('w \<Rightarrow> 'a \<times> 'w) \<Rightarrow> ('w, 'a) xm" where
  "draw f r = (case f (ru_world r) of (x, w) \<Rightarrow> (Inr x, r\<lparr>ru_world := w\<rparr>))"

abbreviation currentTimestamp :: "'w exec_deps \<Rightarrow> ('w, string) xm" where
  "currentTimestamp deps \<equiv> draw (xd_currentTimestamp deps)"

abbreviation createId :: "'w exec_deps \<Rightarrow> string \<Rightarrow> ('w, string) xm" where
  "createId deps prefix \<equiv> draw (xd_createId deps prefix)"

abbreviation setReleaseLease :: "bool \<Rightarrow> ('w, unit) xm" where
  "setReleaseLease b \<equiv> smodify (\<lambda>r. r\<lparr>ru_releaseLease := b\<rparr>)"

subsection \<open>Risk events, reports and pauses\<close>

definition createRiskEvent ::
  "'w exec_deps \<Rightarrow> string \<Rightarrow> string option \<Rightarrow> RiskRuleCode \<Rightarrow> string \<Rightarrow> json \<Rightarrow> string option \<Rightarrow> ('w, RiskEventRecord) xm" where
  "createRiskEvent deps exchangeAccountId strategyDecisionId ruleCode message payload orderId =
     sbind (createId deps ''risk_event'') (\<lambda>i.
     sbind (draw (xd_wallClock deps)) (\<lambda>createdAt.
     sreturn \<lparr>rk_id = i, rk_exchangeAccountId = exchangeAccountId, rk_strategyDecisionId = strategyDecisionId,
       rk_orderId = orderId, rk_level = BLOCK, rk_ruleCode = ruleCode, rk_message = message,
       rk_payloadJson = stringify payload, rk_createdAt = createdAt\<rparr>))"

definition saveRiskEventOf ::
  "'w exec_deps \<Rightarrow> string \<Rightarrow> string option \<Rightarrow> RiskRuleCode \<Rightarrow> string \<Rightarrow> json \<Rightarrow> string option \<Rightarrow> ('w, unit) xm" where
  "saveRiskEventOf deps exchangeAccountId strategyDecisionId ruleCode message payload orderId =
     sbind (createRiskEvent deps exchangeAccountId strategyDecisionId ruleCode message payload orderId) (\<lambda>event.
     invoke (CSaveRiskEvent event) (xd_saveRiskEvent deps event))"

definition safeReport :: "'w exec_deps \<Rightarrow> OperatorReport \<Rightarrow> ('w, unit) xm" where
  "safeReport deps input = (case xd_reporter deps of
     None \<Rightarrow> sreturn ()
   | Some report \<Rightarrow> scatch (invoke (CReport input) (report input)) (\<lambda>_. sreturn ()))"

definition servicePauseForFault :: "'w exec_deps \<Rightarrow> FaultPauseInput \<Rightarrow> ('w, unit) xm" where
  "servicePauseForFault deps input =
     scatch (sbind (invoke (CPauseForFault input) (xd_pauseForFault deps input)) (\<lambda>_. sreturn ()))
       (\<lambda>_. sthrow (AutomaticFaultPauseSafetyError ''Automatic fault pause could not be persisted.''))"

definition faultInput :: "string \<Rightarrow> string \<Rightarrow> string \<Rightarrow> string \<Rightarrow> FaultPauseInput" where
  "faultInput exchangeAccountId faultId reason occurredAt =
     \<lparr>fp_exchangeAccountId = exchangeAccountId, fp_faultId = faultId, fp_reason = reason, fp_occurredAt = occurredAt,
      fp_transitionAt = None\<rparr>"

definition recordLeaseBlockedAndPause ::
  "'w exec_deps \<Rightarrow> SubmitOrderFromDecisionInput \<Rightarrow> string \<Rightarrow> SupportedMarket \<Rightarrow> string \<Rightarrow> string \<Rightarrow> string option \<Rightarrow> ('w, unit) xm" where
  "recordLeaseBlockedAndPause deps input idempotencyKey market occurredAt reason orderId =
     sbind (sattempt (saveRiskEventOf deps (si_exchangeAccountId input) (si_strategyDecisionId input)
       ACCOUNT_EXECUTION_LEASE_BLOCKED reason
       (JObject [(''idempotencyKey'', JString idempotencyKey), (''market'', JString (marketStr market)),
         (''occurredAt'', JString occurredAt)]) orderId)) (\<lambda>evidence.
     sbind (sattempt (servicePauseForFault deps (faultInput (si_exchangeAccountId input)
       (''account-execution-lease:'' @ idempotencyKey) reason occurredAt))) (\<lambda>paused.
     case (evidence, paused) of
       (Inl riskEvidenceFailure, Inl pauseFailure) \<Rightarrow>
         sthrow (LeaseBlockPersistenceSafetyError
           ''Account execution lease risk evidence and automatic fault pause could not be persisted.''
           (Some riskEvidenceFailure) (Some pauseFailure))
     | (_, Inl pauseFailure) \<Rightarrow> sthrow pauseFailure
     | (Inl riskEvidenceFailure, _) \<Rightarrow>
         sthrow (LeaseBlockPersistenceSafetyError
           ''Account execution lease risk evidence could not be persisted after automatic pause.''
           (Some riskEvidenceFailure) None)
     | _ \<Rightarrow> sreturn ()))"

definition releaseLeaseOrFail ::
  "'w exec_deps \<Rightarrow> SubmitOrderFromDecisionInput \<Rightarrow> string \<Rightarrow> SupportedMarket \<Rightarrow> string \<Rightarrow> string \<Rightarrow> ('w, unit) xm" where
  "releaseLeaseOrFail deps input idempotencyKey market occurredAt leaseOwnerToken =
     sbind (sattempt (invoke (CReleaseLease (si_exchangeAccountId input) leaseOwnerToken)
       (xd_releaseLease deps (si_exchangeAccountId input) leaseOwnerToken))) (\<lambda>released.
     if released = Inr True then sreturn ()
     else sbind (recordLeaseBlockedAndPause deps input idempotencyKey market occurredAt
            ''Account execution lease release is ambiguous; execution remains paused pending recovery.'' None) (\<lambda>_.
          sthrow (AccountExecutionLeaseSafetyError ''Account execution lease release is ambiguous.'')))"

definition throwPostSendPersistenceFailure :: "'w exec_deps \<Rightarrow> OrderRecord \<Rightarrow> string \<Rightarrow> string \<Rightarrow> string \<Rightarrow> ('w, 'a) xm" where
  "throwPostSendPersistenceFailure deps ord exchangeAccountId occurredAt reason =
     sbind (servicePauseForFault deps (faultInput exchangeAccountId (''post-send-persistence:'' @ or_id ord) reason occurredAt)) (\<lambda>_.
     sthrow (PostSendPersistenceSafetyError reason))"

subsection \<open>Validation with the exchange before the trade\<close>

definition ruleCodeStr :: "RiskRuleCode \<Rightarrow> string" where
  "ruleCodeStr code = (case code of
     GLOBAL_KILL_SWITCH \<Rightarrow> ''GLOBAL_KILL_SWITCH'' | EXECUTION_PAUSED \<Rightarrow> ''EXECUTION_PAUSED'' | SYSTEM_DEGRADED \<Rightarrow> ''SYSTEM_DEGRADED''
   | PER_ASSET_MAX_ALLOCATION \<Rightarrow> ''PER_ASSET_MAX_ALLOCATION'' | TOTAL_EXPOSURE_CAP \<Rightarrow> ''TOTAL_EXPOSURE_CAP''
   | STALE_PRICE_GUARD \<Rightarrow> ''STALE_PRICE_GUARD'' | DUPLICATE_ORDER_GUARD \<Rightarrow> ''DUPLICATE_ORDER_GUARD''
   | MINIMUM_ORDER_VALUE_GUARD \<Rightarrow> ''MINIMUM_ORDER_VALUE_GUARD'' | LIVE_EXECUTION_DISABLED \<Rightarrow> ''LIVE_EXECUTION_DISABLED''
   | UNSUPPORTED_MARKET \<Rightarrow> ''UNSUPPORTED_MARKET'' | UNSUPPORTED_ORDER_TYPE \<Rightarrow> ''UNSUPPORTED_ORDER_TYPE''
   | EXCHANGE_MIN_TOTAL_GUARD \<Rightarrow> ''EXCHANGE_MIN_TOTAL_GUARD'' | EXCHANGE_MAX_TOTAL_GUARD \<Rightarrow> ''EXCHANGE_MAX_TOTAL_GUARD''
   | MARKET_OFFLINE \<Rightarrow> ''MARKET_OFFLINE'' | EXCHANGE_ORDER_CHANCE_FAILED \<Rightarrow> ''EXCHANGE_ORDER_CHANCE_FAILED''
   | EXCHANGE_ORDER_TEST_FAILED \<Rightarrow> ''EXCHANGE_ORDER_TEST_FAILED'' | ORDER_RECOVERY_REQUIRED \<Rightarrow> ''ORDER_RECOVERY_REQUIRED''
   | BALANCE_DRIFT_DETECTED \<Rightarrow> ''BALANCE_DRIFT_DETECTED'' | POSITION_DRIFT_DETECTED \<Rightarrow> ''POSITION_DRIFT_DETECTED''
   | POSITION_GUARD_PILOT_UNCERTAIN_ORDER \<Rightarrow> ''POSITION_GUARD_PILOT_UNCERTAIN_ORDER''
   | ACCOUNT_EXECUTION_LEASE_BLOCKED \<Rightarrow> ''ACCOUNT_EXECUTION_LEASE_BLOCKED'')"

definition fillSnapshotJson :: "ExchangeFillSnapshot \<Rightarrow> json" where
  "fillSnapshotJson f = JObject
     [(''tradeUuid'', optJson JString (xf_tradeUuid f)), (''side'', JString (sideStr (xf_side f))), (''price'', JString (xf_price f)),
      (''volume'', JString (xf_volume f)), (''funds'', optJson JString (xf_funds f)), (''fee'', optJson JString (xf_fee f)),
      (''createdAt'', optJson JString (xf_createdAt f)), (''raw'', xf_raw f)]"

definition orderSnapshotJson :: "ExchangeOrderSnapshot \<Rightarrow> json" where
  "orderSnapshotJson x = JObject
     ([(''uuid'', JString (xo_uuid x)), (''identifier'', optJson JString (xo_identifier x)), (''market'', JString (marketStr (xo_market x))),
       (''side'', JString (sideStr (xo_side x))), (''ordType'', JString (ordTypeStr (xo_ordType x))), (''state'', JString (xo_state x)),
       (''price'', optJson JString (xo_price x)), (''volume'', optJson JString (xo_volume x))] @
      (case xo_timeInForce x of None \<Rightarrow> [] | Some t \<Rightarrow> [(''timeInForce'', optJson (JString \<circ> timeInForceStr) t)]) @
      (case xo_smpType x of None \<Rightarrow> [] | Some t \<Rightarrow> [(''smpType'', optJson (JString \<circ> smpStr) t)]) @
      [(''remainingVolume'', optJson JString (xo_remainingVolume x)), (''executedVolume'', optJson JString (xo_executedVolume x)),
       (''paidFee'', optJson JString (xo_paidFee x)), (''createdAt'', JString (xo_createdAt x)),
       (''fills'', JArray (map fillSnapshotJson (xo_fills x))), (''raw'', xo_raw x)])"

record PreTradeInput =
  pt_exchangeAccountId :: string
  pt_strategyDecisionId :: "string option"
  pt_market :: SupportedMarket
  pt_side :: OrderSide
  pt_ordType :: OrderType
  pt_price :: "string option"
  pt_volume :: "string option"
  pt_requestedAt :: string
  pt_requestedNotionalKrw :: "jsnum option"
  pt_identifier :: string
  pt_idempotencyKey :: string

datatype PreTradeValidation = PreTradeAccepted | PreTradeRejected RiskRuleCode string json

definition basePayload :: "PreTradeInput \<Rightarrow> (string \<times> json) list" where
  "basePayload i =
     [(''exchangeAccountId'', JString (pt_exchangeAccountId i)), (''strategyDecisionId'', optJson JString (pt_strategyDecisionId i)),
      (''market'', JString (marketStr (pt_market i))), (''side'', JString (sideStr (pt_side i))),
      (''ordType'', JString (ordTypeStr (pt_ordType i))), (''identifier'', JString (pt_identifier i)),
      (''idempotencyKey'', JString (pt_idempotencyKey i)), (''requestedAt'', JString (pt_requestedAt i)),
      (''requestedNotionalKrw'', optJson JNumber (pt_requestedNotionalKrw i)), (''price'', optJson JString (pt_price i)),
      (''volume'', optJson JString (pt_volume i))]"

text \<open>The checks of the order chance: market, order type, smallest and largest total.\<close>

definition checkOrderChance :: "PreTradeInput \<Rightarrow> UpbitOrderChance \<Rightarrow> PreTradeValidation" where
  "checkOrderChance i chance =
     (let market = marketStr (pt_market i);
          supportedTypes = (if pt_side i = Bid then ch_bidTypes chance else ch_askTypes chance);
          requiredType = resolveChanceTypeToken (pt_ordType i) None;
          exchangeMinTotal = (if pt_side i = Bid then ch_bidMinTotal chance else ch_askMinTotal chance);
          exchangeMaxTotal = map_option numberOf (ch_maxTotal chance);
          stage = (''stage'', JString ''getOrderChance'')
      in if ch_marketId chance \<noteq> market then
           PreTradeRejected UNSUPPORTED_MARKET
             (''Exchange order chance returned mismatched market '' @ ch_marketId chance @ '' for '' @ market @ ''.'')
             (JObject (basePayload i @ [stage, (''requestedMarket'', JString market), (''responseMarket'', JString (ch_marketId chance))]))
         else if requiredType \<notin> set supportedTypes then
           PreTradeRejected UNSUPPORTED_ORDER_TYPE
             (''Exchange order chance does not allow '' @ requiredType @ '' orders for '' @ sideStr (pt_side i) @ '' on '' @ market @ ''.'')
             (JObject (basePayload i @ [stage, (''supportedTypes'', JArray (map JString supportedTypes)), (''requiredType'', JString requiredType)]))
         else (case (pt_requestedNotionalKrw i, exchangeMinTotal) of
             (Some notional, Some minTotal) \<Rightarrow>
               if isFiniteNumber minTotal \<and> num_less notional minTotal then
                 PreTradeRejected EXCHANGE_MIN_TOTAL_GUARD
                   (''Requested order value is below exchange min total '' @ numberToString minTotal @ '' KRW for '' @ market @ ''.'')
                   (JObject (basePayload i @ [stage, (''requestedNotionalKrw'', JNumber notional), (''exchangeMinTotal'', JNumber minTotal)]))
               else (case exchangeMaxTotal of
                   Some maxTotal \<Rightarrow>
                     if isFiniteNumber maxTotal \<and> num_greater notional maxTotal then
                       PreTradeRejected EXCHANGE_MAX_TOTAL_GUARD
                         (''Requested order value exceeds exchange max total '' @ numberToString maxTotal @ '' KRW for '' @ market @ ''.'')
                         (JObject (basePayload i @ [stage, (''requestedNotionalKrw'', JNumber notional), (''exchangeMaxTotal'', JNumber maxTotal)]))
                     else PreTradeAccepted
                 | None \<Rightarrow> PreTradeAccepted)
           | (Some notional, None) \<Rightarrow>
               (case exchangeMaxTotal of
                   Some maxTotal \<Rightarrow>
                     if isFiniteNumber maxTotal \<and> num_greater notional maxTotal then
                       PreTradeRejected EXCHANGE_MAX_TOTAL_GUARD
                         (''Requested order value exceeds exchange max total '' @ numberToString maxTotal @ '' KRW for '' @ market @ ''.'')
                         (JObject (basePayload i @ [stage, (''requestedNotionalKrw'', JNumber notional), (''exchangeMaxTotal'', JNumber maxTotal)]))
                     else PreTradeAccepted
                 | None \<Rightarrow> PreTradeAccepted)
           | (None, _) \<Rightarrow> PreTradeAccepted))"

definition requestOf :: "SupportedMarket \<Rightarrow> SubmitOrderFromDecisionInput \<Rightarrow> string \<Rightarrow> UpbitOrderRequest" where
  "requestOf market input identifier = \<lparr>uq_market = market, uq_side = si_side input, uq_ordType = si_ordType input,
     uq_volume = si_volume input, uq_price = si_price input, uq_identifier = identifier, uq_timeInForce = None, uq_smpType = None\<rparr>"

definition runExchangePreTradeValidation ::
  "'w exec_deps \<Rightarrow> PreTradeInput \<Rightarrow> UpbitOrderRequest \<Rightarrow> ('w, PreTradeValidation) xm" where
  "runExchangePreTradeValidation deps i request =
     (let validator = (case xd_validationAdapter deps of Some v \<Rightarrow> v | None \<Rightarrow> xd_executionValidator deps) in
      sbind (sattempt (invoke (CGetOrderChance (pt_market i)) (va_getOrderChance validator (pt_market i)))) (\<lambda>chance.
      case chance of
        Inl error \<Rightarrow> sreturn (PreTradeRejected EXCHANGE_ORDER_CHANCE_FAILED
          (''Exchange order chance precheck failed: '' @ errorMessage error)
          (JObject (basePayload i @ [(''stage'', JString ''getOrderChance''), (''reason'', JString (errorMessage error))])))
      | Inr c \<Rightarrow>
          (case checkOrderChance i c of
             PreTradeRejected code message payload \<Rightarrow> sreturn (PreTradeRejected code message payload)
           | PreTradeAccepted \<Rightarrow>
               sbind (sattempt (invoke (CTestOrder request) (va_testOrder validator request))) (\<lambda>tested.
               case tested of
                 Inl error \<Rightarrow> sreturn (PreTradeRejected
                   (if contains ''market_offline'' (toLowerAscii (errorMessage error)) then MARKET_OFFLINE else EXCHANGE_ORDER_TEST_FAILED)
                   (''Exchange order test failed: '' @ errorMessage error)
                   (JObject (basePayload i @ [(''stage'', JString ''testOrder''), (''reason'', JString (errorMessage error))])))
               | Inr validation \<Rightarrow>
                   if vr_accepted validation then sreturn PreTradeAccepted
                   else sreturn (PreTradeRejected
                     (if vr_marketOnline validation then EXCHANGE_ORDER_TEST_FAILED else MARKET_OFFLINE)
                     (case vr_reason validation of Some r \<Rightarrow> r | None \<Rightarrow> ''Exchange order test rejected the request.'')
                     (JObject (basePayload i @ [(''stage'', JString ''testOrder''), (''marketOnline'', JBool (vr_marketOnline validation)),
                       (''reason'', optJson JString (vr_reason validation)), (''preview'', optJson orderSnapshotJson (vr_preview validation))])))))))"

subsection \<open>The candidate's side\<close>

definition stageStr :: "CandidateIntentFaultStage \<Rightarrow> string" where
  "stageStr stage = (case stage of STAGE_DUPLICATE \<Rightarrow> ''DUPLICATE'' | DERIVATION \<Rightarrow> ''DERIVATION''
     | PERSISTENCE \<Rightarrow> ''PERSISTENCE'' | FINAL_REVALIDATION \<Rightarrow> ''FINAL_REVALIDATION'')"

definition phaseStr :: "PositionGuardPilotPhase \<Rightarrow> string" where
  "phaseStr phase = (case phase of PHASE_DISABLED \<Rightarrow> ''DISABLED'' | PENDING_FLAT \<Rightarrow> ''PENDING_FLAT'' | ACTIVE \<Rightarrow> ''ACTIVE''
     | PAUSED_FAULT \<Rightarrow> ''PAUSED_FAULT'' | DRAINING \<Rightarrow> ''DRAINING'')"

type_synonym candidate_context = "CandidateExecutionAuthority \<times> StrategyDecisionRecord"

definition candidateProvenance ::
  "candidate_context \<Rightarrow> SubmitOrderFromDecisionInput \<Rightarrow> string \<Rightarrow> string \<Rightarrow> CandidateIntentFaultStage \<Rightarrow> json" where
  "candidateProvenance ctx input orderId bindingId stage = (let (authority, decision) = ctx in JObject
     [(''schemaVersion'', JString ''CANDIDATE_INTENT_FAULT_V1''), (''stage'', JString (stageStr stage)),
      (''deploymentId'', JString (xa_deploymentId authority)), (''exchangeAccountId'', JString (xa_exchangeAccountId authority)),
      (''strategyDecisionId'', JString (sd_id decision)), (''orderId'', JString orderId), (''bindingId'', JString bindingId),
      (''market'', JString (marketStr (xa_market authority))), (''action'', JString (actionStr (sd_action decision))),
      (''side'', JString (sideStr (si_side input))), (''ordType'', JString (ordTypeStr (si_ordType input))),
      (''price'', optJson JString (si_price input)), (''volume'', optJson JString (si_volume input)),
      (''expectedPhase'', JString (phaseStr (xa_expectedPhase authority))),
      (''expectedDeploymentUpdatedAt'', JString (xa_expectedDeploymentUpdatedAt authority)),
      (''expectedStateVersion'', JInt (xa_expectedStateVersion authority))])"

definition pauseCandidateIntentFault ::
  "'w exec_deps \<Rightarrow> candidate_context \<Rightarrow> SubmitOrderFromDecisionInput \<Rightarrow> string \<Rightarrow> string \<Rightarrow> CandidateIntentFaultStage \<Rightarrow> string \<Rightarrow>
   ('w, unit) xm" where
  "pauseCandidateIntentFault deps ctx input orderId bindingId stage occurredAt = (case xd_candidatePilots deps of
     None \<Rightarrow> sthrow (CandidateExecutionSafetyError ''Candidate recovery dependency is unavailable; lease remains retained.'')
   | Some pilots \<Rightarrow>
       (let provenanceJson = stringify (candidateProvenance ctx input orderId bindingId stage);
            fault = \<lparr>pf_deploymentId = xa_deploymentId (fst ctx), pf_exchangeAccountId = xa_exchangeAccountId (fst ctx), pf_stage = stage,
              pf_strategyDecisionId = sd_id (snd ctx), pf_orderId = orderId, pf_bindingId = bindingId,
              pf_faultId = ''candidate-intent:'' @ xd_sha256 deps provenanceJson,
              pf_reasonCode = (if stage = PERSISTENCE then ''ACTIVATION_CAS_CONFLICT'' else ''IDENTITY_MISMATCH''),
              pf_provenanceJson = provenanceJson, pf_occurredAt = occurredAt\<rparr>
        in scatch (invoke (CPauseForCandidateFault fault) (pl_pauseForCandidateIntentFault pilots fault))
             (\<lambda>_. sthrow (CandidateExecutionSafetyError
                ''Candidate intent failure could not be atomically paused; lease remains retained.''))))"

text \<open>A failed step of the candidate path: pause, then refuse.\<close>

definition candidateFault ::
  "'w exec_deps \<Rightarrow> candidate_context \<Rightarrow> SubmitOrderFromDecisionInput \<Rightarrow> string \<Rightarrow> string \<Rightarrow> CandidateIntentFaultStage \<Rightarrow> string res \<Rightarrow>
   string \<Rightarrow> ('w, 'a) xm" where
  "candidateFault deps ctx input orderId bindingId stage occurredAt message =
     sbind (slift occurredAt) (\<lambda>at0.
     sbind (pauseCandidateIntentFault deps ctx input orderId bindingId stage at0) (\<lambda>_.
     sthrow (CandidateExecutionSafetyError message)))"

definition prepareCandidateContext ::
  "'w exec_deps \<Rightarrow> SubmitOrderFromDecisionInput \<Rightarrow> SupportedMarket \<Rightarrow> ('w, candidate_context option) xm" where
  "prepareCandidateContext deps input market = (case si_candidateAuthority input of
     None \<Rightarrow> sreturn None
   | Some candidateAuthority \<Rightarrow>
       (case validateCandidateExecutionAuthority candidateAuthority of
          Inl _ \<Rightarrow> sthrow (CandidateExecutionSafetyError ''Candidate execution authority is malformed.'')
        | Inr authority \<Rightarrow>
            (case (xd_candidatePilots deps, xd_getStrategyDecisionById deps) of
               (Some pilots, Some getDecision) \<Rightarrow>
                 (case si_strategyDecisionId input of
                    Some decisionId \<Rightarrow>
                      if xa_exchangeAccountId authority \<noteq> si_exchangeAccountId input \<or> xa_market authority \<noteq> market \<or>
                         dc_strategyKey (si_decision input) \<noteq> xa_strategyKey authority \<or>
                         (case si_origin input of None \<Rightarrow> STRATEGY | Some origin \<Rightarrow> origin) \<noteq> STRATEGY
                      then sthrow (CandidateExecutionSafetyError ''Candidate execution authority does not match the submitted route.'')
                      else
                      sbind (invoke (CGetStrategyDecision decisionId) (getDecision decisionId)) (\<lambda>found.
                      case found of
                        None \<Rightarrow> sthrow (CandidateExecutionSafetyError
                          ''Persisted candidate strategy decision does not match the submitted authority and decision.'')
                      | Some decision \<Rightarrow>
                          if sd_id decision \<noteq> decisionId \<or> sd_exchangeAccountId decision \<noteq> si_exchangeAccountId input \<or>
                             sd_market decision \<noteq> xa_market authority \<or> sd_strategyKey decision \<noteq> xa_strategyKey authority \<or>
                             sd_action decision \<noteq> dc_action (si_decision input) \<or> sd_status decision \<noteq> READY \<or>
                             sd_referencePrice decision \<noteq> Some (numberToString (dc_referencePrice (si_decision input)))
                          then sthrow (CandidateExecutionSafetyError
                            ''Persisted candidate strategy decision does not match the submitted authority and decision.'')
                          else
                          sbind (slift (nullableDecisionNotionalString (si_decision input))) (\<lambda>notional.
                          if sd_intendedNotionalKrw decision \<noteq> notional \<or>
                             sd_intendedQuantity decision \<noteq> nullableNumberString (dc_requestedQuantity (si_decision input))
                          then sthrow (CandidateExecutionSafetyError
                            ''Persisted candidate strategy decision does not match the submitted authority and decision.'')
                          else sreturn (Some (authority, decision))))
                  | None \<Rightarrow> sthrow (CandidateExecutionSafetyError
                      ''Candidate execution authority does not match the submitted route.''))
             | _ \<Rightarrow> sthrow (CandidateExecutionSafetyError
                 ''Candidate execution dependencies are not configured; order submission is blocked.''))))"

definition assertExactCandidateDuplicate ::
  "'w exec_deps \<Rightarrow> candidate_context \<Rightarrow> OrderRecord \<Rightarrow> string \<Rightarrow> ('w, string) xm" where
  "assertExactCandidateDuplicate deps ctx duplicate idempotencyKey = (case xd_candidatePilots deps of
     None \<Rightarrow> sthrow (Error ''Candidate duplicate validation requires the candidate repository.'')
   | Some pilots \<Rightarrow>
       sbind (invoke (CGetBinding (or_id duplicate)) (pl_getExecutionBindingForOrder pilots (or_id duplicate))) (\<lambda>found.
       case found of
         None \<Rightarrow> sthrow (Error ''Candidate duplicate order has no persisted execution binding.'')
       | Some binding \<Rightarrow>
           sbind (slift (validateCandidateExecutionBinding (xd_sha256 deps) binding)) (\<lambda>_.
           sbind (sattempt (invoke (CGetDeployment (xa_deploymentId (fst ctx))) (pl_getDeployment pilots (xa_deploymentId (fst ctx))))) (\<lambda>rd.
           sbind (sattempt (invoke (CGetExactState (xa_deploymentId (fst ctx))) (pl_getExactState pilots (xa_deploymentId (fst ctx))))) (\<lambda>rs.
           sbind (sattempt (invoke (CListOrderEvents (or_id duplicate)) (xd_listOrderEvents deps (or_id duplicate)))) (\<lambda>re.
           sbind (slift rd) (\<lambda>deployment. sbind (slift rs) (\<lambda>exactState. sbind (slift re) (\<lambda>events.
           let persistedEvents = filter (\<lambda>event. ev_eventType event = ''ORDER_PERSISTED'') events in
           case (deployment, exactState, persistedEvents) of
             (Some d, Some x, [persistedEvent]) \<Rightarrow>
               if matchesCandidateDuplicateOrder duplicate (snd ctx) idempotencyKey \<and>
                  matchesCandidateDuplicateBinding binding duplicate (snd ctx) (fst ctx) \<and>
                  matchesCandidateDuplicateDeployment d (xs_stateVersion x) (fst ctx) \<and>
                  matchesCandidateDuplicatePersistedEvent persistedEvent duplicate (snd ctx)
               then sreturn (bd_id binding)
               else sthrow (Error ''Candidate duplicate order, binding, decision, deployment, or event does not match authority.'')
           | _ \<Rightarrow> sthrow (Error ''Candidate duplicate order, binding, decision, deployment, or event does not match authority.''))))))))))"

text \<open>\<open>candidate\<close> is the context with the expected order, event and binding.\<close>

definition assertFinalCandidatePreSendAuthority ::
  "'w exec_deps \<Rightarrow> (candidate_context \<times> OrderRecord \<times> OrderEventRecord \<times> CandidateExecutionBindingRecord) option \<Rightarrow> ('w, unit) xm" where
  "assertFinalCandidatePreSendAuthority deps candidate = (case candidate of
     None \<Rightarrow> sreturn ()
   | Some ((authority, expectedDecision), expectedOrder, expectedEvent, expectedBinding) \<Rightarrow>
       (case (xd_candidatePilots deps, xd_getStrategyDecisionById deps) of
          (Some pilots, Some getDecision) \<Rightarrow>
            sbind (invoke (CListOrderEvents (or_id expectedOrder)) (xd_listOrderEvents deps (or_id expectedOrder))) (\<lambda>events.
            sbind (invoke (CGetStrategyDecision (sd_id expectedDecision)) (getDecision (sd_id expectedDecision))) (\<lambda>decision.
            sbind (invoke (CGetDeployment (xa_deploymentId authority)) (pl_getDeployment pilots (xa_deploymentId authority))) (\<lambda>deployment.
            sbind (invoke (CGetExactState (xa_deploymentId authority)) (pl_getExactState pilots (xa_deploymentId authority))) (\<lambda>exactState.
            sbind (invoke (CGetBinding (or_id expectedOrder)) (pl_getExecutionBindingForOrder pilots (or_id expectedOrder))) (\<lambda>binding.
            case (events, decision, deployment, exactState, binding) of
              ([firstEvent], Some dec, Some dep, Some exact, Some bnd) \<Rightarrow>
                sbind (slift (projectCandidateFinalBoundOrderIntent (xd_sha256 deps) expectedOrder expectedOrder firstEvent expectedEvent
                  dec expectedDecision bnd expectedBinding)) (\<lambda>projected.
                slift (validateCandidateBoundOrderIntent (xd_sha256 deps)
                  \<lparr>bi_order = fp_order projected, bi_event = fp_event projected, bi_binding = fp_binding projected,
                   bi_decision = fp_decision projected, bi_deployment = dep, bi_exactStateVersion = xs_stateVersion exact,
                   bi_expectedPhase = xa_expectedPhase authority,
                   bi_expectedDeploymentUpdatedAt = xa_expectedDeploymentUpdatedAt authority,
                   bi_expectedStateVersion = xa_expectedStateVersion authority\<rparr>))
            | _ \<Rightarrow> sthrow (Error ''candidate final persisted authority or intent material changed''))))))
        | _ \<Rightarrow> sthrow (Error ''candidate final pre-send dependencies are unavailable'')))"

subsection \<open>Fills\<close>

definition createDryRunSyntheticFill ::
  "'w exec_deps \<Rightarrow> string \<Rightarrow> SupportedMarket \<Rightarrow> SubmitOrderFromDecisionInput \<Rightarrow> jsnum option \<Rightarrow> string \<Rightarrow> json \<Rightarrow>
   ('w, FillRecord option) xm" where
  "createDryRunSyntheticFill deps orderId market input requestedNotionalKrw filledAt exchangeOrderRaw =
     (let referencePrice = dc_referencePrice (si_decision input);
          price = (if si_ordType input = Price then numberToString referencePrice
                   else (case si_price input of None \<Rightarrow> numberToString referencePrice | Some p \<Rightarrow> p));
          volume = (case si_volume input of Some v \<Rightarrow> Some v | None \<Rightarrow> deriveDryRunVolume requestedNotionalKrw referencePrice)
      in if \<not> truthyString volume \<or> num_le (numberOf (the volume)) (Num 0) \<or> num_le (numberOf price) (Num 0)
         then sreturn None
         else sbind (createId deps ''fill'') (\<lambda>fillId.
              sbind (createId deps ''dryrun_fill'') (\<lambda>exchangeFillId.
              sbind (slift (parsePositionGuardCandidateTimestamp filledAt ''dry-run synthetic fill timestamp'')) (\<lambda>epochNs.
              sreturn (Some \<lparr>fl_id = fillId, fl_orderId = orderId, fl_exchangeFillId = exchangeFillId, fl_market = market,
                fl_side = si_side input, fl_price = price, fl_volume = the volume, fl_feeCurrency = Some ''KRW'',
                fl_feeAmount = Some ''0'', fl_feeProvenance = Some SIMULATED,
                fl_executionTimestampProvenance = Some LOCAL_SYNTHETIC, fl_executionEpochNs = Some (bigintToString epochNs),
                fl_filledAt = filledAt,
                fl_rawPayloadJson = stringify (JObject [(''mode'', JString ''DRY_RUN''),
                  (''settlement'', JString ''SIMULATED_IMMEDIATE_FILL''), (''exchangeOrderRaw'', exchangeOrderRaw)])\<rparr>)))))"

definition exchangeFillRecord ::
  "'w exec_deps \<Rightarrow> string \<Rightarrow> SupportedMarket \<Rightarrow> ExchangeFillSnapshot \<Rightarrow> ('w, FillRecord) xm" where
  "exchangeFillRecord deps orderId market fill =
     (case directExchangeFillTimestamp (xf_createdAt fill) of (provenance, epochNanoseconds, filledAt) \<Rightarrow>
      sbind (createId deps ''fill'') (\<lambda>fillId.
      sbind (case xf_tradeUuid fill of Some uuid \<Rightarrow> sreturn uuid | None \<Rightarrow> createId deps ''exchange_fill'') (\<lambda>exchangeFillId.
      sreturn \<lparr>fl_id = fillId, fl_orderId = orderId, fl_exchangeFillId = exchangeFillId, fl_market = market,
        fl_side = xf_side fill, fl_price = xf_price fill, fl_volume = xf_volume fill, fl_feeCurrency = Some ''KRW'',
        fl_feeAmount = xf_fee fill,
        fl_feeProvenance = Some (if xf_fee fill = None then FEE_MISSING else FEE_EXCHANGE_FILL_CONFIRMED),
        fl_executionTimestampProvenance = Some provenance, fl_executionEpochNs = epochNanoseconds,
        fl_filledAt = filledAt, fl_rawPayloadJson = stringify (xf_raw fill)\<rparr>)))"

fun exchangeFillRecords ::
  "'w exec_deps \<Rightarrow> string \<Rightarrow> SupportedMarket \<Rightarrow> ExchangeFillSnapshot list \<Rightarrow> ('w, FillRecord list) xm" where
  "exchangeFillRecords deps orderId market [] = sreturn []"
| "exchangeFillRecords deps orderId market (fill # rest) =
     sbind (exchangeFillRecord deps orderId market fill) (\<lambda>f.
     sbind (exchangeFillRecords deps orderId market rest) (\<lambda>fs. sreturn (f # fs)))"

subsection \<open>Submitting an order\<close>

text \<open>
  The locals of one attempt: \<open>Attempt\<close> from the lease acquisition on, \<open>IntentMaterial\<close> from the persisted intent on.
\<close>

record Attempt =
  am_startedAt :: string
  am_market :: SupportedMarket
  am_idempotencyKey :: string
  am_leaseOwnerToken :: string
  am_acquisitionWindow :: LeaseWindow
  am_candidate :: "candidate_context option"

record IntentMaterial =
  im_order :: OrderRecord
  im_event :: OrderEventRecord
  im_candidate :: "(candidate_context \<times> CandidateExecutionBindingRecord) option"
  im_requestedNotionalKrw :: "jsnum option"

definition submittingOrderOf :: "IntentMaterial \<Rightarrow> OrderRecord" where
  "submittingOrderOf im = (im_order im)\<lparr>or_status := SUBMITTING, or_updatedAt := oi_requestedAt (im_order im)\<rparr>"

definition rejectedResult :: "string \<Rightarrow> SubmitOrderFromDecisionResult" where
  "rejectedResult reason = \<lparr>sr_accepted = False, sr_outcome = OUTCOME_REJECTED, sr_order = None, sr_reason = Some reason\<rparr>"

definition leaseBlockedResult :: "string \<Rightarrow> SubmitOrderFromDecisionResult" where
  "leaseBlockedResult reason = \<lparr>sr_accepted = False, sr_outcome = OUTCOME_LEASE_BLOCKED, sr_order = None, sr_reason = Some reason\<rparr>"

text \<open>A step whose failure keeps the lease.\<close>

definition retainingLease :: "('w, 'a) xm \<Rightarrow> ('w, 'a) xm" where
  "retainingLease m = scatch m (\<lambda>error. sbind (setReleaseLease False) (\<lambda>_. sthrow error))"

definition blockedUnderLease :: "'w exec_deps \<Rightarrow> SubmitOrderFromDecisionInput \<Rightarrow> Attempt \<Rightarrow> string \<Rightarrow> ('w, SubmitOrderFromDecisionResult) xm" where
  "blockedUnderLease deps input am message =
     sbind (retainingLease (recordLeaseBlockedAndPause deps input (am_idempotencyKey am) (am_market am) (am_startedAt am) message None)) (\<lambda>_.
     sreturn (leaseBlockedResult message))"

definition joinMessages :: "TriggeredRule list \<Rightarrow> string" where
  "joinMessages rules = concat (case map tg_message rules of [] \<Rightarrow> [] | m # ms \<Rightarrow> m # map (\<lambda>x. ''; '' @ x) ms)"

definition rejectByRisk ::
  "'w exec_deps \<Rightarrow> SubmitOrderFromDecisionInput \<Rightarrow> Attempt \<Rightarrow> TriggeredRule list \<Rightarrow> ('w, SubmitOrderFromDecisionResult) xm" where
  "rejectByRisk deps input am rules =
     sbind (promiseAll (map (\<lambda>rule. saveRiskEventOf deps (si_exchangeAccountId input) (si_strategyDecisionId input)
       (tg_code rule) (tg_message rule) (JObject []) None) rules)) (\<lambda>_.
     sbind (safeReport deps \<lparr>rt_exchangeAccountId = si_exchangeAccountId input, rt_notificationType = ''ORDER_REJECTED'',
       rt_severity = ''WARN'', rt_title = ''Order blocked by local risk policy'', rt_message = joinMessages rules,
       rt_payload = JObject [(''strategyDecisionId'', optJson JString (si_strategyDecisionId input)),
         (''market'', JString (marketStr (am_market am))), (''side'', JString (sideStr (si_side input))),
         (''ordType'', JString (ordTypeStr (si_ordType input))),
         (''reasonCodes'', JArray (map (\<lambda>rule. JString (ruleCodeStr (tg_code rule))) rules))]\<rparr>) (\<lambda>_.
     sreturn (rejectedResult (joinMessages rules))))"

definition rejectBeforeSubmission ::
  "'w exec_deps \<Rightarrow> SubmitOrderFromDecisionInput \<Rightarrow> Attempt \<Rightarrow> string \<Rightarrow> RiskRuleCode \<Rightarrow> string \<Rightarrow> json \<Rightarrow>
   ('w, SubmitOrderFromDecisionResult) xm" where
  "rejectBeforeSubmission deps input am identifier ruleCode message payload =
     sbind (saveRiskEventOf deps (si_exchangeAccountId input) (si_strategyDecisionId input) ruleCode message payload None) (\<lambda>_.
     sbind (safeReport deps \<lparr>rt_exchangeAccountId = si_exchangeAccountId input, rt_notificationType = ''ORDER_REJECTED'',
       rt_severity = ''WARN'', rt_title = ''Order rejected before submission'', rt_message = message,
       rt_payload = JObject [(''strategyDecisionId'', optJson JString (si_strategyDecisionId input)),
         (''market'', JString (marketStr (am_market am))), (''side'', JString (sideStr (si_side input))),
         (''ordType'', JString (ordTypeStr (si_ordType input))), (''identifier'', JString identifier),
         (''idempotencyKey'', JString (am_idempotencyKey am)), (''ruleCode'', JString (ruleCodeStr ruleCode))]\<rparr>) (\<lambda>_.
     sreturn (rejectedResult message)))"

definition orderRecordOf ::
  "'w exec_deps \<Rightarrow> SubmitOrderFromDecisionInput \<Rightarrow> Attempt \<Rightarrow> string \<Rightarrow> string \<Rightarrow> string \<Rightarrow> OrderRecord" where
  "orderRecordOf deps input am identifier orderId orderRequestedAt =
     \<lparr>oi_strategyDecisionId = si_strategyDecisionId input, oi_exchangeAccountId = si_exchangeAccountId input,
      oi_market = am_market am, oi_side = si_side input, oi_ordType = si_ordType input, oi_volume = si_volume input,
      oi_price = si_price input, oi_timeInForce = None, oi_smpType = None, oi_identifier = identifier,
      oi_idempotencyKey = am_idempotencyKey am,
      oi_origin = (case si_origin input of None \<Rightarrow> STRATEGY | Some origin \<Rightarrow> origin), oi_requestedAt = orderRequestedAt,
      or_id = orderId, or_upbitUuid = None, or_status = PERSISTED,
      or_executionMode = executionModeForAdapter (xd_sendPath deps), or_exchangeResponseJson = None,
      or_failureCode = None, or_failureMessage = None, or_createdAt = orderRequestedAt, or_updatedAt = orderRequestedAt\<rparr>"

definition orderPersistedEvent :: "SubmitOrderFromDecisionInput \<Rightarrow> Attempt \<Rightarrow> string \<Rightarrow> string \<Rightarrow> string \<Rightarrow> OrderEventRecord" where
  "orderPersistedEvent input am eventId orderId orderRequestedAt =
     \<lparr>ev_id = eventId, ev_orderId = orderId, ev_eventType = ''ORDER_PERSISTED'', ev_eventSource = LOCAL,
      ev_payloadJson = stringify (JObject [(''idempotencyKey'', JString (am_idempotencyKey am)),
        (''decisionAction'', JString (actionStr (dc_action (si_decision input))))]), ev_createdAt = orderRequestedAt\<rparr>"

definition keepLeaseAndFault ::
  "'w exec_deps \<Rightarrow> candidate_context \<Rightarrow> SubmitOrderFromDecisionInput \<Rightarrow> string \<Rightarrow> string \<Rightarrow> CandidateIntentFaultStage \<Rightarrow> string res \<Rightarrow>
   string \<Rightarrow> ('w, 'a) xm" where
  "keepLeaseAndFault deps ctx input orderId bindingId stage occurredAt message =
     sbind (setReleaseLease False) (\<lambda>_. candidateFault deps ctx input orderId bindingId stage occurredAt message)"

text \<open>The intent of a candidate order: its timestamps and binding are derived, then order, event and binding are stored.\<close>

definition persistCandidateIntent ::
  "'w exec_deps \<Rightarrow> SubmitOrderFromDecisionInput \<Rightarrow> Attempt \<Rightarrow> candidate_context \<Rightarrow> string \<Rightarrow> jsnum option \<Rightarrow> string \<Rightarrow> string \<Rightarrow>
   string \<Rightarrow> ('w, IntentMaterial) xm" where
  "persistCandidateIntent deps input am ctx identifier requestedNotionalKrw orderId eventId bindingId =
     sbind (currentTimestamp deps) (\<lambda>now.
     sbind (case createCandidateExecutionAttemptTimestamps (xa_activationEpochNs (fst ctx)) now of
         Inl _ \<Rightarrow> keepLeaseAndFault deps ctx input orderId bindingId DERIVATION (candidateFaultOccurredAt (fst ctx) None)
           ''Candidate execution timestamps could not be derived safely; execution is paused.''
       | Inr timestamps \<Rightarrow> sreturn timestamps) (\<lambda>timestamps.
     let ord = orderRecordOf deps input am identifier orderId (ca_orderRequestedAt timestamps);
         event = orderPersistedEvent input am eventId orderId (ca_orderRequestedAt timestamps);
         faultAt = candidateFaultOccurredAt (fst ctx) (Some (ca_bindingCreatedAt timestamps))
     in sbind (case deriveCandidateExecutionBinding (xd_sha256 deps) (fst ctx) ord (snd ctx) bindingId (ca_bindingCreatedAt timestamps) of
            Inl _ \<Rightarrow> keepLeaseAndFault deps ctx input orderId bindingId DERIVATION faultAt
              ''Candidate order binding could not be derived safely; execution is paused.''
          | Inr binding \<Rightarrow> sreturn binding) (\<lambda>binding.
        let request = \<lparr>br_order = ord, br_event = event, br_binding = binding, br_expectedPhase = xa_expectedPhase (fst ctx),
              br_expectedDeploymentUpdatedAt = xa_expectedDeploymentUpdatedAt (fst ctx),
              br_expectedStateVersion = xa_expectedStateVersion (fst ctx)\<rparr>
        in sbind (scatch (invoke (CPersistCandidateIntent request) (xd_persistCandidateBoundOrderIntent deps request))
             (\<lambda>_. keepLeaseAndFault deps ctx input orderId bindingId PERSISTENCE faultAt
               ''Candidate order intent could not be persisted atomically; execution is paused.'')) (\<lambda>_.
           sreturn \<lparr>im_order = ord, im_event = event, im_candidate = Some (ctx, binding),
             im_requestedNotionalKrw = requestedNotionalKrw\<rparr>))))"

definition persistPlainIntent ::
  "'w exec_deps \<Rightarrow> SubmitOrderFromDecisionInput \<Rightarrow> Attempt \<Rightarrow> string \<Rightarrow> jsnum option \<Rightarrow> string \<Rightarrow> string \<Rightarrow> ('w, IntentMaterial) xm" where
  "persistPlainIntent deps input am identifier requestedNotionalKrw orderId eventId =
     (let ord = orderRecordOf deps input am identifier orderId (am_startedAt am);
          event = orderPersistedEvent input am eventId orderId (am_startedAt am);
          intent = \<lparr>pi_order = ord, pi_event = event\<rparr>
      in sbind (invoke (CPersistOrderIntent intent) (xd_persistOrderIntent deps intent)) (\<lambda>_.
         sreturn \<lparr>im_order = ord, im_event = event, im_candidate = None, im_requestedNotionalKrw = requestedNotionalKrw\<rparr>))"

definition persistIntent ::
  "'w exec_deps \<Rightarrow> SubmitOrderFromDecisionInput \<Rightarrow> Attempt \<Rightarrow> string \<Rightarrow> jsnum option \<Rightarrow> ('w, IntentMaterial) xm" where
  "persistIntent deps input am identifier requestedNotionalKrw =
     sbind (createId deps ''order'') (\<lambda>orderId.
     sbind (createId deps ''order_event'') (\<lambda>eventId.
     case am_candidate am of
       None \<Rightarrow> persistPlainIntent deps input am identifier requestedNotionalKrw orderId eventId
     | Some ctx \<Rightarrow>
         sbind (createId deps ''candidate_execution_binding'') (\<lambda>bindingId.
         persistCandidateIntent deps input am ctx identifier requestedNotionalKrw orderId eventId bindingId)))"

definition renewSubmissionLease :: "'w exec_deps \<Rightarrow> SubmitOrderFromDecisionInput \<Rightarrow> Attempt \<Rightarrow> string \<Rightarrow> ('w, unit) xm" where
  "renewSubmissionLease deps input am orderId =
     sbind (currentTimestamp deps) (\<lambda>renewalAt.
     scatch
       (sbind (slift (leaseWindow (xd_legacyDateParse deps) (xd_accountExecutionLeaseMs deps) renewalAt ''renewal'')) (\<lambda>window.
        let renewedExpiry = max (lw_expiresAtEpochMs window) (lw_expiresAtEpochMs (am_acquisitionWindow am) + 1);
            request = \<lparr>ri_exchangeAccountId = si_exchangeAccountId input, ri_ownerToken = am_leaseOwnerToken am,
              ri_renewedAtEpochMs = lw_atEpochMs window, ri_expiresAtEpochMs = renewedExpiry\<rparr>
        in sbind (sguard (\<not> isSafeInteger renewedExpiry \<or> renewedExpiry \<le> lw_atEpochMs window)
             (Error ''lease renewal expiry is unsafe'')) (\<lambda>_.
           sbind (invoke (CRenewLease request) (xd_renewLease deps request)) (\<lambda>renewedLease.
           sguard (\<not> isOwnedLease renewedLease (si_exchangeAccountId input) (am_leaseOwnerToken am) (lw_atEpochMs window))
             (Error ''lease ownership was not renewed'')))))
       (\<lambda>_. sbind (setReleaseLease False) (\<lambda>_.
          sbind (recordLeaseBlockedAndPause deps input (am_idempotencyKey am) (am_market am) renewalAt
            ''Account execution lease renewal is ambiguous after SUBMITTING; reconciliation is required before any resend.''
            (Some orderId)) (\<lambda>_.
          sthrow (AccountExecutionLeaseSafetyError ''Account execution lease renewal is ambiguous.'')))))"

text \<open>The last reads of the candidate's records, the operator state and the stored orders.\<close>

definition finalChecks ::
  "'w exec_deps \<Rightarrow> SubmitOrderFromDecisionInput \<Rightarrow> ExecutionAuthorityTuple \<Rightarrow> IntentMaterial \<Rightarrow> ('w, unit) xm" where
  "finalChecks deps input initialAuthority im =
     sbind (assertFinalCandidatePreSendAuthority deps
       (map_option (\<lambda>(ctx, binding). (ctx, submittingOrderOf im, im_event im, binding)) (im_candidate im))) (\<lambda>_.
     sbind (invoke CGetState (xd_getState deps)) (\<lambda>finalState.
     let finalAuthority = selectExecutionAuthority finalState in
     sbind (sguard (st_systemStatus finalState \<noteq> RUNNING \<or> st_killSwitchActive finalState \<or> finalAuthority \<noteq> initialAuthority \<or>
         \<not> executionAdapterAcceptsAuthority (xd_sendPath deps) finalAuthority)
       (Error ''final pre-send authority is blocked'')) (\<lambda>_.
     sbind (invoke (CListSubmissionBlockingOrders (si_exchangeAccountId input) (CANDIDATE_FINAL_ORDER_SCAN_LIMIT + 1))
       (xd_listSubmissionBlockingOrders deps (si_exchangeAccountId input) (CANDIDATE_FINAL_ORDER_SCAN_LIMIT + 1))) (\<lambda>finalActiveOrders.
     sbind (invoke (CFindOrderById (si_exchangeAccountId input) (or_id (im_order im)))
       (xd_findOrderById deps (si_exchangeAccountId input) (or_id (im_order im)))) (\<lambda>finalPersistedOrder.
     slift (assertFinalPersistedSubmissionAuthority (or_id (im_order im)) (submittingOrderOf im)
       finalActiveOrders finalPersistedOrder))))))"

text \<open>The request is sent inside the callback of the runtime execution authority.\<close>

definition sendUnderAuthority ::
  "'w exec_deps \<Rightarrow> SubmitOrderFromDecisionInput \<Rightarrow> Attempt \<Rightarrow> ExecutionAuthorityTuple \<Rightarrow> IntentMaterial \<Rightarrow> ('w, unit) xm" where
  "sendUnderAuthority deps input am initialAuthority im =
     sbind (smodify (\<lambda>r. r\<lparr>ru_finalCheckStarted := True\<rparr>)) (\<lambda>_.
     case ow_currentExecutionAuthority (runtimeOwnership deps) of
       None \<Rightarrow> sthrow (RuntimeOwnershipGuardError RUNTIME_OWNERSHIP_NOT_HELD
         ''RUNTIME_OWNERSHIP_NOT_HELD: Persisted combined execution authority is unavailable.'')
     | Some executionAuthority \<Rightarrow>
         sbind (draw (xd_dateNow deps)) (\<lambda>now.
         let query = \<lparr>ax_atEpochMs = now, ax_exchangeAccountId = si_exchangeAccountId input,
               ax_expectedExecutionMode = fst initialAuthority, ax_expectedLiveExecutionGate = snd initialAuthority\<rparr>;
             request = requestOf (am_market am) input (oi_identifier (im_order im))
         in sbind (invoke (CExecutionAuthority query) (executionAuthority query)) (\<lambda>_.
            sbind (smodify (\<lambda>r. r\<lparr>ru_createOrderInvoked := True\<rparr>)) (\<lambda>_.
            sbind (invokeAs (\<lambda>_. ()) (CCreateOrder request) (xd_createOrder deps request)) (\<lambda>promise.
            smodify (\<lambda>r. r\<lparr>ru_promise := Some promise\<rparr>))))))"

text \<open>The result is the error thrown after \<open>createOrder\<close> was entered, if any.\<close>

definition startSubmission ::
  "'w exec_deps \<Rightarrow> SubmitOrderFromDecisionInput \<Rightarrow> Attempt \<Rightarrow> ExecutionAuthorityTuple \<Rightarrow> IntentMaterial \<Rightarrow> ('w, js_error option) xm" where
  "startSubmission deps input am initialAuthority im =
     scatch
       (sbind (finalChecks deps input initialAuthority im) (\<lambda>_.
        sbind (sendUnderAuthority deps input am initialAuthority im) (\<lambda>_. sreturn None)))
       (\<lambda>error.
       sbind (sget ru_createOrderInvoked) (\<lambda>createOrderInvoked.
       if createOrderInvoked then sreturn (Some error)
       else sbind (setReleaseLease False) (\<lambda>_.
            sbind (sget ru_finalCheckStarted) (\<lambda>finalCheckStarted.
            if finalCheckStarted then sthrow error
            else (case im_candidate im of
                Some (ctx, binding) \<Rightarrow>
                  candidateFault deps ctx input (or_id (im_order im)) (bd_id binding) FINAL_REVALIDATION
                    (Inr (oi_requestedAt (im_order im)))
                    ''Candidate final pre-send authority or intent material changed; execution is paused.''
              | None \<Rightarrow>
                  sbind (currentTimestamp deps) (\<lambda>now.
                  sbind (recordLeaseBlockedAndPause deps input (am_idempotencyKey am) (am_market am) now
                    ''Final pre-send authority check is ambiguous or blocked; reconciliation is required before any send.''
                    (Some (or_id (im_order im)))) (\<lambda>_.
                  sthrow (AccountExecutionLeaseSafetyError ''Final pre-send authority check failed.''))))))))"

definition assertCurrentOrMark :: "'w exec_deps \<Rightarrow> ('w, unit) xm" where
  "assertCurrentOrMark deps =
     sbind (draw (xd_dateNow deps)) (\<lambda>now.
     scatch (sbind (invoke (CAssertCurrent now) (ow_assertCurrent (runtimeOwnership deps) now)) (\<lambda>_. sreturn ()))
       (\<lambda>ownershipError. sbind (smodify (\<lambda>r. r\<lparr>ru_ownershipAssertionFailed := True\<rparr>)) (\<lambda>_. sthrow ownershipError)))"

definition awaitExchangeOrder :: "'w exec_deps \<Rightarrow> js_error option \<Rightarrow> ('w, ExchangeOrderSnapshot) xm" where
  "awaitExchangeOrder deps synchronousSubmissionError = (case synchronousSubmissionError of
     Some error \<Rightarrow> sthrow error
   | None \<Rightarrow> sbind (sget ru_promise) (\<lambda>started. case started of
       None \<Rightarrow> sthrow (Error ''Exchange order submission did not start.'')
     | Some exchangeOrderPromise \<Rightarrow>
         sbind (sattempt (invoke CAwaitOrder exchangeOrderPromise)) (\<lambda>settled.
         sbind (assertCurrentOrMark deps) (\<lambda>_. slift settled))))"

text \<open>The dry-run adapter settles at once: the order is filled, by a synthetic fill if the adapter reported none.\<close>

definition settleDryRun ::
  "'w exec_deps \<Rightarrow> SubmitOrderFromDecisionInput \<Rightarrow> Attempt \<Rightarrow> IntentMaterial \<Rightarrow> json \<Rightarrow> OrderRecord \<Rightarrow> FillRecord list \<Rightarrow>
   ('w, OrderRecord \<times> FillRecord list) xm" where
  "settleDryRun deps input am im raw updatedOrder fills =
     (if xd_sendPath deps \<noteq> DRY_RUN_ADAPTER then sreturn (updatedOrder, fills)
      else sbind (currentTimestamp deps) (\<lambda>settledAt.
           sbind (createDryRunSyntheticFill deps (or_id (im_order im)) (am_market am) input (im_requestedNotionalKrw im) settledAt raw) (\<lambda>syntheticFill.
           let settledFills = (if fills = [] then (case syntheticFill of None \<Rightarrow> [] | Some f \<Rightarrow> [f]) else fills);
               settledOrder = updatedOrder\<lparr>or_status := FILLED, or_updatedAt := settledAt\<rparr>
           in if settledFills = []
              then sbind (setReleaseLease False) (\<lambda>_.
                   throwPostSendPersistenceFailure deps (submittingOrderOf im) (si_exchangeAccountId input) settledAt
                     ''Dry-run submission could not produce terminal fill evidence.'')
              else sreturn (settledOrder, settledFills))))"

definition submittedEventOf :: "'w exec_deps \<Rightarrow> string \<Rightarrow> string \<Rightarrow> string \<Rightarrow> string \<Rightarrow> string \<Rightarrow> OrderEventRecord" where
  "submittedEventOf deps eventId orderId eventType payloadJson createdAt =
     \<lparr>ev_id = eventId, ev_orderId = orderId, ev_eventType = eventType,
      ev_eventSource = eventSourceForAdapter (xd_sendPath deps), ev_payloadJson = payloadJson, ev_createdAt = createdAt\<rparr>"

definition persistSubmissionOrFail ::
  "'w exec_deps \<Rightarrow> SubmitOrderFromDecisionInput \<Rightarrow> IntentMaterial \<Rightarrow> PersistExchangeSubmissionInput \<Rightarrow> string \<Rightarrow> ('w, unit) xm" where
  "persistSubmissionOrFail deps input im submission reason =
     scatch (invoke (CPersistExchangeSubmission submission) (xd_persistExchangeSubmission deps submission)) (\<lambda>_.
       sbind (currentTimestamp deps) (\<lambda>now.
       throwPostSendPersistenceFailure deps (submittingOrderOf im) (si_exchangeAccountId input) now reason))"

definition terminalEventFor ::
  "'w exec_deps \<Rightarrow> json \<Rightarrow> OrderRecord \<Rightarrow> FillRecord list \<Rightarrow> ('w, OrderEventRecord option) xm" where
  "terminalEventFor deps raw updatedOrder fills =
     (if or_status updatedOrder = FILLED
      then sbind (createId deps ''order_event'') (\<lambda>eventId.
           sreturn (Some (submittedEventOf deps eventId (or_id updatedOrder) ''ORDER_FILLED''
             (stringify (if xd_sendPath deps = DRY_RUN_ADAPTER
                then JObject [(''mode'', JString ''DRY_RUN''), (''settlement'', JString ''SIMULATED_IMMEDIATE_FILL''),
                  (''fillCount'', JInt (int (length fills)))]
                else raw)) (or_updatedAt updatedOrder))))
      else sreturn None)"

definition storeSubmittedOrder ::
  "'w exec_deps \<Rightarrow> SubmitOrderFromDecisionInput \<Rightarrow> IntentMaterial \<Rightarrow> json \<Rightarrow> OrderRecord \<Rightarrow> FillRecord list \<Rightarrow>
   ('w, SubmitOrderFromDecisionResult) xm" where
  "storeSubmittedOrder deps input im raw updatedOrder fills =
     sbind (setReleaseLease False) (\<lambda>_.
     sbind (createId deps ''order_event'') (\<lambda>eventId.
     sbind (terminalEventFor deps raw updatedOrder fills) (\<lambda>terminalEvent.
     sbind (persistSubmissionOrFail deps input im
       \<lparr>px_order = updatedOrder,
        px_event = submittedEventOf deps eventId (or_id updatedOrder) ''ORDER_SUBMITTED'' (stringify raw) (or_updatedAt updatedOrder),
        px_fills = fills, px_terminalEvent = terminalEvent\<rparr>
       ''Exchange submission response could not be persisted atomically.'') (\<lambda>_.
     sbind (setReleaseLease (isTerminalOrderStatus (or_status updatedOrder))) (\<lambda>_.
     sreturn \<lparr>sr_accepted = True,
       sr_outcome = (if xd_sendPath deps = DRY_RUN_ADAPTER then OUTCOME_SIMULATED_FILLED else OUTCOME_SUBMITTED),
       sr_order = Some updatedOrder, sr_reason = None\<rparr>)))))"

definition recordExchangeOrder ::
  "'w exec_deps \<Rightarrow> SubmitOrderFromDecisionInput \<Rightarrow> Attempt \<Rightarrow> IntentMaterial \<Rightarrow> ExchangeOrderSnapshot \<Rightarrow>
   ('w, SubmitOrderFromDecisionResult) xm" where
  "recordExchangeOrder deps input am im exchangeOrder =
     sbind (currentTimestamp deps) (\<lambda>submittedAt.
     sbind (exchangeFillRecords deps (or_id (im_order im)) (am_market am) (xo_fills exchangeOrder)) (\<lambda>exchangeFills.
     sbind (settleDryRun deps input am im (xo_raw exchangeOrder)
       ((submittingOrderOf im)\<lparr>or_upbitUuid := Some (xo_uuid exchangeOrder),
          or_status := mapExchangeOrderStatus (xo_state exchangeOrder) (xo_executedVolume exchangeOrder)
            (xo_ordType exchangeOrder) (xo_side exchangeOrder),
          or_exchangeResponseJson := Some (stringify (xo_raw exchangeOrder)), or_updatedAt := submittedAt\<rparr>)
       exchangeFills) (\<lambda>(updatedOrder, fills).
     storeSubmittedOrder deps input im (xo_raw exchangeOrder) updatedOrder fills)))"

definition failedOrderOf :: "IntentMaterial \<Rightarrow> OrderLifecycleStatus \<Rightarrow> string \<Rightarrow> SubmissionErrorDescription \<Rightarrow> string \<Rightarrow> OrderRecord" where
  "failedOrderOf im status failureCode submissionError updatedAt = (submittingOrderOf im)\<lparr>or_status := status,
     or_failureCode := Some failureCode, or_failureMessage := Some (de_message submissionError),
     or_exchangeResponseJson := Some (stringify (JObject (metadataMembers (de_metadata submissionError)))),
     or_updatedAt := updatedAt\<rparr>"

definition recordDefinitiveRejection ::
  "'w exec_deps \<Rightarrow> SubmitOrderFromDecisionInput \<Rightarrow> IntentMaterial \<Rightarrow> SubmissionErrorDescription \<Rightarrow> ('w, SubmitOrderFromDecisionResult) xm" where
  "recordDefinitiveRejection deps input im submissionError =
     sbind (currentTimestamp deps) (\<lambda>updatedAt.
     let rejectedOrder = failedOrderOf im REJECTED ''EXCHANGE_ORDER_REJECTED'' submissionError updatedAt;
         metadata = metadataMembers (de_metadata submissionError)
     in sbind (setReleaseLease False) (\<lambda>_.
        sbind (createId deps ''order_event'') (\<lambda>eventId.
        sbind (persistSubmissionOrFail deps input im
          \<lparr>px_order = rejectedOrder,
           px_event = submittedEventOf deps eventId (or_id (im_order im)) ''ORDER_REJECTED'' (stringify (JObject metadata)) (or_updatedAt rejectedOrder),
           px_fills = [], px_terminalEvent = None\<rparr>
          ''Definitive exchange rejection could not be persisted atomically.'') (\<lambda>_.
        sbind (setReleaseLease True) (\<lambda>_.
        sbind (safeReport deps \<lparr>rt_exchangeAccountId = si_exchangeAccountId input, rt_notificationType = ''ORDER_REJECTED'',
          rt_severity = ''WARN'', rt_title = ''Order rejected by exchange'', rt_message = de_message submissionError,
          rt_payload = JObject ([(''orderId'', JString (or_id rejectedOrder)), (''identifier'', JString (oi_identifier rejectedOrder))] @ metadata)\<rparr>) (\<lambda>_.
        sreturn \<lparr>sr_accepted = False, sr_outcome = OUTCOME_REJECTED, sr_order = Some rejectedOrder,
          sr_reason = Some (de_message submissionError)\<rparr>))))))"

definition recordUncertainSubmission ::
  "'w exec_deps \<Rightarrow> SubmitOrderFromDecisionInput \<Rightarrow> IntentMaterial \<Rightarrow> SubmissionErrorDescription \<Rightarrow> ('w, SubmitOrderFromDecisionResult) xm" where
  "recordUncertainSubmission deps input im submissionError =
     sbind (currentTimestamp deps) (\<lambda>updatedAt.
     let uncertainOrder = failedOrderOf im RECONCILIATION_REQUIRED ''RECONCILIATION_REQUIRED'' submissionError updatedAt;
         metadata = JObject (metadataMembers (de_metadata submissionError))
     in sbind (setReleaseLease False) (\<lambda>_.
        sbind (createId deps ''order_event'') (\<lambda>eventId.
        sbind (createRiskEvent deps (si_exchangeAccountId input) (si_strategyDecisionId input) POSITION_GUARD_PILOT_UNCERTAIN_ORDER
          (de_message submissionError) metadata (Some (or_id (im_order im)))) (\<lambda>riskEvent.
        let uncertain = \<lparr>pu_order = uncertainOrder,
              pu_event = submittedEventOf deps eventId (or_id (im_order im)) ''RECONCILIATION_RECOVERY_REQUIRED'' (stringify metadata) (or_updatedAt uncertainOrder),
              pu_riskEvent = riskEvent\<rparr>
        in sbind (scatch (invoke (CPersistUncertainSubmission uncertain) (xd_persistUncertainSubmission deps uncertain)) (\<lambda>_.
             sbind (currentTimestamp deps) (\<lambda>now.
             throwPostSendPersistenceFailure deps (submittingOrderOf im) (si_exchangeAccountId input) now
               ''Uncertain exchange submission could not be persisted atomically.''))) (\<lambda>_.
           sbind (servicePauseForFault deps (faultInput (si_exchangeAccountId input) (''uncertain-order:'' @ or_id (im_order im))
             (de_message submissionError) (or_updatedAt uncertainOrder))) (\<lambda>_.
           sreturn \<lparr>sr_accepted = False, sr_outcome = OUTCOME_RECONCILIATION_REQUIRED, sr_order = Some uncertainOrder,
             sr_reason = Some (de_message submissionError)\<rparr>))))))"

definition handleSubmissionError ::
  "'w exec_deps \<Rightarrow> SubmitOrderFromDecisionInput \<Rightarrow> IntentMaterial \<Rightarrow> js_error \<Rightarrow> ('w, SubmitOrderFromDecisionResult) xm" where
  "handleSubmissionError deps input im error =
     sbind (sget ru_ownershipAssertionFailed) (\<lambda>ownershipAssertionFailed.
     if ownershipAssertionFailed \<or> isOwnershipError error then sbind (setReleaseLease False) (\<lambda>_. sthrow error)
     else if isPostSendPersistenceError error then sthrow error
     else if isDefinitiveRejection error then recordDefinitiveRejection deps input im (describeSubmissionError error)
     else recordUncertainSubmission deps input im (describeSubmissionError error))"

definition settleSubmission ::
  "'w exec_deps \<Rightarrow> SubmitOrderFromDecisionInput \<Rightarrow> Attempt \<Rightarrow> IntentMaterial \<Rightarrow> js_error option \<Rightarrow> ('w, SubmitOrderFromDecisionResult) xm" where
  "settleSubmission deps input am im synchronousSubmissionError =
     scatch (sbind (awaitExchangeOrder deps synchronousSubmissionError) (recordExchangeOrder deps input am im))
       (handleSubmissionError deps input im)"

definition submitIntent ::
  "'w exec_deps \<Rightarrow> SubmitOrderFromDecisionInput \<Rightarrow> Attempt \<Rightarrow> ExecutionAuthorityTuple \<Rightarrow> IntentMaterial \<Rightarrow>
   ('w, SubmitOrderFromDecisionResult) xm" where
  "submitIntent deps input am initialAuthority im =
     sbind (invoke (CUpdateOrder (submittingOrderOf im)) (xd_updateOrder deps (submittingOrderOf im))) (\<lambda>_.
     sbind (renewSubmissionLease deps input am (or_id (im_order im))) (\<lambda>_.
     sbind (startSubmission deps input am initialAuthority im) (\<lambda>synchronousSubmissionError.
     settleSubmission deps input am im synchronousSubmissionError)))"

definition requestedNotionalOf :: "SubmitOrderFromDecisionInput \<Rightarrow> jsnum option" where
  "requestedNotionalOf input = (case dc_requestedNotionalKrw (si_decision input) of
     Some notional \<Rightarrow> Some notional
   | None \<Rightarrow> deriveRequestedNotionalKrw (si_decision input) (si_price input) (si_volume input))"

definition riskContextOf ::
  "'w exec_deps \<Rightarrow> SubmitOrderFromDecisionInput \<Rightarrow> Attempt \<Rightarrow> ExecutionStateRecord \<Rightarrow> OrderRecord list \<Rightarrow> PortfolioExposureSnapshot \<Rightarrow>
   RiskEvaluationContext" where
  "riskContextOf deps input am state openOrders portfolio =
     \<lparr>rc_policy = composeExecutionPolicy state (xd_riskLimits deps) (xd_sendPath deps), rc_systemStatus = st_systemStatus state,
      rc_market = am_market am,
      rc_priceSnapshot = Some \<lparr>ps_market = am_market am, ps_tradePrice = dc_referencePrice (si_decision input),
        ps_capturedAt = si_referencePriceCapturedAt input\<rparr>,
      rc_portfolio = portfolio, rc_openOrders = openOrders, rc_requestedSide = si_side input,
      rc_requestedIdempotencyKey = am_idempotencyKey am, rc_requestedPrice = si_price input,
      rc_requestedVolume = si_volume input, rc_requestedNotionalKrw = requestedNotionalOf input,
      rc_requestedQuantity = (case dc_requestedQuantity (si_decision input) of
         Some quantity \<Rightarrow> Some quantity
       | None \<Rightarrow> if truthyString (si_volume input) then Some (numberOf (the (si_volume input))) else None),
      rc_now = am_startedAt am\<rparr>"

definition preTradeInputOf :: "SubmitOrderFromDecisionInput \<Rightarrow> Attempt \<Rightarrow> string \<Rightarrow> PreTradeInput" where
  "preTradeInputOf input am identifier =
     \<lparr>pt_exchangeAccountId = si_exchangeAccountId input, pt_strategyDecisionId = si_strategyDecisionId input,
      pt_market = am_market am, pt_side = si_side input, pt_ordType = si_ordType input, pt_price = si_price input,
      pt_volume = si_volume input, pt_requestedAt = am_startedAt am, pt_requestedNotionalKrw = requestedNotionalOf input,
      pt_identifier = identifier, pt_idempotencyKey = am_idempotencyKey am\<rparr>"

text \<open>From the initial reads to the settled submission, with the lease held.\<close>

definition guardAndSubmit ::
  "'w exec_deps \<Rightarrow> SubmitOrderFromDecisionInput \<Rightarrow> Attempt \<Rightarrow> OrderRecord list \<Rightarrow> ExecutionStateRecord \<Rightarrow>
   ('w, SubmitOrderFromDecisionResult) xm" where
  "guardAndSubmit deps input am openOrders state =
     sbind (invoke (CGetPortfolioExposure (si_exchangeAccountId input)) (xd_getPortfolioExposure deps (si_exchangeAccountId input))) (\<lambda>portfolio.
     let identifier = buildOrderIdentifier (xd_sha256 deps) (marketStr (am_market am)) (sideStr (si_side input))
           (si_strategyDecisionId input) (am_startedAt am);
         risk = evaluateRiskGuards (xd_legacyDateParse deps) (riskContextOf deps input am state openOrders portfolio)
     in if \<not> re_accepted risk then rejectByRisk deps input am (re_triggeredRules risk)
        else sbind (runExchangePreTradeValidation deps (preTradeInputOf input am identifier) (requestOf (am_market am) input identifier)) (\<lambda>validation.
             case validation of
               PreTradeRejected ruleCode message payload \<Rightarrow> rejectBeforeSubmission deps input am identifier ruleCode message payload
             | PreTradeAccepted \<Rightarrow>
                 sbind (persistIntent deps input am identifier (requestedNotionalOf input)) (\<lambda>im.
                 submitIntent deps input am (selectExecutionAuthority state) im)))"

definition submitUnderLease ::
  "'w exec_deps \<Rightarrow> SubmitOrderFromDecisionInput \<Rightarrow> Attempt \<Rightarrow> ('w, SubmitOrderFromDecisionResult) xm" where
  "submitUnderLease deps input am =
     sbind (scatch
       (sbind (invoke (CListActiveOrders (si_exchangeAccountId input)) (xd_listActiveOrders deps (si_exchangeAccountId input))) (\<lambda>activeOrders.
        sbind (invoke CGetState (xd_getState deps)) (\<lambda>state. sreturn (activeOrders, state))))
       (\<lambda>_. sbind (setReleaseLease False) (\<lambda>_.
          sbind (currentTimestamp deps) (\<lambda>now.
          sbind (recordLeaseBlockedAndPause deps input (am_idempotencyKey am) (am_market am) now
            ''Initial post-acquisition authority check is ambiguous; order submission is blocked pending recovery.'' None) (\<lambda>_.
          sthrow (AccountExecutionLeaseSafetyError ''Initial post-acquisition authority check failed.'')))))) (\<lambda>(activeOrders, state).
     if activeOrders \<noteq> []
     then blockedUnderLease deps input am ''Account execution lease is blocked by active or uncertain local orders pending recovery.''
     else if \<not> executionAdapterAcceptsAuthority (xd_sendPath deps) (selectExecutionAuthority state)
     then blockedUnderLease deps input am ''The configured execution adapter is incompatible with initial persisted execution authority.''
     else guardAndSubmit deps input am activeOrders state)"

definition releaseIfFlagged :: "'w exec_deps \<Rightarrow> SubmitOrderFromDecisionInput \<Rightarrow> Attempt \<Rightarrow> ('w, unit) xm" where
  "releaseIfFlagged deps input am =
     sbind (sget ru_releaseLease) (\<lambda>releaseLease.
     if releaseLease
     then sbind (currentTimestamp deps) (\<lambda>now.
          releaseLeaseOrFail deps input (am_idempotencyKey am) (am_market am) now (am_leaseOwnerToken am))
     else sreturn ())"

definition blockAcquisition ::
  "'w exec_deps \<Rightarrow> SubmitOrderFromDecisionInput \<Rightarrow> string \<Rightarrow> SupportedMarket \<Rightarrow> string \<Rightarrow> string \<Rightarrow> ('w, 'a) xm" where
  "blockAcquisition deps input idempotencyKey market attemptStartedAt reason =
     sbind (recordLeaseBlockedAndPause deps input idempotencyKey market attemptStartedAt reason None) (\<lambda>_.
     sthrow (AccountExecutionLeaseSafetyError ''Account execution lease acquisition is ambiguous.''))"

definition acquireSubmissionLease ::
  "'w exec_deps \<Rightarrow> SubmitOrderFromDecisionInput \<Rightarrow> string \<Rightarrow> SupportedMarket \<Rightarrow> string \<Rightarrow> string \<Rightarrow>
   ('w, LeaseWindow \<times> AccountExecutionLeaseRecord option) xm" where
  "acquireSubmissionLease deps input idempotencyKey market attemptStartedAt leaseOwnerToken =
     scatch
       (sbind (slift (leaseWindow (xd_legacyDateParse deps) (xd_accountExecutionLeaseMs deps) attemptStartedAt ''acquisition'')) (\<lambda>window.
        let request = \<lparr>ai_exchangeAccountId = si_exchangeAccountId input, ai_ownerToken = leaseOwnerToken, ai_purpose = ORDER_SUBMISSION,
              ai_acquiredAtEpochMs = lw_atEpochMs window, ai_expiresAtEpochMs = lw_expiresAtEpochMs window\<rparr>
        in sbind (invoke (CAcquireLease request) (xd_acquireLease deps request)) (\<lambda>lease. sreturn (window, lease))))
       (\<lambda>_. blockAcquisition deps input idempotencyKey market attemptStartedAt
          ''Account execution lease acquisition is ambiguous; order submission is blocked pending recovery.'')"

definition submitNewOrder ::
  "'w exec_deps \<Rightarrow> SubmitOrderFromDecisionInput \<Rightarrow> string \<Rightarrow> SupportedMarket \<Rightarrow> string \<Rightarrow> candidate_context option \<Rightarrow>
   ('w, SubmitOrderFromDecisionResult) xm" where
  "submitNewOrder deps input idempotencyKey market attemptStartedAt candidateContext =
     sbind (createId deps ''account_execution_lease'') (\<lambda>leaseOwnerToken.
     sbind (acquireSubmissionLease deps input idempotencyKey market attemptStartedAt leaseOwnerToken) (\<lambda>(window, lease).
     if lease = None
     then (let message = ''Account execution lease is unavailable; order submission is blocked pending recovery.'' in
           sbind (recordLeaseBlockedAndPause deps input idempotencyKey market attemptStartedAt message None) (\<lambda>_.
           sreturn (leaseBlockedResult message)))
     else if \<not> isOwnedLease lease (si_exchangeAccountId input) leaseOwnerToken (lw_atEpochMs window)
     then blockAcquisition deps input idempotencyKey market attemptStartedAt
            ''Account execution lease acquisition returned ambiguous ownership; order submission is blocked pending recovery.''
     else (let am = \<lparr>am_startedAt = attemptStartedAt, am_market = market, am_idempotencyKey = idempotencyKey,
                 am_leaseOwnerToken = leaseOwnerToken, am_acquisitionWindow = window, am_candidate = candidateContext\<rparr>
           in sbind (setReleaseLease True) (\<lambda>_.
              sfinally (submitUnderLease deps input am) (releaseIfFlagged deps input am)))))"

definition answerDuplicate ::
  "'w exec_deps \<Rightarrow> SubmitOrderFromDecisionInput \<Rightarrow> string \<Rightarrow> string \<Rightarrow> candidate_context option \<Rightarrow> OrderRecord \<Rightarrow>
   ('w, SubmitOrderFromDecisionResult) xm" where
  "answerDuplicate deps input idempotencyKey attemptStartedAt candidateContext duplicate =
     sbind (case candidateContext of
         None \<Rightarrow> sreturn ()
       | Some ctx \<Rightarrow>
           scatch (sbind (assertExactCandidateDuplicate deps ctx duplicate idempotencyKey) (\<lambda>_. sreturn ())) (\<lambda>_.
             candidateFault deps ctx input (or_id duplicate) (''candidate-duplicate-binding:'' @ or_id duplicate) STAGE_DUPLICATE
               (candidateFaultOccurredAt (fst ctx) (Some attemptStartedAt))
               ''Candidate duplicate authority or binding is missing or mismatched; execution is paused.'')) (\<lambda>_.
     sreturn \<lparr>sr_accepted = False, sr_outcome = OUTCOME_DUPLICATE, sr_order = Some duplicate,
       sr_reason = Some ''Duplicate order intent already exists for the same idempotency key.''\<rparr>)"

definition submitOrderFromDecision ::
  "'w exec_deps \<Rightarrow> SubmitOrderFromDecisionInput \<Rightarrow> ('w, SubmitOrderFromDecisionResult) xm" where
  "submitOrderFromDecision deps input =
     sbind (invoke CAssertLocallyHeld (ow_assertLocallyHeld (runtimeOwnership deps))) (\<lambda>_.
     sbind (slift (assertCanonicalUpbitMarketBuyQuote input)) (\<lambda>_.
     sbind (currentTimestamp deps) (\<lambda>attemptStartedAt.
     let market = (case si_market input of Some m \<Rightarrow> m | None \<Rightarrow> dc_market (si_decision input));
         idempotencyKey = buildOrderIdempotencyKey (xd_sha256 deps) (si_exchangeAccountId input) (si_strategyDecisionId input)
           (marketStr market) (sideStr (si_side input)) (ordTypeStr (si_ordType input)) (si_price input) (si_volume input)
     in sbind (invoke (CFindOrderByIdempotencyKey (si_exchangeAccountId input) idempotencyKey)
          (xd_findOrderByIdempotencyKey deps (si_exchangeAccountId input) idempotencyKey)) (\<lambda>duplicate.
        sbind (prepareCandidateContext deps input market) (\<lambda>candidateContext.
        case duplicate of
          Some d \<Rightarrow> answerDuplicate deps input idempotencyKey attemptStartedAt candidateContext d
        | None \<Rightarrow> submitNewOrder deps input idempotencyKey market attemptStartedAt candidateContext)))))"

text \<open>A call of the method starts with no calls made and the flags at their initial values.\<close>

definition freshRun :: "'w \<Rightarrow> 'w run" where
  "freshRun w = \<lparr>ru_world = w, ru_calls = [], ru_releaseLease = False, ru_createOrderInvoked = False,
     ru_finalCheckStarted = False, ru_ownershipAssertionFailed = False, ru_promise = None\<rparr>"

end
