(* ===== verification/ExecutionSafety.thy ===== *)
theory ExecutionSafety
  imports ExecutionService "HOL-Library.Sublist"
begin

section \<open>Safety of order submission\<close>

text \<open>
  What holds of the calls \<open>submitOrderFromDecision\<close> makes, for every behaviour of its dependencies. The calls of a
  run are a list in the order they were made; \<open>side\<close> calls neither send an order nor release the lease. Subroutines
  that make side calls only and leave the flags alone are recognised by their structure (\<open>quiet\<close>, or \<open>calm\<close> when
  they may change \<open>releaseLease\<close>); the lemmas on the stages add what a returning stage has recorded.
\<close>

subsection \<open>Calls\<close>

fun isSend :: "call \<Rightarrow> bool" where
  "isSend (CCreateOrder _ _) = True"
| "isSend _ = False"

fun isRelease :: "call \<Rightarrow> bool" where
  "isRelease (CReleaseLease _ _ _) = True"
| "isRelease _ = False"

definition side :: "call \<Rightarrow> bool" where
  "side c \<longleftrightarrow> \<not> isSend c \<and> \<not> isRelease c"

definition calm :: "'w run \<Rightarrow> 'w run \<Rightarrow> bool" where
  "calm r r' \<longleftrightarrow> (\<exists>cs. ru_calls r' = ru_calls r @ cs \<and> list_all side cs) \<and>
     ru_createOrderInvoked r' = ru_createOrderInvoked r \<and> ru_finalCheckStarted r' = ru_finalCheckStarted r \<and>
     ru_ownershipAssertionFailed r' = ru_ownershipAssertionFailed r \<and> ru_promise r' = ru_promise r"

definition quiet :: "'w run \<Rightarrow> 'w run \<Rightarrow> bool" where
  "quiet r r' \<longleftrightarrow> calm r r' \<and> ru_releaseLease r' = ru_releaseLease r"

interpretation calm: step_preorder calm
proof
  show "calm r r" for r :: "'w run" by (simp add: calm_def)
  show "calm r t" if "calm r s" "calm s t" for r s t :: "'w run"
    using that by (fastforce simp: calm_def)
qed

interpretation quiet: step_preorder quiet
  by unfold_locales (auto simp: quiet_def intro: calm.rel_refl calm.rel_trans)

named_theorems quiet_rules \<open>subroutines that make side calls only\<close>

lemmas quiet_structure =
  quiet.along_sbind quiet.along_scatch quiet.along_sfinally quiet.along_sattempt quiet.along_silent wp_branches

lemmas calm_structure =
  calm.along_sbind calm.along_scatch calm.along_sfinally calm.along_sattempt calm.along_silent wp_branches

lemma quiet_invoke [quiet_rules]:
  "(\<And>x. side (k x)) \<Longrightarrow> wp (invoke k m) (\<lambda>_. quiet r) r"
  by (auto simp: wp_def invoke_def invokeAs_def quiet_def calm_def split: prod.splits)

lemma quiet_draw [quiet_rules]: "wp (draw f) (\<lambda>_. quiet r) r"
  by (auto simp: wp_def draw_def quiet_def calm_def split: prod.splits)

lemma quiet_draw': "wp (draw f) (\<lambda>res t. quiet r t \<and> \<not> isl res) r"
  by (auto simp: wp_def draw_def quiet_def calm_def split: prod.splits)

lemma wp_setReleaseLease: "wp (setReleaseLease b) (\<lambda>res t. t = r\<lparr>ru_releaseLease := b\<rparr> \<and> \<not> isl res) r"
  by (simp add: wp_simps)

lemma calm_if_quiet: "wp m (\<lambda>_. quiet r) r \<Longrightarrow> wp m (\<lambda>_. calm r) r"
  by (erule wp_mono) (simp add: quiet_def)

lemma calm_setReleaseLease: "wp (setReleaseLease b) (\<lambda>_. calm r) r"
  by (simp add: wp_simps calm_def)

lemma side_calls [simp]:
  "side (CAssertLocallyHeld a)" "side (CAssertCurrent i b)" "side (CExecutionAuthority q c)"
  "side (CFindOrderByIdempotencyKey s t d)" "side (CAcquireLease ai e)" "side (CRenewLease ri f)"
  "side (CListActiveOrders s g)" "side (CGetState h)" "side (CGetPortfolioExposure s j)" "side (CSaveRiskEvent k a)"
  "side (CGetOrderChance m l)" "side (CTestOrder n p)" "side (CPersistOrderIntent q1 a)" "side (CPersistCandidateIntent q2 a)"
  "side (CUpdateOrder u a)" "side (CListSubmissionBlockingOrders s i g)" "side (CFindOrderById s t d)"
  "side (CAwaitOrder v)" "side (CPersistExchangeSubmission q3 a)" "side (CPersistUncertainSubmission q4 a)"
  "side (CPauseForFault q5 h)" "side (CPauseForCandidateFault q6 a)" "side (CListOrderEvents s w)"
  "side (CGetStrategyDecision s q7)" "side (CGetDeployment s q8)" "side (CGetExactState s q9)"
  "side (CGetBinding s q10)" "side (CReport q11 a)"
  by (simp_all add: side_def)

subsection \<open>Subroutines that make side calls only\<close>

lemma quiet_saveRiskEventOf [quiet_rules]: "wp (saveRiskEventOf deps a d c m p i) (\<lambda>_. quiet r) r"
  unfolding saveRiskEventOf_def createRiskEvent_def
  by (intro quiet_rules quiet_structure) simp_all

lemma quiet_createRiskEvent [quiet_rules]: "wp (createRiskEvent deps a d c m p i) (\<lambda>_. quiet r) r"
  unfolding createRiskEvent_def by (intro quiet_rules quiet_structure)

lemma quiet_safeReport [quiet_rules]: "wp (safeReport deps rep) (\<lambda>_. quiet r) r"
  unfolding safeReport_def by (intro quiet_rules quiet_structure) simp_all

lemma quiet_servicePauseForFault [quiet_rules]: "wp (servicePauseForFault deps f) (\<lambda>_. quiet r) r"
  unfolding servicePauseForFault_def by (intro quiet_rules quiet_structure) simp_all

lemma quiet_recordLeaseBlockedAndPause [quiet_rules]:
  "wp (recordLeaseBlockedAndPause deps input key market t reason i) (\<lambda>_. quiet r) r"
  unfolding recordLeaseBlockedAndPause_def by (intro quiet_rules quiet_structure)

lemma quiet_throwPostSendPersistenceFailure [quiet_rules]:
  "wp (throwPostSendPersistenceFailure deps ord a t reason) (\<lambda>_. quiet r) r"
  unfolding throwPostSendPersistenceFailure_def by (intro quiet_rules quiet_structure)

lemma quiet_pauseCandidateIntentFault [quiet_rules]:
  "wp (pauseCandidateIntentFault deps ctx input i b stage t) (\<lambda>_. quiet r) r"
  unfolding pauseCandidateIntentFault_def Let_def by (intro quiet_rules quiet_structure) simp_all

lemma quiet_candidateFault [quiet_rules]: "wp (candidateFault deps ctx input i b stage t m) (\<lambda>_. quiet r) r"
  unfolding candidateFault_def by (intro quiet_rules quiet_structure)

lemma quiet_prepareCandidateContext [quiet_rules]: "wp (prepareCandidateContext deps input market) (\<lambda>_. quiet r) r"
  unfolding prepareCandidateContext_def by (intro quiet_rules quiet_structure) simp_all

lemma quiet_assertExactCandidateDuplicate [quiet_rules]:
  "wp (assertExactCandidateDuplicate deps ctx d key) (\<lambda>_. quiet r) r"
  unfolding assertExactCandidateDuplicate_def Let_def by (intro quiet_rules quiet_structure) simp_all

lemma quiet_assertFinalCandidatePreSendAuthority [quiet_rules]:
  "wp (assertFinalCandidatePreSendAuthority deps c) (\<lambda>_. quiet r) r"
  unfolding assertFinalCandidatePreSendAuthority_def by (intro quiet_rules quiet_structure) simp_all

lemma quiet_runExchangePreTradeValidation [quiet_rules]:
  "wp (runExchangePreTradeValidation deps i q) (\<lambda>_. quiet r) r"
  unfolding runExchangePreTradeValidation_def Let_def
  by (intro quiet_rules quiet_structure) (auto split: PreTradeValidation.splits intro!: quiet_rules quiet_structure)

lemma quiet_promiseAll [quiet_rules]:
  assumes "\<And>x r. wp (f x) (\<lambda>_. quiet r) r"
  shows "wp (promiseAll (map f xs)) (\<lambda>_. quiet r) r"
proof -
  have "wp (sallSettled (map f xs)) (\<lambda>_. quiet r) r" for r
    by (induction xs arbitrary: r) (auto intro!: assms quiet_rules quiet_structure)
  then show ?thesis unfolding promiseAll_def by (intro quiet_structure)
qed

lemma quiet_rejections [quiet_rules]:
  "wp (rejectByRisk deps input am rules) (\<lambda>_. quiet r) r"
  "wp (rejectBeforeSubmission deps input am i code m p) (\<lambda>_. quiet r) r"
  unfolding rejectByRisk_def rejectBeforeSubmission_def by (intro quiet_rules quiet_structure)+

lemma quiet_exchangeFillRecords [quiet_rules]: "wp (exchangeFillRecords deps i m fills) (\<lambda>_. quiet r) r"
  by (induction fills arbitrary: r) (auto simp: exchangeFillRecord_def intro!: quiet_rules quiet_structure)

lemma quiet_createDryRunSyntheticFill [quiet_rules]:
  "wp (createDryRunSyntheticFill deps i m input n t raw) (\<lambda>_. quiet r) r"
  unfolding createDryRunSyntheticFill_def Let_def by (intro quiet_rules quiet_structure)

lemma quiet_answerDuplicate [quiet_rules]:
  "wp (answerDuplicate deps input key t c d) (\<lambda>_. quiet r) r"
  unfolding answerDuplicate_def by (intro quiet_rules quiet_structure)

subsection \<open>Stages\<close>

text \<open>
  \<open>logged es r r'\<close>: the calls between \<open>r\<close> and \<open>r'\<close> are side calls and contain \<open>es\<close> in this order. A stage either throws,
  having made side calls only, or returns with its postcondition.
\<close>

definition logged :: "call list \<Rightarrow> 'w run \<Rightarrow> 'w run \<Rightarrow> bool" where
  "logged es r r' \<longleftrightarrow> calm r r' \<and> (\<exists>cs. ru_calls r' = ru_calls r @ cs \<and> subseq es cs)"

definition stage :: "'w run \<Rightarrow> ('a \<Rightarrow> 'w run \<Rightarrow> bool) \<Rightarrow> js_error + 'a \<Rightarrow> 'w run \<Rightarrow> bool" where
  "stage r Q res r' \<longleftrightarrow> (case res of Inl _ \<Rightarrow> calm r r' | Inr x \<Rightarrow> Q x r')"

lemma stage_simps [simp]: "stage r Q (Inl e) t \<longleftrightarrow> calm r t" "stage r Q (Inr x) t \<longleftrightarrow> Q x t"
  by (simp_all add: stage_def)

lemma logged_calm [dest]: "logged es r t \<Longrightarrow> calm r t"
  by (simp add: logged_def)

lemma logged_trans:
  assumes "logged es r s" "logged fs s t"
  shows "logged (es @ fs) r t"
proof -
  obtain cs ds where "ru_calls s = ru_calls r @ cs" "subseq es cs" "ru_calls t = ru_calls s @ ds" "subseq fs ds"
    using assms unfolding logged_def by blast
  then have "ru_calls t = ru_calls r @ (cs @ ds)" "subseq (es @ fs) (cs @ ds)" by (auto intro: list_emb_append_mono)
  with assms show ?thesis unfolding logged_def by (blast intro: calm.rel_trans)
qed

lemma logged_Nil [simp]: "logged [] r t \<longleftrightarrow> calm r t"
  by (auto simp: logged_def calm_def)

lemma logged_after: "logged es r s \<Longrightarrow> calm s t \<Longrightarrow> logged es r t"
  using logged_trans [of es r s "[]" t] by simp

lemma logged_before: "calm r s \<Longrightarrow> logged es s t \<Longrightarrow> logged es r t"
  using logged_trans [of "[]" r s es t] by simp

lemma wp_invoke:
  "wp (invoke k m) Q r = (case m (ru_world r) of (res, w) \<Rightarrow> Q res (r\<lparr>ru_world := w, ru_calls := ru_calls r @ [k res]\<rparr>))"
  by (simp add: wp_def invoke_def invokeAs_def sum.map_id split: prod.splits)

lemma logged_call:
  "side c \<Longrightarrow> logged [c] r (r\<lparr>ru_world := w, ru_calls := ru_calls r @ [c]\<rparr>)"
  by (auto simp: logged_def calm_def)

lemma calm_call [simp]: "side c \<Longrightarrow> calm r (r\<lparr>ru_world := w, ru_calls := ru_calls r @ [c]\<rparr>)"
  by (simp add: calm_def)

lemma stage_invoke:
  "(\<And>x. side (k x)) \<Longrightarrow> wp (invoke k m) (stage r (\<lambda>x. logged [k (Inr x)] r)) r"
  by (auto simp: wp_invoke stage_def calm_def logged_call split: prod.splits sum.splits)

lemma stage_calm: "wp m (\<lambda>_. calm r) r \<Longrightarrow> wp m (stage r (\<lambda>_. calm r)) r"
  by (erule wp_mono) (simp add: stage_def split: sum.splits)

lemma stage_quiet: "wp m (\<lambda>_. quiet r) r \<Longrightarrow> wp m (stage r (\<lambda>_. calm r)) r"
  by (intro stage_calm calm_if_quiet)

lemma stage_mono: "wp m (stage r A) r \<Longrightarrow> (\<And>x t. A x t \<Longrightarrow> B x t) \<Longrightarrow> wp m (stage r B) r"
  by (erule wp_mono) (auto simp: stage_def split: sum.splits)

lemma stage_sbind:
  assumes "wp m (stage r A) r" "\<And>x t. A x t \<Longrightarrow> calm r t \<and> wp (f x) (stage t (B x)) t" "\<And>x t y u. A x t \<Longrightarrow> B x y u \<Longrightarrow> C y u"
  shows "wp (sbind m f) (stage r C) r"
  unfolding wp_sbind
proof (rule wp_mono [OF assms(1)])
  fix res t assume res: "stage r A res t"
  show "case res of Inl e \<Rightarrow> stage r C (Inl e) t | Inr x \<Rightarrow> wp (f x) (stage r C) t"
  proof (cases res)
    case Inl then show ?thesis using res by simp
  next
    case (Inr x)
    with res assms(2) have "A x t" "calm r t" "wp (f x) (stage t (B x)) t" by auto
    then show ?thesis using Inr assms(3)
      by (auto simp: stage_def split: sum.splits intro: calm.rel_trans elim!: wp_mono)
  qed
qed

lemma stage_then:
  assumes "wp m (stage r A) r" "\<And>x t. A x t \<Longrightarrow> calm r t" "\<And>x t. A x t \<Longrightarrow> wp (f x) (stage t C) t"
  shows "wp (sbind m f) (stage r C) r"
  using assms by (blast intro: stage_sbind [where B = "\<lambda>_. C"])

lemma stage_guard: "(\<not> b \<Longrightarrow> wp m (stage r Q) r) \<Longrightarrow> wp (sbind (sguard b e) (\<lambda>_. m)) (stage r Q) r"
  by (simp add: wp_simps calm.rel_refl)

lemma stage_get: "wp (f (g r)) (stage r Q) r \<Longrightarrow> wp (sbind (sget g) f) (stage r Q) r"
  by (simp add: wp_simps)

lemma stage_throw: "wp (sthrow e) (stage r Q) r"
  by (simp add: wp_simps calm.rel_refl)

lemma stage_scatch:
  assumes "wp m (stage r Q) r" "\<And>e t. calm r t \<Longrightarrow> wp (h e) (stage t Q) t"
  shows "wp (scatch m h) (stage r Q) r"
  unfolding wp_scatch
proof (rule wp_mono [OF assms(1)])
  fix res t assume res: "stage r Q res t"
  show "case res of Inl e \<Rightarrow> wp (h e) (stage r Q) t | Inr x \<Rightarrow> stage r Q (Inr x) t"
  proof (cases res)
    case (Inl e)
    with res have "calm r t" by simp
    with assms(2) have "wp (h e) (stage t Q) t" by blast
    then show ?thesis using Inl \<open>calm r t\<close>
      by (auto simp: stage_def split: sum.splits intro: calm.rel_trans elim!: wp_mono)
  qed (use res in simp)
qed

text \<open>Steps that never return.\<close>

lemma throws_candidateFault: "wp (candidateFault deps ctx input i b stg t m) (\<lambda>res _. isl res) r"
  unfolding candidateFault_def by (auto simp: wp_simps split: sum.splits intro!: wpI)

lemma stage_throws:
  assumes "wp m (\<lambda>_. calm r) r" "wp m (\<lambda>res _. isl res) r"
  shows "wp m (stage r Q) r"
proof -
  from assms have "wp m (\<lambda>res t. calm r t \<and> isl res) r" by (simp add: wp_conj)
  then show ?thesis by (rule wp_mono) (auto simp: stage_def split: sum.splits)
qed

lemma stage_keepLeaseAndFault: "wp (keepLeaseAndFault deps ctx input i b stg t m) (stage r Q) r"
proof (rule stage_throws)
  show "wp (keepLeaseAndFault deps ctx input i b stg t m) (\<lambda>_. calm r) r"
    unfolding keepLeaseAndFault_def by (intro calm_structure calm_setReleaseLease calm_if_quiet quiet_rules)
  show "wp (keepLeaseAndFault deps ctx input i b stg t m) (\<lambda>res _. isl res) r"
    unfolding keepLeaseAndFault_def by (simp add: wp_simps throws_candidateFault)
qed

lemma stage_candidateFault: "wp (candidateFault deps ctx input i b stg t m) (stage r Q) r"
  by (intro stage_throws throws_candidateFault calm_if_quiet quiet_rules)

lemma stage_blockAndThrow:
  "wp (sbind (recordLeaseBlockedAndPause deps input k m t0 reason j) (\<lambda>_. sthrow err)) (stage r Q) r"
proof (rule stage_throws)
  show "wp (sbind (recordLeaseBlockedAndPause deps input k m t0 reason j) (\<lambda>_. sthrow err)) (\<lambda>_. calm r) r"
    by (intro calm_structure calm_if_quiet quiet_rules)
qed (auto simp: wp_simps split: sum.splits intro!: wpI)

lemma stage_setReleaseLease: "wp m (stage (r\<lparr>ru_releaseLease := b\<rparr>) Q) (r\<lparr>ru_releaseLease := b\<rparr>) \<Longrightarrow>
  wp (sbind (setReleaseLease b) (\<lambda>_. m)) (stage r Q) r"
  unfolding wp_simps sum.case by (erule wp_mono) (simp add: stage_def calm_def split: sum.splits)

fun storesIntent :: "call \<Rightarrow> OrderRecord \<Rightarrow> bool" where
  "storesIntent (CPersistOrderIntent intent (Inr _)) ord = (pi_order intent = ord)"
| "storesIntent (CPersistCandidateIntent request (Inr _)) ord = (br_order request = ord)"
| "storesIntent _ _ = False"

definition intentRecorded ::
  "'w exec_deps \<Rightarrow> SubmitOrderFromDecisionInput \<Rightarrow> Attempt \<Rightarrow> string \<Rightarrow> 'w run \<Rightarrow> IntentMaterial \<Rightarrow> 'w run \<Rightarrow> bool" where
  "intentRecorded deps input am identifier r im t \<longleftrightarrow> (\<exists>c. logged [c] r t \<and> storesIntent c (im_order im)) \<and>
     (\<exists>i requestedAt. im_order im = orderRecordOf deps input am identifier i requestedAt)"

lemma stage_persistPlainIntent:
  "wp (persistPlainIntent deps input am identifier n i e) (stage r (intentRecorded deps input am identifier r)) r"
  unfolding persistPlainIntent_def Let_def
  by (rule stage_sbind [OF stage_invoke, where B = "\<lambda>_ im t. True \<and> intentRecorded deps input am identifier r im t"])
    (auto simp: wp_simps intentRecorded_def)

lemma stage_persistCandidateIntent:
  "wp (persistCandidateIntent deps input am ctx identifier n i e b) (stage r (intentRecorded deps input am identifier r)) r"
  (is "wp _ (stage r ?stored) r")
proof -
  have stored: "wp (sbind (scatch (invoke (CPersistCandidateIntent request) (xd_persistCandidateBoundOrderIntent deps request))
      (\<lambda>_. keepLeaseAndFault deps ctx input i b PERSISTENCE at0 m)) (\<lambda>_. sreturn im)) (stage s ?stored) s"
    if "calm r s" "br_order request = im_order im" "im_order im = orderRecordOf deps input am identifier i t0" for s request im at0 m t0
  proof -
    have "wp (scatch (invoke (CPersistCandidateIntent request) (xd_persistCandidateBoundOrderIntent deps request))
      (\<lambda>_. keepLeaseAndFault deps ctx input i b PERSISTENCE at0 m)) (stage s (\<lambda>x. logged [CPersistCandidateIntent request (Inr x)] s)) s"
      by (rule stage_scatch [OF stage_invoke]) (auto intro: stage_keepLeaseAndFault)
    then show ?thesis
      by (rule stage_sbind [where B = "\<lambda>_. ?stored"]) (use that in \<open>auto simp: wp_simps intentRecorded_def intro: logged_before\<close>)
  qed
  show ?thesis
    unfolding persistCandidateIntent_def Let_def
    apply (rule stage_then [OF stage_quiet [OF quiet_draw]], assumption)
    subgoal for now s
      apply (rule stage_then [where A = "\<lambda>_. calm s"])
        apply (auto simp: wp_simps stage_keepLeaseAndFault calm.rel_refl split: sum.splits) [1]
       apply assumption
      subgoal for ts u
        apply (rule stage_then [where A = "\<lambda>_. calm u"])
          apply (auto simp: wp_simps stage_keepLeaseAndFault calm.rel_refl split: sum.splits) [1]
         apply assumption
        apply (rule stored)
          apply (blast intro: calm.rel_trans)
        apply simp_all
        done
      done
    done
qed

lemma intentRecorded_before: "calm r s \<Longrightarrow> intentRecorded deps input am identifier s im t \<Longrightarrow> intentRecorded deps input am identifier r im t"
  unfolding intentRecorded_def by (blast intro: logged_before)

lemma stage_persistIntent:
  "wp (persistIntent deps input am identifier n) (stage r (intentRecorded deps input am identifier r)) r"
proof -
  have final: "wp m (stage t (intentRecorded deps input am identifier r)) t"
    if "calm r t" "wp m (stage t (intentRecorded deps input am identifier t)) t" for m t
    using that by (blast intro: stage_mono intentRecorded_before)
  show ?thesis
    unfolding persistIntent_def
  proof (rule stage_then [OF stage_quiet [OF quiet_draw]])
    fix i s assume s: "calm r s"
    show "wp (sbind (createId deps ''order_event'') (\<lambda>eventId. case am_candidate am of
        None \<Rightarrow> persistPlainIntent deps input am identifier n i eventId
      | Some ctx \<Rightarrow> sbind (createId deps ''candidate_execution_binding'')
          (persistCandidateIntent deps input am ctx identifier n i eventId))) (stage s (intentRecorded deps input am identifier r)) s"
    proof (rule stage_then [OF stage_quiet [OF quiet_draw]])
      fix e t assume t: "calm s t"
      show "wp (case am_candidate am of None \<Rightarrow> persistPlainIntent deps input am identifier n i e
        | Some ctx \<Rightarrow> sbind (createId deps ''candidate_execution_binding'')
            (persistCandidateIntent deps input am ctx identifier n i e)) (stage t (intentRecorded deps input am identifier r)) t"
      proof (rule wp_branches)
        show "wp (persistPlainIntent deps input am identifier n i e) (stage t (intentRecorded deps input am identifier r)) t"
          using s t by (intro final stage_persistPlainIntent) (rule calm.rel_trans)
      next
        fix ctx
        show "wp (sbind (createId deps ''candidate_execution_binding'') (persistCandidateIntent deps input am ctx identifier n i e))
          (stage t (intentRecorded deps input am identifier r)) t"
          using s t by (blast intro: stage_then [OF stage_quiet [OF quiet_draw]] final stage_persistCandidateIntent calm.rel_trans)
      qed
    qed simp
  qed simp
qed

definition leaseOwned :: "SubmitOrderFromDecisionInput \<Rightarrow> Attempt \<Rightarrow> AccountExecutionLeaseRecord \<Rightarrow> bool" where
  "leaseOwned input am lease \<longleftrightarrow> le_exchangeAccountId lease = si_exchangeAccountId input \<and> le_ownerToken lease = am_leaseOwnerToken am"

definition leaseRenewed :: "SubmitOrderFromDecisionInput \<Rightarrow> Attempt \<Rightarrow> 'w run \<Rightarrow> 'w run \<Rightarrow> bool" where
  "leaseRenewed input am r t \<longleftrightarrow> (\<exists>request lease. logged [CRenewLease request (Inr (Some lease))] r t \<and> leaseOwned input am lease \<and>
     ri_renewedAtEpochMs request < le_expiresAtEpochMs lease)"

lemma leaseRenewedI:
  "calm r s \<Longrightarrow> leaseOwned input am lease \<Longrightarrow> ri_renewedAtEpochMs request < le_expiresAtEpochMs lease \<Longrightarrow>
   leaseRenewed input am r (s\<lparr>ru_world := w, ru_calls := ru_calls s @ [CRenewLease request (Inr (Some lease))]\<rparr>)"
  unfolding leaseRenewed_def by (blast intro: logged_before logged_call side_calls)

lemma stage_renewSubmissionLease:
  "wp (renewSubmissionLease deps input am i) (stage r (\<lambda>_. leaseRenewed input am r)) r"
  unfolding renewSubmissionLease_def
  apply (rule stage_then [OF stage_quiet [OF quiet_draw]], assumption)
  apply (rule stage_scatch)
   apply (auto simp: wp_simps wp_invoke Let_def isOwnedLease_def leaseOwned_def calm_call calm.rel_refl
      split: sum.splits prod.splits option.splits intro!: leaseRenewedI) [1]
  apply (intro stage_setReleaseLease stage_blockAndThrow)
  done

subsection \<open>The send\<close>

text \<open>\<open>sideCalls r r'\<close>: only side calls between the two, whatever the flags.\<close>

definition sideCalls :: "'w run \<Rightarrow> 'w run \<Rightarrow> bool" where
  "sideCalls r r' \<longleftrightarrow> (\<exists>cs. ru_calls r' = ru_calls r @ cs \<and> list_all side cs)"

lemma sideCalls_if_calm: "calm r t \<Longrightarrow> sideCalls r t"
  by (simp add: calm_def sideCalls_def)

interpretation sideCalls: step_preorder sideCalls
proof
  show "sideCalls r r" for r :: "'w run" by (simp add: sideCalls_def)
  show "sideCalls r t" if "sideCalls r s" "sideCalls s t" for r s t :: "'w run"
    using that by (fastforce simp: sideCalls_def)
qed

text \<open>What the store, the operator state and the runtime authority said right before the request.\<close>

definition finalStateOk :: "'w exec_deps \<Rightarrow> ExecutionAuthorityTuple \<Rightarrow> ExecutionStateRecord \<Rightarrow> bool" where
  "finalStateOk deps initialAuthority state \<longleftrightarrow> st_systemStatus state = RUNNING \<and> \<not> st_killSwitchActive state \<and>
     selectExecutionAuthority state = initialAuthority \<and> executionAdapterAcceptsAuthority (xd_sendPath deps) initialAuthority"

definition finalReads :: "SubmitOrderFromDecisionInput \<Rightarrow> OrderRecord \<Rightarrow> ExecutionStateRecord \<Rightarrow> call list" where
  "finalReads input ord state =
     [CGetState (Inr state),
      CListSubmissionBlockingOrders (si_exchangeAccountId input) (CANDIDATE_FINAL_ORDER_SCAN_LIMIT + 1) (Inr [ord]),
      CFindOrderById (si_exchangeAccountId input) (or_id ord) (Inr (Some ord))]"

lemma scanActiveOrders_none: "scanActiveOrders i ord True False os = Inr (True, False) \<longleftrightarrow> os = []"
proof -
  have "scanActiveOrders i ord e True os \<noteq> Inr (x, False)" for e x
    by (induction os arbitrary: e) auto
  then show ?thesis by (cases os) auto
qed

lemma scanActiveOrders_one: "scanActiveOrders i ord False False os = Inr (True, False) \<Longrightarrow> os = [ord]"
proof -
  have competing: "scanActiveOrders i ord e True os \<noteq> Inr (x, False)" for e x os
    by (induction os arbitrary: e) auto
  assume "scanActiveOrders i ord False False os = Inr (True, False)"
  with competing show ?thesis
    by (cases os) (auto simp: scanActiveOrders_none sameOrderRecord_def split: if_splits)
qed

lemma final_authority_exact:
  assumes "assertFinalPersistedSubmissionAuthority i ord os p = Inr u"
  shows "os = [ord] \<and> p = Some ord \<and> or_status ord = SUBMITTING"
proof -
  obtain seen other where scan: "scanActiveOrders i ord False False os = Inr (seen, other)" "seen" "\<not> other"
    and p: "p = Some ord" "or_status ord = SUBMITTING"
    using assms unfolding assertFinalPersistedSubmissionAuthority_def
    by (auto simp: res_simps sameOrderRecord_def split: option.splits)
  then show ?thesis using scanActiveOrders_one by auto
qed

lemma submittingOrderOf_id [simp]: "or_id (submittingOrderOf im) = or_id (im_order im)"
  by (simp add: submittingOrderOf_def)

text \<open>An adapter never throws the error class of the service's own failed writes.\<close>

definition foreignPromise :: "'w promise \<Rightarrow> bool" where
  "foreignPromise p \<longleftrightarrow> (\<forall>w e w'. p w = (Inl e, w') \<longrightarrow> \<not> isPostSendPersistenceError e)"

lemma foreignPromiseD: "foreignPromise p \<Longrightarrow> p w = (Inl e, w') \<Longrightarrow> \<not> isPostSendPersistenceError e"
  unfolding foreignPromise_def by blast

definition foreignErrors :: "'w exec_deps \<Rightarrow> bool" where
  "foreignErrors deps \<longleftrightarrow> (\<forall>q w e w'. xd_createOrder deps q w = (Inl e, w') \<longrightarrow> \<not> isPostSendPersistenceError e) \<and>
     (\<forall>q w p w'. xd_createOrder deps q w = (Inr p, w') \<longrightarrow> foreignPromise p)"

lemma foreignErrorsD:
  "foreignErrors deps \<Longrightarrow> xd_createOrder deps q w = (Inl e, w') \<Longrightarrow> \<not> isPostSendPersistenceError e"
  "foreignErrors deps \<Longrightarrow> xd_createOrder deps q w = (Inr p, w') \<Longrightarrow> foreignPromise p"
  unfolding foreignErrors_def by blast+

definition startedWith :: "'w exec_deps \<Rightarrow> js_error option \<Rightarrow> 'w run \<Rightarrow> bool" where
  "startedWith deps failure t \<longleftrightarrow> (case failure of
     Some e \<Rightarrow> foreignErrors deps \<longrightarrow> \<not> isPostSendPersistenceError e
   | None \<Rightarrow> (\<exists>p. ru_promise t = Some p \<and> (foreignErrors deps \<longrightarrow> foreignPromise p)))"

definition sentAfter ::
  "'w exec_deps \<Rightarrow> SubmitOrderFromDecisionInput \<Rightarrow> Attempt \<Rightarrow> ExecutionAuthorityTuple \<Rightarrow> IntentMaterial \<Rightarrow> call list \<Rightarrow> 'w run \<Rightarrow>
   js_error option \<Rightarrow> 'w run \<Rightarrow> bool" where
  "sentAfter deps input am initialAuthority im es r failure t \<longleftrightarrow>
     (\<exists>pre query authority x. ru_calls t = ru_calls r @ pre @ [CCreateOrder (requestOf (am_market am) input (oi_identifier (im_order im))) x] \<and>
        list_all side pre \<and> subseq (es @ [CExecutionAuthority query (Inr authority)]) pre \<and>
        ax_exchangeAccountId query = si_exchangeAccountId input \<and>
        (ax_expectedExecutionMode query, ax_expectedLiveExecutionGate query) = initialAuthority) \<and>
     startedWith deps failure t"

lemma wp_invokeAs:
  "wp (invokeAs v k m) Q r = (case m (ru_world r) of (res, w) \<Rightarrow>
     Q res (r\<lparr>ru_world := w, ru_calls := ru_calls r @ [k (map_sum id v res)]\<rparr>))"
  by (simp add: wp_def invokeAs_def split: prod.splits)

lemma wp_draw: "wp (draw f) Q r = (case f (ru_world r) of (x, w) \<Rightarrow> Q (Inr x) (r\<lparr>ru_world := w\<rparr>))"
  by (simp add: wp_def draw_def split: prod.splits)

lemma sentAfterI:
  assumes "ru_calls t = ru_calls r @ [CExecutionAuthority query (Inr authority),
      CCreateOrder (requestOf (am_market am) input (oi_identifier (im_order im))) x]"
    and "ax_exchangeAccountId query = si_exchangeAccountId input"
    and "(ax_expectedExecutionMode query, ax_expectedLiveExecutionGate query) = initialAuthority"
    and "startedWith deps failure t"
  shows "sentAfter deps input am initialAuthority im [] r failure t"
  unfolding sentAfter_def
  using assms by (intro conjI exI [of _ "[CExecutionAuthority query (Inr authority)]"] exI [of _ query] exI [of _ authority] exI [of _ x]) auto

lemma sendUnderAuthority_post:
  assumes "\<not> ru_createOrderInvoked r"
  shows "wp (sendUnderAuthority deps input am initialAuthority im) (\<lambda>res t.
    if ru_createOrderInvoked t
    then sentAfter deps input am initialAuthority im [] r (case res of Inl e \<Rightarrow> Some e | Inr _ \<Rightarrow> None) t
    else isl res \<and> ru_finalCheckStarted t \<and> sideCalls r t) r"
  using assms unfolding sendUnderAuthority_def
  by (auto simp: wp_simps wp_invoke wp_invokeAs wp_draw Let_def sideCalls_def startedWith_def
      split: option.splits sum.splits prod.splits intro!: sentAfterI dest: foreignErrorsD)

lemma stage_finalChecks:
  "wp (finalChecks deps input initialAuthority im) (stage r (\<lambda>_ t. \<exists>state.
     logged (finalReads input (submittingOrderOf im) state) r t \<and> finalStateOk deps initialAuthority state)) r"
  (is "wp _ (stage r ?done) r")
proof -
  have reads: "wp (sbind (invoke (CListSubmissionBlockingOrders a n) list) (\<lambda>os. sbind (invoke (CFindOrderById a i) find) (\<lambda>p.
      slift (assertFinalPersistedSubmissionAuthority i (submittingOrderOf im) os p)))) (stage s ?done) s"
    if s: "logged [CGetState (Inr state)] r s" "finalStateOk deps initialAuthority state"
      and eqs: "a = si_exchangeAccountId input" "n = CANDIDATE_FINAL_ORDER_SCAN_LIMIT + 1" "i = or_id (im_order im)"
    for s a n i list find state
  proof -
    have "?done x v"
      if t: "logged [CListSubmissionBlockingOrders a n (Inr os)] s t" "logged [CFindOrderById a i (Inr p)] t u"
        and "assertFinalPersistedSubmissionAuthority i (submittingOrderOf im) os p = Inr x" "v = u" for os p t u v x
    proof -
      have "logged ([CGetState (Inr state)] @ [CListSubmissionBlockingOrders a n (Inr os)] @ [CFindOrderById a i (Inr p)]) r u"
        using s(1) t by (blast intro: logged_trans)
      then show ?thesis
        using that s(2) eqs final_authority_exact [OF that(3)] by (auto simp: finalReads_def)
    qed
    then show ?thesis
      by (intro stage_then [OF stage_invoke]) (auto simp: wp_simps stage_def calm.rel_refl split: sum.splits)
  qed
  show ?thesis
    unfolding finalChecks_def Let_def
    apply (rule stage_then [OF stage_quiet [OF quiet_assertFinalCandidatePreSendAuthority]], assumption)
    apply (rule stage_then [OF stage_invoke], simp, blast)
    apply (rule stage_guard, rule reads [OF logged_before], assumption, assumption)
       apply (simp add: finalStateOk_def, metis)
      apply simp_all
    done
qed

lemma sentAfter_before:
  assumes "logged es r s" "sentAfter deps input am initialAuthority im [] s failure t"
  shows "sentAfter deps input am initialAuthority im es r failure t"
proof -
  obtain cs where cs: "ru_calls s = ru_calls r @ cs" "list_all side cs" "subseq es cs"
    using assms(1) unfolding logged_def calm_def by auto
  obtain pre query authority x where pre:
      "ru_calls t = ru_calls s @ pre @ [CCreateOrder (requestOf (am_market am) input (oi_identifier (im_order im))) x]"
      "list_all side pre" "subseq ([] @ [CExecutionAuthority query (Inr authority)]) pre"
      "ax_exchangeAccountId query = si_exchangeAccountId input"
      "(ax_expectedExecutionMode query, ax_expectedLiveExecutionGate query) = initialAuthority"
    using assms(2) unfolding sentAfter_def by blast
  moreover have "subseq (es @ [CExecutionAuthority query (Inr authority)]) (cs @ pre)"
    using cs(3) pre(3) by (simp only: append_Nil list_emb_append_mono)
  ultimately show ?thesis
    using cs assms(2) unfolding sentAfter_def by (intro conjI exI [of _ "cs @ pre"] exI [of _ query] exI [of _ authority] exI [of _ x]) auto
qed

definition sentCleared ::
  "'w exec_deps \<Rightarrow> SubmitOrderFromDecisionInput \<Rightarrow> Attempt \<Rightarrow> ExecutionAuthorityTuple \<Rightarrow> IntentMaterial \<Rightarrow> 'w run \<Rightarrow>
   js_error option \<Rightarrow> 'w run \<Rightarrow> bool" where
  "sentCleared deps input am initialAuthority im r failure t \<longleftrightarrow> (\<exists>state. finalStateOk deps initialAuthority state \<and>
     sentAfter deps input am initialAuthority im (finalReads input (submittingOrderOf im) state) r failure t)"

lemma checkedSend_post:
  assumes "\<not> ru_createOrderInvoked r"
  shows "wp (sbind (finalChecks deps input initialAuthority im) (\<lambda>_.
      sbind (sendUnderAuthority deps input am initialAuthority im) (\<lambda>_. sreturn None))) (\<lambda>res t.
    if ru_createOrderInvoked t
    then sentCleared deps input am initialAuthority im r (case res of Inl e \<Rightarrow> Some e | Inr failure \<Rightarrow> failure) t
    else isl res \<and> sideCalls r t) r"
  unfolding wp_sbind [of "finalChecks deps input initialAuthority im"]
proof (rule wp_mono [OF stage_finalChecks], goal_cases)
  case (1 res s)
  show ?case
  proof (cases res)
    case Inl
    with 1 assms show ?thesis by (auto simp: calm_def sideCalls_def)
  next
    case (Inr u)
    with 1 obtain state where s: "logged (finalReads input (submittingOrderOf im) state) r s" "finalStateOk deps initialAuthority state"
      by auto
    then have "\<not> ru_createOrderInvoked s" "sideCalls r s" using assms by (auto simp: logged_def calm_def sideCalls_def)
    from sendUnderAuthority_post [OF this(1), of deps input am initialAuthority im] this(2) show ?thesis
      unfolding Inr sum.case wp_sbind wp_basic
    proof (elim wp_mono, goal_cases)
      case (1 res' t)
      then show ?case
        using s sentAfter_before [OF s(1), of deps input am initialAuthority im _ t]
        by (cases res') (auto simp: sentCleared_def intro: sideCalls.rel_trans split: if_splits)
    qed
  qed
qed

lemma refused_before_send:
  assumes "\<not> ru_createOrderInvoked s"
  shows "wp (sbind (sget ru_createOrderInvoked) (\<lambda>createOrderInvoked.
       if createOrderInvoked then sreturn (Some error)
       else sbind (setReleaseLease False) (\<lambda>_.
            sbind (sget ru_finalCheckStarted) (\<lambda>finalCheckStarted.
            if finalCheckStarted then sthrow error
            else (case im_candidate im of
                Some (ctx, binding) \<Rightarrow> candidateFault deps ctx input i (bd_id binding) FINAL_REVALIDATION requestedAt m1
              | None \<Rightarrow> sbind (currentTimestamp deps) (\<lambda>now.
                  sbind (recordLeaseBlockedAndPause deps input key market now m2 j) (\<lambda>_. sthrow refusal))))))) (stage s (\<lambda>_ _. False)) s"
  using assms
  by (intro stage_get stage_setReleaseLease stage_throw wp_branches stage_candidateFault stage_blockAndThrow
      stage_then [OF stage_quiet [OF quiet_draw]]) simp_all

lemma startSubmission_post:
  assumes "\<not> ru_createOrderInvoked r"
  shows "wp (startSubmission deps input am initialAuthority im) (\<lambda>res t. case res of
      Inl e \<Rightarrow> sideCalls r t
    | Inr failure \<Rightarrow> sentCleared deps input am initialAuthority im r failure t) r"
  unfolding startSubmission_def wp_scatch
proof (rule wp_mono [OF checkedSend_post [OF assms]], goal_cases)
  case (1 res s)
  show ?case
  proof (cases res)
    case (Inr failure)
    with 1 show ?thesis by (auto split: if_splits)
  next
    case (Inl e)
    show ?thesis
    proof (cases "ru_createOrderInvoked s")
      case True
      with 1 Inl show ?thesis by (simp add: wp_simps)
    next
      case False
      with 1 Inl have "sideCalls r s" by simp
      then show ?thesis
        unfolding Inl sum.case
        by (intro wp_mono [OF refused_before_send [OF False]])
          (auto simp: stage_def split: sum.splits intro: sideCalls.rel_trans sideCalls_if_calm)
    qed
  qed
qed

subsection \<open>The settlement\<close>

definition did :: "call list \<Rightarrow> 'w run \<Rightarrow> 'w run \<Rightarrow> bool" where
  "did es r t \<longleftrightarrow> (\<exists>cs. ru_calls t = ru_calls r @ cs \<and> list_all side cs \<and> subseq es cs)"

lemma did_Nil [simp]: "did [] r t \<longleftrightarrow> sideCalls r t"
  by (simp add: did_def sideCalls_def)

lemma did_trans:
  assumes "did es r s" "did fs s t"
  shows "did (es @ fs) r t"
proof -
  obtain cs ds where "ru_calls s = ru_calls r @ cs" "list_all side cs" "subseq es cs"
      "ru_calls t = ru_calls s @ ds" "list_all side ds" "subseq fs ds"
    using assms unfolding did_def by blast
  then have "ru_calls t = ru_calls r @ (cs @ ds)" "list_all side (cs @ ds)" "subseq (es @ fs) (cs @ ds)"
    by (auto intro: list_emb_append_mono)
  then show ?thesis unfolding did_def by blast
qed

lemma did_before: "sideCalls r s \<Longrightarrow> did es s t \<Longrightarrow> did es r t"
  using did_trans [of "[]" r s es t] by simp

lemma did_after: "did es r s \<Longrightarrow> sideCalls s t \<Longrightarrow> did es r t"
  using did_trans [of es r s "[]" t] by simp

lemma sideCalls_if_quiet: "quiet r t \<Longrightarrow> sideCalls r t"
  by (simp add: quiet_def sideCalls_if_calm)

lemma sideCalls_fields [simp]:
  "sideCalls r (t\<lparr>ru_releaseLease := b\<rparr>) = sideCalls r t" "sideCalls (r\<lparr>ru_releaseLease := b\<rparr>) t = sideCalls r t"
  "did es r (t\<lparr>ru_releaseLease := b\<rparr>) = did es r t" "did es (r\<lparr>ru_releaseLease := b\<rparr>) t = did es r t"
  "did es (r\<lparr>ru_world := w\<rparr>) t = did es r t" "sideCalls (r\<lparr>ru_world := w\<rparr>) t = sideCalls r t"
  by (simp_all add: sideCalls_def did_def)

lemma wp_sbindI:
  "wp m P r \<Longrightarrow> (\<And>e s. P (Inl e) s \<Longrightarrow> Q (Inl e) s) \<Longrightarrow> (\<And>x s. P (Inr x) s \<Longrightarrow> wp (f x) Q s) \<Longrightarrow> wp (sbind m f) Q r"
  unfolding wp_sbind by (erule wp_mono) (auto split: sum.splits)

lemma wp_scatchI:
  "wp m P r \<Longrightarrow> (\<And>e s. P (Inl e) s \<Longrightarrow> wp (h e) Q s) \<Longrightarrow> (\<And>x s. P (Inr x) s \<Longrightarrow> Q (Inr x) s) \<Longrightarrow> wp (scatch m h) Q r"
  unfolding wp_scatch by (erule wp_mono) (auto split: sum.splits)

text \<open>An error of a step after the send: if it is a failed write, the lease is kept.\<close>

definition leaseKeptOn :: "js_error + 'a \<Rightarrow> 'w run \<Rightarrow> bool" where
  "leaseKeptOn res t \<longleftrightarrow> (case res of Inl e \<Rightarrow> isPostSendPersistenceError e \<longrightarrow> \<not> ru_releaseLease t | Inr _ \<Rightarrow> True)"

lemma isPostSendPersistenceError_Error [simp]: "\<not> isPostSendPersistenceError (Error m)"
  by (simp add: isPostSendPersistenceError_def)

lemma leaseKeptOn_simps [simp]:
  "leaseKeptOn (Inr x) t" "leaseKeptOn (Inl e) t \<longleftrightarrow> isPostSendPersistenceError e \<longrightarrow> \<not> ru_releaseLease t"
  by (auto simp: leaseKeptOn_def)

lemma leaseKeptOn_kept: "\<not> ru_releaseLease t \<Longrightarrow> leaseKeptOn res t"
  by (auto simp: leaseKeptOn_def split: sum.splits)

lemma parse_error_plain: "parsePositionGuardCandidateTimestamp v l = Inl e \<Longrightarrow> \<exists>m. e = Error m"
  by (auto simp: parsePositionGuardCandidateTimestamp_def invalidTimestamp_def split: option.splits if_splits jsnum.splits)

lemma createDryRunSyntheticFill_errors:
  "wp (createDryRunSyntheticFill deps i m input n t raw) (\<lambda>res _. \<forall>e. res = Inl e \<longrightarrow> (\<exists>m. e = Error m)) r"
  unfolding createDryRunSyntheticFill_def Let_def
  by (auto simp: wp_simps wp_draw split: sum.splits prod.splits dest: parse_error_plain)

lemma exchangeFillRecords_returns: "wp (exchangeFillRecords deps i m fills) (\<lambda>res _. \<not> isl res) r"
proof (induction fills arbitrary: r)
  case Nil
  then show ?case by (simp add: wp_def)
next
  case (Cons f fills)
  have "wp (exchangeFillRecord deps i m f) (\<lambda>res _. \<not> isl res) r"
    unfolding exchangeFillRecord_def by (auto simp: wp_simps wp_draw split: prod.splits option.splits)
  then show ?case
    by (auto simp: wp_simps elim!: wp_mono split: sum.splits intro: wp_mono [OF Cons.IH])
qed

lemma quietly:
  assumes "wp m (\<lambda>_. quiet r) r" "wp m Q r"
  shows "wp m (\<lambda>res t. quiet r t \<and> Q res t) r"
  using assms by (simp add: wp_conj)

lemma settleDryRun_post:
  "wp (settleDryRun deps input am im raw ord fills) (\<lambda>res t. sideCalls r t \<and> leaseKeptOn res t) r"
proof -
  have fails: "wp (throwPostSendPersistenceFailure deps o1 a t m) (\<lambda>res u. sideCalls r u \<and> leaseKeptOn res u) s"
    if "sideCalls r s" "\<not> ru_releaseLease s" for o1 a t m s
    using that by (intro wp_mono [OF quiet_throwPostSendPersistenceFailure])
      (auto simp: quiet_def leaseKeptOn_kept intro: sideCalls.rel_trans sideCalls_if_calm)
  have fill: "wp (createDryRunSyntheticFill deps i m input n t raw) (\<lambda>res u. quiet s u \<and> (\<forall>e. res = Inl e \<longrightarrow> (\<exists>m. e = Error m))) s"
    for i m n t and s :: "'a run"
    by (intro quietly quiet_rules createDryRunSyntheticFill_errors)
  show ?thesis
    unfolding settleDryRun_def Let_def
    apply (auto simp: wp_simps wp_draw sideCalls.rel_refl split: prod.splits)
    apply (rule wp_mono [OF fill])
    apply (auto simp: wp_simps split: sum.splits dest!: sideCalls_if_quiet intro!: fails)
    done
qed

lemma throws_throwPostSendPersistenceFailure: "wp (throwPostSendPersistenceFailure deps ord a t m) (\<lambda>res _. isl res) r"
  unfolding throwPostSendPersistenceFailure_def by (auto simp: wp_simps split: sum.splits intro!: wpI)

lemma persistSubmissionOrFail_post:
  "wp (persistSubmissionOrFail deps input im p reason) (\<lambda>res t. quiet r t \<and>
     (case res of Inl _ \<Rightarrow> True | Inr _ \<Rightarrow> did [CPersistExchangeSubmission p (Inr ())] r t)) r"
proof (rule quietly)
  show "wp (persistSubmissionOrFail deps input im p reason) (\<lambda>_. quiet r) r"
    unfolding persistSubmissionOrFail_def by (intro quiet_rules quiet_structure) simp
  show "wp (persistSubmissionOrFail deps input im p reason)
      (\<lambda>res t. case res of Inl _ \<Rightarrow> True | Inr _ \<Rightarrow> did [CPersistExchangeSubmission p (Inr ())] r t) r"
    unfolding persistSubmissionOrFail_def
    by (auto simp: wp_simps wp_invoke wp_draw did_def isl_def split: prod.splits sum.splits
        intro!: wp_mono [OF throws_throwPostSendPersistenceFailure])
qed

definition submissionStored :: "'w run \<Rightarrow> SubmitOrderFromDecisionResult \<Rightarrow> 'w run \<Rightarrow> bool" where
  "submissionStored r result t \<longleftrightarrow> (\<exists>p. did [CPersistExchangeSubmission p (Inr ())] r t \<and> sr_order result = Some (px_order p) \<and>
     (ru_releaseLease t \<longrightarrow> isTerminalOrderStatus (or_status (px_order p))))"

definition settled ::
  "(SubmitOrderFromDecisionResult \<Rightarrow> 'w run \<Rightarrow> bool) \<Rightarrow> 'w run \<Rightarrow> SubmitOrderFromDecisionResult res \<Rightarrow> 'w run \<Rightarrow> bool" where
  "settled Q r res t \<longleftrightarrow> sideCalls r t \<and> leaseKeptOn res t \<and> (\<forall>result. res = Inr result \<longrightarrow> Q result t)"

lemma settled_simps [simp]:
  "settled Q r (Inl e) t \<longleftrightarrow> sideCalls r t \<and> (isPostSendPersistenceError e \<longrightarrow> \<not> ru_releaseLease t)"
  "settled Q r (Inr x) t \<longleftrightarrow> sideCalls r t \<and> Q x t"
  by (auto simp: settled_def)

definition kept ::
  "(SubmitOrderFromDecisionResult \<Rightarrow> 'w run \<Rightarrow> bool) \<Rightarrow> 'w run \<Rightarrow> SubmitOrderFromDecisionResult res \<Rightarrow> 'w run \<Rightarrow> bool" where
  "kept Q r res t \<longleftrightarrow> sideCalls r t \<and> (case res of Inl _ \<Rightarrow> \<not> ru_releaseLease t | Inr result \<Rightarrow> Q result t)"

lemma kept_simps [simp]:
  "kept Q r (Inl e) t \<longleftrightarrow> sideCalls r t \<and> \<not> ru_releaseLease t"
  "kept Q r (Inr x) t \<longleftrightarrow> sideCalls r t \<and> Q x t"
  by (auto simp: kept_def)

definition acceptedStored :: "'w run \<Rightarrow> SubmitOrderFromDecisionResult \<Rightarrow> 'w run \<Rightarrow> bool" where
  "acceptedStored r result t \<longleftrightarrow> sr_accepted result \<and> sr_outcome result \<in> {OUTCOME_SUBMITTED, OUTCOME_SIMULATED_FILLED} \<and>
     submissionStored r result t"

lemma storeSubmittedOrder_post:
  assumes "sideCalls r s"
  shows "wp (storeSubmittedOrder deps input im raw ord fs) (settled (acceptedStored r) r) s"
proof -
  have event: "wp (terminalEventFor deps raw ord fs) (\<lambda>res u. quiet s u \<and> \<not> isl res) s" for s
    unfolding terminalEventFor_def by (auto simp: wp_simps wp_draw quiet_def calm_def split: prod.splits)
  have stored: "wp (sbind (persistSubmissionOrFail deps input im p reason) (\<lambda>_. sbind (setReleaseLease (isTerminalOrderStatus (or_status ord))) (\<lambda>_.
      sreturn \<lparr>sr_accepted = True, sr_outcome = out, sr_order = Some ord, sr_reason = None\<rparr>))) (settled (acceptedStored r) r) s"
    if s: "sideCalls r s" "\<not> ru_releaseLease s" "px_order p = ord" "out \<in> {OUTCOME_SUBMITTED, OUTCOME_SIMULATED_FILLED}" for p reason out s
  proof (rule wp_sbindI [OF persistSubmissionOrFail_post])
    fix e :: js_error and t assume "quiet s t \<and> (case Inl e :: unit res of Inl _ \<Rightarrow> True | Inr _ \<Rightarrow> did [CPersistExchangeSubmission p (Inr ())] s t)"
    with s show "settled (acceptedStored r) r (Inl e) t"
      by (auto simp: quiet_def intro: sideCalls.rel_trans sideCalls_if_calm)
  next
    fix u t assume "quiet s t \<and> (case Inr u of Inl _ \<Rightarrow> True | Inr _ \<Rightarrow> did [CPersistExchangeSubmission p (Inr ())] s t)"
    with s have "sideCalls r t" "did [CPersistExchangeSubmission p (Inr ())] r t"
      by (auto intro: sideCalls.rel_trans sideCalls_if_quiet did_before)
    with s show "wp (sbind (setReleaseLease (isTerminalOrderStatus (or_status ord))) (\<lambda>_.
        sreturn \<lparr>sr_accepted = True, sr_outcome = out, sr_order = Some ord, sr_reason = None\<rparr>)) (settled (acceptedStored r) r) t"
      by (auto simp: wp_simps acceptedStored_def submissionStored_def)
  qed
  show ?thesis
    unfolding storeSubmittedOrder_def
    apply (rule wp_sbindI [OF wp_setReleaseLease], simp)
    apply (rule wp_sbindI [OF quiet_draw'], simp)
    apply (rule wp_sbindI [OF event], simp)
    apply (rule stored)
    using assms apply (auto simp: quiet_def dest!: sideCalls_if_calm)
    apply (blast intro: sideCalls.rel_trans)
    done
qed

lemma recordExchangeOrder_post:
  assumes "sideCalls r s"
  shows "wp (recordExchangeOrder deps input am im x) (settled (acceptedStored r) r) s"
  unfolding recordExchangeOrder_def
  apply (rule wp_sbindI [OF quiet_draw'], simp)
  apply (rule wp_sbindI [OF quietly [OF quiet_exchangeFillRecords exchangeFillRecords_returns]], simp)
  apply (rule wp_sbindI [OF settleDryRun_post])
  using assms apply (auto dest!: sideCalls_if_quiet intro!: storeSubmittedOrder_post intro: sideCalls.rel_trans)
  done

text \<open>Awaiting the request: an error that is not the adapter's own is an ownership error, and marked as one.\<close>

lemma awaitExchangeOrder_post:
  assumes "startedWith deps failure r" "foreignErrors deps"
  shows "wp (awaitExchangeOrder deps failure) (\<lambda>res t. sideCalls r t \<and>
    (\<forall>e. res = Inl e \<longrightarrow> ru_ownershipAssertionFailed t \<or> \<not> isPostSendPersistenceError e)) r"
  using assms
  unfolding awaitExchangeOrder_def assertCurrentOrMark_def startedWith_def
  by (auto simp: wp_simps wp_invoke wp_draw sideCalls_def split: option.splits prod.splits sum.splits dest: foreignPromiseD)

lemma awaitExchangeOrder_calls: "wp (awaitExchangeOrder deps failure) (\<lambda>_. sideCalls r) r"
  unfolding awaitExchangeOrder_def assertCurrentOrMark_def
  by (auto simp: wp_simps wp_invoke wp_draw sideCalls_def split: option.splits prod.splits sum.splits)

definition rejectedStored :: "'w run \<Rightarrow> SubmitOrderFromDecisionResult \<Rightarrow> 'w run \<Rightarrow> bool" where
  "rejectedStored r result t \<longleftrightarrow> \<not> sr_accepted result \<and> sr_outcome result = OUTCOME_REJECTED \<and> submissionStored r result t"

definition uncertainStored :: "'w run \<Rightarrow> SubmitOrderFromDecisionResult \<Rightarrow> 'w run \<Rightarrow> bool" where
  "uncertainStored r result t \<longleftrightarrow> \<not> sr_accepted result \<and> sr_outcome result = OUTCOME_RECONCILIATION_REQUIRED \<and> \<not> ru_releaseLease t \<and>
     (\<exists>u f state. did [CPersistUncertainSubmission u (Inr ()), CPauseForFault f (Inr state)] r t \<and>
        sr_order result = Some (pu_order u) \<and> or_status (pu_order u) = RECONCILIATION_REQUIRED \<and>
        fp_faultId f = ''uncertain-order:'' @ or_id (pu_order u))"

lemma safeReport_returns: "wp (safeReport deps rep) (\<lambda>res _. \<not> isl res) r"
  unfolding safeReport_def by (auto simp: wp_simps wp_invoke split: option.splits prod.splits sum.splits)

lemma createRiskEvent_returns: "wp (createRiskEvent deps a d c m p i) (\<lambda>res _. \<not> isl res) r"
  unfolding createRiskEvent_def by (auto simp: wp_simps wp_draw split: prod.splits)

lemma submissionStoredI:
  assumes "sideCalls r s" "did [CPersistExchangeSubmission p (Inr ())] s t" "sideCalls t u"
    "sr_order result = Some (px_order p)" "isTerminalOrderStatus (or_status (px_order p))"
  shows "submissionStored r result u"
  using assms unfolding submissionStored_def by (blast intro: did_before did_after)

lemma failedOrderOf_status [simp]: "or_status (failedOrderOf im status code d t) = status"
  by (simp add: failedOrderOf_def)

lemma recordDefinitiveRejection_post:
  assumes "sideCalls r s"
  shows "wp (recordDefinitiveRejection deps input im d) (kept (rejectedStored r) r) s"
  unfolding recordDefinitiveRejection_def Let_def
  apply (rule wp_sbindI [OF quiet_draw'], simp)
  apply (rule wp_sbindI [OF wp_setReleaseLease], simp)
  apply (rule wp_sbindI [OF quiet_draw'], simp)
  apply (rule wp_sbindI [OF persistSubmissionOrFail_post])
  subgoal for at0 s1 u1 s2 i s3 e s4
    using assms by (auto simp: quiet_def dest!: sideCalls_if_calm) (blast intro: sideCalls.rel_trans)+
  apply (rule wp_sbindI [OF wp_setReleaseLease], simp)
  apply (rule wp_sbindI [OF quietly [OF quiet_safeReport safeReport_returns]], simp)
  subgoal for at0 s1 u1 s2 i s3 u3 s4 u4 s5 u5 s6
    using assms
    by (auto simp: wp_simps quiet_def rejectedStored_def isTerminalOrderStatus_def dest!: sideCalls_if_calm
        intro!: submissionStoredI [of r s3 _ s4]) (blast intro: sideCalls.rel_trans)+
  done

lemma persistUncertain_post:
  "wp (scatch (invoke (CPersistUncertainSubmission u) m) (\<lambda>_. sbind (currentTimestamp deps) (\<lambda>now.
     throwPostSendPersistenceFailure deps ord a now reason))) (\<lambda>res t. quiet r t \<and>
     (case res of Inl _ \<Rightarrow> True | Inr _ \<Rightarrow> did [CPersistUncertainSubmission u (Inr ())] r t)) r"
proof (rule quietly)
  show "wp (scatch (invoke (CPersistUncertainSubmission u) m) (\<lambda>_. sbind (currentTimestamp deps) (\<lambda>now.
     throwPostSendPersistenceFailure deps ord a now reason))) (\<lambda>_. quiet r) r"
    by (intro quiet_rules quiet_structure) simp
qed (auto simp: wp_simps wp_invoke wp_draw did_def isl_def split: prod.splits sum.splits
        intro!: wp_mono [OF throws_throwPostSendPersistenceFailure])

lemma servicePauseForFault_post:
  "wp (servicePauseForFault deps f) (\<lambda>res t. quiet r t \<and>
     (case res of Inl e \<Rightarrow> \<not> isPostSendPersistenceError e | Inr _ \<Rightarrow> (\<exists>state. did [CPauseForFault f (Inr state)] r t))) r"
  by (rule quietly [OF quiet_servicePauseForFault])
    (auto simp: servicePauseForFault_def wp_simps wp_invoke did_def isPostSendPersistenceError_def split: prod.splits sum.splits)

lemma recordUncertainSubmission_post:
  assumes "sideCalls r s"
  shows "wp (recordUncertainSubmission deps input im d) (kept (uncertainStored r) r) s"
  unfolding recordUncertainSubmission_def Let_def
  apply (rule wp_sbindI [OF quiet_draw'], simp)
  apply (rule wp_sbindI [OF wp_setReleaseLease], simp)
  apply (rule wp_sbindI [OF quiet_draw'], simp)
  apply (rule wp_sbindI [OF quietly [OF quiet_createRiskEvent createRiskEvent_returns]], simp)
  apply (rule wp_sbindI [OF persistUncertain_post])
  subgoal for at0 s1 u1 s2 i s3 ev s4 e s5
    using assms by (auto simp: quiet_def dest!: sideCalls_if_calm) (blast intro: sideCalls.rel_trans)+
  apply (rule wp_sbindI [OF servicePauseForFault_post])
  subgoal for at0 s1 u1 s2 i s3 ev s4 u4 s5 e s6
    using assms by (auto simp: quiet_def dest!: sideCalls_if_calm) (blast intro: sideCalls.rel_trans)+
  subgoal premises prems for at0 s1 u1 s2 i s3 ev s4 u4 s5 u5 s6
  proof -
    from prems(1-4) assms have s4: "sideCalls r s4" "\<not> ru_releaseLease s4"
      by (auto simp: quiet_def dest!: sideCalls_if_calm) (blast intro: sideCalls.rel_trans)+
    from prems(5) obtain u where u: "did [CPersistUncertainSubmission u (Inr ())] s4 s5" "quiet s4 s5"
        "pu_order u = failedOrderOf im RECONCILIATION_REQUIRED ''RECONCILIATION_REQUIRED'' d at0"
      by auto
    from prems(6) obtain f state where f: "did [CPauseForFault f (Inr state)] s5 s6" "quiet s5 s6"
        "fp_faultId f = ''uncertain-order:'' @ or_id (im_order im)"
      by (auto simp: faultInput_def)
    have "did [CPersistUncertainSubmission u (Inr ()), CPauseForFault f (Inr state)] r s6"
      using did_before [OF s4(1) did_trans [OF u(1) f(1)]] by simp
    moreover have "sideCalls r s6" "\<not> ru_releaseLease s6"
      using s4 u(2) f(2) by (auto simp: quiet_def dest!: sideCalls_if_calm intro: sideCalls.rel_trans)
    moreover have "or_status (pu_order u) = RECONCILIATION_REQUIRED" "fp_faultId f = ''uncertain-order:'' @ or_id (pu_order u)"
      using u(3) f(3) by (simp_all add: failedOrderOf_def submittingOrderOf_def)
    ultimately show ?thesis
      using u(3) unfolding wp_basic kept_simps uncertainStored_def by (metis SubmitOrderFromDecisionResult.select_convs(1-3))
  qed
  done

definition outcomeStored :: "'w run \<Rightarrow> SubmitOrderFromDecisionResult \<Rightarrow> 'w run \<Rightarrow> bool" where
  "outcomeStored r result t \<longleftrightarrow> acceptedStored r result t \<or> rejectedStored r result t \<or> uncertainStored r result t"

definition afterSend :: "bool \<Rightarrow> 'w run \<Rightarrow> SubmitOrderFromDecisionResult res \<Rightarrow> 'w run \<Rightarrow> bool" where
  "afterSend foreign r res t \<longleftrightarrow> sideCalls r t \<and> (case res of
     Inl _ \<Rightarrow> foreign \<longrightarrow> \<not> ru_releaseLease t
   | Inr result \<Rightarrow> outcomeStored r result t)"

lemma handleSubmissionError_post:
  assumes s: "sideCalls r s"
    and e: "foreign \<Longrightarrow> ru_ownershipAssertionFailed s \<or> (isPostSendPersistenceError e \<longrightarrow> \<not> ru_releaseLease s)"
  shows "wp (handleSubmissionError deps input im e) (afterSend foreign r) s"
proof -
  have final: "wp m (kept Q r) s \<Longrightarrow> (\<And>x t. Q x t \<Longrightarrow> outcomeStored r x t) \<Longrightarrow> wp m (afterSend foreign r) s" for m Q
    by (erule wp_mono) (auto simp: kept_def afterSend_def split: sum.splits)
  show ?thesis
    unfolding handleSubmissionError_def wp_sbind [of "sget ru_ownershipAssertionFailed"] wp_basic sum.case
  proof (intro wp_branches)
    show "wp (sbind (setReleaseLease False) (\<lambda>_. sthrow e)) (afterSend foreign r) s"
      using s by (simp add: wp_simps afterSend_def)
    show "wp (sthrow e) (afterSend foreign r) s"
      if "\<not> (ru_ownershipAssertionFailed s \<or> isOwnershipError e)" "isPostSendPersistenceError e"
      using that assms by (auto simp: wp_simps afterSend_def)
    show "wp (recordDefinitiveRejection deps input im (describeSubmissionError e)) (afterSend foreign r) s"
      by (rule final [OF recordDefinitiveRejection_post [OF s]]) (simp add: outcomeStored_def)
    show "wp (recordUncertainSubmission deps input im (describeSubmissionError e)) (afterSend foreign r) s"
      by (rule final [OF recordUncertainSubmission_post [OF s]]) (simp add: outcomeStored_def)
  qed
qed

lemma settleSubmission_post:
  assumes "startedWith deps failure r"
  shows "wp (settleSubmission deps input am im failure) (afterSend (foreignErrors deps) r) r"
proof -
  have "wp (awaitExchangeOrder deps failure) (\<lambda>res t. sideCalls r t \<and> (\<forall>e. res = Inl e \<longrightarrow> foreignErrors deps \<longrightarrow>
      ru_ownershipAssertionFailed t \<or> \<not> isPostSendPersistenceError e)) r"
    using awaitExchangeOrder_post [OF assms] awaitExchangeOrder_calls
    by (cases "foreignErrors deps") auto
  then have "wp (sbind (awaitExchangeOrder deps failure) (recordExchangeOrder deps input am im))
    (\<lambda>res t. sideCalls r t \<and> (case res of
        Inl e \<Rightarrow> foreignErrors deps \<longrightarrow> ru_ownershipAssertionFailed t \<or> (isPostSendPersistenceError e \<longrightarrow> \<not> ru_releaseLease t)
      | Inr result \<Rightarrow> acceptedStored r result t)) r"
    by (rule wp_sbindI) (auto elim!: wp_mono [OF recordExchangeOrder_post] simp: settled_def split: sum.splits)
  then show ?thesis
    unfolding settleSubmission_def
    by (rule wp_scatchI) (auto intro!: handleSubmissionError_post simp: afterSend_def outcomeStored_def)
qed

subsection \<open>The whole submission\<close>

text \<open>What a request must be preceded by, in this order, and what the calls said.\<close>

definition requestFor :: "OrderRecord \<Rightarrow> UpbitOrderRequest \<Rightarrow> bool" where
  "requestFor ord request \<longleftrightarrow> uq_market request = oi_market ord \<and> uq_side request = oi_side ord \<and> uq_ordType request = oi_ordType ord \<and>
     uq_volume request = oi_volume ord \<and> uq_price request = oi_price ord \<and> uq_identifier request = oi_identifier ord \<and>
     uq_timeInForce request = oi_timeInForce ord \<and> uq_smpType request = oi_smpType ord"

definition evidenceUnderLease ::
  "'w exec_deps \<Rightarrow> SubmitOrderFromDecisionInput \<Rightarrow> Attempt \<Rightarrow> call list \<Rightarrow> UpbitOrderRequest \<Rightarrow> bool" where
  "evidenceUnderLease deps input am before request \<longleftrightarrow>
     (\<exists>intent ord renewal lease state query authority.
        subseq ([intent, CUpdateOrder ord (Inr ()), CRenewLease renewal (Inr (Some lease))] @ finalReads input ord state @
          [CExecutionAuthority query (Inr authority)]) before \<and>
        storesIntent intent (ord\<lparr>or_status := PERSISTED\<rparr>) \<and> or_status ord = SUBMITTING \<and> requestFor ord request \<and>
        oi_exchangeAccountId ord = si_exchangeAccountId input \<and> oi_idempotencyKey ord = am_idempotencyKey am \<and>
        leaseOwned input am lease \<and> ri_renewedAtEpochMs renewal < le_expiresAtEpochMs lease \<and>
        finalStateOk deps (ax_expectedExecutionMode query, ax_expectedLiveExecutionGate query) state \<and>
        ax_exchangeAccountId query = si_exchangeAccountId input)"

definition notSent :: "SubmitOrderFromDecisionResult res \<Rightarrow> bool" where
  "notSent res \<longleftrightarrow> (case res of Inl _ \<Rightarrow> True
     | Inr result \<Rightarrow> \<not> sr_accepted result \<and> sr_outcome result \<in> {OUTCOME_REJECTED, OUTCOME_LEASE_BLOCKED, OUTCOME_DUPLICATE})"

definition attempted ::
  "'w exec_deps \<Rightarrow> (call list \<Rightarrow> UpbitOrderRequest \<Rightarrow> bool) \<Rightarrow> 'w run \<Rightarrow> SubmitOrderFromDecisionResult res \<Rightarrow> 'w run \<Rightarrow> bool" where
  "attempted deps E r res t \<longleftrightarrow> (sideCalls r t \<and> notSent res) \<or>
     (\<exists>pre request x s. ru_calls s = ru_calls r @ pre @ [CCreateOrder request x] \<and> list_all side pre \<and> E pre request \<and>
        afterSend (foreignErrors deps) s res t)"

lemma attempted_before:
  assumes "did es r s" "attempted deps E s res t" "\<And>cs pre q. subseq es cs \<Longrightarrow> E pre q \<Longrightarrow> F (cs @ pre) q"
  shows "attempted deps F r res t"
proof -
  obtain cs where cs: "ru_calls s = ru_calls r @ cs" "list_all side cs" "subseq es cs"
    using assms(1) unfolding did_def by blast
  from assms(2) consider (no) "sideCalls s t" "notSent res"
    | (sent) pre q x u where "ru_calls u = ru_calls s @ pre @ [CCreateOrder q x]" "list_all side pre" "E pre q"
        "afterSend (foreignErrors deps) u res t"
    unfolding attempted_def by blast
  then show ?thesis
  proof cases
    case no
    moreover have "sideCalls r s" using cs unfolding sideCalls_def by blast
    ultimately show ?thesis unfolding attempted_def by (blast intro: sideCalls.rel_trans)
  next
    case sent
    then have "ru_calls u = ru_calls r @ (cs @ pre) @ [CCreateOrder q x]" "list_all side (cs @ pre)" "F (cs @ pre) q"
      using cs assms(3) by auto
    with sent(4) show ?thesis unfolding attempted_def by blast
  qed
qed

lemma did_if_logged: "logged es r t \<Longrightarrow> did es r t"
  unfolding logged_def calm_def did_def by auto

lemma notSent_Inl [simp]: "notSent (Inl e)"
  by (simp add: notSent_def)

lemma attempted_error: "sideCalls r t \<Longrightarrow> attempted deps E r (Inl e) t"
  by (simp add: attempted_def)

text \<open>Sequencing after a stage: the stage's calls come first.\<close>

lemma attempted_stage:
  assumes "wp m (stage r A) r"
    and "\<And>x s. A x s \<Longrightarrow> \<exists>es E. logged es r s \<and> wp (f x) (attempted deps E s) s \<and> (\<forall>cs pre q. subseq es cs \<longrightarrow> E pre q \<longrightarrow> F (cs @ pre) q)"
  shows "wp (sbind m f) (attempted deps F r) r"
proof (rule wp_sbindI [OF assms(1)])
  fix x s assume "stage r A (Inr x) s"
  then obtain es E where *: "logged es r s" "wp (f x) (attempted deps E s) s"
      "\<And>cs pre q. subseq es cs \<Longrightarrow> E pre q \<Longrightarrow> F (cs @ pre) q"
    using assms(2) by fastforce
  show "wp (f x) (attempted deps F r) s"
    using *(2)
    by (rule wp_mono) (rule attempted_before [where es = es and E = E, OF did_if_logged [OF *(1)]], assumption, rule *(3))
qed (auto intro: attempted_error sideCalls_if_calm)

definition sendTrail ::
  "'w exec_deps \<Rightarrow> SubmitOrderFromDecisionInput \<Rightarrow> Attempt \<Rightarrow> IntentMaterial \<Rightarrow> call list \<Rightarrow> call list \<Rightarrow> UpbitOrderRequest \<Rightarrow> bool" where
  "sendTrail deps input am im es before request \<longleftrightarrow> request = requestOf (am_market am) input (oi_identifier (im_order im)) \<and>
     (\<exists>state query authority.
       subseq (es @ finalReads input (submittingOrderOf im) state @ [CExecutionAuthority query (Inr authority)]) before \<and>
       finalStateOk deps (ax_expectedExecutionMode query, ax_expectedLiveExecutionGate query) state \<and>
       ax_exchangeAccountId query = si_exchangeAccountId input)"

lemma startAndSettle_post:
  assumes "\<not> ru_createOrderInvoked r"
  shows "wp (sbind (startSubmission deps input am initialAuthority im) (settleSubmission deps input am im))
    (attempted deps (sendTrail deps input am im []) r) r"
proof (rule wp_sbindI [OF startSubmission_post [OF assms]], goal_cases)
  case (1 e s)
  then show ?case by (simp add: attempted_error)
next
  case (2 failure s)
  then obtain state where "finalStateOk deps initialAuthority state"
    and sent: "sentAfter deps input am initialAuthority im (finalReads input (submittingOrderOf im) state) r failure s"
    unfolding sentCleared_def by auto
  then show ?case
    unfolding sentAfter_def
    by (elim conjE exE) (rule wp_mono [OF settleSubmission_post], assumption, unfold attempted_def sendTrail_def append_Nil, blast)
qed

lemma sendTrail_before:
  assumes "sendTrail deps input am im es pre q" "subseq fs cs"
  shows "sendTrail deps input am im (fs @ es) (cs @ pre) q"
proof -
  obtain state query authority where *: "subseq (es @ finalReads input (submittingOrderOf im) state @ [CExecutionAuthority query (Inr authority)]) pre"
      "finalStateOk deps (ax_expectedExecutionMode query, ax_expectedLiveExecutionGate query) state"
      "ax_exchangeAccountId query = si_exchangeAccountId input" "q = requestOf (am_market am) input (oi_identifier (im_order im))"
    using assms(1) unfolding sendTrail_def by blast
  moreover have "subseq ((fs @ es) @ finalReads input (submittingOrderOf im) state @ [CExecutionAuthority query (Inr authority)]) (cs @ pre)"
    using list_emb_append_mono [OF assms(2) *(1)] by (simp only: append.assoc)
  ultimately show ?thesis unfolding sendTrail_def by blast
qed

definition renewalEvidence :: "SubmitOrderFromDecisionInput \<Rightarrow> Attempt \<Rightarrow> call \<Rightarrow> bool" where
  "renewalEvidence input am c \<longleftrightarrow> (\<exists>renewal lease. c = CRenewLease renewal (Inr (Some lease)) \<and> leaseOwned input am lease \<and>
     ri_renewedAtEpochMs renewal < le_expiresAtEpochMs lease)"

lemma submitIntent_post:
  assumes "\<not> ru_createOrderInvoked r"
  shows "wp (submitIntent deps input am initialAuthority im) (attempted deps (\<lambda>pre q. \<exists>renewed. renewalEvidence input am renewed \<and>
     sendTrail deps input am im [CUpdateOrder (submittingOrderOf im) (Inr ()), renewed] pre q) r) r"
  unfolding submitIntent_def
proof (rule attempted_stage [OF stage_invoke], simp, goal_cases)
  case (1 u s)
  then have s: "\<not> ru_createOrderInvoked s" using assms by (auto simp: logged_def calm_def)
  have "wp (sbind (renewSubmissionLease deps input am (or_id (im_order im))) (\<lambda>_.
      sbind (startSubmission deps input am initialAuthority im) (settleSubmission deps input am im)))
    (attempted deps (\<lambda>pre q. \<exists>renewed. renewalEvidence input am renewed \<and> sendTrail deps input am im [renewed] pre q) s) s"
  proof (rule attempted_stage [OF stage_renewSubmissionLease], goal_cases)
    case (1 v t)
    then obtain renewal lease where t: "logged [CRenewLease renewal (Inr (Some lease))] s t"
        "renewalEvidence input am (CRenewLease renewal (Inr (Some lease)))"
      unfolding leaseRenewed_def renewalEvidence_def by blast
    then have "\<not> ru_createOrderInvoked t" using s by (auto simp: logged_def calm_def)
    from startAndSettle_post [OF this, of deps input am initialAuthority im] t
    show ?case
    proof (intro exI conjI allI impI)
      fix cs pre q
      assume "subseq [CRenewLease renewal (Inr (Some lease))] cs" "sendTrail deps input am im [] pre q"
      from sendTrail_before [OF this(2,1)]
      show "sendTrail deps input am im [CRenewLease renewal (Inr (Some lease))] (cs @ pre) q" by simp
    qed
  qed
  with 1 show ?case
  proof (rule_tac exI [of _ "[CUpdateOrder (submittingOrderOf im) (Inr u)]"], rule_tac exI [of _ "\<lambda>pre q.
      \<exists>renewed. renewalEvidence input am renewed \<and> sendTrail deps input am im [renewed] pre q"], intro conjI allI impI)
    fix cs pre q
    assume "subseq [CUpdateOrder (submittingOrderOf im) (Inr u)] cs"
      "\<exists>renewed. renewalEvidence input am renewed \<and> sendTrail deps input am im [renewed] pre q"
    then obtain renewed where "renewalEvidence input am renewed" "sendTrail deps input am im ([CUpdateOrder (submittingOrderOf im) (Inr u)] @ [renewed]) (cs @ pre) q"
      using sendTrail_before by blast
    then show "\<exists>renewed. renewalEvidence input am renewed \<and>
        sendTrail deps input am im [CUpdateOrder (submittingOrderOf im) (Inr ()), renewed] (cs @ pre) q" by auto
  qed
qed

lemma evidence_of_trail:
  assumes "storesIntent c (im_order im)" "im_order im = orderRecordOf deps input am identifier i requestedAt"
    "renewalEvidence input am renewed"
    "sendTrail deps input am im ([c] @ [CUpdateOrder (submittingOrderOf im) (Inr ()), renewed]) before q"
  shows "evidenceUnderLease deps input am before q"
proof -
  obtain renewal lease where renewed: "renewed = CRenewLease renewal (Inr (Some lease))" "leaseOwned input am lease"
      "ri_renewedAtEpochMs renewal < le_expiresAtEpochMs lease"
    using assms(3) unfolding renewalEvidence_def by blast
  have "(submittingOrderOf im)\<lparr>or_status := PERSISTED\<rparr> = im_order im" "or_status (submittingOrderOf im) = SUBMITTING"
    using assms(2) by (simp_all add: submittingOrderOf_def orderRecordOf_def)
  moreover have "requestFor (submittingOrderOf im) (requestOf (am_market am) input (oi_identifier (im_order im)))"
    using assms(2) by (simp add: requestFor_def requestOf_def submittingOrderOf_def orderRecordOf_def)
  moreover have "oi_exchangeAccountId (submittingOrderOf im) = si_exchangeAccountId input" "oi_idempotencyKey (submittingOrderOf im) = am_idempotencyKey am"
    using assms(2) by (simp_all add: submittingOrderOf_def orderRecordOf_def)
  ultimately show ?thesis
    using assms(1,4) renewed unfolding sendTrail_def evidenceUnderLease_def by (metis append_Cons append_Nil append.assoc)
qed

lemma persistAndSubmit_post:
  assumes "\<not> ru_createOrderInvoked r"
  shows "wp (sbind (persistIntent deps input am identifier n) (submitIntent deps input am initialAuthority))
    (attempted deps (evidenceUnderLease deps input am) r) r"
proof (rule attempted_stage [OF stage_persistIntent], goal_cases)
  case (1 im s)
  then obtain c i requestedAt where c: "logged [c] r s" "storesIntent c (im_order im)"
      "im_order im = orderRecordOf deps input am identifier i requestedAt"
    unfolding intentRecorded_def by blast
  then have "\<not> ru_createOrderInvoked s" using assms by (auto simp: logged_def calm_def)
  from submitIntent_post [OF this] c(1) show ?case
  proof (rule_tac exI [of _ "[c]"], rule_tac exI, intro conjI allI impI)
    fix cs pre q
    assume "subseq [c] cs"
      "\<exists>renewed. renewalEvidence input am renewed \<and> sendTrail deps input am im [CUpdateOrder (submittingOrderOf im) (Inr ()), renewed] pre q"
    with c show "evidenceUnderLease deps input am (cs @ pre) q"
      by (blast intro: evidence_of_trail sendTrail_before)
  qed
qed

lemma attempted_quiet:
  "wp m (\<lambda>_. quiet r) r \<Longrightarrow> wp m (\<lambda>res _. notSent res) r \<Longrightarrow> wp m (attempted deps E r) r"
  by (rule wp_mono [OF quietly [of m r "\<lambda>res _. notSent res"]]) (auto simp: attempted_def sideCalls_if_quiet)

lemma rejections_not_sent:
  "wp (rejectByRisk deps input am rules) (\<lambda>res _. notSent res) r"
  "wp (rejectBeforeSubmission deps input am i code m p) (\<lambda>res _. notSent res) r"
  unfolding rejectByRisk_def rejectBeforeSubmission_def
  by (auto simp: wp_simps notSent_def rejectedResult_def split: sum.splits intro!: wpI)

lemma evidenceUnderLease_prefix: "evidenceUnderLease deps input am pre q \<Longrightarrow> evidenceUnderLease deps input am (cs @ pre) q"
  unfolding evidenceUnderLease_def by (metis subseq_drop_many)

lemma attempted_after_quiet:
  assumes "wp m (stage r (\<lambda>_. calm r)) r" "\<And>x s. calm r s \<Longrightarrow> wp (f x) (attempted deps (evidenceUnderLease deps input am) s) s"
  shows "wp (sbind m f) (attempted deps (evidenceUnderLease deps input am) r) r"
  by (rule attempted_stage [OF assms(1)])
    (rule exI [of _ "[]"], rule exI [of _ "evidenceUnderLease deps input am"], use assms(2) in \<open>auto intro: evidenceUnderLease_prefix\<close>)

lemma guardAndSubmit_post:
  assumes "\<not> ru_createOrderInvoked r"
  shows "wp (guardAndSubmit deps input am openOrders state) (attempted deps (evidenceUnderLease deps input am) r) r"
  unfolding guardAndSubmit_def Let_def
proof (rule attempted_after_quiet [OF stage_quiet [OF quiet_invoke]], simp, goal_cases)
  case (1 portfolio s)
  then have s: "\<not> ru_createOrderInvoked s" using assms by (simp add: calm_def)
  show ?case
    apply (rule wp_branches(1))
     apply (intro attempted_quiet quiet_rules rejections_not_sent)
    apply (rule attempted_after_quiet [OF stage_quiet [OF quiet_runExchangePreTradeValidation]])
    using s by (auto simp: calm_def split: PreTradeValidation.splits
      intro!: persistAndSubmit_post attempted_quiet quiet_rules rejections_not_sent)
qed

lemma retained:
  assumes "wp m (\<lambda>_. quiet r) r"
  shows "wp (retainingLease m) (\<lambda>_. calm r) r"
  unfolding retainingLease_def
  by (rule wp_scatchI [OF assms]) (auto simp: wp_simps quiet_def calm_def)

lemma blockedUnderLease_post: "wp (blockedUnderLease deps input am m) (attempted deps E r) r"
proof -
  have "wp (blockedUnderLease deps input am m) (\<lambda>_. calm r) r"
    unfolding blockedUnderLease_def by (intro calm_structure retained quiet_rules)
  moreover have "wp (blockedUnderLease deps input am m) (\<lambda>res _. notSent res) r"
    unfolding blockedUnderLease_def
    by (auto simp: wp_simps notSent_def leaseBlockedResult_def split: sum.splits intro!: wpI)
  ultimately have "wp (blockedUnderLease deps input am m) (\<lambda>res t. calm r t \<and> notSent res) r" by (simp add: wp_conj)
  then show ?thesis by (rule wp_mono) (auto simp: attempted_def sideCalls_if_calm)
qed

lemma submitUnderLease_post:
  assumes "\<not> ru_createOrderInvoked r"
  shows "wp (submitUnderLease deps input am) (attempted deps (evidenceUnderLease deps input am) r) r"
  unfolding submitUnderLease_def
proof (rule attempted_after_quiet, goal_cases)
  case 1
  show ?case
    by (rule stage_scatch)
      (auto intro!: stage_quiet quiet_rules quiet_structure stage_setReleaseLease stage_then [OF stage_quiet [OF quiet_draw]] stage_blockAndThrow
        intro: calm.rel_trans)
next
  case (2 x s)
  then have "\<not> ru_createOrderInvoked s" using assms by (simp add: calm_def)
  then show ?case by (auto split: prod.splits intro!: wp_branches blockedUnderLease_post guardAndSubmit_post)
qed

text \<open>Then the lease is released, if the flag says so.\<close>

definition storedTerminal :: "call \<Rightarrow> bool" where
  "storedTerminal c \<longleftrightarrow> (\<exists>p. c = CPersistExchangeSubmission p (Inr ()) \<and> isTerminalOrderStatus (or_status (px_order p)))"

definition releaseJustified :: "call list \<Rightarrow> bool" where
  "releaseJustified calls \<longleftrightarrow> (\<forall>before a token x after. calls = before @ CReleaseLease a token x # after \<longrightarrow> list_ex storedTerminal before)"

definition resultRecorded :: "call list \<Rightarrow> SubmitOrderFromDecisionResult \<Rightarrow> bool" where
  "resultRecorded calls result \<longleftrightarrow> (if sr_outcome result = OUTCOME_RECONCILIATION_REQUIRED
     then \<not> sr_accepted result \<and> \<not> list_ex isRelease calls \<and> (\<exists>u f state.
       subseq [CPersistUncertainSubmission u (Inr ()), CPauseForFault f (Inr state)] calls \<and> sr_order result = Some (pu_order u) \<and>
       or_status (pu_order u) = RECONCILIATION_REQUIRED \<and> fp_faultId f = ''uncertain-order:'' @ or_id (pu_order u))
     else sr_outcome result \<in> {OUTCOME_SUBMITTED, OUTCOME_SIMULATED_FILLED, OUTCOME_REJECTED} \<and>
       (\<exists>p. CPersistExchangeSubmission p (Inr ()) \<in> set calls \<and> sr_order result = Some (px_order p)))"

definition concluded ::
  "'w exec_deps \<Rightarrow> (call list \<Rightarrow> UpbitOrderRequest \<Rightarrow> bool) \<Rightarrow> call list \<Rightarrow> SubmitOrderFromDecisionResult res \<Rightarrow> bool" where
  "concluded deps E calls res \<longleftrightarrow> (\<not> list_ex isSend calls \<and> notSent res) \<or>
     (\<exists>pre request x post. calls = pre @ CCreateOrder request x # post \<and> list_all side pre \<and> E pre request \<and> \<not> list_ex isSend post \<and>
        (foreignErrors deps \<longrightarrow> releaseJustified post) \<and> (\<forall>result. res = Inr result \<longrightarrow> resultRecorded post result))"

lemma releaseIfFlagged_post:
  "wp (releaseIfFlagged deps input am) (\<lambda>res t. if ru_releaseLease r
     then \<exists>a token x cs. ru_calls t = ru_calls r @ CReleaseLease a token x # cs \<and> list_all side cs
     else ru_calls t = ru_calls r \<and> res = Inr ()) r"
  unfolding releaseIfFlagged_def releaseLeaseOrFail_def
  apply (auto simp: wp_simps wp_draw wp_invoke split: prod.splits)
  apply (rule wp_mono [OF quiet_recordLeaseBlockedAndPause])
  apply (auto simp: quiet_def calm_def wp_simps split: sum.splits)
  done

text \<open>What the calls after the request look like once the method is over.\<close>

lemma list_ex_side: "list_all side cs \<Longrightarrow> \<not> list_ex isSend cs \<and> \<not> list_ex isRelease cs"
  by (induction cs) (auto simp: side_def)

lemma releaseJustified_side: "list_all side cs \<Longrightarrow> releaseJustified cs"
  using list_ex_side unfolding releaseJustified_def by (fastforce simp: list_ex_iff)

lemma split_at_release:
  assumes "cs @ CReleaseLease a token x # ds = before @ CReleaseLease b token' y # after" "list_all side cs" "list_all side ds"
  shows "before = cs"
  using assms
proof (induction cs arbitrary: before)
  case Nil
  then have "before = [] \<or> CReleaseLease b token' y \<in> set ds" by (cases before) auto
  with Nil(3) show ?case by (auto simp: list_all_iff side_def)
next
  case (Cons c cs)
  then show ?case by (cases before) (auto simp: side_def)
qed

lemma releaseJustified_one:
  assumes "list_all side cs" "list_all side ds" "list_ex storedTerminal cs"
  shows "releaseJustified (cs @ CReleaseLease a token x # ds)"
  using assms split_at_release unfolding releaseJustified_def by metis

lemma outcomeStored_recorded:
  assumes "outcomeStored s result t" "ru_calls t = ru_calls s @ cs" "list_all side cs"
  shows "\<not> ru_releaseLease t \<Longrightarrow> resultRecorded cs result"
    and "ru_releaseLease t \<Longrightarrow> list_ex storedTerminal cs \<and> resultRecorded (cs @ ds) result"
proof -
  have stored: "CPersistExchangeSubmission p (Inr ()) \<in> set cs" if "did [CPersistExchangeSubmission p (Inr ())] s t" for p
    using that assms(2) unfolding did_def by (auto dest: list_emb_set)
  show "resultRecorded cs result" if "\<not> ru_releaseLease t"
    using that assms stored list_ex_side [OF assms(3)]
    by (auto simp: outcomeStored_def acceptedStored_def rejectedStored_def submissionStored_def uncertainStored_def resultRecorded_def did_def)
  show "list_ex storedTerminal cs \<and> resultRecorded (cs @ ds) result" if "ru_releaseLease t"
    using that assms stored
    by (auto simp: outcomeStored_def acceptedStored_def rejectedStored_def submissionStored_def uncertainStored_def resultRecorded_def
      list_ex_iff storedTerminal_def)
qed

lemma concluded_sentI:
  "list_all side pre \<Longrightarrow> E pre q \<Longrightarrow> \<not> list_ex isSend post \<Longrightarrow> (foreignErrors deps \<Longrightarrow> releaseJustified post) \<Longrightarrow>
   (\<And>result. res = Inr result \<Longrightarrow> resultRecorded post result) \<Longrightarrow> concluded deps E (pre @ CCreateOrder q x # post) res"
  unfolding concluded_def by (rule disjI2, intro exI conjI) auto

lemma concluded_kept:
  assumes "attempted deps E r res t" "\<not> ru_releaseLease t"
  shows "\<exists>cs. ru_calls t = ru_calls r @ cs \<and> concluded deps E cs res"
  using assms(1) unfolding attempted_def
proof (elim disjE exE conjE)
  assume "sideCalls r t" "notSent res"
  then obtain cs where "ru_calls t = ru_calls r @ cs" "list_all side cs" unfolding sideCalls_def by blast
  with \<open>notSent res\<close> list_ex_side show ?thesis by (auto simp: concluded_def)
next
  fix pre q x s
  assume s: "ru_calls s = ru_calls r @ pre @ [CCreateOrder q x]" "list_all side pre" "E pre q" "afterSend (foreignErrors deps) s res t"
  then obtain cs where cs: "ru_calls t = ru_calls s @ cs" "list_all side cs" unfolding afterSend_def sideCalls_def by blast
  have "resultRecorded cs result" if "res = Inr result" for result
    using that s(4) outcomeStored_recorded(1) [OF _ cs assms(2)] unfolding afterSend_def by simp
  then have "concluded deps E (pre @ CCreateOrder q x # cs) res"
    using s(2,3) list_ex_side [OF cs(2)] releaseJustified_side [OF cs(2)] by (intro concluded_sentI) auto
  with s(1) cs(1) show ?thesis by simp
qed

lemma concluded_released:
  assumes "attempted deps E r res t" "ru_releaseLease t" "ru_calls u = ru_calls t @ CReleaseLease a token y # ds" "list_all side ds"
    and res': "isl res' \<or> res' = res"
  shows "\<exists>cs. ru_calls u = ru_calls r @ cs \<and> concluded deps E cs res'"
  using assms(1) unfolding attempted_def
proof (elim disjE exE conjE)
  assume no: "sideCalls r t" "notSent res"
  then obtain cs where cs: "ru_calls t = ru_calls r @ cs" "list_all side cs" unfolding sideCalls_def by blast
  have "\<not> list_ex isSend (cs @ CReleaseLease a token y # ds)" "notSent res'"
    using no(2) res' list_ex_side [OF cs(2)] list_ex_side [OF assms(4)] by (auto simp: notSent_def split: sum.splits)
  then show ?thesis using assms(3) cs(1) unfolding concluded_def by auto
next
  fix pre q x s
  assume s: "ru_calls s = ru_calls r @ pre @ [CCreateOrder q x]" "list_all side pre" "E pre q" "afterSend (foreignErrors deps) s res t"
  then obtain cs where cs: "ru_calls t = ru_calls s @ cs" "list_all side cs" unfolding afterSend_def sideCalls_def by blast
  let ?post = "cs @ CReleaseLease a token y # ds"
  have recorded: "list_ex storedTerminal cs \<and> resultRecorded ?post result" if "res = Inr result" for result
  proof -
    have "outcomeStored s result t" using that s(4) by (simp add: afterSend_def)
    from outcomeStored_recorded(2) [OF this cs assms(2)] show ?thesis by blast
  qed
  have "list_ex storedTerminal cs" if "foreignErrors deps"
    using that s(4) assms(2) recorded unfolding afterSend_def by (cases res) auto
  then have "foreignErrors deps \<longrightarrow> releaseJustified ?post" using releaseJustified_one [OF cs(2) assms(4)] by blast
  moreover have "\<forall>result. res' = Inr result \<longrightarrow> resultRecorded ?post result" using recorded res' by auto
  moreover have "\<not> list_ex isSend ?post" using list_ex_side [OF cs(2)] list_ex_side [OF assms(4)] by auto
  ultimately have "concluded deps E (pre @ CCreateOrder q x # ?post) res'"
    using s(2,3) by (intro concluded_sentI) auto
  then show ?thesis using s(1) cs(1) assms(3) by simp
qed

lemma leased_post:
  assumes "\<not> ru_createOrderInvoked r"
  shows "wp (sfinally (submitUnderLease deps input am) (releaseIfFlagged deps input am))
    (\<lambda>res u. \<exists>cs. ru_calls u = ru_calls r @ cs \<and> concluded deps (evidenceUnderLease deps input am) cs res) r"
  unfolding wp_sfinally
proof (rule wp_mono [OF submitUnderLease_post [OF assms]])
  fix res t assume t: "attempted deps (evidenceUnderLease deps input am) r res t"
  show "wp (releaseIfFlagged deps input am) (\<lambda>res' u. case res' of
      Inl e \<Rightarrow> \<exists>cs. ru_calls u = ru_calls r @ cs \<and> concluded deps (evidenceUnderLease deps input am) cs (Inl e)
    | Inr _ \<Rightarrow> \<exists>cs. ru_calls u = ru_calls r @ cs \<and> concluded deps (evidenceUnderLease deps input am) cs res) t"
  proof (rule wp_mono [OF releaseIfFlagged_post], goal_cases)
    case (1 res' u)
    show ?case
    proof (cases "ru_releaseLease t")
      case True
      with 1 obtain a token y ds where "ru_calls u = ru_calls t @ CReleaseLease a token y # ds" "list_all side ds" by auto
      from concluded_released [OF t True this] show ?thesis by (auto split: sum.splits)
    next
      case False
      with 1 concluded_kept [OF t False] show ?thesis by (auto split: sum.splits)
    qed
  qed
qed

text \<open>The idempotency key of a submission, and the evidence of a request with the acquisition of the lease.\<close>

definition submissionKey :: "'w exec_deps \<Rightarrow> SubmitOrderFromDecisionInput \<Rightarrow> string" where
  "submissionKey deps input = buildOrderIdempotencyKey (xd_sha256 deps) (si_exchangeAccountId input) (si_strategyDecisionId input)
     (marketStr (case si_market input of Some m \<Rightarrow> m | None \<Rightarrow> dc_market (si_decision input))) (sideStr (si_side input))
     (ordTypeStr (si_ordType input)) (si_price input) (si_volume input)"

definition sendEvidence :: "'w exec_deps \<Rightarrow> SubmitOrderFromDecisionInput \<Rightarrow> call list \<Rightarrow> UpbitOrderRequest \<Rightarrow> bool" where
  "sendEvidence deps input before request \<longleftrightarrow>
     (\<exists>acquisition lease intent ord renewal renewed state query authority.
        subseq ([CAcquireLease acquisition (Inr (Some lease)), intent, CUpdateOrder ord (Inr ()), CRenewLease renewal (Inr (Some renewed))] @
          finalReads input ord state @ [CExecutionAuthority query (Inr authority)]) before \<and>
        le_exchangeAccountId lease = si_exchangeAccountId input \<and> le_exchangeAccountId renewed = si_exchangeAccountId input \<and>
        le_ownerToken renewed = le_ownerToken lease \<and> ri_renewedAtEpochMs renewal < le_expiresAtEpochMs renewed \<and>
        storesIntent intent (ord\<lparr>or_status := PERSISTED\<rparr>) \<and> or_status ord = SUBMITTING \<and> requestFor ord request \<and>
        oi_exchangeAccountId ord = si_exchangeAccountId input \<and> oi_idempotencyKey ord = submissionKey deps input \<and>
        finalStateOk deps (ax_expectedExecutionMode query, ax_expectedLiveExecutionGate query) state \<and>
        ax_exchangeAccountId query = si_exchangeAccountId input)"

lemma sendEvidence_prefix: "sendEvidence deps input pre q \<Longrightarrow> sendEvidence deps input (cs @ pre) q"
  unfolding sendEvidence_def by (elim exE conjE, intro exI conjI) (rule subseq_drop_many, assumption+)

lemma sendEvidence_leased:
  assumes "evidenceUnderLease deps input am pre q" "leaseOwned input am lease" "subseq [CAcquireLease acquisition (Inr (Some lease))] cs"
    and "am_idempotencyKey am = submissionKey deps input"
  shows "sendEvidence deps input (cs @ pre) q"
proof -
  obtain intent ord renewal renewed state query authority where *:
      "subseq ([intent, CUpdateOrder ord (Inr ()), CRenewLease renewal (Inr (Some renewed))] @ finalReads input ord state @
          [CExecutionAuthority query (Inr authority)]) pre"
      "storesIntent intent (ord\<lparr>or_status := PERSISTED\<rparr>)" "or_status ord = SUBMITTING" "requestFor ord q"
      "oi_exchangeAccountId ord = si_exchangeAccountId input" "oi_idempotencyKey ord = submissionKey deps input"
      "leaseOwned input am renewed" "ri_renewedAtEpochMs renewal < le_expiresAtEpochMs renewed"
      "finalStateOk deps (ax_expectedExecutionMode query, ax_expectedLiveExecutionGate query) state"
      "ax_exchangeAccountId query = si_exchangeAccountId input"
    using assms(1,4) unfolding evidenceUnderLease_def by metis
  have "subseq ([CAcquireLease acquisition (Inr (Some lease)), intent, CUpdateOrder ord (Inr ()), CRenewLease renewal (Inr (Some renewed))] @
      finalReads input ord state @ [CExecutionAuthority query (Inr authority)]) (cs @ pre)"
    using list_emb_append_mono [OF assms(3) *(1)] by simp
  moreover have "le_exchangeAccountId lease = si_exchangeAccountId input" "le_exchangeAccountId renewed = si_exchangeAccountId input"
      "le_ownerToken renewed = le_ownerToken lease"
    using *(7) assms(2) by (simp_all add: leaseOwned_def)
  ultimately show ?thesis
    using *(2-6,8-10) unfolding sendEvidence_def by (intro exI conjI)
qed

lemma concluded_before:
  assumes "concluded deps E cs res" "list_all side ds" "\<And>pre q. E pre q \<Longrightarrow> F (ds @ pre) q"
  shows "concluded deps F (ds @ cs) res"
proof -
  consider (no) "\<not> list_ex isSend cs" "notSent res"
    | (sent) pre q x post where "cs = pre @ CCreateOrder q x # post" "list_all side pre" "E pre q" "\<not> list_ex isSend post"
        "foreignErrors deps \<longrightarrow> releaseJustified post" "\<forall>result. res = Inr result \<longrightarrow> resultRecorded post result"
    using assms(1) unfolding concluded_def by blast
  then show ?thesis
  proof cases
    case no
    then show ?thesis using list_ex_side [OF assms(2)] by (simp add: concluded_def)
  next
    case sent
    then have "concluded deps F ((ds @ pre) @ CCreateOrder q x # post) res"
      using assms(2,3) by (intro concluded_sentI) auto
    then show ?thesis using sent(1) by simp
  qed
qed

definition concludedFrom :: "'w exec_deps \<Rightarrow> SubmitOrderFromDecisionInput \<Rightarrow> 'w run \<Rightarrow> SubmitOrderFromDecisionResult res \<Rightarrow> 'w run \<Rightarrow> bool" where
  "concludedFrom deps input r res t \<longleftrightarrow> (\<exists>cs. ru_calls t = ru_calls r @ cs \<and> concluded deps (sendEvidence deps input) cs res)"

lemma concludedFrom_quiet: "sideCalls r t \<Longrightarrow> notSent res \<Longrightarrow> concludedFrom deps input r res t"
  unfolding concludedFrom_def sideCalls_def using list_ex_side by (fastforce simp: concluded_def)

lemma concludedFrom_before:
  assumes "sideCalls r s" "concludedFrom deps input s res t"
  shows "concludedFrom deps input r res t"
proof -
  obtain ds cs where "ru_calls s = ru_calls r @ ds" "list_all side ds" "ru_calls t = ru_calls s @ cs"
      "concluded deps (sendEvidence deps input) cs res"
    using assms unfolding sideCalls_def concludedFrom_def by blast
  then have "ru_calls t = ru_calls r @ (ds @ cs)" "concluded deps (sendEvidence deps input) (ds @ cs) res"
    by (auto intro: concluded_before sendEvidence_prefix)
  then show ?thesis unfolding concludedFrom_def by blast
qed

lemma concludedFrom_after:
  assumes "wp m (\<lambda>_. quiet r) r" "\<And>x s. calm r s \<Longrightarrow> wp (f x) (concludedFrom deps input s) s"
  shows "wp (sbind m f) (concludedFrom deps input r) r"
proof (rule wp_sbindI [OF assms(1)])
  fix x s assume s: "quiet r s"
  then have "wp (f x) (concludedFrom deps input s) s" by (intro assms(2)) (simp add: quiet_def)
  then show "wp (f x) (concludedFrom deps input r) s"
    by (rule wp_mono) (rule concludedFrom_before [OF sideCalls_if_quiet [OF s]])
qed (simp add: concludedFrom_quiet sideCalls_if_quiet)

lemma throws_blockAcquisition: "wp (blockAcquisition deps input key market t reason) (stage r Q) r"
  unfolding blockAcquisition_def by (rule stage_blockAndThrow)

lemma stage_acquireSubmissionLease:
  "wp (acquireSubmissionLease deps input key market t token) (stage r (\<lambda>(window, lease) s. \<exists>acquisition.
     logged [CAcquireLease acquisition (Inr lease)] r s)) r"
  unfolding acquireSubmissionLease_def
  apply (rule stage_scatch)
   apply (auto simp: wp_simps wp_invoke Let_def calm.rel_refl split: sum.splits prod.splits
      intro!: exI [of _ "\<lparr>ai_exchangeAccountId = _, ai_ownerToken = _, ai_purpose = _, ai_acquiredAtEpochMs = _, ai_expiresAtEpochMs = _\<rparr>"] logged_call) [1]
  apply (rule throws_blockAcquisition)
  done

lemma submitNewOrder_post:
  assumes "\<not> ru_createOrderInvoked r" and key: "key = submissionKey deps input"
  shows "wp (submitNewOrder deps input key market t c) (concludedFrom deps input r) r"
  unfolding submitNewOrder_def
proof (rule concludedFrom_after [OF quiet_draw], rule wp_sbindI [OF stage_acquireSubmissionLease], goal_cases)
  case (1 token s e u)
  then show ?case by (simp add: concludedFrom_quiet sideCalls_if_calm)
next
  case (2 token s x u)
  then obtain window lease acquisition where x: "x = (window, lease)" and u: "logged [CAcquireLease acquisition (Inr lease)] s u"
    by (cases x) auto
  have side: "sideCalls s u" using u by (auto intro: sideCalls_if_calm)
  have invoked: "\<not> ru_createOrderInvoked u" using u 2 assms by (auto simp: logged_def calm_def)
  show ?case
    unfolding x prod.case Let_def
  proof (intro wp_branches)
    show "wp (sbind (recordLeaseBlockedAndPause deps input key market t m j) (\<lambda>_. sreturn (leaseBlockedResult m))) (concludedFrom deps input s) u"
      for m j
      by (rule wp_sbindI [OF quiet_recordLeaseBlockedAndPause])
        (auto simp: wp_simps leaseBlockedResult_def notSent_def dest!: sideCalls_if_quiet intro!: concludedFrom_quiet intro: sideCalls.rel_trans [OF side])
    show "wp (blockAcquisition deps input key market t m) (concludedFrom deps input s) u" for m
      by (rule wp_mono [OF throws_blockAcquisition [where Q = "\<lambda>_ _. False"]])
        (auto simp: stage_def split: sum.splits dest!: sideCalls_if_calm intro!: concludedFrom_quiet intro: sideCalls.rel_trans [OF side])
  next
    assume "lease \<noteq> None" "\<not> \<not> isOwnedLease lease (si_exchangeAccountId input) token (lw_atEpochMs window)"
    then obtain l where l: "lease = Some l" "isOwnedLease (Some l) (si_exchangeAccountId input) token (lw_atEpochMs window)" by auto
    let ?am = "\<lparr>am_startedAt = t, am_market = market, am_idempotencyKey = key, am_leaseOwnerToken = token,
      am_acquisitionWindow = window, am_candidate = c\<rparr>"
    have owned: "leaseOwned input ?am l" using l by (simp add: leaseOwned_def isOwnedLease_def)
    obtain ds where ds: "ru_calls u = ru_calls s @ ds" "list_all side ds" "subseq [CAcquireLease acquisition (Inr (Some l))] ds"
      using u l unfolding logged_def calm_def by auto
    have "\<not> ru_createOrderInvoked (u\<lparr>ru_releaseLease := True\<rparr>)" using invoked by simp
    from leased_post [OF this, of deps input ?am]
    have "wp (sfinally (submitUnderLease deps input ?am) (releaseIfFlagged deps input ?am)) (concludedFrom deps input s) (u\<lparr>ru_releaseLease := True\<rparr>)"
    proof (rule wp_mono, elim exE conjE)
      fix res and v :: "'a run" and cs assume "ru_calls v = ru_calls (u\<lparr>ru_releaseLease := True\<rparr>) @ cs" "concluded deps (evidenceUnderLease deps input ?am) cs res"
      then have "ru_calls v = ru_calls s @ (ds @ cs)" "concluded deps (sendEvidence deps input) (ds @ cs) res"
        using ds by (auto intro!: concluded_before sendEvidence_leased [OF _ owned] simp: key)
      then show "concludedFrom deps input s res v" unfolding concludedFrom_def by blast
    qed
    then show "wp (sbind (setReleaseLease True) (\<lambda>_. sfinally (submitUnderLease deps input ?am) (releaseIfFlagged deps input ?am)))
        (concludedFrom deps input s) u" by (simp add: wp_simps(5,7))
  qed
qed

lemma answerDuplicate_not_sent: "wp (answerDuplicate deps input key t c d) (\<lambda>res _. notSent res) r"
  unfolding answerDuplicate_def by (auto simp: wp_simps notSent_def split: sum.splits intro!: wpI)

lemma submitOrderFromDecision_post:
  assumes "\<not> ru_createOrderInvoked r"
  shows "wp (submitOrderFromDecision deps input) (concludedFrom deps input r) r"
  unfolding submitOrderFromDecision_def Let_def
  apply (rule concludedFrom_after [OF quiet_invoke], simp)
  apply (rule concludedFrom_after [OF quiet.along_silent(3)])
  apply (rule concludedFrom_after [OF quiet_draw])
  apply (rule concludedFrom_after [OF quiet_invoke], simp)
  apply (rule concludedFrom_after [OF quiet_prepareCandidateContext])
  apply (intro wp_branches submitNewOrder_post)
  using assms apply (simp add: calm_def)
  apply (simp add: submissionKey_def)
  apply (rule wp_mono [OF quietly [OF quiet_answerDuplicate answerDuplicate_not_sent]])
  apply (simp add: concludedFrom_quiet sideCalls_if_quiet)
  done

lemma freshRun_calls: "ru_calls (freshRun w) = []" "\<not> ru_createOrderInvoked (freshRun w)"
  by (simp_all add: freshRun_def)

lemma submission_concluded:
  assumes "submitOrderFromDecision deps input (freshRun w) = (res, r)"
  shows "concluded deps (sendEvidence deps input) (ru_calls r) res"
  using wpD [OF submitOrderFromDecision_post [OF freshRun_calls(2)] assms]
  by (simp add: concludedFrom_def freshRun_calls)

end
