(* ===== verification/SubmissionProperties.thy ===== *)
theory SubmissionProperties
  imports ExecutionSafety
begin

section \<open>Properties of order submission\<close>

text \<open>
  The properties of \<open>ExecutionService.submitOrderFromDecision\<close>, for every behaviour of its dependencies, and one
  concrete run of it: a dry-run limit sell, with a store of orders as the world.
\<close>

definition sampleTime :: string where
  "sampleTime = ''2026-01-01T00:00:00Z''"

definition submissionState :: ExecutionStateRecord where
  "submissionState = \<lparr>st_id = ''s'', st_exchangeAccountId = ''a'', st_executionMode = DRY_RUN, st_liveExecutionGate = DISABLED,
     st_systemStatus = RUNNING, st_killSwitchActive = False, st_pauseReason = None, st_degradedReason = None,
     st_degradedAt = None, st_updatedAt = sampleTime\<rparr>"

definition sampleOwner :: RuntimeOwnershipRecord where
  "sampleOwner = \<lparr>ro_ownerToken = ''o'', ro_generation = 1, ro_executionMode = DRY_RUN, ro_acquiredAtEpochMs = 0,
     ro_heartbeatAtEpochMs = 0, ro_expiresAtEpochMs = 10\<rparr>"

definition sampleOwnership :: "'w ownership" where
  "sampleOwnership = \<lparr>ow_assertLocallyHeld = sreturn (), ow_assertCurrent = (\<lambda>_. sreturn sampleOwner),
     ow_currentExecutionAuthority = Some (\<lambda>_. sreturn \<lparr>ca_runtimeOwnership = sampleOwner,
       ca_executionState = \<lparr>as_exchangeAccountId = ''a'', as_executionMode = DRY_RUN, as_liveExecutionGate = DISABLED,
         as_systemStatus = RUNNING, as_killSwitchActive = False\<rparr>\<rparr>)\<rparr>"

definition sampleValidator :: "'w validator" where
  "sampleValidator = \<lparr>va_getOrderChance = (\<lambda>_. sreturn \<lparr>ch_marketId = ''KRW-BTC'', ch_askTypes = [''limit''], ch_bidTypes = [],
       ch_maxTotal = None, ch_bidMinTotal = None, ch_askMinTotal = None, ch_bidFee = ''0'', ch_askFee = ''0''\<rparr>),
     va_testOrder = (\<lambda>_. sreturn \<lparr>vr_accepted = True, vr_marketOnline = True, vr_reason = None, vr_preview = None\<rparr>)\<rparr>"

definition sampleSnapshot :: "UpbitOrderRequest \<Rightarrow> ExchangeOrderSnapshot" where
  "sampleSnapshot q = \<lparr>xo_uuid = ''u'', xo_identifier = Some (uq_identifier q), xo_market = uq_market q, xo_side = uq_side q,
     xo_ordType = uq_ordType q, xo_state = ''wait'', xo_price = uq_price q, xo_volume = uq_volume q, xo_timeInForce = None,
     xo_smpType = None, xo_remainingVolume = None, xo_executedVolume = None, xo_paidFee = None, xo_createdAt = sampleTime,
     xo_fills = [], xo_raw = JNull\<rparr>"

definition samplePortfolio :: PortfolioExposureSnapshot where
  "samplePortfolio = \<lparr>pe_totalEquityKrw = Num 100, pe_totalExposureKrw = Num 50, pe_assetExposureKrw = (\<lambda>_. Num 50)\<rparr>"

definition sampleDeps :: "OrderRecord list exec_deps" where
  "sampleDeps = \<lparr>
     xd_riskLimits = \<lparr>rl_maxAllocationByAsset = (\<lambda>_. Num 1), rl_totalExposureCap = Num 1, rl_stalePriceThresholdMs = Num 60000,
       rl_minimumOrderValueKrw = Num 1\<rparr>,
     xd_sendPath = DRY_RUN_ADAPTER,
     xd_createOrder = (\<lambda>q. sreturn (sreturn (sampleSnapshot q))),
     xd_executionValidator = sampleValidator, xd_validationAdapter = None,
     xd_findOrderByIdempotencyKey = (\<lambda>a k. sget (find (\<lambda>ord. oi_idempotencyKey ord = k))),
     xd_listActiveOrders = (\<lambda>a. sget (\<lambda>os. os)),
     xd_getPortfolioExposure = (\<lambda>a. sreturn samplePortfolio),
     xd_saveRiskEvent = (\<lambda>_. sreturn ()),
     xd_persistOrderIntent = (\<lambda>i. smodify (\<lambda>os. os @ [pi_order i])),
     xd_persistCandidateBoundOrderIntent = (\<lambda>_. sthrow (Error ''no pilot'')),
     xd_updateOrder = (\<lambda>ord. smodify (map (\<lambda>p. if or_id p = or_id ord then ord else p))),
     xd_listSubmissionBlockingOrders = (\<lambda>a n. sget (\<lambda>os. os)),
     xd_findOrderById = (\<lambda>a i. sget (find (\<lambda>ord. or_id ord = i))),
     xd_persistExchangeSubmission = (\<lambda>p. smodify (map (\<lambda>q. if or_id q = or_id (px_order p) then px_order p else q))),
     xd_persistUncertainSubmission = (\<lambda>_. sreturn ()), xd_listOrderEvents = (\<lambda>_. sreturn []),
     xd_getStrategyDecisionById = None,
     xd_acquireLease = (\<lambda>i. sreturn (Some \<lparr>le_exchangeAccountId = ai_exchangeAccountId i, le_ownerToken = ai_ownerToken i,
       le_purpose = ai_purpose i, le_acquiredAtEpochMs = ai_acquiredAtEpochMs i, le_expiresAtEpochMs = ai_expiresAtEpochMs i\<rparr>)),
     xd_renewLease = (\<lambda>i. sreturn (Some \<lparr>le_exchangeAccountId = ri_exchangeAccountId i, le_ownerToken = ri_ownerToken i,
       le_purpose = ORDER_SUBMISSION, le_acquiredAtEpochMs = ri_renewedAtEpochMs i, le_expiresAtEpochMs = ri_expiresAtEpochMs i\<rparr>)),
     xd_releaseLease = (\<lambda>a t. sreturn True), xd_accountExecutionLeaseMs = Num 1000,
     xd_getState = sreturn submissionState, xd_pauseForFault = (\<lambda>_. sreturn submissionState),
     xd_runtimeOwnership = Some sampleOwnership, xd_candidatePilots = None, xd_reporter = None,
     xd_currentTimestamp = (\<lambda>w. (sampleTime, w)), xd_wallClock = (\<lambda>w. (sampleTime, w)), xd_dateNow = (\<lambda>w. (0, w)),
     xd_createId = (\<lambda>p w. (p, w)), xd_sha256 = (\<lambda>s. ''h''), xd_legacyDateParse = (\<lambda>_. NaN)\<rparr>"

definition sampleSell :: SubmitOrderFromDecisionInput where
  "sampleSell = \<lparr>si_exchangeAccountId = ''a'', si_strategyDecisionId = None, si_referencePriceCapturedAt = sampleTime,
     si_decision = \<lparr>dc_strategyKey = ''k'', dc_market = KRW_BTC, dc_action = EXIT, dc_reasonCodes = [], dc_referencePrice = Num 10,
       dc_requestedNotionalKrw = Some (Num 10), dc_requestedQuantity = Some (Num 1), dc_metadata = Map.empty\<rparr>,
     si_side = Ask, si_ordType = Limit, si_price = Some ''10'', si_volume = Some ''1'', si_origin = None, si_market = None,
     si_candidateAuthority = None\<rparr>"

lemma sample_date: "dateParse (\<lambda>_. NaN) sampleTime = Num 1767225600000" by code_simp

definition sampleWindow :: LeaseWindow where
  "sampleWindow = \<lparr>lw_atEpochMs = 1767225600000, lw_expiresAtEpochMs = 1767225601000\<rparr>"

lemma sample_acquisition: "leaseWindow (\<lambda>_. NaN) (Num 1000) sampleTime ''acquisition'' = Inr sampleWindow"
  by code_simp

lemma sample_renewal: "leaseWindow (\<lambda>_. NaN) (Num 1000) sampleTime ''renewal'' = Inr sampleWindow"
  by code_simp

lemma sample_stamp: "parsePositionGuardCandidateTimestamp sampleTime l = Inr 1767225600000000000"
proof -
  have "parsePositionGuardCandidateTimestamp sampleTime ''x'' = Inr 1767225600000000000" by code_simp
  then show ?thesis unfolding candidate_timestamp_iff .
qed

lemma sample_one: "numberOf ''1'' = Num 1"
  by code_simp

lemma sample_ten: "numberOf ''10'' = Num 10"
  by code_simp

lemma sample_zero: "round64 0 = Num 0"
  by code_simp

lemmas sample_numbers = sample_one sample_ten sample_zero

lemma sampleDeps_select [simp]:
  "xd_sendPath sampleDeps = DRY_RUN_ADAPTER"
  "xd_createOrder sampleDeps = (\<lambda>q. sreturn (sreturn (sampleSnapshot q)))"
  "xd_executionValidator sampleDeps = sampleValidator" "xd_validationAdapter sampleDeps = None"
  "xd_findOrderByIdempotencyKey sampleDeps = (\<lambda>a k. sget (find (\<lambda>ord. oi_idempotencyKey ord = k)))"
  "xd_listActiveOrders sampleDeps = (\<lambda>a. sget (\<lambda>os. os))"
  "xd_getPortfolioExposure sampleDeps = (\<lambda>a. sreturn samplePortfolio)"
  "xd_persistOrderIntent sampleDeps = (\<lambda>i. smodify (\<lambda>os. os @ [pi_order i]))"
  "xd_updateOrder sampleDeps = (\<lambda>ord. smodify (map (\<lambda>p. if or_id p = or_id ord then ord else p)))"
  "xd_listSubmissionBlockingOrders sampleDeps = (\<lambda>a n. sget (\<lambda>os. os))"
  "xd_findOrderById sampleDeps = (\<lambda>a i. sget (find (\<lambda>ord. or_id ord = i)))"
  "xd_persistExchangeSubmission sampleDeps = (\<lambda>p. smodify (map (\<lambda>q. if or_id q = or_id (px_order p) then px_order p else q)))"
  "xd_acquireLease sampleDeps = (\<lambda>i. sreturn (Some \<lparr>le_exchangeAccountId = ai_exchangeAccountId i, le_ownerToken = ai_ownerToken i,
       le_purpose = ai_purpose i, le_acquiredAtEpochMs = ai_acquiredAtEpochMs i, le_expiresAtEpochMs = ai_expiresAtEpochMs i\<rparr>))"
  "xd_renewLease sampleDeps = (\<lambda>i. sreturn (Some \<lparr>le_exchangeAccountId = ri_exchangeAccountId i, le_ownerToken = ri_ownerToken i,
       le_purpose = ORDER_SUBMISSION, le_acquiredAtEpochMs = ri_renewedAtEpochMs i, le_expiresAtEpochMs = ri_expiresAtEpochMs i\<rparr>))"
  "xd_releaseLease sampleDeps = (\<lambda>a t. sreturn True)" "xd_accountExecutionLeaseMs sampleDeps = Num 1000"
  "xd_getState sampleDeps = sreturn submissionState" "xd_runtimeOwnership sampleDeps = Some sampleOwnership"
  "xd_candidatePilots sampleDeps = None" "xd_reporter sampleDeps = None"
  "xd_currentTimestamp sampleDeps = (\<lambda>w. (sampleTime, w))" "xd_dateNow sampleDeps = (\<lambda>w. (0, w))"
  "xd_createId sampleDeps = (\<lambda>p w. (p, w))" "xd_sha256 sampleDeps = (\<lambda>s. ''h'')" "xd_legacyDateParse sampleDeps = (\<lambda>_. NaN)"
  by (simp_all add: sampleDeps_def)

lemma sampleSell_select [simp]:
  "si_exchangeAccountId sampleSell = ''a''" "si_strategyDecisionId sampleSell = None" "dc_market (si_decision sampleSell) = KRW_BTC"
  "dc_referencePrice (si_decision sampleSell) = Num 10" "si_side sampleSell = Ask" "si_ordType sampleSell = Limit"
  "si_price sampleSell = Some ''10''" "si_volume sampleSell = Some ''1''" "si_origin sampleSell = None" "si_market sampleSell = None"
  "si_candidateAuthority sampleSell = None" "requestedNotionalOf sampleSell = Some (Num 10)"
  by (simp_all add: sampleSell_def requestedNotionalOf_def)

lemma submissionState_select [simp]:
  "st_systemStatus submissionState = RUNNING" "\<not> st_killSwitchActive submissionState"
  "selectExecutionAuthority submissionState = (DRY_RUN, DISABLED)"
  by (simp_all add: submissionState_def selectExecutionAuthority_def)

lemma sampleOwnership_select [simp]:
  "ow_assertLocallyHeld sampleOwnership = sreturn ()" "ow_assertCurrent sampleOwnership = (\<lambda>_. sreturn sampleOwner)"
  by (simp_all add: sampleOwnership_def)

lemma sampleSnapshot_select [simp]: "xo_fills (sampleSnapshot q) = []" "xo_raw (sampleSnapshot q) = JNull"
  by (simp_all add: sampleSnapshot_def)

lemma wp_no_fills [simp]: "wp (exchangeFillRecords deps i m []) Q r = Q (Inr []) r"
  by (simp add: wp_def)

lemma sample_risk:
  assumes "am_startedAt am = sampleTime"
  shows "re_accepted (evaluateRiskGuards (\<lambda>_. NaN) (riskContextOf sampleDeps sampleSell am submissionState [] samplePortfolio))"
  unfolding accepted_iff
  by (simp add: assms riskContextOf_def composeExecutionPolicy_def submissionState_def sampleSell_def sampleDeps_def executionModeForAdapter_def
      stalePriceRules_def priceAgeMs_def num_sub_def sample_date sample_numbers num_greater_def pushIf_def hasDuplicateOpenOrder_def
      exposureRules_def exposureDeltaKrw_def requestedNotionalOf_def samplePortfolio_def Let_def)

lemmas run_symbolic = wp_simps wp_invoke wp_invokeAs wp_draw Let_def

lemma sample_run:
  "wp (submitOrderFromDecision sampleDeps sampleSell) (\<lambda>res r. (\<exists>result. res = Inr result \<and> sr_outcome result = OUTCOME_SIMULATED_FILLED) \<and>
     (\<exists>q x a token y. filter (\<lambda>c. \<not> side c) (ru_calls r) = [CCreateOrder q x, CReleaseLease a token y])) (freshRun [])"
  unfolding submitOrderFromDecision_def submitNewOrder_def acquireSubmissionLease_def
  apply (simp add: run_symbolic sample_acquisition freshRun_def
     runtimeOwnership_def assertCanonicalUpbitMarketBuyQuote_def prepareCandidateContext_def
     buildOrderIdempotencyKey_def isOwnedLease_def sampleWindow_def isSafeInteger_def MAX_SAFE_INTEGER_def)
  apply (simp add: run_symbolic submitUnderLease_def executionAdapterAcceptsAuthority_def)
  apply (simp add: run_symbolic guardAndSubmit_def sample_risk runExchangePreTradeValidation_def sampleValidator_def
     preTradeInputOf_def checkOrderChance_def resolveChanceTypeToken_def persistIntent_def persistPlainIntent_def)
  apply (simp add: run_symbolic submitIntent_def renewSubmissionLease_def sample_renewal isOwnedLease_def sampleWindow_def isSafeInteger_def MAX_SAFE_INTEGER_def
     submittingOrderOf_def orderRecordOf_def)
  apply (simp add: run_symbolic startSubmission_def finalChecks_def assertFinalCandidatePreSendAuthority_def executionAdapterAcceptsAuthority_def
     submittingOrderOf_def assertFinalPersistedSubmissionAuthority_def CANDIDATE_FINAL_ORDER_SCAN_LIMIT_def sameOrderRecord_def
     sendUnderAuthority_def runtimeOwnership_def sampleOwnership_def)
  apply (simp add: run_symbolic settleSubmission_def awaitExchangeOrder_def assertCurrentOrMark_def recordExchangeOrder_def settleDryRun_def runtimeOwnership_def)
  apply (simp add: run_symbolic createDryRunSyntheticFill_def truthyString_def sample_numbers sample_stamp num_le_def)
  apply (simp add: run_symbolic storeSubmittedOrder_def terminalEventFor_def persistSubmissionOrFail_def isTerminalOrderStatus_def)
  apply (simp add: run_symbolic releaseIfFlagged_def releaseLeaseOrFail_def)
  apply (simp add: side_def)
  done

definition sampleRun :: "SubmitOrderFromDecisionResult res \<times> OrderRecord list run" where
  "sampleRun = submitOrderFromDecision sampleDeps sampleSell (freshRun [])"

lemma sampleRun_pair: "submitOrderFromDecision sampleDeps sampleSell (freshRun []) = (fst sampleRun, snd sampleRun)"
  by (simp add: sampleRun_def)

lemma sample_foreign: "foreignErrors sampleDeps"
  by (simp add: foreignErrors_def foreignPromise_def)

lemma split_filtered:
  assumes "filter P cs = [a, b]"
  shows "\<exists>us vs ws. cs = us @ a # vs @ b # ws"
proof -
  have one: "\<exists>us vs. cs = us @ a # vs \<and> filter P vs = as" if "filter P cs = a # as" for cs a as
    using that by (metis filter_eq_ConsD)
  from one [OF assms] obtain us rest where "cs = us @ a # rest" "filter P rest = [b]" by blast
  moreover from one [OF this(2)] obtain vs ws where "rest = vs @ b # ws" by blast
  ultimately show ?thesis by blast
qed

lemma sample_calls:
  obtains before q x between a token y after result where
    "ru_calls (snd sampleRun) = before @ CCreateOrder q x # between @ CReleaseLease a token y # after" "fst sampleRun = Inr result"
    "sr_outcome result = OUTCOME_SIMULATED_FILLED"
  using wpD [OF sample_run sampleRun_pair] by (blast dest: split_filtered)

subsection \<open>One request per submission\<close>

lemma length_sends_none: "\<not> list_ex isSend cs \<Longrightarrow> filter isSend cs = []"
  by (induction cs) auto

text \<open>
  C2. A submission sends the exchange at most one order, whatever the stores, the clocks, the adapter and the other
  callbacks do, and however the calls fail.
\<close>
theorem order_sent_at_most_once:
  "length (filter isSend (ru_calls (snd (submitOrderFromDecision deps input (freshRun w))))) \<le> 1"
proof -
  obtain res r where run: "submitOrderFromDecision deps input (freshRun w) = (res, r)" by fastforce
  from submission_concluded [OF run] show ?thesis
    unfolding concluded_def run snd_conv
    by (auto simp: length_sends_none dest!: list_ex_side)
qed

subsection \<open>What precedes the request\<close>

lemma split_at_send:
  assumes "pre @ CCreateOrder q x # post = before @ CCreateOrder q' x' # after" "list_all side pre" "\<not> list_ex isSend post"
  shows "before = pre \<and> q' = q \<and> x' = x \<and> after = post"
  using assms
proof (induction pre arbitrary: before)
  case Nil
  then show ?case by (cases before) auto
next
  case (Cons c cs)
  then show ?case by (cases before) (auto simp: side_def)
qed

text \<open>
  C1. Before an order request is sent, in this order: the account's execution lease was acquired, the order's intent
  was stored with status PERSISTED, the same order was written back as SUBMITTING, the lease was renewed for the same
  owner and not yet expired, the operator state was read and is RUNNING, without kill switch and with a mode and gate
  the adapter accepts, the account's blocking orders were read and are exactly this order, the order was read back and
  is unchanged, and the runtime ownership confirmed its execution authority for that mode and gate. The request carries
  the stored order's market, side, type, volume, price and identifier, and the stored order has the account and the
  idempotency key of the input.
\<close>
theorem send_is_prepared:
  assumes "submitOrderFromDecision deps input (freshRun w) = (res, r)"
    and "ru_calls r = before @ CCreateOrder request x # after"
  shows "sendEvidence deps input before request"
proof -
  have "list_ex isSend (ru_calls r)" using assms(2) by simp
  then obtain pre q y post where "ru_calls r = pre @ CCreateOrder q y # post" "list_all side pre" "sendEvidence deps input pre q"
      "\<not> list_ex isSend post"
    using submission_concluded [OF assms(1)] unfolding concluded_def by blast
  then show ?thesis using split_at_send [of pre q y post before request x after] assms(2) by auto
qed

theorem send_is_prepared_witness:
  "\<exists>before request x after. ru_calls (snd sampleRun) = before @ CCreateOrder request x # after \<and> sendEvidence sampleDeps sampleSell before request"
proof -
  obtain before q x rest where calls: "ru_calls (snd sampleRun) = before @ CCreateOrder q x # rest" by (rule sample_calls) blast
  from send_is_prepared [OF sampleRun_pair calls] calls show ?thesis by blast
qed

subsection \<open>The lease after the request\<close>

text \<open>
  C3. Once an order request was sent, the account's execution lease is released only after the exchange's answer was
  stored with a terminal order status (filled, canceled or rejected): an open, partially filled or uncertain order, a
  failed write, a lost ownership or an ambiguous answer all leave the lease in place.
\<close>
theorem lease_kept_until_settled:
  assumes "submitOrderFromDecision deps input (freshRun w) = (res, r)" "foreignErrors deps"
    and "ru_calls r = before @ CCreateOrder request x # between @ CReleaseLease account token y # after"
  shows "list_ex storedTerminal between"
proof -
  have "list_ex isSend (ru_calls r)" using assms(3) by simp
  then obtain pre q z post where "ru_calls r = pre @ CCreateOrder q z # post" "list_all side pre" "\<not> list_ex isSend post"
      "releaseJustified post"
    using submission_concluded [OF assms(1)] assms(2) unfolding concluded_def by blast
  then have "post = between @ CReleaseLease account token y # after" "releaseJustified post"
    using split_at_send [of pre q z post before request x "between @ CReleaseLease account token y # after"] assms(3) by auto
  then show ?thesis unfolding releaseJustified_def by blast
qed

theorem lease_kept_until_settled_witness:
  "\<exists>before request x between account token y after. ru_calls (snd sampleRun) =
     before @ CCreateOrder request x # between @ CReleaseLease account token y # after \<and> list_ex storedTerminal between"
proof -
  obtain before q x between a token y after where calls:
      "ru_calls (snd sampleRun) = before @ CCreateOrder q x # between @ CReleaseLease a token y # after"
    by (rule sample_calls) blast
  from lease_kept_until_settled [OF sampleRun_pair sample_foreign calls] calls show ?thesis by blast
qed

subsection \<open>The outcome that is reported\<close>

text \<open>
  C4. What a returning submission reports is what happened: a blocked or duplicate submission, or a rejection without an
  order, sent nothing; every other outcome follows a request, an accepted or rejected one with the reported order stored
  with the exchange's answer, and RECONCILIATION_REQUIRED with the uncertain order stored in that status, a
  successful fault pause for that order afterwards and the lease not released.
\<close>
theorem reported_outcome_recorded:
  assumes "submitOrderFromDecision deps input (freshRun w) = (Inr result, r)"
  shows "if list_ex isSend (ru_calls r)
    then \<exists>before request x after. ru_calls r = before @ CCreateOrder request x # after \<and> resultRecorded after result
    else \<not> sr_accepted result \<and> sr_outcome result \<in> {OUTCOME_REJECTED, OUTCOME_LEASE_BLOCKED, OUTCOME_DUPLICATE}"
  using submission_concluded [OF assms] unfolding concluded_def notSent_def by auto

theorem reported_outcome_recorded_witness:
  "\<exists>result before request x after. fst sampleRun = Inr result \<and> sr_outcome result = OUTCOME_SIMULATED_FILLED \<and>
     ru_calls (snd sampleRun) = before @ CCreateOrder request x # after \<and> resultRecorded after result"
proof -
  obtain before q x rest result where calls: "ru_calls (snd sampleRun) = before @ CCreateOrder q x # rest"
      and result: "fst sampleRun = Inr result" "sr_outcome result = OUTCOME_SIMULATED_FILLED"
    by (rule sample_calls) blast
  have "submitOrderFromDecision sampleDeps sampleSell (freshRun []) = (Inr result, snd sampleRun)"
    using sampleRun_pair result by simp
  from reported_outcome_recorded [OF this] calls result show ?thesis by auto
qed

end
