(* ===== verification/SubmissionTrace.thy ===== *)
theory SubmissionTrace
  imports ExecutionSafety
begin

section \<open>A submission as a sequence of steps\<close>

text \<open>
  \<open>service_step deps\<close>: one step of the execution service, a call to a dependency with its effect on the world, a
  reading of a clock or a fresh identifier, or an assignment to a local. Every run of \<open>submitOrderFromDecision\<close> is a
  sequence of such steps, so that what holds of a store through each of them holds through a submission.
  \<open>updateOrder\<close>, which itself checks nothing, is only called on an order whose intent was stored before.
\<close>

definition validatorOf :: "'w exec_deps \<Rightarrow> 'w validator" where
  "validatorOf deps = (case xd_validationAdapter deps of Some v \<Rightarrow> v | None \<Rightarrow> xd_executionValidator deps)"

fun performs :: "'w exec_deps \<Rightarrow> call \<Rightarrow> 'w \<Rightarrow> 'w \<Rightarrow> bool" where
  "performs deps (CAssertLocallyHeld x) w w' = (ow_assertLocallyHeld (runtimeOwnership deps) w = (x, w'))"
| "performs deps (CAssertCurrent n x) w w' = (ow_assertCurrent (runtimeOwnership deps) n w = (x, w'))"
| "performs deps (CExecutionAuthority q x) w w' =
     (\<exists>f. ow_currentExecutionAuthority (runtimeOwnership deps) = Some f \<and> f q w = (x, w'))"
| "performs deps (CFindOrderByIdempotencyKey a k x) w w' = (xd_findOrderByIdempotencyKey deps a k w = (x, w'))"
| "performs deps (CAcquireLease i x) w w' = (xd_acquireLease deps i w = (x, w'))"
| "performs deps (CRenewLease i x) w w' = (xd_renewLease deps i w = (x, w'))"
| "performs deps (CReleaseLease a t x) w w' = (xd_releaseLease deps a t w = (x, w'))"
| "performs deps (CListActiveOrders a x) w w' = (xd_listActiveOrders deps a w = (x, w'))"
| "performs deps (CGetState x) w w' = (xd_getState deps w = (x, w'))"
| "performs deps (CGetPortfolioExposure a x) w w' = (xd_getPortfolioExposure deps a w = (x, w'))"
| "performs deps (CSaveRiskEvent e x) w w' = (xd_saveRiskEvent deps e w = (x, w'))"
| "performs deps (CGetOrderChance m x) w w' = (va_getOrderChance (validatorOf deps) m w = (x, w'))"
| "performs deps (CTestOrder q x) w w' = (va_testOrder (validatorOf deps) q w = (x, w'))"
| "performs deps (CPersistOrderIntent i x) w w' = (xd_persistOrderIntent deps i w = (x, w'))"
| "performs deps (CPersistCandidateIntent i x) w w' = (xd_persistCandidateBoundOrderIntent deps i w = (x, w'))"
| "performs deps (CUpdateOrder ord x) w w' = (xd_updateOrder deps ord w = (x, w'))"
| "performs deps (CListSubmissionBlockingOrders a n x) w w' = (xd_listSubmissionBlockingOrders deps a n w = (x, w'))"
| "performs deps (CFindOrderById a i x) w w' = (xd_findOrderById deps a i w = (x, w'))"
| "performs deps (CCreateOrder q x) w w' = (\<exists>p. xd_createOrder deps q w = (p, w') \<and> x = map_sum id (\<lambda>_. ()) p)"
| "performs deps (CAwaitOrder x) w w' = (\<exists>q v v' p. xd_createOrder deps q v = (Inr p, v') \<and> p w = (x, w'))"
| "performs deps (CPersistExchangeSubmission i x) w w' = (xd_persistExchangeSubmission deps i w = (x, w'))"
| "performs deps (CPersistUncertainSubmission i x) w w' = (xd_persistUncertainSubmission deps i w = (x, w'))"
| "performs deps (CPauseForFault f x) w w' = (xd_pauseForFault deps f w = (x, w'))"
| "performs deps (CPauseForCandidateFault f x) w w' =
     (\<exists>pilots. xd_candidatePilots deps = Some pilots \<and> pl_pauseForCandidateIntentFault pilots f w = (x, w'))"
| "performs deps (CListOrderEvents i x) w w' = (xd_listOrderEvents deps i w = (x, w'))"
| "performs deps (CGetStrategyDecision i x) w w' = (\<exists>f. xd_getStrategyDecisionById deps = Some f \<and> f i w = (x, w'))"
| "performs deps (CGetDeployment i x) w w' =
     (\<exists>pilots. xd_candidatePilots deps = Some pilots \<and> pl_getDeployment pilots i w = (x, w'))"
| "performs deps (CGetExactState i x) w w' =
     (\<exists>pilots. xd_candidatePilots deps = Some pilots \<and> pl_getExactState pilots i w = (x, w'))"
| "performs deps (CGetBinding i x) w w' =
     (\<exists>pilots. xd_candidatePilots deps = Some pilots \<and> pl_getExecutionBindingForOrder pilots i w = (x, w'))"
| "performs deps (CReport p x) w w' = (\<exists>report. xd_reporter deps = Some report \<and> report p w = (x, w'))"

text \<open>The clocks and identifiers a run draws from.\<close>

inductive draws :: "'w exec_deps \<Rightarrow> 'w \<Rightarrow> 'w \<Rightarrow> bool" for deps where
  timestamp: "xd_currentTimestamp deps w = (x, w') \<Longrightarrow> draws deps w w'"
| wallClock: "xd_wallClock deps w = (x, w') \<Longrightarrow> draws deps w w'"
| dateNow: "xd_dateNow deps w = (n, w') \<Longrightarrow> draws deps w w'"
| freshId: "xd_createId deps p w = (x, w') \<Longrightarrow> draws deps w w'"

text \<open>The order of an update is the order of an intent stored before, marked as being submitted.\<close>

fun preceded :: "call \<Rightarrow> call list \<Rightarrow> bool" where
  "preceded (CUpdateOrder ord x) before = (\<exists>c\<in>set before. \<exists>im. storesIntent c (im_order im) \<and> ord = submittingOrderOf im)"
| "preceded c before = True"

fun isAwait :: "call \<Rightarrow> bool" where
  "isAwait (CAwaitOrder x) = True"
| "isAwait c = False"

inductive service_step :: "'w exec_deps \<Rightarrow> 'w run \<Rightarrow> 'w run \<Rightarrow> bool" for deps where
  call: "performs deps c (ru_world r) w \<Longrightarrow> preceded c (ru_calls r) \<Longrightarrow> \<not> isAwait c \<Longrightarrow>
    service_step deps r (r\<lparr>ru_world := w, ru_calls := ru_calls r @ [c]\<rparr>)"
| await: "ru_promise r = Some p \<Longrightarrow> p (ru_world r) = (x, w) \<Longrightarrow>
    service_step deps r (r\<lparr>ru_world := w, ru_calls := ru_calls r @ [CAwaitOrder x]\<rparr>)"
| draw: "draws deps (ru_world r) w \<Longrightarrow> service_step deps r (r\<lparr>ru_world := w\<rparr>)"
| started: "xd_createOrder deps q v = (Inr p, w) \<Longrightarrow> service_step deps r (r\<lparr>ru_promise := Some p\<rparr>)"
| flags: "ru_world r' = ru_world r \<Longrightarrow> ru_calls r' = ru_calls r \<Longrightarrow> ru_promise r' = ru_promise r \<Longrightarrow> service_step deps r r'"

interpretation traced: step_preorder "(service_step deps)\<^sup>*\<^sup>*"
  by unfold_locales auto

abbreviation traced :: "'w exec_deps \<Rightarrow> 'w run \<Rightarrow> 'w run \<Rightarrow> bool" where
  "traced deps \<equiv> (service_step deps)\<^sup>*\<^sup>*"

named_theorems traced_rules \<open>subroutines that are sequences of steps\<close>

lemmas traced_structure =
  traced.along_sbind traced.along_scatch traced.along_sfinally traced.along_sattempt traced.along_silent wp_branches

lemma traced_invoke:
  assumes "\<And>w x w'. m w = (x, w') \<Longrightarrow> performs deps (k x) w w'" "\<And>x. preceded (k x) (ru_calls r)" "\<And>x. \<not> isAwait (k x)"
  shows "wp (invoke k m) (\<lambda>_. traced deps r) r"
  unfolding wp_invoke using assms by (auto split: prod.splits intro!: r_into_rtranclp service_step.call)

lemma traced_draw [traced_rules]:
  "wp (draw (xd_currentTimestamp deps)) (\<lambda>_. traced deps r) r" "wp (draw (xd_wallClock deps)) (\<lambda>_. traced deps r) r"
  "wp (draw (xd_dateNow deps)) (\<lambda>_. traced deps r) r" "wp (draw (xd_createId deps p)) (\<lambda>_. traced deps r) r"
  unfolding wp_draw by (auto split: prod.splits intro!: r_into_rtranclp service_step.draw intro: draws.intros)

lemma traced_flags [traced_rules]:
  "wp (setReleaseLease b) (\<lambda>_. traced deps r) r" "wp (smodify (\<lambda>r. r\<lparr>ru_createOrderInvoked := b\<rparr>)) (\<lambda>_. traced deps r) r"
  "wp (smodify (\<lambda>r. r\<lparr>ru_finalCheckStarted := b\<rparr>)) (\<lambda>_. traced deps r) r"
  "wp (smodify (\<lambda>r. r\<lparr>ru_ownershipAssertionFailed := b\<rparr>)) (\<lambda>_. traced deps r) r"
  by (simp_all add: wp_simps r_into_rtranclp service_step.flags)

subsection \<open>Subroutines\<close>

lemma traced_saveRiskEventOf [traced_rules]: "wp (saveRiskEventOf deps a d c m p i) (\<lambda>_. traced deps r) r"
  unfolding saveRiskEventOf_def createRiskEvent_def
  by (intro traced_rules traced_structure traced_invoke) simp_all

lemma traced_createRiskEvent [traced_rules]: "wp (createRiskEvent deps a d c m p i) (\<lambda>_. traced deps r) r"
  unfolding createRiskEvent_def by (intro traced_rules traced_structure)

lemma traced_safeReport [traced_rules]: "wp (safeReport deps rep) (\<lambda>_. traced deps r) r"
  unfolding safeReport_def by (intro traced_rules traced_structure traced_invoke) simp_all

lemma traced_servicePauseForFault [traced_rules]: "wp (servicePauseForFault deps f) (\<lambda>_. traced deps r) r"
  unfolding servicePauseForFault_def by (intro traced_rules traced_structure traced_invoke) simp_all

lemma traced_recordLeaseBlockedAndPause [traced_rules]:
  "wp (recordLeaseBlockedAndPause deps input key market t reason i) (\<lambda>_. traced deps r) r"
  unfolding recordLeaseBlockedAndPause_def by (intro traced_rules traced_structure)

lemma traced_throwPostSendPersistenceFailure [traced_rules]:
  "wp (throwPostSendPersistenceFailure deps ord a t reason) (\<lambda>_. traced deps r) r"
  unfolding throwPostSendPersistenceFailure_def by (intro traced_rules traced_structure)

lemma traced_candidateFault [traced_rules]: "wp (candidateFault deps ctx input i b stg t m) (\<lambda>_. traced deps r) r"
  unfolding candidateFault_def pauseCandidateIntentFault_def Let_def
  by (intro traced_rules traced_structure traced_invoke) simp_all

lemma traced_keepLeaseAndFault [traced_rules]: "wp (keepLeaseAndFault deps ctx input i b stg t m) (\<lambda>_. traced deps r) r"
  unfolding keepLeaseAndFault_def by (intro traced_rules traced_structure)

lemma traced_prepareCandidateContext [traced_rules]: "wp (prepareCandidateContext deps input market) (\<lambda>_. traced deps r) r"
  unfolding prepareCandidateContext_def by (intro traced_rules traced_structure traced_invoke) simp_all

lemma traced_answerDuplicate [traced_rules]: "wp (answerDuplicate deps input key t c d) (\<lambda>_. traced deps r) r"
  unfolding answerDuplicate_def assertExactCandidateDuplicate_def Let_def
  by (intro traced_rules traced_structure traced_invoke) simp_all

lemma traced_assertFinalCandidatePreSendAuthority [traced_rules]:
  "wp (assertFinalCandidatePreSendAuthority deps c) (\<lambda>_. traced deps r) r"
  unfolding assertFinalCandidatePreSendAuthority_def by (intro traced_rules traced_structure traced_invoke) simp_all

lemma traced_runExchangePreTradeValidation [traced_rules]:
  "wp (runExchangePreTradeValidation deps i q) (\<lambda>_. traced deps r) r"
  unfolding runExchangePreTradeValidation_def Let_def validatorOf_def [symmetric]
  by (intro traced_rules traced_structure traced_invoke)
    (auto split: PreTradeValidation.splits intro!: traced_rules traced_structure traced_invoke)

lemma traced_promiseAll [traced_rules]:
  assumes "\<And>x r. wp (f x) (\<lambda>_. traced deps r) r"
  shows "wp (promiseAll (map f xs)) (\<lambda>_. traced deps r) r"
proof -
  have "wp (sallSettled (map f xs)) (\<lambda>_. traced deps r) r" for r
    by (induction xs arbitrary: r) (auto intro!: assms traced_rules traced_structure)
  then show ?thesis unfolding promiseAll_def by (intro traced_structure)
qed

lemma traced_rejections [traced_rules]:
  "wp (rejectByRisk deps input am rules) (\<lambda>_. traced deps r) r"
  "wp (rejectBeforeSubmission deps input am i code m p) (\<lambda>_. traced deps r) r"
  unfolding rejectByRisk_def rejectBeforeSubmission_def by (intro traced_rules traced_structure)+

lemma traced_exchangeFillRecords [traced_rules]: "wp (exchangeFillRecords deps i m fills) (\<lambda>_. traced deps r) r"
  by (induction fills arbitrary: r) (auto simp: exchangeFillRecord_def intro!: traced_rules traced_structure)

lemma traced_settleDryRun [traced_rules]: "wp (settleDryRun deps input am im raw ord fills) (\<lambda>_. traced deps r) r"
  unfolding settleDryRun_def createDryRunSyntheticFill_def Let_def by (intro traced_rules traced_structure)

lemma traced_persistSubmissionOrFail [traced_rules]:
  "wp (persistSubmissionOrFail deps input im p reason) (\<lambda>_. traced deps r) r"
  unfolding persistSubmissionOrFail_def by (intro traced_rules traced_structure traced_invoke) simp_all

lemma traced_recordExchangeOrder [traced_rules]: "wp (recordExchangeOrder deps input am im x) (\<lambda>_. traced deps r) r"
  unfolding recordExchangeOrder_def storeSubmittedOrder_def terminalEventFor_def
  by (intro traced_rules traced_structure)

lemma traced_handleSubmissionError [traced_rules]: "wp (handleSubmissionError deps input im e) (\<lambda>_. traced deps r) r"
  unfolding handleSubmissionError_def recordDefinitiveRejection_def recordUncertainSubmission_def Let_def
  by (intro traced_rules traced_structure traced_invoke) simp_all

lemma traced_assertCurrentOrMark [traced_rules]: "wp (assertCurrentOrMark deps) (\<lambda>_. traced deps r) r"
  unfolding assertCurrentOrMark_def by (intro traced_rules traced_structure traced_invoke) simp_all

lemma traced_await:
  "ru_promise r = Some p \<Longrightarrow> wp (invoke CAwaitOrder p) (\<lambda>_. traced deps r) r"
  unfolding wp_invoke by (auto split: prod.splits intro!: r_into_rtranclp service_step.await)

text \<open>A first step whose result is needed by what follows.\<close>

lemma traced_after:
  assumes "wp m (\<lambda>_. traced deps r) r" "wp m (\<lambda>res t. \<forall>x. res = Inr x \<longrightarrow> A x t) r"
    and "\<And>x s. A x s \<Longrightarrow> wp (f x) (\<lambda>_. traced deps s) s"
  shows "wp (sbind m f) (\<lambda>_. traced deps r) r"
proof (rule wp_sbindI)
  show "wp m (\<lambda>res t. traced deps r t \<and> (\<forall>x. res = Inr x \<longrightarrow> A x t)) r" using assms by (simp add: wp_conj)
  fix x s assume s: "traced deps r s \<and> (\<forall>y. Inr x = Inr y \<longrightarrow> A y s)"
  then have "wp (f x) (\<lambda>_. traced deps s) s" using assms(3) by blast
  then show "wp (f x) (\<lambda>_. traced deps r) s" using s by (elim wp_mono) (blast intro: traced.rel_trans)
qed simp

lemma traced_then:
  "wp m (\<lambda>_. traced deps r) r \<Longrightarrow> (\<And>x s. wp (f x) (\<lambda>_. traced deps s) s) \<Longrightarrow> wp (sbind m f) (\<lambda>_. traced deps r) r"
  by (rule traced_after [where A = "\<lambda>_ _. True"]) (simp_all add: wp_def split: prod.splits)

lemma traced_awaitExchangeOrder [traced_rules]: "wp (awaitExchangeOrder deps failure) (\<lambda>_. traced deps r) r"
proof -
  have "wp (sbind (sattempt (invoke CAwaitOrder p)) (\<lambda>settled. sbind (assertCurrentOrMark deps) (\<lambda>_. slift settled))) (\<lambda>_. traced deps r) r"
    if "ru_promise r = Some p" for p
    by (rule traced_then) (simp_all add: wp_sattempt traced_await that, intro traced_rules traced_structure)
  then show ?thesis
    unfolding awaitExchangeOrder_def
    by (auto simp: wp_basic wp_sbind [of "sget ru_promise"] split: option.splits)
qed

lemma traced_settleSubmission [traced_rules]: "wp (settleSubmission deps input am im e) (\<lambda>_. traced deps r) r"
  unfolding settleSubmission_def by (intro traced_rules traced_structure)

lemma traced_send:
  "wp (sbind (invokeAs (\<lambda>_. ()) (CCreateOrder q) (xd_createOrder deps q)) (\<lambda>p. smodify (\<lambda>r. r\<lparr>ru_promise := Some p\<rparr>))) (\<lambda>_. traced deps r) r"
proof -
  have "service_step deps r (r\<lparr>ru_world := w, ru_calls := ru_calls r @ [CCreateOrder q (map_sum id (\<lambda>_. ()) x)]\<rparr>)"
    if "xd_createOrder deps q (ru_world r) = (x, w)" for x w
    using that by (intro service_step.call) auto
  moreover have "service_step deps s (s\<lparr>ru_promise := Some p\<rparr>)" if "xd_createOrder deps q (ru_world r) = (Inr p, w)" for s p w
    using that by (rule service_step.started)
  ultimately show ?thesis
    by (fastforce simp: wp_sbind wp_invokeAs wp_unit split: prod.splits sum.splits intro: converse_rtranclp_into_rtranclp r_into_rtranclp)
qed

lemma traced_startSubmission [traced_rules]: "wp (startSubmission deps input am authority im) (\<lambda>_. traced deps r) r"
  unfolding startSubmission_def finalChecks_def sendUnderAuthority_def Let_def
  by (intro traced_send traced_rules traced_structure traced_invoke) simp_all

lemma traced_renewSubmissionLease [traced_rules]: "wp (renewSubmissionLease deps input am i) (\<lambda>_. traced deps r) r"
  unfolding renewSubmissionLease_def Let_def by (intro traced_rules traced_structure traced_invoke) simp_all

lemma traced_persistIntent [traced_rules]: "wp (persistIntent deps input am identifier n) (\<lambda>_. traced deps r) r"
  unfolding persistIntent_def persistPlainIntent_def persistCandidateIntent_def Let_def
  by (intro traced_rules traced_structure traced_invoke) simp_all

lemma traced_submitIntent:
  assumes "c \<in> set (ru_calls r)" "storesIntent c (im_order im)"
  shows "wp (submitIntent deps input am authority im) (\<lambda>_. traced deps r) r"
  unfolding submitIntent_def
  by (rule traced_then, rule traced_invoke) (use assms in \<open>auto intro!: traced_rules traced_structure\<close>)

lemma persistIntent_recorded:
  "wp (persistIntent deps input am identifier n) (\<lambda>res t. \<forall>im. res = Inr im \<longrightarrow> (\<exists>c\<in>set (ru_calls t). storesIntent c (im_order im))) r"
  by (rule wp_mono [OF stage_persistIntent], clarsimp simp: intentRecorded_def logged_def subseq_singleton_left)
    (metis UnI2 set_append)

lemma traced_guardAndSubmit [traced_rules]: "wp (guardAndSubmit deps input am os state) (\<lambda>_. traced deps r) r"
proof -
  have "wp (sbind (persistIntent deps input am i n) (submitIntent deps input am authority)) (\<lambda>_. traced deps s) s"
    for i n authority s
    by (rule traced_after [OF traced_persistIntent persistIntent_recorded]) (blast intro: traced_submitIntent)
  then show ?thesis
    unfolding guardAndSubmit_def Let_def
    by (intro traced_rules traced_structure traced_invoke)
      (auto split: PreTradeValidation.splits intro!: traced_rules traced_structure)
qed

lemma traced_submitUnderLease [traced_rules]: "wp (submitUnderLease deps input am) (\<lambda>_. traced deps r) r"
  unfolding submitUnderLease_def blockedUnderLease_def retainingLease_def
  by (intro traced_rules traced_structure traced_invoke) simp_all

lemma traced_submitNewOrder [traced_rules]: "wp (submitNewOrder deps input key market t c) (\<lambda>_. traced deps r) r"
  unfolding submitNewOrder_def acquireSubmissionLease_def blockAcquisition_def releaseIfFlagged_def releaseLeaseOrFail_def Let_def
  by (intro traced_rules traced_structure traced_invoke) simp_all

lemma traced_submitOrderFromDecision: "wp (submitOrderFromDecision deps input) (\<lambda>_. traced deps r) r"
  unfolding submitOrderFromDecision_def Let_def
  by (intro traced_rules traced_structure traced_invoke) simp_all

text \<open>
  What every call and every reading of a clock keeps, a submission keeps. The promise that is awaited is one that
  \<open>createOrder\<close> returned.
\<close>

lemma submission_induct:
  assumes "submitOrderFromDecision deps input (freshRun w) = (res, r)" "J w []"
    and call: "\<And>w calls c w'. J w calls \<Longrightarrow> performs deps c w w' \<Longrightarrow> preceded c calls \<Longrightarrow> J w' (calls @ [c])"
    and draw: "\<And>w calls w'. J w calls \<Longrightarrow> draws deps w w' \<Longrightarrow> J w' calls"
  shows "J (ru_world r) (ru_calls r)"
proof -
  have "traced deps (freshRun w) r" using wpD [OF traced_submitOrderFromDecision assms(1)] .
  then have "J (ru_world r) (ru_calls r) \<and> (\<forall>p. ru_promise r = Some p \<longrightarrow> (\<exists>q v v'. xd_createOrder deps q v = (Inr p, v')))"
  proof (induction rule: rtranclp_induct)
    case base
    then show ?case using assms(2) by (simp add: freshRun_def)
  next
    case (step s t)
    from step.hyps(2) show ?case
    proof cases
      case (call c w)
      then show ?thesis using step.IH assms(3) [of "ru_world s" "ru_calls s" c w] by simp
    next
      case (await p x w)
      then have "performs deps (CAwaitOrder x) (ru_world s) w" using step.IH by auto
      then show ?thesis using step.IH assms(3) [of "ru_world s" "ru_calls s" "CAwaitOrder x" w] await by simp
    next
      case (draw w)
      then show ?thesis using step.IH assms(4) [of "ru_world s" "ru_calls s" w] by simp
    next
      case (started q v p w)
      then show ?thesis using step.IH by auto
    next
      case flags
      then show ?thesis using step.IH by simp
    qed
  qed
  then show ?thesis ..
qed

end
