(* ===== verification/StoreSteps.thy ===== *)
theory StoreSteps
  imports CandidateBinding RepositoryInvariants
begin

section \<open>Histories of the order store\<close>

text \<open>
  All calls that change the order store, the candidate-bound intents of \<open>CandidateBinding\<close> included: which identities
  stay unique through any history of them, and that a call that throws has written nothing, in either store.
\<close>

subsection \<open>Steps of the order store\<close>

inductive store_step :: "repo \<Rightarrow> repo \<Rightarrow> bool" where
  order: "repo_step s s' \<Longrightarrow> store_step s s'"
| candidate: "persistCandidateBoundOrderIntent sha256 configured i (s, c) = (r, (s', c')) \<Longrightarrow> store_step s s'"
| elsewhere: "rp_orders s' = rp_orders s \<Longrightarrow> rp_orderEvents s' = rp_orderEvents s \<Longrightarrow> rp_fills s' = rp_fills s \<Longrightarrow>
    rp_riskEvents s' = rp_riskEvents s \<Longrightarrow> rp_observations s' = rp_observations s \<Longrightarrow> store_step s s'"

lemma store_step_refl: "store_step s s"
  by (rule store_step.elsewhere) simp_all

abbreviation store_steps :: "repo \<Rightarrow> repo \<Rightarrow> bool" where
  "store_steps \<equiv> store_step\<^sup>*\<^sup>*"

lemma storeCandidateIntent_effect:
  assumes "storeCandidateIntent i p (s, c) = (Inr u, (s', c'))"
  shows "s' = s \<and> br_order i \<in> set (rp_orders s) \<or>
    unusedIdentity (br_order i) s \<and> s' = addEvents [br_event i] (s\<lparr>rp_orders := rp_orders s @ [br_order i]\<rparr>)"
proof -
  from assms obtain stored where stored: "checkStoredIntent i p s = Inr stored"
      "(stored \<and> s' = s) \<or> (\<not> stored \<and> unusedIdentity (br_order i) s \<and> s' = addEvents [br_event i] (s\<lparr>rp_orders := rp_orders s @ [br_order i]\<rparr>))"
    by (auto simp: storeCandidateIntent_def res_simps unusedIdentity_def split: if_splits)
  from checkStoredIntent_Inr [OF stored(1)] stored(2) show ?thesis
    by (auto simp: first_def split: list.splits dest!: Cons_eq_filterD [OF sym])
qed

lemma candidate_intent_effect:
  assumes "persistCandidateBoundOrderIntent sha256 configured i (s, c) = (Inr u, (s', c'))"
  shows "s' = s \<and> br_order i \<in> set (rp_orders s) \<or>
    unusedIdentity (br_order i) s \<and> s' = addEvents [br_event i] (s\<lparr>rp_orders := rp_orders s @ [br_order i]\<rparr>)"
proof -
  from assms obtain p where "storeCandidateIntent i p (s, c) = (Inr u, (s', c'))"
    by (auto simp: persistCandidateBoundOrderIntent_def Let_def res_simps split: option.splits)
  then show ?thesis by (rule storeCandidateIntent_effect)
qed

lemma store_step_keeps: "store_step s s' \<Longrightarrow> repo_inv s \<Longrightarrow> keeps s s'"
proof (induction rule: store_step.induct)
  case (order s s')
  then show ?case by (rule repo_step_keeps)
next
  case (candidate sha256 configured i s c r s' c')
  show ?case
  proof (cases r)
    case (Inl e)
    then have "s' = s" using candidate.hyps all_or_nothing_Inl [OF persistCandidate_all_or_nothing] by fastforce
    then show ?thesis using keeps_refl [OF candidate.prems] by simp
  next
    case (Inr u)
    from candidate_intent_effect [OF candidate.hyps [unfolded Inr]] show ?thesis
      using append_order_keeps [OF candidate.prems] keeps_refl [OF candidate.prems] by auto
  qed
next
  case (elsewhere s' s)
  then show ?case by (intro same_orders_keeps) (auto simp: repo_inv_def uniqueFills_def)
qed

lemma store_step_invariants: "store_step s s' \<Longrightarrow> repo_inv s \<Longrightarrow> repo_inv s' \<and> evolves s s'"
  using store_step_keeps by (simp add: keeps_def)

lemma store_steps_invariants: "store_steps s s' \<Longrightarrow> repo_inv s \<Longrightarrow> repo_inv s' \<and> evolves s s'"
proof (induction rule: rtranclp_induct)
  case (step t u)
  then show ?case using store_step_invariants evolves_trans by blast
qed simp

subsection \<open>Unique identities\<close>

text \<open>The histories in which no unchecked call adds an order under an identifier or key that is taken.\<close>

definition distinct_step :: "repo \<Rightarrow> repo \<Rightarrow> bool" where
  "distinct_step s s' \<longleftrightarrow> store_step s s' \<and> \<not> reusesIdentity s s'"

lemma distinct_steps: "distinct_step\<^sup>*\<^sup>* s s' \<Longrightarrow> store_steps s s'"
  by (erule rtranclp_mono [THEN predicate2D, rotated]) (auto simp: distinct_step_def)

lemma distinct_steps_unique:
  "distinct_step\<^sup>*\<^sup>* s s' \<Longrightarrow> repo_inv s \<Longrightarrow> uniqueOrders s \<Longrightarrow> uniqueOrders s'"
proof (induction rule: rtranclp_induct)
  case (step t u)
  have "repo_inv t" using store_steps_invariants [OF distinct_steps [OF step.hyps(1)]] step.prems by blast
  with step store_step_keeps [of t u] show ?case by (auto simp: distinct_step_def keeps_def)
qed

lemma reused_identity:
  assumes "reusesIdentity s s'"
  shows "\<not> (distinct (map oi_identifier (rp_orders s')) \<and>
    distinct (map (\<lambda>x. (oi_exchangeAccountId x, oi_idempotencyKey x)) (rp_orders s')))"
proof -
  obtain ord where ord: "rp_orders s' = rp_orders s @ [ord]" "orderById (or_id ord) s = None" "\<not> unusedIdentity ord s"
    using assms by (auto simp: reusesIdentity_def saveOrder_def updateOrder_def orderById_None upsert_append)
  then obtain x where "x \<in> set (rp_orders s)" "oi_identifier x = oi_identifier ord \<or>
      (oi_exchangeAccountId x, oi_idempotencyKey x) = (oi_exchangeAccountId ord, oi_idempotencyKey ord)"
    unfolding unusedIdentity_def orderById_None by blast
  then show ?thesis unfolding ord(1) by (force simp: image_iff)
qed

text \<open>
  C19. Through any history of store calls no two orders have one id and no two fills have one id or one exchange fill of
  an order. As long as no call of the two unchecked operations saveOrder and updateOrder adds an order under a taken
  identity, no two orders share an exchange identifier or an idempotency key of an account either; such a call does
  destroy this.
\<close>

theorem order_identities_unique:
  assumes "store_steps emptyRepo s"
  shows "distinct (map or_id (rp_orders s)) \<and> distinct (map fl_id (rp_fills s)) \<and>
    distinct (map (\<lambda>f. (fl_orderId f, fl_exchangeFillId f)) (rp_fills s)) \<and>
    (distinct_step\<^sup>*\<^sup>* emptyRepo s \<longrightarrow> distinct (map oi_identifier (rp_orders s)) \<and>
      distinct (map (\<lambda>x. (oi_exchangeAccountId x, oi_idempotencyKey x)) (rp_orders s))) \<and>
    (\<forall>s'. reusesIdentity s s' \<longrightarrow> \<not> (distinct (map oi_identifier (rp_orders s')) \<and>
      distinct (map (\<lambda>x. (oi_exchangeAccountId x, oi_idempotencyKey x)) (rp_orders s'))))"
proof (intro conjI)
  have inv: "repo_inv s" using store_steps_invariants [OF assms repo_inv_empty] by simp
  then show "distinct (map or_id (rp_orders s))" "distinct (map fl_id (rp_fills s))"
    "distinct (map (\<lambda>f. (fl_orderId f, fl_exchangeFillId f)) (rp_fills s))"
    by (simp_all add: repo_inv_def uniqueIds_def uniqueFills_def)
  show "distinct_step\<^sup>*\<^sup>* emptyRepo s \<longrightarrow> distinct (map oi_identifier (rp_orders s)) \<and>
      distinct (map (\<lambda>x. (oi_exchangeAccountId x, oi_idempotencyKey x)) (rp_orders s))"
    using distinct_steps_unique [OF _ repo_inv_empty] by (auto simp: uniqueOrders_def emptyRepo_def)
qed (use reused_identity in blast)

subsection \<open>Writes that fail\<close>

lemma onRepo_atomic [atomic_intros]:
  "readonly m \<Longrightarrow> readonly (onRepo m)" "unfailing m \<Longrightarrow> unfailing (onRepo m)" "all_or_nothing n \<Longrightarrow> all_or_nothing (onPauser n)"
  by (auto simp: readonly_def unfailing_def all_or_nothing_def onRepo_def onPauser_def split: prod.splits) (metis fst_conv snd_conv)+

lemma pause_all_or_nothing: "all_or_nothing (applyFaultPauseAtomically f)"
  unfolding all_or_nothing_def using opstore.pause_atomic by blast

lemma pause_then:
  "(\<And>x. unfailing (h x)) \<Longrightarrow> all_or_nothing (sbind (onPauser (applyFaultPauseAtomically f)) h)"
  by (intro all_or_nothing_then onRepo_atomic pause_all_or_nothing)

lemma unfailing_if: "unfailing m \<Longrightarrow> unfailing n \<Longrightarrow> unfailing (if b then m else n)"
  by simp

lemma pausing_writes_all_or_nothing:
  "all_or_nothing (finalizeBoundedSubmissionAbsence (Some applyFaultPauseAtomically) i)"
  "all_or_nothing (persistCandidateProjectionFault (Some applyFaultPauseAtomically) j)"
  unfolding finalizeBoundedSubmissionAbsence_def persistCandidateProjectionFault_def option.case
  by (intro pause_then unfailing_if all_or_nothing_option all_or_nothing_if all_or_nothing_basic onRepo_atomic(2)
      unfailing_sbind unfailing_basic | rule all_or_nothing_sbind onRepo_atomic(1) readonly_basic)+

lemma accepted_intent_found:
  assumes "distinct_step\<^sup>*\<^sup>* emptyRepo s" and run: "persistOrderIntent i s = (Inr (), s')"
  shows "findOrderByIdempotencyKey (oi_exchangeAccountId (pi_order i)) (oi_idempotencyKey (pi_order i)) s' = Some (pi_order i)"
proof -
  have inv: "repo_inv s" "uniqueOrders s"
    using store_steps_invariants [OF distinct_steps [OF assms(1)] repo_inv_empty] distinct_steps_unique [OF assms(1) repo_inv_empty]
    by (auto simp: uniqueOrders_def emptyRepo_def)
  have effect: "s' = s \<and> pi_order i \<in> set (rp_orders s) \<or>
    unusedIdentity (pi_order i) s \<and> s' = addEvents [pi_event i] (s\<lparr>rp_orders := rp_orders s @ [pi_order i]\<rparr>)"
    by (rule plain_intent_effect [OF run])
  then have "uniqueOrders s'" using inv added_order(3) [OF inv(1)] by (auto simp: unusedIdentity_def)
  then have d: "distinct (map (\<lambda>x. (oi_exchangeAccountId x, oi_idempotencyKey x)) (rp_orders s'))" by (simp add: uniqueOrders_def)
  have "pi_order i \<in> set (rp_orders s')" using effect by (auto simp: addEvents_def)
  from find_eq_distinct [OF d this] show ?thesis by (simp add: findOrderByIdempotencyKey_def)
qed

text \<open>
  C20. A write of several records that throws has written nothing: the five writes of the order store alone, the candidate
  intent, which also writes the candidate store, and the two writes that pause the operator state, which leave that store
  as it was, too. An order intent that is accepted is found under its idempotency key, in any history in which no
  unchecked call has reused an identity.
\<close>

theorem repository_writes_atomic:
  "(persistOrderIntent i1 s = (Inl e, s') \<longrightarrow> s' = s) \<and>
   (persistExchangeSubmission i2 s = (Inl e, s') \<longrightarrow> s' = s) \<and>
   (persistReconciledExchangeSnapshot i3 s = (Inl e, s') \<longrightarrow> s' = s) \<and>
   (persistReconciliationRecovery i4 s = (Inl e, s') \<longrightarrow> s' = s) \<and>
   (persistUncertainSubmission i5 s = (Inl e, s') \<longrightarrow> s' = s) \<and>
   (persistCandidateBoundOrderIntent sha256 configured i6 (s, c) = (Inl e, (s', c')) \<longrightarrow> s' = s \<and> c' = c) \<and>
   (finalizeBoundedSubmissionAbsence (Some applyFaultPauseAtomically) i7 (s, p) = (Inl e, (s', p')) \<longrightarrow> s' = s \<and> p' = p) \<and>
   (persistCandidateProjectionFault (Some applyFaultPauseAtomically) i8 (s, p) = (Inl e, (s', p')) \<longrightarrow> s' = s \<and> p' = p) \<and>
   (distinct_step\<^sup>*\<^sup>* emptyRepo s \<longrightarrow> persistOrderIntent i1 s = (Inr (), s') \<longrightarrow>
      findOrderByIdempotencyKey (oi_exchangeAccountId (pi_order i1)) (oi_idempotencyKey (pi_order i1)) s' = Some (pi_order i1))"
  using repo_writes_all_or_nothing [THEN all_or_nothing_Inl] persistCandidate_all_or_nothing [THEN all_or_nothing_Inl]
    pausing_writes_all_or_nothing [THEN all_or_nothing_Inl]
  by (intro conjI impI accepted_intent_found) (blast | fastforce)+

subsection \<open>A history with a refused order\<close>

lemma thrown: "isl (fst r) \<Longrightarrow> \<exists>e s'. r = (Inl e, s')"
  by (cases r) (auto simp: isl_def)

lemma reused_length: "reusesIdentity s s' \<Longrightarrow> rp_orders s \<noteq> [] \<and> length (rp_orders s') = Suc (length (rp_orders s))"
  by (auto simp: reusesIdentity_def unusedIdentity_def saveOrder_def updateOrder_def orderById_None upsert_append)

lemma sample_distinct_steps: "distinct_step\<^sup>*\<^sup>* emptyRepo sampleRepo1" "distinct_step\<^sup>*\<^sup>* emptyRepo sampleRepo2"
proof -
  have "persistOrderIntent sampleIntent emptyRepo = (Inr (), sampleRepo1)"
    unfolding sampleRepo1_def by (rule prod_eqI) (code_simp, simp)
  then have one: "distinct_step emptyRepo sampleRepo1"
    using reused_length [of emptyRepo] unfolding distinct_step_def
    by (auto intro: store_step.order repo_step.intent simp: emptyRepo_def)
  have "length (rp_orders sampleRepo1) = 1" "length (rp_orders sampleRepo2) = 1" by code_simp+
  then have two: "distinct_step sampleRepo1 sampleRepo2"
    using sample_submission_accepted reused_length [of sampleRepo1 sampleRepo2] unfolding distinct_step_def
    by (auto intro: store_step.order repo_step.submission)
  show "distinct_step\<^sup>*\<^sup>* emptyRepo sampleRepo1" using one by (rule r_into_rtranclp [of distinct_step])
  then show "distinct_step\<^sup>*\<^sup>* emptyRepo sampleRepo2" using two by (rule rtranclp.rtrancl_into_rtrancl)
qed

text \<open>An order recovered under the key of the stored one.\<close>

definition recoveredOrder :: OrderRecord where
  "recoveredOrder = sampleOrder\<lparr>or_id := ''o2'', oi_identifier := ''ident-2'', oi_origin := RECOVERY\<rparr>"

lemma recovered_reuses: "reusesIdentity sampleRepo2 (snd (saveOrder recoveredOrder sampleRepo2))"
  unfolding reusesIdentity_def
proof (intro exI conjI disjI1)
  show "saveOrder recoveredOrder sampleRepo2 = (Inr (), snd (saveOrder recoveredOrder sampleRepo2))" by (simp add: saveOrder_def)
  show "orderById (or_id recoveredOrder) sampleRepo2 = None" by code_simp
  show "\<not> unusedIdentity recoveredOrder sampleRepo2" by code_simp
qed

theorem order_identities_unique_witness:
  "length (rp_orders sampleRepo2) = 1 \<and> length (rp_fills sampleRepo2) = 1 \<and> distinct (map oi_identifier (rp_orders sampleRepo2)) \<and>
   (let s' = snd (saveOrder recoveredOrder sampleRepo2) in \<not> (distinct (map oi_identifier (rp_orders s')) \<and>
      distinct (map (\<lambda>x. (oi_exchangeAccountId x, oi_idempotencyKey x)) (rp_orders s'))))"
proof -
  have "length (rp_orders sampleRepo2) = 1" "length (rp_fills sampleRepo2) = 1" by code_simp+
  with order_identities_unique [OF distinct_steps [OF sample_distinct_steps(2)]] sample_distinct_steps(2) recovered_reuses
  show ?thesis unfolding Let_def by blast
qed

definition refusedIntent :: PersistOrderIntentInput where
  "refusedIntent = \<lparr>pi_order = recoveredOrder, pi_event = (sampleEvent ''e9'' ''ORDER_PERSISTED'' LOCAL)\<lparr>ev_orderId := ''o2''\<rparr>\<rparr>"

text \<open>An absence of the stored order, with a pause for another account.\<close>

definition refusedAbsence :: FinalizeBoundedSubmissionAbsenceInput where
  "refusedAbsence = \<lparr>fz_orderId = ''o1'', fz_expectedStatus = PERSISTED, fz_expectedUpdatedAt = ''2026-01-01T00:00:00Z'',
     fz_failedAt = ''2026-01-01T00:02:00Z'', fz_failureMessage = ''absent'',
     fz_event = sampleEvent ''e9'' ''RECONCILIATION_IDENTIFIER_ABSENCE_CONFIRMED'' RECONCILIATION,
     fz_faultPause = sampleFault\<lparr>fp_exchangeAccountId := ''other''\<rparr>\<rparr>"

theorem repository_writes_atomic_witness:
  "(\<exists>e. persistOrderIntent refusedIntent sampleRepo1 = (Inl e, sampleRepo1)) \<and>
   (\<exists>e. finalizeBoundedSubmissionAbsence (Some applyFaultPauseAtomically) refusedAbsence (sampleRepo1, newOperatorStateStore sampleState) =
      (Inl e, (sampleRepo1, newOperatorStateStore sampleState))) \<and>
   findOrderByIdempotencyKey ''acc'' ''key-1'' sampleRepo1 = Some sampleOrder"
proof (intro conjI)
  have "isl (fst (persistOrderIntent refusedIntent sampleRepo1))" by code_simp
  then obtain e s' where "persistOrderIntent refusedIntent sampleRepo1 = (Inl e, s')"
    using thrown by blast
  with repository_writes_atomic [of refusedIntent sampleRepo1 e s'] show "\<exists>e. persistOrderIntent refusedIntent sampleRepo1 = (Inl e, sampleRepo1)"
    by auto
  let ?run = "finalizeBoundedSubmissionAbsence (Some applyFaultPauseAtomically) refusedAbsence (sampleRepo1, newOperatorStateStore sampleState)"
  have "isl (fst ?run)" by code_simp
  then obtain e s' p' where "?run = (Inl e, (s', p'))" using thrown by (metis surj_pair)
  with repository_writes_atomic show "\<exists>e. ?run = (Inl e, (sampleRepo1, newOperatorStateStore sampleState))" by blast
  have "persistOrderIntent sampleIntent emptyRepo = (Inr (), sampleRepo1)"
    unfolding sampleRepo1_def by (rule prod_eqI) (code_simp, simp)
  with repository_writes_atomic [of sampleIntent emptyRepo] show "findOrderByIdempotencyKey ''acc'' ''key-1'' sampleRepo1 = Some sampleOrder"
    by (fastforce simp: sampleIntent_def sampleOrder_def)
qed

end
