(* ===== verification/SubmissionComposition.thy ===== *)
theory SubmissionComposition
  imports SubmissionTrace StoreSteps SubmissionProperties
begin

section \<open>Submissions on the stores\<close>

text \<open>
  The execution service composed with the stores it writes to. The locale \<open>order_repository\<close> says what the service
  needs of the order store: the operations of \<open>Repository\<close>, between which other callbacks may change the store through
  those operations as well. The in-memory composition satisfies it. A submission is then itself a sequence of
  repository steps, so all that was shown of those holds through it, and the idempotency key under which an order
  was sent stays taken.
\<close>

subsection \<open>Orders that stay in the store\<close>

definition holdsIdentity :: "OrderRecord \<Rightarrow> repo \<Rightarrow> bool" where
  "holdsIdentity ord s \<longleftrightarrow> (\<exists>x\<in>set (rp_orders s). sameIdentity ord x)"

lemma holdsIdentity_evolves: "evolves s s' \<Longrightarrow> holdsIdentity ord s \<Longrightarrow> holdsIdentity ord s'"
  unfolding holdsIdentity_def using evolves_order sameIdentity_trans by blast

lemma holdsIdentity_key:
  "holdsIdentity ord s \<Longrightarrow> findOrderByIdempotencyKey (oi_exchangeAccountId ord) (oi_idempotencyKey ord) s \<noteq> None"
  by (auto simp: holdsIdentity_def findOrderByIdempotencyKey_def find_None_iff) (metis sameIdentity_fields)

lemma intent_holds:
  "s' = s \<and> ord \<in> set (rp_orders s) \<or> unusedIdentity ord s \<and> s' = addEvents evs (s\<lparr>rp_orders := rp_orders s @ [ord]\<rparr>) \<Longrightarrow>
   holdsIdentity ord s'"
  by (auto simp: holdsIdentity_def addEvents_def intro: bexI [of _ ord])

definition keyTaken :: "string \<Rightarrow> string \<Rightarrow> repo \<Rightarrow> bool" where
  "keyTaken account key s \<longleftrightarrow> (\<exists>ord. findOrderByIdempotencyKey account key s = Some ord)"

lemma keyTaken_holds: "holdsIdentity ord s \<Longrightarrow> keyTaken (oi_exchangeAccountId ord) (oi_idempotencyKey ord) s"
  using holdsIdentity_key by (auto simp: keyTaken_def)

lemma find_key:
  "findOrderByIdempotencyKey a k s = Some ord \<Longrightarrow> ord \<in> set (rp_orders s) \<and> oi_exchangeAccountId ord = a \<and> oi_idempotencyKey ord = k"
  by (auto simp: findOrderByIdempotencyKey_def dest: find_Some_set)

lemma keyTaken_evolves:
  assumes "evolves s s'" "keyTaken account key s"
  shows "keyTaken account key s'"
proof -
  obtain ord where ord: "ord \<in> set (rp_orders s)" "oi_exchangeAccountId ord = account" "oi_idempotencyKey ord = key"
    using assms(2) by (auto simp: keyTaken_def dest: find_key)
  then have "holdsIdentity ord s" by (auto simp: holdsIdentity_def intro: bexI [of _ ord])
  from keyTaken_holds [OF holdsIdentity_evolves [OF assms(1) this]] ord show ?thesis by simp
qed

lemma in_subseq: "subseq xs ys \<Longrightarrow> x \<in> set xs \<Longrightarrow> x \<in> set ys"
  by (auto dest: list_emb_set)

subsection \<open>What the service needs of the order store\<close>

fun writesIntent :: "call \<Rightarrow> bool" where
  "writesIntent (CPersistOrderIntent i x) = True"
| "writesIntent (CPersistCandidateIntent i x) = True"
| "writesIntent (CUpdateOrder ord x) = True"
| "writesIntent c = False"

text \<open>
  Each operation acts on the store as it is called; until its caller continues, other callbacks may take store steps.
  The other operations of the service reach the store through such steps only.
\<close>

locale order_repository =
  fixes deps :: "'w exec_deps" and repo_of :: "'w \<Rightarrow> repo"
  assumes lookup: "xd_findOrderByIdempotencyKey deps a k w = (Inr found, w') \<Longrightarrow> found = findOrderByIdempotencyKey a k (repo_of w)"
    and intent: "xd_persistOrderIntent deps i w = (x, w') \<Longrightarrow>
      \<exists>s. persistOrderIntent i (repo_of w) = (x, s) \<and> store_steps s (repo_of w')"
    and candidate: "xd_persistCandidateBoundOrderIntent deps q w = (x, w') \<Longrightarrow>
      \<exists>sha256 configured c s c'. persistCandidateBoundOrderIntent sha256 configured q (repo_of w, c) = (x, (s, c')) \<and>
        store_steps s (repo_of w')"
    and update: "xd_updateOrder deps ord w = (x, w') \<Longrightarrow> \<exists>s. updateOrder ord (repo_of w) = (x, s) \<and> store_steps s (repo_of w')"
    and other: "performs deps c w w' \<Longrightarrow> \<not> writesIntent c \<Longrightarrow> store_steps (repo_of w) (repo_of w')"
    and drawn: "draws deps w w' \<Longrightarrow> store_steps (repo_of w) (repo_of w')"
begin

text \<open>What a submission keeps: the store evolves by its own steps, and every intent it stored is there.\<close>

definition recorded :: "repo \<Rightarrow> 'w \<Rightarrow> call list \<Rightarrow> bool" where
  "recorded s0 w calls \<longleftrightarrow> store_steps s0 (repo_of w) \<and> repo_inv (repo_of w) \<and>
     (\<forall>c\<in>set calls. \<forall>ord. storesIntent c ord \<longrightarrow> holdsIdentity ord (repo_of w))"

lemma recorded_evolves:
  assumes "recorded s0 w calls" "store_steps (repo_of w) (repo_of w')"
  shows "recorded s0 w' calls"
proof -
  have "repo_inv (repo_of w')" "evolves (repo_of w) (repo_of w')"
    using store_steps_invariants [OF assms(2)] assms(1) by (auto simp: recorded_def)
  moreover have "store_steps s0 (repo_of w')" using assms by (auto simp: recorded_def)
  ultimately show ?thesis
    using assms(1) holdsIdentity_evolves by (auto simp: recorded_def)
qed

lemma recorded_snoc:
  "recorded s0 w calls \<Longrightarrow> (\<And>ord. storesIntent c ord \<Longrightarrow> holdsIdentity ord (repo_of w)) \<Longrightarrow> recorded s0 w (calls @ [c])"
  by (auto simp: recorded_def)

lemma update_step:
  assumes "repo_inv s" "holdsIdentity ord0 s" "sameIdentity ord0 ord" "updateOrder ord s = (x, s')"
  shows "store_step s s'"
proof (rule store_step.order [OF repo_step.update [OF _ assms(4)]], intro allI impI)
  obtain old where old: "old \<in> set (rp_orders s)" "sameIdentity ord0 old" using assms(2) by (auto simp: holdsIdentity_def)
  have ids: "or_id old = or_id ord" using sameIdentity_fields [OF old(2)] sameIdentity_fields [OF assms(3)] by simp
  fix cur assume cur: "orderById (or_id ord) s = Some cur"
  then have "cur = old" using assms(1) ids old(1) orderById_unique [OF _ cur, of old] by (simp add: repo_inv_def)
  then show "sameIdentity cur ord" using old(2) assms(3) by (simp add: sameIdentity_def)
qed

lemma submitting_identity: "sameIdentity (im_order im) (submittingOrderOf im)"
  by (simp add: sameIdentity_def submittingOrderOf_def OrderIntent.truncate_def)

lemma storesIntent_writes: "storesIntent c ord \<Longrightarrow> writesIntent c"
  by (cases "(c, ord)" rule: storesIntent.cases) auto

lemma recorded_intent:
  assumes "recorded s0 w calls" "store_step (repo_of w) s" "store_steps s (repo_of w')"
    and "\<And>ord. storesIntent c ord \<Longrightarrow> holdsIdentity ord s"
  shows "recorded s0 w' (calls @ [c])"
proof (rule recorded_snoc)
  show "recorded s0 w' calls" using assms(1-3) by (blast intro: recorded_evolves converse_rtranclp_into_rtranclp)
  have "repo_inv s" using assms(1,2) store_step_invariants by (auto simp: recorded_def)
  then show "holdsIdentity ord (repo_of w')" if "storesIntent c ord" for ord
    using assms(3,4) that store_steps_invariants holdsIdentity_evolves by blast
qed

lemma recorded_call:
  assumes "recorded s0 w calls" "performs deps c w w'" "preceded c calls"
  shows "recorded s0 w' (calls @ [c])"
proof (cases "writesIntent c")
  case False
  then show ?thesis
    using storesIntent_writes by (intro recorded_snoc recorded_evolves [OF assms(1) other [OF assms(2)]]) auto
next
  case True
  then show ?thesis
  proof (cases c rule: writesIntent.cases)
    case (1 i x)
    then obtain s where s: "persistOrderIntent i (repo_of w) = (x, s)" "store_steps s (repo_of w')"
      using assms(2) intent [of i w x w'] by auto
    show ?thesis
    proof (rule recorded_intent [OF assms(1) _ s(2)])
      show "store_step (repo_of w) s" using s(1) by (blast intro: store_step.order repo_step.intent)
      show "holdsIdentity ord s" if "storesIntent c ord" for ord
        using that 1 s(1) by (cases x) (auto dest!: plain_intent_effect intro: intent_holds)
    qed
  next
    case (2 q x)
    then obtain sha256 configured b s b' where s: "persistCandidateBoundOrderIntent sha256 configured q (repo_of w, b) = (x, (s, b'))"
        "store_steps s (repo_of w')"
      using assms(2) candidate [of q w x w'] by auto
    show ?thesis
    proof (rule recorded_intent [OF assms(1) _ s(2)])
      show "store_step (repo_of w) s" using s(1) by (rule store_step.candidate)
      show "holdsIdentity ord s" if "storesIntent c ord" for ord
        using that 2 s(1) by (cases x) (auto dest!: candidate_intent_effect intro: intent_holds)
    qed
  next
    case (3 ord x)
    then obtain s where s: "updateOrder ord (repo_of w) = (x, s)" "store_steps s (repo_of w')"
      using assms(2) update [of ord w x w'] by auto
    from 3 assms(3) obtain c' im where "c' \<in> set calls" "storesIntent c' (im_order im)" "ord = submittingOrderOf im" by auto
    with assms(1) s(1) have "store_step (repo_of w) s" using submitting_identity update_step unfolding recorded_def by blast
    then show ?thesis using 3 by (intro recorded_intent [OF assms(1) _ s(2)]) auto
  qed simp_all
qed

lemma submission_recorded:
  assumes "submitOrderFromDecision deps input (freshRun w) = (res, r)" "repo_inv (repo_of w)"
  shows "recorded (repo_of w) (ru_world r) (ru_calls r)"
proof (rule submission_induct [OF assms(1), where J = "recorded (repo_of w)"])
  show "recorded (repo_of w) w []" using assms(2) by (simp add: recorded_def)
qed (auto intro: recorded_call recorded_evolves drawn)

text \<open>A submission is a sequence of store steps.\<close>

lemma submission_store_steps:
  assumes "submitOrderFromDecision deps input (freshRun w) = (res, r)" "repo_inv (repo_of w)"
  shows "store_steps (repo_of w) (repo_of (ru_world r))"
  using submission_recorded [OF assms] by (simp add: recorded_def)

text \<open>After a request was sent, the key of the submission is taken.\<close>

lemma sent_key_taken:
  assumes "submitOrderFromDecision deps input (freshRun w) = (res, r)" "repo_inv (repo_of w)" "list_ex isSend (ru_calls r)"
  shows "keyTaken (si_exchangeAccountId input) (submissionKey deps input) (repo_of (ru_world r))"
proof -
  obtain pre q x post where calls: "ru_calls r = pre @ CCreateOrder q x # post" "sendEvidence deps input pre q"
    using submission_concluded [OF assms(1)] assms(3) unfolding concluded_def by blast
  then have "\<exists>intent ord. intent \<in> set pre \<and> storesIntent intent (ord\<lparr>or_status := PERSISTED\<rparr>) \<and>
      oi_exchangeAccountId ord = si_exchangeAccountId input \<and> oi_idempotencyKey ord = submissionKey deps input"
    unfolding sendEvidence_def
  proof (elim exE conjE, goal_cases)
    case (1 acquisition lease intent ord)
    then show ?case using in_subseq [OF 1(2), of intent] by (intro exI [of _ intent] exI [of _ ord]) simp
  qed
  then obtain intent ord where ord: "intent \<in> set pre" "storesIntent intent (ord\<lparr>or_status := PERSISTED\<rparr>)"
      "oi_exchangeAccountId ord = si_exchangeAccountId input" "oi_idempotencyKey ord = submissionKey deps input"
    by blast
  then have "holdsIdentity (ord\<lparr>or_status := PERSISTED\<rparr>) (repo_of (ru_world r))"
    using submission_recorded [OF assms(1,2)] calls(1) ord(1,2) by (auto simp: recorded_def)
  from keyTaken_holds [OF this] ord(3,4) show ?thesis by simp
qed

text \<open>A submission whose key is taken answers with the stored order and sends nothing.\<close>

definition onTaken :: "SubmitOrderFromDecisionInput \<Rightarrow> 'w run \<Rightarrow> bool" where
  "onTaken input r \<longleftrightarrow> repo_inv (repo_of (ru_world r)) \<and>
     keyTaken (si_exchangeAccountId input) (submissionKey deps input) (repo_of (ru_world r)) \<and> \<not> list_ex isSend (ru_calls r)"

lemma onTaken_steps:
  "onTaken input r \<Longrightarrow> store_steps (repo_of (ru_world r)) (repo_of w) \<Longrightarrow> onTaken input (r\<lparr>ru_world := w\<rparr>)"
  using store_steps_invariants keyTaken_evolves by (fastforce simp: onTaken_def)

lemma onTaken_invoke:
  assumes "onTaken input r" "\<And>w x w'. m w = (x, w') \<Longrightarrow> performs deps (k x) w w'" "\<And>x. \<not> writesIntent (k x)" "\<And>x. \<not> isSend (k x)"
  shows "wp (invoke k m) (\<lambda>_. onTaken input) r"
  unfolding wp_invoke
  using assms(2-4) other onTaken_steps [OF assms(1)] by (fastforce simp: onTaken_def split: prod.splits)

lemma answerDuplicate_result:
  "wp (answerDuplicate deps input key t c d) (\<lambda>res s. \<forall>result. res = Inr result \<longrightarrow>
     \<not> sr_accepted result \<and> sr_outcome result = OUTCOME_DUPLICATE \<and> sr_order result = Some d) r"
  unfolding answerDuplicate_def by (auto simp: wp_simps split: sum.splits intro!: wpI)

lemma quiet_unsent: "quiet s t \<Longrightarrow> \<not> list_ex isSend (ru_calls s) \<Longrightarrow> \<not> list_ex isSend (ru_calls t)"
  using list_ex_side by (fastforce simp: quiet_def calm_def)

lemma answered_duplicate:
  assumes "findOrderByIdempotencyKey (si_exchangeAccountId input) (submissionKey deps input) s = Some d" "\<not> list_ex isSend (ru_calls r)"
  shows "wp (answerDuplicate deps input key t c d) (\<lambda>res u. \<not> list_ex isSend (ru_calls u) \<and> (\<forall>result. res = Inr result \<longrightarrow>
     sr_outcome result = OUTCOME_DUPLICATE \<and> (\<exists>ord. sr_order result = Some ord \<and>
       oi_exchangeAccountId ord = si_exchangeAccountId input \<and> oi_idempotencyKey ord = submissionKey deps input))) r"
  by (rule wp_mono [OF quietly [OF quiet_answerDuplicate answerDuplicate_result]])
    (use find_key [OF assms(1)] assms(2) quiet_unsent in auto)

lemma duplicate_not_sent:
  assumes "onTaken input r"
  shows "wp (submitOrderFromDecision deps input) (\<lambda>res t. \<not> list_ex isSend (ru_calls t) \<and> (\<forall>result. res = Inr result \<longrightarrow>
     sr_outcome result = OUTCOME_DUPLICATE \<and> (\<exists>ord. sr_order result = Some ord \<and>
       oi_exchangeAccountId ord = si_exchangeAccountId input \<and> oi_idempotencyKey ord = submissionKey deps input))) r"
  (is "wp _ ?post r")
proof -
  let ?key = "submissionKey deps input" and ?account = "si_exchangeAccountId input"
  have unsent: "\<not> list_ex isSend (ru_calls s)" if "onTaken input s" for s using that by (simp add: onTaken_def)
  have answered: "wp (sbind (invoke (CFindOrderByIdempotencyKey ?account ?key) (xd_findOrderByIdempotencyKey deps ?account ?key)) (\<lambda>duplicate.
      sbind (prepareCandidateContext deps input market) (\<lambda>c. case duplicate of
          Some d \<Rightarrow> answerDuplicate deps input ?key t c d | None \<Rightarrow> submitNewOrder deps input ?key market t c))) ?post s"
    if s: "onTaken input s" for s market t
  proof (rule wp_sbindI [where P = "\<lambda>res u. \<not> list_ex isSend (ru_calls u) \<and> (\<forall>found. res = Inr found \<longrightarrow>
      found = findOrderByIdempotencyKey ?account ?key (repo_of (ru_world s)))"], goal_cases)
    case 1
    show ?case using s lookup by (auto simp: wp_invoke onTaken_def split: prod.splits)
  next
    case (3 found u)
    then obtain d where d: "found = Some d" "findOrderByIdempotencyKey ?account ?key (repo_of (ru_world s)) = Some d"
      using s by (auto simp: onTaken_def keyTaken_def)
    show ?case
      unfolding d(1) option.case
      by (rule wp_sbindI [OF quiet_prepareCandidateContext])
        (use 3 in \<open>auto intro!: answered_duplicate [OF d(2)] dest: quiet_unsent\<close>)
  qed simp
  show ?thesis
    unfolding submitOrderFromDecision_def Let_def submissionKey_def [symmetric]
  proof (rule wp_sbindI [OF onTaken_invoke [OF assms]], goal_cases)
    case (5 u s)
    then show ?case
    proof (rule_tac wp_sbindI [where P = "\<lambda>_. onTaken input"], goal_cases)
      case (3 v t)
      then show ?case
        by (rule_tac wp_sbindI [where P = "\<lambda>_. onTaken input"], unfold wp_draw)
          (auto split: prod.splits intro!: answered onTaken_steps drawn draws.timestamp dest: unsent)
    qed (simp_all add: wp_basic onTaken_def)
  qed (simp_all add: onTaken_def)
qed

end

subsection \<open>The in-memory composition\<close>

text \<open>
  The service on the in-memory stores. \<open>others\<close> is what other callbacks do before the caller of an awaited store
  operation continues; \<open>base\<close> holds the dependencies that are not stores of this model: exchange, runtime ownership,
  validation, exposure, reporting, pilots, clocks and identifiers.
\<close>

record 'e app =
  ap_repo :: repo
  ap_candidates :: candidate_store
  ap_leases :: lease_map
  ap_operator :: operator_store
  ap_outside :: 'e

definition awaited :: "('w \<Rightarrow> 'w) \<Rightarrow> ('w, js_error, 'a) sm \<Rightarrow> ('w, js_error, 'a) sm" where
  "awaited others m w = (case m w of (x, w') \<Rightarrow> (x, others w'))"

definition onOrders :: "'a rm \<Rightarrow> ('e app, js_error, 'a) sm" where
  "onOrders m w = (case m (ap_repo w) of (x, s) \<Rightarrow> (x, w\<lparr>ap_repo := s\<rparr>))"

definition onCandidates :: "(repo \<times> candidate_store, js_error, 'a) sm \<Rightarrow> ('e app, js_error, 'a) sm" where
  "onCandidates m w = (case m (ap_repo w, ap_candidates w) of (x, s, c) \<Rightarrow> (x, w\<lparr>ap_repo := s, ap_candidates := c\<rparr>))"

definition onLeases :: "(lease_map, js_error, 'a) sm \<Rightarrow> ('e app, js_error, 'a) sm" where
  "onLeases m w = (case m (ap_leases w) of (x, l) \<Rightarrow> (x, w\<lparr>ap_leases := l\<rparr>))"

definition onOperator :: "(operator_store, js_error, 'a) sm \<Rightarrow> ('e app, js_error, 'a) sm" where
  "onOperator m w = (case m (ap_operator w) of (x, p) \<Rightarrow> (x, w\<lparr>ap_operator := p\<rparr>))"

definition memoryDeps :: "collator \<Rightarrow> ('e app \<Rightarrow> 'e app) \<Rightarrow> 'e app exec_deps \<Rightarrow> 'e app exec_deps" where
  "memoryDeps lc others base = base\<lparr>
     xd_findOrderByIdempotencyKey := (\<lambda>a k. awaited others (onOrders (sget (findOrderByIdempotencyKey a k)))),
     xd_listActiveOrders := (\<lambda>a. awaited others (onOrders (sget (listActiveOrders lc a None None)))),
     xd_saveRiskEvent := (\<lambda>e. awaited others (onOrders (saveRiskEvent e))),
     xd_persistOrderIntent := (\<lambda>i. awaited others (onOrders (persistOrderIntent i))),
     xd_persistCandidateBoundOrderIntent := (\<lambda>i. awaited others (onCandidates (persistCandidateBoundOrderIntent (xd_sha256 base) True i))),
     xd_updateOrder := (\<lambda>ord. awaited others (onOrders (updateOrder ord))),
     xd_listSubmissionBlockingOrders := (\<lambda>a n. awaited others (onOrders (\<lambda>s. (listSubmissionBlockingOrders lc a n s, s)))),
     xd_findOrderById := (\<lambda>a i. awaited others (onOrders (sget (findOrderById a i)))),
     xd_persistExchangeSubmission := (\<lambda>i. awaited others (onOrders (persistExchangeSubmission i))),
     xd_persistUncertainSubmission := (\<lambda>i. awaited others (onOrders (persistUncertainSubmission i))),
     xd_listOrderEvents := (\<lambda>i. awaited others (onOrders (sget (listOrderEvents lc i)))),
     xd_getStrategyDecisionById := Some (\<lambda>i. awaited others (onOrders (sget (getStrategyDecisionById i)))),
     xd_acquireLease := (\<lambda>i. awaited others (\<lambda>w. onLeases (mem_acquireLease
       (\<lambda>a. map (evidenceOf (ap_repo w)) (listOrders a (ap_repo w))) i) w)),
     xd_renewLease := (\<lambda>i. awaited others (onLeases (mem_renewLease i))),
     xd_releaseLease := (\<lambda>a t. awaited others (onLeases (mem_releaseLease a t))),
     xd_getState := awaited others (onOperator (sget getState)),
     xd_pauseForFault := (\<lambda>f. awaited others (onOperator (applyFaultPauseAtomically f)))\<rparr>"

text \<open>The calls that reach \<open>base\<close>.\<close>

fun outsideCall :: "call \<Rightarrow> bool" where
  "outsideCall (CAssertLocallyHeld x) = True"
| "outsideCall (CAssertCurrent n x) = True"
| "outsideCall (CExecutionAuthority q x) = True"
| "outsideCall (CGetPortfolioExposure a x) = True"
| "outsideCall (CGetOrderChance m x) = True"
| "outsideCall (CTestOrder q x) = True"
| "outsideCall (CCreateOrder q x) = True"
| "outsideCall (CAwaitOrder x) = True"
| "outsideCall (CPauseForCandidateFault f x) = True"
| "outsideCall (CGetDeployment i x) = True"
| "outsideCall (CGetExactState i x) = True"
| "outsideCall (CGetBinding i x) = True"
| "outsideCall (CReport p x) = True"
| "outsideCall c = False"

definition outsideKeeps :: "('e app \<Rightarrow> 'e app) \<Rightarrow> 'e app exec_deps \<Rightarrow> bool" where
  "outsideKeeps others base \<longleftrightarrow> (\<forall>w. store_steps (ap_repo w) (ap_repo (others w))) \<and>
     (\<forall>c w w'. outsideCall c \<longrightarrow> performs base c w w' \<longrightarrow> store_steps (ap_repo w) (ap_repo w')) \<and>
     (\<forall>w w'. draws base w w' \<longrightarrow> store_steps (ap_repo w) (ap_repo w'))"

lemma memory_stores [simp]:
  "xd_findOrderByIdempotencyKey (memoryDeps lc others base) = (\<lambda>a k. awaited others (onOrders (sget (findOrderByIdempotencyKey a k))))"
  "xd_listActiveOrders (memoryDeps lc others base) = (\<lambda>a. awaited others (onOrders (sget (listActiveOrders lc a None None))))"
  "xd_saveRiskEvent (memoryDeps lc others base) = (\<lambda>e. awaited others (onOrders (saveRiskEvent e)))"
  "xd_persistOrderIntent (memoryDeps lc others base) = (\<lambda>i. awaited others (onOrders (persistOrderIntent i)))"
  "xd_persistCandidateBoundOrderIntent (memoryDeps lc others base) =
     (\<lambda>i. awaited others (onCandidates (persistCandidateBoundOrderIntent (xd_sha256 base) True i)))"
  "xd_updateOrder (memoryDeps lc others base) = (\<lambda>ord. awaited others (onOrders (updateOrder ord)))"
  "xd_listSubmissionBlockingOrders (memoryDeps lc others base) =
     (\<lambda>a n. awaited others (onOrders (\<lambda>s. (listSubmissionBlockingOrders lc a n s, s))))"
  "xd_findOrderById (memoryDeps lc others base) = (\<lambda>a i. awaited others (onOrders (sget (findOrderById a i))))"
  "xd_persistExchangeSubmission (memoryDeps lc others base) = (\<lambda>i. awaited others (onOrders (persistExchangeSubmission i)))"
  "xd_persistUncertainSubmission (memoryDeps lc others base) = (\<lambda>i. awaited others (onOrders (persistUncertainSubmission i)))"
  "xd_listOrderEvents (memoryDeps lc others base) = (\<lambda>i. awaited others (onOrders (sget (listOrderEvents lc i))))"
  "xd_getStrategyDecisionById (memoryDeps lc others base) = Some (\<lambda>i. awaited others (onOrders (sget (getStrategyDecisionById i))))"
  "xd_acquireLease (memoryDeps lc others base) = (\<lambda>i. awaited others (\<lambda>w. onLeases (mem_acquireLease
     (\<lambda>a. map (evidenceOf (ap_repo w)) (listOrders a (ap_repo w))) i) w))"
  "xd_renewLease (memoryDeps lc others base) = (\<lambda>i. awaited others (onLeases (mem_renewLease i)))"
  "xd_releaseLease (memoryDeps lc others base) = (\<lambda>a t. awaited others (onLeases (mem_releaseLease a t)))"
  "xd_getState (memoryDeps lc others base) = awaited others (onOperator (sget getState))"
  "xd_pauseForFault (memoryDeps lc others base) = (\<lambda>f. awaited others (onOperator (applyFaultPauseAtomically f)))"
  by (simp_all add: memoryDeps_def)

lemma memory_base [simp]:
  "xd_riskLimits (memoryDeps lc others base) = xd_riskLimits base" "xd_sendPath (memoryDeps lc others base) = xd_sendPath base"
  "xd_createOrder (memoryDeps lc others base) = xd_createOrder base"
  "xd_executionValidator (memoryDeps lc others base) = xd_executionValidator base"
  "xd_validationAdapter (memoryDeps lc others base) = xd_validationAdapter base"
  "xd_getPortfolioExposure (memoryDeps lc others base) = xd_getPortfolioExposure base"
  "xd_accountExecutionLeaseMs (memoryDeps lc others base) = xd_accountExecutionLeaseMs base"
  "xd_runtimeOwnership (memoryDeps lc others base) = xd_runtimeOwnership base"
  "xd_candidatePilots (memoryDeps lc others base) = xd_candidatePilots base" "xd_reporter (memoryDeps lc others base) = xd_reporter base"
  "xd_currentTimestamp (memoryDeps lc others base) = xd_currentTimestamp base" "xd_wallClock (memoryDeps lc others base) = xd_wallClock base"
  "xd_dateNow (memoryDeps lc others base) = xd_dateNow base" "xd_createId (memoryDeps lc others base) = xd_createId base"
  "xd_sha256 (memoryDeps lc others base) = xd_sha256 base" "xd_legacyDateParse (memoryDeps lc others base) = xd_legacyDateParse base"
  by (simp_all add: memoryDeps_def)

lemma memory_composed [simp]:
  "runtimeOwnership (memoryDeps lc others base) = runtimeOwnership base" "validatorOf (memoryDeps lc others base) = validatorOf base"
  by (simp_all add: runtimeOwnership_def validatorOf_def split: option.split)

lemma memory_outside:
  assumes "outsideCall c"
  shows "performs (memoryDeps lc others base) c w w' = performs base c w w'"
  using assms by (cases c rule: outsideCall.cases) simp_all

lemma memory_draws: "draws (memoryDeps lc others base) w w' = draws base w w'"
  by (simp add: draws.simps)

locale outside_world =
  fixes lc :: collator and others :: "'e app \<Rightarrow> 'e app" and base :: "'e app exec_deps"
  assumes keeps: "outsideKeeps others base"
begin

lemma others_keep: "store_steps s (ap_repo w) \<Longrightarrow> store_steps s (ap_repo (others w))"
  using keeps by (auto simp: outsideKeeps_def intro: rtranclp_trans)

lemma awaited_orders:
  assumes "awaited others (onOrders m) w = (x, w')"
  shows "\<exists>s. m (ap_repo w) = (x, s) \<and> store_steps s (ap_repo w')"
  using assms others_keep by (auto simp: awaited_def onOrders_def split: prod.splits)

lemma awaited_elsewhere:
  "awaited others (onLeases m) w = (x, w') \<Longrightarrow> store_steps (ap_repo w) (ap_repo w')"
  "awaited others (onOperator n) w = (y, w') \<Longrightarrow> store_steps (ap_repo w) (ap_repo w')"
  using others_keep by (auto simp: awaited_def onLeases_def onOperator_def split: prod.splits)

lemma awaited_step:
  assumes "awaited others (onOrders m) w = (x, w')" "\<And>s s' y. m s = (y, s') \<Longrightarrow> store_step s s'"
  shows "store_steps (ap_repo w) (ap_repo w')"
  using awaited_orders [OF assms(1)] assms(2) by (blast intro: converse_rtranclp_into_rtranclp)

lemma awaited_acquire:
  "awaited others (\<lambda>w. onLeases (m w) w) w = (x, w') \<Longrightarrow> store_steps (ap_repo w) (ap_repo w')"
  using others_keep by (auto simp: awaited_def onLeases_def split: prod.splits)

lemma awaited_candidate:
  assumes "awaited others (onCandidates m) w = (x, w')"
  shows "\<exists>s c. m (ap_repo w, ap_candidates w) = (x, (s, c)) \<and> store_steps s (ap_repo w')"
  using assms others_keep by (auto simp: awaited_def onCandidates_def split: prod.splits)

lemma saveRiskEvent_step: "saveRiskEvent e s = (x, s') \<Longrightarrow> store_step s s'"
  by (blast intro: store_step.order repo_step.risk)

lemma memory_other:
  assumes "performs (memoryDeps lc others base) c w w'" "\<not> writesIntent c"
  shows "store_steps (ap_repo w) (ap_repo w')"
proof (cases "outsideCall c")
  case True
  then show ?thesis using assms(1) keeps unfolding memory_outside [OF True] outsideKeeps_def by blast
next
  case False
  with assms show ?thesis
    by (cases c) (auto elim!: awaited_elsewhere awaited_acquire awaited_step
        intro: store_step_refl saveRiskEvent_step store_step.order repo_step.submission repo_step.uncertain)
qed

end

sublocale outside_world \<subseteq> memory: order_repository "memoryDeps lc others base" ap_repo
proof
  show "found = findOrderByIdempotencyKey a k (ap_repo w)"
    if "xd_findOrderByIdempotencyKey (memoryDeps lc others base) a k w = (Inr found, w')" for a k w found w'
    using awaited_orders that by fastforce
  show "\<exists>s. persistOrderIntent i (ap_repo w) = (x, s) \<and> store_steps s (ap_repo w')"
    if "xd_persistOrderIntent (memoryDeps lc others base) i w = (x, w')" for i w x w'
    using awaited_orders that by simp
  show "\<exists>sha256 configured c s c'. persistCandidateBoundOrderIntent sha256 configured q (ap_repo w, c) = (x, (s, c')) \<and> store_steps s (ap_repo w')"
    if "xd_persistCandidateBoundOrderIntent (memoryDeps lc others base) q w = (x, w')" for q w x w'
    using awaited_candidate that by fastforce
  show "\<exists>s. updateOrder ord (ap_repo w) = (x, s) \<and> store_steps s (ap_repo w')"
    if "xd_updateOrder (memoryDeps lc others base) ord w = (x, w')" for ord w x w'
    using awaited_orders that by simp
  show "store_steps (ap_repo w) (ap_repo w')" if "draws (memoryDeps lc others base) w w'" for w w'
    using keeps that unfolding memory_draws outsideKeeps_def by blast
qed (rule memory_other)

end
