(* ===== verification/SubmissionHistory.thy ===== *)
theory SubmissionHistory
  imports SubmissionComposition
begin

section \<open>Histories of submissions\<close>

text \<open>
  Submissions one after the other on the same stores, with any steps of the order store between them: an order goes to
  the exchange at most once per account and idempotency key, over the whole history, and the stores keep their
  invariant.
\<close>

inductive submissions ::
  "'w exec_deps \<Rightarrow> ('w \<Rightarrow> repo) \<Rightarrow> 'w \<Rightarrow> (SubmitOrderFromDecisionInput \<times> call list) list \<Rightarrow> 'w \<Rightarrow> bool" for deps repo_of where
  none: "submissions deps repo_of w [] w"
| submit: "submitOrderFromDecision deps input (freshRun w) = (res, r) \<Longrightarrow> store_steps (repo_of (ru_world r)) (repo_of w') \<Longrightarrow>
    submissions deps repo_of w' history w'' \<Longrightarrow> submissions deps repo_of w ((input, ru_calls r) # history) w''"

inductive_cases submissions_ConsE: "submissions deps repo_of w (h # history) w'"

definition underKey :: "'w exec_deps \<Rightarrow> string \<Rightarrow> string \<Rightarrow> SubmitOrderFromDecisionInput \<Rightarrow> bool" where
  "underKey deps account key input \<longleftrightarrow> si_exchangeAccountId input = account \<and> submissionKey deps input = key"

text \<open>The requests that the submissions of a history sent under a key.\<close>

definition sentUnder :: "'w exec_deps \<Rightarrow> string \<Rightarrow> string \<Rightarrow> (SubmitOrderFromDecisionInput \<times> call list) list \<Rightarrow> call list" where
  "sentUnder deps account key history = concat (map (\<lambda>(input, calls). if underKey deps account key input then filter isSend calls else []) history)"

lemma sentUnder_simps [simp]:
  "sentUnder deps a k [] = []"
  "sentUnder deps a k ((input, calls) # history) = (if underKey deps a k input then filter isSend calls else []) @ sentUnder deps a k history"
  by (simp_all add: sentUnder_def)

lemma submission_sends_once:
  assumes "submitOrderFromDecision deps input (freshRun w) = (res, r)"
  shows "length (filter isSend (ru_calls r)) \<le> 1"
  using submission_concluded [OF assms] unfolding concluded_def by (auto simp: length_sends_none dest!: list_ex_side)

lemma service_step_calls: "service_step deps r r' \<Longrightarrow> \<exists>cs. ru_calls r' = ru_calls r @ cs"
  by (induction rule: service_step.induct) auto

lemma traced_calls: "traced deps r r' \<Longrightarrow> \<exists>cs. ru_calls r' = ru_calls r @ cs"
proof (induction rule: rtranclp_induct)
  case (step s t)
  then show ?case using service_step_calls [OF step.hyps(2)] by fastforce
qed simp

lemma traced_releaseIfFlagged: "wp (releaseIfFlagged deps input am) (\<lambda>_. traced deps r) r"
  unfolding releaseIfFlagged_def releaseLeaseOrFail_def Let_def
  by (intro traced_rules traced_structure traced_invoke) simp_all

context order_repository
begin

lemma submission_evolves:
  assumes "submitOrderFromDecision deps input (freshRun w) = (res, r)" "repo_inv (repo_of w)" "store_steps (repo_of (ru_world r)) (repo_of w')"
  shows "store_steps (repo_of w) (repo_of w') \<and> repo_inv (repo_of w') \<and> evolves (repo_of w) (repo_of w')"
  using submission_store_steps [OF assms(1,2)] assms(2,3) store_steps_invariants rtranclp_trans by metis

lemma history_steps: "submissions deps repo_of w history w' \<Longrightarrow> repo_inv (repo_of w) \<Longrightarrow> store_steps (repo_of w) (repo_of w')"
proof (induction rule: submissions.induct)
  case (submit input w res r w' history w'')
  then show ?case using submission_evolves [OF submit.hyps(1) submit.prems submit.hyps(2)] by (meson rtranclp_trans)
qed simp

lemma taken_not_sent:
  "submissions deps repo_of w history w' \<Longrightarrow> repo_inv (repo_of w) \<Longrightarrow> keyTaken a k (repo_of w) \<Longrightarrow> sentUnder deps a k history = []"
proof (induction rule: submissions.induct)
  case (submit input w res r w' history w'')
  note next_store = submission_evolves [OF submit.hyps(1) submit.prems(1) submit.hyps(2)]
  have "filter isSend (ru_calls r) = []" if "underKey deps a k input"
  proof -
    have "onTaken input (freshRun w)" using that submit.prems by (simp add: onTaken_def underKey_def freshRun_def)
    from wpD [OF duplicate_not_sent [OF this] submit.hyps(1)] show ?thesis by (simp add: length_sends_none)
  qed
  moreover have "sentUnder deps a k history = []" using submit.IH next_store keyTaken_evolves [OF _ submit.prems(2)] by blast
  ultimately show ?case by simp
qed simp

lemma history_sends_once:
  "submissions deps repo_of w history w' \<Longrightarrow> repo_inv (repo_of w) \<Longrightarrow> length (sentUnder deps a k history) \<le> 1"
proof (induction rule: submissions.induct)
  case (submit input w res r w' history w'')
  note next_store = submission_evolves [OF submit.hyps(1) submit.prems submit.hyps(2)]
  show ?case
  proof (cases "underKey deps a k input \<and> list_ex isSend (ru_calls r)")
    case True
    have "keyTaken a k (repo_of (ru_world r))"
      using sent_key_taken [OF submit.hyps(1) submit.prems] True by (auto simp: underKey_def)
    moreover have "repo_inv (repo_of (ru_world r))"
      using submission_evolves [OF submit.hyps(1) submit.prems rtranclp.rtrancl_refl] by simp
    ultimately have "keyTaken a k (repo_of w')" using store_steps_invariants [OF submit.hyps(2)] keyTaken_evolves by blast
    then have "sentUnder deps a k history = []" using taken_not_sent [OF submit.hyps(3)] next_store by blast
    then show ?thesis
      using submission_sends_once [OF submit.hyps(1)] by simp
  next
    case False
    then show ?thesis using submit.IH next_store by (auto simp: length_sends_none)
  qed
qed simp

end

context outside_world
begin

lemma memory_history_steps:
  "submissions (memoryDeps lc others base) ap_repo w history w' \<Longrightarrow> repo_inv (ap_repo w) \<Longrightarrow> store_steps (ap_repo w) (ap_repo w')"
  by (rule memory.history_steps)

lemma memory_history_sends_once:
  "submissions (memoryDeps lc others base) ap_repo w history w' \<Longrightarrow> repo_inv (ap_repo w) \<Longrightarrow>
   length (sentUnder (memoryDeps lc others base) a k history) \<le> 1"
  by (rule memory.history_sends_once)

end

subsection \<open>A composition on which the request is sent\<close>

definition sampleOutside :: "unit app exec_deps" where
  "sampleOutside = \<lparr>
     xd_riskLimits = \<lparr>rl_maxAllocationByAsset = (\<lambda>_. Num 1), rl_totalExposureCap = Num 1, rl_stalePriceThresholdMs = Num 60000,
       rl_minimumOrderValueKrw = Num 1\<rparr>,
     xd_sendPath = DRY_RUN_ADAPTER,
     xd_createOrder = (\<lambda>q. sreturn (sreturn (sampleSnapshot q))),
     xd_executionValidator = sampleValidator, xd_validationAdapter = None,
     xd_findOrderByIdempotencyKey = (\<lambda>a k. sreturn None), xd_listActiveOrders = (\<lambda>a. sreturn []),
     xd_getPortfolioExposure = (\<lambda>a. sreturn samplePortfolio),
     xd_saveRiskEvent = (\<lambda>_. sreturn ()), xd_persistOrderIntent = (\<lambda>_. sreturn ()),
     xd_persistCandidateBoundOrderIntent = (\<lambda>_. sreturn ()), xd_updateOrder = (\<lambda>_. sreturn ()),
     xd_listSubmissionBlockingOrders = (\<lambda>a n. sreturn []), xd_findOrderById = (\<lambda>a i. sreturn None),
     xd_persistExchangeSubmission = (\<lambda>_. sreturn ()), xd_persistUncertainSubmission = (\<lambda>_. sreturn ()),
     xd_listOrderEvents = (\<lambda>_. sreturn []), xd_getStrategyDecisionById = None,
     xd_acquireLease = (\<lambda>_. sreturn None), xd_renewLease = (\<lambda>_. sreturn None), xd_releaseLease = (\<lambda>a t. sreturn True),
     xd_accountExecutionLeaseMs = Num 1000, xd_getState = sreturn submissionState, xd_pauseForFault = (\<lambda>_. sreturn submissionState),
     xd_runtimeOwnership = Some sampleOwnership, xd_candidatePilots = None, xd_reporter = None,
     xd_currentTimestamp = (\<lambda>w. (sampleTime, w)), xd_wallClock = (\<lambda>w. (sampleTime, w)), xd_dateNow = (\<lambda>w. (0, w)),
     xd_createId = (\<lambda>p w. (p, w)), xd_sha256 = (\<lambda>s. ''h''), xd_legacyDateParse = (\<lambda>_. NaN)\<rparr>"

lemma sampleOutside_select [simp]:
  "xd_sendPath sampleOutside = DRY_RUN_ADAPTER"
  "xd_createOrder sampleOutside = (\<lambda>q. sreturn (sreturn (sampleSnapshot q)))"
  "xd_executionValidator sampleOutside = sampleValidator" "xd_validationAdapter sampleOutside = None"
  "xd_getPortfolioExposure sampleOutside = (\<lambda>a. sreturn samplePortfolio)"
  "xd_accountExecutionLeaseMs sampleOutside = Num 1000" "xd_runtimeOwnership sampleOutside = Some sampleOwnership"
  "xd_candidatePilots sampleOutside = None" "xd_reporter sampleOutside = None"
  "xd_currentTimestamp sampleOutside = (\<lambda>w. (sampleTime, w))" "xd_wallClock sampleOutside = (\<lambda>w. (sampleTime, w))"
  "xd_dateNow sampleOutside = (\<lambda>w. (0, w))"
  "xd_createId sampleOutside = (\<lambda>p w. (p, w))" "xd_sha256 sampleOutside = (\<lambda>s. ''h'')" "xd_legacyDateParse sampleOutside = (\<lambda>_. NaN)"
  by (simp_all add: sampleOutside_def)

definition sampleApp :: "unit app" where
  "sampleApp = \<lparr>ap_repo = emptyRepo, ap_candidates = \<lparr>cs_deployments = Map.empty, cs_exactStates = Map.empty, cs_bindings = []\<rparr>,
     ap_leases = Map.empty, ap_operator = newOperatorStateStore submissionState, ap_outside = ()\<rparr>"

abbreviation sampleMemory :: "unit app exec_deps" where
  "sampleMemory \<equiv> memoryDeps (\<lambda>a b. 0) (\<lambda>w. w) sampleOutside"

lemma sample_memory_risk:
  assumes "am_startedAt am = sampleTime"
  shows "re_accepted (evaluateRiskGuards (\<lambda>_. NaN) (riskContextOf sampleMemory sampleSell am submissionState [] samplePortfolio))"
proof -
  have "riskContextOf sampleMemory sampleSell am submissionState [] samplePortfolio = riskContextOf sampleDeps sampleSell am submissionState [] samplePortfolio"
    by (simp add: riskContextOf_def sampleOutside_def sampleDeps_def)
  then show ?thesis using sample_risk [OF assms] by simp
qed

lemmas on_stores = awaited_def onOrders_def onLeases_def onOperator_def

lemma sample_token: "\<not> is_blank ''account_execution_lease''" by code_simp

lemma single_blocking:
  assumes "rp_orders s = [ord]" "oi_exchangeAccountId ord = a" "or_status ord = SUBMITTING" "0 < n" "isSafeInteger n"
  shows "listSubmissionBlockingOrders lc a n s = Inr [ord]"
  using assms by (simp add: listSubmissionBlockingOrders_def validateCandidateOrderReadLimit_def throw_if_def
     SUBMISSION_BLOCKING_CANDIDATE_STATUSES_def classifySubmissionBlockingOrder_def evidenceOf_def ACTIVE_SUBMISSION_STATUSES_def
     classification_def sort_by_def slice0_def Let_def)

lemma scan_limit_safe: "isSafeInteger 101" by code_simp

lemma memory_sends: "wp (submitOrderFromDecision sampleMemory sampleSell) (\<lambda>res r. list_ex isSend (ru_calls r)) (freshRun sampleApp)"
  unfolding submitOrderFromDecision_def submitNewOrder_def acquireSubmissionLease_def
  apply (simp add: run_symbolic on_stores sample_acquisition freshRun_def sampleApp_def emptyRepo_def findOrderByIdempotencyKey_def
     runtimeOwnership_def assertCanonicalUpbitMarketBuyQuote_def prepareCandidateContext_def
     buildOrderIdempotencyKey_def isOwnedLease_def sampleWindow_def isSafeInteger_def MAX_SAFE_INTEGER_def
     mem_acquireLease_def validateLeaseWindow_def requireNonEmpty_def listOrders_def leaseFromInput_def sample_token)
  apply (simp add: run_symbolic on_stores submitUnderLease_def executionAdapterAcceptsAuthority_def listActiveOrders_def slice0_opt_def getState_def newOperatorStateStore_def)
  apply (simp add: run_symbolic guardAndSubmit_def sample_memory_risk runExchangePreTradeValidation_def sampleValidator_def
     preTradeInputOf_def checkOrderChance_def resolveChanceTypeToken_def persistIntent_def persistPlainIntent_def)
  apply (simp add: run_symbolic on_stores persistOrderIntent_def validateOrderIntentInput_def validateOrderEvent_def throw_if_def slift_def
     orderRecordOf_def orderPersistedEvent_def orderById_def eventById_def addEvents_def sguard_def smodify_def sget_def sbind_def sreturn_def
     validateNewOrderUniqueness.simps)
  apply (simp add: run_symbolic on_stores submitIntent_def renewSubmissionLease_def sample_renewal isOwnedLease_def sampleWindow_def isSafeInteger_def MAX_SAFE_INTEGER_def
     submittingOrderOf_def updateOrder_def smodify_def mem_renewLease_def validateLeaseWindow_def requireNonEmpty_def sample_token throw_if_def)
  apply (simp add: run_symbolic on_stores startSubmission_def finalChecks_def assertFinalCandidatePreSendAuthority_def executionAdapterAcceptsAuthority_def
     submittingOrderOf_def assertFinalPersistedSubmissionAuthority_def CANDIDATE_FINAL_ORDER_SCAN_LIMIT_def sameOrderRecord_def
     sendUnderAuthority_def runtimeOwnership_def sampleOwnership_def getState_def
     single_blocking scan_limit_safe findOrderById_def)
  apply (rule wp_mono [OF traced_settleSubmission])
  apply (rule wp_mono [OF traced_releaseIfFlagged])
  apply (drule traced_calls)+
  apply auto
  done

definition memoryRun :: "SubmitOrderFromDecisionResult res \<times> unit app run" where
  "memoryRun = submitOrderFromDecision sampleMemory sampleSell (freshRun sampleApp)"

lemma memoryRun_pair: "submitOrderFromDecision sampleMemory sampleSell (freshRun sampleApp) = (fst memoryRun, snd memoryRun)"
  by (simp add: memoryRun_def)

lemma memoryRun_sends: "list_ex isSend (ru_calls (snd memoryRun))"
  using wpD [OF memory_sends memoryRun_pair] .

lemma sample_outside_keeps: "outsideKeeps (\<lambda>w. w) sampleOutside"
proof -
  have "ap_repo w' = ap_repo w" if "outsideCall c" "performs sampleOutside c w w'" for c w w'
    using that by (cases c rule: outsideCall.cases)
      (auto simp: runtimeOwnership_def validatorOf_def sampleOwnership_def sampleValidator_def sreturn_def)
  moreover have "ap_repo w' = ap_repo w" if "draws sampleOutside w w'" for w w'
    using that by (cases rule: draws.cases) auto
  ultimately show ?thesis by (auto simp: outsideKeeps_def)
qed

interpretation sampleWorld: outside_world "\<lambda>a b. 0" "\<lambda>w. w" sampleOutside
  by unfold_locales (rule sample_outside_keeps)

lemma sample_repo_inv: "repo_inv (ap_repo sampleApp)"
  by (simp add: repo_inv_def uniqueIds_def uniqueFills_def sampleApp_def emptyRepo_def)

text \<open>The same order submitted twice.\<close>

definition secondRun :: "SubmitOrderFromDecisionResult res \<times> unit app run" where
  "secondRun = submitOrderFromDecision sampleMemory sampleSell (freshRun (ru_world (snd memoryRun)))"

definition twice :: "(SubmitOrderFromDecisionInput \<times> call list) list" where
  "twice = [(sampleSell, ru_calls (snd memoryRun)), (sampleSell, ru_calls (snd secondRun))]"

lemma twice_submitted: "submissions sampleMemory ap_repo sampleApp twice (ru_world (snd secondRun))"
  unfolding twice_def
proof (rule submissions.submit [OF memoryRun_pair rtranclp.rtrancl_refl])
  have "submitOrderFromDecision sampleMemory sampleSell (freshRun (ru_world (snd memoryRun))) = (fst secondRun, snd secondRun)"
    by (simp add: secondRun_def)
  then show "submissions sampleMemory ap_repo (ru_world (snd memoryRun)) [(sampleSell, ru_calls (snd secondRun))] (ru_world (snd secondRun))"
    by (rule submissions.submit [OF _ rtranclp.rtrancl_refl submissions.none])
qed

subsection \<open>Properties\<close>

text \<open>
  C5. Of all submissions of an account under one idempotency key that are made one after the other on the in-memory
  stores, at most one sends a request, whatever the exchange answers. During and between the submissions other callbacks
  may make any calls of the store's operations that are steps of the order store (\<open>store_step\<close>): of the two operations
  that check nothing, saveOrder may add any order under a new id, and updateOrder may overwrite a stored order by one of
  the same identity or add one. The sends of submissions that overlap are not counted.
\<close>

theorem order_sent_once_per_key:
  assumes "outsideKeeps others base" and "repo_inv (ap_repo w)"
    and "submissions (memoryDeps lc others base) ap_repo w history w'"
  shows "length (sentUnder (memoryDeps lc others base) account key history) \<le> 1"
  by (rule outside_world.memory_history_sends_once [OF outside_world.intro [OF assms(1)] assms(3,2)])

theorem order_sent_once_per_key_witness:
  "submissions sampleMemory ap_repo sampleApp twice (ru_world (snd secondRun)) \<and>
   length (sentUnder sampleMemory ''a'' (submissionKey sampleMemory sampleSell) twice) = 1"
proof -
  have "length (sentUnder sampleMemory ''a'' (submissionKey sampleMemory sampleSell) twice) \<le> 1"
    by (rule order_sent_once_per_key [OF sample_outside_keeps sample_repo_inv twice_submitted])
  moreover have "sentUnder sampleMemory ''a'' (submissionKey sampleMemory sampleSell) twice \<noteq> []"
    using memoryRun_sends by (auto simp: twice_def underKey_def list_ex_iff filter_empty_conv)
  ultimately show ?thesis using twice_submitted by (simp add: le_Suc_eq)
qed

text \<open>
  A history of submissions is a sequence of steps of the order store: it keeps the store's invariant (orders unique by
  id, fills unique by their identities), drops no order, event, fill, risk event
  or recovery observation, and keeps every order's identity, account, key, market, side, type and amounts.
\<close>
theorem submissions_keep_repository:
  assumes "outsideKeeps others base" and "repo_inv (ap_repo w)"
    and "submissions (memoryDeps lc others base) ap_repo w history w'"
  shows "repo_inv (ap_repo w') \<and> evolves (ap_repo w) (ap_repo w')"
  using outside_world.memory_history_steps [OF outside_world.intro [OF assms(1)] assms(3,2)] assms(2) by (rule store_steps_invariants)

theorem submissions_keep_repository_witness:
  "submissions sampleMemory ap_repo sampleApp twice (ru_world (snd secondRun)) \<and>
   repo_inv (ap_repo (ru_world (snd secondRun))) \<and> evolves (ap_repo sampleApp) (ap_repo (ru_world (snd secondRun)))"
  using submissions_keep_repository [OF sample_outside_keeps sample_repo_inv twice_submitted] twice_submitted by simp

end
