(* ===== verification/RoutingState.thy ===== *)
theory RoutingState
  imports CandidateState
begin

section \<open>The candidate's routing state\<close>

text \<open>
  \<open>src/src/modules/strategy/position-guard-candidate-state.ts\<close>: the episode state in binary64 numbers the policy
  router reads, its validation, its advance by evidence, and \<open>toPositionGuardCandidateRoutingState\<close> of
  \<open>db/pilot-interfaces.ts\<close>, which reads it off the exact ledger. Counts are integers by typing.
\<close>

record PositionGuardCandidateState =
  rs_currentEpisodeAddCount :: int
  rs_currentEpisodeCostBasisKrw :: jsnum
  rs_currentEpisodeInventoryQuantity :: jsnum
  rs_currentEpisodeRealizedPnlKrw :: jsnum
  rs_lastFullExitAt :: "string option"
  rs_lastFullExitRealizedPnlKrw :: "jsnum option"
  rs_lastEntryPath :: "StrategyEntryPath option"
  rs_lastEvidenceAt :: "string option"
  rs_lastEvidenceId :: "string option"
  rs_stateVersion :: int

text \<open>Evidence with its decimals read as numbers.\<close>

record NormalizedEvidence =
  ne_evidenceId :: string
  ne_executedAt :: string
  ne_action :: StrategyDecisionAction
  ne_entryPath :: StrategyEntryPath
  ne_terminalStatus :: TerminalStatus
  ne_executedQuantity :: jsnum
  ne_grossQuoteValueKrw :: jsnum
  ne_confirmedFeeKrw :: jsnum
  ne_remainingQuantity :: jsnum

definition ROUTING_QUANTITY_TOLERANCE :: jsnum where
  "ROUTING_QUANTITY_TOLERANCE = round64 (1 / 10 ^ 12)"

lemma routing_tolerance_value [code]: "ROUTING_QUANTITY_TOLERANCE = Num (4951760157141521 / 4951760157141521099596496896)"
  unfolding ROUTING_QUANTITY_TOLERANCE_def by code_simp

definition createEmptyPositionGuardCandidateState :: PositionGuardCandidateState where
  "createEmptyPositionGuardCandidateState =
     \<lparr>rs_currentEpisodeAddCount = 0, rs_currentEpisodeCostBasisKrw = Num 0, rs_currentEpisodeInventoryQuantity = Num 0,
      rs_currentEpisodeRealizedPnlKrw = Num 0, rs_lastFullExitAt = None, rs_lastFullExitRealizedPnlKrw = None,
      rs_lastEntryPath = None, rs_lastEvidenceAt = None, rs_lastEvidenceId = None, rs_stateVersion = 0\<rparr>"

definition isPristineCandidateState :: "PositionGuardCandidateState \<Rightarrow> bool" where
  "isPristineCandidateState state \<longleftrightarrow> rs_currentEpisodeAddCount state = 0 \<and> rs_currentEpisodeCostBasisKrw state = Num 0 \<and>
     rs_currentEpisodeInventoryQuantity state = Num 0 \<and> rs_currentEpisodeRealizedPnlKrw state = Num 0 \<and>
     rs_lastFullExitAt state = None \<and> rs_lastFullExitRealizedPnlKrw state = None \<and> rs_lastEntryPath state = None \<and>
     rs_stateVersion state = 0"

subsection \<open>Validation\<close>

definition finiteNonNegative :: "jsnum \<Rightarrow> bool" where
  "finiteNonNegative x \<longleftrightarrow> isFiniteNumber x \<and> \<not> num_less x (Num 0)"

definition minimumReachableStateVersion :: "PositionGuardCandidateState \<Rightarrow> int" where
  "minimumReachableStateVersion state =
     (if rs_lastFullExitAt state = None then 0 else 2) +
     (if num_greater (rs_currentEpisodeInventoryQuantity state) ROUTING_QUANTITY_TOLERANCE
      then 1 + rs_currentEpisodeAddCount state + (if rs_currentEpisodeRealizedPnlKrw state \<noteq> Num 0 then 1 else 0) else 0)"

definition validateFullExitMetadata :: "PositionGuardCandidateState \<Rightarrow> unit res" where
  "validateFullExitMetadata state =
     ebind (case rs_lastFullExitAt state of None \<Rightarrow> Inr ()
       | Some t \<Rightarrow> ebind (parsePositionGuardCandidateTimestamp t ''state lastFullExitAt'') (\<lambda>_. Inr ())) (\<lambda>_.
     ebind (throw_if (case rs_lastFullExitRealizedPnlKrw state of None \<Rightarrow> False | Some p \<Rightarrow> \<not> isFiniteNumber p)
       (Error ''PositionGuard candidate state lastFullExitRealizedPnlKrw must be finite or null.'')) (\<lambda>_.
     throw_if ((rs_lastFullExitAt state = None) \<noteq> (rs_lastFullExitRealizedPnlKrw state = None))
       (Error ''PositionGuard candidate state full-exit metadata must be either both null or both non-null.'')))"

definition validateCursor :: "PositionGuardCandidateState \<Rightarrow> unit res" where
  "validateCursor state =
     ebind (throw_if (case rs_lastEvidenceId state of None \<Rightarrow> False | Some i \<Rightarrow> is_blank i)
       (Error ''PositionGuard candidate state lastEvidenceId must be a non-empty string or null.'')) (\<lambda>_.
     ebind (throw_if ((rs_lastEvidenceAt state = None) \<noteq> (rs_lastEvidenceId state = None))
       (Error ''PositionGuard candidate state cursor metadata must be either both null or both non-null.'')) (\<lambda>_.
     case rs_lastEvidenceAt state of
       None \<Rightarrow> throw_if (\<not> isPristineCandidateState state)
         (Error ''PositionGuard candidate state may use a null cursor only when the state is empty.'')
     | Some evidenceAt \<Rightarrow>
         ebind (parsePositionGuardCandidateTimestamp evidenceAt ''state lastEvidenceAt'') (\<lambda>evidenceEpoch.
         ebind (throw_if (rs_stateVersion state = 0)
           (Error ''PositionGuard candidate state with a cursor must have a positive stateVersion.'')) (\<lambda>_.
         case rs_lastFullExitAt state of
           None \<Rightarrow> Inr ()
         | Some exitAt \<Rightarrow>
             ebind (parsePositionGuardCandidateTimestamp exitAt ''state lastFullExitAt'') (\<lambda>exitEpoch.
             throw_if (evidenceEpoch < exitEpoch)
               (Error ''PositionGuard candidate state full-exit metadata cannot be after its chronology cursor.''))))))"

definition validateStateSnapshot :: "PositionGuardCandidateState \<Rightarrow> unit res" where
  "validateStateSnapshot state =
     ebind (throw_if (rs_currentEpisodeAddCount state < 0)
       (Error ''PositionGuard candidate state currentEpisodeAddCount must be a non-negative integer.'')) (\<lambda>_.
     ebind (throw_if (\<not> finiteNonNegative (rs_currentEpisodeInventoryQuantity state))
       (Error ''PositionGuard candidate state currentEpisodeInventoryQuantity must be finite and non-negative.'')) (\<lambda>_.
     ebind (throw_if (\<not> finiteNonNegative (rs_currentEpisodeCostBasisKrw state))
       (Error ''PositionGuard candidate state currentEpisodeCostBasisKrw must be finite and non-negative.'')) (\<lambda>_.
     ebind (throw_if (\<not> isFiniteNumber (rs_currentEpisodeRealizedPnlKrw state))
       (Error ''PositionGuard candidate state currentEpisodeRealizedPnlKrw must be finite.'')) (\<lambda>_.
     ebind (throw_if (\<not> isSafeInteger (rs_stateVersion state) \<or> rs_stateVersion state < 0)
       (Error ''PositionGuard candidate state stateVersion must be a non-negative safe integer.'')) (\<lambda>_.
     ebind (validateFullExitMetadata state) (\<lambda>_.
     ebind (throw_if (rs_lastFullExitAt state \<noteq> None \<and> rs_lastEntryPath state = None)
       (Error ''Completed PositionGuard candidate state requires lastEntryPath.'')) (\<lambda>_.
     ebind (validateCursor state) (\<lambda>_.
     ebind (if num_le (rs_currentEpisodeInventoryQuantity state) ROUTING_QUANTITY_TOLERANCE
        then ebind (throw_if (rs_currentEpisodeInventoryQuantity state \<noteq> Num 0)
               (Error ''Flat PositionGuard candidate state must normalize inventory quantity to zero.'')) (\<lambda>_.
             ebind (throw_if (rs_currentEpisodeCostBasisKrw state \<noteq> Num 0 \<or> rs_currentEpisodeAddCount state \<noteq> 0 \<or>
                 rs_currentEpisodeRealizedPnlKrw state \<noteq> Num 0)
               (Error ''Flat PositionGuard candidate state must have zero cost basis, add count, and realized PnL.'')) (\<lambda>_.
             throw_if (rs_lastEvidenceAt state \<noteq> None \<and> rs_lastFullExitAt state = None)
               (Error ''Flat PositionGuard candidate state with a cursor requires full-exit metadata.'')))
        else throw_if (num_le (rs_currentEpisodeCostBasisKrw state) (Num 0) \<or> rs_lastEntryPath state = None)
               (Error ''Open PositionGuard candidate state requires positive cost basis and entry path.'')) (\<lambda>_.
     throw_if (rs_stateVersion state < minimumReachableStateVersion state)
       (Error ''PositionGuard candidate state stateVersion is below the minimum implied by its persisted episode state.''))))))))))"

definition validatePositionGuardCandidateState :: "PositionGuardCandidateState \<Rightarrow> unit res" where
  "validatePositionGuardCandidateState state = validateStateSnapshot state"

subsection \<open>Evidence\<close>

text \<open>The texts \<open>^(?:0|[1-9]\d*)(?:\.\d+)?$\<close>.\<close>

definition isPlainDecimalText :: "string \<Rightarrow> bool" where
  "isPlainDecimalText s =
     (let whole = takeWhile is_digit s; rest = dropWhile is_digit s
      in (whole = ''0'' \<or> (whole \<noteq> [] \<and> hd whole \<noteq> CHR ''0'')) \<and>
         (rest = [] \<or> (hd rest = CHR ''.'' \<and> tl rest \<noteq> [] \<and> list_all is_digit (tl rest))))"

definition parseCandidateDecimal :: "CandidateDecimal \<Rightarrow> string \<Rightarrow> jsnum res" where
  "parseCandidateDecimal value label =
     (let prefix = ''PositionGuard candidate evidence '' @ label @ '' must be '' in
      case value of
        DecNumber x \<Rightarrow> ebind (throw_if (\<not> finiteNonNegative x) (Error (prefix @ ''finite and non-negative.''))) (\<lambda>_. Inr x)
      | DecString s \<Rightarrow>
          ebind (throw_if (\<not> isPlainDecimalText s) (Error (prefix @ ''a non-negative decimal string.''))) (\<lambda>_.
          ebind (throw_if (\<not> isFiniteNumber (numberOf s)) (Error (prefix @ ''finite and non-negative.''))) (\<lambda>_.
          Inr (numberOf s))))"

definition normalizeExecutionEvidence :: "PositionGuardCandidateExecutionEvidence \<Rightarrow> NormalizedEvidence res" where
  "normalizeExecutionEvidence value =
     ebind (parseCandidateDecimal (ce_executedQuantity value) ''executedQuantity'') (\<lambda>executed.
     ebind (parseCandidateDecimal (ce_grossQuoteValueKrw value) ''grossQuoteValueKrw'') (\<lambda>gross.
     ebind (parseCandidateDecimal (ce_confirmedFeeKrw value) ''confirmedFeeKrw'') (\<lambda>fee.
     ebind (parseCandidateDecimal (ce_remainingQuantity value) ''remainingQuantity'') (\<lambda>remaining.
     Inr \<lparr>ne_evidenceId = ce_evidenceId value, ne_executedAt = ce_executedAt value, ne_action = ce_action value,
       ne_entryPath = ce_entryPath value, ne_terminalStatus = ce_terminalStatus value, ne_executedQuantity = executed,
       ne_grossQuoteValueKrw = gross, ne_confirmedFeeKrw = fee, ne_remainingQuantity = remaining\<rparr>))))"

definition validateExecutionEvidence :: "NormalizedEvidence \<Rightarrow> unit res" where
  "validateExecutionEvidence evidence =
     ebind (throw_if (is_blank (ne_evidenceId evidence))
       (Error ''PositionGuard candidate evidenceId must be a non-empty string.'')) (\<lambda>_.
     ebind (parsePositionGuardCandidateTimestamp (ne_executedAt evidence) ''evidence executedAt'') (\<lambda>_.
     ebind (throw_if (ne_action evidence \<notin> {ENTER, ADD, REDUCE, EXIT})
       (Error (''PositionGuard candidate evidence action '' @ actionStr (ne_action evidence) @ '' is invalid.''))) (\<lambda>_.
     ebind (emapM (\<lambda>(field, value). throw_if (\<not> finiteNonNegative value)
         (Error (''PositionGuard candidate evidence '' @ field @ '' must be finite and non-negative.'')))
       [(''executedQuantity'', ne_executedQuantity evidence), (''grossQuoteValueKrw'', ne_grossQuoteValueKrw evidence),
        (''confirmedFeeKrw'', ne_confirmedFeeKrw evidence), (''remainingQuantity'', ne_remainingQuantity evidence)]) (\<lambda>_.
     if ne_executedQuantity evidence = Num 0
     then ebind (throw_if (ne_terminalStatus evidence \<noteq> TerminalCanceled)
            (Error ''Terminal no-fill PositionGuard candidate evidence must be CANCELED.'')) (\<lambda>_.
          throw_if (ne_grossQuoteValueKrw evidence \<noteq> Num 0 \<or> ne_confirmedFeeKrw evidence \<noteq> Num 0)
            (Error ''Terminal no-fill PositionGuard candidate evidence must have zero value and fee.''))
     else ebind (throw_if (num_le (ne_grossQuoteValueKrw evidence) (Num 0))
            (Error ''PositionGuard candidate evidence must have a positive quote value for a non-zero fill.'')) (\<lambda>_.
          throw_if (\<not> isFiniteNumber (num_div (ne_grossQuoteValueKrw evidence) (ne_executedQuantity evidence)))
            (Error ''PositionGuard candidate evidence implied execution price must be finite.''))))))"

subsection \<open>Advancing\<close>

definition assertResidualMatches :: "jsnum \<Rightarrow> jsnum \<Rightarrow> string \<Rightarrow> unit res" where
  "assertResidualMatches expected actual evidenceId =
     throw_if (num_greater (num_abs (num_sub expected actual)) ROUTING_QUANTITY_TOLERANCE)
       (Error (''PositionGuard candidate evidence '' @ evidenceId @ '' remainingQuantity contradicts the episode residual.''))"

definition assertEvidenceAfterStateCursor :: "PositionGuardCandidateState \<Rightarrow> NormalizedEvidence \<Rightarrow> unit res" where
  "assertEvidenceAfterStateCursor state evidence =
     (case (rs_lastEvidenceAt state, rs_lastEvidenceId state) of
        (Some cursorAt, Some cursorId) \<Rightarrow>
          ebind (parsePositionGuardCandidateTimestamp cursorAt ''state lastEvidenceAt'') (\<lambda>cursorEpoch.
          ebind (parsePositionGuardCandidateTimestamp (ne_executedAt evidence) ''evidence executedAt'') (\<lambda>evidenceEpoch.
          throw_if (evidenceEpoch < cursorEpoch \<or> (evidenceEpoch = cursorEpoch \<and> ne_evidenceId evidence \<le> cursorId))
            (Error ''PositionGuard candidate evidence must be ordered after the state chronology cursor by epoch nanoseconds and evidenceId.'')))
      | _ \<Rightarrow> Inr ())"

definition assertNonZeroFillLifecycle :: "PositionGuardCandidateState \<Rightarrow> NormalizedEvidence \<Rightarrow> unit res" where
  "assertNonZeroFillLifecycle state evidence =
     (if isBuyAction (ne_action evidence)
      then ebind (throw_if (ne_action evidence = ENTER \<and> rs_currentEpisodeInventoryQuantity state \<noteq> Num 0)
             (Error ''PositionGuard candidate ENTER evidence requires a flat episode.'')) (\<lambda>_.
           throw_if (ne_action evidence = ADD \<and> num_le (rs_currentEpisodeInventoryQuantity state) ROUTING_QUANTITY_TOLERANCE)
             (Error ''PositionGuard candidate ADD evidence requires an open episode.''))
      else ebind (throw_if (num_le (rs_currentEpisodeInventoryQuantity state) ROUTING_QUANTITY_TOLERANCE)
             (Error ''PositionGuard candidate sell evidence requires an open episode.'')) (\<lambda>_.
           throw_if (num_greater (ne_executedQuantity evidence)
               (num_add (rs_currentEpisodeInventoryQuantity state) ROUTING_QUANTITY_TOLERANCE))
             (Error ''PositionGuard candidate sell evidence exceeds episode inventory.'')))"

definition routingBuy :: "PositionGuardCandidateState \<Rightarrow> NormalizedEvidence \<Rightarrow> PositionGuardCandidateState res" where
  "routingBuy state evidence =
     (let inventory = num_add (rs_currentEpisodeInventoryQuantity state) (ne_executedQuantity evidence);
          cost = num_add (rs_currentEpisodeCostBasisKrw state)
            (num_add (ne_grossQuoteValueKrw evidence) (ne_confirmedFeeKrw evidence))
      in ebind (assertResidualMatches inventory (ne_remainingQuantity evidence) (ne_evidenceId evidence)) (\<lambda>_.
         Inr (state\<lparr>rs_currentEpisodeInventoryQuantity := inventory, rs_currentEpisodeCostBasisKrw := cost,
           rs_lastEntryPath := (if ne_action evidence = ENTER then Some (ne_entryPath evidence) else rs_lastEntryPath state),
           rs_currentEpisodeAddCount := (if ne_action evidence = ADD then rs_currentEpisodeAddCount state + 1
             else rs_currentEpisodeAddCount state)\<rparr>)))"

definition routingSell :: "PositionGuardCandidateState \<Rightarrow> NormalizedEvidence \<Rightarrow> PositionGuardCandidateState res" where
  "routingSell state evidence =
     (let expectedRemaining = num_sub (rs_currentEpisodeInventoryQuantity state) (ne_executedQuantity evidence);
          closesEpisode = num_le expectedRemaining ROUTING_QUANTITY_TOLERANCE
      in ebind (assertResidualMatches (if closesEpisode then Num 0 else expectedRemaining) (ne_remainingQuantity evidence)
           (ne_evidenceId evidence)) (\<lambda>_.
         let removedCost = (if closesEpisode then rs_currentEpisodeCostBasisKrw state
               else num_mul (rs_currentEpisodeCostBasisKrw state)
                 (num_div (ne_executedQuantity evidence) (rs_currentEpisodeInventoryQuantity state)));
             realizedPnl = num_sub (num_sub (num_add (rs_currentEpisodeRealizedPnlKrw state) (ne_grossQuoteValueKrw evidence))
               (ne_confirmedFeeKrw evidence)) removedCost
         in Inr (if closesEpisode
            then state\<lparr>rs_currentEpisodeAddCount := 0, rs_currentEpisodeCostBasisKrw := Num 0,
              rs_currentEpisodeInventoryQuantity := Num 0, rs_currentEpisodeRealizedPnlKrw := Num 0,
              rs_lastFullExitAt := Some (ne_executedAt evidence), rs_lastFullExitRealizedPnlKrw := Some realizedPnl\<rparr>
            else state\<lparr>rs_currentEpisodeCostBasisKrw := num_sub (rs_currentEpisodeCostBasisKrw state) removedCost,
              rs_currentEpisodeInventoryQuantity := expectedRemaining, rs_currentEpisodeRealizedPnlKrw := realizedPnl\<rparr>)))"

definition advanceValidatedPositionGuardCandidateState ::
  "PositionGuardCandidateState \<Rightarrow> NormalizedEvidence \<Rightarrow> PositionGuardCandidateState res" where
  "advanceValidatedPositionGuardCandidateState state evidence =
     ebind (assertEvidenceAfterStateCursor state evidence) (\<lambda>_.
     if ne_executedQuantity evidence = Num 0
     then ebind (assertResidualMatches (rs_currentEpisodeInventoryQuantity state) (ne_remainingQuantity evidence)
            (ne_evidenceId evidence)) (\<lambda>_. Inr state)
     else ebind (assertNonZeroFillLifecycle state evidence) (\<lambda>_.
          ebind (if isBuyAction (ne_action evidence) then routingBuy state evidence else routingSell state evidence) (\<lambda>booked.
          let advanced = booked\<lparr>rs_lastEvidenceAt := Some (ne_executedAt evidence), rs_lastEvidenceId := Some (ne_evidenceId evidence),
                rs_stateVersion := rs_stateVersion booked + 1\<rparr>
          in ebind (validateStateSnapshot advanced) (\<lambda>_. Inr advanced))))"

definition advancePositionGuardCandidateState ::
  "PositionGuardCandidateState \<Rightarrow> PositionGuardCandidateExecutionEvidence \<Rightarrow> PositionGuardCandidateState res" where
  "advancePositionGuardCandidateState state evidence =
     ebind (validateStateSnapshot state) (\<lambda>_.
     ebind (normalizeExecutionEvidence evidence) (\<lambda>normalized.
     ebind (validateExecutionEvidence normalized) (\<lambda>_.
     advanceValidatedPositionGuardCandidateState state normalized)))"

text \<open>The evidence in the order given: each item is read, checked, and its id must be new.\<close>

fun readEvidence :: "string list \<Rightarrow> PositionGuardCandidateExecutionEvidence list \<Rightarrow> (NormalizedEvidence \<times> int) list res" where
  "readEvidence evidenceIds [] = Inr []"
| "readEvidence evidenceIds (item # rest) =
     ebind (normalizeExecutionEvidence item) (\<lambda>snapshot.
     ebind (validateExecutionEvidence snapshot) (\<lambda>_.
     ebind (throw_if (ne_evidenceId snapshot \<in> set evidenceIds)
       (Error (''Duplicate PositionGuard candidate evidenceId '' @ ne_evidenceId snapshot @ ''.''))) (\<lambda>_.
     ebind (parsePositionGuardCandidateTimestamp (ne_executedAt snapshot) ''evidence executedAt'') (\<lambda>epochNanoseconds.
     ebind (readEvidence (ne_evidenceId snapshot # evidenceIds) rest) (\<lambda>others.
     Inr ((snapshot, epochNanoseconds) # others))))))"

definition routingChronology :: "NormalizedEvidence \<times> int \<Rightarrow> NormalizedEvidence \<times> int \<Rightarrow> bool" where
  "routingChronology left right \<longleftrightarrow> snd left < snd right \<or>
     (snd left = snd right \<and> ne_evidenceId (fst left) \<le> ne_evidenceId (fst right))"

definition projectPositionGuardCandidateState ::
  "PositionGuardCandidateState \<Rightarrow> PositionGuardCandidateExecutionEvidence list \<Rightarrow> PositionGuardCandidateState res" where
  "projectPositionGuardCandidateState initialState evidence =
     ebind (validateStateSnapshot initialState) (\<lambda>_.
     ebind (readEvidence (case rs_lastEvidenceId initialState of None \<Rightarrow> [] | Some i \<Rightarrow> [i]) evidence) (\<lambda>ordered.
     efold advanceValidatedPositionGuardCandidateState initialState (map fst (sort_by routingChronology ordered))))"

subsection \<open>From the exact ledger\<close>

definition finiteRoutingNumber :: "string \<Rightarrow> string \<Rightarrow> jsnum res" where
  "finiteRoutingNumber value label =
     ebind (throw_if (\<not> isFiniteNumber (numberOf value))
       (Error (label @ '' cannot be represented as a finite routing number.''))) (\<lambda>_. Inr (numberOf value))"

definition toPositionGuardCandidateRoutingState :: "ExactCandidateState \<Rightarrow> PositionGuardCandidateState res" where
  "toPositionGuardCandidateRoutingState state =
     ebind (ebind (canonicalNonNegativeDecimal (xs_currentEpisodeCostBasisKrw state) ''candidate exact cost basis'')
       (\<lambda>s. finiteRoutingNumber s ''candidate exact cost basis'')) (\<lambda>cost.
     ebind (ebind (canonicalNonNegativeDecimal (xs_currentEpisodeInventoryQuantity state) ''candidate exact inventory quantity'')
       (\<lambda>s. finiteRoutingNumber s ''candidate exact inventory quantity'')) (\<lambda>inventory.
     ebind (ebind (canonicalSignedDecimal (xs_currentEpisodeRealizedPnlKrw state) ''candidate exact realized pnl'')
       (\<lambda>s. finiteRoutingNumber s ''candidate exact realized pnl'')) (\<lambda>pnl.
     ebind (case xs_lastFullExitRealizedPnlKrw state of None \<Rightarrow> Inr None
       | Some v \<Rightarrow> ebind (ebind (canonicalSignedDecimal v ''candidate exact full-exit pnl'')
           (\<lambda>s. finiteRoutingNumber s ''candidate exact full-exit pnl'')) (\<lambda>x. Inr (Some x))) (\<lambda>exitPnl.
     let result = \<lparr>rs_currentEpisodeAddCount = xs_currentEpisodeAddCount state, rs_currentEpisodeCostBasisKrw = cost,
           rs_currentEpisodeInventoryQuantity = inventory, rs_currentEpisodeRealizedPnlKrw = pnl,
           rs_lastFullExitAt = xs_lastFullExitAt state, rs_lastFullExitRealizedPnlKrw = exitPnl,
           rs_lastEntryPath = xs_lastEntryPath state, rs_lastEvidenceAt = xs_lastEvidenceAt state,
           rs_lastEvidenceId = xs_lastEvidenceId state, rs_stateVersion = xs_stateVersion state\<rparr>
     in ebind (validatePositionGuardCandidateState result) (\<lambda>_. Inr result)))))"

subsection \<open>Well-formed states\<close>

text \<open>
  What the validation of a state amounts to: the amounts are finite and in range, the episode is flat with nothing
  left of it or open with cost and entry path, exit data and cursor are complete or absent, the cursor is not before the
  last exit, and the version counts at least the fills the state shows.
\<close>

definition routing_wf :: "PositionGuardCandidateState \<Rightarrow> bool" where
  "routing_wf st \<longleftrightarrow>
     0 \<le> rs_currentEpisodeAddCount st \<and> finiteNonNegative (rs_currentEpisodeInventoryQuantity st) \<and>
     finiteNonNegative (rs_currentEpisodeCostBasisKrw st) \<and> isFiniteNumber (rs_currentEpisodeRealizedPnlKrw st) \<and>
     0 \<le> rs_stateVersion st \<and> isSafeInteger (rs_stateVersion st) \<and> minimumReachableStateVersion st \<le> rs_stateVersion st \<and>
     (rs_lastFullExitAt st = None \<longleftrightarrow> rs_lastFullExitRealizedPnlKrw st = None) \<and>
     (\<forall>pnl. rs_lastFullExitRealizedPnlKrw st = Some pnl \<longrightarrow> isFiniteNumber pnl) \<and>
     (rs_lastFullExitAt st \<noteq> None \<longrightarrow> rs_lastEntryPath st \<noteq> None) \<and>
     (case (rs_lastEvidenceAt st, rs_lastEvidenceId st) of
        (None, None) \<Rightarrow> isPristineCandidateState st
      | (Some t, Some i) \<Rightarrow> \<not> is_blank i \<and> rs_stateVersion st \<noteq> 0 \<and>
          (\<exists>epoch. parsePositionGuardCandidateTimestamp t ''state lastEvidenceAt'' = Inr epoch \<and>
            (\<forall>u. rs_lastFullExitAt st = Some u \<longrightarrow>
               (\<exists>exit. parsePositionGuardCandidateTimestamp u ''state lastFullExitAt'' = Inr exit \<and> exit \<le> epoch)))
      | _ \<Rightarrow> False) \<and>
     (if num_le (rs_currentEpisodeInventoryQuantity st) ROUTING_QUANTITY_TOLERANCE
      then rs_currentEpisodeInventoryQuantity st = Num 0 \<and> rs_currentEpisodeCostBasisKrw st = Num 0 \<and>
        rs_currentEpisodeAddCount st = 0 \<and> rs_currentEpisodeRealizedPnlKrw st = Num 0 \<and>
        (rs_lastEvidenceAt st \<noteq> None \<longrightarrow> rs_lastFullExitAt st \<noteq> None)
      else \<not> num_le (rs_currentEpisodeCostBasisKrw st) (Num 0) \<and> rs_lastEntryPath st \<noteq> None)"

lemma validateFullExitMetadata_Inr:
  "validateFullExitMetadata st = Inr u \<longleftrightarrow>
   (\<forall>t. rs_lastFullExitAt st = Some t \<longrightarrow> (\<exists>epoch. parsePositionGuardCandidateTimestamp t ''state lastFullExitAt'' = Inr epoch)) \<and>
   (\<forall>pnl. rs_lastFullExitRealizedPnlKrw st = Some pnl \<longrightarrow> isFiniteNumber pnl) \<and>
   (rs_lastFullExitAt st = None \<longleftrightarrow> rs_lastFullExitRealizedPnlKrw st = None)"
  by (cases "rs_lastFullExitAt st"; cases "rs_lastFullExitRealizedPnlKrw st") (auto simp: validateFullExitMetadata_def res_simps)

lemma validateCursor_Inr:
  "validateCursor st = Inr u \<longleftrightarrow>
   (case (rs_lastEvidenceAt st, rs_lastEvidenceId st) of
      (None, None) \<Rightarrow> isPristineCandidateState st
    | (Some t, Some i) \<Rightarrow> \<not> is_blank i \<and> rs_stateVersion st \<noteq> 0 \<and>
        (\<exists>epoch. parsePositionGuardCandidateTimestamp t ''state lastEvidenceAt'' = Inr epoch \<and>
          (\<forall>u. rs_lastFullExitAt st = Some u \<longrightarrow>
             (\<exists>exit. parsePositionGuardCandidateTimestamp u ''state lastFullExitAt'' = Inr exit \<and> exit \<le> epoch)))
    | _ \<Rightarrow> False)"
  by (cases "rs_lastEvidenceAt st"; cases "rs_lastEvidenceId st"; cases "rs_lastFullExitAt st")
    (auto simp: validateCursor_def res_simps not_less)

lemma validated_iff: "validateStateSnapshot st = Inr u \<longleftrightarrow> routing_wf st"
  unfolding validateStateSnapshot_def routing_wf_def ebind_eq_Inr validateFullExitMetadata_Inr validateCursor_Inr
  by (cases "rs_lastFullExitAt st") (auto simp: res_simps isPristineCandidateState_def split: option.splits)

lemma empty_routing_wf: "routing_wf createEmptyPositionGuardCandidateState"
proof -
  have "validateStateSnapshot createEmptyPositionGuardCandidateState = Inr ()" by code_simp
  then show ?thesis by (simp only: validated_iff)
qed

text \<open>Each fill that is applied counts once in the version and moves the cursor to itself.\<close>

definition filled :: "NormalizedEvidence \<Rightarrow> bool" where
  "filled e \<longleftrightarrow> ne_executedQuantity e \<noteq> Num 0"

lemma routingBuy_kept: "routingBuy st e = Inr t \<Longrightarrow> rs_stateVersion t = rs_stateVersion st"
  by (auto simp: routingBuy_def Let_def res_simps)

lemma routingSell_kept: "routingSell st e = Inr t \<Longrightarrow> rs_stateVersion t = rs_stateVersion st"
  by (auto simp: routingSell_def Let_def res_simps)

lemma advance_step:
  assumes "advanceValidatedPositionGuardCandidateState st e = Inr t" "routing_wf st"
  shows "routing_wf t \<and> rs_stateVersion t = rs_stateVersion st + (if filled e then 1 else 0) \<and>
    (if filled e then rs_lastEvidenceAt t = Some (ne_executedAt e) \<and> rs_lastEvidenceId t = Some (ne_evidenceId e) else t = st)"
proof (cases "filled e")
  case False
  then have "t = st" using assms(1) by (auto simp: advanceValidatedPositionGuardCandidateState_def filled_def ebind_eq_Inr)
  then show ?thesis using False assms(2) by simp
next
  case True
  then obtain b where b: "(if isBuyAction (ne_action e) then routingBuy st e else routingSell st e) = Inr b"
      "t = b\<lparr>rs_lastEvidenceAt := Some (ne_executedAt e), rs_lastEvidenceId := Some (ne_evidenceId e), rs_stateVersion := rs_stateVersion b + 1\<rparr>"
      "validateStateSnapshot t = Inr ()"
    using assms(1) unfolding advanceValidatedPositionGuardCandidateState_def filled_def Let_def ebind_eq_Inr by (simp add: ebind_eq_Inr) blast
  from b(1) have "rs_stateVersion b = rs_stateVersion st" using routingBuy_kept routingSell_kept by (auto split: if_splits)
  then show ?thesis using True b(2,3) by (simp add: validated_iff)
qed

lemma advance_fold:
  "efold advanceValidatedPositionGuardCandidateState st es = Inr t \<Longrightarrow> routing_wf st \<Longrightarrow>
   routing_wf t \<and> rs_stateVersion t = rs_stateVersion st + int (length (filter filled es))"
proof (induction es arbitrary: st)
  case (Cons e es)
  then obtain s where "advanceValidatedPositionGuardCandidateState st e = Inr s" "efold advanceValidatedPositionGuardCandidateState s es = Inr t"
    by (auto simp: res_simps)
  with Cons.IH [of s] advance_step [of st e s] Cons.prems(2) show ?case by auto
qed simp

subsection \<open>The order of the evidence\<close>

interpretation routing: comparison routingChronology
  by unfold_locales (auto simp: routingChronology_def)

definition readItem :: "PositionGuardCandidateExecutionEvidence \<Rightarrow> (NormalizedEvidence \<times> int) res" where
  "readItem item =
     ebind (normalizeExecutionEvidence item) (\<lambda>snapshot.
     ebind (validateExecutionEvidence snapshot) (\<lambda>_.
     ebind (parsePositionGuardCandidateTimestamp (ne_executedAt snapshot) ''evidence executedAt'') (\<lambda>epochNanoseconds.
     Inr (snapshot, epochNanoseconds))))"

lemma normalized_id: "normalizeExecutionEvidence item = Inr n \<Longrightarrow> ne_evidenceId n = ce_evidenceId item"
  by (auto simp: normalizeExecutionEvidence_def res_simps)

lemma readItem_id: "readItem item = Inr p \<Longrightarrow> ne_evidenceId (fst p) = ce_evidenceId item"
  by (auto simp: readItem_def res_simps dest: normalized_id)

lemma readEvidence_Inr:
  "readEvidence ids es = Inr ps \<longleftrightarrow> emapM readItem es = Inr ps \<and> distinct (map ce_evidenceId es) \<and> set (map ce_evidenceId es) \<inter> set ids = {}"
proof (induction es arbitrary: ids ps)
  case (Cons e es)
  show ?case
    by (cases "normalizeExecutionEvidence e") (auto simp: Cons.IH readItem_def [of e] ebind_eq_Inr res_simps normalized_id)
qed auto

lemma readEvidence_perm:
  assumes "readEvidence ids es = Inr ps" "mset es = mset es'"
  shows "\<exists>ps'. readEvidence ids es' = Inr ps' \<and> sort_by routingChronology ps' = sort_by routingChronology ps"
proof -
  let ?g = "projr \<circ> readItem"
  have sets: "set es = set es'" using assms(2) by (metis set_mset_mset)
  have dist: "distinct (map ce_evidenceId es')" using assms
    unfolding readEvidence_Inr by (metis mset_map mset_eq_imp_distinct_iff)
  from assms(1) have read: "emapM readItem es = Inr ps" by (simp add: readEvidence_Inr)
  then have total: "\<forall>x\<in>set es. \<exists>y. readItem x = Inr y" by (rule emapM_Inr_total)
  with read have ps: "ps = map ?g es" using emapM_total [of es readItem] by simp
  have read': "emapM readItem es' = Inr (map ?g es')" using total sets emapM_total [of es' readItem] by simp
  have ids: "ne_evidenceId (fst (?g x)) = ce_evidenceId x" if "x \<in> set es" for x
    using total that readItem_id by fastforce
  have "sort_by routingChronology (map ?g es) = sort_by routingChronology (map ?g es')"
  proof (rule routing.sort_perm)
    show "mset (map ?g es) = mset (map ?g es')" using assms(2) by (simp add: mset_map)
    fix a b assume "a \<in> set (map ?g es)" "b \<in> set (map ?g es)" and le: "routingChronology a b" "routingChronology b a"
    then obtain x y where xy: "x \<in> set es" "a = ?g x" "y \<in> set es" "b = ?g y" by auto
    from le have "ne_evidenceId (fst a) = ne_evidenceId (fst b)" by (auto simp: routingChronology_def)
    then have "ce_evidenceId x = ce_evidenceId y" using ids xy by simp
    moreover have "distinct (map ce_evidenceId es)" using assms(1) by (simp add: readEvidence_Inr)
    ultimately show "a = b" using xy by (metis distinct_map inj_on_def)
  qed
  moreover have "readEvidence ids es' = Inr (map ?g es')"
    using assms(1) read' dist sets by (simp add: readEvidence_Inr)
  ultimately show ?thesis using ps by auto
qed

subsection \<open>Properties\<close>

text \<open>
  A projected routing state is well typed: its amounts are finite and in range, it is flat with nothing left of its
  episode or open with cost and entry path, its exit data and its cursor are complete or absent, and its version is that of
  the initial state plus the number of pieces of evidence with a fill.
\<close>
theorem routing_projection_well_formed:
  assumes "projectPositionGuardCandidateState initial es = Inr st"
  shows "routing_wf st \<and> (\<exists>ns. emapM normalizeExecutionEvidence es = Inr ns \<and>
    rs_stateVersion st = rs_stateVersion initial + int (length (filter filled ns)))"
proof -
  obtain ps where ps: "routing_wf initial" "emapM readItem es = Inr ps"
      "efold advanceValidatedPositionGuardCandidateState initial (map fst (sort_by routingChronology ps)) = Inr st"
    using assms by (auto simp: projectPositionGuardCandidateState_def res_simps validated_iff readEvidence_Inr)
  have "emapM normalizeExecutionEvidence es = Inr (map fst ps)"
    using ps(2) by (induction es arbitrary: ps) (auto simp: res_simps readItem_def)
  moreover have "length (filter filled (map fst (sort_by routingChronology ps))) = length (filter filled (map fst ps))"
    by (metis mset_filter mset_map mset_sort_by size_mset)
  ultimately show ?thesis using advance_fold [OF ps(3,1)] by auto
qed

lemma routing_projection_perm:
  assumes "projectPositionGuardCandidateState initial es = Inr st" and "mset es = mset es'"
  shows "projectPositionGuardCandidateState initial es' = Inr st"
proof -
  let ?ids = "case rs_lastEvidenceId initial of None \<Rightarrow> [] | Some i \<Rightarrow> [i]"
  from assms(1) obtain ps where ps: "validateStateSnapshot initial = Inr ()" "readEvidence ?ids es = Inr ps"
      "efold advanceValidatedPositionGuardCandidateState initial (map fst (sort_by routingChronology ps)) = Inr st"
    unfolding projectPositionGuardCandidateState_def ebind_eq_Inr by auto
  from readEvidence_perm [OF ps(2) assms(2)] ps(1,3) show ?thesis
    by (auto simp: projectPositionGuardCandidateState_def)
qed

text \<open>
  C18. The projection of the routing state does not depend on the order in which the evidence is listed: two listings of
  the same pieces give the same state, and if one is refused so is the other.
\<close>

theorem routing_projection_order_independent:
  assumes "mset es = mset es'"
  shows "projectPositionGuardCandidateState initial es = Inr st \<longleftrightarrow> projectPositionGuardCandidateState initial es' = Inr st"
  using routing_projection_perm [OF _ assms] routing_projection_perm [OF _ assms [symmetric]] by blast

text \<open>
  The state the policy router reads off the exact ledger is well typed, and shows the ledger's add count, entry path,
  cursor, last exit and version.
\<close>
theorem routing_state_of_ledger:
  assumes "toPositionGuardCandidateRoutingState exact = Inr st"
  shows "routing_wf st \<and> rs_stateVersion st = xs_stateVersion exact \<and> rs_currentEpisodeAddCount st = xs_currentEpisodeAddCount exact \<and>
    rs_lastEntryPath st = xs_lastEntryPath exact \<and> rs_lastEvidenceId st = xs_lastEvidenceId exact \<and>
    rs_lastEvidenceAt st = xs_lastEvidenceAt exact \<and> rs_lastFullExitAt st = xs_lastFullExitAt exact"
  using assms by (auto simp: toPositionGuardCandidateRoutingState_def validatePositionGuardCandidateState_def res_simps validated_iff Let_def)

subsection \<open>Witnesses\<close>

definition routingClosed :: PositionGuardCandidateState where
  "routingClosed = createEmptyPositionGuardCandidateState\<lparr>rs_lastFullExitAt := Some ''2026-08-21T02:00:00Z'',
     rs_lastFullExitRealizedPnlKrw := Some (Num 3), rs_lastEntryPath := Some PULLBACK,
     rs_lastEvidenceAt := Some ''2026-08-21T02:00:00Z'', rs_lastEvidenceId := Some ''e3'', rs_stateVersion := 2\<rparr>"

lemma sample_routing_run:
  "projectPositionGuardCandidateState createEmptyPositionGuardCandidateState [sampleExit, sampleEnter] = Inr routingClosed"
  by code_simp

lemma sample_routing_of_ledger: "toPositionGuardCandidateRoutingState sampleClosed = Inr routingClosed"
  by code_simp

theorem routing_projection_well_formed_witness:
  "routing_wf routingClosed"
  using routing_projection_well_formed [OF sample_routing_run] by simp

theorem routing_projection_order_independent_witness:
  "projectPositionGuardCandidateState createEmptyPositionGuardCandidateState [sampleEnter, sampleExit] = Inr routingClosed"
  using routing_projection_order_independent [of "[sampleEnter, sampleExit]" "[sampleExit, sampleEnter]"] sample_routing_run by simp

theorem routing_state_of_ledger_witness:
  "toPositionGuardCandidateRoutingState sampleClosed = Inr routingClosed \<and> rs_stateVersion routingClosed = xs_stateVersion sampleClosed"
  using routing_state_of_ledger [OF sample_routing_of_ledger] sample_routing_of_ledger by simp

end
