(* ===== verification/PilotRepository.thy ===== *)
theory PilotRepository
  imports CandidateBinding RoutingState ExecutionService
begin

section \<open>The candidate pilot repository\<close>

text \<open>
  \<open>src/src/modules/db/repositories/in-memory-candidate-pilot-repository.ts\<close> with the validators of
  \<open>src/src/modules/db/pilot-interfaces.ts\<close> it calls: deployments and their phases, the exact state of each, its
  evidence, its audit events, the bindings of orders, rollbacks under the operator's authority, and the pause after a
  fault. The maps are in insertion order where the code iterates over their values. The operator state store is the
  optional dependency of the constructor. That a value has exactly the expected own properties, and that a field of an
  enumerated type holds one of its values, is typing; for the text of a fault's provenance it is checked. SHA-256 is the
  parameter \<open>sha256\<close>, the collation of \<open>localeCompare\<close> is \<open>lc\<close>.
\<close>

datatype PositionGuardPilotAuditEventType =
  DEPLOYMENT_CREATED | STATE_ADVANCED | PHASE_TRANSITION | FAULT_PAUSED | ROLLBACK_STARTED | ROLLBACK_COMPLETED

record PositionGuardPilotAuditEventRecord =
  au_id :: string
  au_deploymentId :: string
  au_eventType :: PositionGuardPilotAuditEventType
  au_fromPhase :: "PositionGuardPilotPhase option"
  au_toPhase :: "PositionGuardPilotPhase option"
  au_stateVersion :: int
  au_payloadJson :: string
  au_createdAt :: string

record StoredEvidence =
  sv_evidence :: PositionGuardCandidateExecutionEvidence
  sv_materialHash :: string
  sv_materialVersion :: string
  sv_epochNanoseconds :: int

record pilot_store = candidate_store +
  pt_deploymentIds :: "string list"
  pt_evidence :: "string \<rightharpoonup> StoredEvidence list"
  pt_auditEvents :: "string \<rightharpoonup> PositionGuardPilotAuditEventRecord list"

record pilot_world =
  pw_pilots :: pilot_store
  pw_operator :: "operator_store option"

type_synonym 'a pm = "(pilot_world, js_error, 'a) sm"

definition emptyPilots :: pilot_store where
  "emptyPilots = \<lparr>cs_deployments = Map.empty, cs_exactStates = Map.empty, cs_bindings = [], pt_deploymentIds = [],
     pt_evidence = Map.empty, pt_auditEvents = Map.empty\<rparr>"

definition onPilots :: "(pilot_store, js_error, 'a) sm \<Rightarrow> 'a pm" where
  "onPilots m w = (case m (pw_pilots w) of (x, p) \<Rightarrow> (x, w\<lparr>pw_pilots := p\<rparr>))"

text \<open>The values of the deployments, \<open>Map.set\<close> on them, and the lists that default to empty.\<close>

definition deploymentValues :: "pilot_store \<Rightarrow> PositionGuardPilotDeploymentRecord list" where
  "deploymentValues p = List.map_filter (cs_deployments p) (pt_deploymentIds p)"

definition setDeployment :: "PositionGuardPilotDeploymentRecord \<Rightarrow> pilot_store \<Rightarrow> pilot_store" where
  "setDeployment d p = p\<lparr>cs_deployments := (cs_deployments p)(dp_id d \<mapsto> d),
     pt_deploymentIds := (if cs_deployments p (dp_id d) = None then pt_deploymentIds p @ [dp_id d] else pt_deploymentIds p)\<rparr>"

definition evidenceOfDeployment :: "string \<Rightarrow> pilot_store \<Rightarrow> StoredEvidence list" where
  "evidenceOfDeployment ident p = (case pt_evidence p ident of None \<Rightarrow> [] | Some es \<Rightarrow> es)"

definition auditEventsOf :: "string \<Rightarrow> pilot_store \<Rightarrow> PositionGuardPilotAuditEventRecord list" where
  "auditEventsOf ident p = (case pt_auditEvents p ident of None \<Rightarrow> [] | Some es \<Rightarrow> es)"

definition appendAudit :: "string \<Rightarrow> PositionGuardPilotAuditEventRecord \<Rightarrow> pilot_store \<Rightarrow> pilot_store" where
  "appendAudit ident event p = p\<lparr>pt_auditEvents := (pt_auditEvents p)(ident \<mapsto> auditEventsOf ident p @ [event])\<rparr>"

subsection \<open>Creating a deployment\<close>

record CreateCandidatePilotDeploymentInput =
  cd_deployment :: PositionGuardPilotDeploymentRecord
  cd_initialState :: PositionGuardCandidateState

definition isPristineInitialState :: "PositionGuardCandidateState \<Rightarrow> bool" where
  "isPristineInitialState state \<longleftrightarrow> rs_currentEpisodeAddCount state = 0 \<and> rs_currentEpisodeCostBasisKrw state = Num 0 \<and>
     rs_currentEpisodeInventoryQuantity state = Num 0 \<and> rs_currentEpisodeRealizedPnlKrw state = Num 0 \<and>
     rs_lastFullExitAt state = None \<and> rs_lastFullExitRealizedPnlKrw state = None \<and> rs_lastEntryPath state = None \<and>
     rs_lastEvidenceAt state = None \<and> rs_lastEvidenceId state = None \<and> rs_stateVersion state = 0"

definition validateInitialDeployment :: "CreateCandidatePilotDeploymentInput \<Rightarrow> PositionGuardPilotDeploymentRecord res" where
  "validateInitialDeployment input =
     ebind (validateCandidatePilotDeployment (cd_deployment input)) (\<lambda>deployment.
     ebind (validatePositionGuardCandidateState (cd_initialState input)) (\<lambda>_.
     ebind (throw_if (\<not> isPristineInitialState (cd_initialState input))
       (Error ''Candidate pilot deployment initial state must be pristine.'')) (\<lambda>_.
     Inr deployment)))"

definition createdAuditEvent :: "PositionGuardPilotDeploymentRecord \<Rightarrow> PositionGuardPilotAuditEventRecord" where
  "createdAuditEvent deployment =
     \<lparr>au_id = dp_id deployment @ '':created'', au_deploymentId = dp_id deployment, au_eventType = DEPLOYMENT_CREATED,
      au_fromPhase = None, au_toPhase = Some (dp_phase deployment), au_stateVersion = 0,
      au_payloadJson = stringify (JObject [(''pilotId'', JString (dp_pilotId deployment)),
        (''market'', JString (marketStr (dp_market deployment))), (''policyId'', JString (dp_policyId deployment)),
        (''policyVersion'', JString (dp_policyVersion deployment))]),
      au_createdAt = dp_createdAt deployment\<rparr>"

definition insertDeploymentWithInitialState :: "PositionGuardPilotDeploymentRecord \<Rightarrow> pilot_store \<Rightarrow> pilot_store" where
  "insertDeploymentWithInitialState deployment p = (setDeployment deployment p)
     \<lparr>cs_exactStates := (cs_exactStates p)(dp_id deployment \<mapsto> createExactEmptyCandidateState),
      pt_evidence := (pt_evidence p)(dp_id deployment \<mapsto> []),
      pt_auditEvents := (pt_auditEvents p)(dp_id deployment \<mapsto> [createdAuditEvent deployment])\<rparr>"

definition samePilot :: "PositionGuardPilotDeploymentRecord \<Rightarrow> PositionGuardPilotDeploymentRecord \<Rightarrow> bool" where
  "samePilot candidate deployment \<longleftrightarrow> dp_exchangeAccountId candidate = dp_exchangeAccountId deployment \<and>
     dp_pilotId candidate = dp_pilotId deployment"

definition createDeploymentWithInitialState ::
  "CreateCandidatePilotDeploymentInput \<Rightarrow> (pilot_store, js_error, PositionGuardPilotDeploymentRecord) sm" where
  "createDeploymentWithInitialState input =
     sbind (slift (validateInitialDeployment input)) (\<lambda>deployment.
     sbind (sget (\<lambda>p. cs_deployments p (dp_id deployment))) (\<lambda>existing.
     sbind (sguard (existing \<noteq> None) (Error (''Candidate pilot deployment '' @ dp_id deployment @ '' already exists.''))) (\<lambda>_.
     sbind (sget deploymentValues) (\<lambda>deployments.
     sbind (sguard (list_ex (\<lambda>candidate. samePilot candidate deployment) deployments)
       (Error (''Candidate pilot deployment already exists for account '' @ dp_exchangeAccountId deployment @ ''.''))) (\<lambda>_.
     sbind (smodify (insertDeploymentWithInitialState deployment)) (\<lambda>_.
     sreturn deployment))))))"

subsection \<open>Reading\<close>

text \<open>The comparison of evidence: by time, then by the bytes of the id.\<close>

definition storedBefore :: "StoredEvidence \<Rightarrow> StoredEvidence \<Rightarrow> bool" where
  "storedBefore left right \<longleftrightarrow> sv_epochNanoseconds left < sv_epochNanoseconds right \<or>
     (sv_epochNanoseconds left = sv_epochNanoseconds right \<and>
      ce_evidenceId (sv_evidence left) \<le> ce_evidenceId (sv_evidence right))"

definition orderedEvidence :: "StoredEvidence list \<Rightarrow> StoredEvidence list" where
  "orderedEvidence records = sort_by storedBefore records"

text \<open>
  The audit events of a deployment by time, then by id. A time that cannot be read makes the comparison throw, which it
  does when there is something to compare.
\<close>

definition auditBefore ::
  "collator \<Rightarrow> PositionGuardPilotAuditEventRecord \<times> int \<Rightarrow> PositionGuardPilotAuditEventRecord \<times> int \<Rightarrow> bool" where
  "auditBefore lc left right \<longleftrightarrow> snd left < snd right \<or>
     (snd left = snd right \<and> lc (au_id (fst left)) (au_id (fst right)) \<le> 0)"

definition sortedAuditEvents :: "collator \<Rightarrow> PositionGuardPilotAuditEventRecord list \<Rightarrow> PositionGuardPilotAuditEventRecord list res" where
  "sortedAuditEvents lc events =
     (if length events \<le> 1 then Inr events
      else ebind (emapM (\<lambda>event. ebind (parsePositionGuardCandidateTimestamp (au_createdAt event) ''audit createdAt'')
             (\<lambda>epoch. Inr (event, epoch))) events) (\<lambda>timed.
           Inr (map fst (sort_by (auditBefore lc) timed))))"

definition listAuditEvents :: "collator \<Rightarrow> string \<Rightarrow> pilot_store \<Rightarrow> PositionGuardPilotAuditEventRecord list res" where
  "listAuditEvents lc deploymentId p = sortedAuditEvents lc (auditEventsOf deploymentId p)"

definition getDeployment :: "string \<Rightarrow> pilot_store \<Rightarrow> PositionGuardPilotDeploymentRecord option" where
  "getDeployment deploymentId p = cs_deployments p deploymentId"

definition deploymentBefore :: "collator \<Rightarrow> PositionGuardPilotDeploymentRecord \<Rightarrow> PositionGuardPilotDeploymentRecord \<Rightarrow> bool" where
  "deploymentBefore lc left right \<longleftrightarrow>
     orCompare (lc (dp_createdAt left) (dp_createdAt right)) (lc (dp_id left) (dp_id right)) \<le> 0"

definition getDeploymentForExchangeAccount :: "collator \<Rightarrow> string \<Rightarrow> pilot_store \<Rightarrow> PositionGuardPilotDeploymentRecord option" where
  "getDeploymentForExchangeAccount lc exchangeAccountId p = first (sort_by (deploymentBefore lc)
     (filter (\<lambda>candidate. dp_exchangeAccountId candidate = exchangeAccountId) (deploymentValues p)))"

record CandidatePilotRecoveryIdentity =
  ri2_exchangeAccountId :: string
  ri2_pilotId :: string
  ri2_market :: SupportedMarket
  ri2_policyId :: string
  ri2_policyVersion :: string

definition findDeploymentsForRecoveryIdentity ::
  "collator \<Rightarrow> CandidatePilotRecoveryIdentity \<Rightarrow> pilot_store \<Rightarrow> PositionGuardPilotDeploymentRecord list res" where
  "findDeploymentsForRecoveryIdentity lc ident p = emapM validateCandidatePilotDeployment (take 2 (sort_by (deploymentBefore lc)
     (filter (\<lambda>candidate. dp_exchangeAccountId candidate = ri2_exchangeAccountId ident \<and> dp_pilotId candidate = ri2_pilotId ident \<and>
        dp_market candidate = ri2_market ident \<and> dp_policyId candidate = ri2_policyId ident \<and>
        dp_policyVersion candidate = ri2_policyVersion ident) (deploymentValues p))))"

definition getRoutingState :: "string \<Rightarrow> pilot_store \<Rightarrow> PositionGuardCandidateState option res" where
  "getRoutingState deploymentId p = (case cs_exactStates p deploymentId of None \<Rightarrow> Inr None
     | Some state \<Rightarrow> ebind (toPositionGuardCandidateRoutingState state) (\<lambda>r. Inr (Some r)))"

definition getExactState :: "string \<Rightarrow> pilot_store \<Rightarrow> ExactCandidateState option" where
  "getExactState deploymentId p = cs_exactStates p deploymentId"

definition listEvidenceAfter :: "string \<Rightarrow> string option \<Rightarrow> pilot_store \<Rightarrow> PositionGuardCandidateExecutionEvidence list res" where
  "listEvidenceAfter deploymentId afterEvidenceId p =
     (let records = orderedEvidence (evidenceOfDeployment deploymentId p) in
      case afterEvidenceId of
        None \<Rightarrow> Inr (map sv_evidence records)
      | Some ident \<Rightarrow>
          (case dropWhile (\<lambda>item. ce_evidenceId (sv_evidence item) \<noteq> ident) records of
             [] \<Rightarrow> Inl (Error (''Candidate evidence cursor '' @ ident @ '' does not exist.''))
           | _ # rest \<Rightarrow> Inr (map sv_evidence rest)))"

definition listEvidenceRecords :: "string \<Rightarrow> pilot_store \<Rightarrow> StoredEvidence list" where
  "listEvidenceRecords deploymentId p = orderedEvidence (evidenceOfDeployment deploymentId p)"

definition getEvidenceRecord :: "string \<Rightarrow> string \<Rightarrow> pilot_store \<Rightarrow> StoredEvidence option" where
  "getEvidenceRecord deploymentId evidenceId p =
     find (\<lambda>item. ce_evidenceId (sv_evidence item) = evidenceId) (evidenceOfDeployment deploymentId p)"

subsection \<open>Initializing a deployment\<close>

datatype InitializationOutcome = INIT_CREATED | INIT_EXISTING

record CandidatePilotDeploymentInitializationResult =
  ia_outcome :: InitializationOutcome
  ia_deployment :: PositionGuardPilotDeploymentRecord
  ia_exactState :: ExactCandidateState
  ia_evidenceRecords :: "StoredEvidence list"
  ia_auditEvents :: "PositionGuardPilotAuditEventRecord list"

definition sameBootstrapIdentity :: "PositionGuardPilotDeploymentRecord \<Rightarrow> PositionGuardPilotDeploymentRecord \<Rightarrow> bool" where
  "sameBootstrapIdentity left right \<longleftrightarrow> dp_exchangeAccountId left = dp_exchangeAccountId right \<and> dp_pilotId left = dp_pilotId right \<and>
     dp_market left = dp_market right \<and> dp_policyId left = dp_policyId right \<and> dp_policyVersion left = dp_policyVersion right"

definition bootstrapAuthority ::
  "collator \<Rightarrow> InitializationOutcome \<Rightarrow> PositionGuardPilotDeploymentRecord \<Rightarrow> pilot_store \<Rightarrow> CandidatePilotDeploymentInitializationResult res" where
  "bootstrapAuthority lc outcome deployment p = (case cs_exactStates p (dp_id deployment) of
     None \<Rightarrow> Inl (Error (''Candidate pilot deployment '' @ dp_id deployment @ '' is missing exact state authority.''))
   | Some exactState \<Rightarrow>
       ebind (listAuditEvents lc (dp_id deployment) p) (\<lambda>auditEvents.
       Inr \<lparr>ia_outcome = outcome, ia_deployment = deployment, ia_exactState = exactState,
         ia_evidenceRecords = listEvidenceRecords (dp_id deployment) p, ia_auditEvents = auditEvents\<rparr>))"

definition initializeDeploymentWithInitialState ::
  "collator \<Rightarrow> CreateCandidatePilotDeploymentInput \<Rightarrow> (pilot_store, js_error, CandidatePilotDeploymentInitializationResult) sm" where
  "initializeDeploymentWithInitialState lc input =
     sbind (slift (validateInitialDeployment input)) (\<lambda>deployment.
     sbind (sguard (dp_phase deployment \<noteq> PENDING_FLAT \<or> dp_activationAt deployment \<noteq> None \<or> dp_activationEpochNs deployment \<noteq> None)
       (Error ''Candidate pilot deployment initialization requires PENDING_FLAT without activation authority.'')) (\<lambda>_.
     sbind (sget (\<lambda>p. cs_deployments p (dp_id deployment))) (\<lambda>existingById.
     sbind (sguard (case existingById of None \<Rightarrow> False | Some e \<Rightarrow> \<not> sameBootstrapIdentity e deployment)
       (Error (''Candidate pilot deployment '' @ dp_id deployment @ '' identity collision.''))) (\<lambda>_.
     sbind (sget deploymentValues) (\<lambda>deployments.
     case (case existingById of Some e \<Rightarrow> Some e | None \<Rightarrow> find (\<lambda>candidate. samePilot candidate deployment) deployments) of
       Some existing \<Rightarrow> sbind (sget id) (\<lambda>p. slift (bootstrapAuthority lc INIT_EXISTING existing p))
     | None \<Rightarrow>
         sbind (smodify (insertDeploymentWithInitialState deployment)) (\<lambda>_.
         sbind (sget id) (\<lambda>p.
         case cs_deployments p (dp_id deployment) of
           None \<Rightarrow> sthrow (Error (''Candidate pilot deployment '' @ dp_id deployment @ '' was not persisted.''))
         | Some created \<Rightarrow> slift (bootstrapAuthority lc INIT_CREATED created p))))))))"

subsection \<open>Activation\<close>

record ActivateCandidatePilotDeploymentInput =
  ad_deploymentId :: string
  ad_expectedPhase :: PositionGuardPilotPhase
  ad_expectedUpdatedAt :: string
  ad_activationAt :: string
  ad_activationEpochNs :: int

definition validateActivationInput ::
  "ActivateCandidatePilotDeploymentInput \<Rightarrow> PositionGuardPilotDeploymentRecord \<Rightarrow> unit res" where
  "validateActivationInput input deployment =
     ebind (parsePositionGuardCandidateTimestamp (ad_activationAt input) ''deployment activationAt'') (\<lambda>activation.
     ebind (throw_if (activation < 0 \<or> activation \<noteq> ad_activationEpochNs input)
       (Error ''Candidate deployment activation epoch does not match its timestamp.'')) (\<lambda>_.
     ebind (parsePositionGuardCandidateTimestamp (dp_createdAt deployment) ''deployment createdAt'') (\<lambda>createdAt.
     if activation < createdAt
     then Inl (Error ''Candidate deployment activation cannot precede persisted deployment chronology.'')
     else ebind (parsePositionGuardCandidateTimestamp (dp_updatedAt deployment) ''deployment updatedAt'') (\<lambda>updatedAt.
       throw_if (activation < updatedAt)
         (Error ''Candidate deployment activation cannot precede persisted deployment chronology.'')))))"

definition activatedDeployment ::
  "ActivateCandidatePilotDeploymentInput \<Rightarrow> PositionGuardPilotDeploymentRecord \<Rightarrow> PositionGuardPilotDeploymentRecord" where
  "activatedDeployment input deployment = deployment\<lparr>dp_phase := ACTIVE, dp_activationAt := Some (ad_activationAt input),
     dp_activationEpochNs := Some (ad_activationEpochNs input), dp_updatedAt := ad_activationAt input\<rparr>"

definition activationAuditEvent ::
  "ActivateCandidatePilotDeploymentInput \<Rightarrow> PositionGuardPilotDeploymentRecord \<Rightarrow> int \<Rightarrow> PositionGuardPilotAuditEventRecord" where
  "activationAuditEvent input deployment stateVersion =
     \<lparr>au_id = dp_id deployment @ '':activation:'' @ bigintToString (ad_activationEpochNs input),
      au_deploymentId = dp_id deployment, au_eventType = PHASE_TRANSITION, au_fromPhase = Some (dp_phase deployment),
      au_toPhase = Some ACTIVE, au_stateVersion = stateVersion,
      au_payloadJson = stringify (JObject [(''activationAt'', JString (ad_activationAt input)),
        (''activationEpochNs'', JString (bigintToString (ad_activationEpochNs input)))]),
      au_createdAt = ad_activationAt input\<rparr>"

definition activateDeployment ::
  "ActivateCandidatePilotDeploymentInput \<Rightarrow> (pilot_store, js_error, PositionGuardPilotDeploymentRecord option) sm" where
  "activateDeployment input =
     sbind (sget (\<lambda>p. cs_deployments p (ad_deploymentId input))) (\<lambda>found.
     case found of None \<Rightarrow> sreturn None | Some deployment \<Rightarrow>
     if dp_phase deployment \<noteq> ad_expectedPhase input \<or> dp_updatedAt deployment \<noteq> ad_expectedUpdatedAt input \<or>
        dp_activationAt deployment \<noteq> None \<or> dp_activationEpochNs deployment \<noteq> None
     then sreturn None
     else sbind (slift (validateActivationInput input deployment)) (\<lambda>_.
          sbind (smodify (setDeployment (activatedDeployment input deployment))) (\<lambda>_.
          sbind (sget (\<lambda>p. case cs_exactStates p (dp_id deployment) of None \<Rightarrow> 0 | Some st \<Rightarrow> xs_stateVersion st)) (\<lambda>stateVersion.
          sbind (smodify (appendAudit (dp_id deployment) (activationAuditEvent input deployment stateVersion))) (\<lambda>_.
          sreturn (Some (activatedDeployment input deployment)))))))"

subsection \<open>Rollback\<close>

record CandidatePilotRollbackInput =
  rb_deploymentId :: string
  rb_expectedPhase :: PositionGuardPilotPhase
  rb_expectedUpdatedAt :: string
  rb_expectedStateVersion :: int
  rb_expectedOperatorState :: CandidatePilotRollbackOperatorState
  rb_transitionAt :: string
  rb_transitionEpochNs :: int

definition validateCandidatePilotRollbackInput :: "CandidatePilotRollbackInput \<Rightarrow> CandidatePilotRollbackInput res" where
  "validateCandidatePilotRollbackInput input =
     ebind (requireNonEmpty (rb_deploymentId input) ''candidate pilot rollback deploymentId'') (\<lambda>_.
     ebind (parsePositionGuardCandidateTimestamp (rb_expectedUpdatedAt input) ''candidate pilot rollback expectedUpdatedAt'') (\<lambda>_.
     ebind (throw_if (\<not> isSafeInteger (rb_expectedStateVersion input) \<or> rb_expectedStateVersion input < 0)
       (Error ''Candidate pilot rollback expected state version must be a non-negative safe integer.'')) (\<lambda>_.
     ebind (validateCandidatePilotRollbackOperatorState (rb_expectedOperatorState input)) (\<lambda>expectedOperatorState.
     ebind (parsePositionGuardCandidateTimestamp (rb_transitionAt input) ''candidate pilot rollback transitionAt'') (\<lambda>transitionEpochNs.
     ebind (throw_if (transitionEpochNs < 0 \<or> transitionEpochNs \<noteq> rb_transitionEpochNs input)
       (Error ''Candidate pilot rollback transition epoch does not match its timestamp.'')) (\<lambda>_.
     Inr (input\<lparr>rb_expectedOperatorState := expectedOperatorState\<rparr>)))))))"

definition validateCandidatePilotRollbackChronology ::
  "int \<Rightarrow> PositionGuardPilotDeploymentRecord \<Rightarrow> ExactCandidateState \<Rightarrow> unit res" where
  "validateCandidatePilotRollbackChronology transitionEpochNs deployment state =
     ebind (parsePositionGuardCandidateTimestamp (dp_createdAt deployment) ''candidate deployment createdAt'') (\<lambda>deploymentCreatedAt.
     ebind (parsePositionGuardCandidateTimestamp (dp_updatedAt deployment) ''candidate deployment updatedAt'') (\<lambda>deploymentUpdatedAt.
     ebind (throw_if (dp_phase deployment = DRAINING \<and> transitionEpochNs \<le> deploymentUpdatedAt)
       (Error ''Candidate pilot rollback completion from DRAINING must occur strictly after the prior transition.'')) (\<lambda>_.
     ebind (throw_if (transitionEpochNs < deploymentCreatedAt \<or> transitionEpochNs < deploymentUpdatedAt)
       (Error ''Candidate pilot rollback cannot precede persisted deployment chronology.'')) (\<lambda>_.
     case xs_lastEvidenceAt state of None \<Rightarrow> Inr ()
     | Some evidenceAt \<Rightarrow>
         ebind (parsePositionGuardCandidateTimestamp evidenceAt ''candidate state lastEvidenceAt'') (\<lambda>evidenceEpoch.
         throw_if (transitionEpochNs < evidenceEpoch)
           (Error ''Candidate pilot rollback cannot precede persisted candidate evidence chronology.''))))))"

definition isExactCandidateStateRollbackFlat :: "ExactCandidateState \<Rightarrow> bool" where
  "isExactCandidateStateRollbackFlat state \<longleftrightarrow> xs_currentEpisodeAddCount state = 0 \<and> xs_currentEpisodeCostBasisKrw state = ''0'' \<and>
     xs_currentEpisodeInventoryQuantity state = ''0'' \<and> xs_currentEpisodeRealizedPnlKrw state = ''0''"

definition rollbackTag :: "PositionGuardPilotAuditEventType \<Rightarrow> string" where
  "rollbackTag eventType = (if eventType = ROLLBACK_STARTED then ''rollback_started'' else ''rollback_completed'')"

definition buildCandidatePilotRollbackAuditEvent ::
  "CandidatePilotRollbackInput \<Rightarrow> PositionGuardPilotAuditEventType \<Rightarrow> PositionGuardPilotPhase \<Rightarrow> PositionGuardPilotPhase \<Rightarrow> int \<Rightarrow>
   PositionGuardPilotAuditEventRecord" where
  "buildCandidatePilotRollbackAuditEvent rollback eventType fromPhase toPhase stateVersion =
     \<lparr>au_id = rb_deploymentId rollback @ '':'' @ rollbackTag eventType @ '':'' @ bigintToString (rb_transitionEpochNs rollback),
      au_deploymentId = rb_deploymentId rollback, au_eventType = eventType, au_fromPhase = Some fromPhase, au_toPhase = Some toPhase,
      au_stateVersion = stateVersion,
      au_payloadJson = stringify (JObject [(''transitionAt'', JString (rb_transitionAt rollback))]),
      au_createdAt = rb_transitionAt rollback\<rparr>"

definition isRollbackCompletablePhase :: "PositionGuardPilotPhase \<Rightarrow> bool" where
  "isRollbackCompletablePhase phase \<longleftrightarrow> phase = PENDING_FLAT \<or> phase = ACTIVE \<or> phase = DRAINING"

text \<open>The end of both rollback operations: deployment and audit event are written, then the deployment is validated.\<close>

definition writeRollback ::
  "CandidatePilotRollbackInput \<Rightarrow> PositionGuardPilotAuditEventType \<Rightarrow> PositionGuardPilotPhase \<Rightarrow> PositionGuardPilotDeploymentRecord \<Rightarrow>
   ExactCandidateState \<Rightarrow> (pilot_store, js_error, PositionGuardPilotDeploymentRecord option) sm" where
  "writeRollback rollback eventType phase deployment state =
     (let nextDeployment = deployment\<lparr>dp_phase := phase, dp_updatedAt := rb_transitionAt rollback\<rparr>;
          audit = buildCandidatePilotRollbackAuditEvent rollback eventType (dp_phase deployment) phase (xs_stateVersion state)
      in sbind (smodify (setDeployment nextDeployment)) (\<lambda>_.
         sbind (smodify (appendAudit (dp_id nextDeployment) audit)) (\<lambda>_.
         sbind (slift (validateCandidatePilotDeployment nextDeployment)) (\<lambda>validated.
         sreturn (Some validated)))))"

definition startRollbackUnderAuthority ::
  "CandidatePilotRollbackInput \<Rightarrow> (pilot_store, js_error, PositionGuardPilotDeploymentRecord option) sm" where
  "startRollbackUnderAuthority rollback =
     sbind (sget (\<lambda>p. (cs_deployments p (rb_deploymentId rollback), cs_exactStates p (rb_deploymentId rollback)))) (\<lambda>found.
     case found of
       (Some deployment, Some state) \<Rightarrow>
         if rb_expectedPhase rollback \<noteq> ACTIVE \<or> dp_phase deployment \<noteq> ACTIVE \<or>
            dp_exchangeAccountId deployment \<noteq> ro2_exchangeAccountId (rb_expectedOperatorState rollback) \<or>
            dp_updatedAt deployment \<noteq> rb_expectedUpdatedAt rollback \<or> xs_stateVersion state \<noteq> rb_expectedStateVersion rollback
         then sreturn None
         else sbind (slift (validateCandidatePilotRollbackChronology (rb_transitionEpochNs rollback) deployment state)) (\<lambda>_.
              writeRollback rollback ROLLBACK_STARTED DRAINING deployment state)
     | _ \<Rightarrow> sreturn None)"

definition completeRollbackUnderAuthority ::
  "CandidatePilotRollbackInput \<Rightarrow> (pilot_store, js_error, PositionGuardPilotDeploymentRecord option) sm" where
  "completeRollbackUnderAuthority rollback =
     sbind (sget (\<lambda>p. (cs_deployments p (rb_deploymentId rollback), cs_exactStates p (rb_deploymentId rollback)))) (\<lambda>found.
     case found of
       (Some deployment, Some state) \<Rightarrow>
         if \<not> isRollbackCompletablePhase (rb_expectedPhase rollback) \<or>
            dp_exchangeAccountId deployment \<noteq> ro2_exchangeAccountId (rb_expectedOperatorState rollback) \<or>
            dp_phase deployment \<noteq> rb_expectedPhase rollback \<or> dp_updatedAt deployment \<noteq> rb_expectedUpdatedAt rollback \<or>
            xs_stateVersion state \<noteq> rb_expectedStateVersion rollback
         then sreturn None
         else sbind (slift (validateCandidatePilotRollbackChronology (rb_transitionEpochNs rollback) deployment state)) (\<lambda>_.
              sbind (sguard (\<not> isExactCandidateStateRollbackFlat state)
                (Error ''Candidate pilot rollback completion requires an exact flat current episode state.'')) (\<lambda>_.
              writeRollback rollback ROLLBACK_COMPLETED PHASE_DISABLED deployment state))
     | _ \<Rightarrow> sreturn None)"

text \<open>Both run synchronously under the authority of the operator state store.\<close>

definition underRollbackAuthority ::
  "CandidatePilotRollbackInput \<Rightarrow> (pilot_store, js_error, PositionGuardPilotDeploymentRecord option) sm \<Rightarrow>
   PositionGuardPilotDeploymentRecord option pm" where
  "underRollbackAuthority rollback operation w = (case pw_operator w of
     None \<Rightarrow> (Inr None, w)
   | Some operator \<Rightarrow>
       sbind (runWithCandidatePilotRollbackAuthority operator (rb_expectedOperatorState rollback) (onPilots operation)) (\<lambda>authority.
       sreturn (case authority of None \<Rightarrow> None | Some value \<Rightarrow> value)) w)"

definition startRollback :: "CandidatePilotRollbackInput \<Rightarrow> PositionGuardPilotDeploymentRecord option pm" where
  "startRollback input =
     sbind (slift (validateCandidatePilotRollbackInput input)) (\<lambda>rollback.
     underRollbackAuthority rollback (startRollbackUnderAuthority rollback))"

definition completeRollback :: "CandidatePilotRollbackInput \<Rightarrow> PositionGuardPilotDeploymentRecord option pm" where
  "completeRollback input =
     sbind (slift (validateCandidatePilotRollbackInput input)) (\<lambda>rollback.
     underRollbackAuthority rollback (completeRollbackUnderAuthority rollback))"

subsection \<open>Bindings\<close>

definition createExecutionBinding ::
  "(string \<Rightarrow> string) \<Rightarrow> CandidateExecutionBindingRecord \<Rightarrow> (pilot_store, js_error, CandidateExecutionBindingRecord) sm" where
  "createExecutionBinding sha256 input =
     sbind (slift (validateCandidateExecutionBinding sha256 input)) (\<lambda>binding.
     sbind (sget (\<lambda>p. cs_deployments p (bd_deploymentId binding))) (\<lambda>found.
     sbind (sguard (case found of None \<Rightarrow> True | Some d \<Rightarrow> dp_exchangeAccountId d \<noteq> bd_exchangeAccountId binding)
       (Error ''Candidate execution binding deployment does not match its exchange account.'')) (\<lambda>_.
     sbind (sguard (case found of None \<Rightarrow> True
         | Some d \<Rightarrow> (dp_phase d \<noteq> ACTIVE \<and> dp_phase d \<noteq> DRAINING) \<or> dp_activationAt d \<noteq> Some (bd_activationAt binding) \<or>
             dp_activationEpochNs d \<noteq> Some (bd_activationEpochNs binding))
       (Error ''Candidate execution binding must use the persisted active deployment instant.'')) (\<lambda>_.
     sbind (sget cs_bindings) (\<lambda>bindings.
     case find (\<lambda>b. bd_orderId b = bd_orderId binding) bindings of
       Some existing \<Rightarrow>
         sbind (sguard (existing \<noteq> binding)
           (Error (''Conflicting candidate execution binding for order '' @ bd_orderId binding @ ''.''))) (\<lambda>_. sreturn existing)
     | None \<Rightarrow>
         sbind (sguard (find (\<lambda>b. bd_id b = bd_id binding) bindings \<noteq> None)
           (Error (''Conflicting candidate execution binding id '' @ bd_id binding @ ''.''))) (\<lambda>_.
         sbind (smodify (\<lambda>p. p\<lparr>cs_bindings := cs_bindings p @ [binding]\<rparr>)) (\<lambda>_. sreturn binding)))))))"

subsection \<open>Evidence\<close>

record CandidateEvidenceMaterial =
  cm_hash :: string
  cm_epochNanoseconds :: int
  cm_evidence :: PositionGuardCandidateExecutionEvidence

definition entryPathStr :: "StrategyEntryPath \<Rightarrow> string" where
  "entryPathStr path = (case path of PULLBACK \<Rightarrow> ''PULLBACK'' | RECLAIM \<Rightarrow> ''RECLAIM'' | BREAKOUT_HOLD \<Rightarrow> ''BREAKOUT_HOLD'' | NONE \<Rightarrow> ''NONE'')"

definition terminalStatusStr :: "TerminalStatus \<Rightarrow> string" where
  "terminalStatusStr status = (case status of TerminalFilled \<Rightarrow> ''FILLED'' | TerminalCanceled \<Rightarrow> ''CANCELED'')"

definition evidenceMaterialJson ::
  "string \<Rightarrow> PositionGuardCandidateExecutionEvidence \<Rightarrow> int \<Rightarrow> string \<Rightarrow> string \<Rightarrow> string \<Rightarrow> string \<Rightarrow> json" where
  "evidenceMaterialJson deploymentId evidence epochNanoseconds executed gross fee remaining = JObject
     [(''schemaVersion'', JInt 2), (''materialVersion'', JString ''EXACT_V2''), (''deploymentId'', JString deploymentId),
      (''evidenceId'', JString (ce_evidenceId evidence)), (''executedAt'', JString (ce_executedAt evidence)),
      (''executedAtEpochNs'', JString (bigintToString epochNanoseconds)), (''action'', JString (actionStr (ce_action evidence))),
      (''entryPath'', JString (entryPathStr (ce_entryPath evidence))),
      (''terminalStatus'', JString (terminalStatusStr (ce_terminalStatus evidence))), (''executedQuantity'', JString executed),
      (''grossQuoteValueKrw'', JString gross), (''confirmedFeeKrw'', JString fee), (''remainingQuantity'', JString remaining)]"

definition candidateEvidenceMaterial ::
  "(string \<Rightarrow> string) \<Rightarrow> string \<Rightarrow> PositionGuardCandidateExecutionEvidence \<Rightarrow> CandidateEvidenceMaterial res" where
  "candidateEvidenceMaterial sha256 deploymentId evidence =
     ebind (requireNonEmpty deploymentId ''deploymentId'') (\<lambda>_.
     ebind (canonicalField (ce_executedQuantity evidence) ''executedQuantity'') (\<lambda>executed.
     ebind (canonicalField (ce_grossQuoteValueKrw evidence) ''grossQuoteValueKrw'') (\<lambda>gross.
     ebind (canonicalField (ce_confirmedFeeKrw evidence) ''confirmedFeeKrw'') (\<lambda>fee.
     ebind (canonicalField (ce_remainingQuantity evidence) ''remainingQuantity'') (\<lambda>remaining.
     ebind (requireNonEmpty (ce_evidenceId evidence) ''evidenceId'') (\<lambda>_.
     ebind (throw_if (ce_action evidence \<notin> {ENTER, ADD, REDUCE, EXIT})
       (Error ''Candidate execution evidence action is invalid.'')) (\<lambda>_.
     ebind (if executed = ''0''
        then throw_if (ce_terminalStatus evidence \<noteq> TerminalCanceled \<or> gross \<noteq> ''0'' \<or> fee \<noteq> ''0'')
               (Error ''Candidate no-fill evidence must be canceled with zero value and fee.'')
        else throw_if (gross = ''0'') (Error ''Candidate filled evidence must have a finite positive quote value.'')) (\<lambda>_.
     ebind (parsePositionGuardCandidateTimestamp (ce_executedAt evidence) ''evidence executedAt'') (\<lambda>epochNanoseconds.
     ebind (throw_if (epochNanoseconds < 0) (Error ''Candidate evidence executedAt cannot be before the Unix epoch.'')) (\<lambda>_.
     Inr \<lparr>cm_hash = sha256 (stringify (evidenceMaterialJson deploymentId evidence epochNanoseconds executed gross fee remaining)),
       cm_epochNanoseconds = epochNanoseconds,
       cm_evidence = evidence\<lparr>ce_executedQuantity := DecString executed, ce_grossQuoteValueKrw := DecString gross,
         ce_confirmedFeeKrw := DecString fee, ce_remainingQuantity := DecString remaining\<rparr>\<rparr>))))))))))"

record AdvanceCandidatePilotStateInput =
  ai_deploymentId :: string
  ai_expectedStateVersion :: int
  ai_evidence :: PositionGuardCandidateExecutionEvidence

record AdvanceCandidatePilotStateResult =
  ar_state :: PositionGuardCandidateState
  ar_evidence :: PositionGuardCandidateExecutionEvidence
  ar_duplicate :: bool

definition advancedAuditEvent ::
  "string \<Rightarrow> PositionGuardPilotPhase \<Rightarrow> CandidateEvidenceMaterial \<Rightarrow> int \<Rightarrow> int \<Rightarrow> PositionGuardPilotAuditEventRecord" where
  "advancedAuditEvent deploymentId phase material fromVersion toVersion =
     \<lparr>au_id = deploymentId @ '':evidence:'' @ ce_evidenceId (cm_evidence material), au_deploymentId = deploymentId,
      au_eventType = STATE_ADVANCED, au_fromPhase = Some phase, au_toPhase = Some phase, au_stateVersion = toVersion,
      au_payloadJson = stringify (JObject [(''evidenceId'', JString (ce_evidenceId (cm_evidence material))),
        (''materialHash'', JString (cm_hash material)), (''materialVersion'', JString ''EXACT_V2''),
        (''fromStateVersion'', JInt fromVersion), (''toStateVersion'', JInt toVersion)]),
      au_createdAt = ce_executedAt (cm_evidence material)\<rparr>"

definition storedEvidenceOf :: "CandidateEvidenceMaterial \<Rightarrow> StoredEvidence" where
  "storedEvidenceOf material = \<lparr>sv_evidence = cm_evidence material, sv_materialHash = cm_hash material,
     sv_materialVersion = ''EXACT_V2'', sv_epochNanoseconds = cm_epochNanoseconds material\<rparr>"

text \<open>The answer reads the routing state off the exact one; it may throw after the state is stored.\<close>

definition advanceAnswer ::
  "ExactCandidateState \<Rightarrow> CandidateEvidenceMaterial \<Rightarrow> bool \<Rightarrow> AdvanceCandidatePilotStateResult res" where
  "advanceAnswer state material duplicate =
     ebind (toPositionGuardCandidateRoutingState state) (\<lambda>routing.
     Inr \<lparr>ar_state = routing, ar_evidence = cm_evidence material, ar_duplicate = duplicate\<rparr>)"

definition storeAdvance ::
  "string \<Rightarrow> PositionGuardPilotPhase \<Rightarrow> CandidateEvidenceMaterial \<Rightarrow> ExactCandidateState \<Rightarrow> ExactCandidateState \<Rightarrow> pilot_store \<Rightarrow> pilot_store" where
  "storeAdvance deploymentId phase material currentState nextState p = appendAudit deploymentId
     (advancedAuditEvent deploymentId phase material (xs_stateVersion currentState) (xs_stateVersion nextState))
     (p\<lparr>cs_exactStates := (cs_exactStates p)(deploymentId \<mapsto> nextState),
        pt_evidence := (pt_evidence p)(deploymentId \<mapsto> evidenceOfDeployment deploymentId p @ [storedEvidenceOf material])\<rparr>)"

definition advanceStateWithEvidence ::
  "(string \<Rightarrow> string) \<Rightarrow> AdvanceCandidatePilotStateInput \<Rightarrow> (pilot_store, js_error, AdvanceCandidatePilotStateResult) sm" where
  "advanceStateWithEvidence sha256 input =
     sbind (sguard (\<not> isSafeInteger (ai_expectedStateVersion input) \<or> ai_expectedStateVersion input < 0)
       (Error ''Candidate pilot expected state version must be a non-negative safe integer.'')) (\<lambda>_.
     sbind (sget (\<lambda>p. (cs_deployments p (ai_deploymentId input), cs_exactStates p (ai_deploymentId input)))) (\<lambda>found.
     case found of
       (Some deployment, Some currentState) \<Rightarrow>
         sbind (slift (candidateEvidenceMaterial sha256 (ai_deploymentId input) (ai_evidence input))) (\<lambda>material.
         sbind (sget (evidenceOfDeployment (ai_deploymentId input))) (\<lambda>records.
         case find (\<lambda>item. ce_evidenceId (sv_evidence item) = ce_evidenceId (cm_evidence material)) records of
           Some duplicate \<Rightarrow>
             sbind (sguard (sv_materialHash duplicate \<noteq> cm_hash material \<or> sv_materialVersion duplicate \<noteq> ''EXACT_V2'')
               (Error (''Conflicting duplicate candidate evidence '' @ ce_evidenceId (cm_evidence material) @ ''.''))) (\<lambda>_.
             slift (advanceAnswer currentState material True))
         | None \<Rightarrow>
             sbind (sguard (xs_stateVersion currentState \<noteq> ai_expectedStateVersion input)
               (Error (''Candidate state version mismatch: expected '' @ bigintToString (ai_expectedStateVersion input) @
                 '', persisted '' @ bigintToString (xs_stateVersion currentState) @ ''.''))) (\<lambda>_.
             sbind (slift (projectExactCandidateState (map sv_evidence (records @ [storedEvidenceOf material])))) (\<lambda>nextState.
             sbind (sguard (xs_stateVersion nextState \<noteq> xs_stateVersion currentState + 1)
               (Error ''Candidate evidence replay did not advance the exact state by one version.'')) (\<lambda>_.
             sbind (smodify (storeAdvance (ai_deploymentId input) (dp_phase deployment) material currentState nextState)) (\<lambda>_.
             slift (advanceAnswer nextState material False)))))))
     | _ \<Rightarrow> sthrow (Error (''Candidate state '' @ ai_deploymentId input @ '' does not exist or is legacy approximate.''))))"

subsection \<open>Faults\<close>

record PauseCandidatePilotForRecoveryFaultInput =
  fi_deploymentId :: string
  fi_exchangeAccountId :: string
  fi_faultId :: string
  fi_reasonCode :: string
  fi_provenanceJson :: string
  fi_occurredAt :: string

record PauseCandidatePilotForRecoveryFaultResult =
  fr_deployment :: PositionGuardPilotDeploymentRecord
  fr_executionState :: ExecutionStateRecord
  fr_auditEvent :: PositionGuardPilotAuditEventRecord
  fr_duplicate :: bool

definition validateCandidatePilotRecoveryFaultInput :: "PauseCandidatePilotForRecoveryFaultInput \<Rightarrow> unit res" where
  "validateCandidatePilotRecoveryFaultInput input =
     ebind (requireNonEmpty (fi_deploymentId input) ''candidate recovery fault deploymentId'') (\<lambda>_.
     ebind (requireNonEmpty (fi_exchangeAccountId input) ''candidate recovery fault exchangeAccountId'') (\<lambda>_.
     ebind (requireNonEmpty (fi_faultId input) ''candidate recovery fault faultId'') (\<lambda>_.
     ebind (requireNonEmpty (fi_reasonCode input) ''candidate recovery fault reasonCode'') (\<lambda>_.
     ebind (parsePositionGuardCandidateTimestamp (fi_occurredAt input) ''candidate recovery fault occurredAt'') (\<lambda>_.
     case parseJson (fi_provenanceJson input) of
       None \<Rightarrow> Inl (Error ''Candidate recovery fault provenanceJson must be valid JSON.'')
     | Some (JObject _) \<Rightarrow> Inr ()
     | Some _ \<Rightarrow> Inl (Error ''Candidate recovery fault provenanceJson must contain an object.''))))))"

definition validateCandidatePilotRecoveryFaultChronology ::
  "string \<Rightarrow> PositionGuardPilotDeploymentRecord \<Rightarrow> string option \<Rightarrow> unit res" where
  "validateCandidatePilotRecoveryFaultChronology occurredAt deployment latestAuditAt =
     ebind (parsePositionGuardCandidateTimestamp occurredAt ''candidate recovery fault occurredAt'') (\<lambda>occurredAtEpoch.
     ebind (parsePositionGuardCandidateTimestamp (dp_updatedAt deployment) ''deployment updatedAt'') (\<lambda>deploymentUpdatedAtEpoch.
     ebind (case latestAuditAt of None \<Rightarrow> Inr None
       | Some t \<Rightarrow> ebind (parsePositionGuardCandidateTimestamp t ''candidate audit createdAt'') (\<lambda>epoch. Inr (Some epoch))) (\<lambda>latestAuditEpoch.
     ebind (throw_if (dp_phase deployment = DRAINING \<and> (occurredAtEpoch \<le> deploymentUpdatedAtEpoch \<or>
         (case latestAuditEpoch of None \<Rightarrow> False | Some epoch \<Rightarrow> occurredAtEpoch \<le> epoch)))
       (Error ''Candidate recovery fault from DRAINING must occur strictly after deployment and audit chronology.'')) (\<lambda>_.
     throw_if (occurredAtEpoch < deploymentUpdatedAtEpoch \<or> (case latestAuditEpoch of None \<Rightarrow> False | Some epoch \<Rightarrow> occurredAtEpoch < epoch))
       (Error ''Candidate recovery fault cannot precede deployment chronology.'')))))"

definition CANDIDATE_INTENT_FAULT_PROVENANCE_KEYS :: "string list" where
  "CANDIDATE_INTENT_FAULT_PROVENANCE_KEYS = [''schemaVersion'', ''stage'', ''deploymentId'', ''exchangeAccountId'', ''strategyDecisionId'',
     ''orderId'', ''bindingId'', ''market'', ''action'', ''side'', ''ordType'', ''price'', ''volume'', ''expectedPhase'',
     ''expectedDeploymentUpdatedAt'', ''expectedStateVersion'']"

fun joinWith :: "string \<Rightarrow> string list \<Rightarrow> string" where
  "joinWith sep [] = []"
| "joinWith sep [x] = x"
| "joinWith sep (x # y # rest) = x @ sep @ joinWith sep (y # rest)"

text \<open>A parsed text is an object with exactly the expected properties; a property given twice is one, with its last value.\<close>

definition exactOwnDataRecord :: "json \<Rightarrow> string \<Rightarrow> string list \<Rightarrow> (string \<Rightarrow> json) res" where
  "exactOwnDataRecord value label expectedKeys = (case value of
     JObject ms \<Rightarrow>
       if set (map fst ms) \<noteq> set expectedKeys
       then Inl (Error (label @ '' must have exactly own data properties: '' @ joinWith '', '' expectedKeys @ ''.''))
       else Inr (\<lambda>key. case member key ms of None \<Rightarrow> JNull | Some v \<Rightarrow> v)
   | _ \<Rightarrow> Inl (Error (label @ '' must be an object with exactly own data properties.'')))"

definition optionalProvenanceDecimal :: "json \<Rightarrow> string \<Rightarrow> unit res" where
  "optionalProvenanceDecimal value label = (case value of
     JNull \<Rightarrow> Inr ()
   | JString s \<Rightarrow> ebind (canonicalNonNegativeDecimal s label) (\<lambda>_. Inr ())
   | _ \<Rightarrow> Inl (Error (label @ '' must be a canonical non-negative decimal string.'')))"

definition isSafeVersion :: "json \<Rightarrow> bool" where
  "isSafeVersion value = (case value of JNumber (Num q) \<Rightarrow> q = of_int \<lfloor>q\<rfloor> \<and> isSafeInteger \<lfloor>q\<rfloor> \<and> 0 \<le> q | _ \<Rightarrow> False)"

definition validateProvenance :: "PauseCandidateIntentFaultInput \<Rightarrow> (string \<Rightarrow> json) \<Rightarrow> unit res" where
  "validateProvenance input provenance =
     ebind (throw_if (provenance ''schemaVersion'' \<noteq> JString ''CANDIDATE_INTENT_FAULT_V1'')
       (Error ''Candidate intent fault provenance schema is invalid.'')) (\<lambda>_.
     ebind (throw_if (provenance ''stage'' \<notin> JString ` set [''DUPLICATE'', ''DERIVATION'', ''PERSISTENCE'', ''FINAL_REVALIDATION''])
       (Error ''Candidate intent fault provenance stage is invalid.'')) (\<lambda>_.
     ebind (throw_if (provenance ''stage'' \<noteq> JString (stageStr (pf_stage input)) \<or>
         provenance ''deploymentId'' \<noteq> JString (pf_deploymentId input) \<or>
         provenance ''exchangeAccountId'' \<noteq> JString (pf_exchangeAccountId input) \<or>
         provenance ''strategyDecisionId'' \<noteq> JString (pf_strategyDecisionId input) \<or>
         provenance ''orderId'' \<noteq> JString (pf_orderId input) \<or> provenance ''bindingId'' \<noteq> JString (pf_bindingId input))
       (Error ''Candidate intent fault provenance identity does not match the request.'')) (\<lambda>_.
     ebind (throw_if (provenance ''market'' \<noteq> JString ''KRW-BTC'' \<or>
         provenance ''action'' \<notin> JString ` set [''ENTER'', ''ADD'', ''REDUCE'', ''EXIT''] \<or>
         provenance ''side'' \<notin> JString ` set [''bid'', ''ask''] \<or>
         provenance ''ordType'' \<notin> JString ` set [''limit'', ''price'', ''market'', ''best''] \<or>
         provenance ''expectedPhase'' \<notin> JString ` set [''ACTIVE'', ''DRAINING''] \<or>
         \<not> isSafeVersion (provenance ''expectedStateVersion''))
       (Error ''Candidate intent fault provenance material is invalid.'')) (\<lambda>_.
     case provenance ''expectedDeploymentUpdatedAt'' of
       JString t \<Rightarrow>
         ebind (parsePositionGuardCandidateTimestamp t ''candidate intent fault expectedDeploymentUpdatedAt'') (\<lambda>_.
         ebind (optionalProvenanceDecimal (provenance ''price'') ''candidate intent fault price'') (\<lambda>_.
         optionalProvenanceDecimal (provenance ''volume'') ''candidate intent fault volume''))
     | _ \<Rightarrow> Inl (Error ''Candidate intent fault expected deployment timestamp is invalid.'')))))"

definition faultOfIntent :: "PauseCandidateIntentFaultInput \<Rightarrow> PauseCandidatePilotForRecoveryFaultInput" where
  "faultOfIntent input = \<lparr>fi_deploymentId = pf_deploymentId input, fi_exchangeAccountId = pf_exchangeAccountId input,
     fi_faultId = pf_faultId input, fi_reasonCode = pf_reasonCode input, fi_provenanceJson = pf_provenanceJson input,
     fi_occurredAt = pf_occurredAt input\<rparr>"

definition validateCandidateIntentFaultInput ::
  "(string \<Rightarrow> string) \<Rightarrow> PauseCandidateIntentFaultInput \<Rightarrow> PauseCandidatePilotForRecoveryFaultInput res" where
  "validateCandidateIntentFaultInput sha256 input =
     ebind (requireNonEmpty (pf_deploymentId input) ''candidate intent fault deploymentId'') (\<lambda>_.
     ebind (requireNonEmpty (pf_exchangeAccountId input) ''candidate intent fault exchangeAccountId'') (\<lambda>_.
     ebind (requireNonEmpty (pf_strategyDecisionId input) ''candidate intent fault strategyDecisionId'') (\<lambda>_.
     ebind (requireNonEmpty (pf_orderId input) ''candidate intent fault orderId'') (\<lambda>_.
     ebind (requireNonEmpty (pf_bindingId input) ''candidate intent fault bindingId'') (\<lambda>_.
     ebind (requireNonEmpty (pf_faultId input) ''candidate intent fault faultId'') (\<lambda>_.
     ebind (throw_if (pf_reasonCode input \<noteq> (if pf_stage input = PERSISTENCE then ''ACTIVATION_CAS_CONFLICT'' else ''IDENTITY_MISMATCH''))
       (Error ''Candidate intent fault reason does not match its stage.'')) (\<lambda>_.
     ebind (parsePositionGuardCandidateTimestamp (pf_occurredAt input) ''candidate intent fault occurredAt'') (\<lambda>_.
     case parseJson (pf_provenanceJson input) of
       None \<Rightarrow> Inl (Error ''Candidate intent fault provenanceJson must be valid JSON.'')
     | Some parsed \<Rightarrow>
         ebind (exactOwnDataRecord parsed ''candidate intent fault provenance'' CANDIDATE_INTENT_FAULT_PROVENANCE_KEYS) (\<lambda>provenance.
         ebind (validateProvenance input provenance) (\<lambda>_.
         ebind (throw_if (pf_faultId input \<noteq> ''candidate-intent:'' @ sha256 (pf_provenanceJson input))
           (Error ''Candidate intent fault ID does not match the deterministic provenance hash.'')) (\<lambda>_.
         Inr (faultOfIntent input))))))))))))"

definition formatCandidatePilotUtcNanoseconds :: "int \<Rightarrow> string res" where
  "formatCandidatePilotUtcNanoseconds epochNanoseconds =
     ebind (throw_if (epochNanoseconds < 0) (Error ''Candidate intent fault occurrence cannot precede the Unix epoch.'')) (\<lambda>_.
     let wholeMilliseconds = epochNanoseconds div 1000000000 * 1000; iso = toISOString wholeMilliseconds in
     ebind (throw_if (MAX_DATE_MILLISECONDS < wholeMilliseconds)
       (Error ''Candidate intent fault occurrence exceeds the supported UTC range.'')) (\<lambda>_.
     ebind (throw_if (\<not> (case EXPLICIT_ISO_TIMESTAMP iso of None \<Rightarrow> False | Some f \<Rightarrow> f_fraction f = ''000'' \<and> f_zone f = ''Z''))
       (Error ''Candidate intent fault occurrence exceeds the supported canonical UTC range.'')) (\<lambda>_.
     Inr (take 19 iso @ ''.'' @ pad_start 9 CHR ''0'' (digits_of_int (epochNanoseconds mod 1000000000)) @ ''Z''))))"

definition latestEpoch :: "int option \<Rightarrow> string \<Rightarrow> int option res" where
  "latestEpoch latest timestamp =
     ebind (parsePositionGuardCandidateTimestamp timestamp ''candidate intent fault persisted chronology'') (\<lambda>epoch.
     Inr (Some (case latest of None \<Rightarrow> epoch | Some l \<Rightarrow> if l < epoch then epoch else l)))"

definition resolveCandidateIntentFaultOccurrence ::
  "(string \<Rightarrow> string) \<Rightarrow> PauseCandidateIntentFaultInput \<Rightarrow> string list \<Rightarrow> PauseCandidatePilotForRecoveryFaultInput res" where
  "resolveCandidateIntentFaultOccurrence sha256 input persistedChronology =
     ebind (validateCandidateIntentFaultInput sha256 input) (\<lambda>fault.
     ebind (parsePositionGuardCandidateTimestamp (fi_occurredAt fault) ''candidate intent fault attempted occurredAt'') (\<lambda>attemptedEpoch.
     ebind (efold latestEpoch None persistedChronology) (\<lambda>latestPersistedEpoch.
     ebind (formatCandidatePilotUtcNanoseconds (case latestPersistedEpoch of
         None \<Rightarrow> attemptedEpoch
       | Some latest \<Rightarrow> if attemptedEpoch \<le> latest then latest + 1 else attemptedEpoch)) (\<lambda>occurredAt.
     Inr (fault\<lparr>fi_occurredAt := occurredAt\<rparr>)))))"

definition candidatePilotRecoveryFaultReason :: "PauseCandidatePilotForRecoveryFaultInput \<Rightarrow> string" where
  "candidatePilotRecoveryFaultReason input =
     ''candidate_pilot_recovery:'' @ fi_reasonCode input @ ''; provenance='' @ fi_provenanceJson input"

definition buildCandidatePilotRecoveryFaultAuditEvent ::
  "PauseCandidatePilotForRecoveryFaultInput \<Rightarrow> PositionGuardPilotPhase \<Rightarrow> int \<Rightarrow> PositionGuardPilotAuditEventRecord" where
  "buildCandidatePilotRecoveryFaultAuditEvent fault fromPhase stateVersion =
     \<lparr>au_id = fi_faultId fault, au_deploymentId = fi_deploymentId fault, au_eventType = FAULT_PAUSED,
      au_fromPhase = Some fromPhase, au_toPhase = Some PAUSED_FAULT, au_stateVersion = stateVersion,
      au_payloadJson = stringify (JObject [(''reasonCode'', JString (fi_reasonCode fault)),
        (''provenanceJson'', JString (fi_provenanceJson fault))]),
      au_createdAt = fi_occurredAt fault\<rparr>"

definition isFaultPausablePhase :: "PositionGuardPilotPhase \<Rightarrow> bool" where
  "isFaultPausablePhase phase \<longleftrightarrow> phase = PENDING_FLAT \<or> phase = ACTIVE \<or> phase = DRAINING"

definition laterAudit ::
  "PositionGuardPilotAuditEventRecord option \<Rightarrow> PositionGuardPilotAuditEventRecord \<Rightarrow> PositionGuardPilotAuditEventRecord option res" where
  "laterAudit latest event = (case latest of
     None \<Rightarrow> Inr (Some event)
   | Some l \<Rightarrow>
       ebind (parsePositionGuardCandidateTimestamp (au_createdAt event) ''candidate audit createdAt'') (\<lambda>eventEpoch.
       ebind (parsePositionGuardCandidateTimestamp (au_createdAt l) ''candidate audit createdAt'') (\<lambda>latestEpoch.
       Inr (Some (if latestEpoch < eventEpoch then event else l)))))"

text \<open>
  What a fault pause has read when it goes on: deployment, state and an audit event of the fault at its start, the
  transition of the fault then, and the operator state after the first await.
\<close>

record fault_reads =
  fq_deployment :: PositionGuardPilotDeploymentRecord
  fq_state :: ExactCandidateState
  fq_existingAudit :: "PositionGuardPilotAuditEventRecord option"
  fq_existingTransition :: "ExecutionStateTransitionRecord option"
  fq_executionState :: ExecutionStateRecord

definition effectiveFault ::
  "(string \<Rightarrow> string) \<Rightarrow> PauseCandidatePilotForRecoveryFaultInput \<Rightarrow> PauseCandidateIntentFaultInput option \<Rightarrow> fault_reads \<Rightarrow>
   PositionGuardPilotAuditEventRecord option \<Rightarrow> PauseCandidatePilotForRecoveryFaultInput res" where
  "effectiveFault sha256 input candidateIntentInput reads latestAudit = (case candidateIntentInput of
     None \<Rightarrow> Inr input
   | Some intent \<Rightarrow> (case fq_existingAudit reads of
       Some audit \<Rightarrow> Inr (input\<lparr>fi_occurredAt := au_createdAt audit\<rparr>)
     | None \<Rightarrow> resolveCandidateIntentFaultOccurrence sha256 intent (dp_updatedAt (fq_deployment reads) #
         (case latestAudit of None \<Rightarrow> [] | Some audit \<Rightarrow> [au_createdAt audit]))))"

text \<open>A fault that is stored already: all its parts must be there and agree.\<close>

definition repeatedFault ::
  "PauseCandidatePilotForRecoveryFaultInput \<Rightarrow> PauseCandidatePilotForRecoveryFaultInput \<Rightarrow> fault_reads \<Rightarrow>
   PauseCandidatePilotForRecoveryFaultResult res" where
  "repeatedFault input effective reads =
     (let deployment = fq_deployment reads; executionState = fq_executionState reads;
          conflict = Error (''Conflicting duplicate candidate recovery fault '' @ fi_faultId input @ ''.'') in
      case (fq_existingAudit reads, fq_existingTransition reads) of
        (Some audit, Some transition) \<Rightarrow>
          ebind (throw_if (dp_phase deployment \<noteq> PAUSED_FAULT \<or> dp_updatedAt deployment \<noteq> fi_occurredAt effective \<or>
              (st_systemStatus executionState \<noteq> PAUSED \<and> st_systemStatus executionState \<noteq> KILL_SWITCHED))
            (Error (''Conflicting partial candidate recovery fault '' @ fi_faultId input @ ''.''))) (\<lambda>_.
          case au_fromPhase audit of
            None \<Rightarrow> Inl conflict
          | Some fromPhase \<Rightarrow>
              ebind (throw_if (\<not> isFaultPausablePhase fromPhase) conflict) (\<lambda>_.
              ebind (throw_if (audit \<noteq> buildCandidatePilotRecoveryFaultAuditEvent effective fromPhase (xs_stateVersion (fq_state reads)) \<or>
                  tr_command transition \<noteq> AUTOMATIC_PAUSE \<or> tr_exchangeAccountId transition \<noteq> fi_exchangeAccountId input \<or>
                  tr_reason transition \<noteq> Some (''faultId='' @ fi_faultId input @ ''; reason='' @ candidatePilotRecoveryFaultReason effective))
                conflict) (\<lambda>_.
              Inr \<lparr>fr_deployment = deployment, fr_executionState = executionState, fr_auditEvent = audit, fr_duplicate = True\<rparr>)))
      | _ \<Rightarrow> Inl (Error (''Conflicting partial candidate recovery fault '' @ fi_faultId input @ ''.'')))"

definition onOperatorStore :: "(operator_store, js_error, 'a) sm \<Rightarrow> 'a pm" where
  "onOperatorStore m w = (case pw_operator w of
     None \<Rightarrow> (Inl (Error ''In-memory candidate recovery faults require an atomic fault-pause store.''), w)
   | Some operator \<Rightarrow> (case m operator of (x, operator') \<Rightarrow> (x, w\<lparr>pw_operator := Some operator'\<rparr>)))"

text \<open>The end of a fault pause, after the awaits: the deployment written is the one read at its start.\<close>

definition writeFault ::
  "PauseCandidatePilotForRecoveryFaultInput \<Rightarrow> PauseCandidatePilotForRecoveryFaultInput \<Rightarrow> fault_reads \<Rightarrow> string option \<Rightarrow> string \<Rightarrow>
   PauseCandidatePilotForRecoveryFaultResult pm" where
  "writeFault input effective reads latestAuditAt transitionAt =
     (let deployment = fq_deployment reads;
          auditEvent = buildCandidatePilotRecoveryFaultAuditEvent effective (dp_phase deployment) (xs_stateVersion (fq_state reads));
          pausedDeployment = deployment\<lparr>dp_phase := PAUSED_FAULT, dp_updatedAt := fi_occurredAt effective\<rparr>
      in sbind (sguard (\<not> isFaultPausablePhase (dp_phase deployment))
           (Error (''Candidate recovery fault cannot pause phase '' @ phaseStr (dp_phase deployment) @ ''.''))) (\<lambda>_.
         sbind (slift (validateCandidatePilotRecoveryFaultChronology (fi_occurredAt effective) deployment latestAuditAt)) (\<lambda>_.
         sbind (onOperatorStore (applyFaultPauseAtomically
           \<lparr>fp_exchangeAccountId = fi_exchangeAccountId input, fp_faultId = fi_faultId input,
            fp_reason = candidatePilotRecoveryFaultReason effective, fp_occurredAt = fi_occurredAt effective,
            fp_transitionAt = Some transitionAt\<rparr>)) (\<lambda>executionState.
         sbind (onPilots (smodify (appendAudit (fi_deploymentId input) auditEvent \<circ> setDeployment pausedDeployment))) (\<lambda>_.
         sreturn \<lparr>fr_deployment = pausedDeployment, fr_executionState = executionState, fr_auditEvent = auditEvent, fr_duplicate = False\<rparr>)))))"

definition settleFault ::
  "(string \<Rightarrow> string) \<Rightarrow> PauseCandidatePilotForRecoveryFaultInput \<Rightarrow> PauseCandidateIntentFaultInput option \<Rightarrow> fault_reads \<Rightarrow>
   PauseCandidatePilotForRecoveryFaultResult pm" where
  "settleFault sha256 input candidateIntentInput reads =
     sbind (sget (auditEventsOf (fi_deploymentId input) \<circ> pw_pilots)) (\<lambda>audits.
     sbind (slift (efold laterAudit None audits)) (\<lambda>latestAudit.
     sbind (slift (effectiveFault sha256 input candidateIntentInput reads latestAudit)) (\<lambda>effective.
     sbind (slift (deriveFaultPauseTransitionAt (fi_occurredAt effective) (st_updatedAt (fq_executionState reads)))) (\<lambda>transitionAt.
     if fq_existingAudit reads \<noteq> None \<or> fq_existingTransition reads \<noteq> None
     then slift (repeatedFault input effective reads)
     else writeFault input effective reads (map_option au_createdAt latestAudit) transitionAt))))"

text \<open>
  The pause with its two awaits. \<open>others1\<close> and \<open>others2\<close> are what other callbacks do until it continues.
\<close>

definition pauseForRecoveryFaultSerialized ::
  "(string \<Rightarrow> string) \<Rightarrow> (pilot_world \<Rightarrow> pilot_world) \<Rightarrow> (pilot_world \<Rightarrow> pilot_world) \<Rightarrow>
   PauseCandidatePilotForRecoveryFaultInput \<Rightarrow> PauseCandidateIntentFaultInput option \<Rightarrow> PauseCandidatePilotForRecoveryFaultResult pm" where
  "pauseForRecoveryFaultSerialized sha256 others1 others2 input candidateIntentInput =
     sbind (onOperatorStore (sget (getTransitionById (fi_faultId input)))) (\<lambda>existingTransition.
     sbind (sget (\<lambda>w. (cs_deployments (pw_pilots w) (fi_deploymentId input), cs_exactStates (pw_pilots w) (fi_deploymentId input),
       find (\<lambda>event. au_id event = fi_faultId input) (auditEventsOf (fi_deploymentId input) (pw_pilots w))))) (\<lambda>found.
     case found of
       (Some deployment, Some state, existingAudit) \<Rightarrow>
         sbind (sguard (dp_exchangeAccountId deployment \<noteq> fi_exchangeAccountId input)
           (Error ''Candidate recovery fault deployment provenance does not match persisted state.'')) (\<lambda>_.
         sbind (smodify others1) (\<lambda>_.
         sbind (onOperatorStore (sget getState)) (\<lambda>executionState.
         sbind (smodify others2) (\<lambda>_.
         settleFault sha256 input candidateIntentInput \<lparr>fq_deployment = deployment, fq_state = state, fq_existingAudit = existingAudit,
           fq_existingTransition = existingTransition, fq_executionState = executionState\<rparr>))))
     | _ \<Rightarrow> sthrow (Error ''Candidate recovery fault deployment provenance does not match persisted state.'')))"

definition pauseForRecoveryFault ::
  "(string \<Rightarrow> string) \<Rightarrow> (pilot_world \<Rightarrow> pilot_world) \<Rightarrow> (pilot_world \<Rightarrow> pilot_world) \<Rightarrow>
   PauseCandidatePilotForRecoveryFaultInput \<Rightarrow> PauseCandidatePilotForRecoveryFaultResult pm" where
  "pauseForRecoveryFault sha256 others1 others2 input =
     sbind (slift (validateCandidatePilotRecoveryFaultInput input)) (\<lambda>_.
     pauseForRecoveryFaultSerialized sha256 others1 others2 input None)"

definition pauseForCandidateIntentFault ::
  "(string \<Rightarrow> string) \<Rightarrow> (pilot_world \<Rightarrow> pilot_world) \<Rightarrow> (pilot_world \<Rightarrow> pilot_world) \<Rightarrow>
   PauseCandidateIntentFaultInput \<Rightarrow> PauseCandidatePilotForRecoveryFaultResult pm" where
  "pauseForCandidateIntentFault sha256 others1 others2 input =
     sbind (slift (validateCandidateIntentFaultInput sha256 input)) (\<lambda>fault.
     pauseForRecoveryFaultSerialized sha256 others1 others2 fault (Some input))"

end
