(* ===== verification/PilotLifecycle.thy ===== *)
theory PilotLifecycle
  imports PilotRepository Effects "HOL-Library.Sublist"
begin

section \<open>The life of a candidate deployment\<close>

text \<open>
  Every operation of the pilot repository changes the store in one of a few ways. From these: the invariant of the store,
  the state machine of the phases, what a rollback needs, and that the stored state is the projection of the stored
  evidence.
\<close>

subsection \<open>Valid deployments\<close>

definition epochOf :: "string \<Rightarrow> int \<Rightarrow> bool" where
  "epochOf t epoch \<longleftrightarrow> parsePositionGuardCandidateTimestamp t [] = Inr epoch"

lemma epoch_label: "parsePositionGuardCandidateTimestamp t label = Inr epoch \<longleftrightarrow> epochOf t epoch"
  by (simp add: epochOf_def candidate_timestamp_iff)

definition validDeployment :: "PositionGuardPilotDeploymentRecord \<Rightarrow> bool" where
  "validDeployment d \<longleftrightarrow> \<not> is_blank (dp_id d) \<and> \<not> is_blank (dp_exchangeAccountId d) \<and> dp_pilotId d = PILOT_ID \<and> dp_market d = KRW_BTC \<and>
     dp_policyId d = POLICY_ID \<and> dp_policyVersion d = POLICY_VERSION \<and>
     (\<exists>created updated. epochOf (dp_createdAt d) created \<and> epochOf (dp_updatedAt d) updated \<and> created \<le> updated) \<and>
     (case (dp_activationAt d, dp_activationEpochNs d) of
        (None, None) \<Rightarrow> dp_phase d \<noteq> ACTIVE \<and> dp_phase d \<noteq> DRAINING
      | (Some t, Some epoch) \<Rightarrow> 0 \<le> epoch \<and> epochOf t epoch
      | _ \<Rightarrow> False)"

lemma validated_deployment: "validateCandidatePilotDeployment d = Inr e \<longleftrightarrow> e = d \<and> validDeployment d"
  unfolding validateCandidatePilotDeployment_def validDeployment_def requireNonEmpty_def ebind_eq_Inr throw_if_eq_Inr epoch_label
  by (cases "dp_activationAt d"; cases "dp_activationEpochNs d") (auto simp: res_simps epoch_label not_less)

subsection \<open>Phases\<close>

inductive phase_next :: "PositionGuardPilotPhase \<Rightarrow> PositionGuardPilotPhase \<Rightarrow> bool" where
  activated: "phase_next PENDING_FLAT ACTIVE"
| draining: "phase_next ACTIVE DRAINING"
| disabled: "isRollbackCompletablePhase x \<Longrightarrow> phase_next x PHASE_DISABLED"
| faulted: "isFaultPausablePhase x \<Longrightarrow> phase_next x PAUSED_FAULT"

inductive_cases phase_next_disabledE: "phase_next PHASE_DISABLED x"
inductive_cases phase_next_faultE: "phase_next PAUSED_FAULT x"

definition sameDeployment :: "PositionGuardPilotDeploymentRecord \<Rightarrow> PositionGuardPilotDeploymentRecord \<Rightarrow> bool" where
  "sameDeployment d d' \<longleftrightarrow> dp_id d' = dp_id d \<and> dp_exchangeAccountId d' = dp_exchangeAccountId d \<and> dp_pilotId d' = dp_pilotId d \<and>
     dp_market d' = dp_market d \<and> dp_policyId d' = dp_policyId d \<and> dp_policyVersion d' = dp_policyVersion d \<and>
     dp_createdAt d' = dp_createdAt d \<and>
     (dp_activationAt d \<noteq> None \<longrightarrow> dp_activationAt d' = dp_activationAt d \<and> dp_activationEpochNs d' = dp_activationEpochNs d)"

lemma sameDeployment_refl [simp]: "sameDeployment d d"
  by (simp add: sameDeployment_def)

lemma sameDeployment_trans: "sameDeployment a b \<Longrightarrow> sameDeployment b c \<Longrightarrow> sameDeployment a c"
  by (auto simp: sameDeployment_def)

definition moves :: "PositionGuardPilotDeploymentRecord \<Rightarrow> PositionGuardPilotDeploymentRecord \<Rightarrow> bool" where
  "moves d d' \<longleftrightarrow> sameDeployment d d' \<and> phase_next (dp_phase d) (dp_phase d') \<and> (validDeployment d \<longrightarrow> validDeployment d')"

subsection \<open>How the store changes\<close>

inductive pilot_change :: "pilot_store \<Rightarrow> pilot_store \<Rightarrow> bool" where
  kept: "pilot_change p p"
| added: "validDeployment d \<Longrightarrow> cs_deployments p (dp_id d) = None \<Longrightarrow> \<not> list_ex (\<lambda>c. samePilot c d) (deploymentValues p) \<Longrightarrow>
    pilot_change p (insertDeploymentWithInitialState d p)"
| moved: "cs_deployments p ident = Some d \<Longrightarrow> moves d d' \<Longrightarrow> au_fromPhase event = Some (dp_phase d) \<Longrightarrow>
    au_toPhase event = Some (dp_phase d') \<Longrightarrow> pilot_change p (appendAudit ident event (setDeployment d' p))"
| advanced: "cs_deployments p ident = Some d \<Longrightarrow> cs_exactStates p ident = Some state \<Longrightarrow>
    find (\<lambda>item. ce_evidenceId (sv_evidence item) = ce_evidenceId (cm_evidence material)) (evidenceOfDeployment ident p) = None \<Longrightarrow>
    projectExactCandidateState (map sv_evidence (evidenceOfDeployment ident p @ [storedEvidenceOf material])) = Inr state' \<Longrightarrow>
    xs_stateVersion state' = xs_stateVersion state + 1 \<Longrightarrow>
    pilot_change p (storeAdvance ident (dp_phase d) material state state' p)"
| bound: "pilot_change p (p\<lparr>cs_bindings := bs\<rparr>)"

text \<open>The key under which a deployment is stored is its id.\<close>

definition keyed :: "pilot_store \<Rightarrow> bool" where
  "keyed p \<longleftrightarrow> (\<forall>ident d. cs_deployments p ident = Some d \<longrightarrow> dp_id d = ident)"

lemma create_change: "wp (createDeploymentWithInitialState i) (\<lambda>_. pilot_change p) p"
  unfolding createDeploymentWithInitialState_def
  by (auto simp: wp_simps validateInitialDeployment_def res_simps validated_deployment intro!: pilot_change.intros split: sum.splits)

lemma initialize_change: "wp (initializeDeploymentWithInitialState lc i) (\<lambda>_. pilot_change p) p"
  unfolding initializeDeploymentWithInitialState_def
  by (auto simp: wp_simps validateInitialDeployment_def res_simps validated_deployment find_None_iff list_ex_iff
      intro!: pilot_change.intros split: sum.splits option.splits)

lemma epoch_unique: "epochOf t a \<Longrightarrow> epochOf t b \<Longrightarrow> a = b"
  by (simp add: epochOf_def)

lemma activation_moves:
  assumes "validateActivationInput i d = Inr u" "dp_phase d = PENDING_FLAT" "dp_activationAt d = None"
  shows "moves d (activatedDeployment i d)"
  using assms unfolding moves_def
  by (auto simp: validateActivationInput_def activatedDeployment_def sameDeployment_def res_simps epoch_label validDeployment_def
      not_less intro: phase_next.intros split: if_splits option.splits)

lemma activate_change:
  assumes "ad_expectedPhase i = PENDING_FLAT" "keyed p"
  shows "wp (activateDeployment i) (\<lambda>_. pilot_change p) p"
  unfolding activateDeployment_def
  using assms
  by (auto simp: wp_simps keyed_def activationAuditEvent_def activatedDeployment_def intro!: pilot_change.intros activation_moves [unfolded activatedDeployment_def]
      split: sum.splits option.splits)

lemma rollback_moves:
  assumes "validateCandidatePilotRollbackChronology (rb_transitionEpochNs i) d st = Inr u" "epochOf (rb_transitionAt i) (rb_transitionEpochNs i)"
    "phase_next (dp_phase d) phase" "phase = PHASE_DISABLED \<or> (phase = DRAINING \<and> dp_phase d = ACTIVE)"
  shows "moves d (d\<lparr>dp_phase := phase, dp_updatedAt := rb_transitionAt i\<rparr>)"
  using assms unfolding moves_def
  by (auto simp: validateCandidatePilotRollbackChronology_def sameDeployment_def res_simps epoch_label validDeployment_def not_less split: option.splits)

lemma write_change:
  assumes "cs_deployments p ident = Some d" "dp_id d = ident" "moves d (d\<lparr>dp_phase := phase, dp_updatedAt := rb_transitionAt i\<rparr>)"
  shows "wp (writeRollback i eventType phase d st) (\<lambda>_. pilot_change p) p"
  unfolding writeRollback_def
  using pilot_change.moved [OF assms(1,3), of "buildCandidatePilotRollbackAuditEvent i eventType (dp_phase d) phase (xs_stateVersion st)"] assms(2)
  by (auto simp: wp_simps Let_def buildCandidatePilotRollbackAuditEvent_def split: sum.splits)

lemma rollback_input:
  "validateCandidatePilotRollbackInput i = Inr j \<Longrightarrow> j = i \<and> epochOf (rb_transitionAt i) (rb_transitionEpochNs i)"
  by (auto simp: validateCandidatePilotRollbackInput_def validateCandidatePilotRollbackOperatorState_def res_simps epoch_label)

lemma start_change:
  assumes "epochOf (rb_transitionAt i) (rb_transitionEpochNs i)" "keyed p"
  shows "wp (startRollbackUnderAuthority i) (\<lambda>_. pilot_change p) p"
  unfolding startRollbackUnderAuthority_def
  using assms
  by (auto simp: wp_simps keyed_def split: sum.splits option.splits
      intro!: pilot_change.kept write_change rollback_moves intro: phase_next.intros)

lemma complete_change:
  assumes "epochOf (rb_transitionAt i) (rb_transitionEpochNs i)" "keyed p"
  shows "wp (completeRollbackUnderAuthority i) (\<lambda>_. pilot_change p) p"
  unfolding completeRollbackUnderAuthority_def
  using assms
  by (auto simp: wp_simps keyed_def split: sum.splits option.splits
      intro!: pilot_change.kept write_change rollback_moves intro: phase_next.intros)

lemma binding_change: "wp (createExecutionBinding sha256 b) (\<lambda>_. pilot_change p) p"
  unfolding createExecutionBinding_def
  by (auto simp: wp_simps intro!: pilot_change.intros split: sum.splits option.splits)

lemma advance_change: "wp (advanceStateWithEvidence sha256 i) (\<lambda>_. pilot_change p) p"
  unfolding advanceStateWithEvidence_def
  by (auto simp: wp_simps intro!: pilot_change.kept intro: pilot_change.advanced split: sum.splits option.splits)

lemma onPilots_wp: "wp (onPilots m) Q w \<longleftrightarrow> wp m (\<lambda>r p. Q r (w\<lparr>pw_pilots := p\<rparr>)) (pw_pilots w)"
  by (simp add: wp_def onPilots_def split: prod.splits)

lemma onOperatorStore_pilots: "wp (onOperatorStore m) (\<lambda>_ w'. pw_pilots w' = pw_pilots w) w"
  by (simp add: wp_def onOperatorStore_def split: prod.splits option.splits)

lemma authority_change:
  assumes "wp operation (\<lambda>_. pilot_change (pw_pilots w)) (pw_pilots w)"
  shows "wp (underRollbackAuthority i operation) (\<lambda>_ w'. pilot_change (pw_pilots w) (pw_pilots w')) w"
  using assms
  by (auto simp: wp_def underRollbackAuthority_def runWithCandidatePilotRollbackAuthority_def sbind_def sreturn_def onPilots_def
      intro: pilot_change.kept split: prod.splits option.splits sum.splits)

lemma startRollback_change:
  assumes "keyed (pw_pilots w)"
  shows "wp (startRollback i) (\<lambda>_ w'. pilot_change (pw_pilots w) (pw_pilots w')) w"
  unfolding startRollback_def wp_simps
  by (auto intro!: pilot_change.kept authority_change start_change [OF _ assms] dest!: rollback_input split: sum.splits)

lemma completeRollback_change:
  assumes "keyed (pw_pilots w)"
  shows "wp (completeRollback i) (\<lambda>_ w'. pilot_change (pw_pilots w) (pw_pilots w')) w"
  unfolding completeRollback_def wp_simps
  by (auto intro!: pilot_change.kept authority_change complete_change [OF _ assms] dest!: rollback_input split: sum.splits)

lemma fault_moves:
  assumes "validateCandidatePilotRecoveryFaultChronology t d a = Inr u" "isFaultPausablePhase (dp_phase d)"
  shows "moves d (d\<lparr>dp_phase := PAUSED_FAULT, dp_updatedAt := t\<rparr>)"
proof -
  obtain epoch updated where times: "epochOf t epoch" "epochOf (dp_updatedAt d) updated" "updated \<le> epoch"
    using assms(1) by (auto simp: validateCandidatePilotRecoveryFaultChronology_def res_simps epoch_label not_less)
  have "\<exists>created updated. epochOf (dp_createdAt d) created \<and> epochOf t updated \<and> created \<le> updated" if valid: "validDeployment d"
  proof -
    obtain created where "epochOf (dp_createdAt d) created" "created \<le> updated"
      using valid epoch_unique [OF times(2)] by (auto simp: validDeployment_def)
    then show ?thesis using times(1,3) order_trans by blast
  qed
  then show ?thesis
    using assms(2) by (auto simp: moves_def sameDeployment_def validDeployment_def intro: phase_next.intros split: option.splits)
qed

lemma writeFault_change:
  assumes "cs_deployments (pw_pilots w) (fi_deploymentId i) = Some (fq_deployment reads)" "dp_id (fq_deployment reads) = fi_deploymentId i"
  shows "wp (writeFault i effective reads a t) (\<lambda>_ w'. pilot_change (pw_pilots w) (pw_pilots w')) w"
proof -
  let ?d = "fq_deployment reads"
  let ?event = "buildCandidatePilotRecoveryFaultAuditEvent effective (dp_phase ?d) (xs_stateVersion (fq_state reads))"
  have written: "pilot_change (pw_pilots w) (appendAudit (fi_deploymentId i) ?event
      (setDeployment (?d\<lparr>dp_phase := PAUSED_FAULT, dp_updatedAt := fi_occurredAt effective\<rparr>) (pw_pilots w)))"
    if "isFaultPausablePhase (dp_phase ?d)" "validateCandidatePilotRecoveryFaultChronology (fi_occurredAt effective) ?d a = Inr u" for u
    by (rule pilot_change.moved [OF assms(1) fault_moves [OF that(2,1)]]) (simp_all add: buildCandidatePilotRecoveryFaultAuditEvent_def)
  show ?thesis
    unfolding writeFault_def Let_def wp_sbind wp_unit wp_basic onPilots_wp
    using written by (auto intro!: pilot_change.kept wp_mono [OF onOperatorStore_pilots] split: sum.splits)
qed

lemma settleFault_change:
  assumes "cs_deployments (pw_pilots w) (fi_deploymentId i) = Some (fq_deployment reads)" "dp_id (fq_deployment reads) = fi_deploymentId i"
  shows "wp (settleFault sha256 i intent reads) (\<lambda>_ w'. pilot_change (pw_pilots w) (pw_pilots w')) w"
  unfolding settleFault_def wp_sbind wp_basic
  by (auto simp: wp_basic intro!: pilot_change.kept writeFault_change assms split: sum.splits)

text \<open>
  A fault pause writes back the deployment it read before its awaits. Other callbacks may run during these: they change
  the pilot store by the changes above, and the condition is that they leave the record of this deployment alone.
\<close>

abbreviation pilot_changes :: "pilot_store \<Rightarrow> pilot_store \<Rightarrow> bool" where
  "pilot_changes \<equiv> pilot_change\<^sup>*\<^sup>*"

lemma change_keyed: "pilot_change p p' \<Longrightarrow> keyed p \<Longrightarrow> keyed p'"
  by (induction rule: pilot_change.induct)
    (auto simp: keyed_def moves_def sameDeployment_def insertDeploymentWithInitialState_def setDeployment_def appendAudit_def storeAdvance_def Let_def)

lemma changes_keyed: "pilot_changes p p' \<Longrightarrow> keyed p \<Longrightarrow> keyed p'"
  by (induction rule: rtranclp_induct) (auto intro: change_keyed)

definition leavesDeployment :: "string \<Rightarrow> (pilot_world \<Rightarrow> pilot_world) \<Rightarrow> bool" where
  "leavesDeployment ident others \<longleftrightarrow> (\<forall>w. keyed (pw_pilots w) \<longrightarrow> pilot_changes (pw_pilots w) (pw_pilots (others w)) \<and>
     cs_deployments (pw_pilots (others w)) ident = cs_deployments (pw_pilots w) ident)"

lemma fault_change:
  assumes "keyed (pw_pilots w)" "leavesDeployment (fi_deploymentId i) others1" "leavesDeployment (fi_deploymentId i) others2"
  shows "wp (pauseForRecoveryFaultSerialized sha256 others1 others2 i intent) (\<lambda>_ w'. pilot_changes (pw_pilots w) (pw_pilots w')) w"
proof -
  have settled: "wp (settleFault sha256 i intent reads) (\<lambda>_ w'. pilot_changes (pw_pilots w) (pw_pilots w')) (others2 u)"
    if u: "pw_pilots u = pw_pilots (others1 v)" "pw_pilots v = pw_pilots w"
      "cs_deployments (pw_pilots w) (fi_deploymentId i) = Some (fq_deployment reads)" for u v reads
  proof (rule wp_mono [OF settleFault_change])
    have first: "pilot_changes (pw_pilots w) (pw_pilots u)" "cs_deployments (pw_pilots u) (fi_deploymentId i) = cs_deployments (pw_pilots w) (fi_deploymentId i)"
      using assms(1,2) u(1,2) unfolding leavesDeployment_def by metis+
    then have second: "pilot_changes (pw_pilots u) (pw_pilots (others2 u))"
        "cs_deployments (pw_pilots (others2 u)) (fi_deploymentId i) = cs_deployments (pw_pilots u) (fi_deploymentId i)"
      using assms(3) changes_keyed [OF first(1) assms(1)] by (auto simp: leavesDeployment_def)
    show "cs_deployments (pw_pilots (others2 u)) (fi_deploymentId i) = Some (fq_deployment reads)" using first(2) second(2) u(3) by simp
    show "dp_id (fq_deployment reads) = fi_deploymentId i" using assms(1) u(3) by (simp add: keyed_def)
    show "pilot_changes (pw_pilots w) (pw_pilots w')" if "pilot_change (pw_pilots (others2 u)) (pw_pilots w')" for r w'
      using first(1) second(1) that by (meson rtranclp.rtrancl_into_rtrancl rtranclp_trans)
  qed
  have stopped: "pilot_changes (pw_pilots w) (pw_pilots u)" if "pw_pilots u = pw_pilots w" for u
    using that by simp
  have waiting: "pilot_changes (pw_pilots w) (pw_pilots u)" if "pw_pilots u = pw_pilots (others1 v)" "pw_pilots v = pw_pilots w" for u v
    using that assms(1,2) unfolding leavesDeployment_def by metis
  show ?thesis
    unfolding pauseForRecoveryFaultSerialized_def wp_sbind
    by (rule wp_mono [OF onOperatorStore_pilots])
      (auto simp: wp_basic wp_unit wp_sbind intro!: wp_mono [OF onOperatorStore_pilots] intro: stopped settled waiting split: sum.splits option.splits)
qed

subsection \<open>Steps of the repository\<close>

text \<open>
  The operations of the repository, candidate orders and whatever happens to the operator state. A fault pause is a step
  under the condition above on what runs during its awaits; without it the invariant can break.
\<close>

inductive pilot_step :: "(string \<Rightarrow> string) \<Rightarrow> collator \<Rightarrow> pilot_world \<Rightarrow> pilot_world \<Rightarrow> bool" for sha256 lc where
  create: "onPilots (createDeploymentWithInitialState i) w = (r, w') \<Longrightarrow> pilot_step sha256 lc w w'"
| initialize: "onPilots (initializeDeploymentWithInitialState lc i) w = (r, w') \<Longrightarrow> pilot_step sha256 lc w w'"
| activate: "ad_expectedPhase a = PENDING_FLAT \<Longrightarrow> onPilots (activateDeployment a) w = (r, w') \<Longrightarrow> pilot_step sha256 lc w w'"
| startRollback: "startRollback b w = (r, w') \<Longrightarrow> pilot_step sha256 lc w w'"
| completeRollback: "completeRollback b w = (r, w') \<Longrightarrow> pilot_step sha256 lc w w'"
| bindOrder: "onPilots (createExecutionBinding sha256 c) w = (r, w') \<Longrightarrow> pilot_step sha256 lc w w'"
| advance: "onPilots (advanceStateWithEvidence sha256 e) w = (r, w') \<Longrightarrow> pilot_step sha256 lc w w'"
| fault: "leavesDeployment (fi_deploymentId f) others1 \<Longrightarrow> leavesDeployment (fi_deploymentId f) others2 \<Longrightarrow>
    pauseForRecoveryFault sha256 others1 others2 f w = (r, w') \<Longrightarrow> pilot_step sha256 lc w w'"
| intentFault: "(\<And>f. validateCandidateIntentFaultInput sha256 g = Inr f \<Longrightarrow>
      leavesDeployment (fi_deploymentId f) others1 \<and> leavesDeployment (fi_deploymentId f) others2) \<Longrightarrow>
    pauseForCandidateIntentFault sha256 others1 others2 g w = (r, w') \<Longrightarrow> pilot_step sha256 lc w w'"
| boundOrder: "persistCandidateBoundOrderIntent sha256 configured q (s, candidate_store.truncate (pw_pilots w)) = (r, (s', c)) \<Longrightarrow>
    pilot_step sha256 lc w (w\<lparr>pw_pilots := (pw_pilots w)\<lparr>cs_deployments := cs_deployments c, cs_exactStates := cs_exactStates c,
      cs_bindings := cs_bindings c\<rparr>\<rparr>)"
| operator: "pilot_step sha256 lc w (w\<lparr>pw_operator := operator'\<rparr>)"

abbreviation pilot_steps :: "(string \<Rightarrow> string) \<Rightarrow> collator \<Rightarrow> pilot_world \<Rightarrow> pilot_world \<Rightarrow> bool" where
  "pilot_steps sha256 lc \<equiv> (pilot_step sha256 lc)\<^sup>*\<^sup>*"

text \<open>The write of a candidate order changes nothing of the pilot store but its bindings.\<close>

lemma bound_intent_bindings:
  assumes "persistCandidateBoundOrderIntent sha256 configured q (s, c) = (r, (s', c'))"
  shows "cs_deployments c' = cs_deployments c \<and> cs_exactStates c' = cs_exactStates c"
proof -
  have "wp (commitBinding b prepared) (\<lambda>_ c'. cs_deployments c' = cs_deployments c \<and> cs_exactStates c' = cs_exactStates c) c" for b prepared
    by (auto simp: commitBinding_def wp_simps Let_def)
  then have commit: "wp (onSnd (commitBinding b prepared)) (\<lambda>_ u. cs_deployments (snd u) = cs_deployments c \<and> cs_exactStates (snd u) = cs_exactStates c) (s, c)" for b prepared
    unfolding wp_def onSnd_def by (fastforce split: prod.splits)
  have "wp (persistCandidateBoundOrderIntent sha256 configured q) (\<lambda>_ u. cs_deployments (snd u) = cs_deployments c \<and> cs_exactStates (snd u) = cs_exactStates c) (s, c)"
    unfolding persistCandidateBoundOrderIntent_def storeCandidateIntent_def
    by (auto simp: wp_simps Let_def intro!: wp_mono [OF commit] split: sum.splits option.splits)
      (simp_all add: wp_def onFst_def split: prod.splits)
  from wpD [OF this assms] show ?thesis by simp
qed

lemma fault_pilots:
  assumes "keyed (pw_pilots w)"
  shows "leavesDeployment (fi_deploymentId f) others1 \<Longrightarrow> leavesDeployment (fi_deploymentId f) others2 \<Longrightarrow>
      wp (pauseForRecoveryFault sha256 others1 others2 f) (\<lambda>_ w'. pilot_changes (pw_pilots w) (pw_pilots w')) w"
    "(\<And>f. validateCandidateIntentFaultInput sha256 g = Inr f \<Longrightarrow>
        leavesDeployment (fi_deploymentId f) others1 \<and> leavesDeployment (fi_deploymentId f) others2) \<Longrightarrow>
      wp (pauseForCandidateIntentFault sha256 others1 others2 g) (\<lambda>_ w'. pilot_changes (pw_pilots w) (pw_pilots w')) w"
  unfolding pauseForRecoveryFault_def pauseForCandidateIntentFault_def wp_sbind wp_basic
  by (auto intro!: fault_change [OF assms] split: sum.splits)

lemma onPilots_change:
  "wp m (\<lambda>_. pilot_change (pw_pilots w)) (pw_pilots w) \<Longrightarrow> onPilots m w = (r, w') \<Longrightarrow> pilot_change (pw_pilots w) (pw_pilots w')"
  by (auto simp: wp_def onPilots_def split: prod.splits)

lemma step_changes:
  assumes "pilot_step sha256 lc w w'" "keyed (pw_pilots w)"
  shows "pilot_changes (pw_pilots w) (pw_pilots w')"
  using assms
proof cases
  case (boundOrder configured q s r s' c)
  have "cs_deployments c = cs_deployments (pw_pilots w)" "cs_exactStates c = cs_exactStates (pw_pilots w)"
    using bound_intent_bindings [OF boundOrder(2)] by (simp_all add: candidate_store.truncate_def)
  then show ?thesis using r_into_rtranclp [of pilot_change, OF pilot_change.bound [of "pw_pilots w" "cs_bindings c"]] boundOrder(1) by simp
next
  case (startRollback b r)
  show ?thesis by (rule r_into_rtranclp [of pilot_change, OF wpD [OF startRollback_change [OF assms(2)] startRollback]])
next
  case (completeRollback b r)
  show ?thesis by (rule r_into_rtranclp [of pilot_change, OF wpD [OF completeRollback_change [OF assms(2)] completeRollback]])
next
  case (fault f others1 others2 r)
  show ?thesis by (rule wpD [OF fault_pilots(1) [OF assms(2) fault(1,2)] fault(3)])
next
  case (intentFault g others1 others2 r)
  show ?thesis by (rule wpD [OF fault_pilots(2) [OF assms(2) intentFault(1)] intentFault(2)])
qed (auto intro!: r_into_rtranclp [of pilot_change] intro: create_change initialize_change activate_change binding_change advance_change pilot_change.kept onPilots_change assms(2))

subsection \<open>The invariant\<close>

text \<open>
  Of one deployment: it is valid and stored under its id, its exact state is the projection of its evidence and its
  version their number, no two pieces of evidence share an id, and its audit events form a chain of phases from the
  creation to the present phase.
\<close>

definition audit_trail :: "PositionGuardPilotPhase \<Rightarrow> PositionGuardPilotAuditEventRecord list \<Rightarrow> bool" where
  "audit_trail phase events \<longleftrightarrow> events \<noteq> [] \<and> au_fromPhase (hd events) = None \<and>
     successively (\<lambda>a b. au_fromPhase b = au_toPhase a) events \<and> au_toPhase (last events) = Some phase"

definition deployment_inv :: "pilot_store \<Rightarrow> string \<Rightarrow> PositionGuardPilotDeploymentRecord \<Rightarrow> bool" where
  "deployment_inv p ident d \<longleftrightarrow> dp_id d = ident \<and> validDeployment d \<and>
     (\<exists>state. cs_exactStates p ident = Some state \<and>
        projectExactCandidateState (map sv_evidence (evidenceOfDeployment ident p)) = Inr state \<and>
        xs_stateVersion state = int (length (evidenceOfDeployment ident p))) \<and>
     distinct (map (ce_evidenceId \<circ> sv_evidence) (evidenceOfDeployment ident p)) \<and>
     audit_trail (dp_phase d) (auditEventsOf ident p)"

definition pilot_inv :: "pilot_store \<Rightarrow> bool" where
  "pilot_inv p \<longleftrightarrow> distinct (pt_deploymentIds p) \<and> set (pt_deploymentIds p) = dom (cs_deployments p) \<and>
     (\<forall>ident d. cs_deployments p ident = Some d \<longrightarrow> deployment_inv p ident d) \<and>
     (\<forall>i j d e. cs_deployments p i = Some d \<longrightarrow> cs_deployments p j = Some e \<longrightarrow>
        dp_exchangeAccountId d = dp_exchangeAccountId e \<longrightarrow> i = j)"

lemma pilot_invI:
  assumes "distinct (pt_deploymentIds p)" "set (pt_deploymentIds p) = dom (cs_deployments p)"
    "\<And>ident d. cs_deployments p ident = Some d \<Longrightarrow> deployment_inv p ident d"
    "\<And>i j d e. cs_deployments p i = Some d \<Longrightarrow> cs_deployments p j = Some e \<Longrightarrow> dp_exchangeAccountId d = dp_exchangeAccountId e \<Longrightarrow> i = j"
  shows "pilot_inv p"
  unfolding pilot_inv_def using assms by blast

lemma pilot_invD:
  assumes "pilot_inv p"
  shows "distinct (pt_deploymentIds p)" "set (pt_deploymentIds p) = dom (cs_deployments p)"
    "cs_deployments p ident = Some d \<Longrightarrow> deployment_inv p ident d"
    "cs_deployments p i = Some d \<Longrightarrow> cs_deployments p j = Some e \<Longrightarrow> dp_exchangeAccountId d = dp_exchangeAccountId e \<Longrightarrow> i = j"
  using assms unfolding pilot_inv_def by blast+

lemma pilot_inv_keyed: "pilot_inv p \<Longrightarrow> keyed p"
  using pilot_invD(3) by (fastforce simp: keyed_def deployment_inv_def)

lemma empty_pilot_inv: "pilot_inv emptyPilots"
  by (simp add: pilot_inv_def emptyPilots_def)

lemma store_selectors [simp]:
  "cs_deployments (setDeployment d p) = (cs_deployments p)(dp_id d \<mapsto> d)" "cs_exactStates (setDeployment d p) = cs_exactStates p"
  "pt_evidence (setDeployment d p) = pt_evidence p" "pt_auditEvents (setDeployment d p) = pt_auditEvents p"
  "cs_deployments (appendAudit ident e p) = cs_deployments p" "cs_exactStates (appendAudit ident e p) = cs_exactStates p"
  "pt_evidence (appendAudit ident e p) = pt_evidence p" "pt_deploymentIds (appendAudit ident e p) = pt_deploymentIds p"
  "evidenceOfDeployment other (setDeployment d p) = evidenceOfDeployment other p"
  "evidenceOfDeployment other (appendAudit ident e p) = evidenceOfDeployment other p"
  "auditEventsOf other (setDeployment d p) = auditEventsOf other p"
  "auditEventsOf other (appendAudit ident e p) = (if other = ident then auditEventsOf ident p @ [e] else auditEventsOf other p)"
  by (simp_all add: setDeployment_def appendAudit_def evidenceOfDeployment_def auditEventsOf_def)

lemma audit_trail_snoc:
  "audit_trail phase events \<Longrightarrow> au_fromPhase e = Some phase \<Longrightarrow> au_toPhase e = Some phase' \<Longrightarrow> audit_trail phase' (events @ [e])"
  by (auto simp: audit_trail_def successively_append_iff)

lemma deploymentValues_set:
  "set (pt_deploymentIds p) = dom (cs_deployments p) \<Longrightarrow> set (deploymentValues p) = ran (cs_deployments p)"
  by (auto simp: deploymentValues_def List.map_filter_def ran_def dom_def image_def)

lemma insert_selectors [simp]:
  "cs_deployments (insertDeploymentWithInitialState d p) = (cs_deployments p)(dp_id d \<mapsto> d)"
  "cs_exactStates (insertDeploymentWithInitialState d p) = (cs_exactStates p)(dp_id d \<mapsto> createExactEmptyCandidateState)"
  "evidenceOfDeployment other (insertDeploymentWithInitialState d p) = (if other = dp_id d then [] else evidenceOfDeployment other p)"
  "auditEventsOf other (insertDeploymentWithInitialState d p) = (if other = dp_id d then [createdAuditEvent d] else auditEventsOf other p)"
  by (simp_all add: insertDeploymentWithInitialState_def evidenceOfDeployment_def auditEventsOf_def setDeployment_def)

lemma advance_selectors [simp]:
  "cs_deployments (storeAdvance ident phase m st st' p) = cs_deployments p" "pt_deploymentIds (storeAdvance ident phase m st st' p) = pt_deploymentIds p"
  "cs_exactStates (storeAdvance ident phase m st st' p) = (cs_exactStates p)(ident \<mapsto> st')"
  "evidenceOfDeployment other (storeAdvance ident phase m st st' p) =
     (if other = ident then evidenceOfDeployment ident p @ [storedEvidenceOf m] else evidenceOfDeployment other p)"
  "auditEventsOf other (storeAdvance ident phase m st st' p) =
     (if other = ident then auditEventsOf ident p @ [advancedAuditEvent ident phase m (xs_stateVersion st) (xs_stateVersion st')]
      else auditEventsOf other p)"
  by (simp_all add: storeAdvance_def evidenceOfDeployment_def auditEventsOf_def appendAudit_def)

lemma empty_projection: "projectExactCandidateState [] = Inr createExactEmptyCandidateState"
  by code_simp

lemma new_deployment_inv:
  assumes "validDeployment d"
  shows "deployment_inv (insertDeploymentWithInitialState d p) (dp_id d) d"
  using assms empty_projection
  by (simp add: deployment_inv_def audit_trail_def createdAuditEvent_def createExactEmptyCandidateState_def)

lemma other_deployment_inv:
  assumes "deployment_inv p other d" "other \<noteq> ident"
  shows "ident = dp_id d' \<Longrightarrow> deployment_inv (insertDeploymentWithInitialState d' p) other d"
    "ident = dp_id d' \<Longrightarrow> deployment_inv (appendAudit ident e (setDeployment d' p)) other d"
    "deployment_inv (storeAdvance ident phase m st st' p) other d"
  using assms by (auto simp: deployment_inv_def)

lemma account_unused:
  assumes "pilot_inv p" "validDeployment d" "\<not> list_ex (\<lambda>c. samePilot c d) (deploymentValues p)" "cs_deployments p ident = Some d'"
  shows "dp_exchangeAccountId d' \<noteq> dp_exchangeAccountId d"
proof -
  have "d' \<in> set (deploymentValues p)"
    using assms(4) deploymentValues_set [OF pilot_invD(2) [OF assms(1)]] by (auto simp: ran_def)
  moreover have "dp_pilotId d' = dp_pilotId d"
    using pilot_invD(3) [OF assms(1,4)] assms(2) by (simp add: deployment_inv_def validDeployment_def)
  ultimately show ?thesis using assms(3) by (auto simp: list_ex_iff samePilot_def)
qed

lemma change_inv: "pilot_change p p' \<Longrightarrow> pilot_inv p \<Longrightarrow> pilot_inv p'"
proof (induction rule: pilot_change.induct)
  case (added d p)
  let ?p = "insertDeploymentWithInitialState d p"
  have ids: "pt_deploymentIds ?p = pt_deploymentIds p @ [dp_id d]"
    using added(2) by (simp add: insertDeploymentWithInitialState_def setDeployment_def)
  show ?case
  proof (rule pilot_invI)
    show "distinct (pt_deploymentIds ?p)" "set (pt_deploymentIds ?p) = dom (cs_deployments ?p)"
      using ids added(2) pilot_invD(1,2) [OF added(4)] by auto
    show "deployment_inv ?p ident e" if "cs_deployments ?p ident = Some e" for ident e
      using that pilot_invD(3) [OF added(4)] new_deployment_inv [OF added(1)] other_deployment_inv(1) [of p ident e "dp_id d" d]
      by (cases "ident = dp_id d") auto
    show "i = j" if "cs_deployments ?p i = Some x" "cs_deployments ?p j = Some y" "dp_exchangeAccountId x = dp_exchangeAccountId y" for i j x y
    proof (cases "i = dp_id d \<or> j = dp_id d")
      case True
      then show ?thesis using that account_unused [OF added(4,1,3), of i x] account_unused [OF added(4,1,3), of j y]
        by (cases "i = j") auto
    next
      case False
      then show ?thesis using that pilot_invD(4) [OF added(4), of i x j y] by simp
    qed
  qed
next
  case (moved p ident d d' event)
  have d: "deployment_inv p ident d" by (rule pilot_invD(3) [OF moved(5,1)])
  have same: "dp_id d' = ident" "dp_exchangeAccountId d' = dp_exchangeAccountId d" "validDeployment d'"
    using d moved(2) by (auto simp: moves_def sameDeployment_def deployment_inv_def)
  let ?p = "appendAudit ident event (setDeployment d' p)"
  have new: "deployment_inv ?p ident d'"
    using d same moved(3,4) by (auto simp: deployment_inv_def intro: audit_trail_snoc)
  show ?case
  proof (rule pilot_invI)
    show "distinct (pt_deploymentIds ?p)" "set (pt_deploymentIds ?p) = dom (cs_deployments ?p)"
      using moved(1) same(1) pilot_invD(1,2) [OF moved(5)] by (auto simp: setDeployment_def)
    show "deployment_inv ?p other e" if "cs_deployments ?p other = Some e" for other e
    proof (cases "other = ident")
      case True
      then show ?thesis using that new same(1) by simp
    next
      case False
      then have "cs_deployments p other = Some e" using that same(1) by simp
      from other_deployment_inv(2) [OF pilot_invD(3) [OF moved(5) this] False same(1) [symmetric]] show ?thesis .
    qed
    show "i = j" if xy: "cs_deployments ?p i = Some x" "cs_deployments ?p j = Some y" "dp_exchangeAccountId x = dp_exchangeAccountId y" for i j x y
    proof -
      obtain x' y' where "cs_deployments p i = Some x'" "cs_deployments p j = Some y'"
          "dp_exchangeAccountId x' = dp_exchangeAccountId x" "dp_exchangeAccountId y' = dp_exchangeAccountId y"
        using xy(1,2) moved(1) same(1,2) by (simp split: if_splits)
      then show ?thesis using xy(3) pilot_invD(4) [OF moved(5)] by metis
    qed
  qed
next
  case (advanced p ident d state material state')
  have d: "deployment_inv p ident d" by (rule pilot_invD(3) [OF advanced(6,1)])
  have fresh: "ce_evidenceId (sv_evidence (storedEvidenceOf material)) \<notin> set (map (ce_evidenceId \<circ> sv_evidence) (evidenceOfDeployment ident p))"
    using advanced(3) by (auto simp: find_None_iff storedEvidenceOf_def)
  have "deployment_inv (storeAdvance ident (dp_phase d) material state state' p) ident d"
    using d advanced(2,4,5) fresh by (auto simp: deployment_inv_def advancedAuditEvent_def intro: audit_trail_snoc)
  then have "deployment_inv (storeAdvance ident (dp_phase d) material state state' p) other e" if "cs_deployments p other = Some e" for other e
    using that advanced(1) pilot_invD(3) [OF advanced(6)] other_deployment_inv(3) [of p other e ident "dp_phase d" material state state']
    by (cases "other = ident") auto
  then show ?case using pilot_invD(1,2,4) [OF advanced(6)] by (intro pilot_invI) simp_all
next
  case (bound p bs)
  have "deployment_inv (p\<lparr>cs_bindings := bs\<rparr>) ident d \<longleftrightarrow> deployment_inv p ident d" for ident d
    by (simp add: deployment_inv_def evidenceOfDeployment_def auditEventsOf_def)
  then show ?case using pilot_invD [OF bound] by (intro pilot_invI) simp_all
qed

lemma changes_inv: "pilot_changes p p' \<Longrightarrow> pilot_inv p \<Longrightarrow> pilot_inv p'"
  by (induction rule: rtranclp_induct) (auto intro: change_inv)

lemma steps_inv: "pilot_steps sha256 lc w w' \<Longrightarrow> pilot_inv (pw_pilots w) \<Longrightarrow> pilot_inv (pw_pilots w')"
proof (induction rule: rtranclp_induct)
  case (step u v)
  then show ?case using changes_inv step_changes pilot_inv_keyed by blast
qed

subsection \<open>What a deployment goes through\<close>

definition finalPhase :: "PositionGuardPilotPhase \<Rightarrow> bool" where
  "finalPhase phase \<longleftrightarrow> phase = PHASE_DISABLED \<or> phase = PAUSED_FAULT"

definition continues :: "string \<Rightarrow> pilot_store \<Rightarrow> pilot_store \<Rightarrow> bool" where
  "continues ident p p' \<longleftrightarrow> (\<forall>d. cs_deployments p ident = Some d \<longrightarrow>
     (\<exists>d'. cs_deployments p' ident = Some d' \<and> sameDeployment d d' \<and> phase_next\<^sup>*\<^sup>* (dp_phase d) (dp_phase d') \<and>
        (finalPhase (dp_phase d) \<longrightarrow> d' = d)) \<and>
     prefix (auditEventsOf ident p) (auditEventsOf ident p') \<and> prefix (evidenceOfDeployment ident p) (evidenceOfDeployment ident p'))"

lemma final_phase_next: "phase_next x y \<Longrightarrow> \<not> finalPhase x"
  by (induction rule: phase_next.induct) (auto simp: finalPhase_def isRollbackCompletablePhase_def isFaultPausablePhase_def)

lemma continues_refl [simp]: "continues ident p p"
  by (auto simp: continues_def)

lemma continues_trans: "continues ident p q \<Longrightarrow> continues ident q r \<Longrightarrow> continues ident p r"
proof (unfold continues_def, intro allI impI, goal_cases)
  case (1 d)
  from 1(1,3) obtain e where e: "cs_deployments q ident = Some e" "sameDeployment d e" "phase_next\<^sup>*\<^sup>* (dp_phase d) (dp_phase e)"
      "finalPhase (dp_phase d) \<longrightarrow> e = d" "prefix (auditEventsOf ident p) (auditEventsOf ident q)"
      "prefix (evidenceOfDeployment ident p) (evidenceOfDeployment ident q)"
    by blast
  from 1(2) e(1) obtain f where "cs_deployments r ident = Some f" "sameDeployment e f" "phase_next\<^sup>*\<^sup>* (dp_phase e) (dp_phase f)"
      "finalPhase (dp_phase e) \<longrightarrow> f = e" "prefix (auditEventsOf ident q) (auditEventsOf ident r)"
      "prefix (evidenceOfDeployment ident q) (evidenceOfDeployment ident r)"
    by blast
  with e(2-) show ?case
    by (auto intro: exI [of _ f] sameDeployment_trans prefix_order.order_trans)
qed

lemma change_continues:
  assumes "pilot_change p p'" "pilot_inv p"
  shows "continues ident p p'"
  using assms
proof (induction rule: pilot_change.induct)
  case (moved p other d d' event)
  have "dp_id d = other" using pilot_invD(3) [OF moved(5,1)] by (simp add: deployment_inv_def)
  then have "dp_id d' = other" using moved(2) by (simp add: moves_def sameDeployment_def)
  then show ?case using moved(1,2) by (auto simp: continues_def moves_def dest: final_phase_next)
next
  case (bound p bs)
  show ?case by (auto simp: continues_def evidenceOfDeployment_def auditEventsOf_def)
qed (auto simp: continues_def)

lemma changes_continue: "pilot_changes p p' \<Longrightarrow> pilot_inv p \<Longrightarrow> continues ident p p'"
proof (induction rule: rtranclp_induct)
  case (step q r)
  then show ?case using change_continues changes_inv continues_trans by blast
qed simp

lemma steps_continue: "pilot_steps sha256 lc w w' \<Longrightarrow> pilot_inv (pw_pilots w) \<Longrightarrow> continues ident (pw_pilots w) (pw_pilots w')"
proof (induction rule: rtranclp_induct)
  case (step u v)
  have "pilot_inv (pw_pilots u)" using steps_inv step.hyps(1) step.prems by blast
  then have "continues ident (pw_pilots u) (pw_pilots v)"
    using changes_continue step_changes [OF step.hyps(2)] pilot_inv_keyed by blast
  then show ?case using step.IH [OF step.prems] continues_trans by blast
qed simp

subsection \<open>Rollback\<close>

lemma flat_rollback_effect:
  assumes "keyed p" "completeRollbackUnderAuthority i p = (r, p')" "p' \<noteq> p"
  shows "\<exists>d state. cs_deployments p (rb_deploymentId i) = Some d \<and> cs_exactStates p (rb_deploymentId i) = Some state \<and>
    isRollbackCompletablePhase (dp_phase d) \<and> isExactCandidateStateRollbackFlat state \<and>
    dp_exchangeAccountId d = ro2_exchangeAccountId (rb_expectedOperatorState i) \<and>
    cs_deployments p' (rb_deploymentId i) = Some (d\<lparr>dp_phase := PHASE_DISABLED, dp_updatedAt := rb_transitionAt i\<rparr>)"
proof -
  have "wp (completeRollbackUnderAuthority i) (\<lambda>_ q. q = p \<or> (\<exists>d state. cs_deployments p (rb_deploymentId i) = Some d \<and>
      cs_exactStates p (rb_deploymentId i) = Some state \<and> isRollbackCompletablePhase (dp_phase d) \<and> isExactCandidateStateRollbackFlat state \<and>
      dp_exchangeAccountId d = ro2_exchangeAccountId (rb_expectedOperatorState i) \<and>
      cs_deployments q (rb_deploymentId i) = Some (d\<lparr>dp_phase := PHASE_DISABLED, dp_updatedAt := rb_transitionAt i\<rparr>))) p"
    using assms(1) unfolding completeRollbackUnderAuthority_def writeRollback_def Let_def keyed_def
    by (auto simp: wp_simps split: sum.splits option.splits)
  from wpD [OF this assms(2)] assms(3) show ?thesis by blast
qed

end
