(* ===== verification/PilotProperties.thy ===== *)
theory PilotProperties
  imports PilotLifecycle
begin

section \<open>Properties of the pilot repository\<close>

text \<open>
  What the repository promises its callers: the invariant and the state machine over any sequence of its operations, the
  authority a rollback needs, evidence and faults that may be presented again, and the one interleaving that breaks the
  state machine.
\<close>

subsection \<open>The operations in detail\<close>

lemma authority_effect:
  assumes "underRollbackAuthority i operation w = (r, w')" "w' \<noteq> w"
  shows "\<exists>operator x p'. pw_operator w = Some operator \<and> stopped (op_state operator) \<and>
    st_exchangeAccountId (op_state operator) = ro2_exchangeAccountId (rb_expectedOperatorState i) \<and>
    operation (pw_pilots w) = (x, p') \<and> w' = w\<lparr>pw_pilots := p'\<rparr>"
  using assms
  by (auto simp: underRollbackAuthority_def runWithCandidatePilotRollbackAuthority_def sbind_def onPilots_def stopped_def
      validateCandidatePilotRollbackOperatorState_def matchesCandidatePilotRollbackOperatorState_def res_simps
      split: option.splits sum.splits prod.splits if_splits)

lemma world_eta: "w\<lparr>pw_pilots := pw_pilots w\<rparr> = w"
  by simp

subsection \<open>Evidence presented again\<close>

lemma material_id: "candidateEvidenceMaterial sha256 ident e = Inr m \<Longrightarrow> ce_evidenceId (cm_evidence m) = ce_evidenceId e"
  by (auto simp: candidateEvidenceMaterial_def res_simps)

lemma advance_Inr:
  assumes "advanceStateWithEvidence sha256 i p = (Inr x, p')"
  shows "\<exists>d m current. isSafeInteger (ai_expectedStateVersion i) \<and> 0 \<le> ai_expectedStateVersion i \<and>
    cs_deployments p' (ai_deploymentId i) = Some d \<and> cs_exactStates p' (ai_deploymentId i) = Some current \<and>
    candidateEvidenceMaterial sha256 (ai_deploymentId i) (ai_evidence i) = Inr m \<and>
    (\<exists>item. find (\<lambda>item. ce_evidenceId (sv_evidence item) = ce_evidenceId (cm_evidence m)) (evidenceOfDeployment (ai_deploymentId i) p') = Some item \<and>
       sv_materialHash item = cm_hash m \<and> sv_materialVersion item = ''EXACT_V2'') \<and>
    advanceAnswer current m (ar_duplicate x) = Inr x"
proof -
  have found: "find Q (xs @ [y]) = Some y" if "find Q xs = None" "Q y" for Q :: "StoredEvidence \<Rightarrow> bool" and xs y
    using that by (induction xs) (auto split: if_splits)
  have "wp (advanceStateWithEvidence sha256 i) (\<lambda>r p'. \<forall>x. r = Inr x \<longrightarrow> (\<exists>d m current. isSafeInteger (ai_expectedStateVersion i) \<and>
      0 \<le> ai_expectedStateVersion i \<and> cs_deployments p' (ai_deploymentId i) = Some d \<and> cs_exactStates p' (ai_deploymentId i) = Some current \<and>
      candidateEvidenceMaterial sha256 (ai_deploymentId i) (ai_evidence i) = Inr m \<and>
      (\<exists>item. find (\<lambda>item. ce_evidenceId (sv_evidence item) = ce_evidenceId (cm_evidence m)) (evidenceOfDeployment (ai_deploymentId i) p') = Some item \<and>
         sv_materialHash item = cm_hash m \<and> sv_materialVersion item = ''EXACT_V2'') \<and>
      advanceAnswer current m (ar_duplicate x) = Inr x)) p"
    unfolding advanceStateWithEvidence_def
    by (auto simp: wp_simps found storedEvidenceOf_def advanceAnswer_def res_simps split: sum.splits option.splits)
  from wpD [OF this assms] show ?thesis by blast
qed

subsection \<open>Faults\<close>

lemma onPilots_eq_Inr: "onPilots m w = (Inr x, w') \<longleftrightarrow> (\<exists>p. m (pw_pilots w) = (Inr x, p) \<and> w' = w\<lparr>pw_pilots := p\<rparr>)"
  by (auto simp: onPilots_def split: prod.splits)

lemma onOperator_eq_Inr:
  "onOperatorStore m w = (Inr x, w') \<longleftrightarrow>
   (\<exists>operator operator'. pw_operator w = Some operator \<and> m operator = (Inr x, operator') \<and> w' = w\<lparr>pw_operator := Some operator'\<rparr>)"
  by (auto simp: onOperatorStore_def split: prod.splits option.splits)

lemma readOperator_eq_Inr: "onOperatorStore (sget f) w = (Inr x, w') \<longleftrightarrow> (\<exists>operator. pw_operator w = Some operator \<and> x = f operator \<and> w' = w)"
  by (cases w) (auto simp: onOperator_eq_Inr sget_def)

lemma onOperator_read: "pw_operator w = Some operator \<Longrightarrow> onOperatorStore (sget f) w = (Inr (f operator), w)"
  by (cases w) (simp add: onOperatorStore_def sget_def)

definition faultPauseOf ::
  "PauseCandidatePilotForRecoveryFaultInput \<Rightarrow> PauseCandidatePilotForRecoveryFaultInput \<Rightarrow> string \<Rightarrow> FaultPauseInput" where
  "faultPauseOf input effective transitionAt = \<lparr>fp_exchangeAccountId = fi_exchangeAccountId input, fp_faultId = fi_faultId input,
     fp_reason = candidatePilotRecoveryFaultReason effective, fp_occurredAt = fi_occurredAt effective, fp_transitionAt = Some transitionAt\<rparr>"

lemma writeFault_Inr:
  assumes "writeFault i effective reads a t w = (Inr x, w')"
  shows "\<exists>operator operator'. pw_operator w = Some operator \<and>
    applyFaultPauseAtomically (faultPauseOf i effective t) operator = (Inr (fr_executionState x), operator') \<and> \<not> fr_duplicate x \<and>
    isFaultPausablePhase (dp_phase (fq_deployment reads)) \<and>
    validateCandidatePilotRecoveryFaultChronology (fi_occurredAt effective) (fq_deployment reads) a = Inr () \<and>
    fr_deployment x = (fq_deployment reads)\<lparr>dp_phase := PAUSED_FAULT, dp_updatedAt := fi_occurredAt effective\<rparr> \<and>
    fr_auditEvent x = buildCandidatePilotRecoveryFaultAuditEvent effective (dp_phase (fq_deployment reads)) (xs_stateVersion (fq_state reads)) \<and>
    w' = \<lparr>pw_pilots = appendAudit (fi_deploymentId i) (fr_auditEvent x) (setDeployment (fr_deployment x) (pw_pilots w)),
      pw_operator = Some operator'\<rparr>"
  using assms unfolding writeFault_def Let_def
  by (auto simp: res_simps onPilots_eq_Inr onOperator_eq_Inr faultPauseOf_def)

lemma settleFault_Inr:
  assumes "settleFault sha256 i intent reads w = (Inr x, w')"
  shows "\<exists>latest effective t. efold laterAudit None (auditEventsOf (fi_deploymentId i) (pw_pilots w)) = Inr latest \<and>
    effectiveFault sha256 i intent reads latest = Inr effective \<and>
    deriveFaultPauseTransitionAt (fi_occurredAt effective) (st_updatedAt (fq_executionState reads)) = Inr t \<and>
    (if fq_existingAudit reads \<noteq> None \<or> fq_existingTransition reads \<noteq> None
     then repeatedFault i effective reads = Inr x \<and> w' = w
     else writeFault i effective reads (map_option au_createdAt latest) t w = (Inr x, w'))"
  using assms unfolding settleFault_def by (auto simp: res_simps split: if_splits)

lemma repeated_duplicate: "repeatedFault i effective reads = Inr x \<Longrightarrow> fr_duplicate x"
  by (auto simp: repeatedFault_def Let_def res_simps split: option.splits)

lemma fault_settles:
  assumes "pauseForRecoveryFaultSerialized sha256 others1 others2 i intent w = (Inr x, w')"
  shows "\<exists>operator d state u reads. pw_operator w = Some operator \<and> cs_deployments (pw_pilots w) (fi_deploymentId i) = Some d \<and>
    cs_exactStates (pw_pilots w) (fi_deploymentId i) = Some state \<and> dp_exchangeAccountId d = fi_exchangeAccountId i \<and>
    pw_operator (others1 w) = Some u \<and>
    reads = \<lparr>fq_deployment = d, fq_state = state,
      fq_existingAudit = find (\<lambda>event. au_id event = fi_faultId i) (auditEventsOf (fi_deploymentId i) (pw_pilots w)),
      fq_existingTransition = getTransitionById (fi_faultId i) operator, fq_executionState = op_state u\<rparr> \<and>
    settleFault sha256 i intent reads (others2 (others1 w)) = (Inr x, w')"
  using assms unfolding pauseForRecoveryFaultSerialized_def
  by (cases "cs_deployments (pw_pilots w) (fi_deploymentId i)"; cases "cs_exactStates (pw_pilots w) (fi_deploymentId i)")
    (auto simp: res_simps readOperator_eq_Inr getState_def)

lemma fault_run:
  assumes "pw_operator w = Some operator" "cs_deployments (pw_pilots w) (fi_deploymentId i) = Some d"
    "cs_exactStates (pw_pilots w) (fi_deploymentId i) = Some state" "dp_exchangeAccountId d = fi_exchangeAccountId i" "pw_operator (others1 w) = Some u"
  shows "pauseForRecoveryFaultSerialized sha256 others1 others2 i intent w =
    settleFault sha256 i intent \<lparr>fq_deployment = d, fq_state = state,
      fq_existingAudit = find (\<lambda>event. au_id event = fi_faultId i) (auditEventsOf (fi_deploymentId i) (pw_pilots w)),
      fq_existingTransition = getTransitionById (fi_faultId i) operator, fq_executionState = op_state u\<rparr> (others2 (others1 w))"
  unfolding pauseForRecoveryFaultSerialized_def sbind_def
  using assms by (simp add: onOperator_read sguard_run getState_def)

lemma fault_pauses_serialized:
  assumes "pauseForRecoveryFaultSerialized sha256 others1 others2 i intent w = (Inr x, w')" "\<not> fr_duplicate x" "keyed (pw_pilots w)"
  shows "(\<exists>operator. pw_operator w' = Some operator \<and> stopped (op_state operator) \<and> fr_executionState x = op_state operator) \<and>
    cs_deployments (pw_pilots w') (fi_deploymentId i) = Some (fr_deployment x) \<and> dp_phase (fr_deployment x) = PAUSED_FAULT \<and>
    last (auditEventsOf (fi_deploymentId i) (pw_pilots w')) = fr_auditEvent x"
proof -
  obtain d reads where reads: "cs_deployments (pw_pilots w) (fi_deploymentId i) = Some d" "fq_deployment reads = d"
      "settleFault sha256 i intent reads (others2 (others1 w)) = (Inr x, w')"
    using fault_settles [OF assms(1)] by (metis fault_reads.select_convs(1))
  obtain effective t a where "writeFault i effective reads a t (others2 (others1 w)) = (Inr x, w')"
    using settleFault_Inr [OF reads(3)] assms(2) repeated_duplicate by (metis (full_types))
  from writeFault_Inr [OF this] obtain operator operator' where wr:
      "applyFaultPauseAtomically (faultPauseOf i effective t) operator = (Inr (fr_executionState x), operator')"
      "fr_deployment x = d\<lparr>dp_phase := PAUSED_FAULT, dp_updatedAt := fi_occurredAt effective\<rparr>"
      "w' = \<lparr>pw_pilots = appendAudit (fi_deploymentId i) (fr_auditEvent x) (setDeployment (fr_deployment x) (pw_pilots (others2 (others1 w)))),
        pw_operator = Some operator'\<rparr>"
    using reads(2) by blast
  have "stopped (op_state operator') \<and> fr_executionState x = op_state operator'"
    using wr(1) by (cases rule: applyFaultPause_cases) (auto simp: recordTransition_def)
  moreover have "dp_id d = fi_deploymentId i" using reads(1) assms(3) by (simp add: keyed_def)
  ultimately show ?thesis using wr(2,3) by simp
qed

subsection \<open>The properties\<close>

text \<open>
  C9. Whatever operations of the repository, candidate orders and operator commands are made, and in whatever order, the
  pilot store keeps its invariant: each deployment is valid and stored under its id, an account has one deployment, the
  exact state is the projection of the stored evidence and its version the number of its pieces, evidence ids are unique,
  and the audit events of a deployment are a chain of phases from its creation to its present phase. The condition is that
  no callback that runs while a fault pause awaits changes the record of the deployment being paused; other changes of the
  pilot store are allowed there. Without it, a rollback that completes meanwhile is overwritten (\<open>PilotWitnesses\<close>).
\<close>

theorem pilot_store_invariant:
  assumes "pilot_steps sha256 lc w w'" and "pilot_inv (pw_pilots w)"
  shows "pilot_inv (pw_pilots w')"
  using assms by (rule steps_inv)

text \<open>
  C10. The state machine of a deployment, under the condition of the invariant above: as long as no callback that runs
  while a fault pause awaits changes the record of the deployment being paused, a deployment keeps its identity, its
  creation and, once set, its activation; its phase moves only along PENDING_FLAT, ACTIVE, DRAINING towards DISABLED or
  PAUSED_FAULT, where the record no longer changes; its audit events and its evidence are only appended to.
\<close>

theorem deployment_lifecycle:
  assumes "pilot_steps sha256 lc w w'" and "pilot_inv (pw_pilots w)"
  shows "continues ident (pw_pilots w) (pw_pilots w')"
  using assms by (rule steps_continue)

text \<open>
  C11. A rollback completes only under the authority of a stopped operator state of the deployment's account, and only when
  the exact ledger is flat; then the deployment is disabled.
\<close>
theorem rollback_completes_flat:
  assumes "completeRollback i w = (r, w')" and "w' \<noteq> w" and "pilot_inv (pw_pilots w)"
  shows "\<exists>operator d state. pw_operator w = Some operator \<and> stopped (op_state operator) \<and>
    st_exchangeAccountId (op_state operator) = dp_exchangeAccountId d \<and>
    cs_deployments (pw_pilots w) (rb_deploymentId i) = Some d \<and> cs_exactStates (pw_pilots w) (rb_deploymentId i) = Some state \<and>
    isExactCandidateStateRollbackFlat state \<and> isRollbackCompletablePhase (dp_phase d) \<and>
    cs_deployments (pw_pilots w') (rb_deploymentId i) = Some (d\<lparr>dp_phase := PHASE_DISABLED, dp_updatedAt := rb_transitionAt i\<rparr>)"
proof -
  obtain j where "validateCandidatePilotRollbackInput i = Inr j"
    using assms(1,2) by (cases "validateCandidatePilotRollbackInput i") (auto simp: completeRollback_def sbind_def slift_def)
  then have "underRollbackAuthority i (completeRollbackUnderAuthority i) w = (r, w')"
    using assms(1) rollback_input [of i j] by (simp add: completeRollback_def sbind_def slift_def)
  from authority_effect [OF this assms(2)] obtain operator x p' where op: "pw_operator w = Some operator" "stopped (op_state operator)"
      "st_exchangeAccountId (op_state operator) = ro2_exchangeAccountId (rb_expectedOperatorState i)"
      "completeRollbackUnderAuthority i (pw_pilots w) = (x, p')" "w' = w\<lparr>pw_pilots := p'\<rparr>"
    by blast
  then have "p' \<noteq> pw_pilots w" using assms(2) by auto
  from flat_rollback_effect [OF pilot_inv_keyed [OF assms(3)] op(4) this] op show ?thesis by auto
qed

text \<open>
  C13. Evidence that was accepted may be presented again: the answer is the same, marked as a duplicate, and nothing is stored.
\<close>
theorem evidence_retry_idempotent:
  assumes "advanceStateWithEvidence sha256 i p = (Inr x, p')"
  shows "advanceStateWithEvidence sha256 i p' = (Inr (x\<lparr>ar_duplicate := True\<rparr>), p')"
proof -
  obtain d m current item where a: "isSafeInteger (ai_expectedStateVersion i)" "0 \<le> ai_expectedStateVersion i"
      "cs_deployments p' (ai_deploymentId i) = Some d" "cs_exactStates p' (ai_deploymentId i) = Some current"
      "candidateEvidenceMaterial sha256 (ai_deploymentId i) (ai_evidence i) = Inr m"
      "find (\<lambda>item. ce_evidenceId (sv_evidence item) = ce_evidenceId (cm_evidence m)) (evidenceOfDeployment (ai_deploymentId i) p') = Some item"
      "sv_materialHash item = cm_hash m" "sv_materialVersion item = ''EXACT_V2''" "advanceAnswer current m (ar_duplicate x) = Inr x"
    using advance_Inr [OF assms] by blast
  have "advanceAnswer current m True = Inr (x\<lparr>ar_duplicate := True\<rparr>)"
    using a(9) by (cases x) (auto simp: advanceAnswer_def res_simps)
  then show ?thesis
    using a by (simp add: advanceStateWithEvidence_def sbind_def sguard_run sget_def slift_def)
qed

text \<open>
  C12. A fault that is not a repetition stops both: afterwards the deployment is in PAUSED_FAULT, the operator state is PAUSED or
  KILL_SWITCHED, and the last audit event of the deployment is that of the fault, whatever other callbacks did meanwhile.
\<close>
theorem fault_pauses_both:
  assumes "pauseForRecoveryFault sha256 others1 others2 i w = (Inr x, w')" and "\<not> fr_duplicate x" and "pilot_inv (pw_pilots w)"
  shows "(\<exists>operator. pw_operator w' = Some operator \<and> stopped (op_state operator) \<and> fr_executionState x = op_state operator) \<and>
    cs_deployments (pw_pilots w') (fi_deploymentId i) = Some (fr_deployment x) \<and> dp_phase (fr_deployment x) = PAUSED_FAULT \<and>
    last (auditEventsOf (fi_deploymentId i) (pw_pilots w')) = fr_auditEvent x"
proof -
  have "pauseForRecoveryFaultSerialized sha256 others1 others2 i None w = (Inr x, w')"
    using assms(1) by (auto simp: pauseForRecoveryFault_def res_simps)
  from fault_pauses_serialized [OF this assms(2) pilot_inv_keyed [OF assms(3)]] show ?thesis .
qed

subsection \<open>A fault reported again\<close>

lemma laterAudit_snoc:
  assumes "efold laterAudit None audits = Inr latest" "epochOf (au_createdAt e) n"
    "\<And>l. latest = Some l \<Longrightarrow> \<exists>k. epochOf (au_createdAt l) k"
  shows "\<exists>latest'. efold laterAudit None (audits @ [e]) = Inr latest'"
proof (cases latest)
  case (Some l)
  then obtain k where "epochOf (au_createdAt l) k" using assms(3) by blast
  then show ?thesis
    using assms(1,2) Some by (simp add: efold_append laterAudit_def flip: epoch_label [of _ "''candidate audit createdAt''"])
qed (use assms(1) in \<open>simp add: efold_append laterAudit_def\<close>)

lemma strict_label: "parseStrictIsoTimestamp t l = Inr n \<Longrightarrow> parseStrictIsoTimestamp t l' = Inr n"
  by (simp add: strict_timestamp_iff)

lemma pause_time_parses:
  assumes "validateFaultPauseTimestamp i st = Inr t"
  shows "\<exists>n. parseStrictIsoTimestamp t l = Inr n"
proof -
  from assms obtain a b where ab: "parseStrictIsoTimestamp (case fp_transitionAt i of None \<Rightarrow> fp_occurredAt i | Some u \<Rightarrow> u) ''transitionAt'' = Inr a"
      "parseStrictIsoTimestamp (st_updatedAt st) ''current updatedAt'' = Inr b"
      "t = (if a < b then st_updatedAt st else case fp_transitionAt i of None \<Rightarrow> fp_occurredAt i | Some u \<Rightarrow> u)"
    by (auto simp: validateFaultPauseTimestamp_def Let_def res_simps)
  show ?thesis
    by (cases "a < b") (use ab(3) strict_label [OF ab(1), of l] strict_label [OF ab(2), of l] in auto)
qed

lemma find_snoc: "find Q xs = None \<Longrightarrow> Q y \<Longrightarrow> find Q (xs @ [y]) = Some y"
  by (induction xs) (auto split: if_splits)

lemma first_fault:
  assumes "pauseForRecoveryFaultSerialized sha256 (\<lambda>w. w) (\<lambda>w. w) i None w = (Inr x, w')" "\<not> fr_duplicate x" "keyed (pw_pilots w)"
  shows "pauseForRecoveryFaultSerialized sha256 (\<lambda>w. w) (\<lambda>w. w) i None w' = (Inr (x\<lparr>fr_duplicate := True\<rparr>), w')"
proof -
  obtain operator d state reads where reads: "pw_operator w = Some operator" "cs_deployments (pw_pilots w) (fi_deploymentId i) = Some d"
      "cs_exactStates (pw_pilots w) (fi_deploymentId i) = Some state" "dp_exchangeAccountId d = fi_exchangeAccountId i"
      "reads = \<lparr>fq_deployment = d, fq_state = state,
        fq_existingAudit = find (\<lambda>event. au_id event = fi_faultId i) (auditEventsOf (fi_deploymentId i) (pw_pilots w)),
        fq_existingTransition = getTransitionById (fi_faultId i) operator, fq_executionState = op_state operator\<rparr>"
      "settleFault sha256 i None reads w = (Inr x, w')"
    using fault_settles [OF assms(1)] by auto
  have ident: "dp_id d = fi_deploymentId i" using reads(2) assms(3) by (simp add: keyed_def)
  obtain latest t where settled: "efold laterAudit None (auditEventsOf (fi_deploymentId i) (pw_pilots w)) = Inr latest"
      "deriveFaultPauseTransitionAt (fi_occurredAt i) (st_updatedAt (op_state operator)) = Inr t"
      "find (\<lambda>event. au_id event = fi_faultId i) (auditEventsOf (fi_deploymentId i) (pw_pilots w)) = None"
      "getTransitionById (fi_faultId i) operator = None"
      "writeFault i i reads (map_option au_createdAt latest) t w = (Inr x, w')"
    using settleFault_Inr [OF reads(6)] assms(2) reads(5) repeated_duplicate
    by (fastforce simp: effectiveFault_def split: if_splits)
  obtain operator' where wr: "applyFaultPauseAtomically (faultPauseOf i i t) operator = (Inr (fr_executionState x), operator')"
      "isFaultPausablePhase (dp_phase d)"
      "validateCandidatePilotRecoveryFaultChronology (fi_occurredAt i) d (map_option au_createdAt latest) = Inr ()"
      "fr_deployment x = d\<lparr>dp_phase := PAUSED_FAULT, dp_updatedAt := fi_occurredAt i\<rparr>"
      "fr_auditEvent x = buildCandidatePilotRecoveryFaultAuditEvent i (dp_phase d) (xs_stateVersion state)"
      "w' = \<lparr>pw_pilots = appendAudit (fi_deploymentId i) (fr_auditEvent x) (setDeployment (fr_deployment x) (pw_pilots w)), pw_operator = Some operator'\<rparr>"
    using writeFault_Inr [OF settled(5)] reads(1,5) by auto
  have op: "op_state operator' = fr_executionState x" "stopped (fr_executionState x)"
      "\<exists>n. parseStrictIsoTimestamp (st_updatedAt (fr_executionState x)) ''current updatedAt'' = Inr n"
      "\<exists>tr. getTransitionById (fi_faultId i) operator' = Some tr \<and> tr_command tr = AUTOMATIC_PAUSE \<and>
        tr_exchangeAccountId tr = fi_exchangeAccountId i \<and>
        tr_reason tr = Some (''faultId='' @ fi_faultId i @ ''; reason='' @ candidatePilotRecoveryFaultReason i)"
    using wr(1) settled(4) pause_time_parses
    by (cases rule: applyFaultPause_cases;
        auto simp: faultPauseOf_def recordTransition_def getTransitionById_def transitionOf_def formatFaultPauseReason_def)+
  then obtain n tr where tr: "parseStrictIsoTimestamp (st_updatedAt (fr_executionState x)) ''current updatedAt'' = Inr n"
      "getTransitionById (fi_faultId i) operator' = Some tr" "tr_command tr = AUTOMATIC_PAUSE" "tr_exchangeAccountId tr = fi_exchangeAccountId i"
      "tr_reason tr = Some (''faultId='' @ fi_faultId i @ ''; reason='' @ candidatePilotRecoveryFaultReason i)"
    by blast
  obtain k where k: "parseStrictIsoTimestamp (fi_occurredAt i) ''occurredAt'' = Inr k"
    using settled(2) by (auto simp: deriveFaultPauseTransitionAt_def res_simps)
  obtain t' where t': "deriveFaultPauseTransitionAt (fi_occurredAt i) (st_updatedAt (fr_executionState x)) = Inr t'"
    using tr(1) k by (simp add: deriveFaultPauseTransitionAt_def)
  obtain m where m: "epochOf (fi_occurredAt i) m"
      "\<And>l. latest = Some l \<Longrightarrow> \<exists>k. epochOf (au_createdAt l) k"
    using wr(3) by (cases latest) (auto simp: validateCandidatePilotRecoveryFaultChronology_def res_simps epoch_label)
  have audit: "au_createdAt (fr_auditEvent x) = fi_occurredAt i" "au_id (fr_auditEvent x) = fi_faultId i"
      "au_fromPhase (fr_auditEvent x) = Some (dp_phase d)"
    by (simp_all add: wr(5) buildCandidatePilotRecoveryFaultAuditEvent_def)
  obtain latest' where latest': "efold laterAudit None (auditEventsOf (fi_deploymentId i) (pw_pilots w) @ [fr_auditEvent x]) = Inr latest'"
    using laterAudit_snoc [OF settled(1), of "fr_auditEvent x" m] m audit(1) by auto
  have found: "find (\<lambda>event. au_id event = fi_faultId i) (auditEventsOf (fi_deploymentId i) (pw_pilots w) @ [fr_auditEvent x]) = Some (fr_auditEvent x)"
    by (rule find_snoc [OF settled(3) audit(2)])
  let ?reads = "\<lparr>fq_deployment = fr_deployment x, fq_state = state, fq_existingAudit = Some (fr_auditEvent x),
    fq_existingTransition = Some tr, fq_executionState = fr_executionState x\<rparr>"
  have repeated: "repeatedFault i i ?reads = Inr (x\<lparr>fr_duplicate := True\<rparr>)"
    using wr(2,4,5) audit(3) op(2) tr(3-5) by (cases x) (auto simp: repeatedFault_def stopped_def throw_if_def)
  have "settleFault sha256 i None ?reads w' = (Inr (x\<lparr>fr_duplicate := True\<rparr>), w')"
    using latest' t' repeated by (simp add: settleFault_def sbind_def sget_def slift_def wr(6) effectiveFault_def)
  then show ?thesis
    using fault_run [of w' operator' i "fr_deployment x" state "\<lambda>w. w" operator' sha256 "\<lambda>w. w" None]
      reads(3,4) ident wr(4,6) op(1) tr(2) found
    by simp
qed

text \<open>
  A fault may be reported again: when no other callback runs meanwhile, the answer is that of the first report, marked as a
  duplicate, and nothing is stored.
\<close>
theorem fault_retry_idempotent:
  assumes "pauseForRecoveryFault sha256 (\<lambda>w. w) (\<lambda>w. w) i w = (Inr x, w')" and "\<not> fr_duplicate x" and "pilot_inv (pw_pilots w)"
  shows "pauseForRecoveryFault sha256 (\<lambda>w. w) (\<lambda>w. w) i w' = (Inr (x\<lparr>fr_duplicate := True\<rparr>), w')"
proof -
  have run: "validateCandidatePilotRecoveryFaultInput i = Inr ()" "pauseForRecoveryFaultSerialized sha256 (\<lambda>w. w) (\<lambda>w. w) i None w = (Inr x, w')"
    using assms(1) by (auto simp: pauseForRecoveryFault_def res_simps)
  from first_fault [OF run(2) assms(2) pilot_inv_keyed [OF assms(3)]] run(1) show ?thesis
    by (simp add: pauseForRecoveryFault_def sbind_def slift_def)
qed

end
