(* ===== verification/PilotWitnesses.thy ===== *)
theory PilotWitnesses
  imports PilotProperties
begin

section \<open>A deployment on concrete data\<close>

text \<open>
  A deployment that is created, activated, advanced by evidence, rolled back and faulted, on which the properties of
  \<open>PilotProperties\<close> are applied, and the interleaving in which a fault pause overwrites a completed rollback.
\<close>

definition pilotDeployment :: PositionGuardPilotDeploymentRecord where
  "pilotDeployment = \<lparr>dp_id = ''d1'', dp_exchangeAccountId = ''a'', dp_pilotId = PILOT_ID, dp_market = KRW_BTC, dp_policyId = POLICY_ID,
     dp_policyVersion = POLICY_VERSION, dp_phase = PENDING_FLAT, dp_activationAt = None, dp_activationEpochNs = None,
     dp_createdAt = ''2026-08-20T00:00:00Z'', dp_updatedAt = ''2026-08-20T00:00:00Z''\<rparr>"

definition pausedOperator :: operator_store where
  "pausedOperator = newOperatorStateStore \<lparr>st_id = ''s'', st_exchangeAccountId = ''a'', st_executionMode = DRY_RUN,
     st_liveExecutionGate = DISABLED, st_systemStatus = PAUSED, st_killSwitchActive = False, st_pauseReason = None,
     st_degradedReason = None, st_degradedAt = None, st_updatedAt = ''2026-08-20T00:00:00Z''\<rparr>"

definition emptyWorld :: pilot_world where
  "emptyWorld = \<lparr>pw_pilots = emptyPilots, pw_operator = Some pausedOperator\<rparr>"

definition createInput :: CreateCandidatePilotDeploymentInput where
  "createInput = \<lparr>cd_deployment = pilotDeployment, cd_initialState = createEmptyPositionGuardCandidateState\<rparr>"

definition activateInput :: ActivateCandidatePilotDeploymentInput where
  "activateInput = \<lparr>ad_deploymentId = ''d1'', ad_expectedPhase = PENDING_FLAT, ad_expectedUpdatedAt = ''2026-08-20T00:00:00Z'',
     ad_activationAt = ''2026-08-20T01:00:00Z'', ad_activationEpochNs = 1787187600000000000\<rparr>"

definition createdWorld :: pilot_world where
  "createdWorld = emptyWorld\<lparr>pw_pilots := insertDeploymentWithInitialState pilotDeployment emptyPilots\<rparr>"

definition activeDeployment :: PositionGuardPilotDeploymentRecord where
  "activeDeployment = activatedDeployment activateInput pilotDeployment"

definition activeWorld :: pilot_world where
  "activeWorld = emptyWorld\<lparr>pw_pilots := appendAudit ''d1'' (activationAuditEvent activateInput pilotDeployment 0)
     (setDeployment activeDeployment (pw_pilots createdWorld))\<rparr>"

definition hexHash :: "string \<Rightarrow> string" where
  "hexHash s = ''00''"

definition advanceInput :: AdvanceCandidatePilotStateInput where
  "advanceInput = \<lparr>ai_deploymentId = ''d1'', ai_expectedStateVersion = 0, ai_evidence = sampleEnter\<rparr>"

definition rollbackInput :: CandidatePilotRollbackInput where
  "rollbackInput = \<lparr>rb_deploymentId = ''d1'', rb_expectedPhase = ACTIVE, rb_expectedUpdatedAt = ''2026-08-20T01:00:00Z'',
     rb_expectedStateVersion = 0,
     rb_expectedOperatorState = \<lparr>ro2_id = ''s'', ro2_exchangeAccountId = ''a'', ro2_systemStatus = PAUSED, ro2_updatedAt = ''2026-08-20T00:00:00Z''\<rparr>,
     rb_transitionAt = ''2026-08-20T02:00:00Z'', rb_transitionEpochNs = 1787191200000000000\<rparr>"

definition recoveryFault :: PauseCandidatePilotForRecoveryFaultInput where
  "recoveryFault = \<lparr>fi_deploymentId = ''d1'', fi_exchangeAccountId = ''a'', fi_faultId = ''f1'', fi_reasonCode = ''ACTIVE_ORDER'',
     fi_provenanceJson = ''{}'', fi_occurredAt = ''2026-08-20T03:00:00Z''\<rparr>"

definition phaseIn :: "pilot_world \<Rightarrow> PositionGuardPilotPhase option" where
  "phaseIn w = map_option dp_phase (cs_deployments (pw_pilots w) ''d1'')"

lemma create_valid: "validateCandidatePilotDeployment pilotDeployment = Inr pilotDeployment"
  by code_simp

lemma activation_valid: "validateActivationInput activateInput pilotDeployment = Inr ()"
  by code_simp

lemma created: "onPilots (createDeploymentWithInitialState createInput) emptyWorld = (Inr pilotDeployment, createdWorld)"
proof -
  have "validatePositionGuardCandidateState createEmptyPositionGuardCandidateState = Inr ()"
    using empty_routing_wf by (simp add: validatePositionGuardCandidateState_def validated_iff)
  moreover have "isPristineInitialState createEmptyPositionGuardCandidateState" by code_simp
  ultimately have "validateInitialDeployment createInput = Inr pilotDeployment"
    by (simp add: validateInitialDeployment_def createInput_def create_valid throw_if_def)
  then show ?thesis
    by (simp add: createDeploymentWithInitialState_def onPilots_def sbind_def slift_def sget_def sguard_run smodify_def sreturn_def
        createdWorld_def emptyWorld_def emptyPilots_def deploymentValues_def List.map_filter_def)
qed

lemma createdWorld_select [simp]:
  "cs_deployments (pw_pilots createdWorld) = [''d1'' \<mapsto> pilotDeployment]"
  "cs_exactStates (pw_pilots createdWorld) = [''d1'' \<mapsto> createExactEmptyCandidateState]" "pw_operator createdWorld = Some pausedOperator"
  by (simp_all add: createdWorld_def emptyWorld_def emptyPilots_def pilotDeployment_def)

lemma pilotDeployment_select [simp]:
  "dp_id pilotDeployment = ''d1''" "dp_phase pilotDeployment = PENDING_FLAT" "dp_updatedAt pilotDeployment = ''2026-08-20T00:00:00Z''"
  "dp_activationAt pilotDeployment = None" "dp_activationEpochNs pilotDeployment = None" "dp_exchangeAccountId pilotDeployment = ''a''"
  by (simp_all add: pilotDeployment_def)

lemma activeDeployment_select [simp]:
  "dp_id activeDeployment = ''d1''" "dp_phase activeDeployment = ACTIVE" "dp_updatedAt activeDeployment = ''2026-08-20T01:00:00Z''"
  "dp_exchangeAccountId activeDeployment = ''a''"
  by (simp_all add: activeDeployment_def activatedDeployment_def activateInput_def)

lemma activeWorld_select [simp]:
  "cs_deployments (pw_pilots activeWorld) = [''d1'' \<mapsto> activeDeployment]"
  "cs_exactStates (pw_pilots activeWorld) = [''d1'' \<mapsto> createExactEmptyCandidateState]" "pw_operator activeWorld = Some pausedOperator"
  "evidenceOfDeployment ''d1'' (pw_pilots activeWorld) = []"
  "auditEventsOf ''d1'' (pw_pilots activeWorld) = [createdAuditEvent pilotDeployment, activationAuditEvent activateInput pilotDeployment 0]"
  by (simp_all add: activeWorld_def emptyWorld_def createdWorld_def emptyPilots_def)

lemma activated: "onPilots (activateDeployment activateInput) createdWorld = (Inr (Some activeDeployment), activeWorld)"
  using activation_valid
  by (simp add: activateDeployment_def onPilots_def sbind_def slift_def sget_def smodify_def sreturn_def activateInput_def
      activeWorld_def activeDeployment_def createExactEmptyCandidateState_def)
    (simp add: createdWorld_def emptyWorld_def)

lemma sample_steps: "pilot_steps hexHash lc emptyWorld activeWorld"
proof -
  have "pilot_step hexHash lc emptyWorld createdWorld" by (rule pilot_step.create [OF created])
  moreover have "pilot_step hexHash lc createdWorld activeWorld"
    by (rule pilot_step.activate [OF _ activated]) (simp add: activateInput_def)
  ultimately show ?thesis by (blast intro: rtranclp.rtrancl_into_rtrancl r_into_rtranclp)
qed

lemma empty_world_inv: "pilot_inv (pw_pilots emptyWorld)"
  using empty_pilot_inv by (simp add: emptyWorld_def)

lemma active_world_inv: "pilot_inv (pw_pilots activeWorld)"
  by (rule steps_inv [OF sample_steps empty_world_inv])

subsection \<open>A rollback and a fault\<close>

lemma rollback_valid: "validateCandidatePilotRollbackInput rollbackInput = Inr rollbackInput"
  by code_simp

lemma rollback_operator: "validateCandidatePilotRollbackOperatorState (rb_expectedOperatorState rollbackInput) = Inr (rb_expectedOperatorState rollbackInput)"
  by code_simp

lemma rollback_times:
  "validateCandidatePilotRollbackChronology (rb_transitionEpochNs rollbackInput) activeDeployment createExactEmptyCandidateState = Inr ()"
  by code_simp

lemma rollback_flat: "isExactCandidateStateRollbackFlat createExactEmptyCandidateState"
  by code_simp

definition disabledDeployment :: PositionGuardPilotDeploymentRecord where
  "disabledDeployment = activeDeployment\<lparr>dp_phase := PHASE_DISABLED, dp_updatedAt := rb_transitionAt rollbackInput\<rparr>"

lemma disabled_valid: "validateCandidatePilotDeployment disabledDeployment = Inr disabledDeployment"
  by code_simp

definition disabledWorld :: pilot_world where
  "disabledWorld = activeWorld\<lparr>pw_pilots := appendAudit ''d1''
     (buildCandidatePilotRollbackAuditEvent rollbackInput ROLLBACK_COMPLETED ACTIVE PHASE_DISABLED 0)
     (setDeployment disabledDeployment (pw_pilots activeWorld))\<rparr>"

lemma rolled_back: "completeRollback rollbackInput activeWorld = (Inr (Some disabledDeployment), disabledWorld)"
proof -
  have fields: "rb_deploymentId rollbackInput = ''d1''" "rb_expectedPhase rollbackInput = ACTIVE" "rb_expectedStateVersion rollbackInput = 0"
      "rb_expectedUpdatedAt rollbackInput = ''2026-08-20T01:00:00Z''" "ro2_exchangeAccountId (rb_expectedOperatorState rollbackInput) = ''a''"
    by (simp_all add: rollbackInput_def)
  have under: "completeRollbackUnderAuthority rollbackInput (pw_pilots activeWorld) = (Inr (Some disabledDeployment), pw_pilots disabledWorld)"
    using rollback_times rollback_flat disabled_valid
    by (simp add: completeRollbackUnderAuthority_def writeRollback_def sbind_def slift_def sget_def smodify_def sreturn_def sguard_run
        fields isRollbackCompletablePhase_def disabledWorld_def disabledDeployment_def createExactEmptyCandidateState_def Let_def)
  have "matchesCandidatePilotRollbackOperatorState (op_state pausedOperator) (rb_expectedOperatorState rollbackInput) ''a''"
    by code_simp
  then show ?thesis
    using under rollback_operator
    by (simp add: completeRollback_def underRollbackAuthority_def runWithCandidatePilotRollbackAuthority_def sbind_def slift_def
        rollback_valid fields onPilots_def sreturn_def)
      (simp add: disabledWorld_def)
qed

lemma disabled_changed: "disabledWorld \<noteq> activeWorld"
proof
  assume "disabledWorld = activeWorld"
  then have "cs_deployments (pw_pilots disabledWorld) ''d1'' = cs_deployments (pw_pilots activeWorld) ''d1''" by simp
  then have "disabledDeployment = activeDeployment" by (simp add: disabledWorld_def disabledDeployment_def)
  then have "dp_phase disabledDeployment = dp_phase activeDeployment" by simp
  then show False by (simp add: disabledDeployment_def)
qed

theorem pilot_store_invariant_witness: "pilot_steps hexHash (\<lambda>a b. 0) emptyWorld activeWorld \<and> pilot_inv (pw_pilots activeWorld)"
  using pilot_store_invariant [OF sample_steps empty_world_inv] sample_steps by blast

theorem deployment_lifecycle_witness:
  "\<exists>d. cs_deployments (pw_pilots createdWorld) ''d1'' = Some pilotDeployment \<and> cs_deployments (pw_pilots disabledWorld) ''d1'' = Some d \<and>
     dp_phase d = PHASE_DISABLED \<and> sameDeployment pilotDeployment d \<and> phase_next\<^sup>*\<^sup>* PENDING_FLAT PHASE_DISABLED"
proof -
  have first: "pilot_step hexHash (\<lambda>a b. 0) emptyWorld createdWorld" by (rule pilot_step.create [OF created])
  have "pilot_steps hexHash (\<lambda>a b. 0) createdWorld disabledWorld"
    using pilot_step.activate [OF _ activated, of hexHash "\<lambda>a b. 0"] pilot_step.completeRollback [OF rolled_back, of hexHash "\<lambda>a b. 0"]
    by (auto simp: activateInput_def intro: converse_rtranclp_into_rtranclp)
  from deployment_lifecycle [OF this steps_inv [OF r_into_rtranclp [of "pilot_step hexHash (\<lambda>a b. 0)", OF first] empty_world_inv], of "''d1''"]
  show ?thesis by (auto simp: continues_def disabledWorld_def disabledDeployment_def)
qed

theorem rollback_completes_flat_witness:
  "\<exists>operator. pw_operator activeWorld = Some operator \<and> stopped (op_state operator) \<and>
     cs_deployments (pw_pilots disabledWorld) ''d1'' = Some disabledDeployment"
  using rollback_completes_flat [OF rolled_back disabled_changed active_world_inv]
  by (auto simp: rollbackInput_def disabledDeployment_def)

subsection \<open>Evidence\<close>

definition advanceRun :: "AdvanceCandidatePilotStateResult res \<times> pilot_store" where
  "advanceRun = advanceStateWithEvidence hexHash advanceInput (pw_pilots activeWorld)"

definition enterMaterial :: CandidateEvidenceMaterial where
  "enterMaterial = projr (candidateEvidenceMaterial hexHash ''d1'' sampleEnter)"

lemma enter_material: "candidateEvidenceMaterial hexHash ''d1'' sampleEnter = Inr enterMaterial"
proof -
  have "\<not> isl (candidateEvidenceMaterial hexHash ''d1'' sampleEnter)" by code_simp
  then show ?thesis by (simp add: enterMaterial_def)
qed

lemma enter_evidence: "cm_evidence enterMaterial = sampleEnter"
  by code_simp

lemma enter_projection: "projectExactCandidateState [sampleEnter] = Inr sampleOpen"
  by code_simp

lemma enter_routing: "\<exists>x. toPositionGuardCandidateRoutingState sampleOpen = Inr x"
proof -
  have "\<not> isl (toPositionGuardCandidateRoutingState sampleOpen)" by code_simp
  then show ?thesis by (cases "toPositionGuardCandidateRoutingState sampleOpen") simp_all
qed

lemma safe_zero: "isSafeInteger 0" by code_simp

lemma advanced_once: "\<exists>x. advanceRun = (Inr x, snd advanceRun) \<and> \<not> ar_duplicate x"
proof -
  obtain y where "toPositionGuardCandidateRoutingState sampleOpen = Inr y" using enter_routing by blast
  then show ?thesis
    using enter_material enter_evidence enter_projection safe_zero
    by (simp add: advanceRun_def advanceStateWithEvidence_def sbind_def slift_def sget_def sguard_run smodify_def advanceInput_def
        advanceAnswer_def storedEvidenceOf_def createExactEmptyCandidateState_def sampleOpen_def)
qed

theorem evidence_retry_idempotent_witness:
  "\<exists>x p'. advanceStateWithEvidence hexHash advanceInput (pw_pilots activeWorld) = (Inr x, p') \<and> \<not> ar_duplicate x \<and>
     advanceStateWithEvidence hexHash advanceInput p' = (Inr (x\<lparr>ar_duplicate := True\<rparr>), p')"
proof -
  obtain x where x: "advanceRun = (Inr x, snd advanceRun)" "\<not> ar_duplicate x" using advanced_once by blast
  then have "advanceStateWithEvidence hexHash advanceInput (pw_pilots activeWorld) = (Inr x, snd advanceRun)" by (simp add: advanceRun_def)
  from evidence_retry_idempotent [OF this] this x(2) show ?thesis by blast
qed

subsection \<open>A fault\<close>

lemma fault_input_valid: "validateCandidatePilotRecoveryFaultInput recoveryFault = Inr ()"
  by code_simp

definition faultReads :: fault_reads where
  "faultReads = \<lparr>fq_deployment = activeDeployment, fq_state = createExactEmptyCandidateState, fq_existingAudit = None,
     fq_existingTransition = None, fq_executionState = op_state pausedOperator\<rparr>"

lemma fault_transition: "deriveFaultPauseTransitionAt (fi_occurredAt recoveryFault) (st_updatedAt (op_state pausedOperator)) = Inr (fi_occurredAt recoveryFault)"
  by code_simp

lemma fault_applied: "\<not> isl (fst (applyFaultPauseAtomically (faultPauseOf recoveryFault recoveryFault (fi_occurredAt recoveryFault)) pausedOperator))"
  by code_simp

lemma fault_chronology:
  "validateCandidatePilotRecoveryFaultChronology (fi_occurredAt recoveryFault) activeDeployment (Some (rb_transitionAt rollbackInput)) = Inr ()"
  "validateCandidatePilotRecoveryFaultChronology (fi_occurredAt recoveryFault) activeDeployment (Some (ad_activationAt activateInput)) = Inr ()"
  by code_simp+

lemma latest_audits:
  "efold laterAudit None [createdAuditEvent pilotDeployment, activationAuditEvent activateInput pilotDeployment 0] =
     Inr (Some (activationAuditEvent activateInput pilotDeployment 0))"
  by code_simp

lemma latest_audits_disabled:
  "efold laterAudit None [createdAuditEvent pilotDeployment, activationAuditEvent activateInput pilotDeployment 0,
      buildCandidatePilotRollbackAuditEvent rollbackInput ROLLBACK_COMPLETED ACTIVE PHASE_DISABLED 0] =
     Inr (Some (buildCandidatePilotRollbackAuditEvent rollbackInput ROLLBACK_COMPLETED ACTIVE PHASE_DISABLED 0))"
  by code_simp

text \<open>The pause goes through when the audit log at its end is that of a world with the given latest event.\<close>

lemma fault_goes_through:
  assumes "efold laterAudit None (auditEventsOf ''d1'' (pw_pilots (others w))) = Inr (Some latest)"
    "validateCandidatePilotRecoveryFaultChronology (fi_occurredAt recoveryFault) activeDeployment (Some (au_createdAt latest)) = Inr ()"
    "w = activeWorld" "pw_operator (others w) = Some pausedOperator"
  shows "\<exists>x w'. pauseForRecoveryFault hexHash others (\<lambda>w. w) recoveryFault w = (Inr x, w') \<and> \<not> fr_duplicate x"
proof -
  obtain st operator' where pause: "applyFaultPauseAtomically (faultPauseOf recoveryFault recoveryFault (fi_occurredAt recoveryFault)) pausedOperator = (Inr st, operator')"
    using fault_applied by (metis isl_def prod.collapse sum.exhaust)
  have fields: "fi_deploymentId recoveryFault = ''d1''" "fi_exchangeAccountId recoveryFault = ''a''" "fi_faultId recoveryFault = ''f1''"
    by (simp_all add: recoveryFault_def)
  have none: "find (\<lambda>event. au_id event = ''f1'') (auditEventsOf ''d1'' (pw_pilots activeWorld)) = None"
      "getTransitionById ''f1'' pausedOperator = None"
    by (simp_all add: createdAuditEvent_def activationAuditEvent_def getTransitionById_def pausedOperator_def newOperatorStateStore_def)
  have "\<exists>x w'. settleFault hexHash recoveryFault None faultReads (others w) = (Inr x, w') \<and> \<not> fr_duplicate x"
    using assms(1,2,4) pause fault_transition
    by (simp add: settleFault_def writeFault_def sbind_def sget_def slift_def sguard_run smodify_def sreturn_def effectiveFault_def faultReads_def
        fields onOperatorStore_def onPilots_def isFaultPausablePhase_def faultPauseOf_def Let_def)
  moreover have "pauseForRecoveryFaultSerialized hexHash others (\<lambda>w. w) recoveryFault None activeWorld =
      settleFault hexHash recoveryFault None faultReads (others activeWorld)"
    using fault_run [of activeWorld pausedOperator recoveryFault activeDeployment createExactEmptyCandidateState others pausedOperator hexHash
      "\<lambda>w. w" None] assms(3,4)
    unfolding fields none by (simp add: faultReads_def)
  ultimately show ?thesis
    using assms(3) fault_input_valid by (simp add: pauseForRecoveryFault_def sbind_def slift_def)
qed

lemma quiet_fault: "\<exists>x w'. pauseForRecoveryFault hexHash (\<lambda>w. w) (\<lambda>w. w) recoveryFault activeWorld = (Inr x, w') \<and> \<not> fr_duplicate x"
  by (rule fault_goes_through [where latest = "activationAuditEvent activateInput pilotDeployment 0"])
    (use latest_audits fault_chronology(2) in \<open>simp_all add: activationAuditEvent_def\<close>)

theorem fault_pauses_both_witness:
  "\<exists>x w'. pauseForRecoveryFault hexHash (\<lambda>w. w) (\<lambda>w. w) recoveryFault activeWorld = (Inr x, w') \<and>
     cs_deployments (pw_pilots w') ''d1'' = Some (fr_deployment x) \<and> dp_phase (fr_deployment x) = PAUSED_FAULT"
proof -
  obtain x w' where "pauseForRecoveryFault hexHash (\<lambda>w. w) (\<lambda>w. w) recoveryFault activeWorld = (Inr x, w')" "\<not> fr_duplicate x"
    using quiet_fault by blast
  from fault_pauses_both [OF this active_world_inv] this(1) show ?thesis by (auto simp: recoveryFault_def)
qed

theorem fault_retry_idempotent_witness:
  "\<exists>x w'. pauseForRecoveryFault hexHash (\<lambda>w. w) (\<lambda>w. w) recoveryFault activeWorld = (Inr x, w') \<and>
     pauseForRecoveryFault hexHash (\<lambda>w. w) (\<lambda>w. w) recoveryFault w' = (Inr (x\<lparr>fr_duplicate := True\<rparr>), w')"
proof -
  obtain x w' where "pauseForRecoveryFault hexHash (\<lambda>w. w) (\<lambda>w. w) recoveryFault activeWorld = (Inr x, w')" "\<not> fr_duplicate x"
    using quiet_fault by blast
  from fault_retry_idempotent [OF this active_world_inv] this(1) show ?thesis by blast
qed

subsection \<open>A fault pause beside a rollback\<close>

definition besideRollback :: "pilot_world \<Rightarrow> pilot_world" where
  "besideRollback w = snd (completeRollback rollbackInput w)"

lemma rollback_beside: "pilot_step sha256 lc w (besideRollback w)"
  by (rule pilot_step.completeRollback [of rollbackInput w "fst (completeRollback rollbackInput w)"]) (simp add: besideRollback_def)

text \<open>
  C17. The two serializations do not exclude each other: a fault pause writes back the deployment it read before its awaits. A
  rollback that completes meanwhile is overwritten: the disabled deployment ends in PAUSED_FAULT, although DISABLED is
  a final phase of every operation on its own, and its last audit event leaves from ACTIVE.
\<close>
theorem fault_overwrites_rollback:
  "\<exists>w others f x w'. pilot_inv (pw_pilots w) \<and> (\<forall>u. pilot_step hexHash (\<lambda>a b. 0) u (others u)) \<and>
     pauseForRecoveryFault hexHash others (\<lambda>w. w) f w = (Inr x, w') \<and>
     map_option dp_phase (cs_deployments (pw_pilots (others w)) (fi_deploymentId f)) = Some PHASE_DISABLED \<and>
     map_option dp_phase (cs_deployments (pw_pilots w') (fi_deploymentId f)) = Some PAUSED_FAULT"
proof -
  have beside: "besideRollback activeWorld = disabledWorld" by (simp add: besideRollback_def rolled_back)
  have audits: "auditEventsOf ''d1'' (pw_pilots disabledWorld) = [createdAuditEvent pilotDeployment,
      activationAuditEvent activateInput pilotDeployment 0,
      buildCandidatePilotRollbackAuditEvent rollbackInput ROLLBACK_COMPLETED ACTIVE PHASE_DISABLED 0]"
    by (simp add: disabledWorld_def)
  have "\<exists>x w'. pauseForRecoveryFault hexHash besideRollback (\<lambda>w. w) recoveryFault activeWorld = (Inr x, w') \<and> \<not> fr_duplicate x"
    by (rule fault_goes_through [where latest = "buildCandidatePilotRollbackAuditEvent rollbackInput ROLLBACK_COMPLETED ACTIVE PHASE_DISABLED 0"])
      (use latest_audits_disabled fault_chronology(1) audits beside in
        \<open>simp_all add: disabledWorld_def buildCandidatePilotRollbackAuditEvent_def\<close>)
  then obtain x w' where run: "pauseForRecoveryFault hexHash besideRollback (\<lambda>w. w) recoveryFault activeWorld = (Inr x, w')" "\<not> fr_duplicate x"
    by blast
  then have "pauseForRecoveryFaultSerialized hexHash besideRollback (\<lambda>w. w) recoveryFault None activeWorld = (Inr x, w')"
    by (auto simp: pauseForRecoveryFault_def res_simps)
  from fault_pauses_serialized [OF this run(2) pilot_inv_keyed [OF active_world_inv]] run(1) beside rollback_beside active_world_inv
  show ?thesis
    by (intro exI [of _ activeWorld] exI [of _ besideRollback] exI [of _ recoveryFault] exI [of _ x] exI [of _ w'])
      (simp add: recoveryFault_def disabledWorld_def disabledDeployment_def)
qed

end
