(* ===== verification/TelegramReplies.thy ===== *)
theory TelegramReplies
  imports JsNumber "HOL-Library.Sublist"
begin

section \<open>Splitting a reply to the operator\<close>

text \<open>
  \<open>splitTelegramReplyText\<close> of \<open>src/src/modules/telegram/inbound.ts\<close>: a reply longer than a message may be is cut,
  at a line break where one is late enough. The loop is a \<open>partial_function\<close>, so that a text it never finishes would
  be \<open>None\<close>. A length is a rational number, since the code truncates it; a string is a list of code units up to 255.
\<close>

definition MAX_INBOUND_REPLY_TEXT_LENGTH :: rat where
  "MAX_INBOUND_REPLY_TEXT_LENGTH = 3500"

definition normalizedMaxLength :: "rat \<Rightarrow> nat" where
  "normalizedMaxLength maxLength = nat (max 1 (if maxLength < 0 then \<lceil>maxLength\<rceil> else \<lfloor>maxLength\<rfloor>))"

text \<open>\<open>lastIndexOf("\n", position)\<close> and \<open>trimEnd\<close>.\<close>

definition lastNewline :: "string \<Rightarrow> nat \<Rightarrow> int" where
  "lastNewline s position =
     (case find (\<lambda>i. s ! i = CHR 0x0A) (rev [0..<min (Suc position) (length s)]) of None \<Rightarrow> - 1 | Some i \<Rightarrow> int i)"

definition trimEnd :: "string \<Rightarrow> string" where
  "trimEnd s = rev (dropWhile is_js_space (rev s))"

definition splitPoint :: "nat \<Rightarrow> string \<Rightarrow> nat" where
  "splitPoint maximum remaining =
     (let splitAt = lastNewline remaining maximum in if splitAt \<le> int (maximum div 2) then maximum else nat splitAt)"

definition splitChunk :: "nat \<Rightarrow> string \<Rightarrow> string" where
  "splitChunk maximum remaining =
     (let chunk = trimEnd (take (splitPoint maximum remaining) remaining)
      in if chunk = [] then take maximum remaining else chunk)"

definition splitRest :: "nat \<Rightarrow> string \<Rightarrow> string" where
  "splitRest maximum remaining =
     (case drop (splitPoint maximum remaining) remaining of [] \<Rightarrow> []
      | c # cs \<Rightarrow> if c = CHR 0x0A then cs else c # cs)"

partial_function (option) splitLoop :: "nat \<Rightarrow> string list \<Rightarrow> string \<Rightarrow> string list option" where
  "splitLoop maximum chunks remaining =
     (if maximum < length remaining
      then splitLoop maximum (chunks @ [splitChunk maximum remaining]) (splitRest maximum remaining)
      else Some (if remaining = [] then chunks else chunks @ [remaining]))"

definition splitTelegramReplyText :: "string \<Rightarrow> rat \<Rightarrow> string list option" where
  "splitTelegramReplyText text maxLength =
     (let maximum = normalizedMaxLength maxLength
      in if length text \<le> maximum then Some [text] else splitLoop maximum [] text)"

subsection \<open>One round of the loop\<close>

abbreviation visible :: "string \<Rightarrow> string" where
  "visible \<equiv> filter (\<lambda>c. \<not> is_js_space c)"

lemma maximum_pos: "0 < normalizedMaxLength maxLength"
  by (simp add: normalizedMaxLength_def)

lemma find_mem: "find P xs = Some x \<Longrightarrow> x \<in> set xs"
  by (auto simp: find_Some_iff)

lemma lastNewline_le: "lastNewline s position \<le> int position"
  unfolding lastNewline_def by (auto dest!: find_mem split: option.splits)

lemma splitPoint_bounds: "0 < maximum \<Longrightarrow> maximum div 2 < splitPoint maximum s" "splitPoint maximum s \<le> maximum"
  using lastNewline_le [of s maximum] by (auto simp: splitPoint_def Let_def)

lemma trimEnd_le: "length (trimEnd s) \<le> length s"
  using length_dropWhile_le [of is_js_space "rev s"] by (simp add: trimEnd_def)

lemma splitChunk_le: "length (splitChunk maximum s) \<le> maximum"
  using trimEnd_le [of "take (splitPoint maximum s) s"] splitPoint_bounds(2) [of maximum s] by (auto simp: splitChunk_def Let_def)

lemma splitChunk_nonempty: "0 < maximum \<Longrightarrow> s \<noteq> [] \<Longrightarrow> splitChunk maximum s \<noteq> []"
  by (auto simp: splitChunk_def Let_def)

lemma splitRest_le: "length (splitRest maximum s) \<le> length s - splitPoint maximum s"
  using length_drop [of "splitPoint maximum s" s] by (auto simp: splitRest_def simp del: length_drop split: list.splits)

lemma splitRest_suffix: "suffix (splitRest maximum s) s"
  using suffix_drop [of "splitPoint maximum s" s] by (auto simp: splitRest_def simp del: suffix_drop split: list.splits dest: suffix_ConsD)

lemma splitRest_shorter:
  "0 < maximum \<Longrightarrow> maximum < length s \<Longrightarrow> length (splitRest maximum s) + (maximum div 2 + 1) \<le> length s"
  using splitRest_le [of maximum s] splitPoint_bounds [of maximum s] by linarith

lemma visible_trimEnd: "visible (trimEnd s) = visible s"
proof -
  have "visible (dropWhile is_js_space t) = visible t" for t by (induction t) auto
  then show ?thesis by (simp add: trimEnd_def rev_filter [symmetric])
qed

lemma trimEnd_empty: "trimEnd s = [] \<longleftrightarrow> list_all is_js_space s"
  by (simp add: trimEnd_def dropWhile_eq_Nil_conv list_all_iff)

lemma newline_space: "is_js_space CHR 0x0A"
  by code_simp

lemma visible_rest: "visible (splitRest maximum s) = visible (drop (splitPoint maximum s) s)"
  using newline_space by (auto simp: splitRest_def split: list.splits)

lemma visible_split: "visible s = visible (take (splitPoint maximum s) s) @ visible (splitRest maximum s)"
  by (simp add: visible_rest flip: filter_append)

lemma visible_chunk:
  assumes "\<not> list_all is_js_space (take (splitPoint maximum s) s)"
  shows "visible (splitChunk maximum s) = visible (take (splitPoint maximum s) s)"
  using assms by (simp add: splitChunk_def Let_def trimEnd_empty visible_trimEnd)

lemma subseq_chunk: "subseq (visible (take (splitPoint maximum s) s)) (splitChunk maximum s)"
proof (cases "list_all is_js_space (take (splitPoint maximum s) s)")
  case True
  then have "visible (take (splitPoint maximum s) s) = []" by (simp add: filter_empty_conv list_all_iff)
  then show ?thesis by simp
next
  case False
  from visible_chunk [OF this, symmetric] show ?thesis by (simp add: subseq_filter_left)
qed

subsection \<open>The loop\<close>

text \<open>Every run of the loop ends, with short chunks that contain the visible text, and after few rounds.\<close>

lemma splitLoop_ends:
  assumes "0 < maximum"
  shows "\<exists>new. splitLoop maximum chunks remaining = Some (chunks @ new) \<and> list_all (\<lambda>c. length c \<le> maximum) new \<and>
    [] \<notin> set new \<and> subseq (visible remaining) (concat new) \<and> (length new - 1) * (maximum div 2 + 1) \<le> length remaining"
proof (induction "length remaining" arbitrary: chunks remaining rule: less_induct)
  case less
  show ?case
  proof (cases "maximum < length remaining")
    case False
    then show ?thesis
      by (subst splitLoop.simps) (auto simp: subseq_filter_left intro: exI [of _ "[]"] exI [of _ "[remaining]"])
  next
    case True
    let ?rest = "splitRest maximum remaining" and ?chunk = "splitChunk maximum remaining"
    have shorter: "length ?rest + (maximum div 2 + 1) \<le> length remaining" using splitRest_shorter [OF assms True] .
    then obtain new where new: "splitLoop maximum (chunks @ [?chunk]) ?rest = Some (chunks @ [?chunk] @ new)"
        "list_all (\<lambda>c. length c \<le> maximum) new" "[] \<notin> set new" "subseq (visible ?rest) (concat new)"
        "(length new - 1) * (maximum div 2 + 1) \<le> length ?rest"
      using less [of ?rest "chunks @ [?chunk]"] by auto
    have rounds: "length new * (maximum div 2 + 1) \<le> length remaining"
      using new(5) shorter by (cases "length new") auto
    have "splitLoop maximum chunks remaining = Some (chunks @ ?chunk # new)"
      using new(1) True by (subst splitLoop.simps) simp
    moreover have "subseq (visible remaining) (?chunk @ concat new)"
      unfolding visible_split [of remaining maximum] using subseq_chunk new(4) by (rule list_emb_append_mono)
    moreover have "?chunk \<noteq> []" using splitChunk_nonempty [OF assms, of remaining] True by force
    moreover have "list_all (\<lambda>c. length c \<le> maximum) (?chunk # new)" using new(2) splitChunk_le by simp
    ultimately show ?thesis using new(3) rounds by (intro exI [of _ "?chunk # new"]) simp
  qed
qed

lemma splitLoop_exact:
  assumes "0 < maximum" "\<And>ys. sublist ys remaining \<Longrightarrow> maximum div 2 < length ys \<Longrightarrow> \<not> list_all is_js_space ys"
    "splitLoop maximum chunks remaining = Some out"
  shows "visible (concat out) = visible (concat chunks) @ visible remaining"
  using assms(2,3)
proof (induction "length remaining" arbitrary: chunks remaining rule: less_induct)
  case less
  show ?case
  proof (cases "maximum < length remaining")
    case False
    then show ?thesis using less.prems(2) by (subst (asm) splitLoop.simps) (auto split: if_splits)
  next
    case True
    let ?rest = "splitRest maximum remaining" and ?head = "take (splitPoint maximum remaining) remaining"
    have sub: "sublist ys remaining" if "sublist ys ?rest" for ys
      using that splitRest_suffix [of maximum remaining] by (meson sublist_order.order_trans suffix_imp_sublist)
    have "maximum div 2 < length ?head" using splitPoint_bounds(1) [OF assms(1), of remaining] splitPoint_bounds(2) [of maximum remaining] True by auto
    then have head: "\<not> list_all is_js_space ?head" using less.prems(1) by (auto intro: sublist_take)
    have run: "splitLoop maximum (chunks @ [splitChunk maximum remaining]) ?rest = Some out"
      using less.prems(2) True by (subst (asm) splitLoop.simps) simp
    have "visible (concat out) = visible (concat (chunks @ [splitChunk maximum remaining])) @ visible ?rest"
      using splitRest_shorter [OF assms(1) True] sub less.prems(1) by (intro less.hyps [OF _ _ run]) auto
    then show ?thesis using visible_chunk [OF head] visible_split [of remaining maximum] by simp
  qed
qed

subsection \<open>The splitting of a reply\<close>

text \<open>
  C40. The splitting of a reply always ends, whatever the text and the maximum length. No part is longer than the maximum,
  no part is empty unless the reply is, every character that is not white space is in the parts, in the order of the
  reply, and all parts but one stand for more than half the maximum length of the reply each, so there are few.
\<close>
theorem reply_split_terminates:
  "\<exists>chunks. splitTelegramReplyText reply maxLength = Some chunks \<and>
    list_all (\<lambda>c. length c \<le> normalizedMaxLength maxLength) chunks \<and> ([] \<in> set chunks) = (reply = []) \<and>
    subseq (visible reply) (concat chunks) \<and>
    (length chunks - 1) * (normalizedMaxLength maxLength div 2 + 1) \<le> length reply"
proof (cases "length reply \<le> normalizedMaxLength maxLength")
  case True
  then show ?thesis by (auto simp: splitTelegramReplyText_def subseq_filter_left)
next
  case False
  then have "reply \<noteq> []" by auto
  with False show ?thesis
    using splitLoop_ends [OF maximum_pos [of maxLength], of "[]" reply] by (auto simp: splitTelegramReplyText_def)
qed

text \<open>
  Where no stretch of white space is longer than half the maximum, the parts have exactly the visible text of the reply.
\<close>
theorem reply_split_exact:
  assumes "\<And>ys. sublist ys reply \<Longrightarrow> normalizedMaxLength maxLength div 2 < length ys \<Longrightarrow> \<not> list_all is_js_space ys"
    and "splitTelegramReplyText reply maxLength = Some chunks"
  shows "visible (concat chunks) = visible reply"
proof (cases "length reply \<le> normalizedMaxLength maxLength")
  case True
  then show ?thesis using assms(2) by (auto simp: splitTelegramReplyText_def)
next
  case False
  then have "splitLoop (normalizedMaxLength maxLength) [] reply = Some chunks" using assms(2) by (simp add: splitTelegramReplyText_def)
  from splitLoop_exact [OF maximum_pos assms(1) this] show ?thesis by simp
qed

text \<open>
  Text is repeated otherwise: when the part before a line break is only white space, the code sends a part of the full
  length in its place, which reaches past the line break, and goes on after the line break.
\<close>
theorem reply_split_repeats:
  "splitTelegramReplyText (''    '' @ [CHR 0x0A] @ ''abcdef'') 6 = Some [''    '' @ [CHR 0x0A] @ ''a'', ''abcdef'']"
proof -
  let ?s = "''    '' @ [CHR 0x0A] @ ''abcdef''"
  have "normalizedMaxLength 6 = 6" by (simp add: normalizedMaxLength_def)
  moreover have "splitChunk 6 ?s = ''    '' @ [CHR 0x0A] @ ''a''" by code_simp
  moreover have "splitRest 6 ?s = ''abcdef''" by code_simp
  moreover have "splitLoop 6 c ''abcdef'' = Some (c @ [''abcdef''])" for c by (subst splitLoop.simps) simp
  ultimately show ?thesis
    unfolding splitTelegramReplyText_def by (subst splitLoop.simps) (simp add: Let_def)
qed

end
