(* ===== verification/CandidateEvidence.thy ===== *)
theory CandidateEvidence
  imports PilotRepository
begin

section \<open>Evidence of terminal candidate orders\<close>

text \<open>
  \<open>src/src/modules/execution/candidate-evidence-service.ts\<close>: a terminal order of the candidate becomes one piece of
  evidence of its deployment, or a recorded fault that pauses the account. The dependencies are the in-memory order
  repository, the in-memory pilot repository and the operator state store, which is also the store the repository pauses
  atomically. Between a call and the continuation after its await other callbacks may run: \<open>vd_others\<close> says what
  they do at each await, numbered by \<open>vw_ticks\<close>; \<open>vd_clock\<close> gives the reading of the clock at a tick.
  \<open>Date.parse\<close> on texts outside the ISO format is the parameter \<open>vd_legacyDate\<close>.
\<close>

record ClockReading =
  ck_occurredAt :: string
  ck_occurredAtEpochMs :: jsnum

datatype CandidateEvidenceProjectionOutcome =
    ADVANCED | EVIDENCE_DUPLICATE | NO_ACTIVE_DEPLOYMENT | NOT_CANDIDATE_ORDER | NOT_TERMINAL | TERMINAL_NO_FILL | FAULT

record CandidateEvidenceProjectionResult =
  er_outcome :: CandidateEvidenceProjectionOutcome
  er_orderId :: string
  er_detail :: string

datatype TerminalCandidateSweepDisposition = ELIGIBLE | DISPOSED | PRE_ACTIVATION | OUTSIDE_SCOPE

text \<open>What the service throws: its own faults with a code, and the errors of what it calls.\<close>

datatype evidence_error = CandidateEvidenceFault string string | OtherError js_error

type_synonym 'a eres = "evidence_error + 'a"

record evidence_world =
  vw_repo :: repo
  vw_pilots :: pilot_store
  vw_operator :: operator_store
  vw_ticks :: nat

record evidence_deps =
  vd_exchangeAccountId :: string
  vd_collator :: collator
  vd_sha256 :: "string \<Rightarrow> string"
  vd_legacyDate :: "string \<Rightarrow> jsnum"
  vd_clock :: "nat \<Rightarrow> ClockReading"
  vd_others :: "nat \<Rightarrow> evidence_world \<Rightarrow> evidence_world"

type_synonym 'a em = "(evidence_world, evidence_error, 'a) sm"

definition plain :: "'a res \<Rightarrow> 'a eres" where
  "plain r = map_sum OtherError (\<lambda>x. x) r"

definition faultIf :: "bool \<Rightarrow> string \<Rightarrow> string \<Rightarrow> unit eres" where
  "faultIf b code message = throw_if b (CandidateEvidenceFault code message)"

definition passTime :: "evidence_deps \<Rightarrow> evidence_world \<Rightarrow> evidence_world" where
  "passTime deps w = (vd_others deps (vw_ticks w) w)\<lparr>vw_ticks := Suc (vw_ticks w)\<rparr>"

definition awaiting :: "evidence_deps \<Rightarrow> (evidence_world, js_error, 'a) sm \<Rightarrow> 'a em" where
  "awaiting deps m w = (case m w of (x, w') \<Rightarrow> (plain x, passTime deps w'))"

definition clockNow :: "evidence_deps \<Rightarrow> ClockReading em" where
  "clockNow deps w = (Inr (vd_clock deps (vw_ticks w)), w\<lparr>vw_ticks := Suc (vw_ticks w)\<rparr>)"

definition onRepository :: "'a rm \<Rightarrow> (evidence_world, js_error, 'a) sm" where
  "onRepository m w = (case m (vw_repo w) of (x, s) \<Rightarrow> (x, w\<lparr>vw_repo := s\<rparr>))"

definition onPilotStore :: "(pilot_store, js_error, 'a) sm \<Rightarrow> (evidence_world, js_error, 'a) sm" where
  "onPilotStore m w = (case m (vw_pilots w) of (x, p) \<Rightarrow> (x, w\<lparr>vw_pilots := p\<rparr>))"

definition onFaultStores :: "(repo \<times> operator_store, js_error, 'a) sm \<Rightarrow> (evidence_world, js_error, 'a) sm" where
  "onFaultStores m w = (case m (vw_repo w, vw_operator w) of (x, s, operator) \<Rightarrow> (x, w\<lparr>vw_repo := s, vw_operator := operator\<rparr>))"

text \<open>An awaited read of a store.\<close>

definition awaitRead :: "evidence_deps \<Rightarrow> (evidence_world \<Rightarrow> 'a) \<Rightarrow> 'a em" where
  "awaitRead deps f = awaiting deps (sget f)"

subsection \<open>Checks\<close>

definition evidenceTimestamp :: "string \<Rightarrow> string \<Rightarrow> int eres" where
  "evidenceTimestamp value label = (case parsePositionGuardCandidateTimestamp value label of
     Inr epoch \<Rightarrow> Inr epoch | Inl e \<Rightarrow> Inl (CandidateEvidenceFault ''TIMESTAMP_INVALID'' (errorMessage e)))"

definition validateClock :: "evidence_deps \<Rightarrow> ClockReading \<Rightarrow> unit eres" where
  "validateClock deps value = plain (throw_if (\<not> isSafeIntegerNumber (ck_occurredAtEpochMs value) \<or>
     num_less (ck_occurredAtEpochMs value) (Num 0) \<or> dateParse (vd_legacyDate deps) (ck_occurredAt value) \<noteq> ck_occurredAtEpochMs value)
     (Error ''Candidate evidence clock must provide matching persisted ISO and epoch-millisecond values.''))"

definition asRecord :: "json option \<Rightarrow> (string \<times> json) list option" where
  "asRecord value = (case value of Some (JObject ms) \<Rightarrow> Some ms | _ \<Rightarrow> None)"

definition isEntryPath :: "json option \<Rightarrow> StrategyEntryPath option" where
  "isEntryPath value = (case value of
     Some (JString s) \<Rightarrow> map_of [(''PULLBACK'', PULLBACK), (''RECLAIM'', RECLAIM), (''BREAKOUT_HOLD'', BREAKOUT_HOLD), (''NONE'', NONE)] s
   | _ \<Rightarrow> None)"

definition isEvidenceAction :: "StrategyDecisionAction \<Rightarrow> bool" where
  "isEvidenceAction action \<longleftrightarrow> action \<in> {ENTER, ADD, REDUCE, EXIT}"

text \<open>\<open>===\<close> on two parsed values at different places of a text: arrays and objects are never the same.\<close>

fun sameParsed :: "json \<Rightarrow> json \<Rightarrow> bool" where
  "sameParsed (JArray xs) v = False"
| "sameParsed (JObject ms) v = False"
| "sameParsed u v = (u = v)"

definition optionalMember :: "string \<Rightarrow> (string \<times> json) list option \<Rightarrow> json option" where
  "optionalMember key found = (case found of None \<Rightarrow> None | Some ms \<Rightarrow> member key ms)"

definition parseDecisionBasis :: "StrategyDecisionRecord \<Rightarrow> StrategyEntryPath eres" where
  "parseDecisionBasis decision = (case parseJson (sd_decisionBasisJson decision) of
     None \<Rightarrow> Inl (CandidateEvidenceFault ''STRATEGY_DECISION_INVALID'' ''Strategy decision basis JSON is malformed.'')
   | Some parsed \<Rightarrow> (case asRecord (Some parsed) of
       None \<Rightarrow> Inl (CandidateEvidenceFault ''STRATEGY_DECISION_INVALID'' ''Strategy decision basis JSON is invalid.'')
     | Some ms \<Rightarrow>
         let strategyDecision = asRecord (member ''strategyDecision'' ms);
             engineDecision = asRecord (member ''engineDecision'' ms);
             diagnostics = asRecord (optionalMember ''diagnostics'' engineDecision);
             canonicalEntryPath = optionalMember ''entryPath'' diagnostics;
             legacyEntryPath = optionalMember ''entryPath'' engineDecision;
             entryPath = (case canonicalEntryPath of None \<Rightarrow> legacyEntryPath | Some JNull \<Rightarrow> legacyEntryPath | Some v \<Rightarrow> Some v)
         in ebind (faultIf (case (canonicalEntryPath, legacyEntryPath) of (Some c, Some l) \<Rightarrow> \<not> sameParsed c l | _ \<Rightarrow> False)
              ''STRATEGY_DECISION_INVALID'' ''Strategy decision basis contains conflicting entry-path provenance.'') (\<lambda>_.
            case isEntryPath entryPath of
              Some path \<Rightarrow>
                ebind (faultIf (optionalMember ''market'' strategyDecision \<noteq> Some (JString (marketStr (sd_market decision))) \<or>
                    optionalMember ''action'' strategyDecision \<noteq> Some (JString (actionStr (sd_action decision))))
                  ''STRATEGY_DECISION_INVALID'' ''Strategy decision basis does not match persisted decision provenance.'') (\<lambda>_.
                Inr path)
            | None \<Rightarrow> Inl (CandidateEvidenceFault ''STRATEGY_DECISION_INVALID''
                ''Strategy decision basis does not match persisted decision provenance.''))))"

definition assertSameOptionalExactDecimal :: "string option \<Rightarrow> string option \<Rightarrow> string \<Rightarrow> unit eres" where
  "assertSameOptionalExactDecimal left right label =
     (let mismatch = (\<lambda>b. faultIf b ''CANDIDATE_EXECUTION_BINDING_INVALID'' (''Binding '' @ label @ '' does not match strategy decision.'')) in
      case (left, right) of
        (Some l, Some r) \<Rightarrow>
          ebind (plain (canonicalNonNegativeDecimal l (''binding '' @ label))) (\<lambda>l'.
          ebind (plain (canonicalNonNegativeDecimal r (''decision '' @ label))) (\<lambda>r'.
          mismatch (l' \<noteq> r')))
      | _ \<Rightarrow> mismatch (left \<noteq> right))"

definition sameOptionalCanonicalDecimal :: "string option \<Rightarrow> string option \<Rightarrow> bool eres" where
  "sameOptionalCanonicalDecimal left right = (case (left, right) of
     (Some l, Some r) \<Rightarrow>
       ebind (plain (canonicalNonNegativeDecimal l ''candidate order binding decimal'')) (\<lambda>l'.
       ebind (plain (canonicalNonNegativeDecimal r ''candidate order decimal'')) (\<lambda>r'.
       Inr (l' = r')))
   | _ \<Rightarrow> Inr (left = right))"

definition hasVerifiedDeploymentActivation :: "PositionGuardPilotDeploymentRecord \<Rightarrow> bool" where
  "hasVerifiedDeploymentActivation deployment = (case (dp_activationAt deployment, dp_activationEpochNs deployment) of
     (Some activationAt, Some activationEpochNs) \<Rightarrow>
       (case evidenceTimestamp activationAt ''candidate deployment activationAt'' of Inl e \<Rightarrow> False | Inr epoch \<Rightarrow> epoch = activationEpochNs)
   | _ \<Rightarrow> False)"

definition isPreActivationOrder :: "OrderRecord \<Rightarrow> PositionGuardPilotDeploymentRecord \<Rightarrow> bool" where
  "isPreActivationOrder ord deployment =
     (if \<not> hasVerifiedDeploymentActivation deployment then False
      else case (evidenceTimestamp (oi_requestedAt ord) ''order requestedAt'', dp_activationEpochNs deployment) of
        (Inr requestedAt, Some activationEpochNs) \<Rightarrow> requestedAt < activationEpochNs
      | _ \<Rightarrow> False)"

subsection \<open>The fills of an order\<close>

record VerifiedDecision =
  vf_action :: StrategyDecisionAction
  vf_entryPath :: StrategyEntryPath
  vf_decision :: StrategyDecisionRecord
  vf_requestedAt :: int
  vf_bindingCreatedAt :: int

record TerminalFillAggregate =
  ag_executedAt :: string
  ag_executedQuantity :: string
  ag_grossQuoteValueKrw :: string
  ag_confirmedFeeKrw :: string

text \<open>\<open>/^(0|[1-9][0-9]*)$/\<close>\<close>

definition isPlainNatural :: "string \<Rightarrow> bool" where
  "isPlainNatural s \<longleftrightarrow> s = ''0'' \<or> (s \<noteq> [] \<and> list_all is_digit s \<and> hd s \<noteq> CHR ''0'')"

definition verifiedExchangeFillEpoch :: "FillRecord \<Rightarrow> int eres" where
  "verifiedExchangeFillEpoch fill = (case fl_executionEpochNs fill of
     None \<Rightarrow> Inl (CandidateEvidenceFault ''FILL_EXECUTION_TIMESTAMP_UNVERIFIED''
       ''Every candidate fill requires an exchange-confirmed execution timestamp and epoch nanoseconds.'')
   | Some epochNs \<Rightarrow>
       ebind (faultIf (fl_executionTimestampProvenance fill \<noteq> Some TS_EXCHANGE_FILL_CONFIRMED) ''FILL_EXECUTION_TIMESTAMP_UNVERIFIED''
         ''Every candidate fill requires an exchange-confirmed execution timestamp and epoch nanoseconds.'') (\<lambda>_.
       ebind (faultIf (\<not> isPlainNatural epochNs) ''FILL_EXECUTION_TIMESTAMP_UNVERIFIED''
         ''Persisted fill execution epoch nanoseconds are invalid.'') (\<lambda>_.
       ebind (evidenceTimestamp (fl_filledAt fill) ''fill filledAt'') (\<lambda>parsed.
       ebind (faultIf (bigintToString parsed \<noteq> epochNs) ''FILL_EXECUTION_TIMESTAMP_UNVERIFIED''
         ''Persisted fill execution timestamp and epoch nanoseconds disagree.'') (\<lambda>_.
       Inr parsed)))))"

definition fillBefore :: "FillRecord \<times> int \<Rightarrow> FillRecord \<times> int \<Rightarrow> bool" where
  "fillBefore left right \<longleftrightarrow> (if snd left < snd right then True else if snd left > snd right then False
     else compareDeterministicIdentifiers (fl_id (fst left)) (fl_id (fst right)) \<le> 0)"

text \<open>The totals of quantity, quote value and fee, and one more fill.\<close>

definition addFill ::
  "OrderRecord \<Rightarrow> VerifiedDecision \<Rightarrow> ExactDecimal \<times> ExactDecimal \<times> ExactDecimal \<Rightarrow> FillRecord \<times> int \<Rightarrow>
   (ExactDecimal \<times> ExactDecimal \<times> ExactDecimal) eres" where
  "addFill ord decision totals item = (case (totals, item) of ((executedQuantity, grossQuoteValueKrw, confirmedFeeKrw), (fill, epochNanoseconds)) \<Rightarrow>
     ebind (faultIf (fl_orderId fill \<noteq> or_id ord \<or> fl_market fill \<noteq> oi_market ord \<or> fl_side fill \<noteq> oi_side ord)
       ''FILL_ORDER_MISMATCH'' ''Persisted fill does not match terminal order identity.'') (\<lambda>_.
     ebind (faultIf (epochNanoseconds < vf_requestedAt decision)
       ''FILL_TIMESTAMP_INVALID'' ''Persisted fill precedes the terminal order request.'') (\<lambda>_.
     ebind (faultIf (epochNanoseconds \<le> vf_bindingCreatedAt decision)
       ''FILL_TIMESTAMP_INVALID'' ''Persisted fill does not occur strictly after candidate binding creation.'') (\<lambda>_.
     ebind (faultIf (fl_feeCurrency fill \<noteq> Some ''KRW'' \<or> fl_feeAmount fill = None \<or> fl_feeProvenance fill \<noteq> Some FEE_EXCHANGE_FILL_CONFIRMED)
       ''UNVERIFIED_FEE_PROVENANCE'' ''Every terminal fill requires a confirmed per-fill KRW fee source.'') (\<lambda>_.
     ebind (plain (parseCanonicalNonNegativeDecimal (fl_volume fill) ''fill volume'')) (\<lambda>volume.
     ebind (plain (parseCanonicalNonNegativeDecimal (fl_price fill) ''fill price'')) (\<lambda>price.
     ebind (plain (parseCanonicalNonNegativeDecimal (the (fl_feeAmount fill)) ''fill feeAmount'')) (\<lambda>fee.
     ebind (faultIf (ed_coefficient volume = 0 \<or> ed_coefficient price = 0)
       ''DECIMAL_INVALID'' ''Terminal fill volume and price must be positive.'') (\<lambda>_.
     Inr (addExactDecimals executedQuantity volume, addExactDecimals grossQuoteValueKrw (multiplyExactDecimals price volume),
          addExactDecimals confirmedFeeKrw fee))))))))))"

text \<open>The totals against what the order asked for.\<close>

definition checkOrderBounds :: "OrderRecord \<Rightarrow> ExactDecimal \<Rightarrow> ExactDecimal \<Rightarrow> unit eres" where
  "checkOrderBounds ord executedQuantity grossQuoteValueKrw =
     ebind (faultIf (ed_coefficient executedQuantity = 0) ''TERMINAL_FILL_ZERO'' ''Terminal order contains only zero fills.'') (\<lambda>_.
     ebind (case oi_volume ord of None \<Rightarrow> Inr ()
       | Some volume \<Rightarrow>
           ebind (plain (parseCanonicalNonNegativeDecimal volume ''order volume'')) (\<lambda>requestedQuantity.
           faultIf (0 < compareExactDecimals executedQuantity requestedQuantity)
             ''ORDER_QUANTITY_INVALID'' ''Terminal fills exceed persisted order quantity.'')) (\<lambda>_.
     if oi_side ord = Bid \<and> oi_ordType ord = Price
     then ebind (plain (parseCanonicalNonNegativeDecimal (case oi_price ord of None \<Rightarrow> [] | Some p \<Rightarrow> p) ''order price'')) (\<lambda>quoteBudget.
          faultIf (0 < compareExactDecimals grossQuoteValueKrw quoteBudget)
            ''ORDER_QUANTITY_INVALID'' ''Terminal bid fills exceed persisted quote budget.'')
     else Inr ()))"

definition timedFill :: "FillRecord \<Rightarrow> (FillRecord \<times> int) eres" where
  "timedFill fill = ebind (verifiedExchangeFillEpoch fill) (\<lambda>epoch. Inr (fill, epoch))"

definition aggregateTerminalFills :: "OrderRecord \<Rightarrow> VerifiedDecision \<Rightarrow> FillRecord list \<Rightarrow> TerminalFillAggregate eres" where
  "aggregateTerminalFills ord decision fills =
     (let zero = parseCanonicalDecimal ''0'' in
      ebind (emapM timedFill fills) (\<lambda>timed.
      let ordered = sort_by fillBefore timed in
      ebind (efold (addFill ord decision) (zero, zero, zero) ordered) (\<lambda>(executedQuantity, grossQuoteValueKrw, confirmedFeeKrw).
      ebind (checkOrderBounds ord executedQuantity grossQuoteValueKrw) (\<lambda>_.
      Inr \<lparr>ag_executedAt = fl_filledAt (fst (last ordered)), ag_executedQuantity = formatExactDecimal executedQuantity,
        ag_grossQuoteValueKrw = formatExactDecimal grossQuoteValueKrw, ag_confirmedFeeKrw = formatExactDecimal confirmedFeeKrw\<rparr>))))"

subsection \<open>The decision of an order\<close>

definition verifyDecision ::
  "OrderRecord \<Rightarrow> PositionGuardPilotDeploymentRecord \<Rightarrow> CandidateExecutionBindingRecord \<Rightarrow> StrategyDecisionRecord \<Rightarrow> VerifiedDecision eres" where
  "verifyDecision ord deployment binding decision =
     (let invalid = (\<lambda>b. faultIf b ''CANDIDATE_EXECUTION_BINDING_INVALID'' ''Persisted order binding does not match deployment provenance.'');
          expectedSide = (if sd_action decision = ENTER \<or> sd_action decision = ADD then Bid else Ask) in
      ebind (invalid (bd_deploymentId binding \<noteq> dp_id deployment \<or> bd_strategyDecisionId binding \<noteq> sd_id decision \<or>
        bd_orderId binding \<noteq> or_id ord \<or> bd_exchangeAccountId binding \<noteq> oi_exchangeAccountId ord \<or> bd_market binding \<noteq> oi_market ord \<or>
        bd_strategyKey binding \<noteq> STRATEGY_KEY \<or> bd_policyId binding \<noteq> dp_policyId deployment \<or>
        bd_policyVersion binding \<noteq> dp_policyVersion deployment \<or> Some (bd_activationAt binding) \<noteq> dp_activationAt deployment \<or>
        Some (bd_activationEpochNs binding) \<noteq> dp_activationEpochNs deployment \<or> bd_executionMode binding \<noteq> or_executionMode ord \<or>
        bd_ordType binding \<noteq> oi_ordType ord)) (\<lambda>_.
      ebind (sameOptionalCanonicalDecimal (bd_boundPrice binding) (oi_price ord)) (\<lambda>samePrice.
      ebind (invalid (\<not> samePrice)) (\<lambda>_.
      ebind (sameOptionalCanonicalDecimal (bd_boundVolume binding) (oi_volume ord)) (\<lambda>sameVolume.
      ebind (invalid (\<not> sameVolume \<or> bd_boundTimeInForce binding \<noteq> oi_timeInForce ord \<or> bd_boundSmpType binding \<noteq> oi_smpType ord)) (\<lambda>_.
      ebind (faultIf (sd_exchangeAccountId decision \<noteq> oi_exchangeAccountId ord \<or> sd_strategyKey decision \<noteq> STRATEGY_KEY \<or>
          sd_market decision \<noteq> oi_market ord \<or> sd_status decision \<noteq> READY \<or> \<not> isEvidenceAction (sd_action decision) \<or>
          bd_action binding \<noteq> sd_action decision)
        ''STRATEGY_DECISION_INVALID'' ''Persisted strategy decision is invalid for candidate evidence.'') (\<lambda>_.
      ebind (faultIf (oi_side ord \<noteq> expectedSide \<or> bd_side binding \<noteq> expectedSide)
        ''ORDER_SIDE_ACTION_MISMATCH'' ''Order side does not match persisted candidate action.'') (\<lambda>_.
      ebind (assertSameOptionalExactDecimal (bd_intendedQuantity binding) (sd_intendedQuantity decision) ''intended quantity'') (\<lambda>_.
      ebind (assertSameOptionalExactDecimal (bd_intendedNotionalKrw binding) (sd_intendedNotionalKrw decision) ''intended notional'') (\<lambda>_.
      ebind (faultIf (bd_intendedQuantity binding \<noteq> None \<and> oi_volume ord \<noteq> bd_intendedQuantity binding)
        ''ORDER_QUANTITY_INVALID'' ''Order volume does not match its bound intended quantity.'') (\<lambda>_.
      ebind (faultIf (oi_ordType ord = Price \<and> bd_intendedNotionalKrw binding \<noteq> None \<and> oi_price ord \<noteq> bd_intendedNotionalKrw binding)
        ''ORDER_QUANTITY_INVALID'' ''Price order budget does not match its bound intended notional.'') (\<lambda>_.
      ebind (evidenceTimestamp (sd_createdAt decision) ''strategy decision createdAt'') (\<lambda>decisionAt.
      ebind (evidenceTimestamp (oi_requestedAt ord) ''order requestedAt'') (\<lambda>requestedAt.
      case dp_activationEpochNs deployment of
        None \<Rightarrow> Inl (CandidateEvidenceFault ''CANDIDATE_DEPLOYMENT_ACTIVATION_UNVERIFIED''
          ''Candidate deployment activation instant is unavailable.'')
      | Some activationAt \<Rightarrow>
          ebind (evidenceTimestamp (bd_createdAt binding) ''candidate execution binding createdAt'') (\<lambda>bindingCreatedAt.
          ebind (faultIf (decisionAt > requestedAt \<or> requestedAt < activationAt \<or> bindingCreatedAt \<ge> requestedAt)
            ''ORDER_TIMESTAMP_INVALID'' ''Decision, activation, and order timestamps are inconsistent.'') (\<lambda>_.
          ebind (parseDecisionBasis decision) (\<lambda>entryPath.
          Inr \<lparr>vf_action = sd_action decision, vf_entryPath = entryPath, vf_decision = decision, vf_requestedAt = requestedAt,
            vf_bindingCreatedAt = bindingCreatedAt\<rparr>)))))))))))))))))"

definition getVerifiedDecision ::
  "evidence_deps \<Rightarrow> OrderRecord \<Rightarrow> PositionGuardPilotDeploymentRecord \<Rightarrow> CandidateExecutionBindingRecord \<Rightarrow> VerifiedDecision em" where
  "getVerifiedDecision deps ord deployment binding =
     (if \<not> truthy (oi_strategyDecisionId ord)
      then sthrow (CandidateEvidenceFault ''STRATEGY_DECISION_MISSING'' ''Terminal strategy order has no decision reference.'')
      else sbind (awaitRead deps (getStrategyDecisionById (the (oi_strategyDecisionId ord)) \<circ> vw_repo)) (\<lambda>found.
        case found of
          None \<Rightarrow> sthrow (CandidateEvidenceFault ''STRATEGY_DECISION_MISSING'' ''Terminal strategy order references no persisted decision.'')
        | Some decision \<Rightarrow> slift (verifyDecision ord deployment binding decision)))"

subsection \<open>Recorded faults\<close>

definition candidateProjectionFaultEvents :: "OrderEventRecord list \<Rightarrow> string \<Rightarrow> OrderEventRecord list" where
  "candidateProjectionFaultEvents events orderId = filter (\<lambda>event. ev_eventType event = ''CANDIDATE_EVIDENCE_PROJECTION_FAILED'' \<and>
     (starts_with (''candidate-evidence-fault:'' @ orderId @ '':'') (ev_id event) \<or>
      starts_with (''candidate-evidence-recovery-fault:'' @ orderId) (ev_id event))) events"

definition trimmedText :: "json option \<Rightarrow> string option" where
  "trimmedText value = (case value of Some (JString s) \<Rightarrow> if trim s = [] then None else Some (trim s) | _ \<Rightarrow> None)"

definition persistedFaultReason :: "OrderEventRecord \<Rightarrow> string" where
  "persistedFaultReason event =
     (let payload = asRecord (parseJson (ev_payloadJson event)) in
      case (trimmedText (optionalMember ''code'' payload), trimmedText (optionalMember ''message'' payload)) of
        (Some code, Some message) \<Rightarrow> code @ '': '' @ message
      | (Some code, None) \<Rightarrow> code
      | (None, Some message) \<Rightarrow> message
      | (None, None) \<Rightarrow> ''Persisted candidate projection fault '' @ ev_id event @ ''.'')"

definition isMatchingFaultPauseTransition ::
  "ExecutionStateTransitionRecord option \<Rightarrow> OrderRecord \<Rightarrow> OrderEventRecord \<Rightarrow> bool" where
  "isMatchingFaultPauseTransition found ord event = (case found of None \<Rightarrow> False | Some transition \<Rightarrow>
     let followsFaultOccurrence =
           (case (parsePositionGuardCandidateTimestamp (tr_createdAt transition) ''automatic fault pause createdAt'',
                  parsePositionGuardCandidateTimestamp (ev_createdAt event) ''candidate fault event createdAt'') of
              (Inr paused, Inr occurred) \<Rightarrow> occurred \<le> paused | _ \<Rightarrow> False) in
     tr_id transition = ev_id event \<and> tr_exchangeAccountId transition = oi_exchangeAccountId ord \<and>
     tr_command transition = AUTOMATIC_PAUSE \<and>
     (tr_toSystemStatus transition = PAUSED \<or> tr_toSystemStatus transition = KILL_SWITCHED) \<and> followsFaultOccurrence \<and>
     tr_reason transition = Some (''faultId='' @ ev_id event @ ''; reason='' @ persistedFaultReason event))"

definition hasMatchingFaultPauseTransition :: "evidence_deps \<Rightarrow> OrderRecord \<Rightarrow> OrderEventRecord \<Rightarrow> bool em" where
  "hasMatchingFaultPauseTransition deps ord event =
     sbind (awaitRead deps (getTransitionById (ev_id event) \<circ> vw_operator)) (\<lambda>transition.
     sreturn (isMatchingFaultPauseTransition transition ord event))"

text \<open>The first event without its transition, each looked up in turn.\<close>

fun firstUnmatched :: "evidence_deps \<Rightarrow> OrderRecord \<Rightarrow> OrderEventRecord list \<Rightarrow> OrderEventRecord option em" where
  "firstUnmatched deps ord [] = sreturn None"
| "firstUnmatched deps ord (event # events) =
     sbind (hasMatchingFaultPauseTransition deps ord event) (\<lambda>matching.
     if matching then firstUnmatched deps ord events else sreturn (Some event))"

definition findIncompleteFaultPause :: "evidence_deps \<Rightarrow> OrderRecord \<Rightarrow> OrderEventRecord option em" where
  "findIncompleteFaultPause deps ord =
     sbind (awaitRead deps (listOrderEvents (vd_collator deps) (or_id ord) \<circ> vw_repo)) (\<lambda>events.
     firstUnmatched deps ord (sort_by (\<lambda>left right. orCompare (vd_collator deps (ev_createdAt left) (ev_createdAt right))
       (vd_collator deps (ev_id left) (ev_id right)) \<le> 0) (candidateProjectionFaultEvents events (or_id ord))))"

definition persistFault :: "evidence_deps \<Rightarrow> OrderRecord \<Rightarrow> OrderEventRecord \<Rightarrow> string \<Rightarrow> string \<Rightarrow> SnapshotOutcome em" where
  "persistFault deps ord event reason transitionAt = awaiting deps (onFaultStores (persistCandidateProjectionFault (Some applyFaultPauseAtomically)
     (PersistCandidateProjectionFaultInput.make (or_id ord) event
       \<lparr>fp_exchangeAccountId = oi_exchangeAccountId ord, fp_faultId = ev_id event, fp_reason = reason,
        fp_occurredAt = ev_createdAt event, fp_transitionAt = Some transitionAt\<rparr>)))"

definition repairPersistedFaultPause :: "evidence_deps \<Rightarrow> OrderRecord \<Rightarrow> OrderEventRecord \<Rightarrow> CandidateEvidenceProjectionResult em" where
  "repairPersistedFaultPause deps ord event =
     (let reason = persistedFaultReason event in
      sbind (clockNow deps) (\<lambda>repairAttempt.
      sbind (slift (validateClock deps repairAttempt)) (\<lambda>_.
      sbind (persistFault deps ord event reason (ck_occurredAt repairAttempt)) (\<lambda>_.
      sreturn \<lparr>er_outcome = FAULT, er_orderId = or_id ord,
        er_detail = ''Repaired persisted candidate projection fault pause: '' @ reason\<rparr>))))"

definition faultEvent :: "OrderRecord \<Rightarrow> string \<Rightarrow> string \<Rightarrow> string \<Rightarrow> OrderEventRecord" where
  "faultEvent ord code message occurredAt =
     \<lparr>ev_id = ''candidate-evidence-fault:'' @ or_id ord @ '':'' @ code, ev_orderId = or_id ord,
      ev_eventType = ''CANDIDATE_EVIDENCE_PROJECTION_FAILED'', ev_eventSource = RECONCILIATION,
      ev_payloadJson = stringify (JObject [(''code'', JString code), (''message'', JString message)]), ev_createdAt = occurredAt\<rparr>"

definition fault :: "evidence_deps \<Rightarrow> OrderRecord \<Rightarrow> string \<Rightarrow> string \<Rightarrow> CandidateEvidenceProjectionResult em" where
  "fault deps ord code message =
     sbind (clockNow deps) (\<lambda>now.
     sbind (slift (validateClock deps now)) (\<lambda>_.
     sbind (awaitRead deps (listOrderEvents (vd_collator deps) (or_id ord) \<circ> vw_repo)) (\<lambda>events.
     let fresh = faultEvent ord code message (ck_occurredAt now);
         event = (case find (\<lambda>event. ev_id event = ev_id fresh) events of None \<Rightarrow> fresh | Some existingEvent \<Rightarrow> existingEvent)
     in sbind (persistFault deps ord event (code @ '': '' @ message) (ck_occurredAt now)) (\<lambda>_.
        sreturn \<lparr>er_outcome = FAULT, er_orderId = or_id ord, er_detail = code @ '': '' @ message\<rparr>))))"

subsection \<open>Terminal orders\<close>

definition noFillMarker :: "OrderRecord \<Rightarrow> string" where
  "noFillMarker ord = ''candidate-evidence-no-fill:'' @ or_id ord"

definition hasTerminalNoFillMarker :: "evidence_deps \<Rightarrow> OrderRecord \<Rightarrow> bool em" where
  "hasTerminalNoFillMarker deps ord =
     sbind (awaitRead deps (listOrderEvents (vd_collator deps) (or_id ord) \<circ> vw_repo)) (\<lambda>events.
     sreturn (list_ex (\<lambda>event. ev_id event = noFillMarker ord) events))"

definition recordTerminalNoFill :: "evidence_deps \<Rightarrow> OrderRecord \<Rightarrow> VerifiedDecision \<Rightarrow> CandidateEvidenceProjectionResult em" where
  "recordTerminalNoFill deps ord decision =
     sbind (hasTerminalNoFillMarker deps ord) (\<lambda>marked.
     if marked
     then sreturn \<lparr>er_outcome = EVIDENCE_DUPLICATE, er_orderId = or_id ord, er_detail = ''Terminal no-fill cancellation was already recorded.''\<rparr>
     else sbind (clockNow deps) (\<lambda>now.
          sbind (slift (validateClock deps now)) (\<lambda>_.
          sbind (awaiting deps (onRepository (appendOrderEvent
            \<lparr>ev_id = noFillMarker ord, ev_orderId = or_id ord, ev_eventType = ''CANDIDATE_EVIDENCE_TERMINAL_NO_FILL'',
             ev_eventSource = RECONCILIATION,
             ev_payloadJson = stringify (JObject [(''action'', JString (actionStr (vf_action decision))),
               (''entryPath'', JString (entryPathStr (vf_entryPath decision))), (''terminalStatus'', JString (statusStr (or_status ord)))]),
             ev_createdAt = ck_occurredAt now\<rparr>))) (\<lambda>_.
          sreturn \<lparr>er_outcome = TERMINAL_NO_FILL, er_orderId = or_id ord,
            er_detail = ''Terminal no-fill cancellation was recorded without candidate state advancement.''\<rparr>))))"

definition evidenceIdOf :: "OrderRecord \<Rightarrow> string" where
  "evidenceIdOf ord = ''terminal-order:'' @ or_id ord"

definition evidenceFrom ::
  "OrderRecord \<Rightarrow> VerifiedDecision \<Rightarrow> TerminalFillAggregate \<Rightarrow> string \<Rightarrow> PositionGuardCandidateExecutionEvidence" where
  "evidenceFrom ord decision aggregate remainingQuantity =
     \<lparr>ce_evidenceId = evidenceIdOf ord, ce_executedAt = ag_executedAt aggregate, ce_action = vf_action decision,
      ce_entryPath = vf_entryPath decision, ce_terminalStatus = (if or_status ord = FILLED then TerminalFilled else TerminalCanceled),
      ce_executedQuantity = DecString (ag_executedQuantity aggregate),
      ce_grossQuoteValueKrw = DecString (ag_grossQuoteValueKrw aggregate),
      ce_confirmedFeeKrw = DecString (ag_confirmedFeeKrw aggregate), ce_remainingQuantity = DecString remainingQuantity\<rparr>"

definition isBeforeEvidence :: "int \<Rightarrow> string \<Rightarrow> StoredEvidence \<Rightarrow> bool eres" where
  "isBeforeEvidence epoch evidenceId record =
     ebind (evidenceTimestamp (ce_executedAt (sv_evidence record)) ''persisted candidate evidence executedAt'') (\<lambda>recordEpoch.
     Inr (recordEpoch < epoch \<or> (recordEpoch = epoch \<and> ce_evidenceId (sv_evidence record) < evidenceId)))"

text \<open>The quantity left after the order, from the evidence stored before it.\<close>

definition remainingAfter ::
  "OrderRecord \<Rightarrow> VerifiedDecision \<Rightarrow> TerminalFillAggregate \<Rightarrow> StoredEvidence list \<Rightarrow> string eres" where
  "remainingAfter ord decision aggregate records =
     ebind (faultIf (list_ex (\<lambda>record. sv_materialVersion record \<noteq> ''EXACT_V2'') records) ''LEGACY_CANDIDATE_EVIDENCE''
       ''Candidate deployment contains legacy approximate evidence and cannot advance.'') (\<lambda>_.
     ebind (evidenceTimestamp (ag_executedAt aggregate) ''terminal fill executedAt'') (\<lambda>evidenceEpoch.
     ebind (emapM (isBeforeEvidence evidenceEpoch (evidenceIdOf ord)) records) (\<lambda>flags.
     ebind (plain (projectExactCandidateState (map (sv_evidence \<circ> fst) (filter snd (zip records flags))))) (\<lambda>stateBeforeEvidence.
     plain (deriveExactRemainingQuantity (xs_currentEpisodeInventoryQuantity stateBeforeEvidence) (vf_action decision)
       (ag_executedQuantity aggregate))))))"

definition assertMatchingExistingEvidence :: "StoredEvidence \<Rightarrow> PositionGuardCandidateExecutionEvidence \<Rightarrow> unit eres" where
  "assertMatchingExistingEvidence existing expected =
     (let evidence = sv_evidence existing in
      ebind (faultIf (sv_materialVersion existing \<noteq> ''EXACT_V2'') ''LEGACY_CANDIDATE_EVIDENCE''
        ''Terminal order identity is occupied by legacy approximate candidate evidence.'') (\<lambda>_.
      faultIf (ce_executedAt evidence \<noteq> ce_executedAt expected \<or> ce_action evidence \<noteq> ce_action expected \<or>
          ce_entryPath evidence \<noteq> ce_entryPath expected \<or> ce_terminalStatus evidence \<noteq> ce_terminalStatus expected \<or>
          ce_executedQuantity evidence \<noteq> ce_executedQuantity expected \<or>
          ce_grossQuoteValueKrw evidence \<noteq> ce_grossQuoteValueKrw expected \<or>
          ce_confirmedFeeKrw evidence \<noteq> ce_confirmedFeeKrw expected \<or> ce_remainingQuantity evidence \<noteq> ce_remainingQuantity expected)
        ''CONFLICTING_TERMINAL_EVIDENCE'' ''Persisted candidate evidence conflicts with terminal order evidence.''))"

definition projectFills ::
  "evidence_deps \<Rightarrow> string \<Rightarrow> OrderRecord \<Rightarrow> PositionGuardPilotDeploymentRecord \<Rightarrow> VerifiedDecision \<Rightarrow> TerminalFillAggregate \<Rightarrow>
   CandidateEvidenceProjectionResult em" where
  "projectFills deps orderId ord deployment decision aggregate =
     sbind (awaitRead deps (getExactState (dp_id deployment) \<circ> vw_pilots)) (\<lambda>found.
     case found of
       None \<Rightarrow> sthrow (CandidateEvidenceFault ''CANDIDATE_STATE_LEGACY_APPROXIMATE''
         ''Candidate state has no authoritative exact decimal representation.'')
     | Some exactState \<Rightarrow>
         sbind (awaitRead deps (listEvidenceRecords (dp_id deployment) \<circ> vw_pilots)) (\<lambda>records.
         sbind (slift (remainingAfter ord decision aggregate records)) (\<lambda>remainingQuantity.
         let evidence = evidenceFrom ord decision aggregate remainingQuantity in
         sbind (awaitRead deps (getEvidenceRecord (dp_id deployment) (evidenceIdOf ord) \<circ> vw_pilots)) (\<lambda>existing.
         case existing of
           Some stored \<Rightarrow>
             sbind (slift (assertMatchingExistingEvidence stored evidence)) (\<lambda>_.
             sreturn \<lparr>er_outcome = EVIDENCE_DUPLICATE, er_orderId = orderId, er_detail = ''Terminal order evidence was already projected.''\<rparr>)
         | None \<Rightarrow>
             sbind (awaiting deps (onPilotStore (advanceStateWithEvidence (vd_sha256 deps)
               \<lparr>ai_deploymentId = dp_id deployment, ai_expectedStateVersion = xs_stateVersion exactState, ai_evidence = evidence\<rparr>))) (\<lambda>advanced.
             sreturn (if ar_duplicate advanced
               then \<lparr>er_outcome = EVIDENCE_DUPLICATE, er_orderId = orderId, er_detail = ''Terminal order evidence was already projected.''\<rparr>
               else \<lparr>er_outcome = ADVANCED, er_orderId = orderId, er_detail = ''Terminal order evidence was projected atomically.''\<rparr>))))))"

text \<open>
  The \<open>try\<close> block. It returns the promise of \<open>recordTerminalNoFill\<close> without awaiting it, so that call is outside the
  \<open>catch\<close>: the block says whether it is made.
\<close>

datatype projection = Settled CandidateEvidenceProjectionResult | NoFill VerifiedDecision

definition projectTerminalOrder :: "evidence_deps \<Rightarrow> string \<Rightarrow> OrderRecord \<Rightarrow> projection em" where
  "projectTerminalOrder deps orderId ord =
     sbind (findIncompleteFaultPause deps ord) (\<lambda>incompleteFault.
     case incompleteFault of
       Some event \<Rightarrow> sbind (repairPersistedFaultPause deps ord event) (\<lambda>r. sreturn (Settled r))
     | None \<Rightarrow>
     sbind (awaitRead deps (getDeploymentForExchangeAccount (vd_collator deps) (oi_exchangeAccountId ord) \<circ> vw_pilots)) (\<lambda>found.
     case (case found of None \<Rightarrow> None | Some d \<Rightarrow> if dp_phase d \<noteq> ACTIVE \<and> dp_phase d \<noteq> DRAINING then None else Some d) of
       None \<Rightarrow> sreturn (Settled \<lparr>er_outcome = NO_ACTIVE_DEPLOYMENT, er_orderId = orderId,
         er_detail = ''No active candidate deployment is persisted.''\<rparr>)
     | Some deployment \<Rightarrow>
     sbind (slift (faultIf (\<not> hasVerifiedDeploymentActivation deployment) ''CANDIDATE_DEPLOYMENT_ACTIVATION_UNVERIFIED''
       ''Active candidate deployment has no authoritative persisted activation instant.'')) (\<lambda>_.
     sbind (awaitRead deps (getExecutionBindingForOrder (or_id ord) \<circ> candidate_store.truncate \<circ> vw_pilots)) (\<lambda>foundBinding.
     case foundBinding of
       None \<Rightarrow>
         if isPreActivationOrder ord deployment
         then sreturn (Settled \<lparr>er_outcome = NOT_CANDIDATE_ORDER, er_orderId = or_id ord,
                er_detail = ''Terminal strategy order predates the persisted candidate deployment.''\<rparr>)
         else sthrow (CandidateEvidenceFault ''CANDIDATE_EXECUTION_BINDING_MISSING''
                ''Terminal candidate order has no persisted deployment binding.'')
     | Some binding \<Rightarrow>
     sbind (getVerifiedDecision deps ord deployment binding) (\<lambda>decision.
     sbind (awaitRead deps (listFills (Some (or_id ord)) \<circ> vw_repo)) (\<lambda>fills.
     if fills = []
     then sbind (hasTerminalNoFillMarker deps ord) (\<lambda>marked.
          sreturn (if marked
            then Settled \<lparr>er_outcome = EVIDENCE_DUPLICATE, er_orderId = or_id ord, er_detail = ''Terminal no-fill cancellation was already recorded.''\<rparr>
            else NoFill decision))
     else sbind (slift (aggregateTerminalFills ord decision fills)) (\<lambda>aggregate.
          sbind (projectFills deps orderId ord deployment decision aggregate) (\<lambda>r. sreturn (Settled r)))))))))"

fun faultCode :: "evidence_error \<Rightarrow> string \<times> string" where
  "faultCode (CandidateEvidenceFault code message) = (code, message)"
| "faultCode (OtherError e) = (''CANDIDATE_EVIDENCE_PROJECTION_FAILED'', errorMessage e)"

definition processTerminalOrder :: "evidence_deps \<Rightarrow> string \<Rightarrow> CandidateEvidenceProjectionResult em" where
  "processTerminalOrder deps orderId =
     sbind (awaitRead deps (findOrderByReference (vd_exchangeAccountId deps) orderId \<circ> vw_repo)) (\<lambda>found.
     case found of
       None \<Rightarrow> sreturn \<lparr>er_outcome = NOT_CANDIDATE_ORDER, er_orderId = orderId,
         er_detail = ''Order is not persisted for the candidate account.''\<rparr>
     | Some ord \<Rightarrow>
         if oi_origin ord \<noteq> STRATEGY \<or> oi_market ord \<noteq> KRW_BTC
         then sreturn \<lparr>er_outcome = NOT_CANDIDATE_ORDER, er_orderId = orderId, er_detail = ''Order is outside candidate strategy provenance.''\<rparr>
         else if or_status ord \<noteq> FILLED \<and> or_status ord \<noteq> CANCELED
         then sreturn \<lparr>er_outcome = NOT_TERMINAL, er_orderId = orderId,
                er_detail = ''Order lifecycle '' @ statusStr (or_status ord) @ '' is not terminal.''\<rparr>
         else sbind (sattempt (projectTerminalOrder deps orderId ord)) (\<lambda>attempt.
              case attempt of
                Inl e \<Rightarrow> fault deps ord (fst (faultCode e)) (snd (faultCode e))
              | Inr (Settled r) \<Rightarrow> sreturn r
              | Inr (NoFill decision) \<Rightarrow> recordTerminalNoFill deps ord decision))"

subsection \<open>The sweep\<close>

definition classifyTerminalOrderForSweep :: "evidence_deps \<Rightarrow> string \<Rightarrow> TerminalCandidateSweepDisposition em" where
  "classifyTerminalOrderForSweep deps orderId =
     sbind (awaitRead deps (findOrderByReference (vd_exchangeAccountId deps) orderId \<circ> vw_repo)) (\<lambda>found.
     case (case found of None \<Rightarrow> None | Some ord \<Rightarrow> if oi_origin ord \<noteq> STRATEGY \<or> oi_market ord \<noteq> KRW_BTC \<or>
         (or_status ord \<noteq> FILLED \<and> or_status ord \<noteq> CANCELED) then None else Some ord) of
       None \<Rightarrow> sreturn OUTSIDE_SCOPE
     | Some ord \<Rightarrow>
     sbind (awaitRead deps (listOrderEvents (vd_collator deps) (or_id ord) \<circ> vw_repo)) (\<lambda>events.
     let faultEvents = candidateProjectionFaultEvents events (or_id ord) in
     sbind (firstUnmatched deps ord faultEvents) (\<lambda>unmatched.
     if unmatched \<noteq> None then sreturn ELIGIBLE
     else if faultEvents \<noteq> [] then sreturn DISPOSED
     else
     sbind (if list_ex (\<lambda>event. ev_id event = noFillMarker ord) events
            then sbind (awaitRead deps (listFills (Some (or_id ord)) \<circ> vw_repo)) (\<lambda>fills. sreturn (fills = []))
            else sreturn False) (\<lambda>disposedWithoutFill.
     if disposedWithoutFill then sreturn DISPOSED
     else
     sbind (awaitRead deps (getDeploymentForExchangeAccount (vd_collator deps) (oi_exchangeAccountId ord) \<circ> vw_pilots)) (\<lambda>foundDeployment.
     case (case foundDeployment of None \<Rightarrow> None | Some d \<Rightarrow> if dp_phase d \<noteq> ACTIVE \<and> dp_phase d \<noteq> DRAINING then None else Some d) of
       None \<Rightarrow> sreturn OUTSIDE_SCOPE
     | Some deployment \<Rightarrow>
     sbind (awaitRead deps (getExecutionBindingForOrder (or_id ord) \<circ> candidate_store.truncate \<circ> vw_pilots)) (\<lambda>foundBinding.
     if \<not> hasVerifiedDeploymentActivation deployment then sreturn ELIGIBLE
     else case foundBinding of
       None \<Rightarrow> sreturn (if isPreActivationOrder ord deployment then PRE_ACTIVATION else ELIGIBLE)
     | Some binding \<Rightarrow>
         if bd_deploymentId binding \<noteq> dp_id deployment then sreturn ELIGIBLE
         else sbind (awaitRead deps (getEvidenceRecord (dp_id deployment) (evidenceIdOf ord) \<circ> vw_pilots)) (\<lambda>record.
              sreturn (if record = None then ELIGIBLE else DISPOSED))))))))"

end
