(* ===== verification/EvidenceProperties.thy ===== *)
theory EvidenceProperties
  imports CandidateEvidence PilotProperties RepositoryInvariants
begin

section \<open>Properties of the candidate evidence\<close>

text \<open>
  What the evidence of a terminal order says about its fills; that a fault stops the account, whatever runs meanwhile;
  that an order is counted once. The witnesses are at the end.
\<close>

lemma plain_eq: "plain r = Inr x \<longleftrightarrow> r = Inr x" "plain r = Inl e \<longleftrightarrow> (\<exists>e'. r = Inl e' \<and> e = OtherError e')"
  by (cases r; auto simp: plain_def)+

lemma plain_Inr [simp]: "plain (Inr x) = Inr x"
  by (simp add: plain_def)

lemma faultIf_Inr: "faultIf b code message = Inr u \<longleftrightarrow> \<not> b"
  by (simp add: faultIf_def throw_if_eq_Inr)

lemma evidenceTimestamp_Inr: "evidenceTimestamp t label = Inr epoch \<longleftrightarrow> epochOf t epoch"
  unfolding evidenceTimestamp_def epoch_label [of t label, symmetric] by (simp split: sum.splits)

lemmas evidence_simps = plain_eq faultIf_Inr evidenceTimestamp_Inr res_simps

subsection \<open>Fills\<close>

text \<open>A fill that counts: of this order, confirmed by the exchange, after request and binding, with positive amounts.\<close>

definition confirmedFill :: "OrderRecord \<Rightarrow> VerifiedDecision \<Rightarrow> FillRecord \<Rightarrow> bool" where
  "confirmedFill ord decision fill \<longleftrightarrow> fl_orderId fill = or_id ord \<and> fl_market fill = oi_market ord \<and> fl_side fill = oi_side ord \<and>
     fl_executionTimestampProvenance fill = Some TS_EXCHANGE_FILL_CONFIRMED \<and>
     fl_feeProvenance fill = Some FEE_EXCHANGE_FILL_CONFIRMED \<and> fl_feeCurrency fill = Some ''KRW'' \<and>
     (\<exists>epoch. epochOf (fl_filledAt fill) epoch \<and> vf_requestedAt decision \<le> epoch \<and> vf_bindingCreatedAt decision < epoch) \<and>
     0 < numVal (fl_volume fill) \<and> 0 < numVal (fl_price fill) \<and> (\<exists>fee. fl_feeAmount fill = Some fee \<and> 0 \<le> numVal fee)"

lemma timedFill_Inr:
  "timedFill fill = Inr item \<longleftrightarrow> (\<exists>epoch. item = (fill, epoch) \<and> epochOf (fl_filledAt fill) epoch \<and>
     fl_executionTimestampProvenance fill = Some TS_EXCHANGE_FILL_CONFIRMED \<and> fl_executionEpochNs fill = Some (bigintToString epoch) \<and>
     isPlainNatural (bigintToString epoch))"
  by (auto simp: timedFill_def verifiedExchangeFillEpoch_def evidence_simps split: option.splits)

lemma coefficient_zero: "ed_coefficient d = 0 \<longleftrightarrow> decimalValue d = 0"
  by (simp add: decimalValue_def)

lemma positive_amount:
  assumes "parseCanonicalNonNegativeDecimal s label = Inr d"
  shows "decimalValue d = numVal s" "0 \<le> numVal s" "ed_coefficient d \<noteq> 0 \<Longrightarrow> 0 < numVal s"
  using assms canonical_facts(2) [of s] by (auto simp: parse_nonneg_Inr coefficient_zero)

abbreviation feeOf :: "FillRecord \<Rightarrow> rat" where
  "feeOf fill \<equiv> numVal (the (fl_feeAmount fill))"

lemma addFill_Inr:
  assumes "addFill ord decision (q, g, f) (fill, epoch) = Inr (q', g', f')" "timedFill fill = Inr (fill, epoch)"
  shows "confirmedFill ord decision fill \<and> decimalValue q' = decimalValue q + numVal (fl_volume fill) \<and>
    decimalValue g' = decimalValue g + numVal (fl_price fill) * numVal (fl_volume fill) \<and> decimalValue f' = decimalValue f + feeOf fill"
proof -
  obtain volume price fee where amounts: "parseCanonicalNonNegativeDecimal (fl_volume fill) ''fill volume'' = Inr volume"
      "parseCanonicalNonNegativeDecimal (fl_price fill) ''fill price'' = Inr price"
      "parseCanonicalNonNegativeDecimal (the (fl_feeAmount fill)) ''fill feeAmount'' = Inr fee"
      "ed_coefficient volume \<noteq> 0" "ed_coefficient price \<noteq> 0"
    and sums: "q' = addExactDecimals q volume" "g' = addExactDecimals g (multiplyExactDecimals price volume)" "f' = addExactDecimals f fee"
    and checks: "fl_orderId fill = or_id ord" "fl_market fill = oi_market ord" "fl_side fill = oi_side ord"
      "vf_requestedAt decision \<le> epoch" "vf_bindingCreatedAt decision < epoch" "fl_feeCurrency fill = Some ''KRW''"
      "fl_feeProvenance fill = Some FEE_EXCHANGE_FILL_CONFIRMED" "fl_feeAmount fill \<noteq> None"
    using assms(1) by (auto simp: addFill_def evidence_simps not_less)
  have "0 < numVal (fl_volume fill)" "0 < numVal (fl_price fill)" "0 \<le> feeOf fill"
    using positive_amount(3) [OF amounts(1,4)] positive_amount(3) [OF amounts(2,5)] positive_amount(2) [OF amounts(3)] by auto
  then have "confirmedFill ord decision fill"
    using checks assms(2) by (auto simp: confirmedFill_def timedFill_Inr)
  then show ?thesis
    by (simp add: sums positive_amount(1) [OF amounts(1)] positive_amount(1) [OF amounts(2)] positive_amount(1) [OF amounts(3)])
qed

lemma addFills_Inr:
  assumes "efold (addFill ord decision) (q, g, f) items = Inr (q', g', f')" "list_all (\<lambda>item. timedFill (fst item) = Inr item) items"
  shows "list_all (confirmedFill ord decision \<circ> fst) items \<and>
    decimalValue q' = decimalValue q + (\<Sum>item\<leftarrow>items. numVal (fl_volume (fst item))) \<and>
    decimalValue g' = decimalValue g + (\<Sum>item\<leftarrow>items. numVal (fl_price (fst item)) * numVal (fl_volume (fst item))) \<and>
    decimalValue f' = decimalValue f + (\<Sum>item\<leftarrow>items. feeOf (fst item))"
  using assms
proof (induction items arbitrary: q g f)
  case (Cons item items)
  obtain fill epoch where item: "item = (fill, epoch)" by fastforce
  from Cons.prems(1) obtain t where step: "addFill ord decision (q, g, f) item = Inr t"
      and rest: "efold (addFill ord decision) t items = Inr (q', g', f')" by (auto simp: ebind_eq_Inr)
  obtain q1 g1 f1 where t: "t = (q1, g1, f1)" by (cases t)
  have "timedFill fill = Inr (fill, epoch)" using Cons.prems(2) item by simp
  from addFill_Inr [OF step [unfolded item t] this] Cons.IH [OF rest [unfolded t]] Cons.prems(2) item
  show ?case by (simp add: algebra_simps)
qed auto

lemma timedFills:
  assumes "emapM timedFill fills = Inr timed"
  shows "map fst timed = fills" "list_all (\<lambda>item. timedFill (fst item) = Inr item) timed"
proof -
  have "map fst timed = fills \<and> list_all (\<lambda>item. timedFill (fst item) = Inr item) timed"
    using assms by (induction fills arbitrary: timed) (auto simp: ebind_eq_Inr timedFill_Inr)
  then show "map fst timed = fills" "list_all (\<lambda>item. timedFill (fst item) = Inr item) timed" by auto
qed

lemma timedFill_epoch: "list_all (\<lambda>item. timedFill (fst item) = Inr item) timed \<Longrightarrow> item \<in> set timed \<Longrightarrow> epochOf (fl_filledAt (fst item)) (snd item)"
  unfolding list_all_iff timedFill_Inr by (metis snd_conv)

lemma sum_sorted: "(\<Sum>x\<leftarrow>sort_by le xs. h x) = (\<Sum>x\<leftarrow>xs. h x :: rat)"
  by (metis mset_map mset_sort_by sum_mset_sum_list)

lemma fillBefore_iff: "fillBefore a b \<longleftrightarrow> snd a < snd b \<or> (snd a = snd b \<and> fl_id (fst a) \<le> fl_id (fst b))"
  by (auto simp: fillBefore_def compare_le)

interpretation fillOrder: comparison fillBefore
  by unfold_locales (auto simp: fillBefore_iff)

text \<open>What the order asked for bounds the totals.\<close>

definition withinOrder :: "OrderRecord \<Rightarrow> rat \<Rightarrow> rat \<Rightarrow> bool" where
  "withinOrder ord quantity gross \<longleftrightarrow> 0 < quantity \<and> (\<forall>volume. oi_volume ord = Some volume \<longrightarrow> quantity \<le> numVal volume) \<and>
     (oi_side ord = Bid \<longrightarrow> oi_ordType ord = Price \<longrightarrow> (\<exists>budget. oi_price ord = Some budget \<and> gross \<le> numVal budget))"

lemma empty_not_canonical: "\<not> CANONICAL_NON_NEGATIVE []"
  by code_simp

lemma checkOrderBounds_Inr:
  assumes "checkOrderBounds ord q g = Inr u" "0 \<le> decimalValue q"
  shows "withinOrder ord (decimalValue q) (decimalValue g)"
  using assms empty_not_canonical unfolding checkOrderBounds_def withinOrder_def
  by (auto simp: evidence_simps coefficient_zero compare_value parse_nonneg_Inr split: option.splits if_splits)

text \<open>
  C16. The evidence made of the fills of a terminal order is exact: every fill is of this order, confirmed by the exchange,
  after request and binding, with positive volume and price; executed quantity, quote value and fee are the exact sums of
  volumes, prices times volumes, and fees; the quantity is positive and at most the order's volume, the value of a buy for
  an amount at most that amount; and the time is that of a latest fill.
\<close>
theorem terminal_fills_exact:
  assumes "aggregateTerminalFills ord decision fills = Inr aggregate"
  shows "list_all (confirmedFill ord decision) fills \<and>
    numVal (ag_executedQuantity aggregate) = (\<Sum>fill\<leftarrow>fills. numVal (fl_volume fill)) \<and>
    numVal (ag_grossQuoteValueKrw aggregate) = (\<Sum>fill\<leftarrow>fills. numVal (fl_price fill) * numVal (fl_volume fill)) \<and>
    numVal (ag_confirmedFeeKrw aggregate) = (\<Sum>fill\<leftarrow>fills. feeOf fill) \<and>
    withinOrder ord (numVal (ag_executedQuantity aggregate)) (numVal (ag_grossQuoteValueKrw aggregate)) \<and>
    (\<exists>latest\<in>set fills. \<exists>epoch. ag_executedAt aggregate = fl_filledAt latest \<and> epochOf (fl_filledAt latest) epoch \<and>
       (\<forall>fill\<in>set fills. \<exists>e. epochOf (fl_filledAt fill) e \<and> e \<le> epoch))"
proof -
  obtain timed q g f where timed: "emapM timedFill fills = Inr timed"
      and fold: "efold (addFill ord decision) (parseCanonicalDecimal ''0'', parseCanonicalDecimal ''0'', parseCanonicalDecimal ''0'')
        (sort_by fillBefore timed) = Inr (q, g, f)"
      and bounds: "checkOrderBounds ord q g = Inr ()"
      and aggregate: "aggregate = \<lparr>ag_executedAt = fl_filledAt (fst (last (sort_by fillBefore timed))), ag_executedQuantity = formatExactDecimal q,
        ag_grossQuoteValueKrw = formatExactDecimal g, ag_confirmedFeeKrw = formatExactDecimal f\<rparr>"
    using assms by (auto simp: aggregateTerminalFills_def ebind_eq_Inr Let_def)
  note fills = timedFills [OF timed]
  have sorted: "list_all (\<lambda>item. timedFill (fst item) = Inr item) (sort_by fillBefore timed)"
    using fills(2) by (simp add: list_all_iff)
  note sums = addFills_Inr [OF fold sorted]
  have confirmed: "list_all (confirmedFill ord decision) fills"
    using sums fills(1) by (auto simp: list_all_iff)
  have totals: "decimalValue q = (\<Sum>fill\<leftarrow>fills. numVal (fl_volume fill))"
      "decimalValue g = (\<Sum>fill\<leftarrow>fills. numVal (fl_price fill) * numVal (fl_volume fill))"
      "decimalValue f = (\<Sum>fill\<leftarrow>fills. feeOf fill)"
    using sums by (simp_all add: sum_sorted flip: fills(1)) (simp_all add: comp_def)
  have "0 \<le> decimalValue q" using confirmed unfolding totals
    by (intro sum_list_nonneg) (auto simp: list_all_iff confirmedFill_def)
  note within = checkOrderBounds_Inr [OF bounds this]
  then have "fills \<noteq> []" using totals(1) by (auto simp: withinOrder_def)
  then have nonempty: "sort_by fillBefore timed \<noteq> []" using fills(1) by (metis length_0_conv length_sort_by list.map_disc_iff)
  define latest where "latest = last (sort_by fillBefore timed)"
  have "latest \<in> set timed" using last_in_set [OF nonempty] by (simp add: latest_def)
  then have "fst latest \<in> set fills" "epochOf (fl_filledAt (fst latest)) (snd latest)"
    using fills(1) timedFill_epoch [OF fills(2)] by auto
  moreover have "\<exists>e. epochOf (fl_filledAt fill) e \<and> e \<le> snd latest" if member: "fill \<in> set fills" for fill
  proof -
    obtain e where e: "(fill, e) \<in> set timed" using member fills(1) by fastforce
    from fillOrder.last_greatest [OF e] have "e \<le> snd latest" by (auto simp: latest_def fillBefore_iff)
    with timedFill_epoch [OF fills(2) e] show ?thesis by auto
  qed
  ultimately show ?thesis using confirmed totals within by (auto simp: aggregate simp flip: latest_def)
qed

subsection \<open>Faults\<close>

lemma wp_awaiting [wp_simps]:
  "wp (awaiting deps m) Q w = wp m (\<lambda>r u. Q (plain r) (passTime deps u)) w"
  "wp (awaitRead deps f) Q' w = Q' (Inr (f w)) (passTime deps w)"
  "wp (clockNow deps) Q'' w = Q'' (Inr (vd_clock deps (vw_ticks w))) (w\<lparr>vw_ticks := Suc (vw_ticks w)\<rparr>)"
  by (simp_all add: wp_def awaiting_def awaitRead_def clockNow_def split: prod.splits)

lemma wp_stores [wp_simps]:
  "wp (onRepository a) Q w = wp a (\<lambda>r s. Q r (w\<lparr>vw_repo := s\<rparr>)) (vw_repo w)"
  "wp (onPilotStore b) Q' w = wp b (\<lambda>r p. Q' r (w\<lparr>vw_pilots := p\<rparr>)) (vw_pilots w)"
  "wp (onFaultStores c) Q'' w = wp c (\<lambda>r sp. Q'' r (w\<lparr>vw_repo := fst sp, vw_operator := snd sp\<rparr>)) (vw_repo w, vw_operator w)"
  by (simp_all add: wp_def onRepository_def onPilotStore_def onFaultStores_def split: prod.splits)

text \<open>Where only the end of the code matters, from whatever state it gets there.\<close>

lemma wp_forget: "(\<And>e t. Q (Inl e) t) \<Longrightarrow> (\<And>x t. wp (f x) Q t) \<Longrightarrow> wp (sbind m f) Q s"
  unfolding wp_sbind by (rule wp_mono [of _ "\<lambda>_ _. True"]) (auto simp: wp_def split: sum.splits)

lemma wp_after:
  "wp m P s \<Longrightarrow> (\<And>e t. P (Inl e) t \<Longrightarrow> Q (Inl e) t) \<Longrightarrow> (\<And>x t. P (Inr x) t \<Longrightarrow> wp (f x) Q t) \<Longrightarrow> wp (sbind m f) Q s"
  unfolding wp_sbind by (erule wp_mono) (auto split: sum.splits)

text \<open>The state right after a fault was written: the account is stopped and the fault is an event of the order.\<close>

definition faultRecorded :: "evidence_deps \<Rightarrow> string \<Rightarrow> evidence_world \<Rightarrow> bool" where
  "faultRecorded deps orderId u \<longleftrightarrow> (\<exists>v event. u = passTime deps v \<and> stopped (op_state (vw_operator v)) \<and>
     event \<in> set (rp_orderEvents (vw_repo v)) \<and> ev_orderId event = orderId)"

lemma persistFault_records:
  "wp (persistFault deps ord event reason transitionAt) (\<lambda>r u. \<forall>x. r = Inr x \<longrightarrow> faultRecorded deps (or_id ord) u) w"
proof -
  let ?i = "PersistCandidateProjectionFaultInput.make (or_id ord) event
       \<lparr>fp_exchangeAccountId = oi_exchangeAccountId ord, fp_faultId = ev_id event, fp_reason = reason,
        fp_occurredAt = ev_createdAt event, fp_transitionAt = Some transitionAt\<rparr>"
  have "wp (persistCandidateProjectionFault (Some applyFaultPauseAtomically) ?i) (\<lambda>r sp. \<forall>x. r = Inr x \<longrightarrow>
      stopped (op_state (snd sp)) \<and> event \<in> set (rp_orderEvents (fst sp)) \<and> ev_orderId event = or_id ord) (s, p)" for s p
  proof (rule wpI, intro allI impI)
    fix r sp x
    assume run: "persistCandidateProjectionFault (Some applyFaultPauseAtomically) ?i (s, p) = (r, sp)" and "r = Inr x"
    obtain s' p' where sp: "sp = (s', p')" by fastforce
    from run \<open>r = Inr x\<close> sp obtain st where "applyFaultPauseAtomically (pf_faultPause ?i) p = (Inr st, p')"
        and s': "s' = (if x = APPLIED then addEvents [event] s else s)"
      using persistCandidateProjectionFault_effect [of "Some applyFaultPauseAtomically" ?i s p x s' p']
      by (auto simp: PersistCandidateProjectionFaultInput.defs)
    then have "stopped (op_state p')" using opstore.pause_stops by metis
    moreover have "(x \<noteq> APPLIED \<longrightarrow> event \<in> set (rp_orderEvents s)) \<and> ev_orderId event = or_id ord"
      using run \<open>r = Inr x\<close>
      by (auto simp: persistCandidateProjectionFault_def onRepo_def onPauser_def sbind_eq_Inr sguard_eq_Inr orderById_def eventById_def
          recordsEqual_def PersistCandidateProjectionFaultInput.defs
          dest!: find_Some_set split: option.splits if_splits prod.splits)
    ultimately show "stopped (op_state (snd sp)) \<and> event \<in> set (rp_orderEvents (fst sp)) \<and> ev_orderId event = or_id ord"
      using s' sp by (auto simp: addEvents_def)
  qed
  from this [of "vw_repo w" "vw_operator w"] show ?thesis
    unfolding persistFault_def wp_awaiting wp_stores
    unfolding faultRecorded_def
    by (rule wp_mono) (auto simp: plain_eq intro!: exI [of _ "w\<lparr>vw_repo := _, vw_operator := _\<rparr>"])
qed

text \<open>A result that reports a fault comes with one that was recorded.\<close>

abbreviation faultReported :: "evidence_deps \<Rightarrow> evidence_error + CandidateEvidenceProjectionResult \<Rightarrow> evidence_world \<Rightarrow> bool" where
  "faultReported deps r u \<equiv> \<forall>x. r = Inr x \<longrightarrow> er_outcome x = FAULT \<longrightarrow> faultRecorded deps (er_orderId x) u"

lemma fault_reports: "wp (fault deps ord code message) (faultReported deps) w"
  unfolding fault_def Let_def
  by (intro wp_after [OF persistFault_records] wp_forget) (auto simp: wp_basic)

lemma repair_reports: "wp (repairPersistedFaultPause deps ord event) (faultReported deps) w"
  unfolding repairPersistedFaultPause_def Let_def
  by (intro wp_after [OF persistFault_records] wp_forget) (auto simp: wp_basic)

lemma noFill_reports: "wp (recordTerminalNoFill deps ord decision) (faultReported deps) w"
  unfolding recordTerminalNoFill_def by (intro wp_forget wp_branches) (auto simp: wp_basic)

lemma fills_report: "wp (projectFills deps orderId ord deployment decision aggregate) (faultReported deps) w"
  unfolding projectFills_def Let_def by (intro wp_forget wp_branches) (auto simp: wp_basic)

lemma projection_reports:
  "wp (projectTerminalOrder deps orderId ord) (\<lambda>r u. \<forall>x. r = Inr (Settled x) \<longrightarrow> faultReported deps (Inr x) u) w"
  unfolding projectTerminalOrder_def
  by (intro wp_after [OF repair_reports] wp_after [OF fills_report] wp_forget wp_branches) (auto simp: wp_basic)

lemma order_reports: "wp (processTerminalOrder deps orderId) (faultReported deps) w"
proof -
  have attempt: "wp (sattempt (projectTerminalOrder deps orderId ord))
      (\<lambda>r u. \<forall>x. r = Inr (Inr (Settled x)) \<longrightarrow> faultReported deps (Inr x) u) w" for ord w
    unfolding wp_sattempt by (rule wp_mono [OF projection_reports]) auto
  show ?thesis
    unfolding processTerminalOrder_def
    by (intro wp_after [OF attempt] wp_forget wp_branches fault_reports)
      (auto simp: wp_basic intro: noFill_reports split: projection.splits)
qed

text \<open>
  C15. When the service reports a fault for an order, then in the state right after its last write the account is PAUSED or
  KILL_SWITCHED and the fault is stored as an event of that order, whatever other callbacks do during every await.
\<close>
theorem evidence_fault_stops:
  assumes "processTerminalOrder deps orderId w = (Inr result, w')" and "er_outcome result = FAULT"
  shows "\<exists>v event. w' = passTime deps v \<and> stopped (op_state (vw_operator v)) \<and>
    event \<in> set (rp_orderEvents (vw_repo v)) \<and> ev_orderId event = er_orderId result"
  using wpD [OF order_reports assms(1)] assms(2) by (simp add: faultRecorded_def)

subsection \<open>An order is counted once\<close>

text \<open>When no other callback runs: the state changes by the calls of the service alone.\<close>

definition quiet :: "evidence_deps \<Rightarrow> bool" where
  "quiet deps \<longleftrightarrow> vd_others deps = (\<lambda>_ w. w)"

lemma quiet_pass: "quiet deps \<Longrightarrow> passTime deps w = w\<lparr>vw_ticks := Suc (vw_ticks w)\<rparr>"
  by (simp add: quiet_def passTime_def)

abbreviation unmatched :: "OrderRecord \<Rightarrow> operator_store \<Rightarrow> OrderEventRecord \<Rightarrow> bool" where
  "unmatched ord operator event \<equiv> \<not> isMatchingFaultPauseTransition (getTransitionById (ev_id event) operator) ord event"

fun lookups :: "('a \<Rightarrow> bool) \<Rightarrow> 'a list \<Rightarrow> nat \<Rightarrow> nat" where
  "lookups P [] n = n"
| "lookups P (x # xs) n = (if P x then Suc n else lookups P xs (Suc n))"

lemma wp_firstUnmatched:
  assumes "quiet deps"
  shows "wp (firstUnmatched deps ord events) Q w = Q (Inr (find (unmatched ord (vw_operator w)) events))
    (w\<lparr>vw_ticks := lookups (unmatched ord (vw_operator w)) events (vw_ticks w)\<rparr>)"
  by (induction events arbitrary: w)
    (auto simp: hasMatchingFaultPauseTransition_def wp_simps quiet_pass [OF assms])

text \<open>What the service finds of an order whose fills it projects.\<close>

definition orderFaults :: "evidence_deps \<Rightarrow> evidence_world \<Rightarrow> OrderRecord \<Rightarrow> OrderEventRecord list" where
  "orderFaults deps w ord = candidateProjectionFaultEvents (listOrderEvents (vd_collator deps) (or_id ord) (vw_repo w)) (or_id ord)"

definition projectable ::
  "evidence_deps \<Rightarrow> string \<Rightarrow> evidence_world \<Rightarrow> OrderRecord \<Rightarrow> PositionGuardPilotDeploymentRecord \<Rightarrow> VerifiedDecision \<Rightarrow> TerminalFillAggregate \<Rightarrow> bool" where
  "projectable deps orderId w ord d decision aggregate \<longleftrightarrow>
     findOrderByReference (vd_exchangeAccountId deps) orderId (vw_repo w) = Some ord \<and> oi_origin ord = STRATEGY \<and> oi_market ord = KRW_BTC \<and>
     (or_status ord = FILLED \<or> or_status ord = CANCELED) \<and> list_all (\<lambda>event. \<not> unmatched ord (vw_operator w) event) (orderFaults deps w ord) \<and>
     getDeploymentForExchangeAccount (vd_collator deps) (oi_exchangeAccountId ord) (vw_pilots w) = Some d \<and>
     (dp_phase d = ACTIVE \<or> dp_phase d = DRAINING) \<and> hasVerifiedDeploymentActivation d \<and>
     (\<exists>binding strategy. getExecutionBindingForOrder (or_id ord) (candidate_store.truncate (vw_pilots w)) = Some binding \<and>
        truthy (oi_strategyDecisionId ord) \<and> getStrategyDecisionById (the (oi_strategyDecisionId ord)) (vw_repo w) = Some strategy \<and>
        verifyDecision ord d binding strategy = Inr decision) \<and>
     listFills (Some (or_id ord)) (vw_repo w) \<noteq> [] \<and>
     aggregateTerminalFills ord decision (listFills (Some (or_id ord)) (vw_repo w)) = Inr aggregate"

definition advances ::
  "evidence_deps \<Rightarrow> OrderRecord \<Rightarrow> PositionGuardPilotDeploymentRecord \<Rightarrow> VerifiedDecision \<Rightarrow> TerminalFillAggregate \<Rightarrow> pilot_store \<Rightarrow> pilot_store \<Rightarrow> bool" where
  "advances deps ord d decision aggregate p p' \<longleftrightarrow> (\<exists>state remaining answer. getExactState (dp_id d) p = Some state \<and>
     remainingAfter ord decision aggregate (listEvidenceRecords (dp_id d) p) = Inr remaining \<and>
     getEvidenceRecord (dp_id d) (evidenceIdOf ord) p = None \<and> \<not> ar_duplicate answer \<and>
     advanceStateWithEvidence (vd_sha256 deps) \<lparr>ai_deploymentId = dp_id d, ai_expectedStateVersion = xs_stateVersion state,
       ai_evidence = evidenceFrom ord decision aggregate remaining\<rparr> p = (Inr answer, p'))"

lemma find_sorted_None: "find P (sort_by le xs) = None \<longleftrightarrow> list_all (\<lambda>x. \<not> P x) xs"
  by (auto simp: find_None_iff list_all_iff)

lemma projectFills_advances:
  assumes "quiet deps"
  shows "wp (projectFills deps orderId ord d decision aggregate) (\<lambda>r u. \<forall>x. r = Inr x \<longrightarrow> er_outcome x = ADVANCED \<longrightarrow>
    (\<exists>p' n. advances deps ord d decision aggregate (vw_pilots w) p' \<and> u = w\<lparr>vw_pilots := p', vw_ticks := n\<rparr>)) w"
  unfolding projectFills_def advances_def
  by (auto simp: wp_simps quiet_pass [OF assms] Let_def split: option.splits sum.splits) (auto simp: wp_def plain_eq split: prod.splits)

lemma wp_read: "quiet deps \<Longrightarrow> wp (f (g w)) Q (w\<lparr>vw_ticks := Suc (vw_ticks w)\<rparr>) \<Longrightarrow> wp (sbind (awaitRead deps g) f) Q w"
  by (simp add: wp_simps quiet_pass)

lemma wp_check: "(\<And>e. r = Inl e \<Longrightarrow> Q (Inl e) w) \<Longrightarrow> (\<And>x. r = Inr x \<Longrightarrow> wp (f x) Q w) \<Longrightarrow> wp (sbind (slift r) f) Q w"
  by (simp add: wp_simps split: sum.splits)

lemma wp_incomplete:
  assumes "quiet deps"
    and "\<And>event n. wp (f (Some event)) Q (w\<lparr>vw_ticks := n\<rparr>)"
    and "\<And>n. list_all (\<lambda>event. \<not> unmatched ord (vw_operator w) event) (orderFaults deps w ord) \<Longrightarrow> wp (f None) Q (w\<lparr>vw_ticks := n\<rparr>)"
  shows "wp (sbind (findIncompleteFaultPause deps ord) f) Q w"
proof -
  let ?events = "sort_by (\<lambda>left right. orCompare (vd_collator deps (ev_createdAt left) (ev_createdAt right))
       (vd_collator deps (ev_id left) (ev_id right)) \<le> 0) (orderFaults deps w ord)"
  have "find (unmatched ord (vw_operator w)) ?events = None \<Longrightarrow> list_all (\<lambda>event. \<not> unmatched ord (vw_operator w) event) (orderFaults deps w ord)"
    by (simp add: find_sorted_None)
  then show ?thesis
    unfolding findIncompleteFaultPause_def wp_sbind wp_awaiting comp_def sum.case wp_firstUnmatched [OF assms(1)] quiet_pass [OF assms(1)]
    using assms(2,3) by (cases "find (unmatched ord (vw_operator w)) ?events") (simp_all add: orderFaults_def)
qed

lemma wp_decision:
  assumes "quiet deps" and "\<And>e n. Q (Inl e) (w\<lparr>vw_ticks := n\<rparr>)"
    and "\<And>strategy decision n. truthy (oi_strategyDecisionId ord) \<Longrightarrow>
      getStrategyDecisionById (the (oi_strategyDecisionId ord)) (vw_repo w) = Some strategy \<Longrightarrow>
      verifyDecision ord d binding strategy = Inr decision \<Longrightarrow> wp (f decision) Q (w\<lparr>vw_ticks := n\<rparr>)"
  shows "wp (sbind (getVerifiedDecision deps ord d binding) f) Q w"
  using assms(2) [of _ "vw_ticks w"] assms(2,3)
  by (auto simp: getVerifiedDecision_def wp_simps quiet_pass [OF assms(1)] split: option.splits sum.splits)

lemma repair_outcome: "wp (repairPersistedFaultPause deps ord event) (\<lambda>r u. \<forall>x. r = Inr x \<longrightarrow> er_outcome x = FAULT) w"
  unfolding repairPersistedFaultPause_def Let_def by (intro wp_forget) (auto simp: wp_basic)

lemma projection_advances:
  assumes "quiet deps" and "findOrderByReference (vd_exchangeAccountId deps) orderId (vw_repo w) = Some ord" "oi_origin ord = STRATEGY"
    "oi_market ord = KRW_BTC" "or_status ord = FILLED \<or> or_status ord = CANCELED"
  shows "wp (projectTerminalOrder deps orderId ord) (\<lambda>r u. \<forall>x. r = Inr (Settled x) \<longrightarrow> er_outcome x = ADVANCED \<longrightarrow>
    (\<exists>d decision aggregate p' n. projectable deps orderId w ord d decision aggregate \<and>
       advances deps ord d decision aggregate (vw_pilots w) p' \<and> u = w\<lparr>vw_pilots := p', vw_ticks := n\<rparr>)) w"
  unfolding projectTerminalOrder_def hasTerminalNoFillMarker_def sbind_assoc
  by (intro wp_incomplete [OF assms(1)] wp_after [OF repair_outcome] wp_after [OF projectFills_advances [OF assms(1)]] wp_decision [OF assms(1)]
      wp_read [OF assms(1)] wp_check wp_branches, simp_all add: wp_basic)
    (auto simp: projectable_def orderFaults_def assms faultIf_Inr wp_def split: option.splits if_splits)

lemma noFill_outcome: "wp (recordTerminalNoFill deps ord decision) (\<lambda>r u. \<forall>x. r = Inr x \<longrightarrow> er_outcome x \<noteq> ADVANCED) w"
  unfolding recordTerminalNoFill_def by (intro wp_forget wp_branches) (auto simp: wp_basic)

lemma fault_outcome: "wp (fault deps ord code message) (\<lambda>r u. \<forall>x. r = Inr x \<longrightarrow> er_outcome x \<noteq> ADVANCED) w"
  unfolding fault_def Let_def by (intro wp_forget) (auto simp: wp_basic)

lemma order_advances:
  assumes "quiet deps"
  shows "wp (processTerminalOrder deps orderId) (\<lambda>r u. \<forall>x. r = Inr x \<longrightarrow> er_outcome x = ADVANCED \<longrightarrow>
    (\<exists>ord d decision aggregate p' n. projectable deps orderId w ord d decision aggregate \<and>
       advances deps ord d decision aggregate (vw_pilots w) p' \<and> u = w\<lparr>vw_pilots := p', vw_ticks := n\<rparr>)) w"
  (is "wp _ ?Q w")
proof -
  have attempt: "wp (sbind (sattempt (projectTerminalOrder deps orderId ord)) (\<lambda>attempt. case attempt of
        Inl e \<Rightarrow> fault deps ord (fst (faultCode e)) (snd (faultCode e)) | Inr (Settled r) \<Rightarrow> sreturn r
      | Inr (NoFill decision) \<Rightarrow> recordTerminalNoFill deps ord decision)) ?Q (w\<lparr>vw_ticks := n\<rparr>)"
    if "findOrderByReference (vd_exchangeAccountId deps) orderId (vw_repo w) = Some ord" "oi_origin ord = STRATEGY"
      "oi_market ord = KRW_BTC" "or_status ord = FILLED \<or> or_status ord = CANCELED" for ord n
  proof -
    have "wp (sattempt (projectTerminalOrder deps orderId ord)) (\<lambda>r u. \<forall>x. r = Inr (Inr (Settled x)) \<longrightarrow> ?Q (Inr x) u) (w\<lparr>vw_ticks := n\<rparr>)"
      unfolding wp_sattempt using that
      by (intro wp_mono [OF projection_advances [OF assms, of orderId "w\<lparr>vw_ticks := n\<rparr>" ord]])
        (auto simp: projectable_def orderFaults_def)
    then show ?thesis
      by (rule wp_after)
        (auto simp: wp_basic intro: wp_mono [OF fault_outcome] wp_mono [OF noFill_outcome] split: sum.splits projection.splits)
  qed
  show ?thesis
    unfolding processTerminalOrder_def
    by (intro wp_read [OF assms] wp_branches attempt) (auto simp: wp_basic)
qed

subsection \<open>Counting it again\<close>

lemma fills_duplicate:
  assumes "quiet deps" "getExactState (dp_id d) (vw_pilots w) = Some state"
    "remainingAfter ord decision aggregate (listEvidenceRecords (dp_id d) (vw_pilots w)) = Inr remaining"
    "getEvidenceRecord (dp_id d) (evidenceIdOf ord) (vw_pilots w) = Some stored"
    "assertMatchingExistingEvidence stored (evidenceFrom ord decision aggregate remaining) = Inr ()"
  shows "wp (projectFills deps orderId ord d decision aggregate)
    (\<lambda>r u. \<exists>x n. r = Inr x \<and> er_outcome x = EVIDENCE_DUPLICATE \<and> u = w\<lparr>vw_ticks := n\<rparr>) w"
  unfolding projectFills_def using assms by (auto simp: wp_simps quiet_pass Let_def)

text \<open>The two reads that go through when the order was projected before.\<close>

lemma wp_complete:
  assumes "quiet deps" "list_all (\<lambda>event. \<not> unmatched ord (vw_operator w) event) (orderFaults deps w ord)"
    and "\<And>n. wp (f None) Q (w\<lparr>vw_ticks := n\<rparr>)"
  shows "wp (sbind (findIncompleteFaultPause deps ord) f) Q w"
proof -
  have "find (unmatched ord (vw_operator w)) (sort_by le (orderFaults deps w ord)) = None" for le
    using assms(2) by (simp add: find_sorted_None)
  then show ?thesis
    unfolding findIncompleteFaultPause_def wp_sbind wp_awaiting comp_def sum.case wp_firstUnmatched [OF assms(1)] quiet_pass [OF assms(1)]
    using assms(3) by (simp add: orderFaults_def)
qed

lemma wp_verified:
  assumes "quiet deps" "truthy (oi_strategyDecisionId ord)"
    "getStrategyDecisionById (the (oi_strategyDecisionId ord)) (vw_repo w) = Some strategy"
    "verifyDecision ord d binding strategy = Inr decision" and "\<And>n. wp (f decision) Q (w\<lparr>vw_ticks := n\<rparr>)"
  shows "wp (sbind (getVerifiedDecision deps ord d binding) f) Q w"
  using assms by (simp add: getVerifiedDecision_def wp_simps quiet_pass)

lemma projection_duplicate:
  assumes "quiet deps" "projectable deps orderId w ord d decision aggregate" "getExactState (dp_id d) (vw_pilots w) = Some state"
    "remainingAfter ord decision aggregate (listEvidenceRecords (dp_id d) (vw_pilots w)) = Inr remaining"
    "getEvidenceRecord (dp_id d) (evidenceIdOf ord) (vw_pilots w) = Some stored"
    "assertMatchingExistingEvidence stored (evidenceFrom ord decision aggregate remaining) = Inr ()"
  shows "wp (projectTerminalOrder deps orderId ord)
    (\<lambda>r u. \<exists>x n. r = Inr (Settled x) \<and> er_outcome x = EVIDENCE_DUPLICATE \<and> u = w\<lparr>vw_ticks := n\<rparr>) w"
proof -
  have dup: "wp (projectFills deps orderId ord d decision aggregate)
      (\<lambda>r u. \<exists>x n. r = Inr x \<and> er_outcome x = EVIDENCE_DUPLICATE \<and> u = w\<lparr>vw_ticks := n\<rparr>) (w\<lparr>vw_ticks := m\<rparr>)" for m
    using fills_duplicate [of deps d "w\<lparr>vw_ticks := m\<rparr>" state ord decision aggregate remaining stored orderId] assms by simp
  obtain binding strategy where found: "getExecutionBindingForOrder (or_id ord) (candidate_store.truncate (vw_pilots w)) = Some binding"
      "truthy (oi_strategyDecisionId ord)" "getStrategyDecisionById (the (oi_strategyDecisionId ord)) (vw_repo w) = Some strategy"
      "verifyDecision ord d binding strategy = Inr decision"
    using assms(2) by (auto simp: projectable_def)
  from assms(2) have facts: "list_all (\<lambda>event. \<not> unmatched ord (vw_operator w) event) (orderFaults deps w ord)"
      "getDeploymentForExchangeAccount (vd_collator deps) (oi_exchangeAccountId ord) (vw_pilots w) = Some d"
      "dp_phase d = ACTIVE \<or> dp_phase d = DRAINING" "hasVerifiedDeploymentActivation d"
      "listFills (Some (or_id ord)) (vw_repo w) \<noteq> []"
      "aggregateTerminalFills ord decision (listFills (Some (or_id ord)) (vw_repo w)) = Inr aggregate"
    by (simp_all add: projectable_def)
  have active: "(if dp_phase d \<noteq> ACTIVE \<and> dp_phase d \<noteq> DRAINING then None else Some d) = Some d"
    using facts(3) by auto
  have verified: "slift (faultIf (\<not> hasVerifiedDeploymentActivation d) c m) = sreturn ()" for c m
    using facts(4) by (simp add: fun_eq_iff faultIf_def throw_if_simps)
  have ticks: "vw_pilots (w\<lparr>vw_ticks := n\<rparr>) = vw_pilots w" "vw_repo (w\<lparr>vw_ticks := n\<rparr>) = vw_repo w"
      "w\<lparr>vw_ticks := n, vw_ticks := m\<rparr> = w\<lparr>vw_ticks := m\<rparr>" for n m by simp_all
  note now = wp_read [OF assms(1)]
  show ?thesis
    unfolding projectTerminalOrder_def
    apply (rule wp_complete [OF assms(1) facts(1)], simp only: option.case)
    apply (rule now, simp only: comp_def ticks facts(2) active option.case verified sbind_return)
    apply (rule now, simp only: comp_def ticks found(1) option.case)
    apply (rule wp_verified [OF assms(1) found(2), where strategy = strategy])
    apply (simp add: found(3))
    apply (rule found(4))
    apply (rule now, simp add: facts(5,6) comp_def)
    apply (rule wp_check, simp_all)
    apply (rule wp_after [OF dup])
    apply (auto simp: wp_def)
    done
qed

lemma order_duplicate:
  assumes "quiet deps" "projectable deps orderId w ord d decision aggregate" "getExactState (dp_id d) (vw_pilots w) = Some state"
    "remainingAfter ord decision aggregate (listEvidenceRecords (dp_id d) (vw_pilots w)) = Inr remaining"
    "getEvidenceRecord (dp_id d) (evidenceIdOf ord) (vw_pilots w) = Some stored"
    "assertMatchingExistingEvidence stored (evidenceFrom ord decision aggregate remaining) = Inr ()"
  shows "wp (processTerminalOrder deps orderId)
    (\<lambda>r u. \<exists>x n. r = Inr x \<and> er_outcome x = EVIDENCE_DUPLICATE \<and> u = w\<lparr>vw_ticks := n\<rparr>) w"
proof -
  have "projectable deps orderId (w\<lparr>vw_ticks := n\<rparr>) ord d decision aggregate" for n
    using assms(2) by (simp add: projectable_def orderFaults_def)
  then have "wp (projectTerminalOrder deps orderId ord)
      (\<lambda>r u. \<exists>x n. r = Inr (Settled x) \<and> er_outcome x = EVIDENCE_DUPLICATE \<and> u = w\<lparr>vw_ticks := n\<rparr>) (w\<lparr>vw_ticks := n\<rparr>)" for n
    using projection_duplicate [of deps orderId "w\<lparr>vw_ticks := n\<rparr>" ord d decision aggregate state remaining stored] assms by simp
  then have "wp (sattempt (projectTerminalOrder deps orderId ord))
      (\<lambda>r u. \<exists>x n. r = Inr (Inr (Settled x)) \<and> er_outcome x = EVIDENCE_DUPLICATE \<and> u = w\<lparr>vw_ticks := n\<rparr>) (w\<lparr>vw_ticks := n\<rparr>)" for n
    unfolding wp_sattempt by (rule wp_mono) auto
  note attempt = wp_after [OF this]
  from assms(2) have facts: "findOrderByReference (vd_exchangeAccountId deps) orderId (vw_repo w) = Some ord"
      "oi_origin ord = STRATEGY" "oi_market ord = KRW_BTC" "or_status ord = FILLED \<or> or_status ord = CANCELED"
    by (simp_all add: projectable_def)
  then have test: "(oi_origin ord \<noteq> STRATEGY \<or> oi_market ord \<noteq> KRW_BTC) = False" "(or_status ord \<noteq> FILLED \<and> or_status ord \<noteq> CANCELED) = False"
    by auto
  show ?thesis
    unfolding processTerminalOrder_def
    by (rule wp_read [OF assms(1)], simp only: comp_def facts(1) option.case test if_False, rule attempt) (auto simp: wp_def, blast)
qed

lemma sweep_disposes:
  assumes "quiet deps" "projectable deps orderId w ord d decision aggregate"
    "getEvidenceRecord (dp_id d) (evidenceIdOf ord) (vw_pilots w) = Some stored"
  shows "wp (classifyTerminalOrderForSweep deps orderId) (\<lambda>r u. r = Inr DISPOSED \<and> (\<exists>n. u = w\<lparr>vw_ticks := n\<rparr>)) w"
proof -
  obtain binding strategy where found: "getExecutionBindingForOrder (or_id ord) (candidate_store.truncate (vw_pilots w)) = Some binding"
      "verifyDecision ord d binding strategy = Inr decision"
    using assms(2) by (auto simp: projectable_def)
  have bound: "bd_deploymentId binding = dp_id d"
    using found(2) by (auto simp: verifyDecision_def evidence_simps Let_def)
  have none: "find (unmatched ord (vw_operator w)) (orderFaults deps w ord) = None"
    using assms(2) by (auto simp: projectable_def find_None_iff list_all_iff)
  from assms(2) have facts: "findOrderByReference (vd_exchangeAccountId deps) orderId (vw_repo w) = Some ord"
      "oi_origin ord = STRATEGY" "oi_market ord = KRW_BTC" "or_status ord = FILLED \<or> or_status ord = CANCELED"
      "getDeploymentForExchangeAccount (vd_collator deps) (oi_exchangeAccountId ord) (vw_pilots w) = Some d"
      "dp_phase d = ACTIVE \<or> dp_phase d = DRAINING" "hasVerifiedDeploymentActivation d"
      "listFills (Some (or_id ord)) (vw_repo w) \<noteq> []"
    by (simp_all add: projectable_def)
  show ?thesis
    unfolding classifyTerminalOrderForSweep_def Let_def using facts assms(3) found(1) bound
    by (auto simp: wp_simps quiet_pass [OF assms(1)] wp_firstUnmatched [OF assms(1)] none simp flip: orderFaults_def)
qed

text \<open>What a written piece of evidence leaves in the store.\<close>

lemma material_evidence: "candidateEvidenceMaterial sha256 ident e = Inr m \<Longrightarrow> cm_evidence m = e"
  by (auto simp: candidateEvidenceMaterial_def res_simps canonicalField_Inr)

lemma answer_duplicate: "advanceAnswer st m True = Inr a \<Longrightarrow> ar_duplicate a"
  by (auto simp: advanceAnswer_def res_simps)

definition storesEvidence :: "(string \<Rightarrow> string) \<Rightarrow> AdvanceCandidatePilotStateInput \<Rightarrow> pilot_store \<Rightarrow> pilot_store \<Rightarrow> bool" where
  "storesEvidence sha256 i p p' \<longleftrightarrow> (\<exists>m phase current nxt. candidateEvidenceMaterial sha256 (ai_deploymentId i) (ai_evidence i) = Inr m \<and>
     p' = storeAdvance (ai_deploymentId i) phase m current nxt p)"

lemma storesEvidenceI:
  "candidateEvidenceMaterial sha256 (ai_deploymentId i) (ai_evidence i) = Inr m \<Longrightarrow>
    storesEvidence sha256 i p (storeAdvance (ai_deploymentId i) phase m current nxt p)"
  by (auto simp: storesEvidence_def)

lemma advance_stores:
  assumes "advanceStateWithEvidence sha256 i p = (Inr a, p')" "\<not> ar_duplicate a"
  shows "storesEvidence sha256 i p p'"
  using assms unfolding advanceStateWithEvidence_def
  by (simp add: sbind_eq_Inr sguard_eq_Inr slift_eq_Inr split: option.splits prod.splits) (metis answer_duplicate storesEvidenceI)

lemma advance_bindings [simp]: "cs_bindings (storeAdvance ident phase m st st' p) = cs_bindings p"
  by (simp add: storeAdvance_def appendAudit_def)

lemma project_perm:
  assumes "projectExactCandidateState es = Inr st" "mset es = mset es'" "distinct (map ce_evidenceId es)"
  shows "projectExactCandidateState es' = Inr st"
proof -
  obtain os where "orderEvidence es = Inr os" "efold advanceExactCandidateState createExactEmptyCandidateState os = Inr st"
    using assms(1) by (auto simp: projectExactCandidateState_def ebind_eq_Inr)
  with orderEvidence_perm [OF this(1) assms(2,3)] show ?thesis by (simp add: projectExactCandidateState_def)
qed

lemma filter_flags:
  "emapM f rs = Inr flags \<Longrightarrow> map (h \<circ> fst) (filter snd (zip rs flags)) = map h (filter (\<lambda>r. f r = Inr True) rs)"
  by (induction rs arbitrary: flags) (auto simp: ebind_eq_Inr)

lemma remaining_again:
  assumes run: "remainingAfter ord decision aggregate rs = Inr remaining" and more: "mset rs' = mset rs + {#new#}"
    and new: "sv_materialVersion new = ''EXACT_V2''" "ce_executedAt (sv_evidence new) = ag_executedAt aggregate"
      "ce_evidenceId (sv_evidence new) = evidenceIdOf ord"
    and ids: "distinct (map (ce_evidenceId \<circ> sv_evidence) rs)"
  shows "remainingAfter ord decision aggregate rs' = Inr remaining"
proof -
  obtain epoch flags st where versions: "\<not> list_ex (\<lambda>record. sv_materialVersion record \<noteq> ''EXACT_V2'') rs"
      and epoch: "epochOf (ag_executedAt aggregate) epoch"
      and flags: "emapM (isBeforeEvidence epoch (evidenceIdOf ord)) rs = Inr flags"
      and st: "projectExactCandidateState (map (sv_evidence \<circ> fst) (filter snd (zip rs flags))) = Inr st"
      and remaining: "deriveExactRemainingQuantity (xs_currentEpisodeInventoryQuantity st) (vf_action decision) (ag_executedQuantity aggregate) = Inr remaining"
    using run by (auto simp: remainingAfter_def evidence_simps)
  let ?before = "isBeforeEvidence epoch (evidenceIdOf ord)"
  have sets: "set rs' = insert new (set rs)" using arg_cong [OF more, of set_mset] by simp
  have stamp: "evidenceTimestamp (ag_executedAt aggregate) label = Inr epoch" for label using epoch by (simp add: evidenceTimestamp_Inr)
  have skipped: "?before new = Inr False" by (simp add: isBeforeEvidence_def new stamp)
  have total: "\<forall>r\<in>set rs'. \<exists>b. ?before r = Inr b" using emapM_Inr_total [OF flags] skipped sets by auto
  then obtain flags' where flags': "emapM ?before rs' = Inr flags'" using emapM_total [of rs' ?before] by blast
  have "mset (filter (\<lambda>r. ?before r = Inr True) rs') = mset (filter (\<lambda>r. ?before r = Inr True) rs)"
    using more skipped by simp
  then have perm: "mset (map sv_evidence (filter (\<lambda>r. ?before r = Inr True) rs)) = mset (map sv_evidence (filter (\<lambda>r. ?before r = Inr True) rs'))"
    by simp
  have "distinct (map ce_evidenceId (map sv_evidence (filter (\<lambda>r. ?before r = Inr True) rs)))"
    using ids by (simp add: distinct_map_filter)
  from project_perm [OF st [unfolded filter_flags [OF flags]] perm this]
  have "projectExactCandidateState (map (sv_evidence \<circ> fst) (filter snd (zip rs' flags'))) = Inr st"
    unfolding filter_flags [OF flags'] .
  moreover have "\<not> list_ex (\<lambda>record. sv_materialVersion record \<noteq> ''EXACT_V2'') rs'" using versions new(1) sets by (auto simp: list_ex_iff)
  ultimately show ?thesis using flags' remaining by (simp add: remainingAfter_def stamp faultIf_def throw_if_simps)
qed

lemma account_deployment_ids:
  assumes "pilot_inv p" "getDeploymentForExchangeAccount lc account p = Some d"
  shows "distinct (map (ce_evidenceId \<circ> sv_evidence) (listEvidenceRecords (dp_id d) p))"
proof -
  have "d \<in> set (sort_by (deploymentBefore lc) (filter (\<lambda>candidate. dp_exchangeAccountId candidate = account) (deploymentValues p)))"
    using assms(2) by (auto simp: getDeploymentForExchangeAccount_def first_def simp del: set_sort_by split: list.splits)
  then have "d \<in> set (deploymentValues p)" by simp
  then obtain ident where ident: "cs_deployments p ident = Some d" by (auto simp: deploymentValues_def List.map_filter_def)
  then have "distinct (map (ce_evidenceId \<circ> sv_evidence) (evidenceOfDeployment (dp_id d) p))"
    using pilot_invD(3) [OF assms(1) ident] by (simp add: deployment_inv_def)
  moreover have "mset (map (ce_evidenceId \<circ> sv_evidence) (listEvidenceRecords (dp_id d) p)) =
      mset (map (ce_evidenceId \<circ> sv_evidence) (evidenceOfDeployment (dp_id d) p))"
    by (simp add: listEvidenceRecords_def orderedEvidence_def)
  ultimately show ?thesis by (metis mset_eq_imp_distinct_iff)
qed

text \<open>
  A report repeated at once: after a report that the evidence of an order advanced the ledger, the same report finds it
  counted and changes no store, and the sweep over terminal orders disposes of it. This is for stores on which no other
  callback runs meanwhile.
\<close>
theorem terminal_order_repeated:
  assumes "quiet deps" and "pilot_inv (vw_pilots w)"
    and "processTerminalOrder deps orderId w = (Inr result, w')" and "er_outcome result = ADVANCED"
  shows "(\<exists>again n. processTerminalOrder deps orderId w' = (Inr again, w'\<lparr>vw_ticks := n\<rparr>) \<and> er_outcome again = EVIDENCE_DUPLICATE) \<and>
    (\<exists>n. classifyTerminalOrderForSweep deps orderId w' = (Inr DISPOSED, w'\<lparr>vw_ticks := n\<rparr>))"
proof -
  obtain ord d decision aggregate p' n where found: "projectable deps orderId w ord d decision aggregate"
      and adv: "advances deps ord d decision aggregate (vw_pilots w) p'" and w': "w' = w\<lparr>vw_pilots := p', vw_ticks := n\<rparr>"
    using wpD [OF order_advances [OF assms(1)] assms(3)] assms(4) by blast
  let ?p = "vw_pilots w"
  obtain state remaining answer where "getExactState (dp_id d) ?p = Some state" and remaining: "remainingAfter ord decision aggregate (listEvidenceRecords (dp_id d) ?p) = Inr remaining"
      and none: "getEvidenceRecord (dp_id d) (evidenceIdOf ord) ?p = None" and "\<not> ar_duplicate answer"
      and "advanceStateWithEvidence (vd_sha256 deps) \<lparr>ai_deploymentId = dp_id d, ai_expectedStateVersion = xs_stateVersion state,
        ai_evidence = evidenceFrom ord decision aggregate remaining\<rparr> ?p = (Inr answer, p')"
    using adv unfolding advances_def by blast
  with advance_stores [OF this(5,4)] obtain m phase current nxt
    where m: "cm_evidence m = evidenceFrom ord decision aggregate remaining" and p': "p' = storeAdvance (dp_id d) phase m current nxt ?p"
    by (auto simp: storesEvidence_def dest: material_evidence)
  have same: "projectable deps orderId w' ord d decision aggregate"
    using found by (simp add: projectable_def orderFaults_def w' p' getDeploymentForExchangeAccount_def deploymentValues_def
        getExecutionBindingForOrder_def candidate_store.truncate_def)
  have ids: "distinct (map (ce_evidenceId \<circ> sv_evidence) (listEvidenceRecords (dp_id d) ?p))"
    using assms(2) found account_deployment_ids [of ?p] by (auto simp: projectable_def)
  have "mset (listEvidenceRecords (dp_id d) p') = mset (listEvidenceRecords (dp_id d) ?p) + {#storedEvidenceOf m#}"
    by (simp add: p' listEvidenceRecords_def orderedEvidence_def)
  from remaining_again [OF remaining this _ _ _ ids]
  have again: "remainingAfter ord decision aggregate (listEvidenceRecords (dp_id d) (vw_pilots w')) = Inr remaining"
    by (simp add: w' storedEvidenceOf_def m evidenceFrom_def)
  have stored: "getEvidenceRecord (dp_id d) (evidenceIdOf ord) (vw_pilots w') = Some (storedEvidenceOf m)"
    using none find_snoc [of _ "evidenceOfDeployment (dp_id d) ?p" "storedEvidenceOf m"]
    by (simp add: w' p' getEvidenceRecord_def storedEvidenceOf_def m evidenceFrom_def)
  have "assertMatchingExistingEvidence (storedEvidenceOf m) (evidenceFrom ord decision aggregate remaining) = Inr ()"
    by (simp add: assertMatchingExistingEvidence_def storedEvidenceOf_def m faultIf_def throw_if_simps Let_def)
  from order_duplicate [OF assms(1) same _ again stored this] sweep_disposes [OF assms(1) same stored]
  show ?thesis by (auto simp: wp_def w' p' getExactState_def split: prod.splits)
qed

subsection \<open>Counting it at any later time\<close>

text \<open>
  Now other callbacks may run at every await. They reach the pilot store through its operations, so that it changes by
  \<open>pilot_changes\<close> only; on the other stores they do what they like.
\<close>

definition throughStore :: "evidence_deps \<Rightarrow> bool" where
  "throughStore deps \<longleftrightarrow> (\<forall>n w. keyed (vw_pilots w) \<longrightarrow> pilot_changes (vw_pilots w) (vw_pilots (vd_others deps n w)))"

definition storeMoves :: "evidence_world \<Rightarrow> evidence_world \<Rightarrow> bool" where
  "storeMoves u v \<longleftrightarrow> (keyed (vw_pilots u) \<longrightarrow> pilot_changes (vw_pilots u) (vw_pilots v))"

interpretation storing: step_preorder storeMoves
  by unfold_locales (auto simp: storeMoves_def dest: changes_keyed)

lemma moves_time: "throughStore deps \<Longrightarrow> storeMoves u v \<Longrightarrow> storeMoves u (passTime deps v)"
  by (simp add: throughStore_def storeMoves_def passTime_def) (meson changes_keyed rtranclp_trans)

lemma moves_same: "vw_pilots v = vw_pilots u \<Longrightarrow> storeMoves u v"
  by (simp add: storeMoves_def)

lemma moves_read:
  assumes "throughStore deps"
  shows "wp (awaitRead deps f) (\<lambda>_. storeMoves w) w" "wp (clockNow deps) (\<lambda>_. storeMoves w) w"
    "wp (awaiting deps (onRepository a)) (\<lambda>_. storeMoves w) w" "wp (awaiting deps (onFaultStores c)) (\<lambda>_. storeMoves w) w"
    "wp (awaiting deps (onPilotStore (advanceStateWithEvidence sha256 i))) (\<lambda>_. storeMoves w) w"
proof -
  show "wp (awaitRead deps f) (\<lambda>_. storeMoves w) w" "wp (clockNow deps) (\<lambda>_. storeMoves w) w"
    by (simp_all add: wp_awaiting moves_time [OF assms] moves_same)
  show "wp (awaiting deps (onRepository a)) (\<lambda>_. storeMoves w) w" "wp (awaiting deps (onFaultStores c)) (\<lambda>_. storeMoves w) w"
    unfolding wp_awaiting wp_stores by (auto simp: wp_def moves_time [OF assms] moves_same split: prod.splits)
  show "wp (awaiting deps (onPilotStore (advanceStateWithEvidence sha256 i))) (\<lambda>_. storeMoves w) w"
    unfolding wp_awaiting wp_stores
    by (rule wp_mono [OF advance_change], rule moves_time [OF assms]) (auto simp: storeMoves_def)
qed

lemmas moves_rules = storing.along_sbind storing.along_sattempt storing.along_silent wp_branches

lemma moves_unmatched: "throughStore deps \<Longrightarrow> wp (firstUnmatched deps ord events) (\<lambda>_. storeMoves w) w"
  by (induction events arbitrary: w) (auto simp: hasMatchingFaultPauseTransition_def intro!: moves_rules moves_read)

lemma moves_incomplete: "throughStore deps \<Longrightarrow> wp (findIncompleteFaultPause deps ord) (\<lambda>_. storeMoves w) w"
  unfolding findIncompleteFaultPause_def by (intro moves_rules moves_read moves_unmatched)

lemma moves_decision: "throughStore deps \<Longrightarrow> wp (getVerifiedDecision deps ord d binding) (\<lambda>_. storeMoves w) w"
  unfolding getVerifiedDecision_def by (intro moves_rules moves_read)

lemma moves_marker: "throughStore deps \<Longrightarrow> wp (hasTerminalNoFillMarker deps ord) (\<lambda>_. storeMoves w) w"
  unfolding hasTerminalNoFillMarker_def by (intro moves_rules moves_read)

lemma moves_noFill: "throughStore deps \<Longrightarrow> wp (recordTerminalNoFill deps ord decision) (\<lambda>_. storeMoves w) w"
  unfolding recordTerminalNoFill_def by (intro moves_rules moves_read moves_marker)

lemma moves_repair: "throughStore deps \<Longrightarrow> wp (repairPersistedFaultPause deps ord event) (\<lambda>_. storeMoves w) w"
  unfolding repairPersistedFaultPause_def persistFault_def Let_def by (intro moves_rules moves_read)

lemma moves_fault: "throughStore deps \<Longrightarrow> wp (fault deps ord code message) (\<lambda>_. storeMoves w) w"
  unfolding fault_def persistFault_def Let_def by (intro moves_rules moves_read)

text \<open>The evidence of an order is in the ledger of the account's deployment.\<close>

definition counted :: "string \<Rightarrow> string \<Rightarrow> pilot_store \<Rightarrow> bool" where
  "counted account evidenceId p \<longleftrightarrow> (\<exists>ident d. cs_deployments p ident = Some d \<and> dp_exchangeAccountId d = account \<and>
     evidenceId \<in> set (map (ce_evidenceId \<circ> sv_evidence) (evidenceOfDeployment ident p)))"

lemma counted_changes:
  assumes "pilot_inv p" "pilot_changes p p'" "counted account evidenceId p"
  shows "counted account evidenceId p'"
proof -
  obtain ident d where d: "cs_deployments p ident = Some d" "dp_exchangeAccountId d = account"
      "evidenceId \<in> set (map (ce_evidenceId \<circ> sv_evidence) (evidenceOfDeployment ident p))"
    using assms(3) by (auto simp: counted_def)
  from changes_continue [OF assms(2,1), of ident] d(1) obtain d' where
    "cs_deployments p' ident = Some d'" "sameDeployment d d'" "prefix (evidenceOfDeployment ident p) (evidenceOfDeployment ident p')"
    by (auto simp: continues_def)
  then show ?thesis using d(2,3) by (auto simp: counted_def sameDeployment_def prefix_def intro!: exI [of _ ident])
qed

lemma account_deployment:
  assumes "getDeploymentForExchangeAccount lc account p = Some d"
  shows "\<exists>ident. cs_deployments p ident = Some d" "dp_exchangeAccountId d = account"
proof -
  have "d \<in> set (sort_by (deploymentBefore lc) (filter (\<lambda>candidate. dp_exchangeAccountId candidate = account) (deploymentValues p)))"
    using assms by (auto simp: getDeploymentForExchangeAccount_def first_def simp del: set_sort_by split: list.splits)
  then show "\<exists>ident. cs_deployments p ident = Some d" "dp_exchangeAccountId d = account"
    by (auto simp: deploymentValues_def List.map_filter_def)
qed

lemma advance_fresh:
  assumes "advanceStateWithEvidence sha256 i p = (Inr a, p')" "\<not> ar_duplicate a"
  shows "ce_evidenceId (ai_evidence i) \<notin> set (map (ce_evidenceId \<circ> sv_evidence) (evidenceOfDeployment (ai_deploymentId i) p))"
proof
  assume "ce_evidenceId (ai_evidence i) \<in> set (map (ce_evidenceId \<circ> sv_evidence) (evidenceOfDeployment (ai_deploymentId i) p))"
  then have "find (\<lambda>item. ce_evidenceId (sv_evidence item) = ce_evidenceId (ai_evidence i)) (evidenceOfDeployment (ai_deploymentId i) p) \<noteq> None"
    by (auto simp: find_None_iff)
  then obtain stored where "find (\<lambda>item. ce_evidenceId (sv_evidence item) = ce_evidenceId (ai_evidence i)) (evidenceOfDeployment (ai_deploymentId i) p) = Some stored"
    by blast
  with assms show False
    unfolding advanceStateWithEvidence_def
    by (auto simp: sbind_eq_Inr sguard_eq_Inr slift_eq_Inr material_evidence split: option.splits dest!: answer_duplicate)
qed

text \<open>The advance that a report makes, between what it read of the deployment and the state it left.\<close>

definition writesEvidence :: "evidence_deps \<Rightarrow> string \<Rightarrow> string \<Rightarrow> evidence_world \<Rightarrow> evidence_world \<Rightarrow> bool" where
  "writesEvidence deps deploymentId evidenceId t u \<longleftrightarrow> (\<exists>p p' i a. pilot_changes (vw_pilots t) p \<and>
     advanceStateWithEvidence (vd_sha256 deps) i p = (Inr a, p') \<and> \<not> ar_duplicate a \<and> ai_deploymentId i = deploymentId \<and>
     ce_evidenceId (ai_evidence i) = evidenceId \<and> pilot_changes p' (vw_pilots u))"

lemma writes_counted:
  assumes "writesEvidence deps (dp_id d) evidenceId t u" "pilot_inv (vw_pilots t)" "pilot_changes p0 (vw_pilots t)" "pilot_inv p0"
    "getDeploymentForExchangeAccount lc account p0 = Some d"
  shows "\<not> counted account evidenceId p0 \<and> counted account evidenceId (vw_pilots u)"
proof -
  from assms(1) obtain p p' i a where run: "pilot_changes (vw_pilots t) p" "advanceStateWithEvidence (vd_sha256 deps) i p = (Inr a, p')"
      "\<not> ar_duplicate a" "ai_deploymentId i = dp_id d" "ce_evidenceId (ai_evidence i) = evidenceId" "pilot_changes p' (vw_pilots u)"
    by (auto simp: writesEvidence_def)
  obtain ident where "cs_deployments p0 ident = Some d" using account_deployment(1) [OF assms(5)] by blast
  then have d: "cs_deployments p0 (dp_id d) = Some d" using pilot_invD(3) [OF assms(4)] by (auto simp: deployment_inv_def)
  have changes: "pilot_changes p0 p" using assms(3) run(1) by (rule rtranclp_trans)
  have inv: "pilot_inv p" by (rule changes_inv [OF changes assms(4)])
  from changes_continue [OF changes assms(4), of "dp_id d"] d obtain e where e: "cs_deployments p (dp_id d) = Some e" "dp_exchangeAccountId e = account"
    using account_deployment(2) [OF assms(5)] by (auto simp: continues_def sameDeployment_def)
  have "\<not> counted account evidenceId p"
  proof
    assume "counted account evidenceId p"
    then obtain other f where f: "cs_deployments p other = Some f" "dp_exchangeAccountId f = account"
        "evidenceId \<in> set (map (ce_evidenceId \<circ> sv_evidence) (evidenceOfDeployment other p))" by (auto simp: counted_def)
    then have "other = dp_id d" using pilot_invD(4) [OF inv f(1) e(1)] e(2) by simp
    then show False using f(3) advance_fresh [OF run(2,3)] run(4,5) by simp
  qed
  then have before: "\<not> counted account evidenceId p0" using counted_changes [OF assms(4) changes] by blast
  have change: "pilot_change p p'" using wpD [OF advance_change run(2)] .
  from advance_stores [OF run(2,3)] obtain m phase current nxt where "cm_evidence m = ai_evidence i" "p' = storeAdvance (dp_id d) phase m current nxt p"
    by (auto simp: storesEvidence_def run(4) dest: material_evidence)
  then have "counted account evidenceId p'"
    using e run(5) by (auto simp: counted_def storedEvidenceOf_def intro!: exI [of _ "dp_id d"])
  then have "counted account evidenceId (vw_pilots u)" by (rule counted_changes [OF change_inv [OF change inv] run(6)])
  with before show ?thesis by simp
qed

lemma fills_write:
  assumes "throughStore deps" "keyed (vw_pilots w)"
  shows "wp (projectFills deps orderId ord d decision aggregate) (\<lambda>r u. storeMoves w u \<and>
    (\<forall>x. r = Inr x \<longrightarrow> er_outcome x = ADVANCED \<longrightarrow> writesEvidence deps (dp_id d) (evidenceIdOf ord) w u)) w" (is "wp _ ?Q w")
proof -
  have advance: "wp (sbind (awaiting deps (onPilotStore (advanceStateWithEvidence (vd_sha256 deps)
        \<lparr>ai_deploymentId = dp_id d, ai_expectedStateVersion = version, ai_evidence = evidenceFrom ord decision aggregate remaining\<rparr>))) (\<lambda>advanced.
      sreturn (if ar_duplicate advanced then \<lparr>er_outcome = EVIDENCE_DUPLICATE, er_orderId = i1, er_detail = t1\<rparr>
        else \<lparr>er_outcome = ADVANCED, er_orderId = i2, er_detail = t2\<rparr>))) ?Q t"
    if t: "storeMoves w t" for t version remaining i1 i2 t1 t2
  proof -
    let ?i = "\<lparr>ai_deploymentId = dp_id d, ai_expectedStateVersion = version, ai_evidence = evidenceFrom ord decision aggregate remaining\<rparr>"
    have reached: "pilot_changes (vw_pilots w) (vw_pilots t)" using t assms(2) by (simp add: storeMoves_def)
    have time: "pilot_changes p (vw_pilots (passTime deps (t\<lparr>vw_pilots := p\<rparr>)))" if "pilot_change (vw_pilots t) p" for p
      using moves_time [OF assms(1), of "t\<lparr>vw_pilots := p\<rparr>" "t\<lparr>vw_pilots := p\<rparr>"] change_keyed [OF that] changes_keyed [OF reached assms(2)]
      by (simp add: storeMoves_def)
    have "wp (advanceStateWithEvidence (vd_sha256 deps) ?i) (\<lambda>r p. pilot_change (vw_pilots t) p \<and>
        advanceStateWithEvidence (vd_sha256 deps) ?i (vw_pilots t) = (r, p)) (vw_pilots t)"
      using advance_change [of "vd_sha256 deps" ?i "vw_pilots t"] by (auto simp: wp_def split: prod.splits)
    then show ?thesis
      unfolding wp_sbind wp_awaiting wp_stores
    proof (rule wp_mono, goal_cases)
      case (1 r p)
      have to_end: "pilot_changes (vw_pilots w) (vw_pilots (passTime deps (t\<lparr>vw_pilots := p\<rparr>)))"
        using reached 1 time by (meson rtranclp.rtrancl_into_rtrancl rtranclp_trans)
      have "writesEvidence deps (dp_id d) (evidenceIdOf ord) w (passTime deps (t\<lparr>vw_pilots := p\<rparr>))" if "r = Inr a" "\<not> ar_duplicate a" for a
        unfolding writesEvidence_def using reached 1 that time [of p]
        by (intro exI [of _ "vw_pilots t"] exI [of _ p] exI [of _ ?i] exI [of _ a]) (simp add: evidenceFrom_def)
      with to_end show ?case
        by (cases r) (auto simp: wp_basic storeMoves_def plain_def)
    qed
  qed
  have read: "wp (sbind (awaitRead deps g) f) ?Q t" if "storeMoves w t" "\<And>x u. storeMoves w u \<Longrightarrow> wp (f x) ?Q u" for g f t
    unfolding wp_sbind wp_awaiting using that moves_time [OF assms(1)] by simp
  have check: "wp (sbind (slift y) f) ?Q t" if "storeMoves w t" "\<And>x. wp (f x) ?Q t" for y f t
    using that by (simp add: wp_simps split: sum.splits)
  have ended: "wp (sreturn \<lparr>er_outcome = EVIDENCE_DUPLICATE, er_orderId = i1, er_detail = t1\<rparr>) ?Q t" "wp (sthrow e) ?Q t" if "storeMoves w t" for i1 t1 e t
    using that by (simp_all add: wp_basic)
  show ?thesis
    unfolding projectFills_def Let_def
    by (intro read check ended wp_branches advance storing.rel_refl) assumption+
qed


text \<open>A report that advanced the ledger found the order uncounted and left it counted.\<close>

definition countsOrder :: "evidence_deps \<Rightarrow> OrderRecord \<Rightarrow> evidence_world \<Rightarrow> evidence_world \<Rightarrow> bool" where
  "countsOrder deps ord w u \<longleftrightarrow> \<not> counted (oi_exchangeAccountId ord) (evidenceIdOf ord) (vw_pilots w) \<and>
     counted (oi_exchangeAccountId ord) (evidenceIdOf ord) (vw_pilots u)"

lemma moves_fills: "throughStore deps \<Longrightarrow> wp (projectFills deps orderId ord d decision aggregate) (\<lambda>_. storeMoves w) w"
  unfolding projectFills_def Let_def by (intro moves_rules moves_read)

lemma order_moves:
  assumes "throughStore deps"
  shows "wp (processTerminalOrder deps orderId) (\<lambda>_. storeMoves w) w"
proof -
  have "wp (projectTerminalOrder deps orderId ord) (\<lambda>_. storeMoves w) w" for ord w
    unfolding projectTerminalOrder_def
    by (intro moves_rules moves_read moves_incomplete moves_repair moves_decision moves_marker moves_fills assms)
  then show ?thesis
    unfolding processTerminalOrder_def
    by (intro moves_rules moves_read assms) (auto intro: moves_fault moves_noFill storing.along_silent assms split: projection.splits)
qed

lemma projection_counts:
  assumes "throughStore deps" "pilot_inv (vw_pilots w)"
  shows "wp (projectTerminalOrder deps orderId ord) (\<lambda>r u. storeMoves w u \<and>
    (\<forall>x. r = Inr (Settled x) \<longrightarrow> er_outcome x = ADVANCED \<longrightarrow> countsOrder deps ord w u)) w" (is "wp _ ?Q w")
proof -
  note trans = storing.rel_trans
  have silent: "wp (sbind m f) ?Q t" if "storeMoves w t" "\<And>t. wp m (\<lambda>_. storeMoves t) t" "\<And>x u. storeMoves t u \<Longrightarrow> storeMoves w u \<Longrightarrow> wp (f x) ?Q u" for m :: "'x em" and f t
    by (rule wp_after [OF that(2)]) (use that trans in blast)+
  have read: "wp (sbind (awaitRead deps g) f) ?Q t" if "storeMoves w t" "\<And>u. storeMoves t u \<Longrightarrow> storeMoves w u \<Longrightarrow> wp (f (g t)) ?Q u" for g :: "evidence_world \<Rightarrow> 'y" and f t
    unfolding wp_sbind wp_awaiting sum.case using that moves_time [OF assms(1)] storing.rel_refl by blast
  have check: "wp (sbind (slift y) f) ?Q t" if "storeMoves w t" "\<And>x. wp (f x) ?Q t" for y :: "'z eres" and f t
    using that by (simp add: wp_simps split: sum.splits)
  have ended: "wp (sreturn (Settled \<lparr>er_outcome = outcome, er_orderId = i1, er_detail = t1\<rparr>)) ?Q t" if "storeMoves w t" "outcome \<noteq> ADVANCED" for outcome i1 t1 t
    using that by (simp add: wp_basic)
  have stopped: "wp (sthrow e) ?Q t" if "storeMoves w t" for e t
    using that by (simp add: wp_basic)
  have repaired: "wp (sbind (repairPersistedFaultPause deps ord event) (\<lambda>r. sreturn (Settled r))) ?Q t" if "storeMoves w t" for event t
  proof -
    have "wp (repairPersistedFaultPause deps ord event) (\<lambda>r u. storeMoves t u \<and> (\<forall>x. r = Inr x \<longrightarrow> er_outcome x = FAULT)) t"
      using moves_repair [OF assms(1), of ord event t] repair_outcome [of deps ord event t] by (simp add: wp_def split: prod.splits)
    then show ?thesis by (rule wp_after) (use that trans in \<open>auto simp: wp_basic\<close>)
  qed
  have marked: "wp (sbind (hasTerminalNoFillMarker deps ord) (\<lambda>marked. sreturn (if marked
      then Settled \<lparr>er_outcome = EVIDENCE_DUPLICATE, er_orderId = i1, er_detail = t1\<rparr> else NoFill decision))) ?Q t" if "storeMoves w t" for decision i1 t1 t
    by (rule silent [OF that moves_marker [OF assms(1)]]) (simp add: wp_basic)
  have projected: "wp (sbind (projectFills deps orderId ord d decision aggregate) (\<lambda>r. sreturn (Settled r))) ?Q t"
    if t: "storeMoves w t" "storeMoves t0 t" "storeMoves w t0" and d: "getDeploymentForExchangeAccount (vd_collator deps) (oi_exchangeAccountId ord) (vw_pilots t0) = Some d"
    for d decision aggregate t t0
  proof -
    have "pilot_changes (vw_pilots w) (vw_pilots t0)" using t(3) pilot_inv_keyed [OF assms(2)] by (simp add: storeMoves_def)
    note inv0 = changes_inv [OF this assms(2)] and first = this
    have "pilot_changes (vw_pilots t0) (vw_pilots t)" using t(2) pilot_inv_keyed [OF inv0] by (simp add: storeMoves_def)
    note inv = changes_inv [OF this inv0] and later = this
    show ?thesis
    proof (rule wp_after [OF fills_write [OF assms(1) pilot_inv_keyed [OF inv]]], goal_cases)
      case (1 e u)
      then show ?case using t(1) trans by blast
    next
      case (2 x u)
      have "countsOrder deps ord w u" if "er_outcome x = ADVANCED"
      proof -
        have "writesEvidence deps (dp_id d) (evidenceIdOf ord) t u" using 2 that by simp
        from writes_counted [OF this inv later inv0 d] counted_changes [OF assms(2) first] show ?thesis by (auto simp: countsOrder_def)
      qed
      then show ?case using 2 t(1) trans by (auto simp: wp_basic)
    qed
  qed
  show ?thesis
    unfolding projectTerminalOrder_def
    apply (rule silent [OF storing.rel_refl moves_incomplete [OF assms(1)]])
    subgoal for incomplete t0
      apply (rule wp_branches(2))
       apply (rule read, assumption)
       apply (rule wp_branches(2))
        apply (rule ended, assumption, simp)
       apply (rule check, assumption)
       apply (rule read, assumption)
       apply (rule wp_branches(2))
        apply (rule wp_branches(1))
         apply (rule ended, assumption, simp)
        apply (rule stopped, assumption)
       apply (rule silent)
         apply assumption
        apply (rule moves_decision [OF assms(1)])
       apply (rule read, assumption)
       apply (rule wp_branches(1))
        apply (rule marked, assumption)
       apply (rule check, assumption)
       apply (rule projected [of _ t0], assumption)
         apply (blast intro: trans)
        apply assumption
       apply (simp add: comp_def split: option.splits if_splits)
      apply (rule repaired, assumption)
      done
    done
qed

lemma order_counts:
  assumes "throughStore deps" "pilot_inv (vw_pilots w)"
  shows "wp (processTerminalOrder deps orderId) (\<lambda>r u. \<forall>x. r = Inr x \<longrightarrow> er_outcome x = ADVANCED \<longrightarrow>
    (\<exists>ord. findOrderByReference (vd_exchangeAccountId deps) orderId (vw_repo w) = Some ord \<and> countsOrder deps ord w u)) w" (is "wp _ ?Q w")
proof -
  let ?t = "passTime deps w"
  have "storeMoves w ?t" by (rule moves_time [OF assms(1) storing.rel_refl])
  then have first: "pilot_changes (vw_pilots w) (vw_pilots ?t)" using pilot_inv_keyed [OF assms(2)] by (simp add: storeMoves_def)
  have read: "wp (f (g w)) Q ?t \<Longrightarrow> wp (sbind (awaitRead deps g) f) Q w" for f :: "OrderRecord option \<Rightarrow> CandidateEvidenceProjectionResult em" and g Q
    by (simp add: wp_simps)
  have attempt: "wp (sbind (sattempt (projectTerminalOrder deps orderId ord)) (\<lambda>attempt. case attempt of
        Inl e \<Rightarrow> fault deps ord (fst (faultCode e)) (snd (faultCode e)) | Inr (Settled r) \<Rightarrow> sreturn r
      | Inr (NoFill decision) \<Rightarrow> recordTerminalNoFill deps ord decision)) ?Q ?t"
    if found: "findOrderByReference (vd_exchangeAccountId deps) orderId (vw_repo w) = Some ord" for ord
  proof -
    have "wp (sattempt (projectTerminalOrder deps orderId ord)) (\<lambda>r u. \<forall>x. r = Inr (Inr (Settled x)) \<longrightarrow> ?Q (Inr x) u) ?t"
      unfolding wp_sattempt
    proof (rule wp_mono [OF projection_counts [OF assms(1) changes_inv [OF first assms(2)]]], intro allI impI)
      fix r u x x'
      assume "storeMoves ?t u \<and> (\<forall>x. r = Inr (Settled x) \<longrightarrow> er_outcome x = ADVANCED \<longrightarrow> countsOrder deps ord ?t u)"
        "Inr r = Inr (Inr (Settled x))" "Inr x = Inr x'" "er_outcome x' = ADVANCED"
      then have "countsOrder deps ord ?t u" by auto
      then have "countsOrder deps ord w u" using counted_changes [OF assms(2) first] by (auto simp: countsOrder_def)
      then show "\<exists>ord. findOrderByReference (vd_exchangeAccountId deps) orderId (vw_repo w) = Some ord \<and> countsOrder deps ord w u"
        using found by blast
    qed
    then show ?thesis
      by (rule wp_after)
        (auto simp: wp_basic intro: wp_mono [OF fault_outcome] wp_mono [OF noFill_outcome] split: sum.splits projection.splits)
  qed
  show ?thesis
    unfolding processTerminalOrder_def
    by (intro read wp_branches attempt) (auto simp: wp_basic)
qed

text \<open>
  C14. An order is counted once. When a report says that the evidence of an order advanced the ledger, the order was not in
  the ledger of its account before and is in it afterwards; and no later report of an order of the same id and account
  says so again. During the reports, at every await, and between them other callbacks may change the pilot store by the
  changes its operations make (\<open>pilot_changes\<close>, which leave out a deployment overwritten in an overlapping fault pause) and
  the other stores in any way.
\<close>
theorem terminal_order_counted_once:
  assumes "throughStore deps" and "pilot_inv (vw_pilots w)"
    and "processTerminalOrder deps orderId w = (Inr result, w')" and "er_outcome result = ADVANCED"
  shows "\<exists>ord. findOrderByReference (vd_exchangeAccountId deps) orderId (vw_repo w) = Some ord \<and>
    \<not> counted (oi_exchangeAccountId ord) (evidenceIdOf ord) (vw_pilots w) \<and> counted (oi_exchangeAccountId ord) (evidenceIdOf ord) (vw_pilots w') \<and>
    (\<forall>deps' reference v ord' again v'. throughStore deps' \<longrightarrow> pilot_changes (vw_pilots w') (vw_pilots v) \<longrightarrow>
       findOrderByReference (vd_exchangeAccountId deps') reference (vw_repo v) = Some ord' \<longrightarrow> or_id ord' = or_id ord \<longrightarrow>
       oi_exchangeAccountId ord' = oi_exchangeAccountId ord \<longrightarrow>
       processTerminalOrder deps' reference v = (Inr again, v') \<longrightarrow> er_outcome again \<noteq> ADVANCED)"
proof -
  obtain ord where ord: "findOrderByReference (vd_exchangeAccountId deps) orderId (vw_repo w) = Some ord" and counts: "countsOrder deps ord w w'"
    using wpD [OF order_counts [OF assms(1,2)] assms(3)] assms(4) by blast
  have "pilot_changes (vw_pilots w) (vw_pilots w')"
    using wpD [OF order_moves [OF assms(1)] assms(3)] pilot_inv_keyed [OF assms(2)] by (simp add: storeMoves_def)
  then have inv: "pilot_inv (vw_pilots w')" by (rule changes_inv) (rule assms(2))
  have "er_outcome again \<noteq> ADVANCED"
    if later: "throughStore deps'" "pilot_changes (vw_pilots w') (vw_pilots v)" "processTerminalOrder deps' reference v = (Inr again, v')"
      and same: "findOrderByReference (vd_exchangeAccountId deps') reference (vw_repo v) = Some ord'" "or_id ord' = or_id ord"
        "oi_exchangeAccountId ord' = oi_exchangeAccountId ord"
    for deps' reference v ord' again v'
  proof
    assume "er_outcome again = ADVANCED"
    then have "countsOrder deps' ord' v v'"
      using wpD [OF order_counts [OF later(1) changes_inv [OF later(2) inv]] later(3)] same(1) by auto
    moreover have "evidenceIdOf ord' = evidenceIdOf ord" using same(2) by (simp add: evidenceIdOf_def)
    ultimately show False using counts counted_changes [OF inv later(2)] same(3) by (auto simp: countsOrder_def)
  qed
  with ord counts show ?thesis unfolding countsOrder_def by blast
qed

end
