(* ===== verification/EvidenceWitnesses.thy ===== *)
theory EvidenceWitnesses
  imports EvidenceProperties PilotWitnesses
begin

section \<open>Evidence on concrete data\<close>

text \<open>
  A filled buy of the deployment of \<open>PilotWitnesses\<close>, projected into its ledger, and the same order without its
  binding, which faults. The properties of \<open>EvidenceProperties\<close> are applied to both.
\<close>

definition evidenceOrder :: OrderRecord where
  "evidenceOrder = \<lparr>oi_strategyDecisionId = Some ''dec'', oi_exchangeAccountId = ''a'', oi_market = KRW_BTC, oi_side = Bid, oi_ordType = Price,
     oi_volume = None, oi_price = Some ''1000'', oi_timeInForce = None, oi_smpType = None, oi_identifier = ''i'', oi_idempotencyKey = ''k'',
     oi_origin = STRATEGY, oi_requestedAt = ''2026-08-20T03:00:00Z'', or_id = ''o1'', or_upbitUuid = None, or_status = FILLED,
     or_executionMode = DRY_RUN, or_exchangeResponseJson = None, or_failureCode = None, or_failureMessage = None,
     or_createdAt = ''2026-08-20T03:00:00Z'', or_updatedAt = ''2026-08-20T04:00:00Z''\<rparr>"

definition evidenceBasis :: json where
  "evidenceBasis = JObject [(''strategyDecision'', JObject [(''market'', JString ''KRW-BTC''), (''action'', JString ''ENTER'')]),
     (''engineDecision'', JObject [(''diagnostics'', JObject [(''entryPath'', JString ''PULLBACK'')])])]"

definition evidenceDecision :: StrategyDecisionRecord where
  "evidenceDecision = \<lparr>sd_id = ''dec'', sd_exchangeAccountId = ''a'', sd_strategyKey = STRATEGY_KEY, sd_market = KRW_BTC, sd_action = ENTER,
     sd_status = READY, sd_decisionBasisJson = stringify evidenceBasis, sd_intendedNotionalKrw = Some ''1000'', sd_intendedQuantity = None,
     sd_referencePrice = None, sd_createdAt = ''2026-08-20T02:00:00Z''\<rparr>"

definition evidenceBinding :: CandidateExecutionBindingRecord where
  "evidenceBinding = \<lparr>bd_id = ''b1'', bd_deploymentId = ''d1'', bd_strategyDecisionId = ''dec'', bd_orderId = ''o1'', bd_exchangeAccountId = ''a'',
     bd_activationAt = ''2026-08-20T01:00:00Z'', bd_activationEpochNs = 1787187600000000000, bd_market = KRW_BTC, bd_strategyKey = STRATEGY_KEY,
     bd_policyId = POLICY_ID, bd_policyVersion = POLICY_VERSION, bd_executionMode = DRY_RUN, bd_ordType = Price, bd_action = ENTER, bd_side = Bid,
     bd_intendedQuantity = None, bd_intendedNotionalKrw = Some ''1000'', bd_boundPrice = Some ''1000'', bd_boundVolume = None,
     bd_boundTimeInForce = None, bd_boundSmpType = None, bd_materialVersion = ''v'', bd_orderMaterialHash = ''h'',
     bd_createdAt = ''2026-08-20T02:30:00Z''\<rparr>"

definition evidenceFill :: FillRecord where
  "evidenceFill = \<lparr>fl_id = ''f'', fl_orderId = ''o1'', fl_exchangeFillId = ''x'', fl_market = KRW_BTC, fl_side = Bid, fl_price = ''100'',
     fl_volume = ''2'', fl_feeCurrency = Some ''KRW'', fl_feeAmount = Some ''1'', fl_feeProvenance = Some FEE_EXCHANGE_FILL_CONFIRMED,
     fl_executionTimestampProvenance = Some TS_EXCHANGE_FILL_CONFIRMED, fl_executionEpochNs = Some ''1787198400000000000'',
     fl_filledAt = ''2026-08-20T04:00:00Z'', fl_rawPayloadJson = ''{}''\<rparr>"

definition evidenceDeps :: evidence_deps where
  "evidenceDeps = \<lparr>vd_exchangeAccountId = ''a'', vd_collator = (\<lambda>a b. 0), vd_sha256 = hexHash, vd_legacyDate = (\<lambda>_. NaN),
     vd_clock = (\<lambda>_. \<lparr>ck_occurredAt = ''2026-08-20T05:00:00Z'', ck_occurredAtEpochMs = Num 1787202000000\<rparr>), vd_others = (\<lambda>_ w. w)\<rparr>"

definition evidenceWorld :: evidence_world where
  "evidenceWorld = \<lparr>vw_repo = emptyRepo\<lparr>rp_orders := [evidenceOrder], rp_strategyDecisions := [evidenceDecision], rp_fills := [evidenceFill]\<rparr>,
     vw_pilots = (pw_pilots activeWorld)\<lparr>cs_bindings := [evidenceBinding]\<rparr>, vw_operator = pausedOperator, vw_ticks = 0\<rparr>"

definition unboundWorld :: evidence_world where
  "unboundWorld = evidenceWorld\<lparr>vw_pilots := pw_pilots activeWorld\<rparr>"

definition evidenceVerified :: VerifiedDecision where
  "evidenceVerified = \<lparr>vf_action = ENTER, vf_entryPath = PULLBACK, vf_decision = evidenceDecision,
     vf_requestedAt = 1787194800000000000, vf_bindingCreatedAt = 1787193000000000000\<rparr>"

definition evidenceFills :: "FillRecord list" where
  "evidenceFills = [evidenceFill\<lparr>fl_id := ''g'', fl_exchangeFillId := ''y'', fl_price := ''50''\<rparr>, evidenceFill]"

text \<open>Two fills of one order, added up.\<close>

lemma sample_aggregate:
  "aggregateTerminalFills evidenceOrder evidenceVerified evidenceFills =
     Inr \<lparr>ag_executedAt = ''2026-08-20T04:00:00Z'', ag_executedQuantity = ''4'', ag_grossQuoteValueKrw = ''300'', ag_confirmedFeeKrw = ''2''\<rparr>"
  by code_simp

theorem terminal_fills_exact_witness:
  "list_all (confirmedFill evidenceOrder evidenceVerified) evidenceFills \<and> withinOrder evidenceOrder (numVal ''4'') (numVal ''300'') \<and>
     numVal ''300'' = (\<Sum>fill\<leftarrow>evidenceFills. numVal (fl_price fill) * numVal (fl_volume fill))"
  using terminal_fills_exact [OF sample_aggregate] unfolding TerminalFillAggregate.simps by blast

text \<open>The order without its binding.\<close>

lemma outcome_run:
  assumes "map_sum (\<lambda>_. ()) er_outcome (fst run) = Inr outcome"
  shows "\<exists>result w'. run = (Inr result, w') \<and> er_outcome result = outcome"
  using assms by (cases run, cases "fst run") auto

lemma sample_fault: "map_sum (\<lambda>_. ()) er_outcome (fst (processTerminalOrder evidenceDeps ''o1'' unboundWorld)) = Inr FAULT"
  by code_simp

theorem evidence_fault_stops_witness:
  "\<exists>result v. processTerminalOrder evidenceDeps ''o1'' unboundWorld = (Inr result, passTime evidenceDeps v) \<and> er_outcome result = FAULT \<and>
     stopped (op_state (vw_operator v)) \<and> (\<exists>event\<in>set (rp_orderEvents (vw_repo v)). ev_orderId event = er_orderId result)"
proof -
  obtain result w' where run: "processTerminalOrder evidenceDeps ''o1'' unboundWorld = (Inr result, w')" and fault: "er_outcome result = FAULT"
    using outcome_run [OF sample_fault] by blast
  from evidence_fault_stops [OF run fault] run fault show ?thesis by blast
qed

text \<open>The order with its binding, reported twice.\<close>

lemma sample_advanced: "map_sum (\<lambda>_. ()) er_outcome (fst (processTerminalOrder evidenceDeps ''o1'' evidenceWorld)) = Inr ADVANCED"
  by code_simp

lemma evidence_world_inv: "pilot_inv (vw_pilots evidenceWorld)"
  using change_inv [OF pilot_change.bound active_world_inv] by (simp add: evidenceWorld_def)

lemma evidence_quiet: "quiet evidenceDeps" "throughStore evidenceDeps"
  by (simp_all add: quiet_def throughStore_def evidenceDeps_def)

theorem terminal_order_repeated_witness:
  "\<exists>result w' again n. processTerminalOrder evidenceDeps ''o1'' evidenceWorld = (Inr result, w') \<and> er_outcome result = ADVANCED \<and>
     processTerminalOrder evidenceDeps ''o1'' w' = (Inr again, w'\<lparr>vw_ticks := n\<rparr>) \<and> er_outcome again = EVIDENCE_DUPLICATE"
proof -
  obtain result w' where run: "processTerminalOrder evidenceDeps ''o1'' evidenceWorld = (Inr result, w')" and advanced: "er_outcome result = ADVANCED"
    using outcome_run [OF sample_advanced] by blast
  from terminal_order_repeated [OF evidence_quiet(1) evidence_world_inv run advanced] run advanced show ?thesis by blast
qed

theorem terminal_order_counted_once_witness:
  "\<exists>result w'. processTerminalOrder evidenceDeps ''o1'' evidenceWorld = (Inr result, w') \<and> er_outcome result = ADVANCED \<and>
     \<not> counted ''a'' ''terminal-order:o1'' (vw_pilots evidenceWorld) \<and> counted ''a'' ''terminal-order:o1'' (vw_pilots w') \<and>
     (\<forall>again v'. processTerminalOrder evidenceDeps ''o1'' (w'\<lparr>vw_repo := vw_repo evidenceWorld\<rparr>) = (Inr again, v') \<longrightarrow> er_outcome again \<noteq> ADVANCED)"
proof -
  obtain result w' where run: "processTerminalOrder evidenceDeps ''o1'' evidenceWorld = (Inr result, w')" and advanced: "er_outcome result = ADVANCED"
    using outcome_run [OF sample_advanced] by blast
  have found: "findOrderByReference (vd_exchangeAccountId evidenceDeps) ''o1'' (vw_repo evidenceWorld) = Some evidenceOrder"
    by (simp add: findOrderByReference_def evidenceDeps_def evidenceWorld_def evidenceOrder_def)
  have order: "oi_exchangeAccountId evidenceOrder = ''a''" "evidenceIdOf evidenceOrder = ''terminal-order:o1''"
    by (simp_all add: evidenceOrder_def evidenceIdOf_def)
  from terminal_order_counted_once [OF evidence_quiet(2) evidence_world_inv run advanced, unfolded found option.inject]
  have once: "\<not> counted ''a'' ''terminal-order:o1'' (vw_pilots evidenceWorld)" "counted ''a'' ''terminal-order:o1'' (vw_pilots w')"
      "\<And>v again v'. pilot_changes (vw_pilots w') (vw_pilots v) \<Longrightarrow>
        findOrderByReference (vd_exchangeAccountId evidenceDeps) ''o1'' (vw_repo v) = Some evidenceOrder \<Longrightarrow>
        processTerminalOrder evidenceDeps ''o1'' v = (Inr again, v') \<Longrightarrow> er_outcome again \<noteq> ADVANCED"
    using evidence_quiet(2) order by metis+
  have "er_outcome again \<noteq> ADVANCED" if "processTerminalOrder evidenceDeps ''o1'' (w'\<lparr>vw_repo := vw_repo evidenceWorld\<rparr>) = (Inr again, v')" for again v'
    using once(3) [OF _ _ that] found by simp
  with run advanced once(1,2) show ?thesis by blast
qed

end
