(* ===== verification/Spec2Isabelle.thy ===== *)
theory Spec2Isabelle
  imports SubmissionBlocking LeaseStore CandidateState RiskGuards RuntimeOwnership OwnershipGuard SubmissionRecovery Notifications
    SubmissionProperties SubmissionHistory PilotWitnesses TelegramReplies EvidenceWitnesses
begin

text \<open>
  A verification library for the trading program under \<open>src/src\<close>: an Upbit BTC/ETH bot in TypeScript that decides on
  trades, submits orders under an account lease, records everything it does, and stops itself when an outcome is
  uncertain.

  \<^bold>\<open>How the program is put together.\<close> A scheduler runs the strategy; its decision goes to the execution service
  (\<open>modules/execution/execution-service.ts\<close>), which takes the account's execution lease, evaluates the risk guards,
  stores the order intent, sends the order inside a callback of the runtime ownership guard, and stores the answer. Orders,
  events, fills, risk events and notifications live in a repository; the operator state says whether execution is
  allowed; reconciliation resolves uncertain orders; a candidate pilot adds orders bound to a deployment and an exact
  ledger of its position.

  \<^bold>\<open>How it is modelled.\<close> Errors are values of \<open>js_error\<close>, a fallible function returns \<open>js_error + 'a\<close> (\<open>ebind\<close>,
  \<open>throw_if\<close>), a method with state or effects is a function of the state-and-exception monad \<open>sm\<close>, with \<open>scatch\<close> and
  \<open>sfinally\<close> for try, catch and finally. Numbers are binary64 as rationals with NaN and infinities (\<open>jsnum\<close>), bigint is
  \<open>int\<close>, strings are \<open>string\<close>, nullable is \<open>option\<close>. A method that awaits is a sequence of effects: what other callbacks do
  while it waits is part of the awaited operation. Checks of key sets and runtime types hold by typing. SHA-256, clocks,
  random identifiers, \<open>Date.parse\<close> on texts the program never produces and the exchange are parameters.

  \<^bold>\<open>Theories.\<close>
  \<^item> \<open>Prelude\<close>: result and state monads, structural rules for all-or-nothing writes, arrays, sorting (locale
    \<open>comparison\<close>), text. \<open>Effects\<close>: preconditions of effectful code, and the locale \<open>step_preorder\<close> for invariants that
    are proved by the structure of a program.
  \<^item> \<open>JsNumber\<close>, \<open>Json\<close>: numbers with rounding, \<open>Number()\<close> and \<open>String()\<close>; \<open>JSON.stringify\<close> and \<open>JSON.parse\<close> with their
    round trip. The parser's fuel is the length of the text, which the round trip shows to be enough.
  \<^item> \<open>Domain\<close>: \<open>domain/types.ts\<close> and the error classes.
  \<^item> \<open>Timestamps\<close>: the readers and writers of ISO timestamps; round trip and agreement of the readers.
  \<^item> \<open>ExactDecimal\<close>: \<open>candidate-evidence-decimals.ts\<close>; exact arithmetic, division, canonical text.
  \<^item> \<open>SubmissionBlocking\<close>: \<open>domain/submission-blocking-order.ts\<close>; which stored orders block a new one.
  \<^item> \<open>LeaseStore\<close>: both account lease stores; locale \<open>lease_store\<close>, interpreted on the in-memory and the SQL model; they
    agree but for the foreign key on accounts, which only the SQL table has, and never hand a live lease to another owner.
  \<^item> \<open>RuntimeOwnership\<close>, \<open>OwnershipGuard\<close>: the ownership store (locale \<open>ownership_fencing\<close>), the guard and its heartbeat; a
    takeover fences the old owner, a lost guard stays lost, the gate in front of a send, a heartbeat that goes on within its interval.
  \<^item> \<open>OperatorState\<close>: the operator state store (locale \<open>fault_pauser\<close>); a fault pause and the kill switch hold, the log
    audits the state.
  \<^item> \<open>AtomicLifecycle\<close>, \<open>Repository\<close>, \<open>RepositoryInvariants\<close>: validators and writes of the in-memory repository; ids stay unique,
    histories only grow, retries are idempotent. The operations saveOrder and updateOrder check nothing; a step of the
    repository (\<open>repo_step\<close>) has what their callers do as premise: a saved order has an id that is not stored, an updated
    one the identity of the stored order of its id. \<open>StoreSteps\<close>: histories of all calls that change the order store, the
    candidate intents included; every multi-record write is all or nothing over both stores it touches, and the
    identifiers and keys of orders stay unique as long as the unchecked operations do not reuse one.
  \<^item> \<open>SubmissionRecovery\<close>: when bounded absence on the exchange decides an uncertain order.
  \<^item> \<open>Notifications\<close>: the outbox; a claimed notification stays with its worker as long as claims name a due time before
    the lease expires, a delivery is recorded once.
  \<^item> \<open>CandidateState\<close>: the exact ledger of the candidate; it refines rational arithmetic, booked profit is the cash flow.
  \<^item> \<open>RiskGuards\<close>: \<open>risk/guards.ts\<close>, order identity and order decimals.
  \<^item> \<open>CandidateBinding\<close>: the binding of a candidate order, its hash, validation, derivation and atomic write.
  \<^item> \<open>ExecutionHelpers\<close>, \<open>ExecutionService\<close>: the execution service, over a record of dependencies any of which may throw.
    A run carries the list of the calls made with their results, which the code never reads. \<open>ExecutionSafety\<close> follows the
    stages of a submission; \<open>SubmissionTrace\<close> and \<open>SubmissionProperties\<close> state what holds of every run: at most one request,
    everything that must precede it, when the lease may go, and what a reported outcome means.
  \<^item> \<open>SubmissionComposition\<close>, \<open>SubmissionHistory\<close>: the service run on the modelled stores instead of arbitrary dependencies; over
    any history of submissions one after the other, with steps of other callbacks on the order store during and between
    them, one idempotency key sends at most one request. Submissions that overlap are not counted.
  \<^item> \<open>RoutingState\<close>: the floating-point projection of the candidate's state that routes decisions; it does not
    depend on the order in which the evidence is listed.
  \<^item> \<open>PilotRepository\<close>: the in-memory candidate pilot repository, with fault pauses and rollbacks that wait for other
    stores. \<open>PilotLifecycle\<close>: its step relation and invariant; what callbacks do while a fault pause
    waits is part of the step, on condition that they leave the record of the deployment being paused. \<open>PilotProperties\<close>: lifecycle of a deployment, rollback
    only when flat, faults pause both sides, retries. \<open>PilotWitnesses\<close>: these on concrete data, and the interleaving in
    which a fault overwrites a completed rollback.
  \<^item> \<open>CandidateEvidence\<close>: \<open>candidate-evidence-service.ts\<close>, which makes ledger evidence of the fills of a terminal order, over
    the modelled repository, pilot repository and operator state; what other callbacks do at each await is a parameter.
    \<open>EvidenceProperties\<close>: the evidence is the exact sum of confirmed fills, a reported fault has stopped the account, an
    order is counted once, also when callbacks change the pilot store through its operations meanwhile. \<open>EvidenceWitnesses\<close>: these on concrete data.
  \<^item> \<open>TelegramReplies\<close>: the splitting of a reply into messages, a loop that is proved to end.

  \<^bold>\<open>Bounds and fuel.\<close> Loops of the code are structural recursions or have a measure, but for two: the JSON parser takes
  the length of the text as fuel, which is enough by its round trip, and \<open>splitLoop\<close> is a partial function that is proved
  to return. Safe-integer checks are kept as written; binary64 rounding is \<open>round64\<close>.

  \<^bold>\<open>Not modelled.\<close> The SQLite repositories other than the lease store (SQL text in transactions of the same operations);
  the reconciliation service, portfolio drift and synchronisation and the pilot recovery (their logic is in what they read
  page by page from the exchange; the rule for bounded absence is modelled); market structure and the strategy's decision
  rules (floating-point heuristics without a specification beside their constants); the scheduler, environment, process
  lock and composition (timers and process I/O); the exchange client and the Telegram transport and texts (HTTP); offline
  performance reports, research and inspection tools (not on the trading path).
\<close>

end
